(* ===== verification/Prelude.thy ===== *)
theory Prelude
  imports Main "HOL-Library.Multiset"
begin

text \<open>
  Shared vocabulary of the development: JavaScript's stable \<open>Array.prototype.sort\<close>, its insertion
  ordered maps, and the generic list lemmas the component theories use. The interface of a
  comparator is the locale \<open>js_comparator\<close>; each comparator of the frontend interprets it in the
  theory that models it.
\<close>

named_theorems view_simps \<open>unfoldings of the small predicates of the frontend\<close>

section \<open>Nullish values\<close>

text \<open>The operator \<open>a ?? b\<close> on a value that can be null or undefined.\<close>

definition nullish :: "'a option \<Rightarrow> 'a \<Rightarrow> 'a" where
  "nullish a b = (case a of None \<Rightarrow> b | Some x \<Rightarrow> x)"

lemma nullish_simps [simp]: "nullish None b = b" "nullish (Some x) b = x"
  by (simp_all add: nullish_def)

section \<open>Stable sorting by a comparator\<close>

text \<open>
  \<open>Array.prototype.sort\<close> and \<open>toSorted\<close> are stable. For a comparator that satisfies the laws of
  \<open>js_comparator\<close> the standard fixes the result completely (a stable sorted permutation, see
  \<open>js_sort_unique\<close>), so insertion is as good as any other way to compute it.
\<close>

fun js_insert :: "('a \<Rightarrow> 'a \<Rightarrow> int) \<Rightarrow> 'a \<Rightarrow> 'a list \<Rightarrow> 'a list" where
  "js_insert cmp x [] = [x]"
| "js_insert cmp x (y # ys) = (if cmp x y \<le> 0 then x # y # ys else y # js_insert cmp x ys)"

fun js_sort :: "('a \<Rightarrow> 'a \<Rightarrow> int) \<Rightarrow> 'a list \<Rightarrow> 'a list" where
  "js_sort cmp [] = []"
| "js_sort cmp (x # xs) = js_insert cmp x (js_sort cmp xs)"

text \<open>A comparator that returns NaN (\<open>None\<close>) counts as one that returns 0.\<close>

definition sort_num :: "int option \<Rightarrow> int" where
  "sort_num r = (case r of None \<Rightarrow> 0 | Some n \<Rightarrow> n)"

lemma sort_num_simps [simp]: "sort_num None = 0" "sort_num (Some n) = n"
  by (simp_all add: sort_num_def)

lemma mset_js_insert [simp]: "mset (js_insert cmp x xs) = add_mset x (mset xs)"
  by (induction xs) auto

lemma mset_js_sort [simp]: "mset (js_sort cmp xs) = mset xs"
  by (induction xs) auto

lemma set_js_insert [simp]: "set (js_insert cmp x xs) = insert x (set xs)"
  by (induction xs) auto

lemma set_js_sort [simp]: "set (js_sort cmp xs) = set xs"
  by (induction xs) auto

lemma length_js_sort [simp]: "length (js_sort cmp xs) = length xs"
  by (metis mset_js_sort size_mset)

lemma distinct_map_js_sort: "distinct (map f (js_sort cmp xs)) = distinct (map f xs)"
  by (rule mset_eq_imp_distinct_iff) simp

lemma js_insert_cong:
  "(\<And>y. y \<in> set xs \<Longrightarrow> c x y = d x y) \<Longrightarrow> js_insert c x xs = js_insert d x xs"
  by (induction xs) auto

lemma js_sort_cong:
  "(\<And>x y. x \<in> set xs \<Longrightarrow> y \<in> set xs \<Longrightarrow> c x y = d x y) \<Longrightarrow> js_sort c xs = js_sort d xs"
  by (induction xs) (auto intro!: js_insert_cong)

locale js_comparator =
  fixes cmp :: "'a \<Rightarrow> 'a \<Rightarrow> int"
    and carrier :: "'a set"
  assumes flip: "a \<in> carrier \<Longrightarrow> b \<in> carrier \<Longrightarrow> (cmp a b < 0) = (0 < cmp b a)"
    and trans: "a \<in> carrier \<Longrightarrow> b \<in> carrier \<Longrightarrow> c \<in> carrier \<Longrightarrow>
      cmp a b \<le> 0 \<Longrightarrow> cmp b c \<le> 0 \<Longrightarrow> cmp a c \<le> 0"
begin

lemma refl_zero: "a \<in> carrier \<Longrightarrow> cmp a a = 0"
  using flip[of a a] by linarith

lemma le_or_ge: "a \<in> carrier \<Longrightarrow> b \<in> carrier \<Longrightarrow> cmp a b \<le> 0 \<or> cmp b a \<le> 0"
  using flip[of b a] by linarith

lemma zero_flip: "a \<in> carrier \<Longrightarrow> b \<in> carrier \<Longrightarrow> (cmp a b = 0) = (cmp b a = 0)"
  using flip[of a b] flip[of b a] by linarith

lemma zero_cong:
  assumes "a \<in> carrier" "b \<in> carrier" "c \<in> carrier" "cmp a b = 0"
  shows "(cmp a c = 0) = (cmp b c = 0)"
proof -
  have "cmp b a = 0" using assms zero_flip by blast
  then have "cmp a c \<le> 0 \<longleftrightarrow> cmp b c \<le> 0" and "cmp c a \<le> 0 \<longleftrightarrow> cmp c b \<le> 0"
    using assms trans by (metis order_refl)+
  moreover have "(cmp a c \<ge> 0) = (cmp c a \<le> 0)" "(cmp b c \<ge> 0) = (cmp c b \<le> 0)"
    using assms flip by (metis linorder_not_less)+
  ultimately show ?thesis by linarith
qed

lemma sorted_insert:
  assumes "x \<in> carrier" "set xs \<subseteq> carrier" "sorted_wrt (\<lambda>a b. cmp a b \<le> 0) xs"
  shows "sorted_wrt (\<lambda>a b. cmp a b \<le> 0) (js_insert cmp x xs)"
  using assms
proof (induction xs)
  case Nil
  then show ?case by simp
next
  case (Cons y ys)
  show ?case
  proof (cases "cmp x y \<le> 0")
    case True
    then have "\<forall>z \<in> set ys. cmp x z \<le> 0"
      using Cons.prems trans[of x y] by auto
    with True Cons.prems show ?thesis by simp
  next
    case False
    then have "cmp y x \<le> 0" using Cons.prems le_or_ge by auto
    with False Cons show ?thesis by simp
  qed
qed

lemma sorted_sort:
  "set xs \<subseteq> carrier \<Longrightarrow> sorted_wrt (\<lambda>a b. cmp a b \<le> 0) (js_sort cmp xs)"
  by (induction xs) (auto intro!: sorted_insert)

lemma stable_insert:
  assumes "x \<in> carrier" "k \<in> carrier" "set xs \<subseteq> carrier"
  shows "filter (\<lambda>y. cmp k y = 0) (js_insert cmp x xs) = filter (\<lambda>y. cmp k y = 0) (x # xs)"
  using assms
proof (induction xs)
  case (Cons y ys)
  have "\<not> (cmp k x = 0 \<and> cmp k y = 0)" if "\<not> cmp x y \<le> 0"
  proof
    assume *: "cmp k x = 0 \<and> cmp k y = 0"
    then have "cmp x y = 0"
      using Cons.prems zero_cong[of k x y] by auto
    with that show False by simp
  qed
  with Cons show ?case by auto
qed simp

lemma stable_sort:
  "k \<in> carrier \<Longrightarrow> set xs \<subseteq> carrier \<Longrightarrow>
    filter (\<lambda>y. cmp k y = 0) (js_sort cmp xs) = filter (\<lambda>y. cmp k y = 0) xs"
proof (induction xs)
  case (Cons x xs)
  then have "filter (\<lambda>y. cmp k y = 0) (js_insert cmp x (js_sort cmp xs))
      = filter (\<lambda>y. cmp k y = 0) (x # js_sort cmp xs)"
    by (intro stable_insert) auto
  with Cons show ?case by simp
qed simp

lemma sort_sorted_id:
  "set xs \<subseteq> carrier \<Longrightarrow> sorted_wrt (\<lambda>a b. cmp a b \<le> 0) xs \<Longrightarrow> js_sort cmp xs = xs"
proof (induction xs)
  case (Cons x xs)
  then show ?case by (cases xs) auto
qed simp

text \<open>Two sorted lists with the same elements and the same order inside each class are equal.\<close>

lemma js_sort_unique:
  assumes "set xs \<subseteq> carrier" "mset xs = mset ys"
    and "sorted_wrt (\<lambda>a b. cmp a b \<le> 0) xs" "sorted_wrt (\<lambda>a b. cmp a b \<le> 0) ys"
    and "\<And>k. k \<in> set xs \<Longrightarrow> filter (\<lambda>y. cmp k y = 0) xs = filter (\<lambda>y. cmp k y = 0) ys"
  shows "xs = ys"
  using assms
proof (induction xs arbitrary: ys)
  case Nil
  then show ?case by simp
next
  case (Cons x xs)
  then obtain y ys' where ys: "ys = y # ys'"
    by (metis list.exhaust mset_zero_iff list.distinct(1))
  have sets: "set (x # xs) = set ys" using Cons.prems(2) by (metis set_mset_mset)
  then have car: "x \<in> carrier" "y \<in> carrier" using Cons.prems(1) ys by auto
  have "y = x \<or> y \<in> set xs" "x = y \<or> x \<in> set ys'" using sets ys by auto
  then have "cmp x y \<le> 0" "cmp y x \<le> 0"
    using Cons.prems(3,4) refl_zero[OF car(1)] by (auto simp: ys)
  then have zero: "cmp x y = 0" using flip[OF car] by linarith
  have xy: "x = y" using Cons.prems(5)[of x] zero refl_zero[OF car(1)] by (simp add: ys)
  have "xs = ys'"
  proof (rule Cons.IH)
    show "filter (\<lambda>y. cmp k y = 0) xs = filter (\<lambda>y. cmp k y = 0) ys'" if "k \<in> set xs" for k
      using Cons.prems(5)[of k] that xy ys by (auto split: if_splits)
  qed (use Cons.prems xy ys in auto)
  with xy ys show ?case by simp
qed

end

text \<open>
  A comparator that compares two elements as equal only when they have the same key. Sorting
  elements with different keys then gives one result, whatever order they come in.
\<close>

locale js_key_comparator = js_comparator cmp carrier
  for cmp :: "'a \<Rightarrow> 'a \<Rightarrow> int" and carrier :: "'a set" +
  fixes key :: "'a \<Rightarrow> 'k"
  assumes zero_key: "a \<in> carrier \<Longrightarrow> b \<in> carrier \<Longrightarrow> cmp a b = 0 \<Longrightarrow> key a = key b"
begin

lemma sort_order_independent:
  assumes "set xs \<subseteq> carrier" "mset xs = mset ys" "distinct (map key xs)"
  shows "js_sort cmp xs = js_sort cmp ys"
proof (rule js_sort_unique)
  have sets: "set xs = set ys" using assms(2) by (metis set_mset_mset)
  have dist: "distinct (map key ys)"
    using assms(2,3) by (metis mset_eq_imp_distinct_iff mset_map)
  have one: "filter (\<lambda>z. cmp k z = 0) zs = [k]"
    if "k \<in> set zs" "set zs \<subseteq> carrier" "distinct (map key zs)" for k zs
  proof -
    have "filter (\<lambda>z. cmp k z = 0) zs = filter (\<lambda>z. z = k) zs"
    proof (rule filter_cong)
      fix z assume "z \<in> set zs"
      then show "(cmp k z = 0) = (z = k)"
        using that zero_key refl_zero by (metis distinct_map inj_onD subsetD)
    qed simp
    also have "\<dots> = [k]"
      using that by (induction zs) (auto simp: filter_empty_conv)
    finally show ?thesis .
  qed
  fix k assume "k \<in> set (js_sort cmp xs)"
  then have k: "k \<in> set xs" by simp
  then have "k \<in> carrier" using assms(1) by auto
  have "set ys \<subseteq> carrier" using sets assms(1) by simp
  show "filter (\<lambda>z. cmp k z = 0) (js_sort cmp xs) = filter (\<lambda>z. cmp k z = 0) (js_sort cmp ys)"
    using one k assms sets dist
      stable_sort[OF \<open>k \<in> carrier\<close> assms(1)] stable_sort[OF \<open>k \<in> carrier\<close> \<open>set ys \<subseteq> carrier\<close>]
    by simp
next
  show "sorted_wrt (\<lambda>a b. cmp a b \<le> 0) (js_sort cmp ys)"
    using sorted_sort assms by (metis set_mset_mset)
qed (use assms sorted_sort in auto)

end

text \<open>The comparators of the frontend compare up to three numbers of the elements in turn.\<close>

lemma lex3_comparatorI:
  fixes f g h :: "'a \<Rightarrow> int"
  assumes "\<And>a b. a \<in> C \<Longrightarrow> b \<in> C \<Longrightarrow>
    cmp a b = (if f a \<noteq> f b then f a - f b else if g a \<noteq> g b then g a - g b else h a - h b)"
  shows "js_key_comparator cmp C h"
proof unfold_locales
  fix a b assume "a \<in> C" "b \<in> C"
  then show "(cmp a b < 0) = (0 < cmp b a)" by (simp add: assms)
next
  fix a b c assume C: "a \<in> C" "b \<in> C" "c \<in> C" and "cmp a b \<le> 0" "cmp b c \<le> 0"
  then have "f a < f b \<or> f a = f b \<and> (g a < g b \<or> g a = g b \<and> h a \<le> h b)"
    "f b < f c \<or> f b = f c \<and> (g b < g c \<or> g b = g c \<and> h b \<le> h c)"
    by (auto simp: assms split: if_splits)
  then show "cmp a c \<le> 0" using C by (auto simp: assms)
next
  fix a b assume "a \<in> C" "b \<in> C" "cmp a b = 0"
  then show "h a = h b" by (simp add: assms split: if_splits)
qed

section \<open>Values written as text and read back\<close>

text \<open>
  The interface of a text encoding: reading back what was written gives the value. Form controls
  hold text, so every value offered in one goes through such an encoding.
\<close>

locale codec =
  fixes enc :: "'a \<Rightarrow> 't"
    and dec :: "'t \<Rightarrow> 'a"
    and valid :: "'a \<Rightarrow> bool"
  assumes dec_enc: "valid x \<Longrightarrow> dec (enc x) = x"
begin

lemma enc_inject: "valid x \<Longrightarrow> valid y \<Longrightarrow> enc x = enc y \<longleftrightarrow> x = y"
  by (metis dec_enc)

lemma enc_dec: "t \<in> enc ` Collect valid \<Longrightarrow> enc (dec t) = t"
  by (auto simp: dec_enc)

lemma distinct_enc: "list_all valid xs \<Longrightarrow> distinct (map enc xs) = distinct xs"
  by (auto simp: distinct_map list.pred_set inj_on_def enc_inject)

end

section \<open>Insertion ordered maps\<close>

text \<open>\<open>new Map(entries)\<close>: a later entry replaces an earlier one with the same key.\<close>

definition js_map :: "('k \<times> 'v) list \<Rightarrow> 'k \<rightharpoonup> 'v" where
  "js_map entries = map_of (rev entries)"

lemma js_map_Nil [simp]: "js_map [] = Map.empty"
  by (simp add: js_map_def)

lemma js_map_snoc: "js_map (xs @ [(k, v)]) = (js_map xs)(k \<mapsto> v)"
  by (simp add: js_map_def fun_eq_iff)

lemma js_map_SomeD: "js_map xs k = Some v \<Longrightarrow> (k, v) \<in> set xs"
  by (auto simp: js_map_def dest: map_of_SomeD)

lemma js_map_distinct: "distinct (map fst xs) \<Longrightarrow> (k, v) \<in> set xs \<Longrightarrow> js_map xs k = Some v"
  by (auto simp: js_map_def rev_map[symmetric] intro!: map_of_is_SomeI)

lemma js_map_None: "(js_map xs k = None) = (k \<notin> fst ` set xs)"
  by (simp add: js_map_def map_of_eq_None_iff)

text \<open>\<open>Map.groupBy\<close>: the groups come in the order in which their keys first occur.\<close>

fun group_add :: "'k \<Rightarrow> 'v \<Rightarrow> ('k \<times> 'v list) list \<Rightarrow> ('k \<times> 'v list) list" where
  "group_add k v [] = [(k, [v])]"
| "group_add k v ((k', vs) # gs) =
     (if k = k' then (k', vs @ [v]) # gs else (k', vs) # group_add k v gs)"

definition group_by :: "('v \<Rightarrow> 'k) \<Rightarrow> 'v list \<Rightarrow> ('k \<times> 'v list) list" where
  "group_by f vs = foldl (\<lambda>gs v. group_add (f v) v gs) [] vs"

lemma group_by_snoc: "group_by f (vs @ [v]) = group_add (f v) v (group_by f vs)"
  by (simp add: group_by_def)

lemma fst_group_add: "fst ` set (group_add k v gs) = insert k (fst ` set gs)"
  by (induction k v gs rule: group_add.induct) auto

lemma distinct_group_add: "distinct (map fst gs) \<Longrightarrow> distinct (map fst (group_add k v gs))"
proof (induction k v gs rule: group_add.induct)
  case (2 k v k' vs gs)
  then show ?case using fst_group_add[of k v gs] by (auto simp: image_iff)
qed simp

lemma distinct_group_by: "distinct (map fst (group_by f vs))"
  by (induction vs rule: rev_induct)
    (simp add: group_by_def, simp add: group_by_snoc distinct_group_add)

lemma fst_group_by: "fst ` set (group_by f vs) = f ` set vs"
  by (induction vs rule: rev_induct)
    (simp add: group_by_def, simp add: group_by_snoc fst_group_add)

lemma group_add_member:
  "distinct (map fst gs) \<Longrightarrow> (k', vs) \<in> set (group_add k v gs) \<Longrightarrow>
    (if k' = k then \<exists>us. vs = us @ [v] \<and> ((k, us) \<in> set gs \<or> us = [] \<and> k \<notin> fst ` set gs)
     else (k', vs) \<in> set gs)"
proof (induction k v gs rule: group_add.induct)
  case (2 k v k0 us gs)
  then show ?case
    by (cases "k = k0"; cases "k' = k") (force split: if_splits)+
qed auto

text \<open>Each group holds exactly the elements with its key, in their order.\<close>

lemma group_by_filter:
  "(k, us) \<in> set (group_by f vs) \<Longrightarrow> us = filter (\<lambda>v. f v = k) vs"
proof (induction vs arbitrary: k us rule: rev_induct)
  case Nil
  then show ?case by (simp add: group_by_def)
next
  case (snoc v vs)
  from snoc.prems have mem: "(k, us) \<in> set (group_add (f v) v (group_by f vs))"
    by (simp add: group_by_snoc)
  have none: "f v \<notin> fst ` set (group_by f vs) \<Longrightarrow> filter (\<lambda>w. f w = f v) vs = []"
    by (metis (mono_tags, lifting) filter_False fst_group_by image_eqI)
  from group_add_member[OF distinct_group_by mem] snoc.IH none show ?case
    by (auto split: if_splits)
qed

lemma concat_group_add:
  "mset (concat (map snd (group_add k v gs))) = add_mset v (mset (concat (map snd gs)))"
  by (induction k v gs rule: group_add.induct) auto

lemma mset_group_by: "mset (concat (map snd (group_by f vs))) = mset vs"
  by (induction vs rule: rev_induct)
    (simp add: group_by_def, simp add: group_by_snoc concat_group_add)

lemma keys_group_add:
  "map fst (group_add k v gs) = (if k \<in> fst ` set gs then map fst gs else map fst gs @ [k])"
  by (induction k v gs rule: group_add.induct) auto

text \<open>The groups of a sorted list are in the order of their keys.\<close>

lemma sorted_group_by:
  "sorted_wrt P (map f vs) \<Longrightarrow> sorted_wrt P (map fst (group_by f vs))"
proof (induction vs rule: rev_induct)
  case (snoc v vs)
  then show ?case
    using fst_group_by[of f vs] by (auto simp: group_by_snoc keys_group_add sorted_wrt_append)
qed (simp add: group_by_def)

section \<open>Lists\<close>

lemma find_eq_filter: "List.find P xs = (case filter P xs of [] \<Rightarrow> None | x # _ \<Rightarrow> Some x)"
  by (induction xs) auto

lemma find_SomeD: "List.find P xs = Some x \<Longrightarrow> x \<in> set xs \<and> P x"
  by (metis find_Some_iff nth_mem)

text \<open>\<open>xs.slice(-n)\<close>: the last \<open>n\<close> elements.\<close>

definition take_last :: "nat \<Rightarrow> 'a list \<Rightarrow> 'a list" where
  "take_last n xs = drop (length xs - n) xs"

lemma length_take_last [simp]: "length (take_last n xs) = min n (length xs)"
  by (simp add: take_last_def)

lemma set_take_last: "set (take_last n xs) \<subseteq> set xs"
  by (simp add: take_last_def set_drop_subset)

text \<open>The elements with their position, as \<open>forEach((element, index) => ...)\<close> visits them.\<close>

abbreviation indexed :: "'a list \<Rightarrow> (nat \<times> 'a) list" where
  "indexed xs \<equiv> enumerate 0 xs"

end
