(* ===== verification/JsCore.thy ===== *)
theory JsCore
  imports Complex_Main Prelude
begin

text \<open>
  The JavaScript strings and numbers the frontend computes with. A string is the list of its UTF-8
  bytes; the code inspects ASCII characters only (digits, slashes, colons, spaces). An integer of the
  API is an \<open>int\<close>; a number made from text with \<open>Number(...)\<close> is a \<open>js_num\<close>, which can be NaN.
  Doubles are read as the exact value they denote.
\<close>

section \<open>Strings\<close>

definition starts_with :: "string \<Rightarrow> string \<Rightarrow> bool" where
  "starts_with s p = (take (length p) s = p)"

definition ends_with :: "string \<Rightarrow> string \<Rightarrow> bool" where
  "ends_with s p = (length p \<le> length s \<and> drop (length s - length p) s = p)"

fun str_includes :: "string \<Rightarrow> string \<Rightarrow> bool" where
  "str_includes [] p = (p = [])"
| "str_includes (c # s) p = (starts_with (c # s) p \<or> str_includes s p)"

text \<open>\<open>xs.join(sep)\<close>\<close>

fun join :: "string \<Rightarrow> string list \<Rightarrow> string" where
  "join sep [] = []"
| "join sep [x] = x"
| "join sep (x # y # xs) = x @ sep @ join sep (y # xs)"

text \<open>\<open>s.split(c)\<close> for a separator of one character.\<close>

fun split_on :: "char \<Rightarrow> string \<Rightarrow> string list" where
  "split_on c [] = [[]]"
| "split_on c (x # s) =
     (if x = c then [] # split_on c s
      else (case split_on c s of [] \<Rightarrow> [[x]] | p # ps \<Rightarrow> (x # p) # ps))"

definition js_space :: "char \<Rightarrow> bool" where
  "js_space c = (c \<in> set [CHR 0x09, CHR 0x0A, CHR 0x0B, CHR 0x0C, CHR 0x0D, CHR '' ''])"

definition trim_start :: "string \<Rightarrow> string" where
  "trim_start s = dropWhile js_space s"

text \<open>\<open>s.trim()\<close>\<close>

definition trim :: "string \<Rightarrow> string" where
  "trim s = rev (trim_start (rev (trim_start s)))"

text \<open>
  \<open>s.replace(pattern, replacement)\<close> with a string pattern: the first occurrence only, and with the
  patterns \<open>$$\<close>, \<open>$&\<close>, \<open>$`\<close> and \<open>$'\<close> of the replacement expanded.
\<close>

fun find_text :: "string \<Rightarrow> string \<Rightarrow> (string \<times> string) option" where
  "find_text pat [] = (if pat = [] then Some ([], []) else None)"
| "find_text pat (c # s) =
     (if starts_with (c # s) pat then Some ([], drop (length pat) (c # s))
      else map_option (\<lambda>(b, a). (c # b, a)) (find_text pat s))"

fun expand_replacement :: "string \<Rightarrow> string \<Rightarrow> string \<Rightarrow> string \<Rightarrow> string" where
  "expand_replacement matched before after (c # d # r) =
     (if c = CHR ''$'' \<and> d = CHR ''$'' then c # expand_replacement matched before after r
      else if c = CHR ''$'' \<and> d = CHR ''&'' then matched @ expand_replacement matched before after r
      else if c = CHR ''$'' \<and> d = CHR 0x60 then before @ expand_replacement matched before after r
      else if c = CHR ''$'' \<and> d = CHR 0x27 then after @ expand_replacement matched before after r
      else c # expand_replacement matched before after (d # r))"
| "expand_replacement matched before after r = r"

definition js_replace :: "string \<Rightarrow> string \<Rightarrow> string \<Rightarrow> string" where
  "js_replace s pat r =
     (case find_text pat s of
        None \<Rightarrow> s
      | Some (before, after) \<Rightarrow> before @ expand_replacement pat before after r @ after)"

lemma expand_replacement_id: "CHR ''$'' \<notin> set r \<Longrightarrow> expand_replacement m b a r = r"
  by (induction m b a r rule: expand_replacement.induct) auto

lemma find_text_skip:
  "c \<notin> set b \<Longrightarrow> find_text (c # pat) (b @ c # pat @ a) = Some (b, a)"
  by (induction b) (auto simp: starts_with_def)

definition to_lower_char :: "char \<Rightarrow> char" where
  "to_lower_char c =
     (if 65 \<le> (of_char c :: nat) \<and> (of_char c :: nat) \<le> 90
      then char_of ((of_char c :: nat) + 32) else c)"

definition to_lower_case :: "string \<Rightarrow> string" where
  "to_lower_case s = map to_lower_char s"

lemma starts_with_append [simp]: "starts_with (p @ s) p"
  by (simp add: starts_with_def)

lemma starts_with_iff: "starts_with s p = (\<exists>r. s = p @ r)"
  by (metis append_take_drop_id starts_with_append starts_with_def)

lemma ends_with_iff: "ends_with s p = (\<exists>r. s = r @ p)"
  by (auto simp: ends_with_def) (metis append_take_drop_id)

lemma split_on_nonempty: "split_on c s \<noteq> []"
  by (induction s) (auto split: list.splits)

lemma split_on_none: "c \<notin> set s \<Longrightarrow> split_on c s = [s]"
  by (induction s) auto

lemma split_on_append:
  "c \<notin> set a \<Longrightarrow> split_on c (a @ c # b) = a # split_on c b"
  by (induction a) auto

lemma trim_start_id: "s = [] \<or> \<not> js_space (hd s) \<Longrightarrow> trim_start s = s"
  by (cases s) (auto simp: trim_start_def)

lemma trim_start_no_space: "trim_start s = [] \<or> \<not> js_space (hd (trim_start s))"
  unfolding trim_start_def by (metis hd_dropWhile)

lemma trim_start_suffix: "\<exists>p. s = p @ trim_start s"
  unfolding trim_start_def by (metis takeWhile_dropWhile_id)

lemma trim_ends:
  "trim s = [] \<or> \<not> js_space (hd (trim s)) \<and> \<not> js_space (last (trim s))"
proof -
  let ?a = "trim_start s" and ?b = "trim_start (rev (trim_start s))"
  obtain p where p: "rev ?a = p @ ?b" using trim_start_suffix by blast
  have t: "trim s = rev ?b" by (simp add: trim_def)
  show ?thesis
  proof (cases "?b = []")
    case False
    then have "\<not> js_space (last (trim s))"
      using trim_start_no_space[of "rev ?a"] by (simp add: t last_rev)
    moreover have "?a = rev ?b @ rev p" using p by (metis rev_append rev_rev_ident)
    then have "hd (trim s) = hd ?a" using False by (metis Nil_is_rev_conv hd_append2 t)
    moreover have "?a \<noteq> []" using False p by auto
    ultimately show ?thesis using trim_start_no_space[of s] by simp
  qed (simp add: t)
qed

lemma trim_id:
  "s = [] \<or> \<not> js_space (hd s) \<and> \<not> js_space (last s) \<Longrightarrow> trim s = s"
  by (auto simp: trim_def trim_start_id hd_rev)

lemma trim_idem [simp]: "trim (trim s) = trim s"
  using trim_ends trim_id by metis

section \<open>Numbers as text\<close>

definition is_digit :: "char \<Rightarrow> bool" where
  "is_digit c = (48 \<le> (of_char c :: nat) \<and> (of_char c :: nat) \<le> 57)"

definition digit_val :: "char \<Rightarrow> nat" where
  "digit_val c = (of_char c :: nat) - 48"

definition digit_char :: "nat \<Rightarrow> char" where
  "digit_char d = char_of (48 + d)"

text \<open>The value of a run of decimal digits.\<close>

definition digits_val :: "string \<Rightarrow> nat" where
  "digits_val s = foldl (\<lambda>n c. 10 * n + digit_val c) 0 s"

text \<open>\<open>String(n)\<close> for an integer.\<close>

fun nat_text :: "nat \<Rightarrow> string" where
  "nat_text n = (if n < 10 then [digit_char n] else nat_text (n div 10) @ [digit_char (n mod 10)])"

declare nat_text.simps [simp del]

definition int_text :: "int \<Rightarrow> string" where
  "int_text i = (if i < 0 then CHR ''-'' # nat_text (nat (- i)) else nat_text (nat i))"

lemma of_char_digit_char: "d < 10 \<Longrightarrow> (of_char (digit_char d) :: nat) = 48 + d"
  by (simp add: digit_char_def of_char_of)

lemma is_digit_digit_char: "d < 10 \<Longrightarrow> is_digit (digit_char d)"
  by (simp add: is_digit_def of_char_digit_char)

lemma digit_val_digit_char: "d < 10 \<Longrightarrow> digit_val (digit_char d) = d"
  by (simp add: digit_val_def of_char_digit_char)

lemma digits_val_snoc: "digits_val (s @ [c]) = 10 * digits_val s + digit_val c"
  by (simp add: digits_val_def)

lemma nat_text_nonempty: "nat_text n \<noteq> []"
  by (subst nat_text.simps) simp

lemma nat_text_digits: "c \<in> set (nat_text n) \<Longrightarrow> is_digit c"
proof (induction n rule: nat_text.induct)
  case (1 n)
  then show ?case
    by (subst (asm) nat_text.simps) (auto simp: is_digit_digit_char split: if_splits)
qed

lemma digits_val_nat_text: "digits_val (nat_text n) = n"
proof (induction n rule: nat_text.induct)
  case (1 n)
  show ?case
  proof (cases "n < 10")
    case True
    then show ?thesis
      by (subst nat_text.simps) (simp add: digits_val_def digit_val_digit_char)
  next
    case False
    then show ?thesis
      using 1 by (subst nat_text.simps) (simp add: digits_val_snoc digit_val_digit_char)
  qed
qed

lemma nat_text_inject [simp]: "nat_text m = nat_text n \<longleftrightarrow> m = n"
  by (metis digits_val_nat_text)

lemma minus_not_digit: "\<not> is_digit (CHR ''-'')"
  by (simp add: is_digit_def)

lemma nat_text_no_minus: "nat_text n \<noteq> CHR ''-'' # s"
  by (metis list.set_intros(1) minus_not_digit nat_text_digits)

lemma int_text_inject [simp]: "int_text i = int_text j \<longleftrightarrow> i = j"
  using nat_text_no_minus
  by (auto simp: int_text_def split: if_splits) (metis nat_text_no_minus)+

lemma int_text_nonempty: "int_text i \<noteq> []"
  by (simp add: int_text_def nat_text_nonempty)

lemma int_text_chars: "c \<in> set (int_text i) \<Longrightarrow> is_digit c \<or> c = CHR ''-''"
  by (auto simp: int_text_def dest: nat_text_digits split: if_splits)

section \<open>\<open>Number(text)\<close>\<close>

datatype js_num = NaN | Infinity bool | Fin rat

definition num_of_int :: "int \<Rightarrow> js_num" where
  "num_of_int i = Fin (of_int i)"

text \<open>The exponent part of a decimal literal: absent, or a signed integer.\<close>

definition exponent :: "string \<Rightarrow> int option" where
  "exponent s = (case s of
       [] \<Rightarrow> Some 0
     | c # r \<Rightarrow>
        if c = CHR ''e'' \<or> c = CHR ''E'' then
          (let (neg, d) = (case r of
               [] \<Rightarrow> (False, r)
             | x # r' \<Rightarrow> if x = CHR ''-'' then (True, r') else if x = CHR ''+'' then (False, r') else (False, r))
           in if d \<noteq> [] \<and> list_all is_digit d
              then Some (if neg then - int (digits_val d) else int (digits_val d)) else None)
        else None)"

text \<open>\<open>StrUnsignedDecimalLiteral\<close>: digits with an optional fraction and an optional exponent.\<close>

definition unsigned_decimal :: "string \<Rightarrow> js_num" where
  "unsigned_decimal s =
     (if s = ''Infinity'' then Infinity False
      else
       (let whole = takeWhile is_digit s; rest = dropWhile is_digit s;
            (frac, rest') = (case rest of
                [] \<Rightarrow> ([], rest)
              | c # r \<Rightarrow> if c = CHR ''.'' then (takeWhile is_digit r, dropWhile is_digit r) else ([], rest))
        in if whole = [] \<and> frac = [] then NaN
           else (case exponent rest' of
               None \<Rightarrow> NaN
             | Some e \<Rightarrow>
                let v = of_nat (digits_val (whole @ frac)) / 10 ^ length frac :: rat
                in Fin (if 0 \<le> e then v * 10 ^ nat e else v / 10 ^ nat (- e)))))"

definition num_neg :: "js_num \<Rightarrow> js_num" where
  "num_neg x = (case x of NaN \<Rightarrow> NaN | Infinity b \<Rightarrow> Infinity (\<not> b) | Fin q \<Rightarrow> Fin (- q))"

text \<open>A literal with a radix prefix, such as \<open>0x1f\<close>.\<close>

definition radix_digit :: "char \<Rightarrow> nat" where
  "radix_digit c =
     (let n = (of_char c :: nat)
      in if 48 \<le> n \<and> n \<le> 57 then n - 48
         else if 97 \<le> n \<and> n \<le> 122 then n - 87
         else if 65 \<le> n \<and> n \<le> 90 then n - 55 else 99)"

definition radix_literal :: "nat \<Rightarrow> string \<Rightarrow> js_num" where
  "radix_literal b s =
     (if s \<noteq> [] \<and> list_all (\<lambda>c. radix_digit c < b) s
      then Fin (of_nat (foldl (\<lambda>n c. b * n + radix_digit c) 0 s)) else NaN)"

definition to_number :: "string \<Rightarrow> js_num" where
  "to_number text =
     (case trim text of
        [] \<Rightarrow> Fin 0
      | [c] \<Rightarrow> unsigned_decimal [c]
      | c # d # s \<Rightarrow>
         if c = CHR ''-'' then num_neg (unsigned_decimal (d # s))
         else if c = CHR ''+'' then unsigned_decimal (d # s)
         else if c = CHR ''0'' \<and> d \<in> {CHR ''x'', CHR ''X''} then radix_literal 16 s
         else if c = CHR ''0'' \<and> d \<in> {CHR ''o'', CHR ''O''} then radix_literal 8 s
         else if c = CHR ''0'' \<and> d \<in> {CHR ''b'', CHR ''B''} then radix_literal 2 s
         else unsigned_decimal (c # d # s))"

lemma digit_not_space: "is_digit c \<Longrightarrow> \<not> js_space c"
  by (auto simp: is_digit_def js_space_def)

lemma digits_no_space:
  "list_all is_digit s \<Longrightarrow> s \<noteq> [] \<Longrightarrow> \<not> js_space (hd s) \<and> \<not> js_space (last s)"
  by (metis digit_not_space hd_in_set last_in_set list.pred_set)

lemma digit_facts:
  "is_digit c \<Longrightarrow> c \<notin> {CHR ''-'', CHR ''+'', CHR ''x'', CHR ''X'', CHR ''o'', CHR ''O'',
     CHR ''b'', CHR ''B'', CHR ''I'', CHR '':'', CHR ''.'', CHR ''/''}"
  by (auto simp: is_digit_def)

lemma takeWhile_digits [simp]:
  "list_all is_digit s \<Longrightarrow> takeWhile is_digit s = s"
  "list_all is_digit s \<Longrightarrow> dropWhile is_digit s = []"
  by (simp_all add: list.pred_set)

lemma unsigned_decimal_digits:
  assumes "list_all is_digit s" "s \<noteq> []"
  shows "unsigned_decimal s = Fin (of_nat (digits_val s))"
proof -
  have "s \<noteq> ''Infinity''" using assms digit_facts by (cases s) auto
  with assms show ?thesis by (simp add: unsigned_decimal_def exponent_def)
qed

lemma to_number_digits:
  assumes "list_all is_digit s" "s \<noteq> []"
  shows "to_number s = Fin (of_nat (digits_val s))"
proof -
  have t: "trim s = s" using assms digits_no_space trim_id by blast
  show ?thesis
  proof (cases s)
    case (Cons c r)
    show ?thesis
    proof (cases r)
      case Nil
      then show ?thesis using assms Cons t unsigned_decimal_digits
        by (simp add: to_number_def)
    next
      case (Cons d r')
      then have *: "s = c # d # r'" using \<open>s = c # r\<close> by simp
      then have "c \<notin> {CHR ''-'', CHR ''+''}"
        "d \<notin> {CHR ''x'', CHR ''X'', CHR ''o'', CHR ''O'', CHR ''b'', CHR ''B''}"
        using assms digit_facts by auto
      then have "to_number s = unsigned_decimal s"
        unfolding to_number_def t using * by auto
      then show ?thesis using assms unsigned_decimal_digits by simp
    qed
  qed (use assms in simp)
qed

lemma list_all_nat_text: "list_all is_digit (nat_text n)"
  by (simp add: list.pred_set nat_text_digits)

lemma to_number_nat_text: "to_number (nat_text n) = Fin (of_nat n)"
  by (simp add: to_number_digits list_all_nat_text nat_text_nonempty digits_val_nat_text)

text \<open>Reading back the text of an integer gives the integer.\<close>

lemma to_number_int_text: "to_number (int_text i) = num_of_int i"
proof (cases "i < 0")
  case False
  then show ?thesis by (simp add: int_text_def num_of_int_def to_number_nat_text)
next
  case True
  let ?t = "nat_text (nat (- i))"
  obtain d s where d: "?t = d # s" using nat_text_nonempty by (metis list.exhaust)
  have "\<not> js_space (last ?t)"
    using digits_no_space[OF list_all_nat_text nat_text_nonempty] by blast
  then have "trim (CHR ''-'' # ?t) = CHR ''-'' # ?t"
    by (intro trim_id) (simp add: nat_text_nonempty js_space_def)
  then have "to_number (CHR ''-'' # ?t) = num_neg (unsigned_decimal ?t)"
    by (simp add: to_number_def d)
  also have "\<dots> = Fin (of_int i)"
    using True
    by (simp add: unsigned_decimal_digits list_all_nat_text nat_text_nonempty
        digits_val_nat_text num_neg_def)
  finally show ?thesis using True by (simp add: int_text_def num_of_int_def)
qed

lemma num_of_int_inject [simp]: "num_of_int i = num_of_int j \<longleftrightarrow> i = j"
  by (simp add: num_of_int_def)

text \<open>The number as an \<open>int\<close>, when it is one.\<close>

definition int_of_num :: "js_num \<Rightarrow> int option" where
  "int_of_num x = (case x of Fin q \<Rightarrow> if of_int \<lfloor>q\<rfloor> = q then Some \<lfloor>q\<rfloor> else None | _ \<Rightarrow> None)"

lemma int_of_num_of_int [simp]: "int_of_num (num_of_int i) = Some i"
  by (simp add: int_of_num_def num_of_int_def)

lemma int_of_num_Some: "int_of_num x = Some i \<longleftrightarrow> x = num_of_int i"
  by (auto simp: int_of_num_def num_of_int_def split: js_num.splits if_splits)

text \<open>Punctuation of the pages beyond ASCII, as its UTF-8 bytes.\<close>

definition ellipsis :: string where "ellipsis = [CHR 0xE2, CHR 0x80, CHR 0xA6]"
definition middle_dot :: string where "middle_dot = [CHR 0xC2, CHR 0xB7]"
definition en_dash :: string where "en_dash = [CHR 0xE2, CHR 0x80, CHR 0x93]"
definition em_dash :: string where "em_dash = [CHR 0xE2, CHR 0x80, CHR 0x94]"

text \<open>\<open>Number.MAX_SAFE_INTEGER\<close>\<close>

definition max_safe_integer :: int where
  "max_safe_integer = 9007199254740991"

end
