(* ===== verification/JsValue.thy ===== *)
theory JsValue
  imports JsCore
begin

text \<open>
  Dynamically typed values (\<open>unknown\<close> in the source): what the generated HTTP client serialises, and
  what the API may send where its schema does not say. An object is the list of its own enumerable
  string keys with their values, in the order \<open>Object.entries\<close> visits them.
\<close>

datatype js_value =
    JUndefined
  | JNull
  | JBool bool
  | JNum js_num
  | JStr string
  | JBigInt int
  | JSymbol
  | JFunction
  | JDate string \<comment> \<open>the text \<open>toISOString()\<close> gives\<close>
  | JArr "js_value list"
  | JObj "(string \<times> js_value) list"
  | JBlob string \<comment> \<open>a file, by its content\<close>
  | JForm "(string \<times> js_value) list" \<comment> \<open>a \<open>FormData\<close>, by its entries\<close>

text \<open>\<open>value === undefined || value === null\<close>\<close>

definition is_nullish :: "js_value \<Rightarrow> bool" where
  "is_nullish v = (v = JUndefined \<or> v = JNull)"

text \<open>\<open>typeof value === 'object'\<close> (which null satisfies too).\<close>

fun typeof_object :: "js_value \<Rightarrow> bool" where
  "typeof_object JNull = True"
| "typeof_object (JDate _) = True"
| "typeof_object (JArr _) = True"
| "typeof_object (JObj _) = True"
| "typeof_object (JBlob _) = True"
| "typeof_object (JForm _) = True"
| "typeof_object _ = False"

text \<open>The value in a condition: the falsy values are the empty and zero ones.\<close>

fun truthy :: "js_value \<Rightarrow> bool" where
  "truthy JUndefined = False"
| "truthy JNull = False"
| "truthy (JBool b) = b"
| "truthy (JNum n) = (n \<noteq> NaN \<and> n \<noteq> Fin 0)"
| "truthy (JStr s) = (s \<noteq> [])"
| "truthy (JBigInt i) = (i \<noteq> 0)"
| "truthy _ = True"

section \<open>Objects\<close>

definition obj_get :: "(string \<times> js_value) list \<Rightarrow> string \<Rightarrow> js_value" where
  "obj_get o' k = (case map_of o' k of None \<Rightarrow> JUndefined | Some v \<Rightarrow> v)"

definition obj_has :: "(string \<times> js_value) list \<Rightarrow> string \<Rightarrow> bool" where
  "obj_has o' k = (k \<in> fst ` set o')"

text \<open>Assignment keeps the place of a key that is already there.\<close>

fun obj_set :: "string \<Rightarrow> 'v \<Rightarrow> (string \<times> 'v) list \<Rightarrow> (string \<times> 'v) list" where
  "obj_set k v [] = [(k, v)]"
| "obj_set k v ((k', v') # r) = (if k = k' then (k, v) # r else (k', v') # obj_set k v r)"

definition obj_delete :: "string \<Rightarrow> (string \<times> 'v) list \<Rightarrow> (string \<times> 'v) list" where
  "obj_delete k r = filter (\<lambda>e. fst e \<noteq> k) r"

text \<open>\<open>{ ...a, ...b }\<close>\<close>

definition obj_spread :: "(string \<times> 'v) list \<Rightarrow> (string \<times> 'v) list \<Rightarrow> (string \<times> 'v) list" where
  "obj_spread a b = foldl (\<lambda>r (k, v). obj_set k v r) a b"

lemma map_of_obj_set [simp]: "map_of (obj_set k v r) = (map_of r)(k \<mapsto> v)"
  by (induction k v r rule: obj_set.induct) (auto simp: fun_eq_iff)

lemma obj_get_set [simp]: "obj_get (obj_set k v r) k' = (if k' = k then v else obj_get r k')"
  by (simp add: obj_get_def)

lemma map_of_obj_delete [simp]: "map_of (obj_delete k r) = (map_of r)(k := None)"
  by (induction r) (auto simp: obj_delete_def fun_eq_iff)

lemma fst_obj_set [simp]: "fst ` set (obj_set k v r) = insert k (fst ` set r)"
  by (induction k v r rule: obj_set.induct) auto

lemma distinct_obj_set: "distinct (map fst r) \<Longrightarrow> distinct (map fst (obj_set k v r))"
proof (induction k v r rule: obj_set.induct)
  case (2 k v k' v' r)
  then show ?case using fst_obj_set[of k v r] by (auto simp: image_iff)
qed simp

lemma distinct_obj_delete: "distinct (map fst r) \<Longrightarrow> distinct (map fst (obj_delete k r))"
  by (simp add: obj_delete_def distinct_map_filter)

lemma obj_spread_snoc: "obj_spread a (b @ [(k, v)]) = obj_set k v (obj_spread a b)"
  by (simp add: obj_spread_def)

lemma map_of_obj_spread: "map_of (obj_spread a b) = map_of a ++ map_of (rev b)"
  by (induction b rule: rev_induct)
    (simp add: obj_spread_def, auto simp: obj_spread_snoc map_add_def fun_eq_iff)

lemma distinct_obj_spread: "distinct (map fst a) \<Longrightarrow> distinct (map fst (obj_spread a b))"
  by (induction b rule: rev_induct)
    (simp add: obj_spread_def, auto simp: obj_spread_snoc distinct_obj_set)

section \<open>Text of a value\<close>

text \<open>
  \<open>String(value)\<close>. A number that is not an integer and the default text of a date depend on
  algorithms the source does not define (and the text of a function or symbol on their own
  description), which are the parameters of the record \<open>text_env\<close>.
\<close>

definition js_num_text :: "(rat \<Rightarrow> string) \<Rightarrow> js_num \<Rightarrow> string" where
  "js_num_text num_text n =
     (case n of
        NaN \<Rightarrow> ''NaN''
      | Infinity neg \<Rightarrow> (if neg then ''-Infinity'' else ''Infinity'')
      | Fin q \<Rightarrow>
         (case int_of_num n of
            Some i \<Rightarrow> if \<bar>i\<bar> < 10 ^ 21 then int_text i else num_text q
          | None \<Rightarrow> num_text q))"

record text_env =
  te_num :: "rat \<Rightarrow> string"
  te_date :: "string \<Rightarrow> string"
  te_other :: "js_value \<Rightarrow> string"

fun js_text :: "text_env \<Rightarrow> js_value \<Rightarrow> string" where
  "js_text te JUndefined = ''undefined''"
| "js_text te JNull = ''null''"
| "js_text te (JBool b) = (if b then ''true'' else ''false'')"
| "js_text te (JNum n) = js_num_text (te_num te) n"
| "js_text te (JStr s) = s"
| "js_text te (JBigInt i) = int_text i"
| "js_text te JSymbol = te_other te JSymbol"
| "js_text te JFunction = te_other te JFunction"
| "js_text te (JDate s) = te_date te s"
| "js_text te (JArr vs) = join '','' (map (\<lambda>v. if is_nullish v then [] else js_text te v) vs)"
| "js_text te (JObj _) = ''[object Object]''"
| "js_text te (JBlob _) = ''[object Blob]''"
| "js_text te (JForm _) = ''[object FormData]''"

section \<open>Own properties\<close>

text \<open>\<open>Object.entries(value)\<close>, which only null and undefined refuse.\<close>

definition index_entries :: "js_value list \<Rightarrow> (string \<times> js_value) list" where
  "index_entries vs = map (\<lambda>(i, v). (nat_text i, v)) (indexed vs)"

fun own_entries :: "js_value \<Rightarrow> (string \<times> js_value) list" where
  "own_entries (JObj es) = es"
| "own_entries (JArr vs) = index_entries vs"
| "own_entries (JStr s) = index_entries (map (\<lambda>c. JStr [c]) s)"
| "own_entries _ = []"

section \<open>JSON\<close>

definition json_escape :: "char \<Rightarrow> string" where
  "json_escape c =
     (if c = CHR 0x22 then [CHR 0x5C, CHR 0x22]
      else if c = CHR 0x5C then [CHR 0x5C, CHR 0x5C]
      else if c = CHR 0x08 then [CHR 0x5C, CHR ''b'']
      else if c = CHR 0x09 then [CHR 0x5C, CHR ''t'']
      else if c = CHR 0x0A then [CHR 0x5C, CHR ''n'']
      else if c = CHR 0x0C then [CHR 0x5C, CHR ''f'']
      else if c = CHR 0x0D then [CHR 0x5C, CHR ''r'']
      else if (of_char c :: nat) < 32
      then [CHR 0x5C, CHR ''u'', CHR ''0'', CHR ''0''] @
        (let hex = (\<lambda>n. char_of (if n < 10 then 48 + n else 87 + n :: nat))
         in [hex ((of_char c :: nat) div 16), hex ((of_char c :: nat) mod 16)])
      else [c])"

definition json_quote :: "string \<Rightarrow> string" where
  "json_quote s = [CHR 0x22] @ concat (map json_escape s) @ [CHR 0x22]"

text \<open>
  \<open>JSON.stringify(value, replacer)\<close> for the replacers of the client, which write a bigint as a text.
  \<open>None\<close> is the result undefined.
\<close>

fun json_text :: "text_env \<Rightarrow> js_value \<Rightarrow> string option" where
  "json_text te JUndefined = None"
| "json_text te JNull = Some ''null''"
| "json_text te (JBool b) = Some (if b then ''true'' else ''false'')"
| "json_text te (JNum n) = Some (case n of Fin _ \<Rightarrow> js_num_text (te_num te) n | _ \<Rightarrow> ''null'')"
| "json_text te (JStr s) = Some (json_quote s)"
| "json_text te (JBigInt i) = Some (json_quote (int_text i))"
| "json_text te JSymbol = None"
| "json_text te JFunction = None"
| "json_text te (JDate s) = Some (json_quote s)"
| "json_text te (JArr vs) =
     Some (''['' @ join '','' (map (\<lambda>v. nullish (json_text te v) ''null'') vs) @ '']'')"
| "json_text te (JObj es) =
     Some (''{'' @ join '',''
       (List.map_filter (\<lambda>(k, v). map_option (\<lambda>t. json_quote k @ '':'' @ t) v)
         (map (\<lambda>e. (fst e, json_text te (snd e))) es)) @ ''}'')"
| "json_text te (JBlob _) = Some ''{}''"
| "json_text te (JForm _) = Some ''{}''"

text \<open>Without a replacer a bigint that is visited raises a TypeError.\<close>

fun has_bigint :: "js_value \<Rightarrow> bool" where
  "has_bigint (JBigInt _) = True"
| "has_bigint (JArr vs) = list_ex has_bigint vs"
| "has_bigint (JObj es) = list_ex (\<lambda>e. has_bigint (snd e)) es"
| "has_bigint _ = False"

end
