(* ===== verification/ApiTypes.thy ===== *)
theory ApiTypes
  imports JsValue
begin

text \<open>
  The data the API exchanges (\<open>frontend/src/openapi/types.gen.ts\<close>): a record for each object type, with
  the fields of the source in its order, and a datatype for each union. A field \<open>T | null\<close> is an option,
  an object with arbitrary keys a map. A field whose type is the literal \<open>null\<close> holds no information and
  has no component in the record: the accessors at the end of the theory return \<open>None\<close> for it.
\<close>

section \<open>Records and unions\<close>

datatype StageType = ROUND_ROBIN | SINGLE_ELIMINATION | SWISS

datatype TournamentStatus = OPEN | ARCHIVED

datatype UserAccountType = REGULAR

datatype StageDirection = Next | Previous

record AuthFeatureFlags =
  features_password_reset_enabled :: bool
  features_user_registration_enabled :: bool

record AuthFeatureFlagsResponse =
  auth_feature_flags_response_data :: AuthFeatureFlags

record BodyLoginForAccessTokenApiTokenPost =
  login_body_client_id :: "string option"
  login_body_client_secret :: "string option"
  login_body_grant_type :: "string option"
  login_body_password :: string
  login_body_scope :: string
  login_body_username :: string

record BodyUpdateTeamLogoApiTournamentsTournamentIdTeamsTeamIdLogoPost =
  team_logo_body_file :: "string option"

record BodyUploadLogoApiTournamentsTournamentIdLogoPost =
  logo_body_file :: "string option"

record Club =
  club_created :: string
  club_id :: int
  club_name :: string

record ClubCreateBody =
  club_create_body_name :: string

record ClubResponse =
  club_response_data :: "Club option"

record ClubUpdateBody =
  club_update_body_name :: string

record ClubsResponse =
  clubs_response_data :: "Club list"

record Player =
  player_active :: bool
  player_created :: string
  player_draws :: int
  player_elo_score :: string
  player_id :: int
  player_losses :: int
  player_name :: string
  player_swiss_score :: string
  player_tournament_id :: int
  player_wins :: int

record FullTeamWithPlayers =
  full_team_active :: bool
  full_team_created :: string
  full_team_draws :: int
  full_team_elo_score :: string
  full_team_id :: int
  full_team_logo_path :: "string option"
  full_team_losses :: int
  full_team_name :: string
  full_team_players :: "Player list"
  full_team_swiss_score :: string
  full_team_tournament_id :: int
  full_team_wins :: int

record ValidationError =
  validation_error_ctx :: "(string \<rightharpoonup> js_value) option"
  validation_error_input :: "js_value option"
  validation_error_loc :: "(string + int) list"
  validation_error_msg :: string
  validation_error_type :: string

record HttpValidationError =
  http_error_detail :: "(ValidationError list) option"

record MatchBody =
  match_body_custom_duration_minutes :: "int option"
  match_body_custom_margin_minutes :: "int option"
  match_body_round_id :: int
  match_body_stage_item_input1_score :: int
  match_body_stage_item_input2_score :: int

record MatchCreateBodyFrontend =
  match_create_body_frontend_round_id :: int
  match_create_body_frontend_stage_item_input1_id :: "int option"
  match_create_body_frontend_stage_item_input1_winner_from_match_id :: "int option"
  match_create_body_frontend_stage_item_input2_id :: "int option"
  match_create_body_frontend_stage_item_input2_winner_from_match_id :: "int option"

record StageItemInputEmpty =
  empty_draws :: int
  empty_id :: int
  empty_losses :: int
  empty_points :: string
  empty_slot :: int
  empty_stage_item_id :: "int option"
  empty_tournament_id :: int
  empty_wins :: int

record Team =
  team_active :: bool
  team_created :: string
  team_draws :: int
  team_elo_score :: string
  team_id :: int
  team_logo_path :: "string option"
  team_losses :: int
  team_name :: string
  team_swiss_score :: string
  team_tournament_id :: int
  team_wins :: int

record StageItemInputFinal =
  final_draws :: int
  final_id :: int
  final_losses :: int
  final_points :: string
  final_slot :: int
  final_stage_item_id :: "int option"
  final_team :: Team
  final_team_id :: int
  final_tournament_id :: int
  final_winner_from_stage_item_id :: "int option"
  final_winner_position :: "int option"
  final_wins :: int

record StageItemInputTentative =
  tentative_draws :: int
  tentative_id :: int
  tentative_losses :: int
  tentative_points :: string
  tentative_slot :: int
  tentative_stage_item_id :: "int option"
  tentative_tournament_id :: int
  tentative_winner_from_stage_item_id :: int
  tentative_winner_position :: int
  tentative_wins :: int

datatype StageItemInput =
    Tentative StageItemInputTentative
  | Final StageItemInputFinal
  | Empty StageItemInputEmpty

record MatchWithDetails =
  match_created :: string
  match_custom_duration_minutes :: "int option"
  match_custom_margin_minutes :: "int option"
  match_duration_minutes :: int
  match_id :: int
  match_margin_minutes :: int
  match_round_id :: int
  match_stage_item_input1 :: "StageItemInput option"
  match_stage_item_input1_conflict :: bool
  match_stage_item_input1_id :: "int option"
  match_stage_item_input1_score :: int
  match_stage_item_input1_winner_from_match_id :: "int option"
  match_stage_item_input2 :: "StageItemInput option"
  match_stage_item_input2_conflict :: bool
  match_stage_item_input2_id :: "int option"
  match_stage_item_input2_score :: int
  match_stage_item_input2_winner_from_match_id :: "int option"
  match_start_time :: "string option"

record PaginatedPlayers =
  paginated_players_count :: int
  paginated_players_players :: "Player list"

record PaginatedTeams =
  paginated_teams_count :: int
  paginated_teams_teams :: "FullTeamWithPlayers list"

record PlayerBody =
  player_body_active :: bool
  player_body_name :: string

record PlayerMultiBody =
  player_multi_body_active :: bool
  player_multi_body_names :: string

record PlayersResponse =
  players_response_data :: PaginatedPlayers

record Ranking =
  ranking_add_score_points :: bool
  ranking_created :: string
  ranking_draw_points :: string
  ranking_id :: int
  ranking_loss_points :: string
  ranking_position :: int
  ranking_tournament_id :: int
  ranking_win_points :: string

record RankingBody =
  ranking_body_add_score_points :: bool
  ranking_body_draw_points :: "js_num + string"
  ranking_body_loss_points :: "js_num + string"
  ranking_body_position :: int
  ranking_body_win_points :: "js_num + string"

record RankingCreateBody =
  ranking_create_body_add_score_points :: bool
  ranking_create_body_draw_points :: "js_num + string"
  ranking_create_body_loss_points :: "js_num + string"
  ranking_create_body_win_points :: "js_num + string"

record RankingsResponse =
  rankings_response_data :: "Ranking list"

record RoundCreateBody =
  round_create_body_name :: "string option"
  round_create_body_stage_item_id :: int

record RoundUpdateBody =
  round_update_body_is_draft :: bool
  round_update_body_name :: string

record RoundWithMatches =
  round_created :: string
  round_id :: int
  round_is_draft :: bool
  round_matches :: "MatchWithDetails list"
  round_name :: string
  round_stage_item_id :: int

record SingleMatchResponse =
  single_match_response_data :: MatchWithDetails

record SinglePlayerResponse =
  single_player_response_data :: Player

record SingleTeamResponse =
  single_team_response_data :: Team

record StageActivateBody =
  stage_activate_body_direction :: StageDirection

record StageItemCreateBody =
  stage_item_create_body_name :: "string option"
  stage_item_create_body_ranking_id :: "int option"
  stage_item_create_body_stage_id :: int
  stage_item_create_body_team_count :: int
  stage_item_create_body_type :: StageType

record StageItemInputOptionFinal =
  stage_item_input_option_final_already_taken :: bool
  stage_item_input_option_final_team_id :: int

record StageItemInputOptionTentative =
  stage_item_input_option_tentative_already_taken :: bool
  stage_item_input_option_tentative_winner_from_stage_item_id :: int
  stage_item_input_option_tentative_winner_position :: int

datatype SlotOption =
    OptionFinal StageItemInputOptionFinal
  | OptionTentative StageItemInputOptionTentative

record StageItemInputOptionsResponse =
  stage_item_input_options_response_data :: "string \<rightharpoonup> (SlotOption list)"

record StageItemInputStanding =
  standing_draws :: int
  standing_losses :: int
  standing_points :: string
  standing_score_against :: int
  standing_score_for :: int
  standing_stage_item_input_id :: int
  standing_wins :: int

record StageItemInputUpdate =
  input_update_stage_item_input :: StageItemInputTentative
  input_update_team :: Team

datatype StageItemInputUpdateBodyEmpty = UpdateBodyEmpty

record StageItemInputUpdateBodyFinal =
  stage_item_input_update_body_final_team_id :: int

record StageItemInputUpdateBodyTentative =
  stage_item_input_update_body_tentative_winner_from_stage_item_id :: int
  stage_item_input_update_body_tentative_winner_position :: int

record StageItemUpdateBody =
  stage_item_update_body_name :: string
  stage_item_update_body_ranking_id :: int

record StageItemWithRounds =
  stage_item_created :: string
  stage_item_id :: int
  stage_item_inputs :: "StageItemInput list"
  stage_item_name :: string
  stage_item_ranking_id :: "int option"
  stage_item_rounds :: "RoundWithMatches list"
  stage_item_stage_id :: int
  stage_item_team_count :: int
  stage_item_type :: StageType
  stage_item_type_name :: string

record StageRankingResponse =
  stage_ranking_response_data :: "string \<rightharpoonup> (StageItemInputUpdate list)"

record StageUpdateBody =
  stage_update_body_custom_duration_minutes :: "int option"
  stage_update_body_name :: string

record StageWithStageItems =
  stage_created :: string
  stage_custom_duration_minutes :: "int option"
  stage_id :: int
  stage_is_active :: bool
  stage_name :: string
  stage_stage_items :: "StageItemWithRounds list"
  stage_tournament_id :: int

record StagesWithStageItemsResponse =
  stages_with_stage_items_response_data :: "StageWithStageItems list"

record StandingsResponse =
  standings_response_data :: "string \<rightharpoonup> (StageItemInputStanding list)"

record SuccessResponse =
  success_response_success :: bool

record TeamBody =
  team_body_active :: bool
  team_body_name :: string
  team_body_player_ids :: "int list"

record TeamMultiBody =
  team_multi_body_active :: bool
  team_multi_body_names :: string

record TeamsWithPlayersResponse =
  teams_with_players_response_data :: PaginatedTeams

record Token =
  token_access_token :: string
  token_name :: string
  token_token_type :: string
  token_user_id :: int

record TokenResponse =
  token_response_data :: Token

record Tournament =
  tournament_club_id :: int
  tournament_created :: string
  tournament_dashboard_endpoint :: "string option"
  tournament_dashboard_public :: bool
  tournament_duration_minutes :: int
  tournament_id :: int
  tournament_logo_path :: "string option"
  tournament_margin_minutes :: int
  tournament_name :: string
  tournament_players_can_be_in_multiple_teams :: bool
  tournament_start_time :: string
  tournament_status :: TournamentStatus

record TournamentBody =
  tournament_body_club_id :: int
  tournament_body_dashboard_endpoint :: "string option"
  tournament_body_dashboard_public :: bool
  tournament_body_duration_minutes :: int
  tournament_body_margin_minutes :: int
  tournament_body_name :: string
  tournament_body_players_can_be_in_multiple_teams :: bool
  tournament_body_start_time :: string

record TournamentChangeStatusBody =
  tournament_change_status_body_status :: TournamentStatus

record TournamentResponse =
  tournament_response_data :: Tournament

record TournamentUpdateBody =
  tournament_update_body_dashboard_endpoint :: "string option"
  tournament_update_body_dashboard_public :: bool
  tournament_update_body_duration_minutes :: int
  tournament_update_body_margin_minutes :: int
  tournament_update_body_name :: string
  tournament_update_body_players_can_be_in_multiple_teams :: bool
  tournament_update_body_start_time :: string

record TournamentsResponse =
  tournaments_response_data :: "Tournament list"

record UserPasswordToUpdate =
  user_password_to_update_current_password :: string
  user_password_to_update_password :: string

record UserPublic =
  user_account_type :: UserAccountType
  user_created :: string
  user_email :: string
  user_id :: int
  user_name :: string

record UserPublicResponse =
  user_public_response_data :: UserPublic

record UserToRegister =
  user_to_register_email :: string
  user_to_register_name :: string
  user_to_register_password :: string

record UserToUpdate =
  user_to_update_email :: string
  user_to_update_name :: string

section \<open>Unions seen through their common fields\<close>

text \<open>
  \<open>Match\<close>, \<open>MatchWithDetails\<close> and \<open>MatchWithDetailsDefinitive\<close> have the same fields. In the definitive
  variant the inputs are never null, which is a predicate on the one record.
\<close>

type_synonym Match = MatchWithDetails

definition MatchWithDetailsDefinitive :: "MatchWithDetails \<Rightarrow> bool" where
  "MatchWithDetailsDefinitive m =
     (match_stage_item_input1 m \<noteq> None \<and> match_stage_item_input2 m \<noteq> None)"

fun input_id :: "StageItemInput \<Rightarrow> int" where
  "input_id (Tentative i) = tentative_id i"
| "input_id (Final i) = final_id i"
| "input_id (Empty i) = empty_id i"

fun input_slot :: "StageItemInput \<Rightarrow> int" where
  "input_slot (Tentative i) = tentative_slot i"
| "input_slot (Final i) = final_slot i"
| "input_slot (Empty i) = empty_slot i"

fun input_team_id :: "StageItemInput \<Rightarrow> int option" where
  "input_team_id (Tentative i) = None"
| "input_team_id (Final i) = Some (final_team_id i)"
| "input_team_id (Empty i) = None"

fun input_winner_from_stage_item_id :: "StageItemInput \<Rightarrow> int option" where
  "input_winner_from_stage_item_id (Tentative i) = Some (tentative_winner_from_stage_item_id i)"
| "input_winner_from_stage_item_id (Final i) = final_winner_from_stage_item_id i"
| "input_winner_from_stage_item_id (Empty i) = None"

fun input_winner_position :: "StageItemInput \<Rightarrow> int option" where
  "input_winner_position (Tentative i) = Some (tentative_winner_position i)"
| "input_winner_position (Final i) = final_winner_position i"
| "input_winner_position (Empty i) = None"

fun input_wins :: "StageItemInput \<Rightarrow> int" where
  "input_wins (Tentative i) = tentative_wins i"
| "input_wins (Final i) = final_wins i"
| "input_wins (Empty i) = empty_wins i"

fun input_draws :: "StageItemInput \<Rightarrow> int" where
  "input_draws (Tentative i) = tentative_draws i"
| "input_draws (Final i) = final_draws i"
| "input_draws (Empty i) = empty_draws i"

fun input_losses :: "StageItemInput \<Rightarrow> int" where
  "input_losses (Tentative i) = tentative_losses i"
| "input_losses (Final i) = final_losses i"
| "input_losses (Empty i) = empty_losses i"

end
