(* ===== verification/Samples.thy ===== *)
theory Samples
  imports ApiTypes
begin

text \<open>
  A small tournament at concrete values, on which the properties with hypotheses are evaluated: four
  teams in one group and in a bracket of two rounds that is fed by it.
\<close>

definition sampleTeam :: "int \<Rightarrow> string \<Rightarrow> Team" where
  "sampleTeam i name =
     \<lparr>team_active = True, team_created = ''2024-05-01T09:00:00Z'', team_draws = 0,
      team_elo_score = ''1200'', team_id = i, team_logo_path = None, team_losses = 0, team_name = name,
      team_swiss_score = ''0'', team_tournament_id = 1, team_wins = 0\<rparr>"

definition sampleFinal :: "int \<Rightarrow> Team \<Rightarrow> StageItemInputFinal" where
  "sampleFinal i team =
     \<lparr>final_draws = 0, final_id = i, final_losses = 0, final_points = ''0'', final_slot = i,
      final_stage_item_id = Some 1, final_team = team, final_team_id = team_id team,
      final_tournament_id = 1, final_winner_from_stage_item_id = None,
      final_winner_position = None, final_wins = 0\<rparr>"

definition sampleTentative :: "int \<Rightarrow> int \<Rightarrow> int \<Rightarrow> StageItemInputTentative" where
  "sampleTentative i source position =
     \<lparr>tentative_draws = 0, tentative_id = i, tentative_losses = 0, tentative_points = ''0'',
      tentative_slot = i, tentative_stage_item_id = Some 2, tentative_tournament_id = 1,
      tentative_winner_from_stage_item_id = source, tentative_winner_position = position,
      tentative_wins = 0\<rparr>"

text \<open>A match by its id, its sides, the matches whose winners play it, its scores and its start.\<close>

definition sampleMatch ::
  "int \<Rightarrow> StageItemInput option \<Rightarrow> StageItemInput option \<Rightarrow> int option \<Rightarrow> int option \<Rightarrow> int \<Rightarrow> int \<Rightarrow>
   string option \<Rightarrow> MatchWithDetails" where
  "sampleMatch i input1 input2 from1 from2 score1 score2 start =
     \<lparr>match_created = ''2024-05-01T09:00:00Z'', match_custom_duration_minutes = None,
      match_custom_margin_minutes = None, match_duration_minutes = 10, match_id = i,
      match_margin_minutes = 5, match_round_id = 1, match_stage_item_input1 = input1,
      match_stage_item_input1_conflict = False,
      match_stage_item_input1_id = map_option input_id input1,
      match_stage_item_input1_score = score1,
      match_stage_item_input1_winner_from_match_id = from1, match_stage_item_input2 = input2,
      match_stage_item_input2_conflict = False,
      match_stage_item_input2_id = map_option input_id input2,
      match_stage_item_input2_score = score2,
      match_stage_item_input2_winner_from_match_id = from2, match_start_time = start\<rparr>"

definition sampleRound :: "int \<Rightarrow> bool \<Rightarrow> MatchWithDetails list \<Rightarrow> RoundWithMatches" where
  "sampleRound i draft matches =
     \<lparr>round_created = ''2024-05-01T09:00:00Z'', round_id = i, round_is_draft = draft,
      round_matches = matches, round_name = ''Round'', round_stage_item_id = 1\<rparr>"

definition sampleItem ::
  "int \<Rightarrow> StageType \<Rightarrow> StageItemInput list \<Rightarrow> RoundWithMatches list \<Rightarrow> StageItemWithRounds" where
  "sampleItem i type inputs rounds =
     \<lparr>stage_item_created = ''2024-05-01T09:00:00Z'', stage_item_id = i, stage_item_inputs = inputs,
      stage_item_name = ''Item'', stage_item_ranking_id = None, stage_item_rounds = rounds,
      stage_item_stage_id = 1, stage_item_team_count = 4, stage_item_type = type,
      stage_item_type_name = ''Type''\<rparr>"

definition sampleStage :: "int \<Rightarrow> StageItemWithRounds list \<Rightarrow> StageWithStageItems" where
  "sampleStage i items =
     \<lparr>stage_created = ''2024-05-01T09:00:00Z'', stage_custom_duration_minutes = None, stage_id = i,
      stage_is_active = True, stage_name = ''Stage'', stage_stage_items = items,
      stage_tournament_id = 1\<rparr>"

definition sampleTournament :: "int \<Rightarrow> string option \<Rightarrow> Tournament" where
  "sampleTournament i link =
     \<lparr>tournament_club_id = 1, tournament_created = ''2024-05-01T09:00:00Z'',
      tournament_dashboard_endpoint = link, tournament_dashboard_public = True,
      tournament_duration_minutes = 10, tournament_id = i, tournament_logo_path = None,
      tournament_margin_minutes = 5, tournament_name = ''Cup'',
      tournament_players_can_be_in_multiple_teams = False,
      tournament_start_time = ''2024-05-01T10:00:00Z'', tournament_status = OPEN\<rparr>"

definition input1 :: StageItemInputFinal where
  "input1 = sampleFinal 1 (sampleTeam 11 ''Ada'')"

definition input2 :: StageItemInputFinal where
  "input2 = sampleFinal 2 (sampleTeam 12 ''Ben'')"

definition input3 :: StageItemInputFinal where
  "input3 = sampleFinal 3 (sampleTeam 13 ''Cem'')"

definition input4 :: StageItemInputFinal where
  "input4 = sampleFinal 4 (sampleTeam 14 ''Dia'')"

definition matchA :: MatchWithDetails where
  "matchA = sampleMatch 1 (Some (Final input1)) (Some (Final input2)) None None 3 1
     (Some ''2024-05-01T10:00:00Z'')"

definition matchB :: MatchWithDetails where
  "matchB = sampleMatch 2 (Some (Final input3)) (Some (Final input4)) None None 0 0
     (Some ''2024-05-01T10:15:00Z'')"

definition matchC :: MatchWithDetails where
  "matchC = sampleMatch 3 (Some (Final input1)) None (Some 1) (Some 2) 0 0 None"

definition sampleBracket :: StageItemWithRounds where
  "sampleBracket = sampleItem 2 SINGLE_ELIMINATION (map Final [input1, input2, input3, input4])
     [sampleRound 1 False [matchB, matchA], sampleRound 2 False [matchC]]"

lemmas sample_defs = sampleTeam_def sampleFinal_def sampleTentative_def sampleMatch_def sampleRound_def
  sampleItem_def sampleStage_def sampleTournament_def input1_def input2_def input3_def input4_def
  matchA_def matchB_def matchC_def sampleBracket_def

end
