(* ===== verification/JsDate.thy ===== *)
theory JsDate
  imports JsCore "HOL-Library.Monad_Syntax"
begin

text \<open>
  \<open>new Date(text).getTime()\<close>: the Date Time String Format of ECMAScript, read into milliseconds since
  the epoch, with \<open>None\<close> for an invalid date (NaN). What the standard leaves to the host is the record
  \<open>js_env\<close>: the clock, the local time zone and the reading of text in any other format.
\<close>

record js_env =
  env_now :: int
  env_local_offset :: "int \<Rightarrow> int"
  env_date_fallback :: "string \<Rightarrow> int option"

section \<open>Civil dates\<close>

definition leap_year :: "int \<Rightarrow> bool" where
  "leap_year y = (y mod 4 = 0 \<and> y mod 100 \<noteq> 0 \<or> y mod 400 = 0)"

definition days_in_month :: "int \<Rightarrow> int \<Rightarrow> int" where
  "days_in_month y m =
     (if m = 2 then (if leap_year y then 29 else 28)
      else if m = 4 \<or> m = 6 \<or> m = 9 \<or> m = 11 then 30 else 31)"

definition day_from_year :: "int \<Rightarrow> int" where
  "day_from_year y =
     365 * (y - 1970) + (y - 1969) div 4 - (y - 1901) div 100 + (y - 1601) div 400"

definition days_before_month :: "int \<Rightarrow> int \<Rightarrow> int" where
  "days_before_month y m =
     [0, 31, 59, 90, 120, 151, 181, 212, 243, 273, 304, 334] ! nat (m - 1)
     + (if 2 < m \<and> leap_year y then 1 else 0)"

definition civil_ms :: "int \<Rightarrow> int \<Rightarrow> int \<Rightarrow> int" where
  "civil_ms y m d = (day_from_year y + days_before_month y m + (d - 1)) * 86400000"

lemma civil_epoch: "civil_ms 1970 1 1 = 0"
  by (simp add: civil_ms_def day_from_year_def days_before_month_def)

section \<open>Reading the format\<close>

definition read_digits :: "nat \<Rightarrow> string \<Rightarrow> (int \<times> string) option" where
  "read_digits k s =
     (if k \<le> length s \<and> list_all is_digit (take k s)
      then Some (int (digits_val (take k s)), drop k s) else None)"

definition next_is :: "char \<Rightarrow> string \<Rightarrow> bool" where
  "next_is c s = (case s of [] \<Rightarrow> False | x # _ \<Rightarrow> x = c)"

text \<open>A separator and two digits, or the default where the separator is absent.\<close>

definition read_field :: "char \<Rightarrow> int \<Rightarrow> string \<Rightarrow> (int \<times> bool \<times> string) option" where
  "read_field sep dflt s =
     (if next_is sep s then do { (v, r) \<leftarrow> read_digits 2 (tl s); Some (v, True, r) }
      else Some (dflt, False, s))"

definition read_year :: "string \<Rightarrow> (int \<times> string) option" where
  "read_year s =
     (if next_is (CHR ''+'') s then read_digits 6 (tl s)
      else if next_is (CHR ''-'') s then
        do { (y, r) \<leftarrow> read_digits 6 (tl s); if y = 0 then None else Some (- y, r) }
      else read_digits 4 s)"

text \<open>The date part: a year, a month and a day, the latter two optional.\<close>

definition read_date :: "string \<Rightarrow> (int \<times> string) option" where
  "read_date s = do {
     (y, s1) \<leftarrow> read_year s;
     (m, hasM, s2) \<leftarrow> read_field (CHR ''-'') 1 s1;
     (d, _, s3) \<leftarrow> (if hasM then read_field (CHR ''-'') 1 s2 else Some (1, False, s2));
     if 1 \<le> m \<and> m \<le> 12 \<and> 1 \<le> d \<and> d \<le> days_in_month y m then Some (civil_ms y m d, s3) else None }"

text \<open>A fraction of a second: engines take any number of digits and keep the milliseconds.\<close>

definition read_fraction :: "string \<Rightarrow> (int \<times> string) option" where
  "read_fraction s =
     (if next_is (CHR ''.'') s then
        (let ds = takeWhile is_digit (tl s)
         in if ds = [] then None
            else Some (int (digits_val (take 3 (ds @ ''00''))), dropWhile is_digit (tl s)))
      else Some (0, s))"

definition read_clock :: "string \<Rightarrow> (int \<times> string) option" where
  "read_clock s = do {
     (h, s1) \<leftarrow> read_digits 2 s;
     (mi, hasMin, s2) \<leftarrow> read_field (CHR '':'') 0 s1;
     (sec, hasSec, s3) \<leftarrow> read_field (CHR '':'') 0 s2;
     (ms, s4) \<leftarrow> (if hasSec then read_fraction s3 else Some (0, s3));
     if hasMin \<and> (h < 24 \<and> mi < 60 \<and> sec < 60 \<or> h = 24 \<and> mi = 0 \<and> sec = 0 \<and> ms = 0)
     then Some (((h * 60 + mi) * 60 + sec) * 1000 + ms, s4) else None }"

text \<open>The offset from UTC in milliseconds; \<open>None\<close> inside means local time.\<close>

definition read_zone :: "string \<Rightarrow> int option option" where
  "read_zone s =
     (case s of
        [] \<Rightarrow> Some None
      | c # r \<Rightarrow>
         if c = CHR ''Z'' then (if r = [] then Some (Some 0) else None)
         else if c = CHR ''+'' \<or> c = CHR ''-'' then do {
           (h, s1) \<leftarrow> read_digits 2 r;
           (mi, hasMin, s2) \<leftarrow> read_field (CHR '':'') 0 s1;
           if hasMin \<and> s2 = [] \<and> h < 24 \<and> mi < 60
           then Some (Some ((if c = CHR ''-'' then -1 else 1) * (h * 60 + mi) * 60000)) else None }
         else None)"

text \<open>Milliseconds on the clock of the text, and its offset (\<open>None\<close> for local time).\<close>

definition read_iso :: "string \<Rightarrow> (int \<times> int option) option" where
  "read_iso s = do {
     (day, r) \<leftarrow> read_date s;
     if r = [] then Some (day, Some 0)
     else if next_is (CHR ''T'') r then do {
       (clock, z) \<leftarrow> read_clock (tl r);
       zone \<leftarrow> read_zone z;
       Some (day + clock, zone) }
     else None }"

definition time_clip :: "int \<Rightarrow> int option" where
  "time_clip t = (if \<bar>t\<bar> \<le> 8640000000000000 then Some t else None)"

definition date_ms :: "js_env \<Rightarrow> string \<Rightarrow> int option" where
  "date_ms env s =
     (case read_iso s of
        None \<Rightarrow> env_date_fallback env s
      | Some (t, Some off) \<Rightarrow> time_clip (t - off)
      | Some (t, None) \<Rightarrow> time_clip (t - env_local_offset env t))"

text \<open>A timestamp with an offset means the same moment in every time zone.\<close>

lemma date_ms_zoned: "read_iso s = Some (t, Some off) \<Longrightarrow> date_ms env s = time_clip (t - off)"
  by (simp add: date_ms_def)

lemma date_ms_example:
  "date_ms env ''2026-03-01T10:30:00Z'' = Some 1772361000000"
  "date_ms env ''2026-03-01T12:30:00.000000+02:00'' = Some 1772361000000"
proof -
  have "read_iso ''2026-03-01T10:30:00Z'' = Some (1772361000000, Some 0)"
    by code_simp
  then show "date_ms env ''2026-03-01T10:30:00Z'' = Some 1772361000000"
    by (simp add: date_ms_def time_clip_def)
  have "read_iso ''2026-03-01T12:30:00.000000+02:00'' = Some (1772368200000, Some 7200000)"
    by code_simp
  then show "date_ms env ''2026-03-01T12:30:00.000000+02:00'' = Some 1772361000000"
    by (simp add: date_ms_def time_clip_def)
qed

end
