(* ===== verification/AppUtils.thy ===== *)
theory AppUtils
  imports Samples JsDate
begin

text \<open>
  The helpers every page of the frontend shares (\<open>frontend/src/app/utils.ts\<close>) and the view of a match
  in its stage (\<open>FlattenedMatch\<close> of \<open>types.ts\<close>): addresses, error texts, dates, the state of a
  tournament, of a match and of a stage, standings, and the order of the schedule. date-fns and the
  locale dependent functions of the standard library are parameters.
\<close>

section \<open>Addresses and errors\<close>

text \<open>\<open>a || b\<close> on a string that may be null or undefined.\<close>

definition or_text :: "string option \<Rightarrow> string \<Rightarrow> string" where
  "or_text a b = (case a of None \<Rightarrow> b | Some s \<Rightarrow> if s = [] then b else s)"

definition isNumericIdentifier :: "string \<Rightarrow> bool" where
  "isNumericIdentifier value \<longleftrightarrow> value \<noteq> [] \<and> list_all is_digit value"

text \<open>\<open>value.replace(/\/+$/, '')\<close> and \<open>value.replace(/\/api$/, '')\<close>\<close>

definition strip_slashes :: "string \<Rightarrow> string" where
  "strip_slashes s = rev (dropWhile (\<lambda>c. c = CHR ''/'') (rev s))"

definition strip_suffix :: "string \<Rightarrow> string \<Rightarrow> string" where
  "strip_suffix p s = (if ends_with s p then take (length s - length p) s else s)"

definition normalizeApiBaseUrl :: "string \<Rightarrow> string" where
  "normalizeApiBaseUrl value = strip_suffix ''/api'' (strip_slashes value)"

definition getApiBaseUrl :: "string option \<Rightarrow> string option \<Rightarrow> string" where
  "getApiBaseUrl runtimeApiBaseUrl viteApiBaseUrl =
     (let runtimeValue = map_option trim runtimeApiBaseUrl
      in normalizeApiBaseUrl (or_text runtimeValue (or_text viteApiBaseUrl [])))"

text \<open>
  What \<open>getErrorMessage\<close> reads of an unknown error: \<open>response.data.detail\<close> and \<open>message\<close>, each absent
  when a link of the chain is. FastAPI sends a text, or a list of validation errors.
\<close>

datatype error_detail = DetailText string | DetailErrors "ValidationError list" | DetailOther

record request_error =
  error_status :: "int option"
  error_detail_of :: "error_detail option"
  error_message :: "string option"

definition loc_text :: "string + int \<Rightarrow> string" where
  "loc_text l = (case l of Inl s \<Rightarrow> s | Inr n \<Rightarrow> int_text n)"

definition fallback_message :: string where
  "fallback_message = ''The request failed. Check the backend connection and your credentials.''"

definition getErrorMessage :: "request_error \<Rightarrow> string" where
  "getErrorMessage error =
     (case error_detail_of error of
        Some (DetailErrors (first # _)) \<Rightarrow>
          join '' > '' (map loc_text (validation_error_loc first)) @ '': '' @ validation_error_msg first
      | detail \<Rightarrow>
         (let text = (case detail of Some (DetailText s) \<Rightarrow> s | _ \<Rightarrow> [])
          in if text \<noteq> [] then text else or_text (error_message error) fallback_message))"

lemma strip_slashes_append: "strip_slashes (b @ replicate n (CHR ''/'')) = strip_slashes b"
  by (simp add: strip_slashes_def dropWhile_append)

lemma strip_slashes_id: "b = [] \<or> last b \<noteq> CHR ''/'' \<Longrightarrow> strip_slashes b = b"
  by (cases b rule: rev_cases) (auto simp: strip_slashes_def)

lemma strip_slashes_last: "strip_slashes s = [] \<or> last (strip_slashes s) \<noteq> CHR ''/''"
  by (metis (mono_tags, lifting) hd_dropWhile last_rev rev_is_Nil_conv strip_slashes_def)

lemma strip_suffix_append [simp]: "strip_suffix p (b @ p) = b"
  by (simp add: strip_suffix_def ends_with_def)

section \<open>Dates\<close>

text \<open>The functions of date-fns the pages call, on its own type of dates.\<close>

record 'd date_fns =
  df_parseISO :: "string \<Rightarrow> 'd"
  df_isValid :: "'d \<Rightarrow> bool"
  df_isThisYear :: "'d \<Rightarrow> bool"
  df_isToday :: "'d \<Rightarrow> bool"
  df_format :: "'d \<Rightarrow> string \<Rightarrow> string"

definition formatDateTime :: "'d date_fns \<Rightarrow> string option \<Rightarrow> string" where
  "formatDateTime df value =
     (case value of
        None \<Rightarrow> ''Not scheduled yet''
      | Some v \<Rightarrow>
         if v = [] then ''Not scheduled yet''
         else (let date = df_parseISO df v
               in if \<not> df_isValid df date then v
                  else df_format df date (if df_isThisYear df date then ''MMM d, p'' else ''PP, p'')))"

definition formatMatchTime :: "'d date_fns \<Rightarrow> string option \<Rightarrow> string" where
  "formatMatchTime df value =
     (case (case value of None \<Rightarrow> None | Some v \<Rightarrow> if v = [] then None else Some (df_parseISO df v)) of
        None \<Rightarrow> formatDateTime df value
      | Some date \<Rightarrow>
         if \<not> df_isValid df date \<or> \<not> df_isToday df date then formatDateTime df value
         else ''Today, '' @ df_format df date ''p'')"

definition toDateTimeLocal :: "'d date_fns \<Rightarrow> string \<Rightarrow> string" where
  "toDateTimeLocal df value = df_format df (df_parseISO df value) ''yyyy-MM-dd'T'HH:mm''"

section \<open>Tournaments\<close>

definition normalizeDashboardEndpoint :: "string option \<Rightarrow> string option" where
  "normalizeDashboardEndpoint value =
     (case value of None \<Rightarrow> None | Some v \<Rightarrow> if trim v \<noteq> [] then Some (trim v) else None)"

definition publicTournamentPath :: "Tournament \<Rightarrow> string" where
  "publicTournamentPath tournament =
     (let endpoint = (if tournament_dashboard_public tournament
                      then normalizeDashboardEndpoint (tournament_dashboard_endpoint tournament) else None)
      in ''/tournaments/'' @ nullish endpoint (int_text (tournament_id tournament)) @ ''/dashboard'')"

datatype TournamentPhase = PhaseFinished | PhaseRunning | PhaseUpcoming

definition tournamentPhase :: "js_env \<Rightarrow> Tournament \<Rightarrow> TournamentPhase" where
  "tournamentPhase env tournament =
     (if tournament_status tournament \<noteq> OPEN then PhaseFinished
      else (case date_ms env (tournament_start_time tournament) of
              None \<Rightarrow> PhaseRunning
            | Some t \<Rightarrow> if t > env_now env then PhaseUpcoming else PhaseRunning))"

definition TOURNAMENT_PHASE_LABELS :: "TournamentPhase \<Rightarrow> string" where
  "TOURNAMENT_PHASE_LABELS p =
     (case p of PhaseFinished \<Rightarrow> ''Finished'' | PhaseRunning \<Rightarrow> ''Running'' | PhaseUpcoming \<Rightarrow> ''Upcoming'')"

definition tournamentDateLabel :: "js_env \<Rightarrow> 'd date_fns \<Rightarrow> Tournament \<Rightarrow> string" where
  "tournamentDateLabel env df tournament =
     (let date = formatDateTime df (Some (tournament_start_time tournament))
      in if tournamentPhase env tournament = PhaseUpcoming then ''Starts '' @ date else ''Started '' @ date)"

section \<open>Inputs, stage items and standings\<close>

fun hasTeam :: "StageItemInput option \<Rightarrow> bool" where
  "hasTeam (Some (Final _)) = True"
| "hasTeam _ = False"

fun inputTeamId :: "StageItemInput option \<Rightarrow> int option" where
  "inputTeamId (Some (Final i)) = Some (final_team_id i)"
| "inputTeamId _ = None"

definition involvesTeam :: "MatchWithDetails \<Rightarrow> int \<Rightarrow> bool" where
  "involvesTeam m teamId =
     (inputTeamId (match_stage_item_input1 m) = Some teamId \<or>
      inputTeamId (match_stage_item_input2 m) = Some teamId)"

definition isBracket :: "StageItemWithRounds \<Rightarrow> bool" where
  "isBracket stageItem = (stage_item_type stageItem = SINGLE_ELIMINATION)"

definition hasBracketView :: "StageItemWithRounds \<Rightarrow> bool" where
  "hasBracketView stageItem = (isBracket stageItem \<or> stage_item_type stageItem = SWISS)"

definition sortTeamsByName ::
  "(string \<Rightarrow> string \<Rightarrow> int) \<Rightarrow> ('t \<Rightarrow> string) \<Rightarrow> 't list \<Rightarrow> 't list" where
  "sortTeamsByName localeCompare name teams =
     js_sort (\<lambda>left right. localeCompare (name left) (name right)) teams"

definition isEmptySlot :: "StageItemInput \<Rightarrow> bool" where
  "isEmptySlot i = (input_team_id i = None \<and> input_winner_from_stage_item_id i = None)"

text \<open>The final inputs of a list, as the type guard \<open>hasTeam\<close> keeps them.\<close>

definition finalInputs :: "StageItemInput list \<Rightarrow> StageItemInputFinal list" where
  "finalInputs inputs = List.map_filter (\<lambda>i. case i of Final f \<Rightarrow> Some f | _ \<Rightarrow> None) inputs"

definition activeTeamInputs :: "StageItemWithRounds \<Rightarrow> StageItemInputFinal list" where
  "activeTeamInputs stageItem =
     filter (\<lambda>i. team_active (final_team i)) (finalInputs (stage_item_inputs stageItem))"

record StandingEntry =
  entry_input :: StageItemInputFinal
  entry_standing :: StageItemInputStanding

definition stageItemStandings ::
  "StageItemWithRounds \<Rightarrow> (string \<rightharpoonup> StageItemInputStanding list) \<Rightarrow> StandingEntry list" where
  "stageItemStandings stageItem standings =
     (let inputs = js_map (map (\<lambda>i. (final_id i, i)) (finalInputs (stage_item_inputs stageItem)))
      in List.maps
           (\<lambda>standing. case inputs (standing_stage_item_input_id standing) of
                None \<Rightarrow> []
              | Some i \<Rightarrow> [\<lparr>entry_input = i, entry_standing = standing\<rparr>])
           (nullish (standings (int_text (stage_item_id stageItem))) []))"

definition pointsLabel :: "StageItemWithRounds \<Rightarrow> string" where
  "pointsLabel stageItem = (if stage_item_type stageItem = SWISS then ''Rating'' else ''Points'')"

text \<open>\<open>Intl.NumberFormat\<close> writes a number in the user's locale.\<close>

record number_format =
  nf_points :: "js_num \<Rightarrow> string"
  nf_signed :: "int \<Rightarrow> string"

definition formatPoints :: "number_format \<Rightarrow> string \<Rightarrow> string" where
  "formatPoints nf points = nf_points nf (to_number points)"

definition formatScoreDifference :: "number_format \<Rightarrow> StageItemInputStanding \<Rightarrow> string" where
  "formatScoreDifference nf standing =
     nf_signed nf (standing_score_for standing - standing_score_against standing)"

definition pointsPhrase :: "number_format \<Rightarrow> StageItemWithRounds \<Rightarrow> string \<Rightarrow> string" where
  "pointsPhrase nf stageItem points =
     (if stage_item_type stageItem = SWISS then ''rating '' @ formatPoints nf points
      else formatPoints nf points @ '' '' @ (if to_number points = Fin 1 then ''point'' else ''points''))"

text \<open>\<open>stageItem?.name || stageItem?.type_name\<close>\<close>

definition stage_item_label :: "StageItemWithRounds \<Rightarrow> string" where
  "stage_item_label s = (if stage_item_name s \<noteq> [] then stage_item_name s else stage_item_type_name s)"

definition inputLabel :: "StageItemInput option \<Rightarrow> (int \<rightharpoonup> StageItemWithRounds) \<Rightarrow> string" where
  "inputLabel input stageItemsById =
     (case input of
        None \<Rightarrow> ''TBD''
      | Some (Final i) \<Rightarrow> team_name (final_team i)
      | Some i \<Rightarrow>
         (case input_winner_from_stage_item_id i of
            None \<Rightarrow> ''TBD''
          | Some source \<Rightarrow>
             (let sourceName = (case stageItemsById source of None \<Rightarrow> [] | Some s \<Rightarrow> stage_item_label s)
              in if sourceName \<noteq> []
                 then sourceName @ '' #'' @
                   (case input_winner_position i of None \<Rightarrow> ''null'' | Some p \<Rightarrow> int_text p)
                 else ''TBD'')))"

section \<open>Matches\<close>

definition isScored :: "MatchWithDetails \<Rightarrow> bool" where
  "isScored m = (match_stage_item_input1_score m \<noteq> 0 \<or> match_stage_item_input2_score m \<noteq> 0)"

datatype MatchOutcome = Side1 | Side2 | Draw

definition matchWinner :: "MatchWithDetails \<Rightarrow> MatchOutcome option" where
  "matchWinner m =
     (if \<not> isScored m then None
      else if match_stage_item_input1_score m > match_stage_item_input2_score m then Some Side1
      else if match_stage_item_input2_score m > match_stage_item_input1_score m then Some Side2
      else Some Draw)"

datatype MatchStatus = Finished | Live | Scheduled | Waiting

definition matchStatus :: "js_env \<Rightarrow> MatchWithDetails \<Rightarrow> MatchStatus" where
  "matchStatus env m =
     (if isScored m then Finished
      else if match_stage_item_input1 m = None \<or> match_stage_item_input2 m = None then Waiting
      else (case match_start_time m of
              None \<Rightarrow> Scheduled
            | Some startTime \<Rightarrow>
               if startTime = [] then Scheduled
               else (case date_ms env startTime of
                       None \<Rightarrow> Scheduled
                     | Some start \<Rightarrow>
                        if start \<le> env_now env \<and>
                           env_now env < start + match_duration_minutes m * 60000
                        then Live else Scheduled)))"

definition MATCH_STATUS_LABELS :: "MatchStatus \<Rightarrow> string" where
  "MATCH_STATUS_LABELS s =
     (case s of Finished \<Rightarrow> ''Finished'' | Live \<Rightarrow> ''Playing now''
      | Scheduled \<Rightarrow> ''Scheduled'' | Waiting \<Rightarrow> ''Waiting for teams'')"

definition isStageHappeningNow :: "StageWithStageItems \<Rightarrow> Tournament \<Rightarrow> bool" where
  "isStageHappeningNow stage tournament =
     (if tournament_status tournament \<noteq> OPEN \<or> \<not> stage_is_active stage then False
      else list_ex
        (\<lambda>stageItem. stage_item_type stageItem = SWISS \<or>
           list_ex (\<lambda>round. \<not> round_is_draft round \<and> list_ex (\<lambda>m. \<not> isScored m) (round_matches round))
             (stage_item_rounds stageItem))
        (stage_stage_items stage))"

record FlattenedMatch =
  fm_stage :: StageWithStageItems
  fm_stageItem :: StageItemWithRounds
  fm_round :: RoundWithMatches
  fm_match :: MatchWithDetails

definition nextMatch :: "js_env \<Rightarrow> FlattenedMatch list \<Rightarrow> FlattenedMatch option" where
  "nextMatch env entries =
     (case List.find (\<lambda>e. matchStatus env (fm_match e) = Live) entries of
        Some e \<Rightarrow> Some e
      | None \<Rightarrow> List.find (\<lambda>e. \<not> isScored (fm_match e)) entries)"

text \<open>The time of a match for sorting; \<open>None\<close> is NaN.\<close>

definition match_time :: "js_env \<Rightarrow> FlattenedMatch \<Rightarrow> int option" where
  "match_time env e =
     (case match_start_time (fm_match e) of
        None \<Rightarrow> Some max_safe_integer
      | Some s \<Rightarrow> if s = [] then Some max_safe_integer else date_ms env s)"

text \<open>The result is \<open>None\<close> where the source subtracts from or by NaN.\<close>

definition compareMatchesByTime ::
  "js_env \<Rightarrow> FlattenedMatch \<Rightarrow> FlattenedMatch \<Rightarrow> int option" where
  "compareMatchesByTime env left right =
     (case (match_time env left, match_time env right) of
        (Some leftTime, Some rightTime) \<Rightarrow>
          if leftTime \<noteq> rightTime then Some (leftTime - rightTime)
          else if round_id (fm_round left) \<noteq> round_id (fm_round right)
          then Some (round_id (fm_round left) - round_id (fm_round right))
          else Some (match_id (fm_match left) - match_id (fm_match right))
      | _ \<Rightarrow> None)"

definition flattenMatches :: "StageWithStageItems list \<Rightarrow> FlattenedMatch list" where
  "flattenMatches stages =
     List.maps (\<lambda>stage.
       List.maps (\<lambda>stageItem.
         List.maps (\<lambda>round.
           map (\<lambda>m. \<lparr>fm_stage = stage, fm_stageItem = stageItem, fm_round = round, fm_match = m\<rparr>)
             (round_matches round))
           (stage_item_rounds stageItem))
         (stage_stage_items stage))
       stages"

section \<open>Facts about inputs and matches\<close>

lemma hasTeam_iff: "hasTeam i \<longleftrightarrow> (\<exists>f. i = Some (Final f))"
  by (cases i rule: hasTeam.cases) auto

lemma inputTeamId_iff: "inputTeamId i = Some t \<longleftrightarrow> (\<exists>f. i = Some (Final f) \<and> final_team_id f = t)"
  by (cases i rule: inputTeamId.cases) auto

lemma isScored_matchWinner: "isScored m \<longleftrightarrow> matchWinner m \<noteq> None"
  by (simp add: matchWinner_def)

lemma matchStatus_finished: "matchStatus env m = Finished \<longleftrightarrow> isScored m"
  by (auto simp: matchStatus_def split: option.splits)

lemma matchStatus_live_unscored: "matchStatus env m = Live \<Longrightarrow> \<not> isScored m"
  by (auto simp: matchStatus_def)

lemma finalInputs_mem: "f \<in> set (finalInputs inputs) \<longleftrightarrow> Final f \<in> set inputs"
  by (induction inputs) (auto simp: finalInputs_def List.map_filter_simps split: StageItemInput.splits)

lemma flattenMatches_mem:
  "e \<in> set (flattenMatches stages) \<longleftrightarrow>
    fm_stage e \<in> set stages \<and> fm_stageItem e \<in> set (stage_stage_items (fm_stage e)) \<and>
    fm_round e \<in> set (stage_item_rounds (fm_stageItem e)) \<and>
    fm_match e \<in> set (round_matches (fm_round e))"
  by (cases e) (force simp: flattenMatches_def)

lemma date_ms_now [simp]: "date_ms (env\<lparr>env_now := t\<rparr>) s = date_ms env s"
  by (simp add: date_ms_def split: option.splits prod.splits)

lemma find_first:
  assumes "List.find P xs = Some x"
  shows "\<exists>ys zs. xs = ys @ x # zs \<and> P x \<and> list_all (\<lambda>y. \<not> P y) ys"
proof -
  obtain i where i: "i < length xs" "P (xs ! i)" "x = xs ! i" "\<forall>j<i. \<not> P (xs ! j)"
    using assms by (auto simp: find_Some_iff)
  then have "xs = take i xs @ x # drop (Suc i) xs" by (simp add: id_take_nth_drop)
  moreover have "list_all (\<lambda>y. \<not> P y) (take i xs)" using i by (simp add: list_all_length)
  ultimately show ?thesis using i by blast
qed

section \<open>Properties\<close>

text \<open>The address of the API does not depend on how it is configured: slashes at the end and one
  \<open>/api\<close> before them are dropped, and an address with neither is kept.\<close>

lemma base_url_normal:
  assumes "b = [] \<or> last b \<noteq> CHR ''/''" "\<not> ends_with b ''/api''"
  shows "normalizeApiBaseUrl (b @ replicate n (CHR ''/'')) = b \<and>
    normalizeApiBaseUrl (b @ ''/api'' @ replicate n (CHR ''/'')) = b \<and>
    normalizeApiBaseUrl (normalizeApiBaseUrl b) = normalizeApiBaseUrl b"
proof -
  have "strip_suffix ''/api'' b = b" using assms(2) by (simp add: strip_suffix_def)
  moreover have "strip_slashes (b @ ''/api'') = b @ ''/api''" by (rule strip_slashes_id) simp
  ultimately show ?thesis
    using strip_slashes_append[of "b @ ''/api''" n] strip_slashes_append[of b n] strip_slashes_id[OF assms(1)]
    by (simp add: normalizeApiBaseUrl_def)
qed

lemma base_url_normal_witness: "normalizeApiBaseUrl ''http://localhost/api//'' = ''http://localhost''"
  using base_url_normal[of "''http://localhost''" 2] by (simp add: ends_with_def numeral_2_eq_2)

text \<open>Every failed request is reported with a text: whatever the server sends, the message is not
  empty.\<close>

lemma error_message_nonempty: "getErrorMessage error \<noteq> []"
  by (auto simp: getErrorMessage_def or_text_def fallback_message_def Let_def
      split: option.splits error_detail.splits list.splits)

text \<open>A match is being played exactly in the interval of its duration from its start, while it has
  no score and both sides are decided; a match without a readable start is never being played.\<close>

lemma match_live_interval:
  "{t. matchStatus (env\<lparr>env_now := t\<rparr>) m = Live} =
    (case (match_start_time m, match_stage_item_input1 m, match_stage_item_input2 m) of
       (Some start, Some _, Some _) \<Rightarrow>
         (case date_ms env start of
            Some s \<Rightarrow> if isScored m \<or> start = [] then {}
                      else {s ..< s + match_duration_minutes m * 60000}
          | None \<Rightarrow> {})
     | _ \<Rightarrow> {})"
  by (auto simp: matchStatus_def split: option.splits)

text \<open>The match announced as the next one is the first one being played, or else the first without
  a score; there is none only when every match has a score.\<close>

lemma next_match_first:
  "(nextMatch env entries = None) = list_all (\<lambda>e. isScored (fm_match e)) entries \<and>
   (nextMatch env entries = Some e \<longrightarrow>
     (\<exists>before after. entries = before @ e # after \<and> \<not> isScored (fm_match e) \<and>
       (if list_ex (\<lambda>x. matchStatus env (fm_match x) = Live) entries
        then matchStatus env (fm_match e) = Live \<and>
             list_all (\<lambda>x. matchStatus env (fm_match x) \<noteq> Live) before
        else list_all (\<lambda>x. isScored (fm_match x)) before)))"
proof (cases "List.find (\<lambda>e. matchStatus env (fm_match e) = Live) entries")
  case None
  then have "\<not> list_ex (\<lambda>x. matchStatus env (fm_match x) = Live) entries"
    by (auto simp: find_None_iff list_ex_iff)
  moreover have "nextMatch env entries = List.find (\<lambda>e. \<not> isScored (fm_match e)) entries"
    using None by (simp add: nextMatch_def)
  ultimately show ?thesis
    by (auto simp: find_None_iff list_all_iff dest!: find_first)
next
  case (Some x)
  then have "x \<in> set entries" "\<not> isScored (fm_match x)"
    using find_SomeD[OF Some] matchStatus_live_unscored by auto
  then have "\<not> list_all (\<lambda>e. isScored (fm_match e)) entries" by (auto simp: list_all_iff)
  moreover have "nextMatch env entries = Some x" using Some by (simp add: nextMatch_def)
  moreover have "list_ex (\<lambda>x. matchStatus env (fm_match x) = Live) entries"
    using find_SomeD[OF Some] by (auto simp: list_ex_iff)
  ultimately show ?thesis
    using Some \<open>\<not> isScored (fm_match x)\<close> by (auto dest!: find_first)
qed

definition sampleEntry :: "MatchWithDetails \<Rightarrow> FlattenedMatch" where
  "sampleEntry m =
     \<lparr>fm_stage = sampleStage 1 [sampleBracket], fm_stageItem = sampleBracket,
      fm_round = sampleRound 1 False [m], fm_match = m\<rparr>"

definition sampleClock :: js_env where
  "sampleClock = \<lparr>env_now = 0, env_local_offset = (\<lambda>_. 0), env_date_fallback = (\<lambda>_. None)\<rparr>"

lemma next_match_first_witness:
  "\<exists>before after. map sampleEntry [matchA, matchB] = before @ sampleEntry matchB # after"
proof -
  have "nextMatch sampleClock (map sampleEntry [matchA, matchB]) = Some (sampleEntry matchB)"
    by code_simp
  then show ?thesis using next_match_first by blast
qed

end
