(* ===== verification/ClientParams.thy ===== *)
theory ClientParams
  imports JsValue AppUtils
begin

text \<open>
  Positional arguments of a client function (\<open>frontend/src/openapi/core/params.gen.ts\<close>): which part of the
  request each argument, or each property of an argument, goes to.
\<close>

section \<open>Fields\<close>

datatype Slot = BodySlot | HeadersSlot | PathSlot | QuerySlot

fun slot_name :: "Slot \<Rightarrow> string" where
  "slot_name BodySlot = ''body''"
| "slot_name HeadersSlot = ''headers''"
| "slot_name PathSlot = ''path''"
| "slot_name QuerySlot = ''query''"

text \<open>A field with its slot (and a name in the request), or a key that stands for a whole slot.\<close>

datatype Field =
    SlotField Slot "string option" "string option" \<comment> \<open>\<open>in\<close>, \<open>key\<close> and \<open>map\<close>\<close>
  | AliasField string Slot \<comment> \<open>\<open>key\<close> and \<open>map\<close>\<close>

datatype FieldsConfig =
    Single Field
  | Fields "(Slot \<times> bool) list option" "Field list option" \<comment> \<open>\<open>allowExtra\<close> and \<open>args\<close>\<close>

definition extraPrefixes :: "(string \<times> Slot) list" where
  "extraPrefixes =
     [(''$body_'', BodySlot), (''$headers_'', HeadersSlot), (''$path_'', PathSlot), (''$query_'', QuerySlot)]"

datatype KeyTarget = InSlot Slot "string option" | WholeSlot Slot

type_synonym KeyMap = "string \<rightharpoonup> KeyTarget"

fun addField :: "Field \<Rightarrow> KeyMap \<Rightarrow> KeyMap" where
  "addField (SlotField s key name) km = (if or_text key [] = [] then km else km(or_text key [] \<mapsto> InSlot s name))"
| "addField (AliasField key s) km = km(key \<mapsto> WholeSlot s)"

fun addConfig :: "FieldsConfig \<Rightarrow> KeyMap \<Rightarrow> KeyMap" where
  "addConfig (Single f) km = addField f km"
| "addConfig (Fields _ args) km = fold addField (nullish args []) km"

definition buildKeyMap :: "FieldsConfig list \<Rightarrow> KeyMap" where
  "buildKeyMap configs = fold addConfig configs Map.empty"

section \<open>Parameters\<close>

type_synonym Params = "(string \<times> js_value) list"

text \<open>
  \<open>None\<close>: the slot already holds a value without named properties of its own, where the assignment raises a
  TypeError (a text, a number, null) or adds a property that is not followed here (a list, a file).
\<close>

definition writeSlot :: "Slot \<Rightarrow> string \<Rightarrow> js_value \<Rightarrow> Params \<Rightarrow> Params option" where
  "writeSlot s key v params =
     (case obj_get params (slot_name s) of
        JUndefined \<Rightarrow> Some (obj_set (slot_name s) (JObj [(key, v)]) params)
      | JObj es \<Rightarrow> Some (obj_set (slot_name s) (JObj (obj_set key v es)) params)
      | _ \<Rightarrow> None)"

text \<open>A property of an argument: a known key, a prefix that names a slot, or an extra one.\<close>

definition placeEntry :: "FieldsConfig \<Rightarrow> KeyMap \<Rightarrow> string \<times> js_value \<Rightarrow> Params \<Rightarrow> Params option" where
  "placeEntry config km entry params =
     (case entry of (key, v) \<Rightarrow>
        (case km key of
           Some (InSlot s name) \<Rightarrow> writeSlot s (or_text name key) v params
         | Some (WholeSlot s) \<Rightarrow> Some (obj_set (slot_name s) v params)
         | None \<Rightarrow>
            (case List.find (\<lambda>(prefix, s). starts_with key prefix) extraPrefixes of
               Some (prefix, s) \<Rightarrow> writeSlot s (drop (length prefix) key) v params
             | None \<Rightarrow>
                (case config of
                   Fields (Some allowExtra) _ \<Rightarrow>
                     (case List.find snd allowExtra of
                        Some (s, _) \<Rightarrow> writeSlot s key v params
                      | None \<Rightarrow> Some params)
                 | _ \<Rightarrow> Some params))))"

fun placeEntries :: "FieldsConfig \<Rightarrow> KeyMap \<Rightarrow> (string \<times> js_value) list \<Rightarrow> Params \<Rightarrow> Params option" where
  "placeEntries config km [] params = Some params"
| "placeEntries config km (e # es) params = Option.bind (placeEntry config km e params) (placeEntries config km es)"

fun placeArg :: "FieldsConfig \<Rightarrow> KeyMap \<Rightarrow> js_value \<Rightarrow> Params \<Rightarrow> Params option" where
  "placeArg (Single (SlotField s key name)) km arg params =
     (let k = or_text key []
      in if k = [] then Some (obj_set ''body'' arg params)
         else (case km k of
                 Some (InSlot s' name') \<Rightarrow> writeSlot s' (or_text name' k) arg params
               | _ \<Rightarrow> Some params))"
| "placeArg config km arg params = placeEntries config km (own_entries arg) params"

text \<open>The last configuration also stands for the arguments after it.\<close>

fun placeArgs ::
  "FieldsConfig option \<Rightarrow> FieldsConfig list \<Rightarrow> KeyMap \<Rightarrow> js_value list \<Rightarrow> Params \<Rightarrow> Params option" where
  "placeArgs config configs km [] params = Some params"
| "placeArgs config configs km (arg # args) params =
     (let config' = (case configs of [] \<Rightarrow> config | f # _ \<Rightarrow> Some f)
      in case config' of
           None \<Rightarrow> placeArgs config' (tl configs) km args params
         | Some c \<Rightarrow> Option.bind (placeArg c km arg params) (placeArgs config' (tl configs) km args))"

definition isEmptySlotValue :: "js_value \<Rightarrow> bool" where
  "isEmptySlotValue v =
     (truthy v \<and> typeof_object v \<and> (case v of JArr _ \<Rightarrow> False | _ \<Rightarrow> True) \<and> own_entries v = [])"

definition stripEmptySlots :: "Params \<Rightarrow> Params" where
  "stripEmptySlots params = filter (\<lambda>(s, v). s = ''body'' \<or> \<not> isEmptySlotValue v) params"

definition buildClientParams :: "js_value list \<Rightarrow> FieldsConfig list \<Rightarrow> Params option" where
  "buildClientParams args configs =
     map_option stripEmptySlots
       (placeArgs None configs (buildKeyMap configs) args
         [(''headers'', JObj []), (''path'', JObj []), (''query'', JObj [])])"

section \<open>Lemmas\<close>

lemma slot_name_inject [simp]: "slot_name s = slot_name s' \<longleftrightarrow> s = s'"
  by (cases s; cases s') simp_all

text \<open>What a slot holds.\<close>

definition slot_entries :: "Params \<Rightarrow> Slot \<Rightarrow> (string \<times> js_value) list" where
  "slot_entries params s = own_entries (obj_get params (slot_name s))"

definition open_slots :: "Params \<Rightarrow> bool" where
  "open_slots params \<longleftrightarrow> distinct (map fst params) \<and>
     (\<forall>s. obj_get params (slot_name s) = JUndefined \<or> (\<exists>es. obj_get params (slot_name s) = JObj es))"

lemma writeSlot_open:
  assumes "open_slots params"
  shows "\<exists>params'. writeSlot s key v params = Some params' \<and> open_slots params' \<and>
    (\<forall>s'. slot_entries params' s' = (if s' = s then obj_set key v (slot_entries params s) else slot_entries params s'))"
proof -
  consider "obj_get params (slot_name s) = JUndefined" | es where "obj_get params (slot_name s) = JObj es"
    using assms by (auto simp: open_slots_def)
  then show ?thesis
    using assms by cases (auto simp: writeSlot_def slot_entries_def open_slots_def distinct_obj_set)
qed

lemma obj_set_fresh: "k \<notin> fst ` set es \<Longrightarrow> obj_set k v es = es @ [(k, v)]"
  by (induction k v es rule: obj_set.induct) auto

text \<open>Where the properties of an argument go, for keys that are all known.\<close>

definition target :: "KeyMap \<Rightarrow> string \<Rightarrow> (Slot \<times> string) option" where
  "target km key = (case km key of Some (InSlot s name) \<Rightarrow> Some (s, or_text name key) | _ \<Rightarrow> None)"

definition sent_to :: "KeyMap \<Rightarrow> (string \<times> js_value) list \<Rightarrow> Slot \<Rightarrow> (string \<times> js_value) list" where
  "sent_to km es s =
     List.map_filter (\<lambda>(key, v).
       case target km key of Some (s', name) \<Rightarrow> if s' = s then Some (name, v) else None | None \<Rightarrow> None) es"

lemma sent_to_Cons: "target km key = Some (s', name) \<Longrightarrow>
    sent_to km ((key, v) # es) s = (if s' = s then [(name, v)] else []) @ sent_to km es s"
  by (simp add: sent_to_def List.map_filter_simps)

lemma placeEntries_known:
  assumes "open_slots params" "\<forall>(key, v) \<in> set es. target km key \<noteq> None"
    and "distinct (map (\<lambda>e. target km (fst e)) es)"
    and "\<forall>(key, v) \<in> set es. \<forall>s name. target km key = Some (s, name) \<longrightarrow> name \<notin> fst ` set (slot_entries params s)"
  shows "\<exists>params'. placeEntries config km es params = Some params' \<and> open_slots params' \<and>
    (\<forall>s. slot_entries params' s = slot_entries params s @ sent_to km es s)"
  using assms
proof (induction es arbitrary: params)
  case Nil
  then show ?case by (simp add: sent_to_def List.map_filter_simps)
next
  case (Cons e es)
  obtain key v where e: "e = (key, v)" by (cases e)
  obtain s name where t: "target km key = Some (s, name)" using Cons.prems(2) by (auto simp: e)
  then obtain m where km: "km key = Some (InSlot s m)" "name = or_text m key"
    by (auto simp: target_def split: option.splits KeyTarget.splits)
  obtain p where p: "writeSlot s name v params = Some p" "open_slots p"
    "\<And>s'. slot_entries p s' = (if s' = s then obj_set name v (slot_entries params s) else slot_entries params s')"
    using writeSlot_open[OF Cons.prems(1)] by metis
  have "name \<notin> fst ` set (slot_entries params s)" using Cons.prems(4) t by (auto simp: e)
  then have p': "slot_entries p s' = slot_entries params s' @ (if s' = s then [(name, v)] else [])" for s'
    by (simp add: p(3) obj_set_fresh)
  have new: "(s, name) \<notin> {(s, name). Some (s, name) \<in> (\<lambda>e. target km (fst e)) ` set es}"
    using Cons.prems(3) t by (auto simp: e)
  have free: "n \<notin> fst ` set (slot_entries p s')" if m: "(key', v') \<in> set es" "target km key' = Some (s', n)" for key' v' s' n
  proof -
    have "(s', n) \<noteq> (s, name)" using new m by force
    moreover have "n \<notin> fst ` set (slot_entries params s')"
      using bspec[OF Cons.prems(4), of "(key', v')"] m by simp
    ultimately show ?thesis by (auto simp: p')
  qed
  have "\<forall>(key, v) \<in> set es. \<forall>s' n. target km key = Some (s', n) \<longrightarrow> n \<notin> fst ` set (slot_entries p s')"
    using free by blast
  then obtain p2 where p2: "placeEntries config km es p = Some p2" "open_slots p2"
    "\<And>s'. slot_entries p2 s' = slot_entries p s' @ sent_to km es s'"
    using Cons.IH[of p] p(2) Cons.prems(2,3) by auto
  have "placeEntries config km (e # es) params = Some p2"
    using p(1) p2(1) km by (simp add: e placeEntry_def)
  then show ?case using p2 by (auto simp: e sent_to_Cons[OF t] p')
qed

text \<open>
  The usual call: one object with a property for each parameter. Every property is in its slot, under its name
  in the request, in the order of the object; and nothing else is.
\<close>

definition field_target :: "Field \<Rightarrow> (string \<times> Slot \<times> string) option" where
  "field_target f =
     (case f of
        SlotField s key name \<Rightarrow>
          (if or_text key [] = [] then None else Some (or_text key [], s, or_text name (or_text key [])))
      | AliasField _ _ \<Rightarrow> None)"

lemma target_addField:
  "target (addField f km) k = (case field_target f of
      Some (k', t) \<Rightarrow> if k = k' then Some t else target km k
    | None \<Rightarrow> (case f of AliasField k' _ \<Rightarrow> if k = k' then None else target km k | _ \<Rightarrow> target km k))"
  by (cases f) (auto simp: target_def field_target_def)

lemma map_of_strip:
  "distinct (map fst q) \<Longrightarrow> map_of (stripEmptySlots q) k =
     (case map_of q k of Some v \<Rightarrow> if k = ''body'' \<or> \<not> isEmptySlotValue v then Some v else None | None \<Rightarrow> None)"
  by (induction q) (auto simp: stripEmptySlots_def map_of_eq_None_iff image_iff split: option.splits)

lemma strip_entries: "distinct (map fst q) \<Longrightarrow> slot_entries (stripEmptySlots q) s = slot_entries q s"
  by (auto simp: slot_entries_def obj_get_def map_of_strip isEmptySlotValue_def split: option.splits)

lemma flat_params:
  assumes "\<forall>(key, v) \<in> set es. target (buildKeyMap [Fields extra (Some fs)]) key \<noteq> None"
    and "distinct (map (\<lambda>e. target (buildKeyMap [Fields extra (Some fs)]) (fst e)) es)"
  shows "\<exists>params. buildClientParams [JObj es] [Fields extra (Some fs)] = Some params \<and>
    (\<forall>s. slot_entries params s = sent_to (buildKeyMap [Fields extra (Some fs)]) es s)"
proof -
  let ?km = "buildKeyMap [Fields extra (Some fs)]"
  let ?init = "[(''headers'', JObj []), (''path'', JObj []), (''query'', JObj [])] :: Params"
  have i: "obj_get ?init (slot_name s) = (if s = BodySlot then JUndefined else JObj [])" for s
    by (cases s) (simp_all add: obj_get_def)
  then have "open_slots ?init" "\<And>s. slot_entries ?init s = []"
    by (simp_all add: open_slots_def slot_entries_def)
  then obtain p where p: "placeEntries (Fields extra (Some fs)) ?km es ?init = Some p" "open_slots p"
    "\<And>s. slot_entries p s = sent_to ?km es s"
    using placeEntries_known[of ?init es ?km "Fields extra (Some fs)"] assms by auto
  have b: "buildClientParams [JObj es] [Fields extra (Some fs)] = Some (stripEmptySlots p)"
    using p(1) by (simp add: buildClientParams_def)
  have "distinct (map fst p)" using p(2) by (simp add: open_slots_def)
  then have "slot_entries (stripEmptySlots p) s = slot_entries p s" for s by (rule strip_entries)
  then show ?thesis using b p(3) by simp
qed

end
