(* ===== verification/PathSerializer.thy ===== *)
theory PathSerializer
  imports JsValue
begin

text \<open>
  Parameters in addresses: \<open>frontend/src/openapi/core/pathSerializer.gen.ts\<close> and the URL functions of
  \<open>core/utils.gen.ts\<close>. A serialiser fails on a value nested too deeply, as the source throws.
\<close>

section \<open>\<open>encodeURIComponent\<close>\<close>

definition unreserved :: "char \<Rightarrow> bool" where
  "unreserved c =
     (let n = (of_char c :: nat)
      in (48 \<le> n \<and> n \<le> 57) \<or> (65 \<le> n \<and> n \<le> 90) \<or> (97 \<le> n \<and> n \<le> 122) \<or>
         c \<in> set [CHR ''-'', CHR ''_'', CHR ''.'', CHR ''!'', CHR ''~'', CHR ''*'', CHR 0x27, CHR ''('', CHR '')''])"

definition hex_digit :: "nat \<Rightarrow> char" where
  "hex_digit n = (if n < 10 then char_of (48 + n) else char_of (55 + n))"

definition percent :: "char \<Rightarrow> string" where
  "percent c = [CHR ''%'', hex_digit ((of_char c :: nat) div 16), hex_digit ((of_char c :: nat) mod 16)]"

text \<open>On the UTF-8 bytes of a text.\<close>

definition encodeURIComponent :: "string \<Rightarrow> string" where
  "encodeURIComponent s = concat (map (\<lambda>c. if unreserved c then [c] else percent c) s)"

text \<open>What the server does with it.\<close>

definition hex_val :: "char \<Rightarrow> nat" where
  "hex_val c = (let n = (of_char c :: nat) in if n < 58 then n - 48 else n - 55)"

fun percent_decode :: "string \<Rightarrow> string" where
  "percent_decode (c # h # l # s) =
     (if c = CHR ''%'' then char_of (16 * hex_val h + hex_val l) # percent_decode s
      else c # percent_decode (h # l # s))"
| "percent_decode s = s"

lemma hex_val_digit: "n < 16 \<Longrightarrow> hex_val (hex_digit n) = n"
  by (auto simp: hex_val_def hex_digit_def of_char_of Let_def)

lemma hex_digit_unreserved: "n < 16 \<Longrightarrow> unreserved (hex_digit n)"
  by (auto simp: hex_digit_def unreserved_def of_char_of Let_def)

lemma of_char_bound: "(of_char c :: nat) < 256"
  using of_char_mod_256[of c, where 'a = nat] by (metis mod_less_divisor zero_less_numeral)

lemma of_char_nibbles: "(of_char c :: nat) div 16 < 16" "(of_char c :: nat) mod 16 < 16"
  using of_char_bound[of c] by (simp_all add: less_mult_imp_div_less)

lemma percent_decode_percent: "percent_decode (percent c @ s) = c # percent_decode s"
  by (simp add: percent_def hex_val_digit of_char_nibbles)

lemma percent_decode_plain: "c \<noteq> CHR ''%'' \<Longrightarrow> percent_decode (c # s) = c # percent_decode s"
  by (cases "(c # s)" rule: percent_decode.cases) auto

lemma unreserved_not_percent: "unreserved c \<Longrightarrow> c \<noteq> CHR ''%''"
  by (auto simp: unreserved_def)

lemma decode_encode: "percent_decode (encodeURIComponent s) = s"
proof (induction s)
  case (Cons c s)
  then show ?case
    by (cases "unreserved c")
      (simp_all add: encodeURIComponent_def percent_decode_plain unreserved_not_percent
        percent_decode_percent)
qed (simp add: encodeURIComponent_def)

lemma encode_chars: "c \<in> set (encodeURIComponent s) \<Longrightarrow> unreserved c \<or> c = CHR ''%''"
proof -
  have "unreserved x" if "x \<in> set (percent y)" "x \<noteq> CHR ''%''" for x y
    using that by (auto simp: percent_def hex_digit_unreserved of_char_nibbles)
  then show "c \<in> set (encodeURIComponent s) \<Longrightarrow> unreserved c \<or> c = CHR ''%''"
    by (auto simp: encodeURIComponent_def split: if_splits)
qed

text \<open>An encoded value holds no character that structures an address.\<close>

lemma encode_safe:
  "set (encodeURIComponent s) \<inter> set ''/?#&={},;:$[]'' = {}"
proof -
  have "\<not> unreserved c" if "c \<in> set ''/?#&={},;:$[]''" for c
    using that by (auto simp: unreserved_def)
  moreover have "CHR ''%'' \<notin> set ''/?#&={},;:$[]''" by simp
  ultimately show ?thesis using encode_chars by blast
qed

interpretation uri_codec: codec encodeURIComponent percent_decode "\<lambda>_. True"
  by unfold_locales (rule decode_encode)

section \<open>Styles\<close>

datatype style = StyleForm | SpaceDelimited | PipeDelimited | StyleLabel | StyleMatrix | StyleSimple | DeepObject

datatype serialize_error = DeeplyNested

definition separatorArrayExplode :: "style \<Rightarrow> string" where
  "separatorArrayExplode st =
     (case st of StyleLabel \<Rightarrow> ''.'' | StyleMatrix \<Rightarrow> '';'' | StyleSimple \<Rightarrow> '','' | _ \<Rightarrow> ''&'')"

definition separatorArrayNoExplode :: "style \<Rightarrow> string" where
  "separatorArrayNoExplode st =
     (case st of StyleForm \<Rightarrow> '','' | PipeDelimited \<Rightarrow> ''|'' | SpaceDelimited \<Rightarrow> ''%20'' | _ \<Rightarrow> '','')"

definition separatorObjectExplode :: "style \<Rightarrow> string" where
  "separatorObjectExplode st =
     (case st of StyleLabel \<Rightarrow> ''.'' | StyleMatrix \<Rightarrow> '';'' | StyleSimple \<Rightarrow> '','' | _ \<Rightarrow> ''&'')"

text \<open>An element as \<open>Array.prototype.join\<close> writes it.\<close>

definition join_text :: "text_env \<Rightarrow> js_value \<Rightarrow> string" where
  "join_text te v = (if is_nullish v then [] else js_text te v)"

definition value_text :: "text_env \<Rightarrow> bool \<Rightarrow> js_value \<Rightarrow> string" where
  "value_text te allowReserved v =
     (if allowReserved then join_text te v else encodeURIComponent (js_text te v))"

definition serializePrimitiveParam ::
  "text_env \<Rightarrow> bool \<Rightarrow> string \<Rightarrow> js_value \<Rightarrow> serialize_error + string" where
  "serializePrimitiveParam te allowReserved name v =
     (if is_nullish v then Inr []
      else if typeof_object v then Inl DeeplyNested
      else Inr (name @ ''='' @ (if allowReserved then js_text te v else encodeURIComponent (js_text te v))))"

text \<open>All the results, or the first failure.\<close>

fun collect :: "('e + 'a) list \<Rightarrow> 'e + 'a list" where
  "collect [] = Inr []"
| "collect (Inl e # rs) = Inl e"
| "collect (Inr x # rs) = (case collect rs of Inl e \<Rightarrow> Inl e | Inr xs \<Rightarrow> Inr (x # xs))"

definition map_result :: "('a \<Rightarrow> 'b) \<Rightarrow> 'e + 'a \<Rightarrow> 'e + 'b" where
  "map_result f r = (case r of Inl e \<Rightarrow> Inl e | Inr x \<Rightarrow> Inr (f x))"

definition serializeArrayParam ::
  "text_env \<Rightarrow> bool \<Rightarrow> bool \<Rightarrow> string \<Rightarrow> style \<Rightarrow> js_value list \<Rightarrow> serialize_error + string" where
  "serializeArrayParam te allowReserved explode name st v =
     (if \<not> explode then
        (let joinedValues = join (separatorArrayNoExplode st) (map (value_text te allowReserved) v)
         in Inr (case st of
              StyleLabel \<Rightarrow> ''.'' @ joinedValues
            | StyleMatrix \<Rightarrow> '';'' @ name @ ''='' @ joinedValues
            | StyleSimple \<Rightarrow> joinedValues
            | _ \<Rightarrow> name @ ''='' @ joinedValues))
      else
        (let separator = separatorArrayExplode st
         in map_result
              (\<lambda>texts. if st = StyleLabel \<or> st = StyleMatrix then separator @ join separator texts
                       else join separator texts)
              (collect (map (\<lambda>x. if st = StyleLabel \<or> st = StyleSimple
                                 then Inr (value_text te allowReserved x)
                                 else serializePrimitiveParam te allowReserved name x) v))))"

text \<open>A date is written in ISO format; other objects by their entries.\<close>

definition serializeObjectParam ::
  "text_env \<Rightarrow> bool \<Rightarrow> bool \<Rightarrow> string \<Rightarrow> style \<Rightarrow> bool \<Rightarrow> string + (string \<times> js_value) list \<Rightarrow>
   serialize_error + string" where
  "serializeObjectParam te allowReserved explode name st valueOnly v =
     (case v of
        Inl date \<Rightarrow> Inr (if valueOnly then date else name @ ''='' @ date)
      | Inr entries \<Rightarrow>
         if st \<noteq> DeepObject \<and> \<not> explode then
           (let joinedValues = join '',''
                  (List.maps (\<lambda>(key, x). [key, value_text te allowReserved x]) entries)
            in Inr (case st of
                 StyleForm \<Rightarrow> name @ ''='' @ joinedValues
               | StyleLabel \<Rightarrow> ''.'' @ joinedValues
               | StyleMatrix \<Rightarrow> '';'' @ name @ ''='' @ joinedValues
               | _ \<Rightarrow> joinedValues))
         else
           (let separator = separatorObjectExplode st
            in map_result
                 (\<lambda>texts. if st = StyleLabel \<or> st = StyleMatrix then separator @ join separator texts
                          else join separator texts)
                 (collect (map (\<lambda>(key, x).
                    serializePrimitiveParam te allowReserved
                      (if st = DeepObject then name @ ''['' @ key @ '']'' else key) x) entries))))"

section \<open>Paths\<close>

definition brace :: "char \<Rightarrow> bool" where
  "brace c = (c = CHR ''{'' \<or> c = CHR ''}'')"

text \<open>The names between braces that \<open>/\{[^{}]+\}/g\<close> finds, from left to right.\<close>

function path_params :: "string \<Rightarrow> string list" where
  "path_params s =
     (case s of
        [] \<Rightarrow> []
      | c # r \<Rightarrow>
         (let name = takeWhile (\<lambda>x. \<not> brace x) r; rest = dropWhile (\<lambda>x. \<not> brace x) r
          in if c = CHR ''{'' \<and> name \<noteq> [] \<and> rest \<noteq> [] \<and> hd rest = CHR ''}''
             then name # path_params (tl rest) else path_params r))"
  by pat_completeness auto
termination
  by (relation "measure length")
    (auto simp: less_Suc_eq_le intro: le_trans[OF diff_le_self length_dropWhile_le])

declare path_params.simps [simp del]

text \<open>The style a placeholder asks for: \<open>{name*}\<close> explodes, \<open>{.name}\<close> and \<open>{;name}\<close> are label and matrix.\<close>

definition placeholder_style :: "string \<Rightarrow> bool \<times> string \<times> style" where
  "placeholder_style raw =
     (let explode = ends_with raw ''*'';
          name = (if explode then butlast raw else raw)
      in if starts_with name ''.'' then (explode, tl name, StyleLabel)
         else if starts_with name '';'' then (explode, tl name, StyleMatrix)
         else (explode, name, StyleSimple))"

definition replace_param ::
  "text_env \<Rightarrow> (string \<times> js_value) list \<Rightarrow> string \<Rightarrow> string \<Rightarrow> serialize_error + string" where
  "replace_param te path raw url =
     (let (explode, name, st) = placeholder_style raw; v = obj_get path name;
          put = map_result (js_replace url (''{'' @ raw @ ''}''))
      in case v of
           JArr vs \<Rightarrow> put (serializeArrayParam te False explode name st vs)
         | JDate date \<Rightarrow> put (serializeObjectParam te False explode name st True (Inl date))
         | JObj entries \<Rightarrow> put (serializeObjectParam te False explode name st True (Inr entries))
         | JBlob _ \<Rightarrow> put (serializeObjectParam te False explode name st True (Inr []))
         | JForm _ \<Rightarrow> put (serializeObjectParam te False explode name st True (Inr []))
         | _ \<Rightarrow>
            if is_nullish v then Inr url
            else if st = StyleMatrix
            then put (map_result (\<lambda>t. '';'' @ t) (serializePrimitiveParam te False name v))
            else put (Inr (encodeURIComponent
              (if st = StyleLabel then ''.'' @ js_text te v else js_text te v))))"

fun replace_params ::
  "text_env \<Rightarrow> (string \<times> js_value) list \<Rightarrow> string list \<Rightarrow> string \<Rightarrow> serialize_error + string" where
  "replace_params te path [] url = Inr url"
| "replace_params te path (raw # raws) url =
     (case replace_param te path raw url of
        Inl e \<Rightarrow> Inl e
      | Inr url' \<Rightarrow> replace_params te path raws url')"

definition defaultPathSerializer ::
  "text_env \<Rightarrow> (string \<times> js_value) list \<Rightarrow> string \<Rightarrow> serialize_error + string" where
  "defaultPathSerializer te path url = replace_params te path (path_params url) url"

definition getUrl ::
  "text_env \<Rightarrow> string option \<Rightarrow> (string \<times> js_value) list option \<Rightarrow> (string \<times> js_value) list option \<Rightarrow>
   ((string \<times> js_value) list \<Rightarrow> serialize_error + string) \<Rightarrow> string \<Rightarrow> serialize_error + string" where
  "getUrl te baseUrl path query querySerializer rawUrl =
     (let pathUrl = (if starts_with rawUrl ''/'' then rawUrl else ''/'' @ rawUrl);
          url = nullish baseUrl [] @ pathUrl
      in case (case path of None \<Rightarrow> Inr url | Some p \<Rightarrow> defaultPathSerializer te p url) of
           Inl e \<Rightarrow> Inl e
         | Inr url' \<Rightarrow>
            (case (case query of None \<Rightarrow> Inr [] | Some q \<Rightarrow> querySerializer q) of
               Inl e \<Rightarrow> Inl e
             | Inr search \<Rightarrow>
                (let search' = (if starts_with search ''?'' then tl search else search)
                 in Inr (if search' \<noteq> [] then url' @ ''?'' @ search' else url'))))"

section \<open>Templates\<close>

text \<open>The addresses of the API: text without braces and plain placeholders.\<close>

datatype url_part = Lit string | Param string

fun part_template :: "url_part \<Rightarrow> string" where
  "part_template (Lit s) = s"
| "part_template (Param n) = ''{'' @ n @ ''}''"

definition template :: "url_part list \<Rightarrow> string" where
  "template ps = concat (map part_template ps)"

definition plain_name :: "string \<Rightarrow> bool" where
  "plain_name n = (n \<noteq> [] \<and> list_all (\<lambda>c. \<not> brace c) n \<and>
     hd n \<notin> {CHR ''.'', CHR '';''} \<and> last n \<noteq> CHR ''*'')"

fun plain_part :: "url_part \<Rightarrow> bool" where
  "plain_part (Lit s) = list_all (\<lambda>c. \<not> brace c) s"
| "plain_part (Param n) = plain_name n"

definition simple_value :: "js_value \<Rightarrow> bool" where
  "simple_value v = (\<not> is_nullish v \<and> \<not> typeof_object v)"

fun fill_part :: "text_env \<Rightarrow> (string \<times> js_value) list \<Rightarrow> url_part \<Rightarrow> string" where
  "fill_part te path (Lit s) = s"
| "fill_part te path (Param n) = encodeURIComponent (js_text te (obj_get path n))"

lemma encode_no_brace: "list_all (\<lambda>c. \<not> brace c) (encodeURIComponent s)"
  using encode_safe[of s] by (auto simp: brace_def list.pred_set)

lemma encode_no_dollar: "CHR ''$'' \<notin> set (encodeURIComponent s)"
  using encode_safe[of s] by auto

lemma path_params_skip: "list_all (\<lambda>c. \<not> brace c) s \<Longrightarrow> path_params (s @ r) = path_params r"
proof (induction s)
  case (Cons c s)
  then show ?case
    by (subst path_params.simps) (auto simp: brace_def Let_def)
qed simp

lemma path_params_param:
  assumes "n \<noteq> []" "list_all (\<lambda>c. \<not> brace c) n"
  shows "path_params (''{'' @ n @ ''}'' @ r) = n # path_params r"
proof -
  have "takeWhile (\<lambda>x. \<not> brace x) (n @ CHR ''}'' # r) = n"
    "dropWhile (\<lambda>x. \<not> brace x) (n @ CHR ''}'' # r) = CHR ''}'' # r"
    using assms(2) by (simp_all add: takeWhile_append2 dropWhile_append2 list.pred_set brace_def)
  with assms show ?thesis
    by (subst path_params.simps) (simp add: Let_def brace_def del: takeWhile_append dropWhile_append)
qed

fun param_names :: "url_part list \<Rightarrow> string list" where
  "param_names [] = []"
| "param_names (Lit s # ps) = param_names ps"
| "param_names (Param n # ps) = n # param_names ps"

lemma path_params_template: "list_all plain_part ps \<Longrightarrow> path_params (template ps) = param_names ps"
proof (induction ps rule: param_names.induct)
  case 1
  then show ?case by (simp add: template_def path_params.simps)
next
  case (2 s ps)
  then show ?case by (simp add: template_def path_params_skip)
next
  case (3 n ps)
  then show ?case
    using path_params_param[of n "template ps"] by (simp add: template_def plain_name_def)
qed

lemma placeholder_style_plain: "plain_name n \<Longrightarrow> placeholder_style n = (False, n, StyleSimple)"
proof -
  assume n: "plain_name n"
  then have "\<not> ends_with n ''*''" by (auto simp: plain_name_def ends_with_iff)
  moreover from n have "\<not> starts_with n ''.''" "\<not> starts_with n '';''"
    by (auto simp: plain_name_def starts_with_iff)
  ultimately show ?thesis by (simp add: placeholder_style_def)
qed

lemma replace_param_plain:
  assumes "plain_name n" "simple_value (obj_get path n)" "CHR ''{'' \<notin> set b"
  shows "replace_param te path n (b @ ''{'' @ n @ ''}'' @ r)
    = Inr (b @ encodeURIComponent (js_text te (obj_get path n)) @ r)"
proof -
  have "find_text (''{'' @ n @ ''}'') (b @ ''{'' @ n @ ''}'' @ r) = Some (b, r)"
    using find_text_skip[OF assms(3), of "n @ ''}''" r] by simp
  then have "js_replace (b @ ''{'' @ n @ ''}'' @ r) (''{'' @ n @ ''}'') t = b @ t @ r"
    if "CHR ''$'' \<notin> set t" for t
    using that by (simp add: js_replace_def expand_replacement_id)
  with assms(2) show ?thesis
    by (cases "obj_get path n")
      (simp_all add: replace_param_def placeholder_style_plain[OF assms(1)] simple_value_def
        is_nullish_def map_result_def encode_no_dollar)
qed

text \<open>The placeholders are replaced from left to right, each by its own encoded value.\<close>

lemma replace_params_template:
  assumes "list_all plain_part ps" "\<forall>n \<in> set (param_names ps). simple_value (obj_get path n)"
    and "CHR ''{'' \<notin> set b"
  shows "replace_params te path (param_names ps) (b @ template ps)
    = Inr (b @ concat (map (fill_part te path) ps))"
  using assms
proof (induction ps arbitrary: b rule: param_names.induct)
  case (2 s ps)
  have "CHR ''{'' \<notin> set (b @ s)" using 2 by (auto simp: brace_def list.pred_set)
  with 2 show ?case using "2.IH"[of "b @ s"] by (simp add: template_def)
next
  case (3 n ps)
  let ?t = "encodeURIComponent (js_text te (obj_get path n))"
  have "CHR ''{'' \<notin> set (b @ ?t)"
    using 3 encode_no_brace[of "js_text te (obj_get path n)"] by (auto simp: brace_def list.pred_set)
  with 3 have "replace_params te path (param_names ps) ((b @ ?t) @ template ps)
      = Inr ((b @ ?t) @ concat (map (fill_part te path) ps))"
    by (intro "3.IH") auto
  moreover have "replace_param te path n (b @ ''{'' @ n @ ''}'' @ template ps) = Inr (b @ ?t @ template ps)"
    using 3 by (intro replace_param_plain) auto
  ultimately show ?case by (simp add: template_def)
qed (simp add: template_def)

section \<open>Properties\<close>

text \<open>C15: A value written into an address or a query can be read back from it, and never changes its
  structure: what is written has no separator or brace, and no percent sign other than the ones of its
  escapes. A parameter that has been written is its name, an equals sign and that text.\<close>

theorem encoding_safe:
  "percent_decode (value_text te False v) = js_text te v \<and>
   set (value_text te False v) \<inter> set ''/?#&={},;:$[]'' = {} \<and>
   (value_text te False v = value_text te False w) = (js_text te v = js_text te w) \<and>
   (case serializePrimitiveParam te False name v of
      Inl _ \<Rightarrow> typeof_object v
    | Inr t \<Rightarrow> t = (if is_nullish v then [] else name @ ''='' @ value_text te False v))"
  using uri_codec.enc_inject[of "js_text te v" "js_text te w"] decode_encode encode_safe
  by (auto simp: value_text_def serializePrimitiveParam_def)

text \<open>C14: The address of a request: in a template of the API every placeholder is replaced by the encoded
  value of its own parameter, from left to right, and nothing else changes; a value that contains braces or
  dollar signs does not disturb the placeholders after it.\<close>

theorem template_filled:
  assumes "list_all plain_part ps" "\<forall>n \<in> set (param_names ps). simple_value (obj_get path n)"
  shows "defaultPathSerializer te path (template ps) = Inr (concat (map (fill_part te path) ps))"
  using replace_params_template[OF assms, of "[]"] path_params_template[OF assms(1)]
  by (simp add: defaultPathSerializer_def)

definition plainText :: text_env where
  "plainText = \<lparr>te_num = (\<lambda>_. []), te_date = id, te_other = (\<lambda>_. [])\<rparr>"

theorem template_filled_witness:
  "defaultPathSerializer plainText [(''tournament_id'', JStr ''a{b}$&''), (''team_id'', JBool True)]
     ''/tournaments/{tournament_id}/teams/{team_id}'' = Inr ''/tournaments/a%7Bb%7D%24%26/teams/true''"
proof -
  let ?ps = "[Lit ''/tournaments/'', Param ''tournament_id'', Lit ''/teams/'', Param ''team_id'']"
  have enc: "encodeURIComponent ''a{b}$&'' = ''a%7Bb%7D%24%26''" "encodeURIComponent ''true'' = ''true''"
    by code_simp+
  have "defaultPathSerializer plainText [(''tournament_id'', JStr ''a{b}$&''), (''team_id'', JBool True)] (template ?ps)
      = Inr (concat (map (fill_part plainText [(''tournament_id'', JStr ''a{b}$&''), (''team_id'', JBool True)]) ?ps))"
    by (rule template_filled)
      (simp_all add: plain_name_def brace_def simple_value_def is_nullish_def obj_get_def)
  then show ?thesis by (simp add: template_def obj_get_def enc)
qed

end
