(* ===== verification/ClientCore.thy ===== *)
theory ClientCore
  imports PathSerializer
begin

text \<open>
  The parts of a request (\<open>frontend/src/openapi/core\<close>): tokens (\<open>auth.gen.ts\<close>), bodies
  (\<open>bodySerializer.gen.ts\<close>, \<open>getValidRequestBody\<close> of \<open>utils.gen.ts\<close>) and the keys of the query
  cache (\<open>queryKeySerializer.gen.ts\<close>).
\<close>

section \<open>Errors\<close>

datatype client_error =
    SerializeError serialize_error
  | TypeErr
  | Refused js_value \<comment> \<open>what a validator or transformer throws\<close>
  | AxiosFailure js_value "js_value option" \<comment> \<open>the error, and the data of its response\<close>

section \<open>Tokens\<close>

datatype auth_in = InHeader | InQuery | InCookie

datatype auth_scheme = SchemeBasic | SchemeBearer

datatype auth_type = ApiKey | Http

record Auth =
  auth_in :: "auth_in option"
  auth_key :: "string option"
  auth_name :: "string option"
  auth_scheme :: "auth_scheme option"
  auth_type :: auth_type

text \<open>\<open>btoa\<close>\<close>

definition base64_char :: "nat \<Rightarrow> char" where
  "base64_char n =
     (if n < 26 then char_of (65 + n) else if n < 52 then char_of (71 + n)
      else if n < 62 then char_of (n - 4) else if n = 62 then CHR ''+'' else CHR ''/'')"

fun base64 :: "string \<Rightarrow> string" where
  "base64 (a # b # c # s) =
     (let n = (of_char a * 65536 + of_char b * 256 + of_char c :: nat)
      in [base64_char (n div 262144), base64_char (n div 4096 mod 64), base64_char (n div 64 mod 64),
          base64_char (n mod 64)] @ base64 s)"
| "base64 [a, b] =
     (let n = (of_char a * 1024 + of_char b * 4 :: nat)
      in [base64_char (n div 4096), base64_char (n div 64 mod 64), base64_char (n mod 64), CHR ''=''])"
| "base64 [a] =
     (let n = (of_char a * 16 :: nat)
      in [base64_char (n div 64), base64_char (n mod 64), CHR ''='', CHR ''=''])"
| "base64 [] = []"

text \<open>The token, or a callback that gives one for the scheme. \<open>None\<close> is undefined.\<close>

datatype auth_source = AuthToken "string option" | AuthCallback "Auth \<Rightarrow> string option"

definition getAuthToken :: "Auth \<Rightarrow> auth_source \<Rightarrow> string option" where
  "getAuthToken auth callback =
     (let token = (case callback of AuthCallback f \<Rightarrow> f auth | AuthToken t \<Rightarrow> t)
      in case token of
           None \<Rightarrow> None
         | Some t \<Rightarrow>
            if t = [] then None
            else if auth_scheme auth = Some SchemeBearer then Some (''Bearer '' @ t)
            else if auth_scheme auth = Some SchemeBasic then Some (''Basic '' @ base64 t)
            else Some t)"

section \<open>Bodies\<close>

text \<open>What \<open>append\<close> makes of \<open>JSON.stringify(value)\<close> when that is undefined.\<close>

definition append_json :: "text_env \<Rightarrow> js_value \<Rightarrow> client_error + string" where
  "append_json te v =
     (if has_bigint v then Inl TypeErr else Inr (nullish (json_text te v) ''undefined''))"

definition serializeFormDataPair :: "text_env \<Rightarrow> string \<Rightarrow> js_value \<Rightarrow> client_error + string \<times> js_value" where
  "serializeFormDataPair te key value =
     (case value of
        JStr s \<Rightarrow> Inr (key, JStr s)
      | JBlob b \<Rightarrow> Inr (key, JBlob b)
      | JDate d \<Rightarrow> Inr (key, JStr d)
      | _ \<Rightarrow> map_result (\<lambda>t. (key, JStr t)) (append_json te value))"

definition serializeUrlSearchParamsPair :: "text_env \<Rightarrow> string \<Rightarrow> js_value \<Rightarrow> client_error + string \<times> string" where
  "serializeUrlSearchParamsPair te key value =
     (case value of
        JStr s \<Rightarrow> Inr (key, s)
      | _ \<Rightarrow> map_result (\<lambda>t. (key, t)) (append_json te value))"

text \<open>The entries of a body: nullish ones are left out, an array gives one entry for each element.\<close>

definition body_pairs :: "js_value \<Rightarrow> (string \<times> js_value) list" where
  "body_pairs body =
     List.maps (\<lambda>(key, value).
       if is_nullish value then []
       else (case value of JArr vs \<Rightarrow> map (Pair key) vs | _ \<Rightarrow> [(key, value)]))
     (own_entries body)"

definition formDataBodySerializer :: "text_env \<Rightarrow> js_value \<Rightarrow> client_error + js_value" where
  "formDataBodySerializer te body =
     (if is_nullish body then Inl TypeErr
      else map_result JForm (collect (map (\<lambda>(k, v). serializeFormDataPair te k v) (body_pairs body))))"

definition jsonBodySerializer :: "text_env \<Rightarrow> js_value \<Rightarrow> client_error + js_value" where
  "jsonBodySerializer te body =
     Inr (case json_text te body of None \<Rightarrow> JUndefined | Some t \<Rightarrow> JStr t)"

text \<open>\<open>URLSearchParams.prototype.toString\<close> writes a space as a plus sign.\<close>

definition form_plain :: "char \<Rightarrow> bool" where
  "form_plain c =
     (let n = (of_char c :: nat)
      in (48 \<le> n \<and> n \<le> 57) \<or> (65 \<le> n \<and> n \<le> 90) \<or> (97 \<le> n \<and> n \<le> 122) \<or>
         c \<in> set ''*-._'')"

definition form_encode :: "string \<Rightarrow> string" where
  "form_encode s =
     concat (map (\<lambda>c. if form_plain c then [c] else if c = CHR '' '' then ''+'' else percent c) s)"

definition form_text :: "(string \<times> string) list \<Rightarrow> string" where
  "form_text pairs = join ''&'' (map (\<lambda>(k, v). form_encode k @ ''='' @ form_encode v) pairs)"

definition urlSearchParamsBodySerializer :: "text_env \<Rightarrow> js_value \<Rightarrow> client_error + js_value" where
  "urlSearchParamsBodySerializer te body =
     (if is_nullish body then Inl TypeErr
      else map_result (\<lambda>ps. JStr (form_text ps))
        (collect (map (\<lambda>(k, v). serializeUrlSearchParamsPair te k v) (body_pairs body))))"

text \<open>
  The body that is sent. \<open>serialized\<close> is the option \<open>serializedBody\<close>, \<open>None\<close> where the options have no
  such key.
\<close>

definition getValidRequestBody :: "js_value \<Rightarrow> bool \<Rightarrow> js_value option \<Rightarrow> js_value" where
  "getValidRequestBody body hasSerializer serialized =
     (let hasBody = (body \<noteq> JUndefined)
      in if hasBody \<and> hasSerializer
         then (case serialized of
            Some s \<Rightarrow> if s \<noteq> JUndefined \<and> s \<noteq> JStr [] then s else JNull
          | None \<Rightarrow> if body \<noteq> JStr [] then body else JNull)
         else if hasBody then body else JUndefined)"

section \<open>Keys of the query cache\<close>

text \<open>\<open>JSON.parse(JSON.stringify(value, replacer))\<close> on the value itself.\<close>

fun to_json :: "js_value \<Rightarrow> js_value" where
  "to_json (JNum n) = (case n of Fin _ \<Rightarrow> JNum n | _ \<Rightarrow> JNull)"
| "to_json (JBigInt i) = JStr (int_text i)"
| "to_json (JDate s) = JStr s"
| "to_json (JArr vs) =
     JArr (map (\<lambda>v. let j = to_json v in if j = JUndefined then JNull else j) vs)"
| "to_json (JObj es) =
     JObj (filter (\<lambda>e. snd e \<noteq> JUndefined) (map (\<lambda>e. (fst e, to_json (snd e))) es))"
| "to_json JSymbol = JUndefined"
| "to_json JFunction = JUndefined"
| "to_json (JBlob _) = JObj []"
| "to_json (JForm _) = JObj []"
| "to_json v = v"

definition stringifyToJsonValue :: "js_value \<Rightarrow> js_value" where
  "stringifyToJsonValue v = to_json v"

text \<open>
  Repeated parameters become an array. The source collects them in \<open>{}\<close>, so the members of
  \<open>Object.prototype\<close> are found like entries. A parameter called \<open>__proto__\<close> never becomes an entry (it
  replaces the prototype, which the model does not follow further).
\<close>

definition object_members :: "string list" where
  "object_members =
     [''constructor'', ''hasOwnProperty'', ''isPrototypeOf'', ''propertyIsEnumerable'', ''toLocaleString'',
      ''toString'', ''valueOf'', ''__defineGetter__'', ''__defineSetter__'', ''__lookupGetter__'',
      ''__lookupSetter__'']"

definition result_get :: "(string \<times> js_value) list \<Rightarrow> string \<Rightarrow> js_value" where
  "result_get result key =
     (case map_of result key of
        Some v \<Rightarrow> v
      | None \<Rightarrow> if key \<in> set object_members then JFunction else JUndefined)"

definition add_search_param :: "(string \<times> js_value) list \<Rightarrow> string \<times> string \<Rightarrow> (string \<times> js_value) list" where
  "add_search_param result = (\<lambda>(key, value).
     if key = ''__proto__'' then result
     else (case result_get result key of
       JUndefined \<Rightarrow> obj_set key (JStr value) result
     | JArr vs \<Rightarrow> obj_set key (JArr (vs @ [JStr value])) result
     | existing \<Rightarrow> obj_set key (JArr [existing, JStr value]) result))"

text \<open>The keys are sorted first.\<close>

definition serializeSearchParams ::
  "(string \<Rightarrow> string \<Rightarrow> int) \<Rightarrow> (string \<times> string) list \<Rightarrow> js_value" where
  "serializeSearchParams localeCompare params =
     JObj (foldl add_search_param [] (js_sort (\<lambda>a b. localeCompare (fst a) (fst b)) params))"

text \<open>What a query key may hold: a value, search parameters or an instance of another class.\<close>

datatype key_input = KeyValue js_value | KeySearchParams "(string \<times> string) list" | KeyInstance

definition serializeQueryKeyValue :: "(string \<Rightarrow> string \<Rightarrow> int) \<Rightarrow> key_input \<Rightarrow> js_value" where
  "serializeQueryKeyValue localeCompare value =
     (case value of
        KeySearchParams params \<Rightarrow> serializeSearchParams localeCompare params
      | KeyInstance \<Rightarrow> JUndefined
      | KeyValue v \<Rightarrow>
         (case v of
            JNull \<Rightarrow> JNull
          | JStr s \<Rightarrow> JStr s
          | JNum n \<Rightarrow> JNum n
          | JBool b \<Rightarrow> JBool b
          | JUndefined \<Rightarrow> JUndefined
          | JFunction \<Rightarrow> JUndefined
          | JSymbol \<Rightarrow> JUndefined
          | JBigInt i \<Rightarrow> JStr (int_text i)
          | JDate s \<Rightarrow> JStr s
          | JArr vs \<Rightarrow> stringifyToJsonValue (JArr vs)
          | JObj es \<Rightarrow> stringifyToJsonValue (JObj es)
          | JBlob _ \<Rightarrow> JUndefined
          | JForm _ \<Rightarrow> JUndefined))"

text \<open>A value that JSON can hold.\<close>

fun json_value :: "js_value \<Rightarrow> bool" where
  "json_value JNull = True"
| "json_value (JBool _) = True"
| "json_value (JStr _) = True"
| "json_value (JNum n) = (case n of Fin _ \<Rightarrow> True | _ \<Rightarrow> False)"
| "json_value (JArr vs) = list_all json_value vs"
| "json_value (JObj es) = list_all (\<lambda>e. json_value (snd e)) es"
| "json_value _ = False"

lemma to_json_value: "to_json v = JUndefined \<or> json_value (to_json v)"
  by (induction v rule: to_json.induct) (auto simp: list_all_iff Let_def split: js_num.splits)

lemma to_json_id: "json_value v \<Longrightarrow> to_json v = v"
proof (induction v rule: json_value.induct)
  case (5 vs)
  then have "map (\<lambda>v. let j = to_json v in if j = JUndefined then JNull else j) vs = vs"
    by (intro map_idI) (auto simp: list_all_iff Let_def)
  then show ?case by simp
next
  case (6 es)
  then have "map (\<lambda>e. (fst e, to_json (snd e))) es = es"
    by (intro map_idI) (auto simp: list_all_iff)
  moreover have "filter (\<lambda>e. snd e \<noteq> JUndefined) es = es"
    using 6 by (auto simp: list_all_iff filter_id_conv)
  ultimately show ?case by simp
qed (auto split: js_num.splits)

lemma to_json_idem: "to_json (to_json v) = to_json v"
  using to_json_value[of v] to_json_id by fastforce

text \<open>The values a query key holds for a search parameter.\<close>

definition param_values :: "js_value \<Rightarrow> js_value list" where
  "param_values v = (case v of JUndefined \<Rightarrow> [] | JArr vs \<Rightarrow> vs | v \<Rightarrow> [v])"

lemma filter_js_insert:
  assumes "\<And>y. y \<in> set xs \<Longrightarrow> P x \<Longrightarrow> P y \<Longrightarrow> cmp x y \<le> 0"
  shows "filter P (js_insert cmp x xs) = filter P (x # xs)"
  using assms by (induction xs) auto

lemma filter_js_sort:
  assumes "\<And>x y. P x \<Longrightarrow> P y \<Longrightarrow> cmp x y \<le> 0"
  shows "filter P (js_sort cmp xs) = filter P xs"
  using assms by (induction xs) (simp_all add: filter_js_insert)

lemma result_get_set [simp]: "result_get (obj_set k v r) k' = (if k' = k then v else result_get r k')"
  by (simp add: result_get_def)

text \<open>Every entry is a text, or an array of texts.\<close>

definition param_entry :: "js_value \<Rightarrow> bool" where
  "param_entry v \<longleftrightarrow> v = JUndefined \<or> (\<exists>s. v = JStr s) \<or> (\<exists>ss. v = JArr (map JStr ss))"

lemma add_search_param_values:
  assumes "k \<notin> set object_members" "k \<noteq> ''__proto__''" "param_entry (result_get r k)"
  shows "param_entry (result_get (add_search_param r p) k) \<and>
    param_values (result_get (add_search_param r p) k) =
      param_values (result_get r k) @ (if fst p = k then [JStr (snd p)] else [])"
proof (cases "fst p = k")
  case True
  from assms(3) consider "result_get r k = JUndefined" | x where "result_get r k = JStr x"
    | ss where "result_get r k = JArr (map JStr ss)"
    by (auto simp: param_entry_def)
  then show ?thesis
  proof cases
    case (2 x)
    have "[JStr x, JStr (snd p)] = map JStr [x, snd p]" by simp
    with 2 True assms(2) show ?thesis
      by (simp add: add_search_param_def param_entry_def param_values_def split_beta del: list.map) blast
  next
    case (3 ss)
    have "map JStr ss @ [JStr (snd p)] = map JStr (ss @ [snd p])" by simp
    with 3 True assms(2) show ?thesis
      by (simp add: add_search_param_def param_entry_def param_values_def split_beta del: map_append) blast
  qed (use True assms(2) in \<open>simp add: add_search_param_def param_entry_def param_values_def split_beta\<close>)
next
  case False
  then have "result_get (add_search_param r p) k = result_get r k"
    by (cases "result_get r (fst p)") (simp_all add: add_search_param_def split_beta)
  with False assms(3) show ?thesis by simp
qed

lemma foldl_search_params:
  assumes "k \<notin> set object_members" "k \<noteq> ''__proto__''" "param_entry (result_get r k)"
  shows "param_values (result_get (foldl add_search_param r ps) k) =
    param_values (result_get r k) @ map (JStr \<circ> snd) (filter (\<lambda>p. fst p = k) ps)"
  using assms(3)
proof (induction ps arbitrary: r)
  case (Cons p ps)
  then show ?case using add_search_param_values[OF assms(1,2) Cons.prems, of p] by simp
qed simp

section \<open>Properties\<close>

text \<open>The key of a cached query is JSON: what JSON can hold is kept as it is, a number that JSON cannot
  hold may stay, all else is replaced or left out, and normalising a key again does not change it.\<close>

lemma query_key_json:
  "(let k = serializeQueryKeyValue localeCompare (KeyValue v)
    in (k = JUndefined \<or> json_value k \<or> (\<exists>n. v = JNum n \<and> k = v)) \<and>
       serializeQueryKeyValue localeCompare (KeyValue k) = k \<and>
       (if json_value v then k = v else True))"
proof -
  have flat: "serializeQueryKeyValue localeCompare (KeyValue (stringifyToJsonValue w)) = stringifyToJsonValue w"
    if "w = JArr vs \<or> w = JObj es" for w vs es
    using that to_json_idem[of w] by (auto simp: serializeQueryKeyValue_def stringifyToJsonValue_def)
  show ?thesis
    using to_json_value[of v] to_json_id[of v] flat[of v]
    by (cases v) (auto simp: Let_def serializeQueryKeyValue_def stringifyToJsonValue_def)
qed

text \<open>The key of search parameters holds every parameter with all its values, in the order they were
  given, so it does not matter in which order different parameters are given. (Apart from names that every
  object inherits.)\<close>

lemma search_key_complete:
  assumes "\<And>a. localeCompare a a = 0" "k \<notin> set object_members" "k \<noteq> ''__proto__''"
  shows "(case serializeQueryKeyValue localeCompare (KeySearchParams params) of
      JObj es \<Rightarrow> param_values (obj_get es k) = map (JStr \<circ> snd) (filter (\<lambda>p. fst p = k) params)
    | _ \<Rightarrow> False)"
proof -
  have get: "obj_get es k = result_get es k" for es
    using assms(2) by (simp add: obj_get_def result_get_def)
  have "filter (\<lambda>p. fst p = k) (js_sort (\<lambda>a b. localeCompare (fst a) (fst b)) params) = filter (\<lambda>p. fst p = k) params"
    by (rule filter_js_sort) (simp add: assms(1))
  moreover have "param_entry (result_get [] k)" "param_values (result_get [] k) = []"
    using assms(2) by (simp_all add: result_get_def param_entry_def param_values_def)
  ultimately show ?thesis
    by (simp add: serializeQueryKeyValue_def serializeSearchParams_def get foldl_search_params[OF assms(2,3)])
qed

lemma search_key_complete_witness:
  "(case serializeQueryKeyValue (\<lambda>a b. if a = b then 0 else if a = ''limit'' then -1 else 1)
      (KeySearchParams [(''sort'', ''name''), (''limit'', ''5''), (''sort'', ''id'')]) of
     JObj es \<Rightarrow> param_values (obj_get es ''sort'') = [JStr ''name'', JStr ''id'']
   | _ \<Rightarrow> False)"
  using search_key_complete[of "\<lambda>a b. if a = b then 0 else if a = ''limit'' then -1 else 1" "''sort''"
      "[(''sort'', ''name''), (''limit'', ''5''), (''sort'', ''id'')]"]
  by (simp add: object_members_def split: js_value.splits)

end
