(* ===== verification/HttpClient.thy ===== *)
theory HttpClient
  imports ClientCore
begin

text \<open>
  The generated HTTP client (\<open>frontend/src/openapi/client\<close>): the query serialiser, authentication
  parameters, the merging of configurations and headers (\<open>utils.gen.ts\<close>), and a request from its options
  to its outcome (\<open>client.gen.ts\<close>). Options are an object whose values are data or the functions a caller
  may give; axios is a parameter.
\<close>

section \<open>Options\<close>

record SerializerOptions =
  so_explode :: "bool option"
  so_style :: "style option"

record QuerySerializerOptions =
  qs_allowReserved :: bool
  qs_array :: SerializerOptions
  qs_object :: SerializerOptions

datatype opt_value =
    OVal js_value
  | OSecurity "Auth list"
  | OAuth auth_source
  | OBodySerializer "js_value \<Rightarrow> client_error + js_value"
  | OQuerySerializer "(string \<times> js_value) list \<Rightarrow> serialize_error + string"
  | OQueryOptions QuerySerializerOptions "string \<rightharpoonup> QuerySerializerOptions"
  | OParamsSerializer
  | OValidator "js_value \<Rightarrow> client_error + unit"
  | OTransformer "js_value \<Rightarrow> client_error + js_value"

type_synonym options = "(string \<times> opt_value) list"

definition opt_get :: "options \<Rightarrow> string \<Rightarrow> opt_value" where
  "opt_get os k = (case map_of os k of None \<Rightarrow> OVal JUndefined | Some v \<Rightarrow> v)"

text \<open>An option as a value; a function is one too.\<close>

definition auth_object :: "Auth \<Rightarrow> js_value" where
  "auth_object a =
     JObj ((case auth_in a of None \<Rightarrow> [] | Some i \<Rightarrow>
              [(''in'', JStr (case i of InHeader \<Rightarrow> ''header'' | InQuery \<Rightarrow> ''query'' | InCookie \<Rightarrow> ''cookie''))]) @
           (case auth_key a of None \<Rightarrow> [] | Some k \<Rightarrow> [(''key'', JStr k)]) @
           (case auth_name a of None \<Rightarrow> [] | Some n \<Rightarrow> [(''name'', JStr n)]) @
           (case auth_scheme a of None \<Rightarrow> [] | Some s \<Rightarrow>
              [(''scheme'', JStr (case s of SchemeBasic \<Rightarrow> ''basic'' | SchemeBearer \<Rightarrow> ''bearer''))]) @
           [(''type'', JStr (case auth_type a of ApiKey \<Rightarrow> ''apiKey'' | Http \<Rightarrow> ''http''))])"

definition opt_value_of :: "opt_value \<Rightarrow> js_value" where
  "opt_value_of o' =
     (case o' of
        OVal v \<Rightarrow> v
      | OSecurity auths \<Rightarrow> JArr (map auth_object auths)
      | OQueryOptions _ _ \<Rightarrow> JObj []
      | _ \<Rightarrow> JFunction)"

definition opt_val :: "options \<Rightarrow> string \<Rightarrow> js_value" where
  "opt_val os k = opt_value_of (opt_get os k)"

definition val_entries :: "js_value \<Rightarrow> (string \<times> js_value) list option" where
  "val_entries v = (case v of JObj es \<Rightarrow> Some es | _ \<Rightarrow> None)"

section \<open>The query serialiser\<close>

definition default_query_options :: QuerySerializerOptions where
  "default_query_options =
     \<lparr>qs_allowReserved = False, qs_array = \<lparr>so_explode = None, so_style = None\<rparr>,
      qs_object = \<lparr>so_explode = None, so_style = None\<rparr>\<rparr>"

definition query_part ::
  "text_env \<Rightarrow> QuerySerializerOptions \<Rightarrow> string \<Rightarrow> js_value \<Rightarrow> serialize_error + string" where
  "query_part te opts name value =
     (case value of
        JArr vs \<Rightarrow>
          serializeArrayParam te (qs_allowReserved opts) (nullish (so_explode (qs_array opts)) True) name
            (nullish (so_style (qs_array opts)) StyleForm) vs
      | _ \<Rightarrow>
         if typeof_object value then
           serializeObjectParam te (qs_allowReserved opts) (nullish (so_explode (qs_object opts)) True) name
             (nullish (so_style (qs_object opts)) DeepObject) False
             (case value of JDate d \<Rightarrow> Inl d | v \<Rightarrow> Inr (own_entries v))
         else serializePrimitiveParam te (qs_allowReserved opts) name value)"

definition createQuerySerializer ::
  "text_env \<Rightarrow> QuerySerializerOptions \<Rightarrow> (string \<rightharpoonup> QuerySerializerOptions) \<Rightarrow>
   (string \<times> js_value) list \<Rightarrow> serialize_error + string" where
  "createQuerySerializer te args parameters queryParams =
     map_result (\<lambda>search. join ''&'' (filter (\<lambda>s. s \<noteq> []) search))
       (collect (map (\<lambda>(name, value). query_part te (nullish (parameters name) args) name value)
         (filter (\<lambda>(_, value). \<not> is_nullish value) queryParams)))"

section \<open>Authentication\<close>

text \<open>The parts of the options that authentication reads and writes.\<close>

record auth_parts =
  ap_headers :: "(string \<times> js_value) list"
  ap_query :: "(string \<times> js_value) list option"

definition checkForExistence :: "auth_parts \<Rightarrow> string option \<Rightarrow> bool" where
  "checkForExistence options name =
     (case name of
        None \<Rightarrow> False
      | Some n \<Rightarrow>
         if n = [] then False
         else if obj_has (ap_headers options) n \<or>
                 (case ap_query options of None \<Rightarrow> False | Some q \<Rightarrow> truthy (obj_get q n)) then True
         else (case obj_get (ap_headers options) ''Cookie'' of
                 JStr cookie \<Rightarrow> cookie \<noteq> [] \<and> str_includes cookie (n @ ''='')
               | _ \<Rightarrow> False))"

definition setAuthParam :: "text_env \<Rightarrow> auth_source \<Rightarrow> Auth \<Rightarrow> auth_parts \<Rightarrow> auth_parts" where
  "setAuthParam te source auth options =
     (if checkForExistence options (auth_name auth) then options
      else (case getAuthToken auth source of
         None \<Rightarrow> options
       | Some token \<Rightarrow>
          (let name = nullish (auth_name auth) ''Authorization''
           in case auth_in auth of
                Some InQuery \<Rightarrow>
                  options\<lparr>ap_query := Some (obj_set name (JStr token) (nullish (ap_query options) []))\<rparr>
              | Some InCookie \<Rightarrow>
                  (let value = name @ ''='' @ token; old = obj_get (ap_headers options) ''Cookie''
                   in options\<lparr>ap_headers := obj_set ''Cookie''
                        (JStr (if truthy old then js_text te old @ ''; '' @ value else value))
                        (ap_headers options)\<rparr>)
              | _ \<Rightarrow> options\<lparr>ap_headers := obj_set name (JStr token) (ap_headers options)\<rparr>)))"

definition setAuthParams :: "text_env \<Rightarrow> auth_source \<Rightarrow> Auth list \<Rightarrow> auth_parts \<Rightarrow> auth_parts" where
  "setAuthParams te source security options =
     foldl (\<lambda>o' auth. setAuthParam te source auth o') options security"

section \<open>Headers and configurations\<close>

definition axiosHeadersKeywords :: "string list" where
  "axiosHeadersKeywords = [''common'', ''delete'', ''get'', ''head'', ''patch'', ''post'', ''put'']"

text \<open>The elements of \<open>[...value]\<close>; only an array, a text or a form can be iterated.\<close>

definition iterate :: "js_value \<Rightarrow> js_value list option" where
  "iterate v =
     (case v of
        JArr vs \<Rightarrow> Some vs
      | JStr s \<Rightarrow> Some (map (\<lambda>c. JStr [c]) s)
      | JForm es \<Rightarrow> Some (map (\<lambda>(k, x). JArr [JStr k, x]) es)
      | _ \<Rightarrow> None)"

definition append_header ::
  "string \<Rightarrow> client_error + (string \<times> js_value) list \<Rightarrow> js_value \<Rightarrow>
   client_error + (string \<times> js_value) list" where
  "append_header key acc v =
     (case acc of
        Inl e \<Rightarrow> Inl e
      | Inr merged \<Rightarrow>
         (let old = obj_get merged key
          in case iterate (if is_nullish old then JArr [] else old) of
               None \<Rightarrow> Inl TypeErr
             | Some vs \<Rightarrow> Inr (obj_set key (JArr (vs @ [v])) merged)))"

definition merge_header ::
  "text_env \<Rightarrow> client_error + (string \<times> js_value) list \<Rightarrow> string \<times> js_value \<Rightarrow>
   client_error + (string \<times> js_value) list" where
  "merge_header te acc = (\<lambda>(key, value).
     case acc of
       Inl e \<Rightarrow> Inl e
     | Inr merged \<Rightarrow>
        if key \<in> set axiosHeadersKeywords \<and> typeof_object value
        then Inr (obj_set key
          (JObj (obj_spread (obj_spread [] (own_entries (obj_get merged key))) (own_entries value))) merged)
        else (case value of
            JNull \<Rightarrow> Inr (obj_delete key merged)
          | JArr vs \<Rightarrow> foldl (append_header key) (Inr merged) vs
          | JUndefined \<Rightarrow> Inr merged
          | _ \<Rightarrow>
             if typeof_object value
             then (if has_bigint value then Inl TypeErr
                   else Inr (obj_set key
                     (case json_text te value of None \<Rightarrow> JUndefined | Some t \<Rightarrow> JStr t) merged))
             else Inr (obj_set key value merged)))"

definition mergeHeaders ::
  "text_env \<Rightarrow> js_value list \<Rightarrow> client_error + (string \<times> js_value) list" where
  "mergeHeaders te headers =
     foldl (\<lambda>acc header.
        if \<not> truthy header \<or> \<not> typeof_object header then acc
        else foldl (merge_header te) acc (own_entries header))
       (Inr []) headers"

definition mergeConfigs :: "text_env \<Rightarrow> options \<Rightarrow> options \<Rightarrow> client_error + options" where
  "mergeConfigs te a b =
     map_result (\<lambda>headers. obj_set ''headers'' (OVal (JObj headers)) (obj_spread a b))
       (mergeHeaders te [opt_val a ''headers'', opt_val b ''headers''])"

definition createConfig :: "options \<Rightarrow> options" where
  "createConfig override = obj_spread [] override"

section \<open>The address of a request\<close>

definition query_serializer :: "text_env \<Rightarrow> opt_value \<Rightarrow> (string \<times> js_value) list \<Rightarrow> serialize_error + string" where
  "query_serializer te v =
     (case v of
        OQuerySerializer f \<Rightarrow> f
      | OQueryOptions args parameters \<Rightarrow> createQuerySerializer te args parameters
      | _ \<Rightarrow> createQuerySerializer te default_query_options Map.empty)"

definition buildUrl :: "text_env \<Rightarrow> string option \<Rightarrow> options \<Rightarrow> serialize_error + string" where
  "buildUrl te instanceBaseUrl options =
     (let baseUrl = (case opt_val options ''baseURL'' of
            JStr s \<Rightarrow> if s \<noteq> [] then Some s else instanceBaseUrl
          | _ \<Rightarrow> instanceBaseUrl)
      in getUrl te baseUrl (val_entries (opt_val options ''path''))
           (case opt_get options ''paramsSerializer'' of
              OVal v \<Rightarrow> if truthy v then None else val_entries (opt_val options ''query'')
            | _ \<Rightarrow> None)
           (query_serializer te (opt_get options ''querySerializer''))
           (case opt_val options ''url'' of JStr s \<Rightarrow> s | v \<Rightarrow> js_text te v))"

section \<open>A request\<close>

text \<open>What axios is called with, and what it may answer.\<close>

record axios_request =
  ar_method :: js_value
  ar_url :: string
  ar_data :: js_value
  ar_headers :: "(string \<times> js_value) list"
  ar_params :: "(string \<times> js_value) list option"
  ar_options :: options

datatype axios_error = ResponseRefused js_value "js_value option" \<comment> \<open>the data of the response, if there is one\<close>

type_synonym axios = "axios_request \<Rightarrow> axios_error + js_value"

datatype outcome =
    Data js_value
  | Returned client_error js_value \<comment> \<open>the error object with its field \<open>error\<close>\<close>
  | ThrownError client_error

definition options_value :: "options \<Rightarrow> js_value" where
  "options_value opts = JObj (map (\<lambda>(k, v). (k, opt_value_of v)) opts)"

definition run_validator :: "opt_value \<Rightarrow> js_value \<Rightarrow> client_error + unit" where
  "run_validator v x = (case v of OValidator f \<Rightarrow> f x | _ \<Rightarrow> Inr ())"

definition run_transformer :: "opt_value \<Rightarrow> js_value \<Rightarrow> client_error + js_value" where
  "run_transformer v x = (case v of OTransformer f \<Rightarrow> f x | _ \<Rightarrow> Inr x)"

definition auth_source_of :: "options \<Rightarrow> auth_source" where
  "auth_source_of os =
     (case opt_get os ''auth'' of
        OAuth s \<Rightarrow> s
      | OVal (JStr t) \<Rightarrow> AuthToken (Some t)
      | _ \<Rightarrow> AuthToken None)"

text \<open>The options of a request over the configuration, with merged headers and authentication.\<close>

definition request_options :: "text_env \<Rightarrow> options \<Rightarrow> options \<Rightarrow> client_error + options" where
  "request_options te config options =
     map_result
       (\<lambda>headers.
          let opts = obj_set ''headers'' (OVal (JObj headers)) (obj_spread config options)
          in case opt_get opts ''security'' of
               OSecurity security \<Rightarrow>
                 (let parts = setAuthParams te (auth_source_of opts) security
                        \<lparr>ap_headers = headers, ap_query = val_entries (opt_val opts ''query'')\<rparr>;
                      opts' = obj_set ''headers'' (OVal (JObj (ap_headers parts))) opts
                  in case ap_query parts of
                       None \<Rightarrow> opts'
                     | Some q \<Rightarrow> obj_set ''query'' (OVal (JObj q)) opts')
             | _ \<Rightarrow> opts)
       (mergeHeaders te [opt_val config ''headers'', opt_val options ''headers''])"

definition serialize_body :: "options \<Rightarrow> client_error + options" where
  "serialize_body opts =
     (case opt_get opts ''bodySerializer'' of
        OBodySerializer f \<Rightarrow>
          if opt_val opts ''body'' = JUndefined then Inr opts
          else map_result (\<lambda>b. obj_set ''body'' (OVal b) opts) (f (opt_val opts ''body''))
      | _ \<Rightarrow> Inr opts)"

definition beforeRequest ::
  "text_env \<Rightarrow> string option \<Rightarrow> options \<Rightarrow> options \<Rightarrow> client_error + options \<times> string" where
  "beforeRequest te instanceBaseUrl config options =
     (case request_options te config options of
        Inl e \<Rightarrow> Inl e
      | Inr opts \<Rightarrow>
         (case run_validator (opt_get opts ''requestValidator'') (options_value opts) of
            Inl e \<Rightarrow> Inl e
          | Inr _ \<Rightarrow>
             (case serialize_body opts of
                Inl e \<Rightarrow> Inl e
              | Inr opts' \<Rightarrow>
                 (case buildUrl te instanceBaseUrl opts' of
                    Inl e \<Rightarrow> Inl (SerializeError e)
                  | Inr url \<Rightarrow> Inr (opts', url)))))"

definition has_body_serializer :: "options \<Rightarrow> bool" where
  "has_body_serializer opts = (case opt_get opts ''bodySerializer'' of OBodySerializer _ \<Rightarrow> True | _ \<Rightarrow> False)"

definition axios_call :: "options \<Rightarrow> string \<Rightarrow> axios_request" where
  "axios_call opts url =
     \<lparr>ar_method = opt_val opts ''method'', ar_url = url,
      ar_data = getValidRequestBody (opt_val opts ''body'') (has_body_serializer opts)
        (if ''serializedBody'' \<in> fst ` set opts
         then Some (opt_val opts ''serializedBody'') else None),
      ar_headers = (case opt_val opts ''headers'' of JObj hs \<Rightarrow> hs | _ \<Rightarrow> []),
      ar_params = (case opt_get opts ''paramsSerializer'' of
          OVal v \<Rightarrow> if truthy v then val_entries (opt_val opts ''query'') else None
        | _ \<Rightarrow> val_entries (opt_val opts ''query'')),
      ar_options = obj_set ''baseURL'' (OVal (JStr [])) (obj_delete ''auth'' opts)\<rparr>"

text \<open>\<open>data ?? {}\<close>\<close>

definition data_or_empty :: "js_value \<Rightarrow> js_value" where
  "data_or_empty v = (if is_nullish v then JObj [] else v)"

definition read_response :: "options \<Rightarrow> js_value \<Rightarrow> client_error + js_value" where
  "read_response opts data =
     (if opt_val opts ''responseType'' = JStr ''json''
      then (case run_validator (opt_get opts ''responseValidator'') data of
              Inl e \<Rightarrow> Inl e
            | Inr _ \<Rightarrow> run_transformer (opt_get opts ''responseTransformer'') data)
      else Inr data)"

text \<open>The \<open>catch\<close> branch: throw, or return the error with the data of its response.\<close>

definition request_failed :: "options \<Rightarrow> client_error \<Rightarrow> js_value option \<Rightarrow> outcome" where
  "request_failed opts e responseData =
     (case opt_get opts ''throwOnError'' of
        OVal v \<Rightarrow> if truthy v then ThrownError e
                  else Returned e (data_or_empty (nullish responseData JUndefined))
      | _ \<Rightarrow> ThrownError e)"

definition request :: "text_env \<Rightarrow> axios \<Rightarrow> string option \<Rightarrow> options \<Rightarrow> options \<Rightarrow> outcome" where
  "request te axios instanceBaseUrl config options =
     (case beforeRequest te instanceBaseUrl config options of
        Inl e \<Rightarrow> ThrownError e
      | Inr (opts, url) \<Rightarrow>
         (case axios (axios_call opts url) of
            Inl (ResponseRefused err d) \<Rightarrow> request_failed opts (AxiosFailure err d) d
          | Inr data \<Rightarrow>
             (case read_response opts data of
                Inl e \<Rightarrow> request_failed opts e None
              | Inr data' \<Rightarrow> Data (data_or_empty data'))))"

definition makeMethodFn ::
  "text_env \<Rightarrow> axios \<Rightarrow> string option \<Rightarrow> options \<Rightarrow> string \<Rightarrow> options \<Rightarrow> outcome" where
  "makeMethodFn te axios instanceBaseUrl config httpMethod options =
     request te axios instanceBaseUrl config (obj_set ''method'' (OVal (JStr httpMethod)) options)"

section \<open>The client\<close>

text \<open>
  A client keeps its configuration and the defaults of its axios instance. \<open>axios.create\<close> is a parameter
  that gives the defaults of a new instance.
\<close>

record client_state =
  cl_config :: options
  cl_defaults :: options

definition createClient :: "text_env \<Rightarrow> (options \<Rightarrow> options) \<Rightarrow> options \<Rightarrow> client_error + client_state" where
  "createClient te axios_create config =
     map_result (\<lambda>c. \<lparr>cl_config = c, cl_defaults = axios_create (obj_delete ''auth'' c)\<rparr>)
       (mergeConfigs te (createConfig []) config)"

definition setConfig :: "text_env \<Rightarrow> options \<Rightarrow> client_state \<Rightarrow> client_error + client_state" where
  "setConfig te config client =
     (case mergeConfigs te (cl_config client) config of
        Inl e \<Rightarrow> Inl e
      | Inr c \<Rightarrow>
         map_result (\<lambda>headers. \<lparr>cl_config = c,
             cl_defaults = obj_set ''headers'' (OVal (JObj headers)) (obj_spread (cl_defaults client) c)\<rparr>)
           (mergeHeaders te [opt_val (cl_defaults client) ''headers'', opt_val c ''headers'']))"

definition instance_base :: "client_state \<Rightarrow> string option" where
  "instance_base client = (case opt_val (cl_defaults client) ''baseURL'' of JStr s \<Rightarrow> Some s | _ \<Rightarrow> None)"

definition client_request :: "text_env \<Rightarrow> axios \<Rightarrow> client_state \<Rightarrow> string \<Rightarrow> options \<Rightarrow> outcome" where
  "client_request te axios client httpMethod options =
     makeMethodFn te axios (instance_base client) (cl_config client) httpMethod options"

text \<open>\<open>configureApiClient\<close>: the address of the API, cookies, and the header that marks the page's own requests.\<close>

definition apiConfig :: "string \<Rightarrow> options" where
  "apiConfig baseUrl =
     [(''baseURL'', OVal (JStr baseUrl)),
      (''withCredentials'', OVal (JBool True)),
      (''headers'', OVal (JObj [(''X-Requested-With'', JStr ''XMLHttpRequest'')]))]"

definition apiClient :: "text_env \<Rightarrow> (options \<Rightarrow> options) \<Rightarrow> string \<Rightarrow> client_error + client_state" where
  "apiClient te axios_create baseUrl =
     (case createClient te axios_create (createConfig []) of
        Inl e \<Rightarrow> Inl e
      | Inr client \<Rightarrow> setConfig te (apiConfig baseUrl) client)"

section \<open>Facts about options\<close>

lemma opt_get_set [simp]: "opt_get (obj_set k v os) k' = (if k' = k then v else opt_get os k')"
  by (simp add: opt_get_def)

lemma opt_val_set [simp]: "opt_val (obj_set k v os) k' = (if k' = k then opt_value_of v else opt_val os k')"
  by (simp add: opt_val_def)

lemma map_of_rev: "distinct (map fst b) \<Longrightarrow> map_of (rev b) = map_of b"
  by (subst map_of_inject_set) (auto simp: rev_map[symmetric])

lemma opt_get_spread:
  assumes "distinct (map fst b)"
  shows "opt_get (obj_spread a b) k = (if k \<in> fst ` set b then opt_get b k else opt_get a k)"
proof (cases "map_of b k")
  case None
  then have "k \<notin> fst ` set b" by (simp add: map_of_eq_None_iff)
  with None show ?thesis by (simp add: opt_get_def map_of_obj_spread map_of_rev[OF assms] map_add_def)
next
  case (Some v)
  then have "k \<in> fst ` set b" by (force dest: map_of_SomeD)
  with Some show ?thesis by (simp add: opt_get_def map_of_obj_spread map_of_rev[OF assms] map_add_def)
qed

lemma opt_val_spread:
  "distinct (map fst b) \<Longrightarrow>
    opt_val (obj_spread a b) k = (if k \<in> fst ` set b then opt_val b k else opt_val a k)"
  by (simp add: opt_val_def opt_get_spread)

lemma opt_get_absent: "k \<notin> fst ` set os \<Longrightarrow> opt_get os k = OVal JUndefined"
  by (simp add: opt_get_def map_of_eq_None_iff[THEN iffD2])

section \<open>Facts about headers\<close>

text \<open>A header given as a text, or removed by null. Merging such headers keeps the last entry of a name.\<close>

definition plain_header :: "string \<times> js_value \<Rightarrow> bool" where
  "plain_header = (\<lambda>(k, v). k \<notin> set axiosHeadersKeywords \<and> (v = JNull \<or> (\<exists>s. v = JStr s)))"

definition apply_header :: "(string \<times> js_value) list \<Rightarrow> string \<times> js_value \<Rightarrow> (string \<times> js_value) list" where
  "apply_header merged = (\<lambda>(k, v). if v = JNull then obj_delete k merged else obj_set k v merged)"

lemma merge_header_plain: "plain_header e \<Longrightarrow> merge_header te (Inr m) e = Inr (apply_header m e)"
  by (cases e) (auto simp: plain_header_def merge_header_def apply_header_def)

lemma merge_headers_plain:
  "list_all plain_header es \<Longrightarrow> foldl (merge_header te) (Inr m) es = Inr (foldl apply_header m es)"
  by (induction es arbitrary: m) (simp_all add: merge_header_plain)

lemma map_of_apply_header:
  "map_of (foldl apply_header m es) k =
    (case map_of (rev es) k of None \<Rightarrow> map_of m k | Some JNull \<Rightarrow> None | Some v \<Rightarrow> Some v)"
proof (induction es rule: rev_induct)
  case (snoc e es)
  then show ?case by (cases e) (auto simp: apply_header_def split: option.splits js_value.splits)
qed simp

lemma mergeHeaders_plain:
  assumes "list_all plain_header a" "list_all plain_header b"
  shows "mergeHeaders te [JObj a, JObj b] = Inr (foldl apply_header (foldl apply_header [] a) b)"
  using assms by (simp add: mergeHeaders_def merge_headers_plain)

lemma mergeHeaders_one:
  "list_all plain_header a \<Longrightarrow> mergeHeaders te [JObj a, JUndefined] = Inr (foldl apply_header [] a)"
  "list_all plain_header a \<Longrightarrow> mergeHeaders te [JUndefined, JObj a] = Inr (foldl apply_header [] a)"
  by (simp_all add: mergeHeaders_def merge_headers_plain)

lemma merge_header_Inl: "foldl (merge_header te) (Inl e) es = Inl e"
  by (induction es) (auto simp: merge_header_def)

section \<open>Facts about authentication\<close>

lemma getAuthToken_none: "getAuthToken auth (AuthToken None) = None"
  by (simp add: getAuthToken_def)

text \<open>Without a token nothing is added: the page relies on the session cookie.\<close>

lemma setAuthParams_none: "setAuthParams te (AuthToken None) security parts = parts"
  by (induction security) (simp_all add: setAuthParams_def setAuthParam_def getAuthToken_none)

lemma auth_source_none: "opt_get os ''auth'' = OVal JUndefined \<Longrightarrow> auth_source_of os = AuthToken None"
  by (simp add: auth_source_of_def)

section \<open>Facts about queries\<close>

text \<open>How a server reads a query: cut at the ampersands and the first equals sign, then decoded.\<close>

definition parse_query :: "string \<Rightarrow> (string \<times> string) list" where
  "parse_query s =
     (if s = [] then []
      else map (\<lambda>p. (takeWhile (\<lambda>c. c \<noteq> CHR ''='') p, percent_decode (tl (dropWhile (\<lambda>c. c \<noteq> CHR ''='') p))))
        (split_on (CHR ''&'') s))"

text \<open>The values of a parameter; an array has several.\<close>

definition query_values :: "js_value \<Rightarrow> js_value list" where
  "query_values v = (if is_nullish v then [] else case v of JArr vs \<Rightarrow> vs | _ \<Rightarrow> [v])"

definition plain_query :: "(string \<times> js_value) list \<Rightarrow> bool" where
  "plain_query q \<longleftrightarrow>
     list_all (\<lambda>(n, v). n \<noteq> [] \<and> set n \<inter> {CHR ''&'', CHR ''='', CHR ''?''} = {} \<and>
       list_all simple_value (query_values v)) q"

definition query_pieces :: "text_env \<Rightarrow> (string \<times> js_value) list \<Rightarrow> string list" where
  "query_pieces te q =
     concat (map (\<lambda>(n, v). map (\<lambda>x. n @ ''='' @ value_text te False x) (query_values v)) q)"

lemma join_Nil_iff: "\<forall>x \<in> set xs. x \<noteq> [] \<Longrightarrow> (join sep xs = []) = (xs = [])"
  by (cases xs; cases "tl xs") auto

lemma join_append: "xs \<noteq> [] \<Longrightarrow> ys \<noteq> [] \<Longrightarrow> join sep (xs @ ys) = join sep xs @ sep @ join sep ys"
proof (induction xs rule: induct_list012)
  case (2 x)
  then show ?case by (cases ys) simp_all
qed simp_all

lemma join_concat:
  assumes "\<forall>xs \<in> set xss. \<forall>x \<in> set xs. x \<noteq> []"
  shows "join sep (filter (\<lambda>s. s \<noteq> []) (map (join sep) xss)) = join sep (concat xss)"
  using assms
proof (induction xss)
  case (Cons xs xss)
  let ?rest = "filter (\<lambda>s. s \<noteq> []) (map (join sep) xss)"
  have IH: "join sep ?rest = join sep (concat xss)" using Cons by simp
  show ?case
  proof (cases "xs = []")
    case False
    have rest: "?rest = [] \<longleftrightarrow> concat xss = []"
      using Cons.prems by (auto simp: filter_empty_conv join_Nil_iff)
    have "join sep (join sep xs # ?rest) = join sep (xs @ concat xss)"
    proof (cases "concat xss = []")
      case True
      then have "?rest = []" using rest by blast
      then show ?thesis unfolding True by simp
    next
      case c: False
      then obtain y ys where r: "?rest = y # ys" using rest by (cases ?rest) blast+
      have "join sep (join sep xs # ?rest) = join sep xs @ sep @ join sep ?rest"
        unfolding r by simp
      with c False IH show ?thesis by (simp add: join_append)
    qed
    with False Cons.prems show ?thesis by (simp add: join_Nil_iff)
  qed (use IH in simp)
qed simp

lemma split_join:
  "xs \<noteq> [] \<Longrightarrow> \<forall>x \<in> set xs. c \<notin> set x \<Longrightarrow> split_on c (join [c] xs) = xs"
  by (induction xs rule: induct_list012) (simp_all add: split_on_none split_on_append)

lemma value_text_chars:
  "CHR ''&'' \<notin> set (value_text te False v)" "CHR ''='' \<notin> set (value_text te False v)"
  using encode_safe[of "js_text te v"] by (auto simp: value_text_def)

lemma collect_Inr: "collect (map (\<lambda>x. Inr (f x)) xs) = Inr (map f xs)"
  by (induction xs) simp_all

lemma query_part_plain:
  assumes "list_all simple_value (query_values v)" "\<not> is_nullish v"
  shows "query_part te default_query_options n v =
    Inr (join ''&'' (map (\<lambda>x. n @ ''='' @ value_text te False x) (query_values v)))"
proof -
  have one: "serializePrimitiveParam te False n x = Inr (n @ ''='' @ value_text te False x)"
    if "simple_value x" for x
    using that by (simp add: serializePrimitiveParam_def simple_value_def value_text_def)
  show ?thesis
  proof (cases "\<exists>vs. v = JArr vs")
    case True
    then obtain vs where v: "v = JArr vs" by blast
    have vs: "list_all simple_value vs" using assms(1) by (simp add: v query_values_def is_nullish_def)
    then have "map (serializePrimitiveParam te False n) vs = map (\<lambda>x. Inr (n @ ''='' @ value_text te False x)) vs"
      by (simp add: list_all_iff one)
    then have "collect (map (serializePrimitiveParam te False n) vs) =
        Inr (map (\<lambda>x. n @ ''='' @ value_text te False x) vs)"
      by (simp only: collect_Inr)
    then show ?thesis
      by (simp add: v query_part_def default_query_options_def serializeArrayParam_def map_result_def
          separatorArrayExplode_def query_values_def is_nullish_def)
  next
    case False
    then have "query_values v = [v]" using assms(2) by (cases v) (simp_all add: query_values_def)
    with assms(1) one[of v] show ?thesis
      by (cases v) (simp_all add: query_part_def default_query_options_def simple_value_def is_nullish_def)
  qed
qed

lemma query_text:
  assumes "plain_query q"
  shows "createQuerySerializer te default_query_options Map.empty q = Inr (join ''&'' (query_pieces te q))"
proof -
  let ?kept = "filter (\<lambda>(_, v). \<not> is_nullish v) q"
  let ?pieces = "\<lambda>(n, v). map (\<lambda>x. n @ ''='' @ value_text te False x) (query_values v)"
  have "query_part te default_query_options n v = Inr (join ''&'' (?pieces (n, v)))"
    if "(n, v) \<in> set ?kept" for n v
    unfolding prod.case
    by (rule query_part_plain) (use that assms in \<open>auto simp: plain_query_def list_all_iff\<close>)
  then have kept: "map (\<lambda>(name, value). query_part te default_query_options name value) ?kept =
      map (\<lambda>e. Inr (join ''&'' (?pieces e))) ?kept"
    by (intro map_cong refl) (simp add: split_beta)
  have "createQuerySerializer te default_query_options Map.empty q =
      map_result (\<lambda>search. join ''&'' (filter (\<lambda>s. s \<noteq> []) search))
        (collect (map (\<lambda>(name, value). query_part te default_query_options name value) ?kept))"
    by (simp add: createQuerySerializer_def)
  also have "\<dots> = Inr (join ''&'' (filter (\<lambda>s. s \<noteq> []) (map (\<lambda>e. join ''&'' (?pieces e)) ?kept)))"
    unfolding kept collect_Inr by (simp add: map_result_def)
  also have "map (\<lambda>e. join ''&'' (?pieces e)) ?kept = map (join ''&'') (map ?pieces ?kept)" by simp
  also have "join ''&'' (filter (\<lambda>s. s \<noteq> []) (map (join ''&'') (map ?pieces ?kept))) =
      join ''&'' (concat (map ?pieces ?kept))"
    by (rule join_concat) auto
  also have "concat (map ?pieces ?kept) = query_pieces te q"
    unfolding query_pieces_def by (induction q) (auto simp: query_values_def)
  finally show ?thesis .
qed

lemma parse_query_pieces:
  assumes "plain_query q"
  shows "parse_query (join ''&'' (query_pieces te q)) =
    concat (map (\<lambda>(n, v). map (\<lambda>x. (n, js_text te x)) (query_values v)) q)"
proof -
  let ?read = "\<lambda>p. (takeWhile (\<lambda>c. c \<noteq> CHR ''='') p, percent_decode (tl (dropWhile (\<lambda>c. c \<noteq> CHR ''='') p)))"
  have cut: "takeWhile (\<lambda>c. c \<noteq> CHR ''='') (n @ CHR ''='' # r) = n"
    "dropWhile (\<lambda>c. c \<noteq> CHR ''='') (n @ CHR ''='' # r) = CHR ''='' # r" if "CHR ''='' \<notin> set n" for n r
    using that by (induction n) auto
  have dec: "percent_decode (value_text te False x) = js_text te x" for x
    by (simp add: value_text_def decode_encode)
  have read: "map ?read (query_pieces te q) =
      concat (map (\<lambda>(n, v). map (\<lambda>x. (n, js_text te x)) (query_values v)) q)"
    using assms by (induction q) (auto simp: query_pieces_def plain_query_def cut dec)
  have amp: "\<forall>p \<in> set (query_pieces te q). p \<noteq> [] \<and> CHR ''&'' \<notin> set p"
    using assms value_text_chars by (fastforce simp: query_pieces_def plain_query_def list_all_iff)
  show ?thesis
  proof (cases "query_pieces te q = []")
    case True
    then show ?thesis using read by (simp add: parse_query_def)
  next
    case False
    with amp have "join ''&'' (query_pieces te q) \<noteq> []"
      "split_on (CHR ''&'') (join ''&'' (query_pieces te q)) = query_pieces te q"
      by (simp_all add: join_Nil_iff split_join)
    then show ?thesis by (simp add: parse_query_def read)
  qed
qed

section \<open>Properties\<close>
















text \<open>A query can be read back: cutting the text at its separators and decoding gives every value that
  was set, under its name and in order, with one entry for each element of an array, and nothing for a
  value that is not set.\<close>

lemma query_roundtrip:
  assumes "plain_query q"
  shows "(case createQuerySerializer te default_query_options Map.empty q of
      Inl _ \<Rightarrow> False
    | Inr s \<Rightarrow> parse_query s = concat (map (\<lambda>(n, v). map (\<lambda>x. (n, js_text te x)) (query_values v)) q))"
  using query_text[OF assms] parse_query_pieces[OF assms] by simp

lemma query_roundtrip_witness:
  "(case createQuerySerializer plainText default_query_options Map.empty
       [(''endpoint_name'', JStr ''a&b=c''), (''x'', JUndefined), (''no_draft_rounds'', JBool True)] of
      Inl _ \<Rightarrow> False
    | Inr s \<Rightarrow> parse_query s = [(''endpoint_name'', ''a&b=c''), (''no_draft_rounds'', ''true'')])"
  using query_roundtrip[of "[(''endpoint_name'', JStr ''a&b=c''), (''x'', JUndefined), (''no_draft_rounds'', JBool True)]"
      plainText]
  by (simp add: plain_query_def query_values_def is_nullish_def simple_value_def split: sum.splits)

end
