(* ===== verification/Sse.thy ===== *)
theory Sse
  imports JsValue "HOL-Library.Monad_Syntax"
begin

text \<open>
  Server-sent events (\<open>frontend/src/openapi/core/serverSentEvents.gen.ts\<close>): a response body arrives in chunks
  that are cut anywhere, is split into events at blank lines, and a failed connection is tried again after a
  growing delay, from the last event seen. The network, \<open>JSON.parse\<close> and the caller's callbacks are the
  parameters of the records below; what the client does is a list of actions. A body need not end: a connection
  may stay open, silent or with ever more chunks.
\<close>

section \<open>Events\<close>

abbreviation LF :: char where "LF \<equiv> CHR 0x0A"
abbreviation CR :: char where "CR \<equiv> CHR 0x0D"

text \<open>\<open>buffer.replace(/\r\n?/g, '\n')\<close>\<close>

fun normalizeLines :: "string \<Rightarrow> string" where
  "normalizeLines [] = []"
| "normalizeLines [c] = [if c = CR then LF else c]"
| "normalizeLines (c # d # s) =
     (if c = CR then LF # (if d = LF then normalizeLines s else normalizeLines (d # s))
      else c # normalizeLines (d # s))"

text \<open>\<open>buffer.split('\n\n')\<close>\<close>

fun split_blank :: "string \<Rightarrow> string list" where
  "split_blank [] = [[]]"
| "split_blank [c] = [[c]]"
| "split_blank (c # d # s) =
     (if c = LF \<and> d = LF then [] # split_blank s
      else (case split_blank (d # s) of [] \<Rightarrow> [[c]] | p # ps \<Rightarrow> (c # p) # ps))"

text \<open>\<open>line.replace(/^data:\s*/, '')\<close>, and the same for the other fields.\<close>

definition field_value :: "string \<Rightarrow> string \<Rightarrow> string" where
  "field_value field line = dropWhile js_space (drop (length field) line)"

text \<open>\<open>Number.parseInt(text, 10)\<close>; \<open>None\<close> is NaN.\<close>

definition parse_int :: "string \<Rightarrow> int option" where
  "parse_int text =
     (let s = dropWhile js_space text;
          negative = (s \<noteq> [] \<and> hd s = CHR ''-'');
          digits = takeWhile is_digit (if s \<noteq> [] \<and> (hd s = CHR ''-'' \<or> hd s = CHR ''+'') then tl s else s)
      in if digits = [] then None
         else Some ((if negative then -1 else 1) * int (digits_val digits)))"

record SseState =
  sse_lastEventId :: "string option"
  sse_retryDelay :: int

record StreamEvent =
  sev_data :: js_value
  sev_event :: "string option"
  sev_id :: "string option"
  sev_retry :: int

text \<open>What the lines of one event say.\<close>

record EventLines =
  el_data :: "string list"
  el_event :: "string option"
  el_state :: SseState

definition readLine :: "string \<Rightarrow> EventLines \<Rightarrow> EventLines" where
  "readLine line el =
     (if starts_with line ''data:'' then el\<lparr>el_data := el_data el @ [field_value ''data:'' line]\<rparr>
      else if starts_with line ''event:'' then el\<lparr>el_event := Some (field_value ''event:'' line)\<rparr>
      else if starts_with line ''id:'' then
        el\<lparr>el_state := (el_state el)\<lparr>sse_lastEventId := Some (field_value ''id:'' line)\<rparr>\<rparr>
      else if starts_with line ''retry:'' then
        (case parse_int (field_value ''retry:'' line) of
           None \<Rightarrow> el
         | Some delay \<Rightarrow> el\<lparr>el_state := (el_state el)\<lparr>sse_retryDelay := delay\<rparr>\<rparr>)
      else el)"

definition readLines :: "SseState \<Rightarrow> string \<Rightarrow> EventLines" where
  "readLines st chunk =
     fold readLine (split_on LF chunk) \<lparr>el_data = [], el_event = None, el_state = st\<rparr>"

section \<open>The reader\<close>

text \<open>What the client does, in order.\<close>

datatype 'e SseAction =
    Requested "string option" \<comment> \<open>with the \<open>Last-Event-ID\<close> header\<close>
  | EventSeen StreamEvent
  | Yielded js_value
  | ErrorSeen 'e
  | Slept js_num
  | Crashed \<comment> \<open>\<open>headers.set\<close> throws, outside of the \<open>try\<close>: the consumer of the stream gets the error\<close>

record 'e SseOptions =
  so_parseJson :: "string \<Rightarrow> js_value option"
  so_validator :: "(js_value \<Rightarrow> 'e option) option"
  so_transformer :: "(js_value \<Rightarrow> 'e + js_value) option"
  so_defaultRetryDelay :: "int option"
  so_maxRetryAttempts :: "int option"
  so_maxRetryDelay :: "int option"

text \<open>The data of an event: JSON passes the validator and the transformer, any other text is taken as it is.\<close>

definition eventData :: "'e SseOptions \<Rightarrow> string list \<Rightarrow> 'e + js_value" where
  "eventData opts dataLines =
     (if dataLines = [] then Inr JUndefined
      else (let rawData = join [LF] dataLines
            in case so_parseJson opts rawData of
                 None \<Rightarrow> Inr (JStr rawData)
               | Some data \<Rightarrow>
                  (case Option.bind (so_validator opts) (\<lambda>validate. validate data) of
                     Some e \<Rightarrow> Inl e
                   | None \<Rightarrow> (case so_transformer opts of None \<Rightarrow> Inr data | Some transform \<Rightarrow> transform data))))"

text \<open>One event: its actions, the new state, and the error that interrupts the stream, if any.\<close>

definition readEvent :: "'e SseOptions \<Rightarrow> SseState \<Rightarrow> string \<Rightarrow> 'e SseAction list \<times> SseState \<times> 'e option" where
  "readEvent opts st chunk =
     (let el = readLines st chunk; st' = el_state el
      in case eventData opts (el_data el) of
           Inl e \<Rightarrow> ([], st', Some e)
         | Inr data \<Rightarrow>
            (EventSeen \<lparr>sev_data = data, sev_event = el_event el, sev_id = sse_lastEventId st',
               sev_retry = sse_retryDelay st'\<rparr> #
             (if el_data el = [] then [] else [Yielded data]), st', None))"

fun readEvents :: "'e SseOptions \<Rightarrow> SseState \<Rightarrow> string list \<Rightarrow> 'e SseAction list \<times> SseState \<times> 'e option" where
  "readEvents opts st [] = ([], st, None)"
| "readEvents opts st (chunk # chunks) =
     (case readEvent opts st chunk of
        (acts, st', Some e) \<Rightarrow> (acts, st', Some e)
      | (acts, st', None) \<Rightarrow>
         (case readEvents opts st' chunks of (acts', st'', err) \<Rightarrow> (acts @ acts', st'', err)))"

text \<open>What the reader of a body still has to give: chunks without end, an end, an error, or nothing any more. When
  the caller aborts, the reader is cancelled and is done, or the connection fails.\<close>

codatatype 'e Reader =
    Chunk string "'e Reader"
  | Done
  | ReadFailed 'e
  | Silent \<comment> \<open>the connection stays open and nothing more arrives\<close>

text \<open>The loop over \<open>reader.read()\<close>; \<open>None\<close> means that it does not end. A buffer holds what is not yet an event; what
  it holds at the end is dropped.\<close>

partial_function (option) readFrom ::
  "'e SseOptions \<Rightarrow> SseState \<Rightarrow> string \<Rightarrow> 'e Reader \<Rightarrow> ('e SseAction list \<times> SseState \<times> 'e option) option" where
  "readFrom opts st buffer reader =
     (case reader of
        Done \<Rightarrow> Some ([], st, None)
      | ReadFailed e \<Rightarrow> Some ([], st, Some e)
      | Silent \<Rightarrow> None
      | Chunk value' rest \<Rightarrow>
         (let parts = split_blank (normalizeLines (buffer @ value'));
              r = readEvents opts st (butlast parts)
          in case snd (snd r) of
               Some e \<Rightarrow> Some r
             | None \<Rightarrow> do {
                 r' \<leftarrow> readFrom opts (fst (snd r)) (last parts) rest;
                 Some (fst r @ fst r', snd r') }))"

text \<open>The same for a body that ends: its chunks, and whether it ends completely or with an error.\<close>

fun readChunks ::
  "'e SseOptions \<Rightarrow> SseState \<Rightarrow> string \<Rightarrow> string list \<Rightarrow> 'e option \<Rightarrow> 'e SseAction list \<times> SseState \<times> 'e option" where
  "readChunks opts st buffer [] end = ([], st, end)"
| "readChunks opts st buffer (value # chunks) end =
     (let parts = split_blank (normalizeLines (buffer @ value))
      in case readEvents opts st (butlast parts) of
           (acts, st', Some e) \<Rightarrow> (acts, st', Some e)
         | (acts, st', None) \<Rightarrow>
            (case readChunks opts st' (last parts) chunks end of (acts', st'', err) \<Rightarrow> (acts @ acts', st'', err)))"

section \<open>Retries\<close>

text \<open>What comes of a request: an error (no connection, a refusing answer, no body), a body, or no answer at all.\<close>

datatype 'e SseResponse = ConnectFailed 'e | NoAnswer | Body "'e Reader"

text \<open>The surroundings: the answer to the n-th request, and whether the caller has aborted before it.\<close>

record 'e SseWorld =
  sw_connect :: "nat \<Rightarrow> string option \<Rightarrow> 'e SseResponse"
  sw_aborted :: "nat \<Rightarrow> bool"

text \<open>\<open>Math.min(retryDelay * 2 ** (attempt - 1), sseMaxRetryDelay ?? 30000)\<close>. The power is infinite from
  \<open>2 ** 1024\<close> on, where a delay of 0 gives NaN.\<close>

definition backoff :: "'e SseOptions \<Rightarrow> int \<Rightarrow> nat \<Rightarrow> js_num" where
  "backoff opts retryDelay attempt =
     (let cap = nullish (so_maxRetryDelay opts) 30000
      in if attempt - 1 < 1024 then num_of_int (min (retryDelay * 2 ^ (attempt - 1)) cap)
         else if retryDelay = 0 then NaN
         else if retryDelay < 0 then Infinity True else num_of_int cap)"

definition readResponse ::
  "'e SseOptions \<Rightarrow> SseState \<Rightarrow> 'e SseResponse \<Rightarrow> ('e SseAction list \<times> SseState \<times> 'e option) option" where
  "readResponse opts st response =
     (case response of
        ConnectFailed e \<Rightarrow> Some ([], st, Some e)
      | NoAnswer \<Rightarrow> None
      | Body reader \<Rightarrow> readFrom opts st [] reader)"

definition gives_up :: "'e SseOptions \<Rightarrow> nat \<Rightarrow> bool" where
  "gives_up opts attempt =
     (case so_maxRetryAttempts opts of None \<Rightarrow> False | Some m \<Rightarrow> m \<le> int attempt)"

text \<open>\<open>Headers.set\<close> takes code points up to \<open>U+00FF\<close> other than NUL, which in UTF-8 have no byte from \<open>0xC4\<close> on.\<close>

definition id_sendable :: "string option \<Rightarrow> bool" where
  "id_sendable lastEventId =
     (case lastEventId of
        None \<Rightarrow> True
      | Some s \<Rightarrow> list_all (\<lambda>c. c \<noteq> CHR 0x00 \<and> of_char c < (0xC4 :: nat)) s)"

text \<open>The loop of \<open>createStream\<close> after so many attempts; \<open>None\<close> means that it does not end.\<close>

partial_function (option) streamLoop ::
  "'e SseOptions \<Rightarrow> 'e SseWorld \<Rightarrow> nat \<Rightarrow> SseState \<Rightarrow> ('e SseAction list \<times> SseState) option" where
  "streamLoop opts world tries st =
     (if sw_aborted world tries then Some ([], st)
      else if \<not> id_sendable (sse_lastEventId st) then Some ([Crashed], st)
      else do {
        r \<leftarrow> readResponse opts st (sw_connect world (Suc tries) (sse_lastEventId st));
        let attempt = Suc tries; acts = Requested (sse_lastEventId st) # fst r; st' = fst (snd r)
        in case snd (snd r) of
             None \<Rightarrow> Some (acts, st')
           | Some e \<Rightarrow>
              if gives_up opts attempt then Some (acts @ [ErrorSeen e], st')
              else do {
                rest \<leftarrow> streamLoop opts world attempt st';
                Some (acts @ [ErrorSeen e, Slept (backoff opts (sse_retryDelay st') attempt)] @ fst rest, snd rest) } })"

definition createStream :: "'e SseOptions \<Rightarrow> 'e SseWorld \<Rightarrow> ('e SseAction list \<times> SseState) option" where
  "createStream opts world =
     streamLoop opts world 0
       \<lparr>sse_lastEventId = None, sse_retryDelay = nullish (so_defaultRetryDelay opts) 3000\<rparr>"

section \<open>Connections that end\<close>

inductive ends :: "'e Reader \<Rightarrow> bool" where
  read_done: "ends Done"
| read_failed: "ends (ReadFailed e)"
| read_chunk: "ends rest \<Longrightarrow> ends (Chunk v rest)"

text \<open>A connection that is left open: no answer comes, or its body does not end.\<close>

definition left_open :: "'e SseResponse \<Rightarrow> bool" where
  "left_open response =
     (case response of ConnectFailed e \<Rightarrow> False | NoAnswer \<Rightarrow> True | Body reader \<Rightarrow> \<not> ends reader)"

fun bodyOf :: "string list \<Rightarrow> 'e option \<Rightarrow> 'e Reader" where
  "bodyOf [] end = (case end of None \<Rightarrow> Done | Some e \<Rightarrow> ReadFailed e)"
| "bodyOf (v # chunks) end = Chunk v (bodyOf chunks end)"

lemma ends_bodyOf: "ends reader \<Longrightarrow> \<exists>chunks end. reader = bodyOf chunks end"
proof (induction rule: ends.induct)
  case read_done
  show ?case by (rule exI[of _ "[]"], rule exI[of _ None]) simp
next
  case (read_failed e)
  show ?case by (rule exI[of _ "[]"], rule exI[of _ "Some e"]) simp
next
  case (read_chunk rest v)
  then obtain chunks err where "rest = bodyOf chunks err" by blast
  then show ?case by (metis bodyOf.simps(2))
qed

lemma readFrom_bodyOf: "readFrom opts st buffer (bodyOf chunks end) = Some (readChunks opts st buffer chunks end)"
proof (induction chunks arbitrary: st buffer)
  case Nil
  show ?case by (subst readFrom.simps) (cases "end"; simp)
next
  case (Cons v chunks)
  show ?case
    by (subst readFrom.simps) (auto simp: Let_def Cons.IH split: prod.splits option.splits)
qed

section \<open>Cutting the text into chunks\<close>

lemma split_blank_nonempty [simp]: "split_blank s \<noteq> []"
  by (induction s rule: split_blank.induct) (auto split: list.split)

lemma split_blank_single: "split_blank s = [p] \<Longrightarrow> p = s"
  by (induction s arbitrary: p rule: split_blank.induct) (auto split: if_splits list.splits)

lemma split_blank_append:
  "split_blank (s @ t) = butlast (split_blank s) @ split_blank (last (split_blank s) @ t)"
proof (induction s rule: split_blank.induct)
  case (3 c d s)
  show ?case
  proof (cases "c = LF \<and> d = LF")
    case True
    then show ?thesis using 3 by simp
  next
    case False
    obtain p ps where p: "split_blank (d # s) = p # ps" by (cases "split_blank (d # s)") simp_all
    have ih: "split_blank (d # s @ t) = butlast (p # ps) @ split_blank (last (p # ps) @ t)"
      using 3(2)[OF False] by (simp add: p)
    show ?thesis
    proof (cases ps)
      case Nil
      have "p = d # s" using p Nil by (auto intro: split_blank_single)
      then have "split_blank (c # d # s) = [c # d # s]" using False p Nil by simp
      then show ?thesis by (simp del: split_blank.simps)
    next
      case (Cons q qs)
      then show ?thesis using False p ih by auto
    qed
  qed
qed auto

text \<open>The rest after the last blank line has no blank line.\<close>

lemma split_blank_last: "split_blank (last (split_blank s)) = [last (split_blank s)]"
proof -
  have "butlast (split_blank s) @ split_blank (last (split_blank s)) = split_blank s"
    using split_blank_append[of s "[]"] by simp
  also have "split_blank s = butlast (split_blank s) @ [last (split_blank s)]" by simp
  finally show ?thesis by (simp only: same_append_eq)
qed

lemma split_blank_chars: "p \<in> set (split_blank s) \<Longrightarrow> set p \<subseteq> set s"
proof (induction s arbitrary: p rule: split_blank.induct)
  case (3 c d s)
  then show ?case by (auto split: if_splits list.splits) blast+
qed auto

lemma normalizeLines_no_CR [simp]: "CR \<notin> set (normalizeLines s)"
  by (induction s rule: normalizeLines.induct) auto

lemma normalizeLines_id: "CR \<notin> set s \<Longrightarrow> normalizeLines s = s"
  by (induction s rule: normalizeLines.induct) auto

text \<open>A text that is cut between a carriage return and its line feed.\<close>

definition cut_between :: "string \<Rightarrow> string \<Rightarrow> bool" where
  "cut_between s t \<longleftrightarrow> s \<noteq> [] \<and> last s = CR \<and> t \<noteq> [] \<and> hd t = LF"

lemma normalizeLines_append: "\<not> cut_between s t \<Longrightarrow> normalizeLines (s @ t) = normalizeLines s @ normalizeLines t"
  unfolding cut_between_def
proof (induction s rule: normalizeLines.induct)
  case (2 c)
  then show ?case by (cases t) simp_all
next
  case (3 c d s)
  show ?case
  proof (cases "c = CR \<and> d = LF")
    case True
    then show ?thesis using 3 by (cases s) auto
  next
    case False
    then show ?thesis using 3 by auto
  qed
qed simp

lemma readEvents_append:
  "readEvents opts st (xs @ ys) =
     (case readEvents opts st xs of
        (acts, st', Some e) \<Rightarrow> (acts, st', Some e)
      | (acts, st', None) \<Rightarrow>
         (case readEvents opts st' ys of (acts', st'', err) \<Rightarrow> (acts @ acts', st'', err)))"
  by (induction xs arbitrary: st) (auto split: prod.splits option.splits)

text \<open>The specification: the events of the whole text, then its end.\<close>

definition streamEvents :: "string \<Rightarrow> string list" where
  "streamEvents body = butlast (split_blank (normalizeLines body))"

definition readBody ::
  "'e SseOptions \<Rightarrow> SseState \<Rightarrow> string \<Rightarrow> 'e option \<Rightarrow> 'e SseAction list \<times> SseState \<times> 'e option" where
  "readBody opts st body end =
     (case readEvents opts st (streamEvents body) of
        (acts, st', Some e) \<Rightarrow> (acts, st', Some e)
      | (acts, st', None) \<Rightarrow> (acts, st', end))"

fun uncut :: "string list \<Rightarrow> bool" where
  "uncut [] = True"
| "uncut (c # cs) = (\<not> cut_between c (concat cs) \<and> uncut cs)"

lemma readChunks_buffer:
  assumes "uncut chunks" "CR \<notin> set buffer" "split_blank buffer = [buffer]"
  shows "readChunks opts st buffer chunks end =
    (case readEvents opts st (butlast (split_blank (buffer @ normalizeLines (concat chunks)))) of
       (acts, st', Some e) \<Rightarrow> (acts, st', Some e)
     | (acts, st', None) \<Rightarrow> (acts, st', end))"
  using assms
proof (induction chunks arbitrary: st buffer)
  case Nil
  then show ?case by simp
next
  case (Cons val chunks)
  define joined where "joined = buffer @ normalizeLines val"
  have n: "normalizeLines (buffer @ val) = joined"
    using normalizeLines_append[of buffer val] normalizeLines_id[OF Cons.prems(2)] Cons.prems(2)
    by (cases buffer rule: rev_cases) (auto simp: joined_def cut_between_def)
  have "normalizeLines (val @ concat chunks) = normalizeLines val @ normalizeLines (concat chunks)"
    using Cons.prems(1) normalizeLines_append[of val "concat chunks"] by simp
  then have whole: "buffer @ normalizeLines (concat (val # chunks)) = joined @ normalizeLines (concat chunks)"
    by (simp add: joined_def)
  let ?p = "last (split_blank joined)"
  have "CR \<notin> set joined" using Cons.prems(2) by (simp add: joined_def)
  then have c: "CR \<notin> set ?p" using split_blank_chars[of ?p joined] by auto
  have "split_blank (joined @ normalizeLines (concat chunks)) =
      butlast (split_blank joined) @ split_blank (?p @ normalizeLines (concat chunks))"
    by (rule split_blank_append)
  then have b: "butlast (split_blank (joined @ normalizeLines (concat chunks))) =
      butlast (split_blank joined) @ butlast (split_blank (?p @ normalizeLines (concat chunks)))"
    by (simp add: butlast_append)
  have ih: "readChunks opts st' ?p chunks end =
    (case readEvents opts st' (butlast (split_blank (?p @ normalizeLines (concat chunks)))) of
       (acts, st', Some e) \<Rightarrow> (acts, st', Some e)
     | (acts, st', None) \<Rightarrow> (acts, st', end))" for st'
    by (rule Cons.IH) (use Cons.prems(1) c split_blank_last in auto)
  show ?case
    unfolding whole b readEvents_append readChunks.simps Let_def n ih
    by (auto split: prod.splits option.splits)
qed

section \<open>Properties\<close>

text \<open>C38: However the network cuts a stream into chunks, the client sees the same events as in the whole text, in the
  same order and with the same state at the end, as long as the text is not cut between a carriage return and its
  line feed. The loop over the chunks ends with the body.\<close>

theorem chunks_refine_body:
  assumes "uncut chunks"
  shows "readChunks opts st [] chunks end = readBody opts st (concat chunks) end \<and>
    readFrom opts st [] (bodyOf chunks end) = Some (readBody opts st (concat chunks) end)"
  using readChunks_buffer[OF assms, of "[]" opts st "end"] by (simp add: readBody_def streamEvents_def readFrom_bodyOf)

definition plainSse :: "string SseOptions" where
  "plainSse =
     \<lparr>so_parseJson = (\<lambda>_. None), so_validator = None, so_transformer = None, so_defaultRetryDelay = None,
      so_maxRetryAttempts = None, so_maxRetryDelay = None\<rparr>"

definition startSse :: SseState where
  "startSse = \<lparr>sse_lastEventId = None, sse_retryDelay = 3000\<rparr>"

theorem chunks_refine_body_witness:
  "readFrom plainSse startSse [] (bodyOf [''data: a'' @ [CR], [CR], ''data: b'' @ [CR, LF], [CR, LF]] None) =
   Some (readBody plainSse startSse (''data: a'' @ [CR, CR] @ ''data: b'' @ [CR, LF, CR, LF]) None)"
  using chunks_refine_body[of "[''data: a'' @ [CR], [CR], ''data: b'' @ [CR, LF], [CR, LF]]" plainSse startSse None]
  by (simp add: cut_between_def)

text \<open>A chunk that ends between a carriage return and its line feed turns one line end into two: the event is torn.\<close>

lemma crlf_cut_tears_event:
  "fst (readChunks plainSse startSse [] [''data: a'' @ [CR], [LF] @ ''data: b'' @ [CR, LF, CR, LF]] None) =
     [EventSeen \<lparr>sev_data = JStr ''a'', sev_event = None, sev_id = None, sev_retry = 3000\<rparr>, Yielded (JStr ''a''),
      EventSeen \<lparr>sev_data = JStr ''b'', sev_event = None, sev_id = None, sev_retry = 3000\<rparr>, Yielded (JStr ''b'')]"
  "fst (readBody plainSse startSse (''data: a'' @ [CR, LF] @ ''data: b'' @ [CR, LF, CR, LF]) None) =
     [EventSeen \<lparr>sev_data = JStr (''a'' @ [LF] @ ''b''), sev_event = None, sev_id = None, sev_retry = 3000\<rparr>,
      Yielded (JStr (''a'' @ [LF] @ ''b''))]"
  by code_simp+

section \<open>Giving up and getting through\<close>

text \<open>What is counted and bounded in the actions of a run.\<close>

fun is_request :: "'e SseAction \<Rightarrow> bool" where
  "is_request (Requested _) = True"
| "is_request _ = False"

definition requests :: "'e SseAction list \<Rightarrow> nat" where
  "requests acts = length (filter is_request acts)"

text \<open>A delay that \<open>setTimeout\<close> does not stretch beyond the cap: NaN and negative delays are no delay.\<close>

fun wait_ok :: "'e SseOptions \<Rightarrow> 'e SseAction \<Rightarrow> bool" where
  "wait_ok opts (Slept d) =
     (case d of Fin q \<Rightarrow> q \<le> of_int (nullish (so_maxRetryDelay opts) 30000) | Infinity neg \<Rightarrow> neg | NaN \<Rightarrow> True)"
| "wait_ok opts _ = True"

fun reading :: "'e SseAction \<Rightarrow> bool" where
  "reading (EventSeen _) = True"
| "reading (Yielded _) = True"
| "reading _ = False"

lemma backoff_bounded: "wait_ok opts (Slept (backoff opts d n))"
  by (simp add: backoff_def Let_def num_of_int_def)

lemma readEvent_reading: "list_all reading (fst (readEvent opts st chunk))"
  by (auto simp: readEvent_def Let_def split: sum.splits prod.splits option.splits)

lemma readEvents_reading: "list_all reading (fst (readEvents opts st chunks))"
proof (induction chunks arbitrary: st)
  case (Cons c chunks)
  have "list_all reading (fst (readEvent opts st c))" by (rule readEvent_reading)
  moreover have "list_all reading (fst (readEvents opts st' chunks))" for st' by (rule Cons.IH)
  ultimately show ?case
    by (auto simp: Let_def split: prod.splits option.splits) (metis fst_conv)
qed simp

lemma readChunks_reading: "list_all reading (fst (readChunks opts st buffer chunks end))"
proof (induction chunks arbitrary: st buffer)
  case (Cons v chunks)
  have "list_all reading (fst (readEvents opts st (butlast (split_blank (normalizeLines (buffer @ v))))))"
    by (rule readEvents_reading)
  moreover have "list_all reading (fst (readChunks opts st' b chunks end))" for st' b by (rule Cons.IH)
  ultimately show ?case
    by (auto simp: Let_def split: prod.splits option.splits) (metis fst_conv)
qed simp

lemma readFrom_reading:
  assumes "readFrom opts st buffer reader = Some r"
  shows "list_all reading (fst r)"
proof (rule readFrom.raw_induct[where P = "\<lambda>opts st buffer reader r. list_all reading (fst r)", OF _ assms])
  fix f opts st buffer reader r
  assume ih: "\<And>opts st buffer reader r. f opts st buffer reader = Some r \<Longrightarrow> list_all reading (fst r)"
    and body: "(case reader of
        Done \<Rightarrow> Some ([], st, None)
      | ReadFailed e \<Rightarrow> Some ([], st, Some e)
      | Silent \<Rightarrow> None
      | Chunk value' rest \<Rightarrow>
         (let parts = split_blank (normalizeLines (buffer @ value'));
              r = readEvents opts st (butlast parts)
          in case snd (snd r) of
               Some e \<Rightarrow> Some r
             | None \<Rightarrow> do {
                 r' \<leftarrow> f opts (fst (snd r)) (last parts) rest;
                 Some (fst r @ fst r', snd r') })) = Some r"
  have "list_all reading (fst (readEvents opts st chunks))" for chunks by (rule readEvents_reading)
  with body ih show "list_all reading (fst r)"
    by (auto simp: Let_def bind_eq_Some_conv split: Reader.splits option.splits)
qed

lemma readResponse_reading: "readResponse opts st response = Some r \<Longrightarrow> list_all reading (fst r)"
  by (cases response) (auto simp: readResponse_def readFrom_reading)

lemma closed_response: "\<not> left_open response \<Longrightarrow> readResponse opts st response \<noteq> None"
proof (cases response)
  case (Body reader)
  assume "\<not> left_open response"
  then have "ends reader" using Body by (simp add: left_open_def)
  from ends_bodyOf[OF this] obtain chunks err where "reader = bodyOf chunks err" by blast
  then show ?thesis by (simp add: Body readResponse_def readFrom_bodyOf)
qed (auto simp: left_open_def readResponse_def)

lemma reading_facts: "list_all reading acts \<Longrightarrow> requests acts = 0 \<and> list_all (wait_ok opts) acts"
proof (induction acts)
  case (Cons a acts)
  then show ?case by (cases a) (simp_all add: requests_def)
qed (simp add: requests_def)

lemma requests_append [simp]:
  "requests (a @ b) = requests a + requests b" "requests (x # b) = (if is_request x then 1 else 0) + requests b"
  "requests [] = 0"
  by (simp_all add: requests_def)

text \<open>A run whose attempts are limited.\<close>

lemma streamLoop_limited:
  assumes "so_maxRetryAttempts opts = Some m"
  shows "case streamLoop opts world tries st of
      Some (acts, st') \<Rightarrow> requests acts \<le> max 1 (nat (m - int tries)) \<and> list_all (wait_ok opts) acts
    | None \<Rightarrow> \<exists>n id. tries < n \<and> n \<le> max (Suc tries) (nat m) \<and> left_open (sw_connect world n id)"
proof (induction "nat (m - int tries)" arbitrary: tries st rule: less_induct)
  case less
  let ?n = "Suc tries"
  let ?c = "sw_connect world ?n (sse_lastEventId st)"
  note step = streamLoop.simps[of opts world tries st]
  show ?case
  proof (cases "sw_aborted world tries \<or> \<not> id_sendable (sse_lastEventId st)")
    case True
    then show ?thesis by (subst step) auto
  next
    case running: False
    show ?thesis
    proof (cases "readResponse opts st ?c")
      case None
      then have "left_open ?c" using closed_response by blast
      moreover have "streamLoop opts world tries st = None" using running None by (subst step) simp
      ultimately show ?thesis by auto
    next
      case (Some r)
      have f: "requests (fst r) = 0" "list_all (wait_ok opts) (fst r)"
        using reading_facts[OF readResponse_reading[OF Some]] by blast+
      show ?thesis
      proof (cases "case snd (snd r) of None \<Rightarrow> True | Some e \<Rightarrow> gives_up opts ?n")
        case True
        then show ?thesis using running Some f by (subst step) (auto simp: Let_def split: option.splits)
      next
        case False
        then obtain e where e: "snd (snd r) = Some e" and go: "\<not> gives_up opts ?n" by (auto split: option.splits)
        then have g: "int ?n < m" using assms by (simp add: gives_up_def)
        then have "nat (m - int ?n) < nat (m - int tries)" by simp
        note rest = less(1)[OF this, of "fst (snd r)"]
        have bounds: "max 1 (nat (m - int ?n)) + 1 \<le> max 1 (nat (m - int tries))"
          "max (Suc ?n) (nat m) \<le> max ?n (nat m)" using g by simp_all
        show ?thesis
        proof (cases "streamLoop opts world ?n (fst (snd r))")
          case None
          then have "streamLoop opts world tries st = None"
            using running Some e go by (subst step) (simp add: Let_def)
          moreover obtain n i where "?n < n" "n \<le> max (Suc ?n) (nat m)" "left_open (sw_connect world n i)"
            using rest None by auto
          ultimately show ?thesis using bounds(2) by (auto intro!: exI[of _ n] exI[of _ i])
        next
          case (Some r')
          then have "requests (fst r') \<le> max 1 (nat (m - int ?n))" "list_all (wait_ok opts) (fst r')"
            using rest by (auto split: prod.splits)
          moreover have "streamLoop opts world tries st = Some ((Requested (sse_lastEventId st) # fst r) @
              [ErrorSeen e, Slept (backoff opts (sse_retryDelay (fst (snd r))) ?n)] @ fst r', snd r')"
            using running \<open>readResponse opts st ?c = Some r\<close> e go Some by (subst step) (simp add: Let_def)
          ultimately show ?thesis using f bounds(1) backoff_bounded[of opts] by simp
        qed
      qed
    qed
  qed
qed

text \<open>C39: With a limit on retries the client makes at most that many requests (at least one), never waits longer
  between two of them than the longest delay allowed, and comes to an end, unless one of these requests leaves
  a connection open.\<close>

theorem limited_retries_end:
  assumes "so_maxRetryAttempts opts = Some m"
  shows "case createStream opts world of
      Some (acts, st) \<Rightarrow> requests acts \<le> max 1 (nat m) \<and> list_all (wait_ok opts) acts
    | None \<Rightarrow> \<exists>n id. 0 < n \<and> n \<le> max 1 (nat m) \<and> left_open (sw_connect world n id)"
  using streamLoop_limited[OF assms, where world = world and tries = 0 and
      st = "\<lparr>sse_lastEventId = None, sse_retryDelay = nullish (so_defaultRetryDelay opts) 3000\<rparr>"]
  by (auto simp: createStream_def split: option.splits)

definition brokenWorld :: "string SseWorld" where
  "brokenWorld = \<lparr>sw_connect = (\<lambda>_ _. ConnectFailed ''no network''), sw_aborted = (\<lambda>_. False)\<rparr>"

theorem limited_retries_end_witness:
  "\<exists>acts st. createStream (plainSse\<lparr>so_maxRetryAttempts := Some 3\<rparr>) brokenWorld = Some (acts, st) \<and> requests acts \<le> 3"
  using limited_retries_end[of "plainSse\<lparr>so_maxRetryAttempts := Some 3\<rparr>" 3 brokenWorld]
  by (auto simp: brokenWorld_def left_open_def split: option.splits)

text \<open>A body that was read without an error was complete.\<close>

lemma readChunks_end: "snd (snd (readChunks opts st buffer chunks end)) = None \<Longrightarrow> end = None"
proof (induction chunks arbitrary: st buffer)
  case (Cons v chunks)
  then show ?case
    by (auto simp: Let_def split: prod.splits option.splits) (metis snd_conv)
qed simp

text \<open>How a run ends well: the last request is answered with a complete body, all of whose events are delivered. Or
  the last event id cannot be sent again.\<close>

definition stream_end :: "'e SseOptions \<Rightarrow> 'e SseWorld \<Rightarrow> nat \<Rightarrow> SseState \<Rightarrow> 'e SseAction list \<Rightarrow> bool" where
  "stream_end opts world n st acts \<longleftrightarrow>
     (\<exists>j chunks. j \<le> n \<and> id_sendable (sse_lastEventId st) \<and>
        sw_connect world j (sse_lastEventId st) = Body (bodyOf chunks None) \<and>
        acts = Requested (sse_lastEventId st) # fst (readChunks opts st [] chunks None)) \<or>
     \<not> id_sendable (sse_lastEventId st) \<and> acts = [Crashed]"

text \<open>A request whose answer is read to the end of a complete body.\<close>

definition reachable_at :: "'e SseOptions \<Rightarrow> 'e SseWorld \<Rightarrow> nat \<Rightarrow> bool" where
  "reachable_at opts world n \<longleftrightarrow>
     (\<forall>st. \<exists>chunks. sw_connect world n (sse_lastEventId st) = Body (bodyOf chunks None) \<and>
        snd (snd (readChunks opts st [] chunks None)) = None)"

lemma bodyOf_open [simp]: "\<not> left_open (Body (bodyOf chunks end))"
  unfolding left_open_def
  by (induction chunks) (auto intro: ends.intros split: option.split)

lemma read_to_end:
  assumes "\<not> left_open c" "readResponse opts st c = Some (acts, st', None)"
  shows "\<exists>chunks. c = Body (bodyOf chunks None) \<and> acts = fst (readChunks opts st [] chunks None)"
proof -
  obtain reader where b: "c = Body reader" "ends reader"
    using assms by (cases c) (auto simp: left_open_def readResponse_def)
  from ends_bodyOf[OF b(2)] obtain chunks err where c: "c = Body (bodyOf chunks err)" using b(1) by blast
  then have r: "readChunks opts st [] chunks err = (acts, st', None)"
    using assms(2) by (simp add: readResponse_def readFrom_bodyOf)
  then have "err = None" using readChunks_end[of opts st "[]" chunks err] by simp
  with c r show ?thesis by auto
qed

lemma streamLoop_reaches:
  assumes "reachable_at opts world n"
    and "tries < n" "\<And>j. j < n \<Longrightarrow> \<not> sw_aborted world j \<and> \<not> gives_up opts j"
    and "\<And>j id. 0 < j \<Longrightarrow> j < n \<Longrightarrow> \<not> left_open (sw_connect world j id)"
  shows "\<exists>acts st' before st0. streamLoop opts world tries st = Some (before @ acts, st') \<and>
    requests (before @ acts) \<le> n - tries \<and> stream_end opts world n st0 acts"
  using assms(2)
proof (induction "n - tries" arbitrary: tries st rule: less_induct)
  case less
  let ?n = "Suc tries"
  let ?c = "sw_connect world ?n (sse_lastEventId st)"
  have na: "\<not> sw_aborted world tries" using assms(3) less.prems by blast
  note step = streamLoop.simps[of opts world tries st]
  show ?case
  proof (cases "id_sendable (sse_lastEventId st)")
    case False
    then have "streamLoop opts world tries st = Some ([] @ [Crashed], st)" using na by (subst step) simp
    moreover have "stream_end opts world n st [Crashed]" using False by (simp add: stream_end_def)
    moreover have "requests ([] @ [Crashed]) \<le> n - tries" by simp
    ultimately show ?thesis by blast
  next
    case sendable: True
    have closed: "\<not> left_open ?c"
    proof (cases "?n = n")
      case True
      then obtain chunks where "?c = Body (bodyOf chunks None)" using assms(1) unfolding reachable_at_def by blast
      then show ?thesis by simp
    qed (use assms(4) less.prems in simp)
    then obtain acts' st'' err where r: "readResponse opts st ?c = Some (acts', st'', err)"
      using closed_response by (metis not_Some_eq prod_cases3)
    have f: "requests acts' = 0" using reading_facts[OF readResponse_reading[OF r]] by simp
    show ?thesis
    proof (cases err)
      case None
      let ?acts = "Requested (sse_lastEventId st) # acts'"
      have "streamLoop opts world tries st = Some ([] @ ?acts, st'')"
        using na sendable None r by (subst step) (simp add: Let_def)
      moreover have "requests ([] @ ?acts) \<le> n - tries" using f less.prems by simp
      moreover have "stream_end opts world n st ?acts"
        using sendable read_to_end[OF closed r[unfolded None]] less.prems unfolding stream_end_def
        by (blast intro: Suc_leI)
      ultimately show ?thesis by blast
    next
      case (Some e)
      have "?n \<noteq> n"
      proof
        assume n: "?n = n"
        obtain chunks where "?c = Body (bodyOf chunks None)" "snd (snd (readChunks opts st [] chunks None)) = None"
          using assms(1) n unfolding reachable_at_def by blast
        then show False using r Some by (simp add: readResponse_def readFrom_bodyOf)
      qed
      then have n: "?n < n" using less.prems by simp
      then have go: "\<not> gives_up opts ?n" using assms(3) by blast
      have "n - ?n < n - tries" using less.prems by simp
      from less(1)[OF this n, of st''] obtain acts st' before st0 where
        rest: "streamLoop opts world ?n st'' = Some (before @ acts, st')"
          "requests (before @ acts) \<le> n - ?n" "stream_end opts world n st0 acts"
        by blast
      let ?before = "(Requested (sse_lastEventId st) # acts') @
          [ErrorSeen e, Slept (backoff opts (sse_retryDelay st'') ?n)] @ before"
      have "streamLoop opts world tries st = Some (?before @ acts, st')"
        using na sendable Some r go rest(1) by (subst step) (simp add: Let_def)
      moreover have "requests (?before @ acts) \<le> n - tries" using f rest(2) n by simp
      ultimately show ?thesis using rest(3) by blast
    qed
  qed
qed

text \<open>C40: A stream that can be had is had: if some request would be answered with a body that is read to its end,
  no request before it leaves a connection open, and the client neither is aborted nor gives up before it, then
  it comes to an end after at most so many requests, with every event of a complete body delivered (or with the
  error that the last event id does not fit into a header).\<close>

theorem reachable_stream_delivered:
  assumes "0 < n" "\<And>j. j < n \<Longrightarrow> \<not> sw_aborted world j \<and> \<not> gives_up opts j"
    and "\<And>j id. 0 < j \<Longrightarrow> j < n \<Longrightarrow> \<not> left_open (sw_connect world j id)"
    and "reachable_at opts world n"
  shows "\<exists>acts st before st0. createStream opts world = Some (before @ acts, st) \<and>
    requests (before @ acts) \<le> n \<and> stream_end opts world n st0 acts"
  using streamLoop_reaches[OF assms(4,1,2,3)] by (simp add: createStream_def)

definition flakyWorld :: "string SseWorld" where
  "flakyWorld =
     \<lparr>sw_connect = (\<lambda>n _. if n < 3 then ConnectFailed ''no network''
        else Body (bodyOf [''data: a'' @ [LF, LF]] None)),
      sw_aborted = (\<lambda>_. False)\<rparr>"

theorem reachable_stream_delivered_witness:
  "\<exists>acts st st0. createStream plainSse flakyWorld = Some (acts, st) \<and> requests acts \<le> 3 \<and>
     (\<exists>before rest. acts = before @ rest \<and> stream_end plainSse flakyWorld 3 st0 rest)"
proof -
  have "snd (snd (readChunks plainSse st [] [''data: a'' @ [LF, LF]] None)) = None" for st
    by (simp add: readEvent_def eventData_def plainSse_def Let_def split: sum.splits)
  then have "reachable_at plainSse flakyWorld 3"
    unfolding reachable_at_def by (intro allI exI[of _ "[''data: a'' @ [LF, LF]]"]) (simp add: flakyWorld_def)
  with reachable_stream_delivered[of 3 flakyWorld plainSse] show ?thesis
    by (force simp: flakyWorld_def gives_up_def plainSse_def left_open_def)
qed

text \<open>An event id outside of Latin-1 stops the stream for good as soon as the connection breaks.\<close>

lemma unsendable_id_crashes:
  "\<not> id_sendable (sse_lastEventId st) \<Longrightarrow> \<not> sw_aborted world tries \<Longrightarrow>
   streamLoop opts world tries st = Some ([Crashed], st)"
  by (subst streamLoop.simps) simp

end
