(* ===== verification/StreamClient.thy ===== *)
theory StreamClient
  imports HttpClient Sse
begin

text \<open>
  Event streams of the client (\<open>makeSseFn\<close> in \<open>frontend/src/openapi/client/client.gen.ts\<close>): the options are
  prepared as for any other request and handed to the event stream, whose network answers the request they
  describe.
\<close>

section \<open>The request of a stream\<close>

record stream_request =
  sr_url :: string
  sr_method :: string
  sr_headers :: "(string \<times> js_value) list"
  sr_body :: js_value

definition stream_request_of :: "options \<Rightarrow> string \<Rightarrow> string \<Rightarrow> stream_request" where
  "stream_request_of opts httpMethod url =
     \<lparr>sr_url = url, sr_method = httpMethod,
      sr_headers = (case opt_val opts ''headers'' of JObj hs \<Rightarrow> hs | _ \<Rightarrow> []),
      sr_body = getValidRequestBody (opt_val opts ''body'') (has_body_serializer opts)
        (if ''serializedBody'' \<in> fst ` set opts then Some (opt_val opts ''serializedBody'') else None)\<rparr>"

text \<open>The options of the stream itself; its delays and its limit are whole numbers.\<close>

definition whole_option :: "options \<Rightarrow> string \<Rightarrow> int option" where
  "whole_option opts k = (case opt_val opts k of JNum n \<Rightarrow> int_of_num n | _ \<Rightarrow> None)"

definition stream_options :: "(string \<Rightarrow> js_value option) \<Rightarrow> options \<Rightarrow> client_error SseOptions" where
  "stream_options parseJson opts =
     \<lparr>so_parseJson = parseJson,
      so_validator = (case opt_get opts ''responseValidator'' of
          OValidator f \<Rightarrow> Some (\<lambda>v. case f v of Inl e \<Rightarrow> Some e | Inr _ \<Rightarrow> None)
        | _ \<Rightarrow> None),
      so_transformer = (case opt_get opts ''responseTransformer'' of OTransformer f \<Rightarrow> Some f | _ \<Rightarrow> None),
      so_defaultRetryDelay = whole_option opts ''sseDefaultRetryDelay'',
      so_maxRetryAttempts = whole_option opts ''sseMaxRetryAttempts'',
      so_maxRetryDelay = whole_option opts ''sseMaxRetryDelay''\<rparr>"

definition makeSseFn ::
  "text_env \<Rightarrow> (string \<Rightarrow> js_value option) \<Rightarrow> (stream_request \<Rightarrow> client_error SseWorld) \<Rightarrow> string option \<Rightarrow> options \<Rightarrow>
   string \<Rightarrow> options \<Rightarrow> client_error + (client_error SseAction list \<times> SseState) option" where
  "makeSseFn te parseJson network instanceBaseUrl config httpMethod options =
     (case beforeRequest te instanceBaseUrl config options of
        Inl e \<Rightarrow> Inl e
      | Inr (opts, url) \<Rightarrow>
         Inr (createStream (stream_options parseJson opts) (network (stream_request_of opts httpMethod url))))"

section \<open>Lemmas\<close>

text \<open>A stream asks for what the same options would request: the same address, headers and body.\<close>

lemma stream_request_same:
  "sr_url (stream_request_of opts httpMethod url) = ar_url (axios_call opts url)"
  "sr_headers (stream_request_of opts httpMethod url) = ar_headers (axios_call opts url)"
  "sr_body (stream_request_of opts httpMethod url) = ar_data (axios_call opts url)"
  by (simp_all add: stream_request_of_def axios_call_def)

text \<open>With a limit on retries every stream ends whose connections all end.\<close>

lemma limited_stream_ends:
  assumes "beforeRequest te base config options = Inr (opts, url)"
    and "whole_option opts ''sseMaxRetryAttempts'' = Some m"
    and "\<And>n id. \<not> left_open (sw_connect (network (stream_request_of opts httpMethod url)) n id)"
  shows "\<exists>acts st. makeSseFn te parseJson network base config httpMethod options = Inr (Some (acts, st)) \<and>
    requests acts \<le> max 1 (nat m)"
proof -
  have "so_maxRetryAttempts (stream_options parseJson opts) = Some m" using assms(2) by (simp add: stream_options_def)
  from streamLoop_limited[OF this, where world = "network (stream_request_of opts httpMethod url)" and tries = 0]
  show ?thesis
    using assms(1,3) unfolding makeSseFn_def createStream_def
    by (fastforce simp del: requests_append split: option.splits prod.splits)
qed

end
