(* ===== verification/AppTypes.thy ===== *)
theory AppTypes
  imports ApiTypes
begin

text \<open>
  The types the pages share (\<open>frontend/src/app/types.ts\<close>): who is signed in, the pages of a tournament
  and the data all of them show.
\<close>

record SessionUser =
  session_name :: string
  session_user_id :: int

type_synonym Session = "SessionUser option"

datatype TournamentSection =
    Overview | Players | Teams | Schedule | Rankings | Settings | Stages
  | Dashboard | DashboardSchedule | DashboardStandings | DashboardBracket | DashboardTeams
  | DashboardTeam | DashboardPresentSchedule | DashboardPresentStandings

text \<open>The name of a section as the source writes it; \<open>startsWith\<close> inspects it.\<close>

fun section_name :: "TournamentSection \<Rightarrow> string" where
  "section_name Overview = ''overview''"
| "section_name Players = ''players''"
| "section_name Teams = ''teams''"
| "section_name Schedule = ''schedule''"
| "section_name Rankings = ''rankings''"
| "section_name Settings = ''settings''"
| "section_name Stages = ''stages''"
| "section_name Dashboard = ''dashboard''"
| "section_name DashboardSchedule = ''dashboard-schedule''"
| "section_name DashboardStandings = ''dashboard-standings''"
| "section_name DashboardBracket = ''dashboard-bracket''"
| "section_name DashboardTeams = ''dashboard-teams''"
| "section_name DashboardTeam = ''dashboard-team''"
| "section_name DashboardPresentSchedule = ''dashboard-present-schedule''"
| "section_name DashboardPresentStandings = ''dashboard-present-standings''"

record TournamentBundle =
  tb_canManage :: bool
  tb_tournament :: Tournament
  tb_stages :: "StageWithStageItems list"
  tb_players :: "Player list"
  tb_teams :: "FullTeamWithPlayers list"
  tb_rankings :: "Ranking list"
  tb_standings :: "string \<rightharpoonup> StageItemInputStanding list"
  tb_availableInputs :: "string \<rightharpoonup> SlotOption list"
  tb_nextStageRankings :: "string \<rightharpoonup> StageItemInputUpdate list"

end
