(* ===== verification/ApiBundle.thy ===== *)
theory ApiBundle
  imports AppTypes AppUtils
begin

text \<open>
  Loading a tournament (\<open>frontend/src/app/api.ts\<close>): which requests a page makes, in which order, what
  it does when one is refused, and the bundle all sections of the page share. The server is a record of
  answers; a load returns the requests it made with its result. The links organizers may choose for a
  tournament are checked by the backend (\<open>backend/bracket/utils/pydantic.py\<close>).
\<close>

section \<open>The server\<close>

datatype ApiCall =
    GetTournaments string
  | GetTournament int
  | GetStages int bool \<comment> \<open>\<open>no_draft_rounds\<close>\<close>
  | GetPlayers int
  | GetTeams int
  | GetRankings int
  | GetStandings int
  | GetAvailableInputs int
  | GetNextStageRankings int

record api_server =
  srv_tournaments :: "string \<Rightarrow> request_error + Tournament list"
  srv_tournament :: "int \<Rightarrow> request_error + Tournament"
  srv_stages :: "int \<Rightarrow> bool \<Rightarrow> request_error + StageWithStageItems list"
  srv_players :: "int \<Rightarrow> request_error + Player list"
  srv_teams :: "int \<Rightarrow> request_error + FullTeamWithPlayers list"
  srv_rankings :: "int \<Rightarrow> request_error + Ranking list"
  srv_standings :: "int \<Rightarrow> request_error + (string \<rightharpoonup> StageItemInputStanding list)"
  srv_availableInputs :: "int \<Rightarrow> request_error + (string \<rightharpoonup> SlotOption list)"
  srv_nextStageRankings :: "int \<Rightarrow> request_error + (string \<rightharpoonup> StageItemInputUpdate list)"
  srv_race :: "request_error list \<Rightarrow> request_error"
    \<comment> \<open>which of several failing requests of a \<open>Promise.all\<close> fails first\<close>

datatype fetch_error = RequestFailed request_error | Thrown string

definition lift_request :: "request_error + 'a \<Rightarrow> fetch_error + 'a" where
  "lift_request r = (case r of Inl e \<Rightarrow> Inl (RequestFailed e) | Inr x \<Rightarrow> Inr x)"

definition failures :: "request_error + 'a \<Rightarrow> request_error list" where
  "failures r = (case r of Inl e \<Rightarrow> [e] | Inr _ \<Rightarrow> [])"

definition isAuthorizationError :: "request_error \<Rightarrow> bool" where
  "isAuthorizationError error = (error_status error = Some 401 \<or> error_status error = Some 403)"

section \<open>The tournament of an address\<close>

definition fetchTournament ::
  "api_server \<Rightarrow> string \<Rightarrow> bool \<Rightarrow> ApiCall list \<times> (fetch_error + Tournament)" where
  "fetchTournament srv tournamentKey dashboardMode =
     (if \<not> isNumericIdentifier tournamentKey then
        (if \<not> dashboardMode
         then ([], Inl (Thrown ''Tournament management routes require a numeric tournament id.''))
         else ([GetTournaments tournamentKey],
           (case srv_tournaments srv tournamentKey of
              Inl e \<Rightarrow> Inl (RequestFailed e)
            | Inr [] \<Rightarrow>
                Inl (Thrown (''No tournament has the Details link '' @ [CHR 0x22] @ tournamentKey @
                  [CHR 0x22] @ ''.''))
            | Inr (tournament # _) \<Rightarrow> Inr tournament)))
      else (let n = int (digits_val tournamentKey)
            in ([GetTournament n], lift_request (srv_tournament srv n))))"

definition withoutDraftRounds :: "StageWithStageItems list \<Rightarrow> StageWithStageItems list" where
  "withoutDraftRounds stages =
     map (\<lambda>stage. stage\<lparr>stage_stage_items :=
       map (\<lambda>s. s\<lparr>stage_item_rounds := filter (\<lambda>r. \<not> round_is_draft r) (stage_item_rounds s)\<rparr>)
         (stage_stage_items stage)\<rparr>) stages"

section \<open>The bundle\<close>

text \<open>The stages, and whether the signed-in user can manage the tournament.\<close>

definition fetchStages ::
  "api_server \<Rightarrow> int \<Rightarrow> bool \<Rightarrow> ApiCall list \<times> (fetch_error + bool \<times> StageWithStageItems list)" where
  "fetchStages srv tid isAuthenticated =
     (case srv_stages srv tid (\<not> isAuthenticated) of
        Inr stages \<Rightarrow> ([GetStages tid (\<not> isAuthenticated)], Inr (isAuthenticated, stages))
      | Inl e \<Rightarrow>
         if \<not> isAuthenticated \<or> \<not> isAuthorizationError e
         then ([GetStages tid (\<not> isAuthenticated)], Inl (RequestFailed e))
         else ([GetStages tid (\<not> isAuthenticated), GetStages tid True],
               (case srv_stages srv tid True of
                  Inl e' \<Rightarrow> Inl (RequestFailed e')
                | Inr stages \<Rightarrow> Inr (False, stages))))"

definition fetchManagement ::
  "api_server \<Rightarrow> int \<Rightarrow>
   fetch_error + (string \<rightharpoonup> SlotOption list) \<times> (string \<rightharpoonup> StageItemInputUpdate list)" where
  "fetchManagement srv tid =
     (case (srv_availableInputs srv tid, srv_nextStageRankings srv tid) of
        (Inr inputs, Inr rankings) \<Rightarrow> Inr (inputs, rankings)
      | (i, r) \<Rightarrow> Inl (RequestFailed (srv_race srv (failures i @ failures r))))"

definition fetchTournamentBundle ::
  "api_server \<Rightarrow> string \<Rightarrow> bool \<Rightarrow> bool \<Rightarrow> ApiCall list \<times> (fetch_error + TournamentBundle)" where
  "fetchTournamentBundle srv tournamentKey dashboardMode isAuthenticated =
     (case fetchTournament srv tournamentKey dashboardMode of
        (calls, Inl e) \<Rightarrow> (calls, Inl e)
      | (calls, Inr tournament) \<Rightarrow>
         (let tid = tournament_id tournament in
          case fetchStages srv tid isAuthenticated of
            (calls', Inl e) \<Rightarrow> (calls @ calls', Inl e)
          | (calls', Inr (canManage, stages)) \<Rightarrow>
             (let parts = [GetPlayers tid, GetTeams tid, GetRankings tid, GetStandings tid];
                  before = calls @ calls' @ parts
              in case (srv_players srv tid, srv_teams srv tid, srv_rankings srv tid, srv_standings srv tid) of
                   (Inr players, Inr teams, Inr rankings, Inr standings) \<Rightarrow>
                     (let bundle = \<lambda>inputs nextRankings.
                        \<lparr>tb_canManage = canManage, tb_tournament = tournament,
                         tb_stages = (if dashboardMode then withoutDraftRounds stages else stages),
                         tb_players = players, tb_teams = teams, tb_rankings = rankings,
                         tb_standings = standings, tb_availableInputs = inputs,
                         tb_nextStageRankings = nextRankings\<rparr>
                      in if canManage \<and> \<not> dashboardMode
                         then (before @ [GetAvailableInputs tid, GetNextStageRankings tid],
                               (case fetchManagement srv tid of
                                  Inl e \<Rightarrow> Inl e
                                | Inr (inputs, nextRankings) \<Rightarrow> Inr (bundle inputs nextRankings)))
                         else (before, Inr (bundle Map.empty Map.empty)))
                 | (p, t, r, s) \<Rightarrow>
                     (before, Inl (RequestFailed
                       (srv_race srv (failures p @ failures t @ failures r @ failures s)))))))"

section \<open>The links the backend accepts\<close>

definition is_letter :: "char \<Rightarrow> bool" where
  "is_letter c = ((65 \<le> (of_char c :: nat) \<and> (of_char c :: nat) \<le> 90) \<or>
                  (97 \<le> (of_char c :: nat) \<and> (of_char c :: nat) \<le> 122))"

definition link_char :: "char \<Rightarrow> bool" where
  "link_char c = (is_letter c \<or> is_digit c \<or> c = CHR ''_'' \<or> c = CHR ''-'')"

datatype link_error = LinkTooLong | LinkBadCharacters

text \<open>
  \<open>re.fullmatch(r"[A-Za-z0-9_-]*[A-Za-z][A-Za-z0-9_-]*", value)\<close>: URL-safe characters, among them a
  letter. \<open>str.strip()\<close> and \<open>trim()\<close> agree on the ASCII whitespace of the model.
\<close>

definition validate_dashboard_endpoint :: "string option \<Rightarrow> link_error + string option" where
  "validate_dashboard_endpoint value =
     (case value of
        None \<Rightarrow> Inr None
      | Some v \<Rightarrow>
         if trim v = [] then Inr None
         else if length (trim v) > 64 then Inl LinkTooLong
         else if \<not> (list_all link_char (trim v) \<and> list_ex is_letter (trim v)) then Inl LinkBadCharacters
         else Inr (Some (trim v)))"

text \<open>The link a tournament is stored with has passed the check.\<close>

definition stored_link :: "Tournament \<Rightarrow> bool" where
  "stored_link t =
     (case tournament_dashboard_endpoint t of
        None \<Rightarrow> True
      | Some link \<Rightarrow> validate_dashboard_endpoint (Some link) = Inr (Some link))"

section \<open>Facts\<close>

lemma withoutDraftRounds_no_draft:
  "stage \<in> set (withoutDraftRounds stages) \<Longrightarrow> s \<in> set (stage_stage_items stage) \<Longrightarrow>
    r \<in> set (stage_item_rounds s) \<Longrightarrow> \<not> round_is_draft r"
  by (auto simp: withoutDraftRounds_def)

lemma letter_not_digit: "is_letter c \<Longrightarrow> \<not> is_digit c"
  by (auto simp: is_letter_def is_digit_def)

lemma stored_link_trim: "stored_link t \<Longrightarrow> tournament_dashboard_endpoint t = Some v \<Longrightarrow>
    trim v = v \<and> v \<noteq> [] \<and> \<not> isNumericIdentifier v \<and> list_all link_char v"
  by (auto simp: stored_link_def validate_dashboard_endpoint_def isNumericIdentifier_def list_ex_iff
      list.pred_set split: if_splits) (metis letter_not_digit)

lemma int_text_numeric: "0 \<le> i \<Longrightarrow> isNumericIdentifier (int_text i) \<and> digits_val (int_text i) = nat i"
  by (simp add: isNumericIdentifier_def int_text_def nat_text_nonempty list_all_nat_text digits_val_nat_text)

lemma withoutDraftRounds_idem: "withoutDraftRounds (withoutDraftRounds stages) = withoutDraftRounds stages"
  by (simp add: withoutDraftRounds_def filter_filter)

text \<open>The requests of a load, and what decides whether the tournament can be managed.\<close>

lemma fetchTournament_calls:
  "set (fst (fetchTournament srv key dashboardMode)) \<subseteq> range GetTournaments \<union> range GetTournament"
  by (simp add: fetchTournament_def Let_def)

lemma fetchStages_Inr:
  "fetchStages srv tid isAuthenticated = (calls, Inr (canManage, stages)) \<Longrightarrow>
    canManage = (isAuthenticated \<and> (\<exists>all. srv_stages srv tid False = Inr all)) \<and>
    set calls = (if canManage then {GetStages tid False}
      else if isAuthenticated then {GetStages tid False, GetStages tid True} else {GetStages tid True})"
  by (auto simp: fetchStages_def split: sum.splits if_splits)

lemma bundle_parts:
  assumes "fetchTournamentBundle srv key dashboardMode isAuthenticated = (calls, Inr b)"
  obtains c1 c2 stages where
    "fetchTournament srv key dashboardMode = (c1, Inr (tb_tournament b))"
    "fetchStages srv (tournament_id (tb_tournament b)) isAuthenticated = (c2, Inr (tb_canManage b, stages))"
    "tb_stages b = (if dashboardMode then withoutDraftRounds stages else stages)"
    "set calls = set c1 \<union> set c2 \<union>
      (let tid = tournament_id (tb_tournament b)
       in {GetPlayers tid, GetTeams tid, GetRankings tid, GetStandings tid} \<union>
          (if tb_canManage b \<and> \<not> dashboardMode
           then {GetAvailableInputs tid, GetNextStageRankings tid} else {}))"
  using assms
  by (auto simp: fetchTournamentBundle_def Let_def split: prod.splits sum.splits if_splits)

section \<open>Properties\<close>

definition sampleServer :: api_server where
  "sampleServer =
     \<lparr>srv_tournaments = (\<lambda>link. if link = ''cup'' then Inr [sampleTournament 1 (Some ''cup'')] else Inr []),
      srv_tournament = (\<lambda>i. Inr (sampleTournament 1 (Some ''cup''))),
      srv_stages = (\<lambda>_ noDrafts. if noDrafts then Inr [sampleStage 1 [sampleBracket]]
        else Inl \<lparr>error_status = Some 403, error_detail_of = None, error_message = None\<rparr>),
      srv_players = (\<lambda>_. Inr []), srv_teams = (\<lambda>_. Inr []), srv_rankings = (\<lambda>_. Inr []),
      srv_standings = (\<lambda>_. Inr Map.empty), srv_availableInputs = (\<lambda>_. Inr Map.empty),
      srv_nextStageRankings = (\<lambda>_. Inr Map.empty), srv_race = hd\<rparr>"

text \<open>C1: A loaded bundle can be managed exactly when someone is signed in and the API lets them see the
  draft rounds. A visitor never asks for drafts; the editors' data is requested only for a tournament that
  can be managed, outside the Details pages; and the Details pages never hold a draft round.\<close>

theorem bundle_rights:
  assumes "fetchTournamentBundle srv key dashboardMode isAuthenticated = (calls, Inr b)"
  shows "tb_canManage b = (isAuthenticated \<and>
      (\<exists>stages. srv_stages srv (tournament_id (tb_tournament b)) False = Inr stages)) \<and>
    (\<forall>tid. GetStages tid False \<in> set calls \<longrightarrow> isAuthenticated) \<and>
    (\<forall>tid. GetAvailableInputs tid \<in> set calls \<or> GetNextStageRankings tid \<in> set calls \<longrightarrow>
      tb_canManage b \<and> \<not> dashboardMode) \<and>
    (dashboardMode \<longrightarrow> (\<forall>stage \<in> set (tb_stages b). \<forall>s \<in> set (stage_stage_items stage).
      \<forall>r \<in> set (stage_item_rounds s). \<not> round_is_draft r))"
proof -
  obtain c1 c2 stages where
    c1: "fetchTournament srv key dashboardMode = (c1, Inr (tb_tournament b))"
    and c2: "fetchStages srv (tournament_id (tb_tournament b)) isAuthenticated = (c2, Inr (tb_canManage b, stages))"
    and stages: "tb_stages b = (if dashboardMode then withoutDraftRounds stages else stages)"
    and calls: "set calls = set c1 \<union> set c2 \<union>
      (let tid = tournament_id (tb_tournament b)
       in {GetPlayers tid, GetTeams tid, GetRankings tid, GetStandings tid} \<union>
          (if tb_canManage b \<and> \<not> dashboardMode
           then {GetAvailableInputs tid, GetNextStageRankings tid} else {}))"
    using bundle_parts[OF assms] by blast
  have "set c1 \<subseteq> range GetTournaments \<union> range GetTournament"
    using fetchTournament_calls[of srv key dashboardMode] c1 by simp
  with fetchStages_Inr[OF c2] calls stages show ?thesis
    by (auto simp: Let_def withoutDraftRounds_no_draft split: if_splits)
qed

theorem bundle_rights_witness:
  "\<exists>calls b. fetchTournamentBundle sampleServer ''cup'' True True = (calls, Inr b) \<and> \<not> tb_canManage b"
proof -
  have "isNumericIdentifier ''cup'' = False" by code_simp
  then obtain calls b where b: "fetchTournamentBundle sampleServer ''cup'' True True = (calls, Inr b)"
    and t: "tb_tournament b = sampleTournament 1 (Some ''cup'')"
    by (simp add: fetchTournamentBundle_def fetchTournament_def fetchStages_def sampleServer_def
        isAuthorizationError_def Let_def)
  with bundle_rights[OF b] show ?thesis by (auto simp: sampleServer_def)
qed

end
