(* ===== verification/BackendAccess.thy ===== *)
theory BackendAccess
  imports ApiBundle
begin

text \<open>
  What the backend of the repository answers to the requests that load a tournament, by who asks
  (\<open>backend/bracket/routes/auth.py\<close>, \<open>tournaments.py\<close>, \<open>stages.py\<close>, \<open>teams.py\<close>, \<open>players.py\<close>, \<open>rankings.py\<close>):
  organizers see their tournaments, everyone else the public ones, and a custom link resolves while the Details
  page is enabled. The database is a record; what a route computes from the rows of a tournament is a function of
  the tournament. Failures of the network or of the backend itself are left out.
\<close>

section \<open>The backend\<close>

record Backend =
  be_tournaments :: "Tournament list"
  be_usersClubs :: "(int \<times> int) list" \<comment> \<open>\<open>users_x_clubs\<close>\<close>
  be_stages :: "int \<Rightarrow> StageWithStageItems list"
  be_players :: "int \<Rightarrow> Player list"
  be_teams :: "int \<Rightarrow> FullTeamWithPlayers list"
  be_rankings :: "int \<Rightarrow> Ranking list"
  be_standings :: "int \<Rightarrow> string \<rightharpoonup> StageItemInputStanding list"
  be_availableInputs :: "int \<Rightarrow> string \<rightharpoonup> SlotOption list"
  be_nextStageRankings :: "int \<Rightarrow> string \<rightharpoonup> StageItemInputUpdate list"

text \<open>An \<open>HTTPException\<close>, as axios reports it.\<close>

definition http_exception :: "int \<Rightarrow> string \<Rightarrow> request_error" where
  "http_exception status detail =
     \<lparr>error_status = Some status, error_detail_of = Some (DetailText detail),
      error_message = Some (''Request failed with status code '' @ int_text status)\<rparr>"

definition unauthorized :: "string \<Rightarrow> request_error" where
  "unauthorized detail = http_exception 401 detail"

definition get_user_access_to_tournament :: "Backend \<Rightarrow> int \<Rightarrow> int \<Rightarrow> bool" where
  "get_user_access_to_tournament be tid user =
     list_ex (\<lambda>t. tournament_id t = tid \<and> (user, tournament_club_id t) \<in> set (be_usersClubs be))
       (be_tournaments be)"

definition tournament_row :: "Backend \<Rightarrow> int \<Rightarrow> Tournament option" where
  "tournament_row be tid = List.find (\<lambda>t. tournament_id t = tid) (be_tournaments be)"

definition sql_get_tournament_by_endpoint_name :: "Backend \<Rightarrow> string \<Rightarrow> Tournament option" where
  "sql_get_tournament_by_endpoint_name be endpoint_name =
     List.find (\<lambda>t. tournament_dashboard_endpoint t = Some endpoint_name \<and> tournament_dashboard_public t)
       (be_tournaments be)"

definition publicly_available :: "Tournament \<Rightarrow> bool" where
  "publicly_available t = (tournament_dashboard_public t \<or> tournament_status t = OPEN)"

text \<open>Who a request with a valid token comes from: \<open>None\<close> is a visitor, or someone whose session has expired.\<close>

type_synonym asker = "int option"

definition user_authenticated_for_tournament :: "Backend \<Rightarrow> asker \<Rightarrow> int \<Rightarrow> request_error + int" where
  "user_authenticated_for_tournament be who tid =
     (case who of
        Some user \<Rightarrow> if get_user_access_to_tournament be tid user then Inr user
          else Inl (unauthorized ''Could not validate credentials'')
      | None \<Rightarrow> Inl (unauthorized ''Could not validate credentials''))"

definition not_public :: request_error where
  "not_public = unauthorized ''Could not validate credentials or page is not publicly available''"

definition user_authenticated_or_public_dashboard :: "Backend \<Rightarrow> asker \<Rightarrow> int \<Rightarrow> request_error + asker" where
  "user_authenticated_or_public_dashboard be who tid =
     (case user_authenticated_for_tournament be who tid of
        Inr user \<Rightarrow> Inr (Some user)
      | Inl _ \<Rightarrow>
         (case tournament_row be tid of
            None \<Rightarrow> Inl not_public
          | Some t \<Rightarrow> if publicly_available t then Inr None else Inl not_public))"

definition get_full_tournament_details :: "Backend \<Rightarrow> int \<Rightarrow> bool \<Rightarrow> StageWithStageItems list" where
  "get_full_tournament_details be tid no_draft_rounds =
     (if no_draft_rounds then withoutDraftRounds (be_stages be tid) else be_stages be tid)"

definition get_stages :: "Backend \<Rightarrow> asker \<Rightarrow> int \<Rightarrow> bool \<Rightarrow> request_error + StageWithStageItems list" where
  "get_stages be who tid no_draft_rounds =
     (case user_authenticated_or_public_dashboard be who tid of
        Inl e \<Rightarrow> Inl e
      | Inr user \<Rightarrow>
         if \<not> no_draft_rounds \<and> user = None
         then Inl (http_exception 403 ''Can't view draft rounds when not authorized'')
         else Inr (get_full_tournament_details be tid no_draft_rounds))"

definition get_tournament :: "Backend \<Rightarrow> asker \<Rightarrow> int \<Rightarrow> request_error + Tournament" where
  "get_tournament be who tid =
     (case user_authenticated_or_public_dashboard be who tid of
        Inl e \<Rightarrow> Inl e
      | Inr _ \<Rightarrow> (case tournament_row be tid of Some t \<Rightarrow> Inr t | None \<Rightarrow> Inl not_public))"

text \<open>\<open>/tournaments?endpoint_name=\<dots>\<close>: the link is looked up before anything else, whoever asks.\<close>

definition get_tournaments_by_link :: "Backend \<Rightarrow> string \<Rightarrow> request_error + Tournament list" where
  "get_tournaments_by_link be endpoint_name =
     (case sql_get_tournament_by_endpoint_name be endpoint_name of
        None \<Rightarrow> Inl (unauthorized ''Could not validate credentials'')
      | Some t \<Rightarrow> Inr [t])"

definition if_public :: "Backend \<Rightarrow> asker \<Rightarrow> (int \<Rightarrow> 'a) \<Rightarrow> int \<Rightarrow> request_error + 'a" where
  "if_public be who f tid = map_sum id (\<lambda>_. f tid) (user_authenticated_or_public_dashboard be who tid)"

definition if_organizer :: "Backend \<Rightarrow> asker \<Rightarrow> (int \<Rightarrow> 'a) \<Rightarrow> int \<Rightarrow> request_error + 'a" where
  "if_organizer be who f tid = map_sum id (\<lambda>_. f tid) (user_authenticated_for_tournament be who tid)"

definition answers :: "Backend \<Rightarrow> (request_error list \<Rightarrow> request_error) \<Rightarrow> asker \<Rightarrow> api_server" where
  "answers be race who =
     \<lparr>srv_tournaments = get_tournaments_by_link be, srv_tournament = get_tournament be who,
      srv_stages = get_stages be who,
      srv_players = if_public be who (be_players be), srv_teams = if_public be who (be_teams be),
      srv_rankings = if_public be who (be_rankings be), srv_standings = if_public be who (be_standings be),
      srv_availableInputs = if_organizer be who (be_availableInputs be),
      srv_nextStageRankings = if_organizer be who (be_nextStageRankings be), srv_race = race\<rparr>"

text \<open>What the database guarantees: ids and links are unique (a primary key and a unique index), and every stored
  link has passed the check.\<close>

definition backend_ok :: "Backend \<Rightarrow> bool" where
  "backend_ok be \<longleftrightarrow>
     distinct (map tournament_id (be_tournaments be)) \<and>
     distinct (List.map_filter tournament_dashboard_endpoint (be_tournaments be)) \<and>
     list_all (\<lambda>t. 0 \<le> tournament_id t \<and> stored_link t) (be_tournaments be)"

section \<open>Facts\<close>

lemma find_unique:
  assumes "x \<in> set xs" "P x" "\<And>y. y \<in> set xs \<Longrightarrow> P y \<Longrightarrow> y = x"
  shows "List.find P xs = Some x"
proof (cases "List.find P xs")
  case None
  then show ?thesis using assms(1,2) by (simp add: find_None_iff)
next
  case (Some y)
  then show ?thesis using find_SomeD[OF Some] assms(3)[of y] by simp
qed

lemma distinct_keys:
  assumes "distinct (List.map_filter f xs)" "x \<in> set xs" "y \<in> set xs" "f x = Some k" "f y = Some k"
  shows "x = y"
proof -
  have "inj_on (the \<circ> f) (set (filter (\<lambda>x. f x \<noteq> None) xs))"
    using assms(1) unfolding List.map_filter_def distinct_map by blast
  then show ?thesis by (rule inj_onD) (use assms in auto)
qed

lemma row_of: "backend_ok be \<Longrightarrow> t \<in> set (be_tournaments be) \<Longrightarrow> tournament_row be (tournament_id t) = Some t"
  unfolding tournament_row_def backend_ok_def by (rule find_unique) (auto simp: distinct_map inj_on_def)

lemma row_SomeD: "tournament_row be tid = Some t \<Longrightarrow> t \<in> set (be_tournaments be) \<and> tournament_id t = tid"
  by (auto simp: tournament_row_def dest: find_SomeD)

lemma link_of:
  assumes "backend_ok be" "t \<in> set (be_tournaments be)"
    and "tournament_dashboard_endpoint t = Some link" "tournament_dashboard_public t"
  shows "sql_get_tournament_by_endpoint_name be link = Some t"
  unfolding sql_get_tournament_by_endpoint_name_def
  by (rule find_unique) (use assms distinct_keys in \<open>auto simp: backend_ok_def\<close>)

lemma link_SomeD: "sql_get_tournament_by_endpoint_name be link = Some t \<Longrightarrow>
    t \<in> set (be_tournaments be) \<and> tournament_dashboard_public t"
  by (auto simp: sql_get_tournament_by_endpoint_name_def dest: find_SomeD)

text \<open>Whether a request comes from an organizer of the tournament.\<close>

definition organizes :: "Backend \<Rightarrow> asker \<Rightarrow> int \<Rightarrow> bool" where
  "organizes be who tid = (case who of None \<Rightarrow> False | Some user \<Rightarrow> get_user_access_to_tournament be tid user)"

lemma organizer_checked: "user_authenticated_for_tournament be who tid =
    (if organizes be who tid then Inr (the who) else Inl (unauthorized ''Could not validate credentials''))"
  by (simp add: user_authenticated_for_tournament_def organizes_def split: option.split)

lemma access_checked:
  "user_authenticated_or_public_dashboard be who tid =
     (if organizes be who tid then Inr (Some (the who))
      else if \<exists>t. tournament_row be tid = Some t \<and> publicly_available t then Inr None else Inl not_public)"
  by (simp add: user_authenticated_or_public_dashboard_def organizer_checked split: option.split)

lemma organizes_None [simp]: "\<not> organizes be None tid"
  by (simp add: organizes_def)

lemma answers_simps [simp]:
  "srv_tournaments (answers be race who) = get_tournaments_by_link be"
  "srv_tournament (answers be race who) = get_tournament be who"
  "srv_stages (answers be race who) = get_stages be who"
  "srv_race (answers be race who) = race"
  by (simp_all add: answers_def)


text \<open>The parts of a tournament for someone who may see it.\<close>

lemma parts_answered:
  assumes "backend_ok be" "t \<in> set (be_tournaments be)"
    and "publicly_available t \<or> organizes be who (tournament_id t)"
  shows "if_public be who f (tournament_id t) = Inr (f (tournament_id t))"
    and "get_stages be who (tournament_id t) noDrafts =
      (if noDrafts \<or> organizes be who (tournament_id t) then Inr (get_full_tournament_details be (tournament_id t) noDrafts)
       else Inl (http_exception 403 ''Can't view draft rounds when not authorized''))"
  using assms(3) row_of[OF assms(1,2)] by (auto simp: if_public_def get_stages_def access_checked)

text \<open>A tournament that is found: it is a row of the table, and whoever found it may see it.\<close>

lemma found_tournament:
  assumes "backend_ok be" "fetchTournament (answers be race who) key True = (calls, Inr t)"
  shows "t \<in> set (be_tournaments be) \<and> (publicly_available t \<or> organizes be who (tournament_id t))"
  using assms(2)
  by (auto simp: fetchTournament_def get_tournaments_by_link_def get_tournament_def access_checked lift_request_def
      Let_def publicly_available_def split: if_splits sum.splits option.splits list.splits
      dest!: link_SomeD row_SomeD)

lemma details_bundle:
  assumes "backend_ok be" "fetchTournament (answers be race who) key True = (calls, Inr t)"
    and "publicly_available t \<or> organizes be who (tournament_id t)" "organizes be who (tournament_id t) \<longrightarrow> isAuthenticated"
  shows "snd (fetchTournamentBundle (answers be race who) key True isAuthenticated) =
    Inr \<lparr>tb_canManage = organizes be who (tournament_id t), tb_tournament = t,
      tb_stages = withoutDraftRounds (be_stages be (tournament_id t)),
      tb_players = be_players be (tournament_id t), tb_teams = be_teams be (tournament_id t),
      tb_rankings = be_rankings be (tournament_id t), tb_standings = be_standings be (tournament_id t),
      tb_availableInputs = Map.empty, tb_nextStageRankings = Map.empty\<rparr>"
  using assms(2-4) found_tournament[OF assms(1,2)]
  by (auto simp: fetchTournamentBundle_def fetchStages_def answers_def parts_answered[OF assms(1)] Let_def
      get_full_tournament_details_def withoutDraftRounds_idem isAuthorizationError_def http_exception_def)

lemma visitor_tournament:
  assumes "backend_ok be"
  shows "snd (fetchTournament (answers be race None) key True) =
    (case snd (fetchTournament (answers be race who) key True) of
       Inr t \<Rightarrow> if publicly_available t then Inr t else Inl (RequestFailed not_public)
     | Inl e \<Rightarrow> Inl e)"
proof (cases "isNumericIdentifier key")
  case False
  then show ?thesis
    by (auto simp: fetchTournament_def get_tournaments_by_link_def publicly_available_def split: option.split
        dest!: link_SomeD)
next
  case True
  then show ?thesis
    by (auto simp: fetchTournament_def get_tournament_def access_checked lift_request_def Let_def split: option.split)
qed

lemma failed_tournament:
  "snd (fetchTournament srv key mode) = Inl e \<Longrightarrow> snd (fetchTournamentBundle srv key mode isAuthenticated) = Inl e"
  by (auto simp: fetchTournamentBundle_def split: prod.split)

section \<open>Properties\<close>

text \<open>C2: The Details pages show everyone the same. Whoever is signed in gets the bundle a visitor gets, apart from
  the mark that they can manage it, and a failure is a visitor's failure; the one exception is a tournament
  that is not public (archived, with its Details page disabled), which its organizers see by its id and
  visitors are refused.\<close>

theorem details_same_for_all:
  assumes "backend_ok be"
  shows "let visitor = snd (fetchTournamentBundle (answers be race None) key True False)
    in case snd (fetchTournamentBundle (answers be race who) key True True) of
         Inr b \<Rightarrow> if publicly_available (tb_tournament b) then visitor = Inr (b\<lparr>tb_canManage := False\<rparr>)
           else tb_canManage b \<and> visitor = Inl (RequestFailed not_public)
       | Inl e \<Rightarrow> visitor = Inl e"
proof (cases "snd (fetchTournament (answers be race who) key True)")
  case (Inl e)
  then have "snd (fetchTournament (answers be race None) key True) = Inl e"
    using visitor_tournament[OF assms, of race key who] by simp
  with Inl show ?thesis by (simp add: failed_tournament)
next
  case (Inr t)
  then obtain calls where user: "fetchTournament (answers be race who) key True = (calls, Inr t)" by (metis prod.collapse)
  have access: "publicly_available t \<or> organizes be who (tournament_id t)" using found_tournament[OF assms user] by blast
  note user_bundle = details_bundle[OF assms user access, of True]
  have visitor: "snd (fetchTournament (answers be race None) key True) =
      (if publicly_available t then Inr t else Inl (RequestFailed not_public))"
    using visitor_tournament[OF assms, of race key who] Inr by simp
  show ?thesis
  proof (cases "publicly_available t")
    case True
    then obtain calls' where "fetchTournament (answers be race None) key True = (calls', Inr t)"
      using visitor by (metis prod.collapse)
    from details_bundle[OF assms this, of False] True user_bundle show ?thesis by simp
  next
    case False
    with visitor access user_bundle show ?thesis by (simp add: failed_tournament)
  qed
qed

definition sampleBackend :: Backend where
  "sampleBackend =
     \<lparr>be_tournaments = [sampleTournament 1 (Some ''cup''),
        (sampleTournament 2 (Some ''old''))\<lparr>tournament_dashboard_public := False, tournament_status := ARCHIVED\<rparr>],
      be_usersClubs = [(9, 1)],
      be_stages = (\<lambda>_. [sampleStage 1 [sampleItem 1 SWISS [] [sampleRound 1 True []]]]),
      be_players = (\<lambda>_. []), be_teams = (\<lambda>_. []), be_rankings = (\<lambda>_. []), be_standings = (\<lambda>_. Map.empty),
      be_availableInputs = (\<lambda>_. Map.empty), be_nextStageRankings = (\<lambda>_. Map.empty)\<rparr>"

lemma sample_backend: "backend_ok sampleBackend"
proof -
  have "stored_link (sampleTournament 1 (Some ''cup''))" "stored_link ((sampleTournament 2 (Some ''old''))
      \<lparr>tournament_dashboard_public := False, tournament_status := ARCHIVED\<rparr>)"
    by (simp add: sampleTournament_def; code_simp)+
  then show ?thesis by (simp add: backend_ok_def sampleBackend_def sampleTournament_def map_filter_simps)
qed

lemma sample_load:
  "fetchTournament (answers sampleBackend hd (Some 9)) ''cup'' True =
     ([GetTournaments ''cup''], Inr (sampleTournament 1 (Some ''cup'')))"
proof -
  have "\<not> isNumericIdentifier ''cup''" by code_simp
  moreover have "sql_get_tournament_by_endpoint_name sampleBackend ''cup'' = Some (sampleTournament 1 (Some ''cup''))"
    by (rule link_of[OF sample_backend]) (simp_all add: sampleBackend_def sampleTournament_def)
  ultimately show ?thesis by (simp add: fetchTournament_def get_tournaments_by_link_def)
qed

text \<open>An organizer and a visitor at the same link: the same stages, without the draft round.\<close>

theorem details_same_for_all_witness:
  "\<exists>b. snd (fetchTournamentBundle (answers sampleBackend hd (Some 9)) ''cup'' True True) = Inr b \<and> tb_canManage b \<and>
     snd (fetchTournamentBundle (answers sampleBackend hd None) ''cup'' True False) = Inr (b\<lparr>tb_canManage := False\<rparr>)"
proof -
  have o: "organizes sampleBackend (Some 9) 1"
    by (simp add: organizes_def get_user_access_to_tournament_def sampleBackend_def sampleTournament_def)
  have p: "publicly_available (sampleTournament 1 (Some ''cup''))"
    by (simp add: publicly_available_def sampleTournament_def)
  have i: "tournament_id (sampleTournament 1 (Some ''cup'')) = 1" by (simp add: sampleTournament_def)
  from details_bundle[OF sample_backend sample_load, of True] p
  obtain b where b: "snd (fetchTournamentBundle (answers sampleBackend hd (Some 9)) ''cup'' True True) = Inr b"
    "tb_tournament b = sampleTournament 1 (Some ''cup'')" "tb_canManage b"
    using o i by simp
  with details_same_for_all[OF sample_backend, of hd "''cup''" "Some 9"] p show ?thesis by simp
qed



end
