(* ===== verification/Zod.thy ===== *)
theory Zod
  imports JsValue
begin

text \<open>
  Schemas of the validation library Zod, as the source builds them, and the interface of the library: what
  its documentation promises of \<open>safeParse\<close> for each way to build a schema (locale \<open>zod_library\<close>). The two
  formats that only the library knows, email addresses and ISO date-times, stay parameters. The laws are
  interpreted on the function \<open>zparse\<close> that follows them, which shows that they can hold, and they
  determine the library: every library that keeps them parses as \<open>zparse\<close> does.
\<close>

section \<open>Schemas\<close>

datatype zod_format = FmtEmail | FmtDateTime | FmtDecimal | FmtPassword

datatype schema =
    ZBoolean
  | ZNumber
  | ZInt "int option" "int option" \<comment> \<open>\<open>gte\<close> and \<open>lte\<close>\<close>
  | ZString "nat option" "nat option" "zod_format option" \<comment> \<open>\<open>min\<close> and \<open>max\<close>\<close>
  | ZEnum "string list"
  | ZNull
  | ZUnknown
  | ZVoid
  | ZArray schema
  | ZRecord schema \<comment> \<open>with string keys\<close>
  | ZUnion "schema list"
  | ZObject "(string \<times> schema) list"
  | ZNullable schema
  | ZOptional schema
  | ZDefault schema js_value
  | ZTransform schema "js_value \<Rightarrow> js_value option" \<comment> \<open>\<open>None\<close> where the function throws\<close>
  | ZPreprocess "js_value \<Rightarrow> js_value" schema \<comment> \<open>\<open>z.coerce\<close>\<close>

abbreviation ZText :: schema where "ZText \<equiv> ZString None None None"
abbreviation ZDateTime :: schema where "ZDateTime \<equiv> ZString None None (Some FmtDateTime)"
abbreviation ZDecimal :: schema where "ZDecimal \<equiv> ZString None None (Some FmtDecimal)"
abbreviation ZInteger :: schema where "ZInteger \<equiv> ZInt None None"

text \<open>The fields of an object schema, \<open>extend\<close> and \<open>pick\<close>.\<close>

fun object_shape :: "schema \<Rightarrow> (string \<times> schema) list" where
  "object_shape (ZObject fs) = fs"
| "object_shape _ = []"

definition z_extend :: "schema \<Rightarrow> (string \<times> schema) list \<Rightarrow> schema" where
  "z_extend s fs = ZObject (obj_spread (object_shape s) fs)"

definition z_pick :: "schema \<Rightarrow> string list \<Rightarrow> schema" where
  "z_pick s ks = ZObject (filter (\<lambda>f. fst f \<in> set ks) (object_shape s))"

section \<open>Results\<close>

text \<open>An issue is the path of the value it is about.\<close>

datatype parsed = Parsed js_value | Issues "string list list" | Threw

definition check :: "bool \<Rightarrow> js_value \<Rightarrow> parsed" where
  "check b v = (if b then Parsed v else Issues [[]])"

text \<open>\<open>/^(?!^[-+.]*$)[+-]?0*\d*\.?\d*$/\<close>, the regular expression of the generated schemas.\<close>

definition decimal_text :: "string \<Rightarrow> bool" where
  "decimal_text s =
     (let sign = (\<lambda>c. c = CHR ''+'' \<or> c = CHR ''-''); r = (if s \<noteq> [] \<and> sign (hd s) then tl s else s);
          q = dropWhile is_digit r
      in \<not> list_all (\<lambda>c. sign c \<or> c = CHR ''.'') s \<and>
         list_all is_digit (if q \<noteq> [] \<and> hd q = CHR ''.'' then tl q else q))"

text \<open>The length JavaScript counts: UTF-16 units, of a text that is held as UTF-8.\<close>

definition char_units :: "char \<Rightarrow> nat" where
  "char_units c = (let b = of_char c :: nat in if 128 \<le> b \<and> b < 192 then 0 else if 240 \<le> b then 2 else 1)"

definition js_length :: "string \<Rightarrow> nat" where
  "js_length s = sum_list (map char_units s)"

fun in_format :: "(string \<Rightarrow> bool) \<Rightarrow> (string \<Rightarrow> bool) \<Rightarrow> zod_format \<Rightarrow> string \<Rightarrow> bool" where
  "in_format email datetime FmtEmail s = email s"
| "in_format email datetime FmtDateTime s = datetime s"
| "in_format email datetime FmtDecimal s = decimal_text s"
| "in_format email datetime FmtPassword s = (s = ''password'')"

definition opt_all :: "'a option \<Rightarrow> ('a \<Rightarrow> bool) \<Rightarrow> bool" where
  "opt_all m P = (case m of None \<Rightarrow> True | Some x \<Rightarrow> P x)"

definition text_ok ::
  "(string \<Rightarrow> bool) \<Rightarrow> (string \<Rightarrow> bool) \<Rightarrow> nat option \<Rightarrow> nat option \<Rightarrow> zod_format option \<Rightarrow> js_value \<Rightarrow> bool" where
  "text_ok email datetime mn mx fmt v =
     (case v of
        JStr s \<Rightarrow> opt_all mn (\<lambda>n. n \<le> js_length s) \<and> opt_all mx (\<lambda>n. js_length s \<le> n) \<and>
          opt_all fmt (\<lambda>f. in_format email datetime f s)
      | _ \<Rightarrow> False)"

definition safe_integer :: "js_value \<Rightarrow> int option" where
  "safe_integer v =
     (case v of
        JNum n \<Rightarrow> (case int_of_num n of Some i \<Rightarrow> if \<bar>i\<bar> < 2 ^ 53 then Some i else None | None \<Rightarrow> None)
      | _ \<Rightarrow> None)"

definition int_ok :: "int option \<Rightarrow> int option \<Rightarrow> js_value \<Rightarrow> bool" where
  "int_ok lo hi v =
     (case safe_integer v of
        None \<Rightarrow> False
      | Some i \<Rightarrow> opt_all lo (\<lambda>l. l \<le> i) \<and> opt_all hi (\<lambda>h. i \<le> h))"

text \<open>The issues of the parts, each under its key; a part that throws is fatal.\<close>

definition part_issues :: "(string \<times> parsed) list \<Rightarrow> string list list" where
  "part_issues rs = concat (map (\<lambda>(k, r). case r of Issues ps \<Rightarrow> map ((#) k) ps | _ \<Rightarrow> []) rs)"

definition parts_result :: "(string \<times> parsed) list \<Rightarrow> js_value \<Rightarrow> parsed" where
  "parts_result rs v =
     (if list_ex (\<lambda>(k, r). r = Threw) rs then Threw
      else if part_issues rs \<noteq> [] then Issues (part_issues rs) else Parsed v)"

definition part_value :: "parsed \<Rightarrow> js_value" where
  "part_value r = (case r of Parsed v \<Rightarrow> v | _ \<Rightarrow> JUndefined)"

text \<open>An absent key stays absent where its schema gives nothing for it.\<close>

definition parsed_entries ::
  "(string \<times> js_value) list \<Rightarrow> (string \<times> parsed) list \<Rightarrow> (string \<times> js_value) list" where
  "parsed_entries es rs =
     filter (\<lambda>(k, v). v \<noteq> JUndefined \<or> obj_has es k) (map (\<lambda>(k, r). (k, part_value r)) rs)"

text \<open>A part that throws is passed over here, where the library passes the exception on: only a transformation throws,
  and no union of the program has one.\<close>

fun first_parsed :: "parsed list \<Rightarrow> parsed" where
  "first_parsed [] = Issues [[]]"
| "first_parsed (Parsed v # rs) = Parsed v"
| "first_parsed (_ # rs) = first_parsed rs"

text \<open>What an object schema takes for an object.\<close>

fun object_entries :: "js_value \<Rightarrow> (string \<times> js_value) list option" where
  "object_entries (JObj es) = Some es"
| "object_entries (JDate _) = Some []"
| "object_entries (JBlob _) = Some []"
| "object_entries (JForm _) = Some []"
| "object_entries _ = None"

definition object_result ::
  "(string \<times> js_value) list option \<Rightarrow> (string \<times> (js_value \<Rightarrow> parsed)) list \<Rightarrow> parsed" where
  "object_result es fs =
     (case es of
        None \<Rightarrow> Issues [[]]
      | Some es \<Rightarrow>
         (let rs = map (\<lambda>(k, p). (k, p (obj_get es k))) fs in parts_result rs (JObj (parsed_entries es rs))))"

definition array_result :: "(js_value \<Rightarrow> parsed) \<Rightarrow> js_value \<Rightarrow> parsed" where
  "array_result p v =
     (case v of
        JArr vs \<Rightarrow>
          (let rs = map (\<lambda>(i, w). (nat_text i, p w)) (indexed vs)
           in parts_result rs (JArr (map (part_value \<circ> snd) rs)))
      | _ \<Rightarrow> Issues [[]])"

definition record_result :: "(js_value \<Rightarrow> parsed) \<Rightarrow> js_value \<Rightarrow> parsed" where
  "record_result p v =
     (case v of
        JObj es \<Rightarrow>
          (let rs = map (\<lambda>(k, w). (k, p w)) es
           in parts_result rs (JObj (map (\<lambda>(k, r). (k, part_value r)) rs)))
      | _ \<Rightarrow> Issues [[]])"

definition transformed :: "(js_value \<Rightarrow> js_value option) \<Rightarrow> parsed \<Rightarrow> parsed" where
  "transformed f r =
     (case r of Parsed v \<Rightarrow> (case f v of Some w \<Rightarrow> Parsed w | None \<Rightarrow> Threw) | _ \<Rightarrow> r)"

section \<open>The library\<close>

locale zod_library =
  fixes safeParse :: "schema \<Rightarrow> js_value \<Rightarrow> parsed"
    and email :: "string \<Rightarrow> bool"
    and datetime :: "string \<Rightarrow> bool"
  assumes z_boolean: "safeParse ZBoolean v = check (\<exists>b. v = JBool b) v"
    and z_number: "safeParse ZNumber v = check (\<exists>q. v = JNum (Fin q)) v"
    and z_int: "safeParse (ZInt lo hi) v = check (int_ok lo hi v) v"
    and z_string: "safeParse (ZString mn mx fmt) v = check (text_ok email datetime mn mx fmt v) v"
    and z_enum: "safeParse (ZEnum xs) v = check (v \<in> JStr ` set xs) v"
    and z_null: "safeParse ZNull v = check (v = JNull) v"
    and z_unknown: "safeParse ZUnknown v = Parsed v"
    and z_void: "safeParse ZVoid v = check (v = JUndefined) v"
    and z_array: "safeParse (ZArray s) v = array_result (safeParse s) v"
    and z_record: "safeParse (ZRecord s) v = record_result (safeParse s) v"
    and z_union: "safeParse (ZUnion ss) v = first_parsed (map (\<lambda>s. safeParse s v) ss)"
    and z_object:
      "safeParse (ZObject fs) v = object_result (object_entries v) (map (\<lambda>e. (fst e, safeParse (snd e))) fs)"
    and z_nullable: "safeParse (ZNullable s) v = (if v = JNull then Parsed JNull else safeParse s v)"
    and z_optional: "safeParse (ZOptional s) v = (if v = JUndefined then Parsed JUndefined else safeParse s v)"
    and z_default: "safeParse (ZDefault s d) v = (if v = JUndefined then Parsed d else safeParse s v)"
    and z_transform: "safeParse (ZTransform s f) v = transformed f (safeParse s v)"
    and z_preprocess: "safeParse (ZPreprocess g s) v = safeParse s (g v)"

text \<open>The parser that follows the laws.\<close>

definition is_boolean :: "js_value \<Rightarrow> bool" where
  "is_boolean v = (case v of JBool _ \<Rightarrow> True | _ \<Rightarrow> False)"

definition is_finite :: "js_value \<Rightarrow> bool" where
  "is_finite v = (case v of JNum n \<Rightarrow> (case n of Fin _ \<Rightarrow> True | _ \<Rightarrow> False) | _ \<Rightarrow> False)"

fun is_undefined :: "js_value \<Rightarrow> bool" where
  "is_undefined JUndefined = True"
| "is_undefined _ = False"

fun is_null :: "js_value \<Rightarrow> bool" where
  "is_null JNull = True"
| "is_null _ = False"

lemma is_undefined_iff [simp]: "is_undefined v \<longleftrightarrow> v = JUndefined"
  by (cases v) simp_all

lemma is_null_iff [simp]: "is_null v \<longleftrightarrow> v = JNull"
  by (cases v) simp_all

fun zparse :: "(string \<Rightarrow> bool) \<Rightarrow> (string \<Rightarrow> bool) \<Rightarrow> schema \<Rightarrow> js_value \<Rightarrow> parsed" where
  "zparse em dt ZBoolean v = check (is_boolean v) v"
| "zparse em dt ZNumber v = check (is_finite v) v"
| "zparse em dt (ZInt lo hi) v = check (int_ok lo hi v) v"
| "zparse em dt (ZString mn mx fmt) v = check (text_ok em dt mn mx fmt v) v"
| "zparse em dt (ZEnum xs) v = check (list_ex (\<lambda>x. v = JStr x) xs) v"
| "zparse em dt ZNull v = check (is_null v) v"
| "zparse em dt ZUnknown v = Parsed v"
| "zparse em dt ZVoid v = check (is_undefined v) v"
| "zparse em dt (ZArray s) v = array_result (zparse em dt s) v"
| "zparse em dt (ZRecord s) v = record_result (zparse em dt s) v"
| "zparse em dt (ZUnion ss) v = first_parsed (map (\<lambda>s. zparse em dt s v) ss)"
| "zparse em dt (ZObject fs) v =
     object_result (object_entries v) (map (\<lambda>e. (fst e, zparse em dt (snd e))) fs)"
| "zparse em dt (ZNullable s) v = (if is_null v then Parsed JNull else zparse em dt s v)"
| "zparse em dt (ZOptional s) v = (if is_undefined v then Parsed JUndefined else zparse em dt s v)"
| "zparse em dt (ZDefault s d) v = (if is_undefined v then Parsed d else zparse em dt s v)"
| "zparse em dt (ZTransform s f) v = transformed f (zparse em dt s v)"
| "zparse em dt (ZPreprocess g s) v = zparse em dt s (g v)"

interpretation zod_reference: zod_library "zparse email datetime" email datetime for email datetime
  by unfold_locales
    (auto simp: is_boolean_def is_finite_def check_def list_ex_iff split: js_value.splits js_num.splits)

text \<open>The laws determine the library.\<close>

context zod_library
begin

lemma safeParse_unique: "safeParse = zparse email datetime"
proof (intro ext)
  fix s v
  show "safeParse s v = zparse email datetime s v"
  proof (induction s arbitrary: v)
    case (ZArray s)
    then have "safeParse s = zparse email datetime s" by blast
    then show ?case by (simp add: z_array)
  next
    case (ZRecord s)
    then have "safeParse s = zparse email datetime s" by blast
    then show ?case by (simp add: z_record)
  next
    case (ZUnion ss)
    then have "map (\<lambda>s. safeParse s v) ss = map (\<lambda>s. zparse email datetime s v) ss" by simp
    then show ?case unfolding z_union zparse.simps by (rule arg_cong)
  next
    case (ZObject fs)
    then have "safeParse (snd e) = zparse email datetime (snd e)" if "e \<in> set fs" for e
      using that by (cases e) (fastforce simp: fun_eq_iff)
    then have "map (\<lambda>e. (fst e, safeParse (snd e))) fs = map (\<lambda>e. (fst e, zparse email datetime (snd e))) fs"
      by simp
    then show ?case unfolding z_object zparse.simps by (rule arg_cong)
  qed (auto simp: z_boolean z_number z_int z_string z_enum z_null z_unknown z_void z_nullable z_optional
      z_default z_transform z_preprocess is_boolean_def is_finite_def list_ex_iff image_iff check_def
      split: js_value.splits js_num.splits)
qed

end

section \<open>What is parsed can be parsed again\<close>

text \<open>Whatever the first schema lets through, the second one takes as it is.\<close>

definition into :: "(string \<Rightarrow> bool) \<Rightarrow> (string \<Rightarrow> bool) \<Rightarrow> schema \<Rightarrow> schema \<Rightarrow> bool" where
  "into em dt s s' = (\<forall>v w. zparse em dt s v = Parsed w \<longrightarrow> zparse em dt s' w = Parsed w)"

lemma intoI: "(\<And>v w. zparse em dt s v = Parsed w \<Longrightarrow> zparse em dt s' w = Parsed w) \<Longrightarrow> into em dt s s'"
  by (simp add: into_def)

lemma intoD: "into em dt s s' \<Longrightarrow> zparse em dt s v = Parsed w \<Longrightarrow> zparse em dt s' w = Parsed w"
  by (simp add: into_def)

text \<open>Schemas that only check.\<close>

fun checks_only :: "schema \<Rightarrow> bool" where
  "checks_only (ZArray s) = checks_only s"
| "checks_only (ZRecord s) = checks_only s"
| "checks_only (ZUnion ss) = list_all checks_only ss"
| "checks_only (ZObject _) = False"
| "checks_only (ZNullable s) = checks_only s"
| "checks_only (ZOptional s) = checks_only s"
| "checks_only (ZDefault _ _) = False"
| "checks_only (ZTransform _ _) = False"
| "checks_only (ZPreprocess _ _) = False"
| "checks_only _ = True"

lemma check_Parsed [simp]: "check b v = Parsed w \<longleftrightarrow> b \<and> w = v"
  by (auto simp: check_def)

lemma check_not_Threw [simp]: "check b v \<noteq> Threw"
  by (simp add: check_def)

lemma check_Issues [simp]: "check b v = Issues ps \<longleftrightarrow> \<not> b \<and> ps = [[]]"
  by (auto simp: check_def)

lemma parts_result_Parsed: "parts_result rs v = Parsed w \<longleftrightarrow>
    \<not> list_ex (\<lambda>(k, r). r = Threw) rs \<and> part_issues rs = [] \<and> w = v"
  by (auto simp: parts_result_def)

lemma part_issues_Nil: "part_issues rs = [] \<longleftrightarrow> (\<forall>(k, r) \<in> set rs. \<forall>ps. r = Issues ps \<longrightarrow> ps = [])"
  by (fastforce simp: part_issues_def split: parsed.splits)

lemma first_parsed_Parsed: "first_parsed rs = Parsed w \<Longrightarrow> Parsed w \<in> set rs"
  by (induction rs rule: first_parsed.induct) auto

lemma first_parsed_Issues: "first_parsed rs = Issues ps \<Longrightarrow> ps = [[]]"
  by (induction rs rule: first_parsed.induct) auto

lemma parts_result_Issues: "parts_result rs v = Issues ps \<Longrightarrow> ps = part_issues rs \<and> ps \<noteq> []"
  by (auto simp: parts_result_def split: if_splits)

lemma transformed_Issues: "transformed f r = Issues ps \<longleftrightarrow> r = Issues ps"
  by (cases r) (auto simp: transformed_def split: option.split)

lemma issues_nonempty: "zparse em dt s v = Issues ps \<Longrightarrow> ps \<noteq> []"
proof (induction s arbitrary: v ps)
  case (ZArray s)
  then show ?case
    by (auto simp: array_result_def Let_def dest!: parts_result_Issues split: js_value.splits)
next
  case (ZRecord s)
  then show ?case
    by (auto simp: record_result_def Let_def dest!: parts_result_Issues split: js_value.splits)
next
  case (ZUnion ss)
  then show ?case by (auto dest: first_parsed_Issues)
next
  case (ZObject fs)
  then show ?case
    by (auto simp: object_result_def Let_def dest!: parts_result_Issues split: option.splits)
qed (simp_all add: transformed_Issues split: if_splits)

lemma parts_result_ok:
  assumes "\<And>k r ps. (k, r) \<in> set rs \<Longrightarrow> r = Issues ps \<Longrightarrow> ps \<noteq> []"
  shows "parts_result rs v = Parsed w \<longleftrightarrow> list_all (\<lambda>(k, r). r = Parsed (part_value r)) rs \<and> w = v"
proof -
  have "(r \<noteq> Threw \<and> (\<forall>ps. r = Issues ps \<longrightarrow> ps = [])) = (r = Parsed (part_value r))" if "(k, r) \<in> set rs" for k r
    using assms[OF that] by (cases r) (auto simp: part_value_def)
  then have "(\<not> list_ex (\<lambda>(k, r). r = Threw) rs \<and> part_issues rs = []) = list_all (\<lambda>(k, r). r = Parsed (part_value r)) rs"
    unfolding part_issues_Nil list_ex_iff list_all_iff by blast
  then show ?thesis unfolding parts_result_Parsed by blast
qed

text \<open>An accepted array, element by element.\<close>

lemma map_snd_indexed: "map (f \<circ> snd) (indexed vs) = map f vs"
  by (metis map_map map_snd_enumerate)

lemma array_Parsed: "zparse em dt (ZArray s) (JArr vs) = Parsed w \<longleftrightarrow>
    (\<forall>x \<in> set vs. \<exists>y. zparse em dt s x = Parsed y) \<and> w = JArr (map (\<lambda>x. part_value (zparse em dt s x)) vs)"
proof -
  let ?rs = "map (\<lambda>(i, x). (nat_text i, zparse em dt s x)) (indexed vs)"
  have ok: "ps \<noteq> []" if "(k, r) \<in> set ?rs" "r = Issues ps" for k r ps
    using that issues_nonempty[of em dt s _ ps] by fastforce
  have "map (part_value \<circ> snd) ?rs = map ((\<lambda>x. part_value (zparse em dt s x)) \<circ> snd) (indexed vs)"
    by (simp add: comp_def case_prod_unfold)
  then have vals: "map (part_value \<circ> snd) ?rs = map (\<lambda>x. part_value (zparse em dt s x)) vs"
    unfolding map_snd_indexed .
  have "list_all (\<lambda>(k, r). r = Parsed (part_value r)) ?rs \<longleftrightarrow>
      (\<forall>x \<in> snd ` set (indexed vs). zparse em dt s x = Parsed (part_value (zparse em dt s x)))"
    by (simp add: list_all_iff case_prod_unfold)
  also have "snd ` set (indexed vs) = set vs" using map_snd_enumerate[of 0 vs] by (metis set_map)
  also have "(\<forall>x \<in> set vs. zparse em dt s x = Parsed (part_value (zparse em dt s x))) \<longleftrightarrow>
      (\<forall>x \<in> set vs. \<exists>y. zparse em dt s x = Parsed y)"
    by (auto simp: part_value_def)
  finally have "list_all (\<lambda>(k, r). r = Parsed (part_value r)) ?rs \<longleftrightarrow> (\<forall>x \<in> set vs. \<exists>y. zparse em dt s x = Parsed y)" .
  then show ?thesis
    unfolding zparse.simps array_result_def js_value.case Let_def vals by (subst parts_result_ok[OF ok]) auto
qed

lemma array_Parsed_array: "zparse em dt (ZArray s) v = Parsed w \<Longrightarrow> \<exists>vs. v = JArr vs"
  by (auto simp: array_result_def split: js_value.splits)

lemma array_into: "into em dt s s' \<Longrightarrow> into em dt (ZArray s) (ZArray s')"
proof (rule intoI)
  fix v w assume i: "into em dt s s'" and "zparse em dt (ZArray s) v = Parsed w"
  then obtain vs where "zparse em dt (ZArray s) (JArr vs) = Parsed w" using array_Parsed_array by blast
  then have ys: "\<forall>x \<in> set vs. \<exists>y. zparse em dt s x = Parsed y"
    and w: "w = JArr (map (\<lambda>x. part_value (zparse em dt s x)) vs)" unfolding array_Parsed by auto
  have p: "zparse em dt s' (part_value (zparse em dt s x)) = Parsed (part_value (zparse em dt s x))" if x: "x \<in> set vs" for x
  proof -
    obtain y where "zparse em dt s x = Parsed y" using ys x by blast
    then show ?thesis using intoD[OF i] by (simp add: part_value_def)
  qed
  then show "zparse em dt (ZArray s') w = Parsed w"
    unfolding w array_Parsed by (auto simp: part_value_def)
qed

lemma preprocess_into: "into em dt s s' \<Longrightarrow> into em dt (ZPreprocess g s) s'"
  by (simp add: into_def)

lemma checks_only_same: "checks_only s \<Longrightarrow> zparse em dt s v = Parsed w \<Longrightarrow> w = v"
proof (induction s arbitrary: v w)
  case (ZArray s)
  from ZArray.prems(2) obtain vs where v: "v = JArr vs" using array_Parsed_array by blast
  then have ys: "\<forall>x \<in> set vs. \<exists>y. zparse em dt s x = Parsed y"
    and w: "w = JArr (map (\<lambda>x. part_value (zparse em dt s x)) vs)"
    using ZArray.prems(2) unfolding v array_Parsed by auto
  have "part_value (zparse em dt s x) = x" if "x \<in> set vs" for x
    using ys that ZArray.IH ZArray.prems(1) by (fastforce simp: part_value_def)
  then show ?case unfolding v w by (simp add: map_idI)
next
  case (ZRecord s)
  from ZRecord.prems obtain es where v: "v = JObj es" by (auto simp: record_result_def split: js_value.splits)
  let ?rs = "map (\<lambda>(k, w). (k, zparse em dt s w)) es"
  have *: "parts_result ?rs (JObj (map (\<lambda>(k, r). (k, part_value r)) ?rs)) = Parsed w"
    using ZRecord.prems(2) by (simp add: v record_result_def Let_def)
  have "ps \<noteq> []" if "(k, r) \<in> set ?rs" "r = Issues ps" for k r ps
    using that issues_nonempty[of em dt s _ ps] by fastforce
  note ok = iffD1[OF parts_result_ok[OF this] *]
  have "part_value (zparse em dt s x) = x" if "(k, x) \<in> set es" for k x
  proof -
    have "zparse em dt s x = Parsed (part_value (zparse em dt s x))" using ok that by (fastforce simp: list_all_iff)
    then show ?thesis using ZRecord.IH ZRecord.prems(1) by fastforce
  qed
  then have "map (\<lambda>(k, r). (k, part_value r)) ?rs = es" by (auto simp: comp_def split_beta intro!: map_idI)
  then show ?case using ok v by simp
next
  case (ZUnion ss)
  then have "Parsed w \<in> set (map (\<lambda>s. zparse em dt s v) ss)" by (auto dest: first_parsed_Parsed)
  then show ?case using ZUnion by (auto simp: list_all_iff)
qed (auto split: if_splits)

lemma checks_only_into: "checks_only s \<Longrightarrow> into em dt s s"
  by (rule intoI) (metis checks_only_same)

lemma default_into: "checks_only s \<Longrightarrow> zparse em dt s d = Parsed d \<Longrightarrow> d \<noteq> JUndefined \<Longrightarrow> into em dt (ZDefault s d) (ZDefault s d)"
  by (rule intoI) (auto split: if_splits dest: checks_only_same)

section \<open>Objects\<close>

text \<open>What a schema makes of an object: each field is parsed on its own.\<close>

definition field_results ::
  "(string \<Rightarrow> bool) \<Rightarrow> (string \<Rightarrow> bool) \<Rightarrow> (string \<times> schema) list \<Rightarrow> (string \<times> js_value) list \<Rightarrow> (string \<times> parsed) list" where
  "field_results em dt fs es = map (\<lambda>(k, s). (k, zparse em dt s (obj_get es k))) fs"

lemma zparse_object: "zparse em dt (ZObject fs) (JObj es) =
    parts_result (field_results em dt fs es) (JObj (parsed_entries es (field_results em dt fs es)))"
  by (simp add: object_result_def Let_def field_results_def comp_def case_prod_unfold)

lemma field_results_keys [simp]: "map fst (field_results em dt fs es) = map fst fs"
  by (simp add: field_results_def comp_def split_beta)

lemma field_results_ok: "parts_result (field_results em dt fs es) v = Parsed w \<longleftrightarrow>
    list_all (\<lambda>(k, r). r = Parsed (part_value r)) (field_results em dt fs es) \<and> w = v"
  by (rule parts_result_ok) (auto simp: field_results_def dest!: issues_nonempty[OF sym])

lemma obj_get_filter_undefined:
  assumes "distinct (map fst rs)" "(k, r) \<in> set rs"
  shows "obj_get (parsed_entries es rs) k = part_value r"
proof -
  let ?es = "map (\<lambda>(k, r). (k, part_value r)) rs"
  have d: "distinct (map fst ?es)" using assms(1) by (simp add: comp_def split_beta)
  have m: "(k, part_value r) \<in> set ?es" using assms(2) by force
  have df: "distinct (map fst (parsed_entries es rs))"
    unfolding parsed_entries_def using d by (rule distinct_map_filter)
  show ?thesis
  proof (cases "part_value r \<noteq> JUndefined \<or> obj_has es k")
    case True
    with m have "(k, part_value r) \<in> set (parsed_entries es rs)" by (simp add: parsed_entries_def)
    then show ?thesis using df by (simp add: obj_get_def)
  next
    case False
    have "(k, v) \<notin> set (parsed_entries es rs)" for v
    proof
      assume "(k, v) \<in> set (parsed_entries es rs)"
      then have "(k, v) \<in> set ?es" and *: "v \<noteq> JUndefined \<or> obj_has es k" by (auto simp: parsed_entries_def)
      with d m have "v = part_value r" by (meson eq_key_imp_eq_value)
      with * False show False by blast
    qed
    then have "map_of (parsed_entries es rs) k = None" by (force simp: map_of_eq_None_iff)
    then show ?thesis using False by (simp add: obj_get_def)
  qed
qed

text \<open>An accepted object, field by field.\<close>

lemma object_Parsed:
  assumes "zparse em dt (ZObject fs) (JObj es) = Parsed w" "distinct (map fst fs)"
  defines "ws \<equiv> own_entries w"
  shows "w = JObj ws"
    and "(k, s) \<in> set fs \<Longrightarrow> zparse em dt s (obj_get es k) = Parsed (obj_get ws k)"
    and "ws = filter (\<lambda>(k, v). v \<noteq> JUndefined \<or> obj_has es k) (map (\<lambda>(k, s). (k, obj_get ws k)) fs)"
proof -
  let ?rs = "field_results em dt fs es" and ?ws = "parsed_entries es (field_results em dt fs es)"
  have w: "w = JObj ?ws" and ok: "list_all (\<lambda>(k, r). r = Parsed (part_value r)) ?rs"
    using assms(1) unfolding zparse_object field_results_ok by simp_all
  have g: "obj_get ?ws k = part_value (zparse em dt s (obj_get es k))" if "(k, s) \<in> set fs" for k s
  proof (rule obj_get_filter_undefined)
    show "(k, zparse em dt s (obj_get es k)) \<in> set ?rs" using that by (force simp: field_results_def)
  qed (simp add: assms(2))
  have p: "zparse em dt s (obj_get es k) = Parsed (obj_get ?ws k)" if "(k, s) \<in> set fs" for k s
    using ok that unfolding g[OF that] by (fastforce simp: field_results_def list_all_iff)
  have "map (\<lambda>(k, r). (k, part_value r)) ?rs = map (\<lambda>(k, s). (k, obj_get ?ws k)) fs"
    using g by (auto simp: field_results_def)
  then have "?ws = filter (\<lambda>(k, v). v \<noteq> JUndefined \<or> obj_has es k) (map (\<lambda>(k, s). (k, obj_get ?ws k)) fs)"
    unfolding parsed_entries_def by presburger
  moreover have "ws = ?ws" by (simp add: ws_def w)
  ultimately show "w = JObj ws" "(k, s) \<in> set fs \<Longrightarrow> zparse em dt s (obj_get es k) = Parsed (obj_get ws k)"
    "ws = filter (\<lambda>(k, v). v \<noteq> JUndefined \<or> obj_has es k) (map (\<lambda>(k, s). (k, obj_get ws k)) fs)"
    using w p by auto
qed

lemma object_Parsed_object:
  assumes "zparse em dt (ZObject fs) v = Parsed w"
  obtains es where "zparse em dt (ZObject fs) (JObj es) = Parsed w"
proof -
  obtain es where "object_entries v = Some es"
    using assms by (auto simp: object_result_def split: option.splits)
  then have "zparse em dt (ZObject fs) (JObj es) = Parsed w" using assms by simp
  then show ?thesis by (rule that)
qed

text \<open>An object schema takes what another one with the same keys lets through, if each field does.\<close>

lemma object_into_at:
  assumes "zparse em dt (ZObject fs) (JObj es) = Parsed w" "distinct (map fst fs)"
    and "list_all2 (\<lambda>(k, s) (k', s'). k = k' \<and>
      (\<forall>x. zparse em dt s (obj_get es k) = Parsed x \<longrightarrow> zparse em dt s' x = Parsed x)) fs fs'"
  shows "zparse em dt (ZObject fs') w = Parsed w"
proof -
  note o = object_Parsed[OF assms(1,2)]
  define ws where "ws = own_entries w"
  note w = o(1)[folded ws_def] and p = o(2)[folded ws_def] and ws = o(3)[folded ws_def]
  have "field_results em dt fs' ws = map (\<lambda>(k, s). (k, Parsed (obj_get ws k))) fs"
    unfolding field_results_def
  proof (rule nth_equalityI)
    show "length (map (\<lambda>(k, s). (k, zparse em dt s (obj_get ws k))) fs') =
        length (map (\<lambda>(k, s). (k, Parsed (obj_get ws k))) fs)"
      using assms(3) by (simp add: list_all2_lengthD)
    fix i assume "i < length (map (\<lambda>(k, s). (k, zparse em dt s (obj_get ws k))) fs')"
    then have i: "i < length fs" "i < length fs'" using assms(3) by (simp_all add: list_all2_lengthD)
    obtain k s k' s' where e: "fs ! i = (k, s)" "fs' ! i = (k', s')" by (metis surj_pair)
    have "k = k'" "\<forall>x. zparse em dt s (obj_get es k) = Parsed x \<longrightarrow> zparse em dt s' x = Parsed x"
      using list_all2_nthD[OF assms(3) i(1)] e by simp_all
    moreover have "zparse em dt s (obj_get es k) = Parsed (obj_get ws k)"
      using p e(1) i(1) by (metis nth_mem)
    ultimately show "map (\<lambda>(k, s). (k, zparse em dt s (obj_get ws k))) fs' ! i =
        map (\<lambda>(k, s). (k, Parsed (obj_get ws k))) fs ! i"
      using e i by auto
  qed
  moreover have "parsed_entries ws (map (\<lambda>(k, s). (k, Parsed (obj_get ws k))) fs) = ws"
  proof -
    let ?es = "map (\<lambda>(k, s). (k, obj_get ws k)) fs"
    have m: "(k, v) \<in> set ws \<longleftrightarrow> (v \<noteq> JUndefined \<or> obj_has es k) \<and> (k, v) \<in> set ?es" for k v
      by (rule trans[OF arg_cong[OF ws, of "\<lambda>x. (k, v) \<in> set x"]]) (simp add: conj_commute)
    have *: "obj_has ws k \<longleftrightarrow> obj_get ws k \<noteq> JUndefined \<or> obj_has es k" if "(k, s) \<in> set fs" for k s
    proof -
      have e: "(k, v) \<in> set ?es \<longleftrightarrow> v = obj_get ws k" for v using that by force
      have "obj_has ws k \<longleftrightarrow> (\<exists>v. (k, v) \<in> set ws)" unfolding obj_has_def by force
      then show ?thesis unfolding m e by simp
    qed
    have "filter (\<lambda>(k, v). v \<noteq> JUndefined \<or> obj_has ws k) ?es = filter (\<lambda>(k, v). v \<noteq> JUndefined \<or> obj_has es k) ?es"
      by (rule filter_cong) (use * in auto)
    also have "\<dots> = ws" by (rule ws[symmetric])
    finally show ?thesis by (simp add: parsed_entries_def comp_def case_prod_unfold part_value_def)
  qed
  ultimately have "zparse em dt (ZObject fs') (JObj ws) =
      parts_result (map (\<lambda>(k, s). (k, Parsed (obj_get ws k))) fs) (JObj ws)"
    unfolding zparse_object by simp
  also have "\<dots> = Parsed (JObj ws)"
    by (auto simp: parts_result_Parsed part_issues_Nil list_ex_iff)
  finally show ?thesis unfolding w .
qed

lemma object_into:
  assumes "list_all2 (\<lambda>(k, s) (k', s'). k = k' \<and> into em dt s s') fs fs'" "distinct (map fst fs)"
  shows "into em dt (ZObject fs) (ZObject fs')"
proof (rule intoI)
  fix v w assume "zparse em dt (ZObject fs) v = Parsed w"
  then obtain es where "zparse em dt (ZObject fs) (JObj es) = Parsed w" by (rule object_Parsed_object)
  then show "zparse em dt (ZObject fs') w = Parsed w"
    by (rule object_into_at[OF _ assms(2)])
      (rule list_all2_mono[OF assms(1)], auto dest: intoD)
qed

text \<open>The fields an object is rejected for.\<close>

definition rejected_fields :: "string list list \<Rightarrow> string list" where
  "rejected_fields ps = remdups (concat (map (take 1) ps))"

lemma object_Issues:
  assumes "zparse em dt (ZObject fs) (JObj es) = Issues ps" "k \<in> set (rejected_fields ps)"
  shows "\<exists>s js. (k, s) \<in> set fs \<and> zparse em dt s (obj_get es k) = Issues js"
proof -
  have "ps = part_issues (field_results em dt fs es)"
    using assms(1) unfolding zparse_object by (auto dest: parts_result_Issues)
  moreover obtain p where p: "p \<in> set ps" "k \<in> set (take 1 p)"
    using assms(2) by (auto simp: rejected_fields_def)
  ultimately obtain k' r where r: "(k', r) \<in> set (field_results em dt fs es)"
    and "p \<in> set (case r of Issues ps \<Rightarrow> map ((#) k') ps | _ \<Rightarrow> [])"
    by (auto simp: part_issues_def)
  then obtain js where "r = Issues js" "k' = k" using p(2) by (auto split: parsed.splits)
  with r obtain s where "(k, s) \<in> set fs" "Issues js = zparse em dt s (obj_get es k)"
    by (auto simp: field_results_def)
  then show ?thesis by metis
qed

lemma object_accepts:
  "(\<exists>w. zparse em dt (ZObject fs) (JObj es) = Parsed w) \<longleftrightarrow>
   (\<forall>(k, s) \<in> set fs. \<exists>x. zparse em dt s (obj_get es k) = Parsed x)"
proof -
  have "(r = Parsed (part_value r)) = (\<exists>x. r = Parsed x)" for r by (auto simp: part_value_def)
  then show ?thesis unfolding zparse_object field_results_ok by (auto simp: field_results_def list_all_iff)
qed

end
