(* ===== verification/Sdk.thy ===== *)
theory Sdk
  imports HttpClient
begin

text \<open>
  The endpoints of the API (\<open>frontend/src/openapi/sdk.gen.ts\<close>): each function passes its method, its
  address, the way its body is written and its security schemes to the client, under the options of the
  caller. The record \<open>endpoint\<close> holds what a function passes, \<open>endpoint_options\<close> puts it together.
\<close>

section \<open>Endpoints\<close>

datatype body_kind = NoBody | JsonBody | FormBody | UrlBody

record endpoint =
  ep_method :: string
  ep_url :: string
  ep_json :: bool \<comment> \<open>\<open>responseType: 'json'\<close>\<close>
  ep_secured :: bool
  ep_body :: body_kind

text \<open>The schemes of every secured endpoint: a bearer token, or the session cookie.\<close>

definition bearerAuth :: Auth where
  "bearerAuth = \<lparr>auth_in = None, auth_key = None, auth_name = None,
     auth_scheme = Some SchemeBearer, auth_type = Http\<rparr>"

definition sessionAuth :: Auth where
  "sessionAuth = \<lparr>auth_in = Some InCookie, auth_key = None, auth_name = Some ''bracket_session'',
     auth_scheme = None, auth_type = ApiKey\<rparr>"

definition content_type :: "body_kind \<Rightarrow> js_value option" where
  "content_type k =
     (case k of
        NoBody \<Rightarrow> None
      | JsonBody \<Rightarrow> Some (JStr ''application/json'')
      | FormBody \<Rightarrow> Some JNull
      | UrlBody \<Rightarrow> Some (JStr ''application/x-www-form-urlencoded''))"

definition own_options :: "text_env \<Rightarrow> endpoint \<Rightarrow> options" where
  "own_options te ep =
     (case ep_body ep of
        FormBody \<Rightarrow> [(''bodySerializer'', OBodySerializer (formDataBodySerializer te))]
      | UrlBody \<Rightarrow> [(''bodySerializer'', OBodySerializer (urlSearchParamsBodySerializer te))]
      | _ \<Rightarrow> []) @
     (if ep_json ep then [(''responseType'', OVal (JStr ''json''))] else []) @
     (if ep_secured ep then [(''security'', OSecurity [bearerAuth, sessionAuth])] else []) @
     [(''url'', OVal (JStr (ep_url ep)))]"

definition endpoint_options :: "text_env \<Rightarrow> endpoint \<Rightarrow> options \<Rightarrow> options" where
  "endpoint_options te ep options =
     (let opts = obj_spread (own_options te ep) options
      in case content_type (ep_body ep) of
           None \<Rightarrow> opts
         | Some ct \<Rightarrow>
            obj_set ''headers''
              (OVal (JObj (obj_spread [(''Content-Type'', ct)] (own_entries (opt_val options ''headers''))))) opts)"

definition endpoint_call :: "text_env \<Rightarrow> axios \<Rightarrow> client_state \<Rightarrow> endpoint \<Rightarrow> options \<Rightarrow> outcome" where
  "endpoint_call te axios client ep options =
     client_request te axios client (ep_method ep) (endpoint_options te ep options)"

section \<open>The functions\<close>

definition getAuthFeaturesApiAuthFeaturesGet :: endpoint where
  "getAuthFeaturesApiAuthFeaturesGet =
     \<lparr>ep_method = ''GET'', ep_url = ''/api/auth/features'',
      ep_json = True, ep_secured = False, ep_body = NoBody\<rparr>"

definition getClubsApiClubsGet :: endpoint where
  "getClubsApiClubsGet =
     \<lparr>ep_method = ''GET'', ep_url = ''/api/clubs'',
      ep_json = True, ep_secured = True, ep_body = NoBody\<rparr>"

definition createNewClubApiClubsPost :: endpoint where
  "createNewClubApiClubsPost =
     \<lparr>ep_method = ''POST'', ep_url = ''/api/clubs'',
      ep_json = True, ep_secured = True, ep_body = JsonBody\<rparr>"

definition deleteClubApiClubsClubIdDelete :: endpoint where
  "deleteClubApiClubsClubIdDelete =
     \<lparr>ep_method = ''DELETE'', ep_url = ''/api/clubs/{club_id}'',
      ep_json = True, ep_secured = True, ep_body = NoBody\<rparr>"

definition updateClubApiClubsClubIdPut :: endpoint where
  "updateClubApiClubsClubIdPut =
     \<lparr>ep_method = ''PUT'', ep_url = ''/api/clubs/{club_id}'',
      ep_json = True, ep_secured = True, ep_body = JsonBody\<rparr>"

definition logoutApiLogoutPost :: endpoint where
  "logoutApiLogoutPost =
     \<lparr>ep_method = ''POST'', ep_url = ''/api/logout'',
      ep_json = False, ep_secured = False, ep_body = NoBody\<rparr>"

definition pingApiPingGet :: endpoint where
  "pingApiPingGet =
     \<lparr>ep_method = ''GET'', ep_url = ''/api/ping'',
      ep_json = True, ep_secured = False, ep_body = NoBody\<rparr>"

definition loginForAccessTokenApiTokenPost :: endpoint where
  "loginForAccessTokenApiTokenPost =
     \<lparr>ep_method = ''POST'', ep_url = ''/api/token'',
      ep_json = True, ep_secured = False, ep_body = UrlBody\<rparr>"

definition getTournamentsApiTournamentsGet :: endpoint where
  "getTournamentsApiTournamentsGet =
     \<lparr>ep_method = ''GET'', ep_url = ''/api/tournaments'',
      ep_json = True, ep_secured = True, ep_body = NoBody\<rparr>"

definition createTournamentApiTournamentsPost :: endpoint where
  "createTournamentApiTournamentsPost =
     \<lparr>ep_method = ''POST'', ep_url = ''/api/tournaments'',
      ep_json = True, ep_secured = True, ep_body = JsonBody\<rparr>"

definition deleteTournamentApiTournamentsTournamentIdDelete :: endpoint where
  "deleteTournamentApiTournamentsTournamentIdDelete =
     \<lparr>ep_method = ''DELETE'', ep_url = ''/api/tournaments/{tournament_id}'',
      ep_json = True, ep_secured = True, ep_body = NoBody\<rparr>"

definition getTournamentApiTournamentsTournamentIdGet :: endpoint where
  "getTournamentApiTournamentsTournamentIdGet =
     \<lparr>ep_method = ''GET'', ep_url = ''/api/tournaments/{tournament_id}'',
      ep_json = True, ep_secured = True, ep_body = NoBody\<rparr>"

definition updateTournamentByIdApiTournamentsTournamentIdPut :: endpoint where
  "updateTournamentByIdApiTournamentsTournamentIdPut =
     \<lparr>ep_method = ''PUT'', ep_url = ''/api/tournaments/{tournament_id}'',
      ep_json = True, ep_secured = True, ep_body = JsonBody\<rparr>"

definition getAvailableInputsApiTournamentsTournamentIdAvailableInputsGet :: endpoint where
  "getAvailableInputsApiTournamentsTournamentIdAvailableInputsGet =
     \<lparr>ep_method = ''GET'', ep_url = ''/api/tournaments/{tournament_id}/available_inputs'',
      ep_json = True, ep_secured = True, ep_body = NoBody\<rparr>"

definition changeStatusApiTournamentsTournamentIdChangeStatusPost :: endpoint where
  "changeStatusApiTournamentsTournamentIdChangeStatusPost =
     \<lparr>ep_method = ''POST'', ep_url = ''/api/tournaments/{tournament_id}/change-status'',
      ep_json = True, ep_secured = True, ep_body = JsonBody\<rparr>"

definition getTournamentLogoApiTournamentsTournamentIdLogoGet :: endpoint where
  "getTournamentLogoApiTournamentsTournamentIdLogoGet =
     \<lparr>ep_method = ''GET'', ep_url = ''/api/tournaments/{tournament_id}/logo'',
      ep_json = True, ep_secured = True, ep_body = NoBody\<rparr>"

definition uploadLogoApiTournamentsTournamentIdLogoPost :: endpoint where
  "uploadLogoApiTournamentsTournamentIdLogoPost =
     \<lparr>ep_method = ''POST'', ep_url = ''/api/tournaments/{tournament_id}/logo'',
      ep_json = True, ep_secured = True, ep_body = FormBody\<rparr>"

definition createMatchApiTournamentsTournamentIdMatchesPost :: endpoint where
  "createMatchApiTournamentsTournamentIdMatchesPost =
     \<lparr>ep_method = ''POST'', ep_url = ''/api/tournaments/{tournament_id}/matches'',
      ep_json = True, ep_secured = True, ep_body = JsonBody\<rparr>"

definition deleteMatchApiTournamentsTournamentIdMatchesMatchIdDelete :: endpoint where
  "deleteMatchApiTournamentsTournamentIdMatchesMatchIdDelete =
     \<lparr>ep_method = ''DELETE'', ep_url = ''/api/tournaments/{tournament_id}/matches/{match_id}'',
      ep_json = True, ep_secured = True, ep_body = NoBody\<rparr>"

definition updateMatchByIdApiTournamentsTournamentIdMatchesMatchIdPut :: endpoint where
  "updateMatchByIdApiTournamentsTournamentIdMatchesMatchIdPut =
     \<lparr>ep_method = ''PUT'', ep_url = ''/api/tournaments/{tournament_id}/matches/{match_id}'',
      ep_json = True, ep_secured = True, ep_body = JsonBody\<rparr>"

definition getNextStageRankingsApiTournamentsTournamentIdNextStageRankingsGet :: endpoint where
  "getNextStageRankingsApiTournamentsTournamentIdNextStageRankingsGet =
     \<lparr>ep_method = ''GET'', ep_url = ''/api/tournaments/{tournament_id}/next_stage_rankings'',
      ep_json = True, ep_secured = True, ep_body = NoBody\<rparr>"

definition getPlayersApiTournamentsTournamentIdPlayersGet :: endpoint where
  "getPlayersApiTournamentsTournamentIdPlayersGet =
     \<lparr>ep_method = ''GET'', ep_url = ''/api/tournaments/{tournament_id}/players'',
      ep_json = True, ep_secured = True, ep_body = NoBody\<rparr>"

definition createSinglePlayerApiTournamentsTournamentIdPlayersPost :: endpoint where
  "createSinglePlayerApiTournamentsTournamentIdPlayersPost =
     \<lparr>ep_method = ''POST'', ep_url = ''/api/tournaments/{tournament_id}/players'',
      ep_json = True, ep_secured = True, ep_body = JsonBody\<rparr>"

definition deletePlayerApiTournamentsTournamentIdPlayersPlayerIdDelete :: endpoint where
  "deletePlayerApiTournamentsTournamentIdPlayersPlayerIdDelete =
     \<lparr>ep_method = ''DELETE'', ep_url = ''/api/tournaments/{tournament_id}/players/{player_id}'',
      ep_json = True, ep_secured = True, ep_body = NoBody\<rparr>"

definition updatePlayerByIdApiTournamentsTournamentIdPlayersPlayerIdPut :: endpoint where
  "updatePlayerByIdApiTournamentsTournamentIdPlayersPlayerIdPut =
     \<lparr>ep_method = ''PUT'', ep_url = ''/api/tournaments/{tournament_id}/players/{player_id}'',
      ep_json = True, ep_secured = True, ep_body = JsonBody\<rparr>"

definition createMultiplePlayersApiTournamentsTournamentIdPlayersMultiPost :: endpoint where
  "createMultiplePlayersApiTournamentsTournamentIdPlayersMultiPost =
     \<lparr>ep_method = ''POST'', ep_url = ''/api/tournaments/{tournament_id}/players_multi'',
      ep_json = True, ep_secured = True, ep_body = JsonBody\<rparr>"

definition getRankingsApiTournamentsTournamentIdRankingsGet :: endpoint where
  "getRankingsApiTournamentsTournamentIdRankingsGet =
     \<lparr>ep_method = ''GET'', ep_url = ''/api/tournaments/{tournament_id}/rankings'',
      ep_json = True, ep_secured = True, ep_body = NoBody\<rparr>"

definition createRankingApiTournamentsTournamentIdRankingsPost :: endpoint where
  "createRankingApiTournamentsTournamentIdRankingsPost =
     \<lparr>ep_method = ''POST'', ep_url = ''/api/tournaments/{tournament_id}/rankings'',
      ep_json = True, ep_secured = True, ep_body = JsonBody\<rparr>"

definition deleteRankingApiTournamentsTournamentIdRankingsRankingIdDelete :: endpoint where
  "deleteRankingApiTournamentsTournamentIdRankingsRankingIdDelete =
     \<lparr>ep_method = ''DELETE'', ep_url = ''/api/tournaments/{tournament_id}/rankings/{ranking_id}'',
      ep_json = True, ep_secured = True, ep_body = NoBody\<rparr>"

definition updateRankingByIdApiTournamentsTournamentIdRankingsRankingIdPut :: endpoint where
  "updateRankingByIdApiTournamentsTournamentIdRankingsRankingIdPut =
     \<lparr>ep_method = ''PUT'', ep_url = ''/api/tournaments/{tournament_id}/rankings/{ranking_id}'',
      ep_json = True, ep_secured = True, ep_body = JsonBody\<rparr>"

definition createRoundApiTournamentsTournamentIdRoundsPost :: endpoint where
  "createRoundApiTournamentsTournamentIdRoundsPost =
     \<lparr>ep_method = ''POST'', ep_url = ''/api/tournaments/{tournament_id}/rounds'',
      ep_json = True, ep_secured = True, ep_body = JsonBody\<rparr>"

definition deleteRoundApiTournamentsTournamentIdRoundsRoundIdDelete :: endpoint where
  "deleteRoundApiTournamentsTournamentIdRoundsRoundIdDelete =
     \<lparr>ep_method = ''DELETE'', ep_url = ''/api/tournaments/{tournament_id}/rounds/{round_id}'',
      ep_json = True, ep_secured = True, ep_body = NoBody\<rparr>"

definition updateRoundByIdApiTournamentsTournamentIdRoundsRoundIdPut :: endpoint where
  "updateRoundByIdApiTournamentsTournamentIdRoundsRoundIdPut =
     \<lparr>ep_method = ''PUT'', ep_url = ''/api/tournaments/{tournament_id}/rounds/{round_id}'',
      ep_json = True, ep_secured = True, ep_body = JsonBody\<rparr>"

definition scheduleMatchesApiTournamentsTournamentIdScheduleMatchesPost :: endpoint where
  "scheduleMatchesApiTournamentsTournamentIdScheduleMatchesPost =
     \<lparr>ep_method = ''POST'', ep_url = ''/api/tournaments/{tournament_id}/schedule_matches'',
      ep_json = True, ep_secured = True, ep_body = NoBody\<rparr>"

definition createStageItemApiTournamentsTournamentIdStageItemsPost :: endpoint where
  "createStageItemApiTournamentsTournamentIdStageItemsPost =
     \<lparr>ep_method = ''POST'', ep_url = ''/api/tournaments/{tournament_id}/stage_items'',
      ep_json = True, ep_secured = True, ep_body = JsonBody\<rparr>"

definition deleteStageItemApiTournamentsTournamentIdStageItemsStageItemIdDelete :: endpoint where
  "deleteStageItemApiTournamentsTournamentIdStageItemsStageItemIdDelete =
     \<lparr>ep_method = ''DELETE'', ep_url = ''/api/tournaments/{tournament_id}/stage_items/{stage_item_id}'',
      ep_json = True, ep_secured = True, ep_body = NoBody\<rparr>"

definition updateStageItemApiTournamentsTournamentIdStageItemsStageItemIdPut :: endpoint where
  "updateStageItemApiTournamentsTournamentIdStageItemsStageItemIdPut =
     \<lparr>ep_method = ''PUT'', ep_url = ''/api/tournaments/{tournament_id}/stage_items/{stage_item_id}'',
      ep_json = True, ep_secured = True, ep_body = JsonBody\<rparr>"

definition updateStageItemInputApiTournamentsTournamentIdStageItemsStageItemIdInputsStageItemInputIdPut :: endpoint where
  "updateStageItemInputApiTournamentsTournamentIdStageItemsStageItemIdInputsStageItemInputIdPut =
     \<lparr>ep_method = ''PUT'', ep_url = ''/api/tournaments/{tournament_id}/stage_items/{stage_item_id}/inputs/{stage_item_input_id}'',
      ep_json = True, ep_secured = True, ep_body = JsonBody\<rparr>"

definition getStagesApiTournamentsTournamentIdStagesGet :: endpoint where
  "getStagesApiTournamentsTournamentIdStagesGet =
     \<lparr>ep_method = ''GET'', ep_url = ''/api/tournaments/{tournament_id}/stages'',
      ep_json = True, ep_secured = True, ep_body = NoBody\<rparr>"

definition createStageApiTournamentsTournamentIdStagesPost :: endpoint where
  "createStageApiTournamentsTournamentIdStagesPost =
     \<lparr>ep_method = ''POST'', ep_url = ''/api/tournaments/{tournament_id}/stages'',
      ep_json = True, ep_secured = True, ep_body = NoBody\<rparr>"

definition activateNextStageApiTournamentsTournamentIdStagesActivatePost :: endpoint where
  "activateNextStageApiTournamentsTournamentIdStagesActivatePost =
     \<lparr>ep_method = ''POST'', ep_url = ''/api/tournaments/{tournament_id}/stages/activate'',
      ep_json = True, ep_secured = True, ep_body = JsonBody\<rparr>"

definition deleteStageApiTournamentsTournamentIdStagesStageIdDelete :: endpoint where
  "deleteStageApiTournamentsTournamentIdStagesStageIdDelete =
     \<lparr>ep_method = ''DELETE'', ep_url = ''/api/tournaments/{tournament_id}/stages/{stage_id}'',
      ep_json = True, ep_secured = True, ep_body = NoBody\<rparr>"

definition updateStageApiTournamentsTournamentIdStagesStageIdPut :: endpoint where
  "updateStageApiTournamentsTournamentIdStagesStageIdPut =
     \<lparr>ep_method = ''PUT'', ep_url = ''/api/tournaments/{tournament_id}/stages/{stage_id}'',
      ep_json = True, ep_secured = True, ep_body = JsonBody\<rparr>"

definition getStandingsApiTournamentsTournamentIdStandingsGet :: endpoint where
  "getStandingsApiTournamentsTournamentIdStandingsGet =
     \<lparr>ep_method = ''GET'', ep_url = ''/api/tournaments/{tournament_id}/standings'',
      ep_json = True, ep_secured = True, ep_body = NoBody\<rparr>"

definition getTeamsApiTournamentsTournamentIdTeamsGet :: endpoint where
  "getTeamsApiTournamentsTournamentIdTeamsGet =
     \<lparr>ep_method = ''GET'', ep_url = ''/api/tournaments/{tournament_id}/teams'',
      ep_json = True, ep_secured = True, ep_body = NoBody\<rparr>"

definition createTeamApiTournamentsTournamentIdTeamsPost :: endpoint where
  "createTeamApiTournamentsTournamentIdTeamsPost =
     \<lparr>ep_method = ''POST'', ep_url = ''/api/tournaments/{tournament_id}/teams'',
      ep_json = True, ep_secured = True, ep_body = JsonBody\<rparr>"

definition deleteTeamApiTournamentsTournamentIdTeamsTeamIdDelete :: endpoint where
  "deleteTeamApiTournamentsTournamentIdTeamsTeamIdDelete =
     \<lparr>ep_method = ''DELETE'', ep_url = ''/api/tournaments/{tournament_id}/teams/{team_id}'',
      ep_json = True, ep_secured = True, ep_body = NoBody\<rparr>"

definition updateTeamByIdApiTournamentsTournamentIdTeamsTeamIdPut :: endpoint where
  "updateTeamByIdApiTournamentsTournamentIdTeamsTeamIdPut =
     \<lparr>ep_method = ''PUT'', ep_url = ''/api/tournaments/{tournament_id}/teams/{team_id}'',
      ep_json = True, ep_secured = True, ep_body = JsonBody\<rparr>"

definition getTeamLogoApiTournamentsTournamentIdTeamsTeamIdLogoGet :: endpoint where
  "getTeamLogoApiTournamentsTournamentIdTeamsTeamIdLogoGet =
     \<lparr>ep_method = ''GET'', ep_url = ''/api/tournaments/{tournament_id}/teams/{team_id}/logo'',
      ep_json = True, ep_secured = True, ep_body = NoBody\<rparr>"

definition updateTeamLogoApiTournamentsTournamentIdTeamsTeamIdLogoPost :: endpoint where
  "updateTeamLogoApiTournamentsTournamentIdTeamsTeamIdLogoPost =
     \<lparr>ep_method = ''POST'', ep_url = ''/api/tournaments/{tournament_id}/teams/{team_id}/logo'',
      ep_json = True, ep_secured = True, ep_body = FormBody\<rparr>"

definition createMultipleTeamsApiTournamentsTournamentIdTeamsMultiPost :: endpoint where
  "createMultipleTeamsApiTournamentsTournamentIdTeamsMultiPost =
     \<lparr>ep_method = ''POST'', ep_url = ''/api/tournaments/{tournament_id}/teams_multi'',
      ep_json = True, ep_secured = True, ep_body = JsonBody\<rparr>"

definition getUserApiUsersMeGet :: endpoint where
  "getUserApiUsersMeGet =
     \<lparr>ep_method = ''GET'', ep_url = ''/api/users/me'',
      ep_json = True, ep_secured = True, ep_body = NoBody\<rparr>"

definition registerUserApiUsersRegisterPost :: endpoint where
  "registerUserApiUsersRegisterPost =
     \<lparr>ep_method = ''POST'', ep_url = ''/api/users/register'',
      ep_json = True, ep_secured = False, ep_body = JsonBody\<rparr>"

definition getMeApiUsersUserIdGet :: endpoint where
  "getMeApiUsersUserIdGet =
     \<lparr>ep_method = ''GET'', ep_url = ''/api/users/{user_id}'',
      ep_json = True, ep_secured = True, ep_body = NoBody\<rparr>"

definition updateUserDetailsApiUsersUserIdPut :: endpoint where
  "updateUserDetailsApiUsersUserIdPut =
     \<lparr>ep_method = ''PUT'', ep_url = ''/api/users/{user_id}'',
      ep_json = True, ep_secured = True, ep_body = JsonBody\<rparr>"

definition putUserPasswordApiUsersUserIdPasswordPut :: endpoint where
  "putUserPasswordApiUsersUserIdPasswordPut =
     \<lparr>ep_method = ''PUT'', ep_url = ''/api/users/{user_id}/password'',
      ep_json = True, ep_secured = True, ep_body = JsonBody\<rparr>"

definition ENDPOINTS :: "endpoint list" where
  "ENDPOINTS =
    [getAuthFeaturesApiAuthFeaturesGet,
     getClubsApiClubsGet,
     createNewClubApiClubsPost,
     deleteClubApiClubsClubIdDelete,
     updateClubApiClubsClubIdPut,
     logoutApiLogoutPost,
     pingApiPingGet,
     loginForAccessTokenApiTokenPost,
     getTournamentsApiTournamentsGet,
     createTournamentApiTournamentsPost,
     deleteTournamentApiTournamentsTournamentIdDelete,
     getTournamentApiTournamentsTournamentIdGet,
     updateTournamentByIdApiTournamentsTournamentIdPut,
     getAvailableInputsApiTournamentsTournamentIdAvailableInputsGet,
     changeStatusApiTournamentsTournamentIdChangeStatusPost,
     getTournamentLogoApiTournamentsTournamentIdLogoGet,
     uploadLogoApiTournamentsTournamentIdLogoPost,
     createMatchApiTournamentsTournamentIdMatchesPost,
     deleteMatchApiTournamentsTournamentIdMatchesMatchIdDelete,
     updateMatchByIdApiTournamentsTournamentIdMatchesMatchIdPut,
     getNextStageRankingsApiTournamentsTournamentIdNextStageRankingsGet,
     getPlayersApiTournamentsTournamentIdPlayersGet,
     createSinglePlayerApiTournamentsTournamentIdPlayersPost,
     deletePlayerApiTournamentsTournamentIdPlayersPlayerIdDelete,
     updatePlayerByIdApiTournamentsTournamentIdPlayersPlayerIdPut,
     createMultiplePlayersApiTournamentsTournamentIdPlayersMultiPost,
     getRankingsApiTournamentsTournamentIdRankingsGet,
     createRankingApiTournamentsTournamentIdRankingsPost,
     deleteRankingApiTournamentsTournamentIdRankingsRankingIdDelete,
     updateRankingByIdApiTournamentsTournamentIdRankingsRankingIdPut,
     createRoundApiTournamentsTournamentIdRoundsPost,
     deleteRoundApiTournamentsTournamentIdRoundsRoundIdDelete,
     updateRoundByIdApiTournamentsTournamentIdRoundsRoundIdPut,
     scheduleMatchesApiTournamentsTournamentIdScheduleMatchesPost,
     createStageItemApiTournamentsTournamentIdStageItemsPost,
     deleteStageItemApiTournamentsTournamentIdStageItemsStageItemIdDelete,
     updateStageItemApiTournamentsTournamentIdStageItemsStageItemIdPut,
     updateStageItemInputApiTournamentsTournamentIdStageItemsStageItemIdInputsStageItemInputIdPut,
     getStagesApiTournamentsTournamentIdStagesGet,
     createStageApiTournamentsTournamentIdStagesPost,
     activateNextStageApiTournamentsTournamentIdStagesActivatePost,
     deleteStageApiTournamentsTournamentIdStagesStageIdDelete,
     updateStageApiTournamentsTournamentIdStagesStageIdPut,
     getStandingsApiTournamentsTournamentIdStandingsGet,
     getTeamsApiTournamentsTournamentIdTeamsGet,
     createTeamApiTournamentsTournamentIdTeamsPost,
     deleteTeamApiTournamentsTournamentIdTeamsTeamIdDelete,
     updateTeamByIdApiTournamentsTournamentIdTeamsTeamIdPut,
     getTeamLogoApiTournamentsTournamentIdTeamsTeamIdLogoGet,
     updateTeamLogoApiTournamentsTournamentIdTeamsTeamIdLogoPost,
     createMultipleTeamsApiTournamentsTournamentIdTeamsMultiPost,
     getUserApiUsersMeGet,
     registerUserApiUsersRegisterPost,
     getMeApiUsersUserIdGet,
     updateUserDetailsApiUsersUserIdPut,
     putUserPasswordApiUsersUserIdPasswordPut]"

lemmas endpoint_defs = ENDPOINTS_def
  getAuthFeaturesApiAuthFeaturesGet_def
  getClubsApiClubsGet_def
  createNewClubApiClubsPost_def
  deleteClubApiClubsClubIdDelete_def
  updateClubApiClubsClubIdPut_def
  logoutApiLogoutPost_def
  pingApiPingGet_def
  loginForAccessTokenApiTokenPost_def
  getTournamentsApiTournamentsGet_def
  createTournamentApiTournamentsPost_def
  deleteTournamentApiTournamentsTournamentIdDelete_def
  getTournamentApiTournamentsTournamentIdGet_def
  updateTournamentByIdApiTournamentsTournamentIdPut_def
  getAvailableInputsApiTournamentsTournamentIdAvailableInputsGet_def
  changeStatusApiTournamentsTournamentIdChangeStatusPost_def
  getTournamentLogoApiTournamentsTournamentIdLogoGet_def
  uploadLogoApiTournamentsTournamentIdLogoPost_def
  createMatchApiTournamentsTournamentIdMatchesPost_def
  deleteMatchApiTournamentsTournamentIdMatchesMatchIdDelete_def
  updateMatchByIdApiTournamentsTournamentIdMatchesMatchIdPut_def
  getNextStageRankingsApiTournamentsTournamentIdNextStageRankingsGet_def
  getPlayersApiTournamentsTournamentIdPlayersGet_def
  createSinglePlayerApiTournamentsTournamentIdPlayersPost_def
  deletePlayerApiTournamentsTournamentIdPlayersPlayerIdDelete_def
  updatePlayerByIdApiTournamentsTournamentIdPlayersPlayerIdPut_def
  createMultiplePlayersApiTournamentsTournamentIdPlayersMultiPost_def
  getRankingsApiTournamentsTournamentIdRankingsGet_def
  createRankingApiTournamentsTournamentIdRankingsPost_def
  deleteRankingApiTournamentsTournamentIdRankingsRankingIdDelete_def
  updateRankingByIdApiTournamentsTournamentIdRankingsRankingIdPut_def
  createRoundApiTournamentsTournamentIdRoundsPost_def
  deleteRoundApiTournamentsTournamentIdRoundsRoundIdDelete_def
  updateRoundByIdApiTournamentsTournamentIdRoundsRoundIdPut_def
  scheduleMatchesApiTournamentsTournamentIdScheduleMatchesPost_def
  createStageItemApiTournamentsTournamentIdStageItemsPost_def
  deleteStageItemApiTournamentsTournamentIdStageItemsStageItemIdDelete_def
  updateStageItemApiTournamentsTournamentIdStageItemsStageItemIdPut_def
  updateStageItemInputApiTournamentsTournamentIdStageItemsStageItemIdInputsStageItemInputIdPut_def
  getStagesApiTournamentsTournamentIdStagesGet_def
  createStageApiTournamentsTournamentIdStagesPost_def
  activateNextStageApiTournamentsTournamentIdStagesActivatePost_def
  deleteStageApiTournamentsTournamentIdStagesStageIdDelete_def
  updateStageApiTournamentsTournamentIdStagesStageIdPut_def
  getStandingsApiTournamentsTournamentIdStandingsGet_def
  getTeamsApiTournamentsTournamentIdTeamsGet_def
  createTeamApiTournamentsTournamentIdTeamsPost_def
  deleteTeamApiTournamentsTournamentIdTeamsTeamIdDelete_def
  updateTeamByIdApiTournamentsTournamentIdTeamsTeamIdPut_def
  getTeamLogoApiTournamentsTournamentIdTeamsTeamIdLogoGet_def
  updateTeamLogoApiTournamentsTournamentIdTeamsTeamIdLogoPost_def
  createMultipleTeamsApiTournamentsTournamentIdTeamsMultiPost_def
  getUserApiUsersMeGet_def
  registerUserApiUsersRegisterPost_def
  getMeApiUsersUserIdGet_def
  updateUserDetailsApiUsersUserIdPut_def
  putUserPasswordApiUsersUserIdPasswordPut_def

section \<open>Addresses as templates\<close>

text \<open>The address cut at its braces.\<close>

function url_parts :: "string \<Rightarrow> url_part list" where
  "url_parts s =
     (let lit = takeWhile (\<lambda>c. c \<noteq> CHR ''{'') s; rest = dropWhile (\<lambda>c. c \<noteq> CHR ''{'') s
      in case rest of
           [] \<Rightarrow> (if lit = [] then [] else [Lit lit])
         | _ # r \<Rightarrow>
            (if lit = [] then [] else [Lit lit]) @ [Param (takeWhile (\<lambda>c. c \<noteq> CHR ''}'') r)] @
            url_parts (tl (dropWhile (\<lambda>c. c \<noteq> CHR ''}'') r)))"
  by pat_completeness auto
termination
proof (relation "measure length")
  fix s :: string and lit rest x r
  assume "rest = dropWhile (\<lambda>c. c \<noteq> CHR ''{'') s" "rest = x # r"
  then have "Suc (length r) \<le> length s" by (metis length_Cons length_dropWhile_le)
  moreover have "length (tl (dropWhile (\<lambda>c. c \<noteq> CHR ''}'') r)) \<le> length r"
    using length_dropWhile_le[of "\<lambda>c. c \<noteq> CHR ''}''" r] by simp
  ultimately show "(tl (dropWhile (\<lambda>c. c \<noteq> CHR ''}'') r), s) \<in> measure length" by simp
qed simp

declare url_parts.simps [simp del]

definition well_formed_url :: "string \<Rightarrow> bool" where
  "well_formed_url u \<longleftrightarrow> template (url_parts u) = u \<and> list_all plain_part (url_parts u) \<and>
     starts_with u ''/api/''"

lemma endpoints_well_formed: "list_all (\<lambda>e. well_formed_url (ep_url e)) ENDPOINTS"
  by code_simp

lemma endpoints_distinct: "distinct (map (\<lambda>e. (ep_method e, ep_url e)) ENDPOINTS)"
  by code_simp

section \<open>The client of the pages\<close>

lemma apiClient_config:
  assumes "apiClient te axios_create base = Inr client"
  shows "cl_config client =
      [(''headers'', OVal (JObj [(''X-Requested-With'', JStr ''XMLHttpRequest'')])),
       (''baseURL'', OVal (JStr base)), (''withCredentials'', OVal (JBool True))]"
    and "instance_base client = Some base"
proof -
  let ?config = "[(''headers'', OVal (JObj [(''X-Requested-With'', JStr ''XMLHttpRequest'')])),
       (''baseURL'', OVal (JStr base)), (''withCredentials'', OVal (JBool True))]"
  have merged: "mergeHeaders te [JObj [], JObj [(''X-Requested-With'', JStr ''XMLHttpRequest'')]]
      = Inr [(''X-Requested-With'', JStr ''XMLHttpRequest'')]"
    by (simp add: mergeHeaders_plain plain_header_def axiosHeadersKeywords_def apply_header_def)
  have first: "createClient te axios_create (createConfig [])
      = Inr \<lparr>cl_config = [(''headers'', OVal (JObj []))], cl_defaults = axios_create [(''headers'', OVal (JObj []))]\<rparr>"
    by (simp add: createClient_def createConfig_def mergeConfigs_def mergeHeaders_def map_result_def
        obj_spread_def obj_delete_def opt_val_def opt_get_def opt_value_of_def)
  have config: "mergeConfigs te [(''headers'', OVal (JObj []))] (apiConfig base) = Inr ?config"
    by (simp add: mergeConfigs_def apiConfig_def opt_val_def opt_get_def opt_value_of_def merged map_result_def
        obj_spread_def)
  obtain hs where client: "client = \<lparr>cl_config = ?config, cl_defaults = obj_set ''headers'' (OVal (JObj hs))
      (obj_spread (axios_create [(''headers'', OVal (JObj []))]) ?config)\<rparr>"
    using assms by (auto simp: apiClient_def first setConfig_def config map_result_def split: sum.splits)
  then show "cl_config client = ?config" by simp
  show "instance_base client = Some base"
    by (simp add: client instance_base_def opt_val_spread) (simp add: opt_val_def opt_get_def opt_value_of_def)
qed

lemma set_obj_set: "set (obj_set k v r) \<subseteq> insert (k, v) (set r)"
  by (induction k v r rule: obj_set.induct) auto

lemma set_obj_spread: "set (obj_spread a b) \<subseteq> set a \<union> set b"
proof (induction b rule: rev_induct)
  case (snoc e b)
  then show ?case using set_obj_set[of "fst e" "snd e" "obj_spread a b"]
    by (cases e) (auto simp: obj_spread_snoc)
qed (simp add: obj_spread_def)

text \<open>Without a token, the options of a request are the caller's over the configuration, with merged headers.\<close>

lemma request_options_plain:
  assumes "mergeHeaders te [opt_val config ''headers'', opt_val options ''headers''] = Inr hs"
    and "opt_get (obj_spread config options) ''auth'' = OVal JUndefined"
    and "request_options te config options = Inr opts"
  shows "opt_val opts ''headers'' = JObj hs \<and>
    (\<forall>k. k \<noteq> ''headers'' \<longrightarrow> opt_val opts k = opt_val (obj_spread config options) k) \<and>
    (\<forall>k. k \<noteq> ''headers'' \<and> k \<noteq> ''query'' \<longrightarrow> opt_get opts k = opt_get (obj_spread config options) k)"
proof -
  let ?o = "obj_set ''headers'' (OVal (JObj hs)) (obj_spread config options)"
  have src: "auth_source_of ?o = AuthToken None" using assms(2) by (simp add: auth_source_of_def)
  have query: "x = JObj q" if "val_entries x = Some q" for x q
    using that by (auto simp: val_entries_def split: js_value.splits)
  show ?thesis
    using assms(1,3)
    by (auto simp: request_options_def map_result_def Let_def src setAuthParams_none opt_value_of_def
        split: opt_value.splits option.splits dest!: query)
qed

lemma own_options_distinct: "distinct (map fst (own_options te ep))"
  by (simp add: own_options_def split: body_kind.split)

lemma own_options_keys:
  "fst ` set (own_options te ep) \<subseteq> {''bodySerializer'', ''responseType'', ''security'', ''url''}"
  by (auto simp: own_options_def split: body_kind.splits if_splits)

definition call_options :: "text_env \<Rightarrow> endpoint \<Rightarrow> options \<Rightarrow> options" where
  "call_options te ep options = obj_set ''method'' (OVal (JStr (ep_method ep))) (endpoint_options te ep options)"

lemma distinct_call_options: "distinct (map fst options) \<Longrightarrow> distinct (map fst (call_options te ep options))"
  by (simp add: call_options_def endpoint_options_def Let_def distinct_obj_set distinct_obj_spread
      own_options_distinct split: option.split)

lemma call_options_get:
  assumes "distinct (map fst options)" "k \<noteq> ''method''" "k \<noteq> ''headers''"
  shows "opt_get (call_options te ep options) k =
    (if k \<in> fst ` set options then opt_get options k else opt_get (own_options te ep) k)"
  using assms
  by (simp add: call_options_def endpoint_options_def Let_def opt_get_spread split: option.split)

lemma call_options_keys:
  "fst ` set (call_options te ep options) \<subseteq> fst ` set options \<union>
     {''method'', ''headers'', ''bodySerializer'', ''responseType'', ''security'', ''url''}"
  using own_options_keys[of te ep] set_obj_spread[of "own_options te ep" options]
  by (auto simp: call_options_def endpoint_options_def Let_def split: option.split; fastforce)

text \<open>The headers the caller gave, if any, and those of the call.\<close>

definition caller_headers :: "options \<Rightarrow> (string \<times> js_value) list" where
  "caller_headers options = (case opt_val options ''headers'' of JObj hs \<Rightarrow> hs | _ \<Rightarrow> [])"

definition plain_call :: "options \<Rightarrow> bool" where
  "plain_call options \<longleftrightarrow> distinct (map fst options) \<and>
     fst ` set options \<inter> {''auth'', ''method'', ''url'', ''security'', ''bodySerializer'',
       ''querySerializer'', ''paramsSerializer''} = {} \<and>
     (''headers'' \<in> fst ` set options \<longrightarrow> (\<exists>hs. opt_get options ''headers'' = OVal (JObj hs))) \<and>
     list_all plain_header (caller_headers options)"

definition call_headers :: "endpoint \<Rightarrow> options \<Rightarrow> (string \<times> js_value) list" where
  "call_headers ep options =
     (case content_type (ep_body ep) of
        None \<Rightarrow> caller_headers options
      | Some ct \<Rightarrow> obj_spread [(''Content-Type'', ct)] (caller_headers options))"

lemma plain_call_headers:
  assumes "plain_call options"
  shows "list_all plain_header (call_headers ep options)"
    and "opt_val (call_options te ep options) ''headers'' = JObj (call_headers ep options) \<or>
      opt_val (call_options te ep options) ''headers'' = JUndefined \<and> call_headers ep options = []"
proof -
  have plain: "list_all plain_header (caller_headers options)" and dist: "distinct (map fst options)"
    using assms by (auto simp: plain_call_def)
  have ct: "plain_header (''Content-Type'', ct)" if "content_type (ep_body ep) = Some ct" for ct
    using that by (auto simp: plain_header_def axiosHeadersKeywords_def content_type_def split: body_kind.splits)
  show "list_all plain_header (call_headers ep options)"
  proof (cases "content_type (ep_body ep)")
    case None
    with plain show ?thesis by (simp add: call_headers_def)
  next
    case (Some ct')
    have "plain_header e" if "e \<in> set (obj_spread [(''Content-Type'', ct')] (caller_headers options))" for e
    proof -
      have "e = (''Content-Type'', ct') \<or> e \<in> set (caller_headers options)"
        using that set_obj_spread[of "[(''Content-Type'', ct')]" "caller_headers options"] by auto
      with plain ct[OF Some] show ?thesis by (auto simp: list_all_iff)
    qed
    with Some show ?thesis by (simp add: call_headers_def list_all_iff)
  qed
  have given: "opt_val options ''headers'' = JObj (caller_headers options) \<or>
      opt_val options ''headers'' = JUndefined \<and> caller_headers options = []"
    using assms
    by (cases "''headers'' \<in> fst ` set options")
      (auto simp: plain_call_def caller_headers_def opt_val_def opt_value_of_def opt_get_absent)
  have own: "own_entries (opt_val options ''headers'') = caller_headers options"
    using given by auto
  have "''headers'' \<notin> fst ` set (own_options te ep)" using own_options_keys[of te ep] by auto
  then have "opt_val (own_options te ep) ''headers'' = JUndefined"
    by (simp add: opt_val_def opt_get_absent opt_value_of_def)
  moreover have "''headers'' \<notin> fst ` set options \<Longrightarrow> opt_val options ''headers'' = JUndefined"
    by (simp add: opt_val_def opt_get_absent opt_value_of_def)
  ultimately have "opt_val (obj_spread (own_options te ep) options) ''headers'' = opt_val options ''headers''"
    by (simp add: opt_val_spread[OF dist])
  then show "opt_val (call_options te ep options) ''headers'' = JObj (call_headers ep options) \<or>
      opt_val (call_options te ep options) ''headers'' = JUndefined \<and> call_headers ep options = []"
    using given own
    by (auto simp: call_options_def endpoint_options_def Let_def call_headers_def opt_value_of_def split: option.split)
qed

text \<open>What the options of a plain call come to, over the configuration of the pages.\<close>

definition page_config :: "string \<Rightarrow> options" where
  "page_config base =
     [(''headers'', OVal (JObj [(''X-Requested-With'', JStr ''XMLHttpRequest'')])),
      (''baseURL'', OVal (JStr base)), (''withCredentials'', OVal (JBool True))]"

lemma keys_obj_spread: "fst ` set (obj_spread a b) = fst ` set a \<union> fst ` set b"
proof -
  have "k \<in> fst ` set (obj_spread a b) \<longleftrightarrow> k \<in> fst ` set a \<union> fst ` set b" for k
    using map_of_obj_spread[of a b] map_of_eq_None_iff[of "obj_spread a b" k] map_of_eq_None_iff[of a k]
      map_of_eq_None_iff[of "rev b" k]
    by (auto simp: map_add_def split: option.splits)
  then show ?thesis by blast
qed

lemma keys_call_options:
  "insert ''method'' (fst ` set (own_options te ep) \<union> fst ` set options) \<subseteq> fst ` set (call_options te ep options)"
  by (auto simp: call_options_def endpoint_options_def Let_def fst_obj_set keys_obj_spread split: option.split)

lemma page_call_get:
  assumes "plain_call options" "k \<noteq> ''headers''"
  shows "opt_get (obj_spread (page_config base) (call_options te ep options)) k =
      (if k = ''method'' then OVal (JStr (ep_method ep))
       else if k \<in> fst ` set options then opt_get options k
       else if k = ''baseURL'' then OVal (JStr base)
       else if k = ''withCredentials'' then OVal (JBool True)
       else opt_get (own_options te ep) k)"
proof -
  have dist: "distinct (map fst options)" and nm: "''method'' \<notin> fst ` set options"
    using assms(1) by (auto simp: plain_call_def)
  show ?thesis
  proof (cases "k \<in> fst ` set (call_options te ep options)")
    case True
    have m: "opt_get (call_options te ep options) ''method'' = OVal (JStr (ep_method ep))"
      by (simp add: call_options_def)
    have "k \<in> fst ` set options \<union> {''method'', ''headers'', ''bodySerializer'', ''responseType'', ''security'', ''url''}"
      using True call_options_keys[of te ep options] by blast
    then consider "k = ''method''" | "k \<noteq> ''method''" "k \<in> fst ` set options"
      | "k \<noteq> ''method''" "k \<notin> fst ` set options" "k \<noteq> ''baseURL''" "k \<noteq> ''withCredentials''"
      using assms(2) by fastforce
    then show ?thesis
      by cases (use True m assms(2) in
        \<open>simp_all add: opt_get_spread[OF distinct_call_options[OF dist]] call_options_get[OF dist]\<close>)
  next
    case False
    then have "k \<noteq> ''method''" "k \<notin> fst ` set options" "k \<notin> fst ` set (own_options te ep)"
      using keys_call_options[of te ep options] by auto
    with False assms(2) show ?thesis
      by (simp add: opt_get_spread[OF distinct_call_options[OF dist]] opt_get_absent)
        (simp add: page_config_def opt_get_def)
  qed
qed

lemma page_call_headers:
  assumes "plain_call options"
  shows "mergeHeaders te [opt_val (page_config base) ''headers'', opt_val (call_options te ep options) ''headers'']
    = Inr (foldl apply_header [(''X-Requested-With'', JStr ''XMLHttpRequest'')] (call_headers ep options))"
proof -
  have config: "opt_val (page_config base) ''headers'' = JObj [(''X-Requested-With'', JStr ''XMLHttpRequest'')]"
    by (simp add: page_config_def opt_val_def opt_get_def opt_value_of_def)
  have x: "list_all plain_header [(''X-Requested-With'', JStr ''XMLHttpRequest'')]"
    by (simp add: plain_header_def axiosHeadersKeywords_def)
  have one: "foldl apply_header [] [(''X-Requested-With'', JStr ''XMLHttpRequest'')] =
      [(''X-Requested-With'', JStr ''XMLHttpRequest'')]"
    by (simp add: apply_header_def)
  show ?thesis
    using plain_call_headers(2)[OF assms, of te ep] mergeHeaders_plain[OF x plain_call_headers(1)[OF assms, of ep], of te]
      mergeHeaders_one(1)[OF x, of te]
    unfolding config one by auto
qed

text \<open>A call the client can send: its body can be written, its path and query hold plain values.\<close>

definition call_path :: "options \<Rightarrow> (string \<times> js_value) list" where
  "call_path options = nullish (val_entries (opt_val options ''path'')) []"

definition call_query :: "options \<Rightarrow> (string \<times> js_value) list" where
  "call_query options = nullish (val_entries (opt_val options ''query'')) []"

definition body_writable :: "text_env \<Rightarrow> endpoint \<Rightarrow> js_value \<Rightarrow> bool" where
  "body_writable te ep body \<longleftrightarrow> body = JUndefined \<or>
     (case ep_body ep of
        FormBody \<Rightarrow> \<not> isl (formDataBodySerializer te body)
      | UrlBody \<Rightarrow> \<not> isl (urlSearchParamsBodySerializer te body)
      | _ \<Rightarrow> True)"

definition sendable :: "text_env \<Rightarrow> string \<Rightarrow> endpoint \<Rightarrow> options \<Rightarrow> bool" where
  "sendable te base ep options \<longleftrightarrow> plain_call options \<and> ''requestValidator'' \<notin> fst ` set options \<and>
     (''baseURL'' \<in> fst ` set options \<longrightarrow> opt_val options ''baseURL'' = JStr base) \<and>
     body_writable te ep (opt_val options ''body'') \<and>
     (\<forall>n \<in> set (param_names (url_parts (ep_url ep))). simple_value (obj_get (call_path options) n)) \<and>
     plain_query (call_query options)"

lemma own_option_get:
  "opt_get (own_options te ep) ''url'' = OVal (JStr (ep_url ep))"
  "opt_get (own_options te ep) ''path'' = OVal JUndefined"
  "opt_get (own_options te ep) ''body'' = OVal JUndefined"
  "opt_get (own_options te ep) ''query'' = OVal JUndefined"
  "opt_get (own_options te ep) ''auth'' = OVal JUndefined"
  "opt_get (own_options te ep) ''requestValidator'' = OVal JUndefined"
  "opt_get (own_options te ep) ''paramsSerializer'' = OVal JUndefined"
  "opt_get (own_options te ep) ''querySerializer'' = OVal JUndefined"
  by (simp_all add: opt_get_def own_options_def split: body_kind.split)

lemma own_body_serializer:
  "opt_get (own_options te ep) ''bodySerializer'' =
     (case ep_body ep of
        FormBody \<Rightarrow> OBodySerializer (formDataBodySerializer te)
      | UrlBody \<Rightarrow> OBodySerializer (urlSearchParamsBodySerializer te)
      | _ \<Rightarrow> OVal JUndefined)"
  by (simp add: opt_get_def own_options_def split: body_kind.split)

lemma serialize_body_writable:
  assumes "opt_get opts ''bodySerializer'' = opt_get (own_options te ep) ''bodySerializer''"
    and "body_writable te ep (opt_val opts ''body'')"
  obtains opts' where "serialize_body opts = Inr opts'" "\<And>k. k \<noteq> ''body'' \<Longrightarrow> opt_get opts' k = opt_get opts k"
proof -
  consider "opt_val opts ''body'' = JUndefined" | f b where "opt_get opts ''bodySerializer'' = OBodySerializer f"
      "f (opt_val opts ''body'') = Inr b" | "\<forall>f. opt_get opts ''bodySerializer'' \<noteq> OBodySerializer f"
    using assms
    by (cases "ep_body ep"; cases "formDataBodySerializer te (opt_val opts ''body'')";
        cases "urlSearchParamsBodySerializer te (opt_val opts ''body'')")
      (auto simp: own_body_serializer body_writable_def)
  then show thesis
  proof cases
    case 1
    then show thesis by (intro that[of opts]) (simp_all add: serialize_body_def split: opt_value.split)
  next
    case (2 f b)
    then show thesis
      by (intro that[of "if opt_val opts ''body'' = JUndefined then opts else obj_set ''body'' (OVal b) opts"])
        (simp_all add: serialize_body_def map_result_def)
  next
    case 3
    then show thesis by (intro that[of opts]) (simp_all add: serialize_body_def split: opt_value.split)
  qed
qed

lemma call_sent:
  assumes "apiClient te axios_create base = Inr client" "plain_call options"
    and "''requestValidator'' \<notin> fst ` set options" "body_writable te ep (opt_val options ''body'')"
  obtains opts where
    "opt_val opts ''headers'' = JObj (foldl apply_header [(''X-Requested-With'', JStr ''XMLHttpRequest'')]
      (call_headers ep options))"
    "\<And>k. k \<notin> {''headers'', ''body'', ''query''} \<Longrightarrow> opt_get opts k =
      opt_get (obj_spread (page_config base) (call_options te ep options)) k"
    "opt_val opts ''query'' = opt_val options ''query''"
    "beforeRequest te (instance_base client) (cl_config client) (call_options te ep options) =
      (case buildUrl te (Some base) opts of Inl e \<Rightarrow> Inl (SerializeError e) | Inr url \<Rightarrow> Inr (opts, url))"
proof -
  let ?all = "obj_spread (page_config base) (call_options te ep options)"
  have config: "cl_config client = page_config base" "instance_base client = Some base"
    using apiClient_config[OF assms(1)] by (simp_all add: page_config_def)
  have none: "''auth'' \<notin> fst ` set options" "''bodySerializer'' \<notin> fst ` set options"
      "''requestValidator'' \<notin> fst ` set options"
    using assms(2,3) by (auto simp: plain_call_def)
  have auth: "opt_get ?all ''auth'' = OVal JUndefined"
    using none by (simp add: page_call_get[OF assms(2)] own_option_get)
  note merged = page_call_headers[OF assms(2), of te base ep]
  then obtain opts where o: "request_options te (page_config base) (call_options te ep options) = Inr opts"
    by (auto simp: request_options_def map_result_def)
  note r = request_options_plain[OF merged auth o]
  have query: "opt_val opts ''query'' = opt_val options ''query''" and body: "opt_val opts ''body'' = opt_val options ''body''"
    using r by (simp_all add: opt_val_def page_call_get[OF assms(2)] own_option_get opt_get_absent)
  have "run_validator (opt_get opts ''requestValidator'') x = Inr ()" for x
    using r none by (simp add: page_call_get[OF assms(2)] own_option_get run_validator_def)
  moreover have "opt_get opts ''bodySerializer'' = opt_get (own_options te ep) ''bodySerializer''"
    using r none by (simp add: page_call_get[OF assms(2)])
  then obtain opts' where s: "serialize_body opts = Inr opts'" "\<And>k. k \<noteq> ''body'' \<Longrightarrow> opt_get opts' k = opt_get opts k"
    using serialize_body_writable assms(4) body by metis
  ultimately have "beforeRequest te (instance_base client) (cl_config client) (call_options te ep options) =
      (case buildUrl te (Some base) opts' of Inl e \<Rightarrow> Inl (SerializeError e) | Inr url \<Rightarrow> Inr (opts', url))"
    by (simp add: beforeRequest_def config o s)
  moreover have "opt_val opts' ''headers'' = opt_val opts ''headers''" "opt_val opts' ''query'' = opt_val opts ''query''"
    by (simp_all add: opt_val_def s)
  ultimately show thesis
    using that[of opts'] r query s(2) by auto
qed

lemma fill_no_params:
  "param_names ps = [] \<Longrightarrow> concat (map (fill_part te path) ps) = template ps"
  by (induction ps rule: param_names.induct) (simp_all add: template_def)

text \<open>The address of a sendable call.\<close>

lemma call_url:
  assumes "sendable te base ep options" "well_formed_url (ep_url ep)" "list_all (\<lambda>c. \<not> brace c) base"
    and "opt_val opts ''query'' = opt_val options ''query''"
    and "\<And>k. k \<notin> {''headers'', ''body'', ''query''} \<Longrightarrow> opt_get opts k =
      opt_get (obj_spread (page_config base) (call_options te ep options)) k"
  shows "buildUrl te (Some base) opts =
    (let s = join ''&'' (query_pieces te (call_query options));
         u = base @ concat (map (fill_part te (call_path options)) (url_parts (ep_url ep)))
     in Inr (if s = [] then u else u @ ''?'' @ s))"
proof -
  let ?parts = "url_parts (ep_url ep)"
  have pc: "plain_call options" using assms(1) by (simp add: sendable_def)
  then have none: "''url'' \<notin> fst ` set options"
      "''querySerializer'' \<notin> fst ` set options" "''paramsSerializer'' \<notin> fst ` set options"
    by (auto simp: plain_call_def)
  have base_get: "opt_val opts ''baseURL'' = JStr base"
    using assms(1,5)
    by (cases "''baseURL'' \<in> fst ` set options")
      (simp_all add: sendable_def opt_val_def opt_value_of_def page_call_get[OF pc])
  have get: "opt_val opts ''url'' = JStr (ep_url ep)"
      "opt_val opts ''path'' = opt_val options ''path''" "opt_get opts ''paramsSerializer'' = OVal JUndefined"
      "opt_get opts ''querySerializer'' = OVal JUndefined"
    using assms(5) none
    by (simp_all add: opt_val_def opt_value_of_def page_call_get[OF pc] own_option_get opt_get_absent)
  have url: "template ?parts = ep_url ep" "list_all plain_part ?parts" "starts_with (ep_url ep) ''/''"
    using assms(2) by (auto simp: well_formed_url_def starts_with_iff)
  have filled: "(case val_entries (opt_val options ''path'') of None \<Rightarrow> Inr (base @ ep_url ep)
      | Some p \<Rightarrow> defaultPathSerializer te p (base @ ep_url ep)) =
      Inr (base @ concat (map (fill_part te (call_path options)) ?parts))"
  proof (cases "val_entries (opt_val options ''path'')")
    case None
    then have "param_names ?parts = []"
      using assms(1)
      by (cases "param_names ?parts") (auto simp: sendable_def call_path_def simple_value_def obj_get_def is_nullish_def)
    with None url show ?thesis by (simp add: fill_no_params)
  next
    case (Some p)
    have "defaultPathSerializer te p (template (Lit base # ?parts)) = Inr (concat (map (fill_part te p) (Lit base # ?parts)))"
      using Some assms(1,3) url replace_params_template[of "Lit base # ?parts" p "[]" te]
        path_params_template[of "Lit base # ?parts"]
      by (simp add: sendable_def call_path_def defaultPathSerializer_def)
    with Some url show ?thesis by (simp add: template_def call_path_def)
  qed
  have plain: "plain_query (call_query options)" using assms(1) by (simp add: sendable_def)
  have mark: "\<not> starts_with (join ''&'' (query_pieces te q)) ''?''" if "plain_query q" for q
  proof (cases "query_pieces te q")
    case (Cons p ps)
    then have "p \<in> set (query_pieces te q)" by simp
    then obtain n v x where "(n, v) \<in> set q" and p: "p = n @ (''='' @ value_text te False x)"
      by (auto simp: query_pieces_def)
    then have n: "n \<noteq> []" "CHR ''?'' \<notin> set n"
      using that by (auto simp: plain_query_def list_all_iff)
    from p obtain r' where "join ''&'' (query_pieces te q) = n @ r'" using Cons by (cases ps) auto
    with n show ?thesis by (cases n) (auto simp: starts_with_iff)
  qed (simp add: starts_with_iff)
  have search: "(case val_entries (opt_val options ''query'') of None \<Rightarrow> Inr []
      | Some q \<Rightarrow> createQuerySerializer te default_query_options Map.empty q) =
      Inr (join ''&'' (query_pieces te (call_query options)))"
    using plain query_text
    by (cases "val_entries (opt_val options ''query'')") (simp_all add: call_query_def query_pieces_def)
  have base: "nullish (Some base) [] = base" by simp
  have filled': "(case val_entries (opt_val options ''path'') of None \<Rightarrow> Inr (nullish (Some base) [] @ ep_url ep)
      | Some p \<Rightarrow> defaultPathSerializer te p (nullish (Some base) [] @ ep_url ep)) =
      Inr (base @ concat (map (fill_part te (call_path options)) ?parts))"
    unfolding base by (rule filled)
  show ?thesis
    using mark[OF plain] url(3)
    by (simp add: buildUrl_def getUrl_def get base_get assms(4) filled' search query_serializer_def Let_def)
qed

lemma call_request:
  assumes "well_formed_url (ep_url ep)" "apiClient te axios_create base = Inr client"
    and "sendable te base ep options" "list_all (\<lambda>c. \<not> brace c) base"
  obtains opts where
    "opt_val opts ''headers'' = JObj (foldl apply_header [(''X-Requested-With'', JStr ''XMLHttpRequest'')]
      (call_headers ep options))"
    "\<And>k. k \<notin> {''headers'', ''body'', ''query''} \<Longrightarrow> opt_get opts k =
      opt_get (obj_spread (page_config base) (call_options te ep options)) k"
    "beforeRequest te (instance_base client) (cl_config client) (call_options te ep options) =
      (let s = join ''&'' (query_pieces te (call_query options));
           u = base @ concat (map (fill_part te (call_path options)) (url_parts (ep_url ep)))
       in Inr (opts, if s = [] then u else u @ ''?'' @ s))"
proof -
  have s: "plain_call options" "''requestValidator'' \<notin> fst ` set options"
      "body_writable te ep (opt_val options ''body'')"
    using assms(3) by (auto simp: sendable_def)
  obtain opts where h: "opt_val opts ''headers'' = JObj (foldl apply_header
        [(''X-Requested-With'', JStr ''XMLHttpRequest'')] (call_headers ep options))"
    and o: "\<And>k. k \<notin> {''headers'', ''body'', ''query''} \<Longrightarrow> opt_get opts k =
      opt_get (obj_spread (page_config base) (call_options te ep options)) k"
      "opt_val opts ''query'' = opt_val options ''query''"
    and b: "beforeRequest te (instance_base client) (cl_config client) (call_options te ep options) =
      (case buildUrl te (Some base) opts of Inl e \<Rightarrow> Inl (SerializeError e) | Inr url \<Rightarrow> Inr (opts, url))"
    using call_sent[OF assms(2) s] by metis
  have "buildUrl te (Some base) opts =
      (let s = join ''&'' (query_pieces te (call_query options));
           u = base @ concat (map (fill_part te (call_path options)) (url_parts (ep_url ep)))
       in Inr (if s = [] then u else u @ ''?'' @ s))"
    by (rule call_url[OF assms(3,1,4) o(2)]) (rule o(1))
  with h o(1) show thesis by (intro that[of opts]) (simp_all add: b Let_def)
qed

section \<open>Properties\<close>

text \<open>C26: A call of an endpoint goes to the address of the API, with every placeholder replaced by the encoded
  value of its parameter, and its query reads back as the parameters of the call; nothing of the base
  address or the template is changed, and no call of this kind fails before it is sent.\<close>

theorem endpoint_address:
  assumes "ep \<in> set ENDPOINTS" "apiClient te axios_create base = Inr client"
    and "sendable te base ep options" "list_all (\<lambda>c. \<not> brace c) base"
  shows "(case beforeRequest te (instance_base client) (cl_config client) (call_options te ep options) of
      Inl _ \<Rightarrow> False
    | Inr (opts, url) \<Rightarrow>
        \<exists>s. url = base @ concat (map (fill_part te (call_path options)) (url_parts (ep_url ep))) @ s \<and>
          concat (map (\<lambda>(n, v). map (\<lambda>x. (n, js_text te x)) (query_values v)) (call_query options)) =
          (if s = [] then [] else parse_query (tl s)) \<and> (s = [] \<or> hd s = CHR ''?''))"
proof -
  have wf: "well_formed_url (ep_url ep)"
    using endpoints_well_formed assms(1) by (simp add: list_all_iff)
  have plain: "plain_query (call_query options)" using assms(3) by (simp add: sendable_def)
  obtain opts where b: "beforeRequest te (instance_base client) (cl_config client) (call_options te ep options) =
      (let s = join ''&'' (query_pieces te (call_query options));
           u = base @ concat (map (fill_part te (call_path options)) (url_parts (ep_url ep)))
       in Inr (opts, if s = [] then u else u @ ''?'' @ s))"
    by (rule call_request[OF wf assms(2-4)])
  have "parse_query [] = []" by (simp add: parse_query_def)
  then show ?thesis
    using parse_query_pieces[OF plain, of te] unfolding b
    by (cases "join ''&'' (query_pieces te (call_query options)) = []") (simp_all add: Let_def)
qed

text \<open>C27: Every call of the pages carries the header that the API asks of changes made with the session
  cookie, lets the browser send that cookie, uses the method of its endpoint and says how its body is
  written; a form with a file leaves that to the browser. No token is added.\<close>

theorem csrf_header_sent:
  assumes "ep \<in> set ENDPOINTS" "apiClient te axios_create base = Inr client"
    and "sendable te base ep options" "list_all (\<lambda>c. \<not> brace c) base"
    and "opt_val options ''headers'' = JUndefined" "''withCredentials'' \<notin> fst ` set options"
  shows "(case beforeRequest te (instance_base client) (cl_config client) (call_options te ep options) of
      Inl _ \<Rightarrow> False
    | Inr (opts, url) \<Rightarrow>
       (let r = axios_call opts url
        in ar_headers r = (''X-Requested-With'', JStr ''XMLHttpRequest'') #
             (case ep_body ep of
                JsonBody \<Rightarrow> [(''Content-Type'', JStr ''application/json'')]
              | UrlBody \<Rightarrow> [(''Content-Type'', JStr ''application/x-www-form-urlencoded'')]
              | _ \<Rightarrow> []) \<and>
           ar_method r = JStr (ep_method ep) \<and>
           opt_val (ar_options r) ''withCredentials'' = JBool True))"
proof -
  have wf: "well_formed_url (ep_url ep)"
    using endpoints_well_formed assms(1) by (simp add: list_all_iff)
  have pc: "plain_call options" using assms(3) by (simp add: sendable_def)
  obtain opts url where h: "opt_val opts ''headers'' = JObj (foldl apply_header
        [(''X-Requested-With'', JStr ''XMLHttpRequest'')] (call_headers ep options))"
    and o: "\<And>k. k \<notin> {''headers'', ''body'', ''query''} \<Longrightarrow> opt_get opts k =
      opt_get (obj_spread (page_config base) (call_options te ep options)) k"
    and b: "beforeRequest te (instance_base client) (cl_config client) (call_options te ep options) = Inr (opts, url)"
    using call_request[OF wf assms(2-4)] by (metis (no_types, lifting))
  have headers: "foldl apply_header [(''X-Requested-With'', JStr ''XMLHttpRequest'')] (call_headers ep options) =
      (''X-Requested-With'', JStr ''XMLHttpRequest'') #
             (case ep_body ep of
                JsonBody \<Rightarrow> [(''Content-Type'', JStr ''application/json'')]
              | UrlBody \<Rightarrow> [(''Content-Type'', JStr ''application/x-www-form-urlencoded'')]
              | _ \<Rightarrow> [])"
    using assms(5)
    by (cases "ep_body ep")
      (simp_all add: call_headers_def content_type_def caller_headers_def obj_spread_def apply_header_def obj_delete_def)
  have del: "opt_val (obj_delete ''auth'' opts) ''withCredentials'' = opt_val opts ''withCredentials''"
    by (simp add: opt_val_def opt_get_def)
  have own: "opt_val opts ''method'' = JStr (ep_method ep)" "opt_val opts ''withCredentials'' = JBool True"
    using o assms(6) by (simp_all add: opt_val_def opt_value_of_def page_call_get[OF pc])
  show ?thesis unfolding b by (simp add: Let_def axios_call_def h headers own del)
qed

text \<open>A call of the page: the teams of a tournament.\<close>

definition teamsCall :: options where
  "teamsCall =
     [(''path'', OVal (JObj [(''tournament_id'', JNum (Fin 7))])),
      (''query'', OVal (JObj [(''limit'', JNum (Fin 500)), (''sort_by'', JStr ''a name'')])),
      (''throwOnError'', OVal (JBool True))]"

lemma teamsCall_sendable: "sendable te base getTeamsApiTournamentsTournamentIdTeamsGet teamsCall"
proof -
  have "param_names (url_parts (ep_url getTeamsApiTournamentsTournamentIdTeamsGet)) = [''tournament_id'']"
    by code_simp
  then show ?thesis
    by (simp add: sendable_def plain_call_def teamsCall_def caller_headers_def opt_val_def opt_get_def
        opt_value_of_def body_writable_def call_path_def call_query_def val_entries_def simple_value_def
        is_nullish_def obj_get_def plain_query_def query_values_def)
qed

lemma teams_endpoint: "getTeamsApiTournamentsTournamentIdTeamsGet \<in> set ENDPOINTS"
  by (simp add: ENDPOINTS_def)

definition plainClient :: client_state where
  "plainClient = (case apiClient plainText id ''http://h'' of Inr c \<Rightarrow> c)"

lemma plainClient: "apiClient plainText id ''http://h'' = Inr plainClient"
proof -
  have "\<not> isl (apiClient plainText id ''http://h'')"
    by (simp add: apiClient_def createClient_def setConfig_def mergeConfigs_def createConfig_def mergeHeaders_def
        opt_val_def opt_get_def opt_value_of_def obj_spread_def obj_delete_def map_result_def apiConfig_def
        merge_header_def axiosHeadersKeywords_def)
  then show ?thesis by (cases "apiClient plainText id ''http://h''") (auto simp: plainClient_def)
qed

theorem endpoint_address_witness:
  "(case beforeRequest plainText (instance_base plainClient) (cl_config plainClient)
      (call_options plainText getTeamsApiTournamentsTournamentIdTeamsGet teamsCall) of
      Inl _ \<Rightarrow> False
    | Inr (opts, url) \<Rightarrow> starts_with url ''http://h/api/tournaments/'')"
proof -
  have "list_all (\<lambda>c. \<not> brace c) ''http://h''" by code_simp
  note a = endpoint_address[OF teams_endpoint plainClient teamsCall_sendable this]
  have "\<exists>r. concat (map (fill_part plainText (call_path teamsCall))
      (url_parts (ep_url getTeamsApiTournamentsTournamentIdTeamsGet))) = ''/api/tournaments/'' @ r"
    by (subst url_parts.simps) (simp add: getTeamsApiTournamentsTournamentIdTeamsGet_def)
  with a show ?thesis
    by (auto simp: starts_with_iff split: sum.splits)
qed

theorem csrf_header_sent_witness:
  "(case beforeRequest plainText (instance_base plainClient) (cl_config plainClient)
      (call_options plainText getTeamsApiTournamentsTournamentIdTeamsGet teamsCall) of
      Inl _ \<Rightarrow> False
    | Inr (opts, url) \<Rightarrow>
        ar_headers (axios_call opts url) = [(''X-Requested-With'', JStr ''XMLHttpRequest'')])"
proof -
  have "list_all (\<lambda>c. \<not> brace c) ''http://h''" by code_simp
  moreover have "opt_val teamsCall ''headers'' = JUndefined" "''withCredentials'' \<notin> fst ` set teamsCall"
    by (simp_all add: teamsCall_def opt_val_def opt_get_def opt_value_of_def)
  moreover have "ep_body getTeamsApiTournamentsTournamentIdTeamsGet = NoBody"
    by (simp add: getTeamsApiTournamentsTournamentIdTeamsGet_def)
  ultimately show ?thesis
    using csrf_header_sent[OF teams_endpoint plainClient teamsCall_sendable]
    by (auto simp: Let_def split: sum.splits)
qed

end
