(* ===== verification/Schemas.thy ===== *)
theory Schemas
  imports Zod Sdk
begin

text \<open>
  The schemas generated from the description of the API (\<open>frontend/src/openapi/zod.gen.ts\<close>): first the
  data it exchanges, then, for each endpoint, its body, path, query and response. The table
  \<open>PATH_SCHEMAS\<close> relates the endpoints of \<open>sdk.gen.ts\<close> to the schemas of their paths.
\<close>

section \<open>Data\<close>

definition zAuthFeatureFlags :: schema where
  "zAuthFeatureFlags =
     ZObject [(''password_reset_enabled'', ZDefault ZBoolean (JBool False)),
      (''user_registration_enabled'', ZBoolean)]"

definition zAuthFeatureFlagsResponse :: schema where
  "zAuthFeatureFlagsResponse =
     ZObject [(''data'', zAuthFeatureFlags)]"

definition zBodyLoginForAccessTokenApiTokenPost :: schema where
  "zBodyLoginForAccessTokenApiTokenPost =
     ZObject [(''client_id'', ZNullable ZText), (''client_secret'', ZNullable ZText),
      (''grant_type'', ZNullable (ZString None None (Some FmtPassword))), (''password'', ZText),
      (''scope'', ZDefault ZText (JStr [])), (''username'', ZText)]"

definition zBodyUpdateTeamLogoApiTournamentsTournamentIdTeamsTeamIdLogoPost :: schema where
  "zBodyUpdateTeamLogoApiTournamentsTournamentIdTeamsTeamIdLogoPost =
     ZObject [(''file'', ZNullable ZText)]"

definition zBodyUploadLogoApiTournamentsTournamentIdLogoPost :: schema where
  "zBodyUploadLogoApiTournamentsTournamentIdLogoPost =
     ZObject [(''file'', ZNullable ZText)]"

definition zClub :: schema where
  "zClub =
     ZObject [(''created'', ZDateTime), (''id'', ZInteger), (''name'', ZText)]"

definition zClubCreateBody :: schema where
  "zClubCreateBody =
     ZObject [(''name'', ZString (Some 1) (Some 100) None)]"

definition zClubResponse :: schema where
  "zClubResponse =
     ZObject [(''data'', ZNullable zClub)]"

definition zClubUpdateBody :: schema where
  "zClubUpdateBody =
     ZObject [(''name'', ZString (Some 1) (Some 100) None)]"

definition zClubsResponse :: schema where
  "zClubsResponse =
     ZObject [(''data'', ZArray zClub)]"

definition zMatchBody :: schema where
  "zMatchBody =
     ZObject [(''custom_duration_minutes'', ZNullable (ZInt (Some 1) None)),
      (''custom_margin_minutes'', ZNullable (ZInt (Some 0) None)), (''round_id'', ZInteger),
      (''stage_item_input1_score'', ZDefault (ZInt (Some 0) None) (JNum (Fin 0))),
      (''stage_item_input2_score'', ZDefault (ZInt (Some 0) None) (JNum (Fin 0)))]"

definition zMatchCreateBodyFrontend :: schema where
  "zMatchCreateBodyFrontend =
     ZObject [(''round_id'', ZInteger), (''stage_item_input1_id'', ZNullable ZInteger),
      (''stage_item_input1_winner_from_match_id'', ZNullable ZInteger),
      (''stage_item_input2_id'', ZNullable ZInteger),
      (''stage_item_input2_winner_from_match_id'', ZNullable ZInteger)]"

definition zPlayer :: schema where
  "zPlayer =
     ZObject [(''active'', ZBoolean), (''created'', ZDateTime), (''draws'', ZDefault ZInteger (JNum (Fin 0))),
      (''elo_score'', ZDefault ZDecimal (JStr ''0.0'')), (''id'', ZInteger),
      (''losses'', ZDefault ZInteger (JNum (Fin 0))), (''name'', ZText),
      (''swiss_score'', ZDefault ZDecimal (JStr ''0.0'')), (''tournament_id'', ZInteger),
      (''wins'', ZDefault ZInteger (JNum (Fin 0)))]"

definition zFullTeamWithPlayers :: schema where
  "zFullTeamWithPlayers =
     ZObject [(''active'', ZBoolean), (''created'', ZDateTime), (''draws'', ZDefault ZInteger (JNum (Fin 0))),
      (''elo_score'', ZDefault ZDecimal (JStr ''1200'')), (''id'', ZInteger),
      (''logo_path'', ZNullable ZText), (''losses'', ZDefault ZInteger (JNum (Fin 0))), (''name'', ZText),
      (''players'', ZArray zPlayer), (''swiss_score'', ZDefault ZDecimal (JStr ''0.0'')),
      (''tournament_id'', ZInteger), (''wins'', ZDefault ZInteger (JNum (Fin 0)))]"

definition zPaginatedPlayers :: schema where
  "zPaginatedPlayers =
     ZObject [(''count'', ZInteger), (''players'', ZArray zPlayer)]"

definition zPaginatedTeams :: schema where
  "zPaginatedTeams =
     ZObject [(''count'', ZInteger), (''teams'', ZArray zFullTeamWithPlayers)]"

definition zPlayerBody :: schema where
  "zPlayerBody =
     ZObject [(''active'', ZBoolean), (''name'', ZString (Some 1) (Some 30) None)]"

definition zPlayerMultiBody :: schema where
  "zPlayerMultiBody =
     ZObject [(''active'', ZBoolean), (''names'', ZString (Some 1) None None)]"

definition zPlayersResponse :: schema where
  "zPlayersResponse =
     ZObject [(''data'', zPaginatedPlayers)]"

definition zRanking :: schema where
  "zRanking =
     ZObject [(''add_score_points'', ZBoolean), (''created'', ZDateTime), (''draw_points'', ZDecimal),
      (''id'', ZInteger), (''loss_points'', ZDecimal), (''position'', ZInteger),
      (''tournament_id'', ZInteger), (''win_points'', ZDecimal)]"

definition zRankingBody :: schema where
  "zRankingBody =
     ZObject [(''add_score_points'', ZBoolean), (''draw_points'', ZUnion [ZNumber, ZDecimal]),
      (''loss_points'', ZUnion [ZNumber, ZDecimal]), (''position'', ZInteger),
      (''win_points'', ZUnion [ZNumber, ZDecimal])]"

definition zRankingCreateBody :: schema where
  "zRankingCreateBody =
     ZObject [(''add_score_points'', ZDefault ZBoolean (JBool False)),
      (''draw_points'', ZDefault (ZUnion [ZNumber, ZDecimal]) (JStr ''0.5'')),
      (''loss_points'', ZDefault (ZUnion [ZNumber, ZDecimal]) (JStr ''0.0'')),
      (''win_points'', ZDefault (ZUnion [ZNumber, ZDecimal]) (JStr ''1.0''))]"

definition zRankingsResponse :: schema where
  "zRankingsResponse =
     ZObject [(''data'', ZArray zRanking)]"

definition zRoundCreateBody :: schema where
  "zRoundCreateBody =
     ZObject [(''name'', ZNullable (ZString (Some 1) (Some 100) None)), (''stage_item_id'', ZInteger)]"

definition zRoundUpdateBody :: schema where
  "zRoundUpdateBody =
     ZObject [(''is_draft'', ZBoolean), (''name'', ZString (Some 1) (Some 100) None)]"

definition zSinglePlayerResponse :: schema where
  "zSinglePlayerResponse =
     ZObject [(''data'', zPlayer)]"

definition zStageActivateBody :: schema where
  "zStageActivateBody =
     ZObject [(''direction'', ZDefault (ZEnum [''next'', ''previous'']) (JStr ''next''))]"

definition zStageItemInputEmpty :: schema where
  "zStageItemInputEmpty =
     ZObject [(''draws'', ZDefault ZInteger (JNum (Fin 0))), (''id'', ZInteger),
      (''losses'', ZDefault ZInteger (JNum (Fin 0))), (''points'', ZDefault ZDecimal (JStr ''0.0'')),
      (''slot'', ZInteger), (''stage_item_id'', ZNullable ZInteger), (''team_id'', ZNull),
      (''tournament_id'', ZInteger), (''winner_from_stage_item_id'', ZNull), (''winner_position'', ZNull),
      (''wins'', ZDefault ZInteger (JNum (Fin 0)))]"

definition zStageItemInputOptionFinal :: schema where
  "zStageItemInputOptionFinal =
     ZObject [(''already_taken'', ZBoolean), (''team_id'', ZInteger)]"

definition zStageItemInputOptionTentative :: schema where
  "zStageItemInputOptionTentative =
     ZObject [(''already_taken'', ZBoolean), (''winner_from_stage_item_id'', ZInteger),
      (''winner_position'', ZInteger)]"

definition zStageItemInputOptionsResponse :: schema where
  "zStageItemInputOptionsResponse =
     ZObject [(''data'', ZRecord (ZArray (ZUnion [zStageItemInputOptionTentative, zStageItemInputOptionFinal])))]"

definition zStageItemInputStanding :: schema where
  "zStageItemInputStanding =
     ZObject [(''draws'', ZDefault ZInteger (JNum (Fin 0))), (''losses'', ZDefault ZInteger (JNum (Fin 0))),
      (''points'', ZDefault ZDecimal (JStr ''0.00'')), (''score_against'', ZDefault ZInteger (JNum (Fin 0))),
      (''score_for'', ZDefault ZInteger (JNum (Fin 0))), (''stage_item_input_id'', ZInteger),
      (''wins'', ZDefault ZInteger (JNum (Fin 0)))]"

definition zStageItemInputTentative :: schema where
  "zStageItemInputTentative =
     ZObject [(''draws'', ZDefault ZInteger (JNum (Fin 0))), (''id'', ZInteger),
      (''losses'', ZDefault ZInteger (JNum (Fin 0))), (''points'', ZDefault ZDecimal (JStr ''0.0'')),
      (''slot'', ZInteger), (''stage_item_id'', ZNullable ZInteger), (''team_id'', ZNull),
      (''tournament_id'', ZInteger), (''winner_from_stage_item_id'', ZInteger),
      (''winner_position'', ZInt (Some 1) None), (''wins'', ZDefault ZInteger (JNum (Fin 0)))]"

definition zStageItemInputUpdateBodyEmpty :: schema where
  "zStageItemInputUpdateBodyEmpty =
     ZObject [(''team_id'', ZNull), (''winner_from_stage_item_id'', ZNull), (''winner_position'', ZNull)]"

definition zStageItemInputUpdateBodyFinal :: schema where
  "zStageItemInputUpdateBodyFinal =
     ZObject [(''team_id'', ZInteger)]"

definition zStageItemInputUpdateBodyTentative :: schema where
  "zStageItemInputUpdateBodyTentative =
     ZObject [(''winner_from_stage_item_id'', ZInteger), (''winner_position'', ZInt (Some 1) None)]"

definition zStageItemUpdateBody :: schema where
  "zStageItemUpdateBody =
     ZObject [(''name'', ZString (Some 1) (Some 100) None), (''ranking_id'', ZInteger)]"

definition zStageType :: schema where
  "zStageType =
     ZEnum [''ROUND_ROBIN'', ''SINGLE_ELIMINATION'', ''SWISS'']"

definition zStageItemCreateBody :: schema where
  "zStageItemCreateBody =
     ZObject [(''name'', ZNullable (ZString (Some 1) (Some 100) None)), (''ranking_id'', ZNullable ZInteger),
      (''stage_id'', ZInteger), (''team_count'', ZInt (Some 2) (Some 64)), (''type'', zStageType)]"

definition zStageUpdateBody :: schema where
  "zStageUpdateBody =
     ZObject [(''custom_duration_minutes'', ZNullable (ZInt (Some 1) None)),
      (''name'', ZString (Some 1) (Some 100) None)]"

definition zStandingsResponse :: schema where
  "zStandingsResponse =
     ZObject [(''data'', ZRecord (ZArray zStageItemInputStanding))]"

definition zSuccessResponse :: schema where
  "zSuccessResponse =
     ZObject [(''success'', ZDefault ZBoolean (JBool True))]"

definition zTeam :: schema where
  "zTeam =
     ZObject [(''active'', ZBoolean), (''created'', ZDateTime), (''draws'', ZDefault ZInteger (JNum (Fin 0))),
      (''elo_score'', ZDefault ZDecimal (JStr ''1200'')), (''id'', ZInteger),
      (''logo_path'', ZNullable ZText), (''losses'', ZDefault ZInteger (JNum (Fin 0))), (''name'', ZText),
      (''swiss_score'', ZDefault ZDecimal (JStr ''0.0'')), (''tournament_id'', ZInteger),
      (''wins'', ZDefault ZInteger (JNum (Fin 0)))]"

definition zSingleTeamResponse :: schema where
  "zSingleTeamResponse =
     ZObject [(''data'', zTeam)]"

definition zStageItemInputFinal :: schema where
  "zStageItemInputFinal =
     ZObject [(''draws'', ZDefault ZInteger (JNum (Fin 0))), (''id'', ZInteger),
      (''losses'', ZDefault ZInteger (JNum (Fin 0))), (''points'', ZDefault ZDecimal (JStr ''0.0'')),
      (''slot'', ZInteger), (''stage_item_id'', ZNullable ZInteger), (''team'', zTeam),
      (''team_id'', ZInteger), (''tournament_id'', ZInteger),
      (''winner_from_stage_item_id'', ZNullable ZInteger), (''winner_position'', ZNullable ZInteger),
      (''wins'', ZDefault ZInteger (JNum (Fin 0)))]"

definition zMatch :: schema where
  "zMatch =
     ZObject [(''created'', ZDateTime), (''custom_duration_minutes'', ZNullable ZInteger),
      (''custom_margin_minutes'', ZNullable ZInteger), (''duration_minutes'', ZInteger), (''id'', ZInteger),
      (''margin_minutes'', ZInteger), (''round_id'', ZInteger),
      (''stage_item_input1'', ZNullable (ZUnion [zStageItemInputTentative, zStageItemInputFinal, zStageItemInputEmpty])),
      (''stage_item_input1_conflict'', ZBoolean), (''stage_item_input1_id'', ZNullable ZInteger),
      (''stage_item_input1_score'', ZInteger),
      (''stage_item_input1_winner_from_match_id'', ZNullable ZInteger),
      (''stage_item_input2'', ZNullable (ZUnion [zStageItemInputTentative, zStageItemInputFinal, zStageItemInputEmpty])),
      (''stage_item_input2_conflict'', ZBoolean), (''stage_item_input2_id'', ZNullable ZInteger),
      (''stage_item_input2_score'', ZInteger),
      (''stage_item_input2_winner_from_match_id'', ZNullable ZInteger),
      (''start_time'', ZNullable ZDateTime)]"

definition zMatchWithDetails :: schema where
  "zMatchWithDetails =
     ZObject [(''created'', ZDateTime), (''custom_duration_minutes'', ZNullable ZInteger),
      (''custom_margin_minutes'', ZNullable ZInteger), (''duration_minutes'', ZInteger), (''id'', ZInteger),
      (''margin_minutes'', ZInteger), (''round_id'', ZInteger),
      (''stage_item_input1'', ZNullable (ZUnion [zStageItemInputTentative, zStageItemInputFinal, zStageItemInputEmpty])),
      (''stage_item_input1_conflict'', ZBoolean), (''stage_item_input1_id'', ZNullable ZInteger),
      (''stage_item_input1_score'', ZInteger),
      (''stage_item_input1_winner_from_match_id'', ZNullable ZInteger),
      (''stage_item_input2'', ZNullable (ZUnion [zStageItemInputTentative, zStageItemInputFinal, zStageItemInputEmpty])),
      (''stage_item_input2_conflict'', ZBoolean), (''stage_item_input2_id'', ZNullable ZInteger),
      (''stage_item_input2_score'', ZInteger),
      (''stage_item_input2_winner_from_match_id'', ZNullable ZInteger),
      (''start_time'', ZNullable ZDateTime)]"

definition zMatchWithDetailsDefinitive :: schema where
  "zMatchWithDetailsDefinitive =
     ZObject [(''created'', ZDateTime), (''custom_duration_minutes'', ZNullable ZInteger),
      (''custom_margin_minutes'', ZNullable ZInteger), (''duration_minutes'', ZInteger), (''id'', ZInteger),
      (''margin_minutes'', ZInteger), (''round_id'', ZInteger),
      (''stage_item_input1'', ZUnion [zStageItemInputTentative, zStageItemInputFinal, zStageItemInputEmpty]),
      (''stage_item_input1_conflict'', ZBoolean), (''stage_item_input1_id'', ZNullable ZInteger),
      (''stage_item_input1_score'', ZInteger),
      (''stage_item_input1_winner_from_match_id'', ZNullable ZInteger),
      (''stage_item_input2'', ZUnion [zStageItemInputTentative, zStageItemInputFinal, zStageItemInputEmpty]),
      (''stage_item_input2_conflict'', ZBoolean), (''stage_item_input2_id'', ZNullable ZInteger),
      (''stage_item_input2_score'', ZInteger),
      (''stage_item_input2_winner_from_match_id'', ZNullable ZInteger),
      (''start_time'', ZNullable ZDateTime)]"

definition zRoundWithMatches :: schema where
  "zRoundWithMatches =
     ZObject [(''created'', ZDateTime), (''id'', ZInteger), (''is_draft'', ZBoolean),
      (''matches'', ZArray (ZUnion [zMatchWithDetailsDefinitive, zMatchWithDetails])), (''name'', ZText),
      (''stage_item_id'', ZInteger)]"

definition zSingleMatchResponse :: schema where
  "zSingleMatchResponse =
     ZObject [(''data'', zMatch)]"

definition zStageItemInputUpdate :: schema where
  "zStageItemInputUpdate =
     ZObject [(''stage_item_input'', zStageItemInputTentative), (''team'', zTeam)]"

definition zStageItemWithRounds :: schema where
  "zStageItemWithRounds =
     ZObject [(''created'', ZDateTime), (''id'', ZInteger),
      (''inputs'', ZArray (ZUnion [zStageItemInputTentative, zStageItemInputFinal, zStageItemInputEmpty])),
      (''name'', ZText), (''ranking_id'', ZNullable ZInteger), (''rounds'', ZArray zRoundWithMatches),
      (''stage_id'', ZInteger), (''team_count'', ZInt (Some 2) (Some 64)), (''type'', zStageType),
      (''type_name'', ZText)]"

definition zStageRankingResponse :: schema where
  "zStageRankingResponse =
     ZObject [(''data'', ZRecord (ZArray zStageItemInputUpdate))]"

definition zStageWithStageItems :: schema where
  "zStageWithStageItems =
     ZObject [(''created'', ZDateTime), (''custom_duration_minutes'', ZNullable (ZInt (Some 1) None)),
      (''id'', ZInteger), (''is_active'', ZBoolean), (''name'', ZText),
      (''stage_items'', ZArray zStageItemWithRounds), (''tournament_id'', ZInteger)]"

definition zStagesWithStageItemsResponse :: schema where
  "zStagesWithStageItemsResponse =
     ZObject [(''data'', ZArray zStageWithStageItems)]"

definition zTeamBody :: schema where
  "zTeamBody =
     ZObject [(''active'', ZBoolean), (''name'', ZString (Some 1) (Some 30) None), (''player_ids'', ZArray ZInteger)]"

definition zTeamMultiBody :: schema where
  "zTeamMultiBody =
     ZObject [(''active'', ZBoolean), (''names'', ZString (Some 1) None None)]"

definition zTeamsWithPlayersResponse :: schema where
  "zTeamsWithPlayersResponse =
     ZObject [(''data'', zPaginatedTeams)]"

definition zToken :: schema where
  "zToken =
     ZObject [(''access_token'', ZText), (''name'', ZText), (''token_type'', ZText), (''user_id'', ZInteger)]"

definition zTokenResponse :: schema where
  "zTokenResponse =
     ZObject [(''data'', zToken)]"

definition zTournamentBody :: schema where
  "zTournamentBody =
     ZObject [(''club_id'', ZInteger), (''dashboard_endpoint'', ZNullable ZText), (''dashboard_public'', ZBoolean),
      (''duration_minutes'', ZInt (Some 1) None), (''margin_minutes'', ZInt (Some 0) None),
      (''name'', ZString (Some 1) (Some 100) None), (''players_can_be_in_multiple_teams'', ZBoolean),
      (''start_time'', ZDateTime)]"

definition zTournamentStatus :: schema where
  "zTournamentStatus =
     ZEnum [''OPEN'', ''ARCHIVED'']"

definition zTournament :: schema where
  "zTournament =
     ZObject [(''club_id'', ZInteger), (''created'', ZDateTime), (''dashboard_endpoint'', ZNullable ZText),
      (''dashboard_public'', ZBoolean), (''duration_minutes'', ZInt (Some 1) None), (''id'', ZInteger),
      (''logo_path'', ZNullable ZText), (''margin_minutes'', ZInt (Some 0) None), (''name'', ZText),
      (''players_can_be_in_multiple_teams'', ZBoolean), (''start_time'', ZDateTime),
      (''status'', ZDefault zTournamentStatus (JStr ''OPEN''))]"

definition zTournamentChangeStatusBody :: schema where
  "zTournamentChangeStatusBody =
     ZObject [(''status'', zTournamentStatus)]"

definition zTournamentResponse :: schema where
  "zTournamentResponse =
     ZObject [(''data'', zTournament)]"

definition zTournamentUpdateBody :: schema where
  "zTournamentUpdateBody =
     ZObject [(''dashboard_endpoint'', ZNullable ZText), (''dashboard_public'', ZBoolean),
      (''duration_minutes'', ZInt (Some 1) None), (''margin_minutes'', ZInt (Some 0) None),
      (''name'', ZString (Some 1) (Some 100) None), (''players_can_be_in_multiple_teams'', ZBoolean),
      (''start_time'', ZDateTime)]"

definition zTournamentsResponse :: schema where
  "zTournamentsResponse =
     ZObject [(''data'', ZArray zTournament)]"

definition zUserAccountType :: schema where
  "zUserAccountType =
     ZEnum [''REGULAR'']"

definition zUserPasswordToUpdate :: schema where
  "zUserPasswordToUpdate =
     ZObject [(''current_password'', ZText), (''password'', ZString (Some 12) (Some 72) None)]"

definition zUserPublic :: schema where
  "zUserPublic =
     ZObject [(''account_type'', zUserAccountType), (''created'', ZDateTime),
      (''email'', ZString None None (Some FmtEmail)), (''id'', ZInteger), (''name'', ZText)]"

definition zUserPublicResponse :: schema where
  "zUserPublicResponse =
     ZObject [(''data'', zUserPublic)]"

definition zUserToRegister :: schema where
  "zUserToRegister =
     ZObject [(''email'', ZString None None (Some FmtEmail)), (''name'', ZString (Some 1) (Some 100) None),
      (''password'', ZText)]"

definition zUserToUpdate :: schema where
  "zUserToUpdate =
     ZObject [(''email'', ZString None None (Some FmtEmail)), (''name'', ZString (Some 1) (Some 100) None)]"

definition zValidationError :: schema where
  "zValidationError =
     ZObject [(''ctx'', ZOptional (ZRecord ZUnknown)), (''input'', ZOptional ZUnknown),
      (''loc'', ZArray (ZUnion [ZText, ZInteger])), (''msg'', ZText), (''type'', ZText)]"

definition zHttpValidationError :: schema where
  "zHttpValidationError =
     ZObject [(''detail'', ZOptional (ZArray zValidationError))]"

definition zGetAuthFeaturesApiAuthFeaturesGetResponse :: schema where
  "zGetAuthFeaturesApiAuthFeaturesGetResponse =
     zAuthFeatureFlagsResponse"

definition zGetClubsApiClubsGetResponse :: schema where
  "zGetClubsApiClubsGetResponse =
     zClubsResponse"

definition zCreateNewClubApiClubsPostBody :: schema where
  "zCreateNewClubApiClubsPostBody =
     zClubCreateBody"

definition zCreateNewClubApiClubsPostResponse :: schema where
  "zCreateNewClubApiClubsPostResponse =
     zClubResponse"

definition zDeleteClubApiClubsClubIdDeletePath :: schema where
  "zDeleteClubApiClubsClubIdDeletePath =
     ZObject [(''club_id'', ZInteger)]"

definition zDeleteClubApiClubsClubIdDeleteResponse :: schema where
  "zDeleteClubApiClubsClubIdDeleteResponse =
     zSuccessResponse"

definition zUpdateClubApiClubsClubIdPutBody :: schema where
  "zUpdateClubApiClubsClubIdPutBody =
     zClubUpdateBody"

definition zUpdateClubApiClubsClubIdPutPath :: schema where
  "zUpdateClubApiClubsClubIdPutPath =
     ZObject [(''club_id'', ZInteger)]"

definition zUpdateClubApiClubsClubIdPutResponse :: schema where
  "zUpdateClubApiClubsClubIdPutResponse =
     zClubResponse"

definition zLogoutApiLogoutPostResponse :: schema where
  "zLogoutApiLogoutPostResponse =
     ZVoid"

definition zPingApiPingGetResponse :: schema where
  "zPingApiPingGetResponse =
     ZText"

definition zLoginForAccessTokenApiTokenPostBody :: schema where
  "zLoginForAccessTokenApiTokenPostBody =
     zBodyLoginForAccessTokenApiTokenPost"

definition zLoginForAccessTokenApiTokenPostResponse :: schema where
  "zLoginForAccessTokenApiTokenPostResponse =
     zToken"

definition zGetTournamentsApiTournamentsGetQuery :: schema where
  "zGetTournamentsApiTournamentsGetQuery =
     ZObject [(''filter_'', ZDefault (ZOptional (ZEnum [''ALL'', ''OPEN'', ''ARCHIVED''])) (JStr ''OPEN'')),
      (''endpoint_name'', ZOptional (ZNullable ZText))]"

definition zGetTournamentsApiTournamentsGetResponse :: schema where
  "zGetTournamentsApiTournamentsGetResponse =
     zTournamentsResponse"

definition zCreateTournamentApiTournamentsPostBody :: schema where
  "zCreateTournamentApiTournamentsPostBody =
     zTournamentBody"

definition zCreateTournamentApiTournamentsPostResponse :: schema where
  "zCreateTournamentApiTournamentsPostResponse =
     zSuccessResponse"

definition zDeleteTournamentApiTournamentsTournamentIdDeletePath :: schema where
  "zDeleteTournamentApiTournamentsTournamentIdDeletePath =
     ZObject [(''tournament_id'', ZInteger)]"

definition zDeleteTournamentApiTournamentsTournamentIdDeleteResponse :: schema where
  "zDeleteTournamentApiTournamentsTournamentIdDeleteResponse =
     zSuccessResponse"

definition zGetTournamentApiTournamentsTournamentIdGetPath :: schema where
  "zGetTournamentApiTournamentsTournamentIdGetPath =
     ZObject [(''tournament_id'', ZInteger)]"

definition zGetTournamentApiTournamentsTournamentIdGetResponse :: schema where
  "zGetTournamentApiTournamentsTournamentIdGetResponse =
     zTournamentResponse"

definition zUpdateTournamentByIdApiTournamentsTournamentIdPutBody :: schema where
  "zUpdateTournamentByIdApiTournamentsTournamentIdPutBody =
     zTournamentUpdateBody"

definition zUpdateTournamentByIdApiTournamentsTournamentIdPutPath :: schema where
  "zUpdateTournamentByIdApiTournamentsTournamentIdPutPath =
     ZObject [(''tournament_id'', ZInteger)]"

definition zUpdateTournamentByIdApiTournamentsTournamentIdPutResponse :: schema where
  "zUpdateTournamentByIdApiTournamentsTournamentIdPutResponse =
     zSuccessResponse"

definition zGetAvailableInputsApiTournamentsTournamentIdAvailableInputsGetPath :: schema where
  "zGetAvailableInputsApiTournamentsTournamentIdAvailableInputsGetPath =
     ZObject [(''tournament_id'', ZInteger)]"

definition zGetAvailableInputsApiTournamentsTournamentIdAvailableInputsGetResponse :: schema where
  "zGetAvailableInputsApiTournamentsTournamentIdAvailableInputsGetResponse =
     zStageItemInputOptionsResponse"

definition zChangeStatusApiTournamentsTournamentIdChangeStatusPostBody :: schema where
  "zChangeStatusApiTournamentsTournamentIdChangeStatusPostBody =
     zTournamentChangeStatusBody"

definition zChangeStatusApiTournamentsTournamentIdChangeStatusPostPath :: schema where
  "zChangeStatusApiTournamentsTournamentIdChangeStatusPostPath =
     ZObject [(''tournament_id'', ZInteger)]"

definition zChangeStatusApiTournamentsTournamentIdChangeStatusPostResponse :: schema where
  "zChangeStatusApiTournamentsTournamentIdChangeStatusPostResponse =
     zSuccessResponse"

definition zGetTournamentLogoApiTournamentsTournamentIdLogoGetPath :: schema where
  "zGetTournamentLogoApiTournamentsTournamentIdLogoGetPath =
     ZObject [(''tournament_id'', ZInteger)]"

definition zUploadLogoApiTournamentsTournamentIdLogoPostBody :: schema where
  "zUploadLogoApiTournamentsTournamentIdLogoPostBody =
     zBodyUploadLogoApiTournamentsTournamentIdLogoPost"

definition zUploadLogoApiTournamentsTournamentIdLogoPostPath :: schema where
  "zUploadLogoApiTournamentsTournamentIdLogoPostPath =
     ZObject [(''tournament_id'', ZInteger)]"

definition zUploadLogoApiTournamentsTournamentIdLogoPostResponse :: schema where
  "zUploadLogoApiTournamentsTournamentIdLogoPostResponse =
     zTournamentResponse"

definition zCreateMatchApiTournamentsTournamentIdMatchesPostBody :: schema where
  "zCreateMatchApiTournamentsTournamentIdMatchesPostBody =
     zMatchCreateBodyFrontend"

definition zCreateMatchApiTournamentsTournamentIdMatchesPostPath :: schema where
  "zCreateMatchApiTournamentsTournamentIdMatchesPostPath =
     ZObject [(''tournament_id'', ZInteger)]"

definition zCreateMatchApiTournamentsTournamentIdMatchesPostResponse :: schema where
  "zCreateMatchApiTournamentsTournamentIdMatchesPostResponse =
     zSingleMatchResponse"

definition zDeleteMatchApiTournamentsTournamentIdMatchesMatchIdDeletePath :: schema where
  "zDeleteMatchApiTournamentsTournamentIdMatchesMatchIdDeletePath =
     ZObject [(''tournament_id'', ZInteger), (''match_id'', ZInteger)]"

definition zDeleteMatchApiTournamentsTournamentIdMatchesMatchIdDeleteResponse :: schema where
  "zDeleteMatchApiTournamentsTournamentIdMatchesMatchIdDeleteResponse =
     zSuccessResponse"

definition zUpdateMatchByIdApiTournamentsTournamentIdMatchesMatchIdPutBody :: schema where
  "zUpdateMatchByIdApiTournamentsTournamentIdMatchesMatchIdPutBody =
     zMatchBody"

definition zUpdateMatchByIdApiTournamentsTournamentIdMatchesMatchIdPutPath :: schema where
  "zUpdateMatchByIdApiTournamentsTournamentIdMatchesMatchIdPutPath =
     ZObject [(''tournament_id'', ZInteger), (''match_id'', ZInteger)]"

definition zUpdateMatchByIdApiTournamentsTournamentIdMatchesMatchIdPutResponse :: schema where
  "zUpdateMatchByIdApiTournamentsTournamentIdMatchesMatchIdPutResponse =
     zSuccessResponse"

definition zGetNextStageRankingsApiTournamentsTournamentIdNextStageRankingsGetPath :: schema where
  "zGetNextStageRankingsApiTournamentsTournamentIdNextStageRankingsGetPath =
     ZObject [(''tournament_id'', ZInteger)]"

definition zGetNextStageRankingsApiTournamentsTournamentIdNextStageRankingsGetResponse :: schema where
  "zGetNextStageRankingsApiTournamentsTournamentIdNextStageRankingsGetResponse =
     zStageRankingResponse"

definition zGetPlayersApiTournamentsTournamentIdPlayersGetPath :: schema where
  "zGetPlayersApiTournamentsTournamentIdPlayersGetPath =
     ZObject [(''tournament_id'', ZInteger)]"

definition zGetPlayersApiTournamentsTournamentIdPlayersGetQuery :: schema where
  "zGetPlayersApiTournamentsTournamentIdPlayersGetQuery =
     ZObject [(''not_in_team'', ZDefault (ZOptional ZBoolean) (JBool False)),
      (''limit'', ZDefault (ZOptional (ZInt (Some 1) (Some 500))) (JNum (Fin 25))),
      (''offset'', ZDefault (ZOptional (ZInt (Some 0) None)) (JNum (Fin 0))),
      (''sort_direction'', ZDefault (ZOptional (ZEnum [''asc'', ''desc''])) (JStr ''asc'')),
      (''sort_by'', ZDefault (ZOptional (ZEnum [''name'', ''elo_score'', ''swiss_score'', ''wins'', ''draws'', ''losses'', ''active'', ''created''])) (JStr ''name''))]"

definition zGetPlayersApiTournamentsTournamentIdPlayersGetResponse :: schema where
  "zGetPlayersApiTournamentsTournamentIdPlayersGetResponse =
     zPlayersResponse"

definition zCreateSinglePlayerApiTournamentsTournamentIdPlayersPostBody :: schema where
  "zCreateSinglePlayerApiTournamentsTournamentIdPlayersPostBody =
     zPlayerBody"

definition zCreateSinglePlayerApiTournamentsTournamentIdPlayersPostPath :: schema where
  "zCreateSinglePlayerApiTournamentsTournamentIdPlayersPostPath =
     ZObject [(''tournament_id'', ZInteger)]"

definition zCreateSinglePlayerApiTournamentsTournamentIdPlayersPostResponse :: schema where
  "zCreateSinglePlayerApiTournamentsTournamentIdPlayersPostResponse =
     zSuccessResponse"

definition zDeletePlayerApiTournamentsTournamentIdPlayersPlayerIdDeletePath :: schema where
  "zDeletePlayerApiTournamentsTournamentIdPlayersPlayerIdDeletePath =
     ZObject [(''tournament_id'', ZInteger), (''player_id'', ZInteger)]"

definition zDeletePlayerApiTournamentsTournamentIdPlayersPlayerIdDeleteResponse :: schema where
  "zDeletePlayerApiTournamentsTournamentIdPlayersPlayerIdDeleteResponse =
     zSuccessResponse"

definition zUpdatePlayerByIdApiTournamentsTournamentIdPlayersPlayerIdPutBody :: schema where
  "zUpdatePlayerByIdApiTournamentsTournamentIdPlayersPlayerIdPutBody =
     zPlayerBody"

definition zUpdatePlayerByIdApiTournamentsTournamentIdPlayersPlayerIdPutPath :: schema where
  "zUpdatePlayerByIdApiTournamentsTournamentIdPlayersPlayerIdPutPath =
     ZObject [(''tournament_id'', ZInteger), (''player_id'', ZInteger)]"

definition zUpdatePlayerByIdApiTournamentsTournamentIdPlayersPlayerIdPutResponse :: schema where
  "zUpdatePlayerByIdApiTournamentsTournamentIdPlayersPlayerIdPutResponse =
     zSinglePlayerResponse"

definition zCreateMultiplePlayersApiTournamentsTournamentIdPlayersMultiPostBody :: schema where
  "zCreateMultiplePlayersApiTournamentsTournamentIdPlayersMultiPostBody =
     zPlayerMultiBody"

definition zCreateMultiplePlayersApiTournamentsTournamentIdPlayersMultiPostPath :: schema where
  "zCreateMultiplePlayersApiTournamentsTournamentIdPlayersMultiPostPath =
     ZObject [(''tournament_id'', ZInteger)]"

definition zCreateMultiplePlayersApiTournamentsTournamentIdPlayersMultiPostResponse :: schema where
  "zCreateMultiplePlayersApiTournamentsTournamentIdPlayersMultiPostResponse =
     zSuccessResponse"

definition zGetRankingsApiTournamentsTournamentIdRankingsGetPath :: schema where
  "zGetRankingsApiTournamentsTournamentIdRankingsGetPath =
     ZObject [(''tournament_id'', ZInteger)]"

definition zGetRankingsApiTournamentsTournamentIdRankingsGetResponse :: schema where
  "zGetRankingsApiTournamentsTournamentIdRankingsGetResponse =
     zRankingsResponse"

definition zCreateRankingApiTournamentsTournamentIdRankingsPostBody :: schema where
  "zCreateRankingApiTournamentsTournamentIdRankingsPostBody =
     zRankingCreateBody"

definition zCreateRankingApiTournamentsTournamentIdRankingsPostPath :: schema where
  "zCreateRankingApiTournamentsTournamentIdRankingsPostPath =
     ZObject [(''tournament_id'', ZInteger)]"

definition zCreateRankingApiTournamentsTournamentIdRankingsPostResponse :: schema where
  "zCreateRankingApiTournamentsTournamentIdRankingsPostResponse =
     zSuccessResponse"

definition zDeleteRankingApiTournamentsTournamentIdRankingsRankingIdDeletePath :: schema where
  "zDeleteRankingApiTournamentsTournamentIdRankingsRankingIdDeletePath =
     ZObject [(''tournament_id'', ZInteger), (''ranking_id'', ZInteger)]"

definition zDeleteRankingApiTournamentsTournamentIdRankingsRankingIdDeleteResponse :: schema where
  "zDeleteRankingApiTournamentsTournamentIdRankingsRankingIdDeleteResponse =
     zSuccessResponse"

definition zUpdateRankingByIdApiTournamentsTournamentIdRankingsRankingIdPutBody :: schema where
  "zUpdateRankingByIdApiTournamentsTournamentIdRankingsRankingIdPutBody =
     zRankingBody"

definition zUpdateRankingByIdApiTournamentsTournamentIdRankingsRankingIdPutPath :: schema where
  "zUpdateRankingByIdApiTournamentsTournamentIdRankingsRankingIdPutPath =
     ZObject [(''tournament_id'', ZInteger), (''ranking_id'', ZInteger)]"

definition zUpdateRankingByIdApiTournamentsTournamentIdRankingsRankingIdPutResponse :: schema where
  "zUpdateRankingByIdApiTournamentsTournamentIdRankingsRankingIdPutResponse =
     zSuccessResponse"

definition zCreateRoundApiTournamentsTournamentIdRoundsPostBody :: schema where
  "zCreateRoundApiTournamentsTournamentIdRoundsPostBody =
     zRoundCreateBody"

definition zCreateRoundApiTournamentsTournamentIdRoundsPostPath :: schema where
  "zCreateRoundApiTournamentsTournamentIdRoundsPostPath =
     ZObject [(''tournament_id'', ZInteger)]"

definition zCreateRoundApiTournamentsTournamentIdRoundsPostResponse :: schema where
  "zCreateRoundApiTournamentsTournamentIdRoundsPostResponse =
     zSuccessResponse"

definition zDeleteRoundApiTournamentsTournamentIdRoundsRoundIdDeletePath :: schema where
  "zDeleteRoundApiTournamentsTournamentIdRoundsRoundIdDeletePath =
     ZObject [(''tournament_id'', ZInteger), (''round_id'', ZInteger)]"

definition zDeleteRoundApiTournamentsTournamentIdRoundsRoundIdDeleteResponse :: schema where
  "zDeleteRoundApiTournamentsTournamentIdRoundsRoundIdDeleteResponse =
     zSuccessResponse"

definition zUpdateRoundByIdApiTournamentsTournamentIdRoundsRoundIdPutBody :: schema where
  "zUpdateRoundByIdApiTournamentsTournamentIdRoundsRoundIdPutBody =
     zRoundUpdateBody"

definition zUpdateRoundByIdApiTournamentsTournamentIdRoundsRoundIdPutPath :: schema where
  "zUpdateRoundByIdApiTournamentsTournamentIdRoundsRoundIdPutPath =
     ZObject [(''tournament_id'', ZInteger), (''round_id'', ZInteger)]"

definition zUpdateRoundByIdApiTournamentsTournamentIdRoundsRoundIdPutResponse :: schema where
  "zUpdateRoundByIdApiTournamentsTournamentIdRoundsRoundIdPutResponse =
     zSuccessResponse"

definition zScheduleMatchesApiTournamentsTournamentIdScheduleMatchesPostPath :: schema where
  "zScheduleMatchesApiTournamentsTournamentIdScheduleMatchesPostPath =
     ZObject [(''tournament_id'', ZInteger)]"

definition zScheduleMatchesApiTournamentsTournamentIdScheduleMatchesPostResponse :: schema where
  "zScheduleMatchesApiTournamentsTournamentIdScheduleMatchesPostResponse =
     zSuccessResponse"

definition zCreateStageItemApiTournamentsTournamentIdStageItemsPostBody :: schema where
  "zCreateStageItemApiTournamentsTournamentIdStageItemsPostBody =
     zStageItemCreateBody"

definition zCreateStageItemApiTournamentsTournamentIdStageItemsPostPath :: schema where
  "zCreateStageItemApiTournamentsTournamentIdStageItemsPostPath =
     ZObject [(''tournament_id'', ZInteger)]"

definition zCreateStageItemApiTournamentsTournamentIdStageItemsPostResponse :: schema where
  "zCreateStageItemApiTournamentsTournamentIdStageItemsPostResponse =
     zSuccessResponse"

definition zDeleteStageItemApiTournamentsTournamentIdStageItemsStageItemIdDeletePath :: schema where
  "zDeleteStageItemApiTournamentsTournamentIdStageItemsStageItemIdDeletePath =
     ZObject [(''tournament_id'', ZInteger), (''stage_item_id'', ZInteger)]"

definition zDeleteStageItemApiTournamentsTournamentIdStageItemsStageItemIdDeleteResponse :: schema where
  "zDeleteStageItemApiTournamentsTournamentIdStageItemsStageItemIdDeleteResponse =
     zSuccessResponse"

definition zUpdateStageItemApiTournamentsTournamentIdStageItemsStageItemIdPutBody :: schema where
  "zUpdateStageItemApiTournamentsTournamentIdStageItemsStageItemIdPutBody =
     zStageItemUpdateBody"

definition zUpdateStageItemApiTournamentsTournamentIdStageItemsStageItemIdPutPath :: schema where
  "zUpdateStageItemApiTournamentsTournamentIdStageItemsStageItemIdPutPath =
     ZObject [(''tournament_id'', ZInteger), (''stage_item_id'', ZInteger)]"

definition zUpdateStageItemApiTournamentsTournamentIdStageItemsStageItemIdPutResponse :: schema where
  "zUpdateStageItemApiTournamentsTournamentIdStageItemsStageItemIdPutResponse =
     zSuccessResponse"

definition zUpdateStageItemInputApiTournamentsTournamentIdStageItemsStageItemIdInputsStageItemInputIdPutBody :: schema where
  "zUpdateStageItemInputApiTournamentsTournamentIdStageItemsStageItemIdInputsStageItemInputIdPutBody =
     ZUnion [zStageItemInputUpdateBodyTentative, zStageItemInputUpdateBodyFinal, zStageItemInputUpdateBodyEmpty]"

definition zUpdateStageItemInputApiTournamentsTournamentIdStageItemsStageItemIdInputsStageItemInputIdPutPath :: schema where
  "zUpdateStageItemInputApiTournamentsTournamentIdStageItemsStageItemIdInputsStageItemInputIdPutPath =
     ZObject [(''tournament_id'', ZInteger), (''stage_item_id'', ZInteger), (''stage_item_input_id'', ZInteger)]"

definition zUpdateStageItemInputApiTournamentsTournamentIdStageItemsStageItemIdInputsStageItemInputIdPutResponse :: schema where
  "zUpdateStageItemInputApiTournamentsTournamentIdStageItemsStageItemIdInputsStageItemInputIdPutResponse =
     zSuccessResponse"

definition zGetStagesApiTournamentsTournamentIdStagesGetPath :: schema where
  "zGetStagesApiTournamentsTournamentIdStagesGetPath =
     ZObject [(''tournament_id'', ZInteger)]"

definition zGetStagesApiTournamentsTournamentIdStagesGetQuery :: schema where
  "zGetStagesApiTournamentsTournamentIdStagesGetQuery =
     ZObject [(''no_draft_rounds'', ZDefault (ZOptional ZBoolean) (JBool False))]"

definition zGetStagesApiTournamentsTournamentIdStagesGetResponse :: schema where
  "zGetStagesApiTournamentsTournamentIdStagesGetResponse =
     zStagesWithStageItemsResponse"

definition zCreateStageApiTournamentsTournamentIdStagesPostPath :: schema where
  "zCreateStageApiTournamentsTournamentIdStagesPostPath =
     ZObject [(''tournament_id'', ZInteger)]"

definition zCreateStageApiTournamentsTournamentIdStagesPostResponse :: schema where
  "zCreateStageApiTournamentsTournamentIdStagesPostResponse =
     zSuccessResponse"

definition zActivateNextStageApiTournamentsTournamentIdStagesActivatePostBody :: schema where
  "zActivateNextStageApiTournamentsTournamentIdStagesActivatePostBody =
     zStageActivateBody"

definition zActivateNextStageApiTournamentsTournamentIdStagesActivatePostPath :: schema where
  "zActivateNextStageApiTournamentsTournamentIdStagesActivatePostPath =
     ZObject [(''tournament_id'', ZInteger)]"

definition zActivateNextStageApiTournamentsTournamentIdStagesActivatePostResponse :: schema where
  "zActivateNextStageApiTournamentsTournamentIdStagesActivatePostResponse =
     zSuccessResponse"

definition zDeleteStageApiTournamentsTournamentIdStagesStageIdDeletePath :: schema where
  "zDeleteStageApiTournamentsTournamentIdStagesStageIdDeletePath =
     ZObject [(''tournament_id'', ZInteger), (''stage_id'', ZInteger)]"

definition zDeleteStageApiTournamentsTournamentIdStagesStageIdDeleteResponse :: schema where
  "zDeleteStageApiTournamentsTournamentIdStagesStageIdDeleteResponse =
     zSuccessResponse"

definition zUpdateStageApiTournamentsTournamentIdStagesStageIdPutBody :: schema where
  "zUpdateStageApiTournamentsTournamentIdStagesStageIdPutBody =
     zStageUpdateBody"

definition zUpdateStageApiTournamentsTournamentIdStagesStageIdPutPath :: schema where
  "zUpdateStageApiTournamentsTournamentIdStagesStageIdPutPath =
     ZObject [(''tournament_id'', ZInteger), (''stage_id'', ZInteger)]"

definition zUpdateStageApiTournamentsTournamentIdStagesStageIdPutResponse :: schema where
  "zUpdateStageApiTournamentsTournamentIdStagesStageIdPutResponse =
     zSuccessResponse"

definition zGetStandingsApiTournamentsTournamentIdStandingsGetPath :: schema where
  "zGetStandingsApiTournamentsTournamentIdStandingsGetPath =
     ZObject [(''tournament_id'', ZInteger)]"

definition zGetStandingsApiTournamentsTournamentIdStandingsGetResponse :: schema where
  "zGetStandingsApiTournamentsTournamentIdStandingsGetResponse =
     zStandingsResponse"

definition zGetTeamsApiTournamentsTournamentIdTeamsGetPath :: schema where
  "zGetTeamsApiTournamentsTournamentIdTeamsGetPath =
     ZObject [(''tournament_id'', ZInteger)]"

definition zGetTeamsApiTournamentsTournamentIdTeamsGetQuery :: schema where
  "zGetTeamsApiTournamentsTournamentIdTeamsGetQuery =
     ZObject [(''limit'', ZDefault (ZOptional (ZInt (Some 1) (Some 500))) (JNum (Fin 25))),
      (''offset'', ZDefault (ZOptional (ZInt (Some 0) None)) (JNum (Fin 0))),
      (''sort_direction'', ZDefault (ZOptional (ZEnum [''asc'', ''desc''])) (JStr ''asc'')),
      (''sort_by'', ZDefault (ZOptional (ZEnum [''name'', ''elo_score'', ''swiss_score'', ''wins'', ''draws'', ''losses'', ''active'', ''created''])) (JStr ''name''))]"

definition zGetTeamsApiTournamentsTournamentIdTeamsGetResponse :: schema where
  "zGetTeamsApiTournamentsTournamentIdTeamsGetResponse =
     zTeamsWithPlayersResponse"

definition zCreateTeamApiTournamentsTournamentIdTeamsPostBody :: schema where
  "zCreateTeamApiTournamentsTournamentIdTeamsPostBody =
     zTeamBody"

definition zCreateTeamApiTournamentsTournamentIdTeamsPostPath :: schema where
  "zCreateTeamApiTournamentsTournamentIdTeamsPostPath =
     ZObject [(''tournament_id'', ZInteger)]"

definition zCreateTeamApiTournamentsTournamentIdTeamsPostResponse :: schema where
  "zCreateTeamApiTournamentsTournamentIdTeamsPostResponse =
     zSingleTeamResponse"

definition zDeleteTeamApiTournamentsTournamentIdTeamsTeamIdDeletePath :: schema where
  "zDeleteTeamApiTournamentsTournamentIdTeamsTeamIdDeletePath =
     ZObject [(''tournament_id'', ZInteger), (''team_id'', ZInteger)]"

definition zDeleteTeamApiTournamentsTournamentIdTeamsTeamIdDeleteResponse :: schema where
  "zDeleteTeamApiTournamentsTournamentIdTeamsTeamIdDeleteResponse =
     zSuccessResponse"

definition zUpdateTeamByIdApiTournamentsTournamentIdTeamsTeamIdPutBody :: schema where
  "zUpdateTeamByIdApiTournamentsTournamentIdTeamsTeamIdPutBody =
     zTeamBody"

definition zUpdateTeamByIdApiTournamentsTournamentIdTeamsTeamIdPutPath :: schema where
  "zUpdateTeamByIdApiTournamentsTournamentIdTeamsTeamIdPutPath =
     ZObject [(''tournament_id'', ZInteger), (''team_id'', ZInteger)]"

definition zUpdateTeamByIdApiTournamentsTournamentIdTeamsTeamIdPutResponse :: schema where
  "zUpdateTeamByIdApiTournamentsTournamentIdTeamsTeamIdPutResponse =
     zSingleTeamResponse"

definition zGetTeamLogoApiTournamentsTournamentIdTeamsTeamIdLogoGetPath :: schema where
  "zGetTeamLogoApiTournamentsTournamentIdTeamsTeamIdLogoGetPath =
     ZObject [(''tournament_id'', ZInteger), (''team_id'', ZInteger)]"

definition zUpdateTeamLogoApiTournamentsTournamentIdTeamsTeamIdLogoPostBody :: schema where
  "zUpdateTeamLogoApiTournamentsTournamentIdTeamsTeamIdLogoPostBody =
     zBodyUpdateTeamLogoApiTournamentsTournamentIdTeamsTeamIdLogoPost"

definition zUpdateTeamLogoApiTournamentsTournamentIdTeamsTeamIdLogoPostPath :: schema where
  "zUpdateTeamLogoApiTournamentsTournamentIdTeamsTeamIdLogoPostPath =
     ZObject [(''tournament_id'', ZInteger), (''team_id'', ZInteger)]"

definition zUpdateTeamLogoApiTournamentsTournamentIdTeamsTeamIdLogoPostResponse :: schema where
  "zUpdateTeamLogoApiTournamentsTournamentIdTeamsTeamIdLogoPostResponse =
     zSingleTeamResponse"

definition zCreateMultipleTeamsApiTournamentsTournamentIdTeamsMultiPostBody :: schema where
  "zCreateMultipleTeamsApiTournamentsTournamentIdTeamsMultiPostBody =
     zTeamMultiBody"

definition zCreateMultipleTeamsApiTournamentsTournamentIdTeamsMultiPostPath :: schema where
  "zCreateMultipleTeamsApiTournamentsTournamentIdTeamsMultiPostPath =
     ZObject [(''tournament_id'', ZInteger)]"

definition zCreateMultipleTeamsApiTournamentsTournamentIdTeamsMultiPostResponse :: schema where
  "zCreateMultipleTeamsApiTournamentsTournamentIdTeamsMultiPostResponse =
     zSuccessResponse"

definition zGetUserApiUsersMeGetResponse :: schema where
  "zGetUserApiUsersMeGetResponse =
     zUserPublicResponse"

definition zRegisterUserApiUsersRegisterPostBody :: schema where
  "zRegisterUserApiUsersRegisterPostBody =
     zUserToRegister"

definition zRegisterUserApiUsersRegisterPostResponse :: schema where
  "zRegisterUserApiUsersRegisterPostResponse =
     zTokenResponse"

definition zGetMeApiUsersUserIdGetPath :: schema where
  "zGetMeApiUsersUserIdGetPath =
     ZObject [(''user_id'', ZInteger)]"

definition zGetMeApiUsersUserIdGetResponse :: schema where
  "zGetMeApiUsersUserIdGetResponse =
     zUserPublicResponse"

definition zUpdateUserDetailsApiUsersUserIdPutBody :: schema where
  "zUpdateUserDetailsApiUsersUserIdPutBody =
     zUserToUpdate"

definition zUpdateUserDetailsApiUsersUserIdPutPath :: schema where
  "zUpdateUserDetailsApiUsersUserIdPutPath =
     ZObject [(''user_id'', ZInteger)]"

definition zUpdateUserDetailsApiUsersUserIdPutResponse :: schema where
  "zUpdateUserDetailsApiUsersUserIdPutResponse =
     zUserPublicResponse"

definition zPutUserPasswordApiUsersUserIdPasswordPutBody :: schema where
  "zPutUserPasswordApiUsersUserIdPasswordPutBody =
     zUserPasswordToUpdate"

definition zPutUserPasswordApiUsersUserIdPasswordPutPath :: schema where
  "zPutUserPasswordApiUsersUserIdPasswordPutPath =
     ZObject [(''user_id'', ZInteger)]"

definition zPutUserPasswordApiUsersUserIdPasswordPutResponse :: schema where
  "zPutUserPasswordApiUsersUserIdPasswordPutResponse =
     zSuccessResponse"

lemmas schema_defs =
  zAuthFeatureFlags_def
  zAuthFeatureFlagsResponse_def
  zBodyLoginForAccessTokenApiTokenPost_def
  zBodyUpdateTeamLogoApiTournamentsTournamentIdTeamsTeamIdLogoPost_def
  zBodyUploadLogoApiTournamentsTournamentIdLogoPost_def
  zClub_def
  zClubCreateBody_def
  zClubResponse_def
  zClubUpdateBody_def
  zClubsResponse_def
  zMatchBody_def
  zMatchCreateBodyFrontend_def
  zPlayer_def
  zFullTeamWithPlayers_def
  zPaginatedPlayers_def
  zPaginatedTeams_def
  zPlayerBody_def
  zPlayerMultiBody_def
  zPlayersResponse_def
  zRanking_def
  zRankingBody_def
  zRankingCreateBody_def
  zRankingsResponse_def
  zRoundCreateBody_def
  zRoundUpdateBody_def
  zSinglePlayerResponse_def
  zStageActivateBody_def
  zStageItemInputEmpty_def
  zStageItemInputOptionFinal_def
  zStageItemInputOptionTentative_def
  zStageItemInputOptionsResponse_def
  zStageItemInputStanding_def
  zStageItemInputTentative_def
  zStageItemInputUpdateBodyEmpty_def
  zStageItemInputUpdateBodyFinal_def
  zStageItemInputUpdateBodyTentative_def
  zStageItemUpdateBody_def
  zStageType_def
  zStageItemCreateBody_def
  zStageUpdateBody_def
  zStandingsResponse_def
  zSuccessResponse_def
  zTeam_def
  zSingleTeamResponse_def
  zStageItemInputFinal_def
  zMatch_def
  zMatchWithDetails_def
  zMatchWithDetailsDefinitive_def
  zRoundWithMatches_def
  zSingleMatchResponse_def
  zStageItemInputUpdate_def
  zStageItemWithRounds_def
  zStageRankingResponse_def
  zStageWithStageItems_def
  zStagesWithStageItemsResponse_def
  zTeamBody_def
  zTeamMultiBody_def
  zTeamsWithPlayersResponse_def
  zToken_def
  zTokenResponse_def
  zTournamentBody_def
  zTournamentStatus_def
  zTournament_def
  zTournamentChangeStatusBody_def
  zTournamentResponse_def
  zTournamentUpdateBody_def
  zTournamentsResponse_def
  zUserAccountType_def
  zUserPasswordToUpdate_def
  zUserPublic_def
  zUserPublicResponse_def
  zUserToRegister_def
  zUserToUpdate_def
  zValidationError_def
  zHttpValidationError_def
  zGetAuthFeaturesApiAuthFeaturesGetResponse_def
  zGetClubsApiClubsGetResponse_def
  zCreateNewClubApiClubsPostBody_def
  zCreateNewClubApiClubsPostResponse_def
  zDeleteClubApiClubsClubIdDeletePath_def
  zDeleteClubApiClubsClubIdDeleteResponse_def
  zUpdateClubApiClubsClubIdPutBody_def
  zUpdateClubApiClubsClubIdPutPath_def
  zUpdateClubApiClubsClubIdPutResponse_def
  zLogoutApiLogoutPostResponse_def
  zPingApiPingGetResponse_def
  zLoginForAccessTokenApiTokenPostBody_def
  zLoginForAccessTokenApiTokenPostResponse_def
  zGetTournamentsApiTournamentsGetQuery_def
  zGetTournamentsApiTournamentsGetResponse_def
  zCreateTournamentApiTournamentsPostBody_def
  zCreateTournamentApiTournamentsPostResponse_def
  zDeleteTournamentApiTournamentsTournamentIdDeletePath_def
  zDeleteTournamentApiTournamentsTournamentIdDeleteResponse_def
  zGetTournamentApiTournamentsTournamentIdGetPath_def
  zGetTournamentApiTournamentsTournamentIdGetResponse_def
  zUpdateTournamentByIdApiTournamentsTournamentIdPutBody_def
  zUpdateTournamentByIdApiTournamentsTournamentIdPutPath_def
  zUpdateTournamentByIdApiTournamentsTournamentIdPutResponse_def
  zGetAvailableInputsApiTournamentsTournamentIdAvailableInputsGetPath_def
  zGetAvailableInputsApiTournamentsTournamentIdAvailableInputsGetResponse_def
  zChangeStatusApiTournamentsTournamentIdChangeStatusPostBody_def
  zChangeStatusApiTournamentsTournamentIdChangeStatusPostPath_def
  zChangeStatusApiTournamentsTournamentIdChangeStatusPostResponse_def
  zGetTournamentLogoApiTournamentsTournamentIdLogoGetPath_def
  zUploadLogoApiTournamentsTournamentIdLogoPostBody_def
  zUploadLogoApiTournamentsTournamentIdLogoPostPath_def
  zUploadLogoApiTournamentsTournamentIdLogoPostResponse_def
  zCreateMatchApiTournamentsTournamentIdMatchesPostBody_def
  zCreateMatchApiTournamentsTournamentIdMatchesPostPath_def
  zCreateMatchApiTournamentsTournamentIdMatchesPostResponse_def
  zDeleteMatchApiTournamentsTournamentIdMatchesMatchIdDeletePath_def
  zDeleteMatchApiTournamentsTournamentIdMatchesMatchIdDeleteResponse_def
  zUpdateMatchByIdApiTournamentsTournamentIdMatchesMatchIdPutBody_def
  zUpdateMatchByIdApiTournamentsTournamentIdMatchesMatchIdPutPath_def
  zUpdateMatchByIdApiTournamentsTournamentIdMatchesMatchIdPutResponse_def
  zGetNextStageRankingsApiTournamentsTournamentIdNextStageRankingsGetPath_def
  zGetNextStageRankingsApiTournamentsTournamentIdNextStageRankingsGetResponse_def
  zGetPlayersApiTournamentsTournamentIdPlayersGetPath_def
  zGetPlayersApiTournamentsTournamentIdPlayersGetQuery_def
  zGetPlayersApiTournamentsTournamentIdPlayersGetResponse_def
  zCreateSinglePlayerApiTournamentsTournamentIdPlayersPostBody_def
  zCreateSinglePlayerApiTournamentsTournamentIdPlayersPostPath_def
  zCreateSinglePlayerApiTournamentsTournamentIdPlayersPostResponse_def
  zDeletePlayerApiTournamentsTournamentIdPlayersPlayerIdDeletePath_def
  zDeletePlayerApiTournamentsTournamentIdPlayersPlayerIdDeleteResponse_def
  zUpdatePlayerByIdApiTournamentsTournamentIdPlayersPlayerIdPutBody_def
  zUpdatePlayerByIdApiTournamentsTournamentIdPlayersPlayerIdPutPath_def
  zUpdatePlayerByIdApiTournamentsTournamentIdPlayersPlayerIdPutResponse_def
  zCreateMultiplePlayersApiTournamentsTournamentIdPlayersMultiPostBody_def
  zCreateMultiplePlayersApiTournamentsTournamentIdPlayersMultiPostPath_def
  zCreateMultiplePlayersApiTournamentsTournamentIdPlayersMultiPostResponse_def
  zGetRankingsApiTournamentsTournamentIdRankingsGetPath_def
  zGetRankingsApiTournamentsTournamentIdRankingsGetResponse_def
  zCreateRankingApiTournamentsTournamentIdRankingsPostBody_def
  zCreateRankingApiTournamentsTournamentIdRankingsPostPath_def
  zCreateRankingApiTournamentsTournamentIdRankingsPostResponse_def
  zDeleteRankingApiTournamentsTournamentIdRankingsRankingIdDeletePath_def
  zDeleteRankingApiTournamentsTournamentIdRankingsRankingIdDeleteResponse_def
  zUpdateRankingByIdApiTournamentsTournamentIdRankingsRankingIdPutBody_def
  zUpdateRankingByIdApiTournamentsTournamentIdRankingsRankingIdPutPath_def
  zUpdateRankingByIdApiTournamentsTournamentIdRankingsRankingIdPutResponse_def
  zCreateRoundApiTournamentsTournamentIdRoundsPostBody_def
  zCreateRoundApiTournamentsTournamentIdRoundsPostPath_def
  zCreateRoundApiTournamentsTournamentIdRoundsPostResponse_def
  zDeleteRoundApiTournamentsTournamentIdRoundsRoundIdDeletePath_def
  zDeleteRoundApiTournamentsTournamentIdRoundsRoundIdDeleteResponse_def
  zUpdateRoundByIdApiTournamentsTournamentIdRoundsRoundIdPutBody_def
  zUpdateRoundByIdApiTournamentsTournamentIdRoundsRoundIdPutPath_def
  zUpdateRoundByIdApiTournamentsTournamentIdRoundsRoundIdPutResponse_def
  zScheduleMatchesApiTournamentsTournamentIdScheduleMatchesPostPath_def
  zScheduleMatchesApiTournamentsTournamentIdScheduleMatchesPostResponse_def
  zCreateStageItemApiTournamentsTournamentIdStageItemsPostBody_def
  zCreateStageItemApiTournamentsTournamentIdStageItemsPostPath_def
  zCreateStageItemApiTournamentsTournamentIdStageItemsPostResponse_def
  zDeleteStageItemApiTournamentsTournamentIdStageItemsStageItemIdDeletePath_def
  zDeleteStageItemApiTournamentsTournamentIdStageItemsStageItemIdDeleteResponse_def
  zUpdateStageItemApiTournamentsTournamentIdStageItemsStageItemIdPutBody_def
  zUpdateStageItemApiTournamentsTournamentIdStageItemsStageItemIdPutPath_def
  zUpdateStageItemApiTournamentsTournamentIdStageItemsStageItemIdPutResponse_def
  zUpdateStageItemInputApiTournamentsTournamentIdStageItemsStageItemIdInputsStageItemInputIdPutBody_def
  zUpdateStageItemInputApiTournamentsTournamentIdStageItemsStageItemIdInputsStageItemInputIdPutPath_def
  zUpdateStageItemInputApiTournamentsTournamentIdStageItemsStageItemIdInputsStageItemInputIdPutResponse_def
  zGetStagesApiTournamentsTournamentIdStagesGetPath_def
  zGetStagesApiTournamentsTournamentIdStagesGetQuery_def
  zGetStagesApiTournamentsTournamentIdStagesGetResponse_def
  zCreateStageApiTournamentsTournamentIdStagesPostPath_def
  zCreateStageApiTournamentsTournamentIdStagesPostResponse_def
  zActivateNextStageApiTournamentsTournamentIdStagesActivatePostBody_def
  zActivateNextStageApiTournamentsTournamentIdStagesActivatePostPath_def
  zActivateNextStageApiTournamentsTournamentIdStagesActivatePostResponse_def
  zDeleteStageApiTournamentsTournamentIdStagesStageIdDeletePath_def
  zDeleteStageApiTournamentsTournamentIdStagesStageIdDeleteResponse_def
  zUpdateStageApiTournamentsTournamentIdStagesStageIdPutBody_def
  zUpdateStageApiTournamentsTournamentIdStagesStageIdPutPath_def
  zUpdateStageApiTournamentsTournamentIdStagesStageIdPutResponse_def
  zGetStandingsApiTournamentsTournamentIdStandingsGetPath_def
  zGetStandingsApiTournamentsTournamentIdStandingsGetResponse_def
  zGetTeamsApiTournamentsTournamentIdTeamsGetPath_def
  zGetTeamsApiTournamentsTournamentIdTeamsGetQuery_def
  zGetTeamsApiTournamentsTournamentIdTeamsGetResponse_def
  zCreateTeamApiTournamentsTournamentIdTeamsPostBody_def
  zCreateTeamApiTournamentsTournamentIdTeamsPostPath_def
  zCreateTeamApiTournamentsTournamentIdTeamsPostResponse_def
  zDeleteTeamApiTournamentsTournamentIdTeamsTeamIdDeletePath_def
  zDeleteTeamApiTournamentsTournamentIdTeamsTeamIdDeleteResponse_def
  zUpdateTeamByIdApiTournamentsTournamentIdTeamsTeamIdPutBody_def
  zUpdateTeamByIdApiTournamentsTournamentIdTeamsTeamIdPutPath_def
  zUpdateTeamByIdApiTournamentsTournamentIdTeamsTeamIdPutResponse_def
  zGetTeamLogoApiTournamentsTournamentIdTeamsTeamIdLogoGetPath_def
  zUpdateTeamLogoApiTournamentsTournamentIdTeamsTeamIdLogoPostBody_def
  zUpdateTeamLogoApiTournamentsTournamentIdTeamsTeamIdLogoPostPath_def
  zUpdateTeamLogoApiTournamentsTournamentIdTeamsTeamIdLogoPostResponse_def
  zCreateMultipleTeamsApiTournamentsTournamentIdTeamsMultiPostBody_def
  zCreateMultipleTeamsApiTournamentsTournamentIdTeamsMultiPostPath_def
  zCreateMultipleTeamsApiTournamentsTournamentIdTeamsMultiPostResponse_def
  zGetUserApiUsersMeGetResponse_def
  zRegisterUserApiUsersRegisterPostBody_def
  zRegisterUserApiUsersRegisterPostResponse_def
  zGetMeApiUsersUserIdGetPath_def
  zGetMeApiUsersUserIdGetResponse_def
  zUpdateUserDetailsApiUsersUserIdPutBody_def
  zUpdateUserDetailsApiUsersUserIdPutPath_def
  zUpdateUserDetailsApiUsersUserIdPutResponse_def
  zPutUserPasswordApiUsersUserIdPasswordPutBody_def
  zPutUserPasswordApiUsersUserIdPasswordPutPath_def
  zPutUserPasswordApiUsersUserIdPasswordPutResponse_def

section \<open>Paths\<close>

definition PATH_SCHEMAS :: "(endpoint \<times> schema) list" where
  "PATH_SCHEMAS =
    [(deleteClubApiClubsClubIdDelete,
      zDeleteClubApiClubsClubIdDeletePath),
     (updateClubApiClubsClubIdPut,
      zUpdateClubApiClubsClubIdPutPath),
     (deleteTournamentApiTournamentsTournamentIdDelete,
      zDeleteTournamentApiTournamentsTournamentIdDeletePath),
     (getTournamentApiTournamentsTournamentIdGet,
      zGetTournamentApiTournamentsTournamentIdGetPath),
     (updateTournamentByIdApiTournamentsTournamentIdPut,
      zUpdateTournamentByIdApiTournamentsTournamentIdPutPath),
     (getAvailableInputsApiTournamentsTournamentIdAvailableInputsGet,
      zGetAvailableInputsApiTournamentsTournamentIdAvailableInputsGetPath),
     (changeStatusApiTournamentsTournamentIdChangeStatusPost,
      zChangeStatusApiTournamentsTournamentIdChangeStatusPostPath),
     (getTournamentLogoApiTournamentsTournamentIdLogoGet,
      zGetTournamentLogoApiTournamentsTournamentIdLogoGetPath),
     (uploadLogoApiTournamentsTournamentIdLogoPost,
      zUploadLogoApiTournamentsTournamentIdLogoPostPath),
     (createMatchApiTournamentsTournamentIdMatchesPost,
      zCreateMatchApiTournamentsTournamentIdMatchesPostPath),
     (deleteMatchApiTournamentsTournamentIdMatchesMatchIdDelete,
      zDeleteMatchApiTournamentsTournamentIdMatchesMatchIdDeletePath),
     (updateMatchByIdApiTournamentsTournamentIdMatchesMatchIdPut,
      zUpdateMatchByIdApiTournamentsTournamentIdMatchesMatchIdPutPath),
     (getNextStageRankingsApiTournamentsTournamentIdNextStageRankingsGet,
      zGetNextStageRankingsApiTournamentsTournamentIdNextStageRankingsGetPath),
     (getPlayersApiTournamentsTournamentIdPlayersGet,
      zGetPlayersApiTournamentsTournamentIdPlayersGetPath),
     (createSinglePlayerApiTournamentsTournamentIdPlayersPost,
      zCreateSinglePlayerApiTournamentsTournamentIdPlayersPostPath),
     (deletePlayerApiTournamentsTournamentIdPlayersPlayerIdDelete,
      zDeletePlayerApiTournamentsTournamentIdPlayersPlayerIdDeletePath),
     (updatePlayerByIdApiTournamentsTournamentIdPlayersPlayerIdPut,
      zUpdatePlayerByIdApiTournamentsTournamentIdPlayersPlayerIdPutPath),
     (createMultiplePlayersApiTournamentsTournamentIdPlayersMultiPost,
      zCreateMultiplePlayersApiTournamentsTournamentIdPlayersMultiPostPath),
     (getRankingsApiTournamentsTournamentIdRankingsGet,
      zGetRankingsApiTournamentsTournamentIdRankingsGetPath),
     (createRankingApiTournamentsTournamentIdRankingsPost,
      zCreateRankingApiTournamentsTournamentIdRankingsPostPath),
     (deleteRankingApiTournamentsTournamentIdRankingsRankingIdDelete,
      zDeleteRankingApiTournamentsTournamentIdRankingsRankingIdDeletePath),
     (updateRankingByIdApiTournamentsTournamentIdRankingsRankingIdPut,
      zUpdateRankingByIdApiTournamentsTournamentIdRankingsRankingIdPutPath),
     (createRoundApiTournamentsTournamentIdRoundsPost,
      zCreateRoundApiTournamentsTournamentIdRoundsPostPath),
     (deleteRoundApiTournamentsTournamentIdRoundsRoundIdDelete,
      zDeleteRoundApiTournamentsTournamentIdRoundsRoundIdDeletePath),
     (updateRoundByIdApiTournamentsTournamentIdRoundsRoundIdPut,
      zUpdateRoundByIdApiTournamentsTournamentIdRoundsRoundIdPutPath),
     (scheduleMatchesApiTournamentsTournamentIdScheduleMatchesPost,
      zScheduleMatchesApiTournamentsTournamentIdScheduleMatchesPostPath),
     (createStageItemApiTournamentsTournamentIdStageItemsPost,
      zCreateStageItemApiTournamentsTournamentIdStageItemsPostPath),
     (deleteStageItemApiTournamentsTournamentIdStageItemsStageItemIdDelete,
      zDeleteStageItemApiTournamentsTournamentIdStageItemsStageItemIdDeletePath),
     (updateStageItemApiTournamentsTournamentIdStageItemsStageItemIdPut,
      zUpdateStageItemApiTournamentsTournamentIdStageItemsStageItemIdPutPath),
     (updateStageItemInputApiTournamentsTournamentIdStageItemsStageItemIdInputsStageItemInputIdPut,
      zUpdateStageItemInputApiTournamentsTournamentIdStageItemsStageItemIdInputsStageItemInputIdPutPath),
     (createStageApiTournamentsTournamentIdStagesPost,
      zCreateStageApiTournamentsTournamentIdStagesPostPath),
     (activateNextStageApiTournamentsTournamentIdStagesActivatePost,
      zActivateNextStageApiTournamentsTournamentIdStagesActivatePostPath),
     (deleteStageApiTournamentsTournamentIdStagesStageIdDelete,
      zDeleteStageApiTournamentsTournamentIdStagesStageIdDeletePath),
     (updateStageApiTournamentsTournamentIdStagesStageIdPut,
      zUpdateStageApiTournamentsTournamentIdStagesStageIdPutPath),
     (getStandingsApiTournamentsTournamentIdStandingsGet,
      zGetStandingsApiTournamentsTournamentIdStandingsGetPath),
     (getTeamsApiTournamentsTournamentIdTeamsGet,
      zGetTeamsApiTournamentsTournamentIdTeamsGetPath),
     (createTeamApiTournamentsTournamentIdTeamsPost,
      zCreateTeamApiTournamentsTournamentIdTeamsPostPath),
     (deleteTeamApiTournamentsTournamentIdTeamsTeamIdDelete,
      zDeleteTeamApiTournamentsTournamentIdTeamsTeamIdDeletePath),
     (updateTeamByIdApiTournamentsTournamentIdTeamsTeamIdPut,
      zUpdateTeamByIdApiTournamentsTournamentIdTeamsTeamIdPutPath),
     (getTeamLogoApiTournamentsTournamentIdTeamsTeamIdLogoGet,
      zGetTeamLogoApiTournamentsTournamentIdTeamsTeamIdLogoGetPath),
     (updateTeamLogoApiTournamentsTournamentIdTeamsTeamIdLogoPost,
      zUpdateTeamLogoApiTournamentsTournamentIdTeamsTeamIdLogoPostPath),
     (createMultipleTeamsApiTournamentsTournamentIdTeamsMultiPost,
      zCreateMultipleTeamsApiTournamentsTournamentIdTeamsMultiPostPath),
     (getMeApiUsersUserIdGet,
      zGetMeApiUsersUserIdGetPath),
     (updateUserDetailsApiUsersUserIdPut,
      zUpdateUserDetailsApiUsersUserIdPutPath),
     (putUserPasswordApiUsersUserIdPasswordPut,
      zPutUserPasswordApiUsersUserIdPasswordPutPath),
     (getStagesApiTournamentsTournamentIdStagesGet,
      zGetStagesApiTournamentsTournamentIdStagesGetPath)]"

text \<open>The schema of an endpoint's path has one integer for each placeholder of its address.\<close>

fun plain_integer :: "schema \<Rightarrow> bool" where
  "plain_integer (ZInt None None) = True"
| "plain_integer _ = False"

fun integer_fields :: "schema \<Rightarrow> bool" where
  "integer_fields (ZObject fs) = list_all (\<lambda>f. plain_integer (snd f)) fs"
| "integer_fields _ = False"

lemma plain_integerD: "plain_integer s \<Longrightarrow> s = ZInt None None"
  by (cases s rule: plain_integer.cases) simp_all

definition path_schema :: "endpoint \<Rightarrow> schema option" where
  "path_schema ep = map_of PATH_SCHEMAS ep"

lemma path_schemas_integer: "list_all (\<lambda>(ep, s). integer_fields s) PATH_SCHEMAS"
  by code_simp

lemma path_schemas_params:
  "list_all (\<lambda>(ep, s). list_all (\<lambda>n. n \<in> fst ` set (object_shape s)) (param_names (url_parts (ep_url ep))) \<and>
     list_all (\<lambda>f. fst f \<in> set (param_names (url_parts (ep_url ep)))) (object_shape s)) PATH_SCHEMAS"
  by code_simp

lemma pathless_endpoints:
  "list_all (\<lambda>ep. ep \<in> fst ` set PATH_SCHEMAS \<or> param_names (url_parts (ep_url ep)) = []) ENDPOINTS"
  by (simp add: ENDPOINTS_def PATH_SCHEMAS_def) code_simp

section \<open>Properties\<close>

text \<open>C37: The generated schemas and the generated endpoints agree on addresses: the schema of an endpoint's path
  accepts a path exactly if it gives a safe integer for every placeholder of the address, and an endpoint
  without such a schema has no placeholder.\<close>

theorem path_schemas_fill_addresses:
  assumes "zod_library safeParse email datetime" "ep \<in> set ENDPOINTS"
  shows "case path_schema ep of
      None \<Rightarrow> param_names (url_parts (ep_url ep)) = []
    | Some s \<Rightarrow> (\<exists>path. safeParse s (JObj ps) = Parsed path) \<longleftrightarrow>
        (\<forall>n \<in> set (param_names (url_parts (ep_url ep))). safe_integer (obj_get ps n) \<noteq> None)"
proof (cases "path_schema ep")
  case None
  then have "ep \<notin> fst ` set PATH_SCHEMAS" by (simp add: path_schema_def map_of_eq_None_iff)
  then show ?thesis using None pathless_endpoints assms(2) by (auto simp: list_all_iff)
next
  case (Some s)
  then have m: "(ep, s) \<in> set PATH_SCHEMAS" by (simp add: path_schema_def map_of_SomeD)
  then have "integer_fields s" using path_schemas_integer by (auto simp: list_all_iff)
  then obtain fs where s: "s = ZObject fs" and p: "\<forall>f \<in> set fs. plain_integer (snd f)"
    by (cases s) (simp_all add: list_all_iff)
  have i: "f = ZInt None None" if "(k, f) \<in> set fs" for k f
    using p that by (fastforce dest: plain_integerD)
  have "fst ` set fs = set (param_names (url_parts (ep_url ep)))"
    using path_schemas_params m s by (fastforce simp: list_all_iff)
  moreover have "(\<forall>(k, f) \<in> set fs. \<exists>x. zparse email datetime f (obj_get ps k) = Parsed x) \<longleftrightarrow>
      (\<forall>k \<in> fst ` set fs. safe_integer (obj_get ps k) \<noteq> None)"
    using i by (fastforce simp: int_ok_def opt_all_def split: option.splits)
  ultimately show ?thesis
    by (simp add: Some s zod_library.safeParse_unique[OF assms(1)] object_accepts del: zparse.simps)
qed

theorem path_schemas_fill_addresses_witness:
  "\<exists>path. zparse (\<lambda>_. False) (\<lambda>_. False) zUpdateTeamByIdApiTournamentsTournamentIdTeamsTeamIdPutPath
     (JObj [(''team_id'', JNum (Fin 3)), (''tournament_id'', JNum (Fin 7))]) = Parsed path"
proof -
  let ?ep = updateTeamByIdApiTournamentsTournamentIdTeamsTeamIdPut
  have "?ep \<in> set ENDPOINTS" by (simp add: ENDPOINTS_def)
  note p = path_schemas_fill_addresses[OF zod_reference.zod_library_axioms this]
  have "path_schema ?ep = Some zUpdateTeamByIdApiTournamentsTournamentIdTeamsTeamIdPutPath"
    by (simp add: path_schema_def PATH_SCHEMAS_def endpoint_defs)
  moreover have "param_names (url_parts (ep_url ?ep)) = [''tournament_id'', ''team_id'']"
    by code_simp
  moreover have "safe_integer (JNum (Fin 3)) \<noteq> None" "safe_integer (JNum (Fin 7)) \<noteq> None"
    by code_simp+
  ultimately show ?thesis
    using p[of "\<lambda>_. False" "\<lambda>_. False" "[(''team_id'', JNum (Fin 3)), (''tournament_id'', JNum (Fin 7))]"]
    by (simp add: obj_get_def)
qed

end
