(* ===== verification/JsDateText.thy ===== *)
theory JsDateText
  imports JsDate
begin

text \<open>
  \<open>Date.prototype.toISOString\<close>: milliseconds since the epoch written in UTC, and that reading the text
  gives the moment back.
\<close>

section \<open>Padded numbers\<close>

text \<open>\<open>padStart\<close> with zeros, for numbers that fit.\<close>

fun pad :: "nat \<Rightarrow> nat \<Rightarrow> string" where
  "pad 0 n = []"
| "pad (Suc k) n = pad k (n div 10) @ [digit_char (n mod 10)]"

lemma length_pad [simp]: "length (pad k n) = k"
  by (induction k arbitrary: n) simp_all

lemma pad_digits: "list_all is_digit (pad k n)"
  by (induction k arbitrary: n) (simp_all add: is_digit_digit_char)

lemma digits_val_pad: "n < 10 ^ k \<Longrightarrow> digits_val (pad k n) = n"
proof (induction k arbitrary: n)
  case (Suc k)
  then have "n div 10 < 10 ^ k" by (simp add: less_mult_imp_div_less mult.commute)
  with Suc.IH show ?case by (simp add: digits_val_snoc digit_val_digit_char)
qed (simp add: digits_val_def)

lemma read_digits_pad: "n < 10 ^ k \<Longrightarrow> read_digits k (pad k n @ r) = Some (int n, r)"
  by (simp add: read_digits_def pad_digits digits_val_pad)

section \<open>Days to dates\<close>

lemma int_div_bounds: "0 < k \<Longrightarrow> k * (x div k) \<le> x \<and> x < k * (x div k) + (k::int)"
  using pos_mod_bound[of k x] pos_mod_sign[of k x] mult_div_mod_eq[of k x] by linarith

lemma div_step:
  assumes "0 < (k::int)"
  shows "(x + 1) div k = x div k + (if (x + 1) mod k = 0 then 1 else 0)"
proof -
  have x: "x = k * (x div k) + x mod k" "0 \<le> x mod k" "x mod k < k" using assms by simp_all
  show ?thesis
  proof (cases "x mod k + 1 = k")
    case True
    have "k * (x div k + 1) = k * (x div k) + k" by (simp add: distrib_left)
    with True x(1) have e: "x + 1 = k * (x div k + 1) + 0" by linarith
    have "(x + 1) div k = x div k + 1" by (rule int_div_pos_eq[OF e]) (use assms in simp_all)
    moreover have "(x + 1) mod k = 0" by (rule int_mod_pos_eq[OF e]) (use assms in simp_all)
    ultimately show ?thesis by simp
  next
    case False
    then have e: "x + 1 = k * (x div k) + (x mod k + 1)" "x mod k + 1 < k" using x by simp_all
    have "(x + 1) div k = x div k" by (rule int_div_pos_eq[OF e(1)]) (use x e(2) in simp_all)
    moreover have "(x + 1) mod k = x mod k + 1" by (rule int_mod_pos_eq[OF e(1)]) (use x e(2) in simp_all)
    ultimately show ?thesis using x(2) by simp
  qed
qed

lemma day_from_year_step: "day_from_year (y + 1) = day_from_year y + (if leap_year y then 366 else 365)"
proof -
  have m: "(y - 1968) mod 4 = y mod 4" "(y - 1900) mod 100 = y mod 100" "(y - 1600) mod 400 = y mod 400"
    using mod_mult_self1[of y "-492" 4] mod_mult_self1[of y "-19" 100] mod_mult_self1[of y "-4" 400] by simp_all
  have a: "(y - 1968) div 4 = (y - 1969) div 4 + (if y mod 4 = 0 then 1 else 0)"
    using div_step[of 4 "y - 1969"] m(1) by simp
  have b: "(y - 1900) div 100 = (y - 1901) div 100 + (if y mod 100 = 0 then 1 else 0)"
    using div_step[of 100 "y - 1901"] m(2) by simp
  have c: "(y - 1600) div 400 = (y - 1601) div 400 + (if y mod 400 = 0 then 1 else 0)"
    using div_step[of 400 "y - 1601"] m(3) by simp
  have d: "y mod 4 = 0" if "y mod 100 = 0"
    using mod_mod_cancel[of 4 100 y] that by simp
  have d': "y mod 100 = 0" if "y mod 400 = 0"
    using mod_mod_cancel[of 100 400 y] that by simp
  define l where "l = 365 * (y - 1970) + (y - 1969) div 4 - (y - 1901) div 100 + (y - 1601) div 400"
  have "day_from_year y = l" by (simp add: day_from_year_def l_def)
  moreover have "day_from_year (y + 1) = l + 365 + (if y mod 4 = 0 then 1 else 0)
      - (if y mod 100 = 0 then 1 else 0) + (if y mod 400 = 0 then 1 else 0)"
  proof -
    have "day_from_year (y + 1) =
        365 * (y - 1970) + 365 + (y - 1968) div 4 - (y - 1900) div 100 + (y - 1600) div 400"
      by (simp add: day_from_year_def)
    then show ?thesis unfolding a b c l_def by linarith
  qed
  ultimately show ?thesis
    using d d' unfolding leap_year_def by (cases "y mod 400 = 0"; cases "y mod 100 = 0"; cases "y mod 4 = 0") simp_all
qed

lemma day_from_year_ge: "1971 \<le> y \<Longrightarrow> y - 1970 \<le> day_from_year y"
  using int_div_bounds[of 4 "y - 1969"] int_div_bounds[of 100 "y - 1901"] int_div_bounds[of 400 "y - 1601"]
  by (simp add: day_from_year_def)

text \<open>The year of a day: the search starts at a year that is not too late.\<close>

function year_from :: "int \<Rightarrow> int \<Rightarrow> int" where
  "year_from y d = (if day_from_year (y + 1) \<le> d then year_from (y + 1) d else y)"
  by pat_completeness auto
termination
proof (relation "measure (\<lambda>(y, d). nat (\<bar>d\<bar> + 1970 - y))")
  fix y d :: int
  assume "day_from_year (y + 1) \<le> d"
  then have "y < \<bar>d\<bar> + 1970" using day_from_year_ge[of "y + 1"] by linarith
  then show "((y + 1, d), y, d) \<in> measure (\<lambda>(y, d). nat (\<bar>d\<bar> + 1970 - y))" by simp
qed simp

declare year_from.simps [simp del]

definition year_of_day :: "int \<Rightarrow> int" where
  "year_of_day d = year_from (1970 + (if d < 0 then d div 365 else d div 366)) d"

lemma year_from_spec:
  "day_from_year y \<le> d \<Longrightarrow> day_from_year (year_from y d) \<le> d \<and> d < day_from_year (year_from y d + 1)"
proof (induction y d rule: year_from.induct)
  case (1 y d)
  show ?case
  proof (cases "day_from_year (y + 1) \<le> d")
    case True
    with "1.IH" show ?thesis by (simp add: year_from.simps[of y d])
  next
    case False
    with "1.prems" show ?thesis by (simp add: year_from.simps[of y d])
  qed
qed

lemma year_start: "day_from_year (1970 + (if d < 0 then d div 365 else d div 366)) \<le> d"
proof (cases "d < 0")
  case True
  define n where "n = d div 365"
  have n: "n < 0" "365 * n \<le> d" using True int_div_bounds[of 365 d] by (auto simp: n_def)
  have "(n + 1) div 4 - (n + 69) div 100 + (n + 369) div 400 \<le> 0"
  proof (cases "n \<le> -3")
    case True
    then show ?thesis
      using int_div_bounds[of 4 "n + 1"] int_div_bounds[of 100 "n + 69"] int_div_bounds[of 400 "n + 369"] by simp
  next
    case False
    with n(1) have "n = -1 \<or> n = -2" by linarith
    then show ?thesis by auto
  qed
  with n True show ?thesis by (simp add: day_from_year_def n_def[symmetric] algebra_simps)
next
  case False
  define n where "n = d div 366"
  have n: "0 \<le> n" "366 * n \<le> d" using False int_div_bounds[of 366 d] by (auto simp: n_def)
  have "(n + 1) div 4 - (n + 69) div 100 + (n + 369) div 400 \<le> n"
  proof (cases "2 \<le> n")
    case True
    then show ?thesis
      using int_div_bounds[of 4 "n + 1"] int_div_bounds[of 100 "n + 69"] int_div_bounds[of 400 "n + 369"] by simp
  next
    case False
    with n(1) have "n = 0 \<or> n = 1" by linarith
    then show ?thesis by auto
  qed
  with n False show ?thesis by (simp add: day_from_year_def n_def[symmetric] algebra_simps)
qed

lemma year_of_day: "day_from_year (year_of_day d) \<le> d \<and> d < day_from_year (year_of_day d + 1)"
  unfolding year_of_day_def by (rule year_from_spec[OF year_start])

text \<open>The month of a day of the year (the days of a year are counted from 0).\<close>

definition month_of_day :: "int \<Rightarrow> int \<Rightarrow> int" where
  "month_of_day y n = int (length (filter (\<lambda>m. days_before_month y m \<le> n) [1..12]))"

definition leap_day :: "int \<Rightarrow> int" where
  "leap_day y = (if leap_year y then 1 else 0)"

lemma days_before_months:
  "days_before_month y 1 = 0" "days_before_month y 2 = 31" "days_before_month y 3 = 59 + leap_day y"
  "days_before_month y 4 = 90 + leap_day y" "days_before_month y 5 = 120 + leap_day y"
  "days_before_month y 6 = 151 + leap_day y" "days_before_month y 7 = 181 + leap_day y"
  "days_before_month y 8 = 212 + leap_day y" "days_before_month y 9 = 243 + leap_day y"
  "days_before_month y 10 = 273 + leap_day y" "days_before_month y 11 = 304 + leap_day y"
  "days_before_month y 12 = 334 + leap_day y"
  by (simp_all add: days_before_month_def leap_day_def)

lemma month_of_day:
  assumes "0 \<le> n" "n < 365 + leap_day y"
  shows "let m = month_of_day y n
    in 1 \<le> m \<and> m \<le> 12 \<and> days_before_month y m \<le> n \<and> n < days_before_month y m + days_in_month y m"
proof -
  have l: "leap_day y = 0 \<or> leap_day y = 1" by (simp add: leap_day_def)
  have feb: "days_in_month y 2 = 28 + leap_day y" by (simp add: days_in_month_def leap_day_def)
  have upto: "[1..12] = [1, 2, 3, 4, 5, 6, 7, 8, 9, 10, 11, 12 :: int]" by (simp add: upto.simps)
  consider "n < 31"
    | "31 \<le> n" "n < 59 + leap_day y"
    | "59 + leap_day y \<le> n" "n < 90 + leap_day y"
    | "90 + leap_day y \<le> n" "n < 120 + leap_day y"
    | "120 + leap_day y \<le> n" "n < 151 + leap_day y"
    | "151 + leap_day y \<le> n" "n < 181 + leap_day y"
    | "181 + leap_day y \<le> n" "n < 212 + leap_day y"
    | "212 + leap_day y \<le> n" "n < 243 + leap_day y"
    | "243 + leap_day y \<le> n" "n < 273 + leap_day y"
    | "273 + leap_day y \<le> n" "n < 304 + leap_day y"
    | "304 + leap_day y \<le> n" "n < 334 + leap_day y"
    | "334 + leap_day y \<le> n" "n < 365 + leap_day y"
    using assms(2) by linarith
  then show ?thesis
    by cases
      (use l assms(1) in \<open>simp_all add: month_of_day_def upto days_before_months feb Let_def\<close>,
       auto simp: days_in_month_def)
qed

section \<open>\<open>toISOString\<close>\<close>

definition year_text :: "int \<Rightarrow> string" where
  "year_text y =
     (if 0 \<le> y \<and> y \<le> 9999 then pad 4 (nat y)
      else (if y < 0 then CHR ''-'' else CHR ''+'') # pad 6 (nat \<bar>y\<bar>))"

definition clock_text :: "int \<Rightarrow> string" where
  "clock_text c =
     pad 2 (nat (c div 60000 div 60)) @ '':'' @ pad 2 (nat (c div 60000 mod 60)) @ '':'' @
     pad 2 (nat (c div 1000 mod 60)) @ ''.'' @ pad 3 (nat (c mod 1000)) @ ''Z''"

definition date_text :: "int \<Rightarrow> string" where
  "date_text d =
     (let y = year_of_day d; n = d - day_from_year y; m = month_of_day y n
      in year_text y @ ''-'' @ pad 2 (nat m) @ ''-'' @ pad 2 (nat (n - days_before_month y m + 1)))"

definition iso_text :: "int \<Rightarrow> string" where
  "iso_text t = date_text (t div 86400000) @ ''T'' @ clock_text (t mod 86400000)"

text \<open>The value of a \<open>datetime-local\<close> control: a local clock, to the minute.\<close>

definition minutes_text :: "int \<Rightarrow> string" where
  "minutes_text t =
     date_text (t div 86400000) @ ''T'' @ pad 2 (nat (t mod 86400000 div 60000 div 60)) @ '':'' @
     pad 2 (nat (t mod 86400000 div 60000 mod 60))"

text \<open>Of an invalid date it throws (\<open>None\<close>).\<close>

definition toISOString :: "int option \<Rightarrow> string option" where
  "toISOString date = map_option iso_text date"

lemma next_is_pad: "\<not> is_digit c \<Longrightarrow> 0 < k \<Longrightarrow> next_is c (pad k n @ r) = False"
  using pad_digits[of k n] length_pad[of k n]
  by (cases "pad k n") (auto simp: next_is_def)

lemma signs: "\<not> is_digit (CHR ''+'')" "\<not> is_digit (CHR ''-'')" "\<not> is_digit (CHR ''Z'')"
  by (simp_all add: is_digit_def)

lemma read_year_text:
  assumes "\<bar>y\<bar> < 1000000"
  shows "read_year (year_text y @ r) = Some (y, r)"
proof (cases "0 \<le> y \<and> y \<le> 9999")
  case True
  then have "nat y < 10 ^ 4" by (simp add: nat_less_iff)
  with True show ?thesis
    by (simp add: year_text_def read_year_def next_is_pad signs read_digits_pad)
next
  case False
  then have "nat \<bar>y\<bar> < 10 ^ 6" "y \<noteq> 0" using assms by (simp add: nat_less_iff, auto)
  then show ?thesis
    using False read_digits_pad[of "nat \<bar>y\<bar>" 6 r]
    by (auto simp: year_text_def read_year_def next_is_def)
qed

lemma read_field_pad: "n < 100 \<Longrightarrow> read_field c dflt (c # pad 2 n @ r) = Some (int n, True, r)"
  using read_digits_pad[of n 2 r] by (simp add: read_field_def next_is_def)

lemma read_fraction_pad:
  assumes "n < 1000"
  shows "read_fraction (CHR ''.'' # pad 3 n @ ''Z'') = Some (int n, ''Z'')"
proof -
  have d: "\<forall>c \<in> set (pad 3 n). is_digit c" using pad_digits[of 3 n] by (simp add: list_all_iff)
  have "takeWhile is_digit (pad 3 n @ ''Z'') = pad 3 n" "dropWhile is_digit (pad 3 n @ ''Z'') = ''Z''"
    using d signs(3) by (simp_all add: takeWhile_append2 dropWhile_append2)
  moreover have "pad 3 n \<noteq> []" using length_pad[of 3 n] by (metis length_0_conv zero_neq_numeral)
  moreover have "take 3 (pad 3 n @ ''00'') = pad 3 n" by simp
  ultimately show ?thesis
    using assms by (simp add: read_fraction_def next_is_def digits_val_pad)
qed

lemma read_clock_text:
  assumes "0 \<le> c" "c < 86400000"
  shows "read_clock (clock_text c) = Some (c, ''Z'')"
proof -
  define t where "t = c div 1000"
  define u where "u = t div 60"
  define h mi s ms where "h = u div 60" and "mi = u mod 60" and "s = t mod 60" and "ms = c mod 1000"
  have e: "c div 60000 = u" using zdiv_zmult2_eq[of 60 c 1000] by (simp add: u_def t_def)
  have c: "c = 1000 * t + ms" and t: "t = 60 * u + s" and u: "u = 60 * h + mi"
    by (simp_all add: t_def ms_def u_def s_def h_def mi_def)
  have b: "0 \<le> mi" "mi < 60" "0 \<le> s" "s < 60" "0 \<le> ms" "ms < 1000"
    by (simp_all add: mi_def s_def ms_def)
  have text_c: "clock_text c = pad 2 (nat h) @ '':'' @ pad 2 (nat mi) @ '':'' @ pad 2 (nat s) @ ''.'' @ pad 3 (nat ms) @ ''Z''"
    by (simp only: clock_text_def e t_def[symmetric] h_def mi_def s_def ms_def)
  have h: "0 \<le> h" "h < 24" using assms c t u b by linarith+
  have n: "nat h < 10\<^sup>2" "nat mi < 100" "nat s < 100" "nat ms < 1000" using b h by simp_all
  show ?thesis
    unfolding text_c
    using b h c t u read_digits_pad[OF n(1)]
    by (simp add: read_clock_def read_field_pad[OF n(2)] read_field_pad[OF n(3)] read_fraction_pad[OF n(4)])
qed

lemma year_bound:
  assumes "\<bar>d\<bar> \<le> 100000000"
  shows "\<bar>year_of_day d\<bar> < 1000000"
proof -
  define y where "y = year_of_day d"
  have bounds: "\<exists>q. v div k = q \<and> k * q \<le> v \<and> v < k * q + k" if "0 < k" for v k :: int
    using int_div_bounds[OF that, of v] by blast
  have "day_from_year y \<le> d" "d < day_from_year (y + 1)" using year_of_day[of d] by (simp_all add: y_def)
  then have l: "365 * (y - 1970) + (y - 1969) div 4 - (y - 1901) div 100 + (y - 1601) div 400 \<le> d"
    and u: "d < 365 * (y + 1 - 1970) + (y + 1 - 1969) div 4 - (y + 1 - 1901) div 100 + (y + 1 - 1601) div 400"
    unfolding day_from_year_def by blast+
  obtain a1 b1 c1 where 1: "(y - 1969) div 4 = a1" "4 * a1 \<le> y - 1969" "y - 1969 < 4 * a1 + 4"
    "(y - 1901) div 100 = b1" "100 * b1 \<le> y - 1901" "y - 1901 < 100 * b1 + 100"
    "(y - 1601) div 400 = c1" "400 * c1 \<le> y - 1601" "y - 1601 < 400 * c1 + 400"
    using bounds[of 4 "y - 1969"] bounds[of 100 "y - 1901"] bounds[of 400 "y - 1601"] by auto
  obtain a2 b2 c2 where 2: "(y + 1 - 1969) div 4 = a2" "4 * a2 \<le> y + 1 - 1969" "y + 1 - 1969 < 4 * a2 + 4"
    "(y + 1 - 1901) div 100 = b2" "100 * b2 \<le> y + 1 - 1901" "y + 1 - 1901 < 100 * b2 + 100"
    "(y + 1 - 1601) div 400 = c2" "400 * c2 \<le> y + 1 - 1601" "y + 1 - 1601 < 400 * c2 + 400"
    using bounds[of 4 "y + 1 - 1969"] bounds[of 100 "y + 1 - 1901"] bounds[of 400 "y + 1 - 1601"] by auto
  have d: "d \<le> 100000000" "-100000000 \<le> d" using assms by linarith+
  have "365 * y - 365 * 1970 + a1 - b1 + c1 \<le> d" using l unfolding 1(1) 1(4) 1(7) by (simp add: algebra_simps)
  moreover have "0 \<le> a1" "b1 \<le> y" "0 \<le> c1" if "1000000 \<le> y" using that 1(3,5,9) by linarith+
  ultimately have "y < 1000000" using d(1) by (cases "1000000 \<le> y") linarith+
  have "d < 365 * y + 365 - 365 * 1970 + a2 - b2 + c2" using u unfolding 2(1) 2(4) 2(7) by (simp add: algebra_simps)
  moreover have "a2 \<le> 0" "y \<le> b2" "c2 \<le> 0" if "y \<le> -1000000" using that 2(2,6,8) by linarith+
  ultimately have "-1000000 < y" using d(2) by (cases "y \<le> -1000000") linarith+
  with \<open>y < 1000000\<close> show ?thesis by (simp add: y_def[symmetric])
qed

text \<open>A written moment is read back.\<close>

lemma read_date_text:
  assumes "\<bar>d\<bar> \<le> 100000000"
  shows "read_date (date_text d @ r) = Some (d * 86400000, r)"
proof -
  define y where "y = year_of_day d"
  define n where "n = d - day_from_year y"
  define m where "m = month_of_day y n"
  define k where "k = n - days_before_month y m + 1"
  have y: "\<bar>y\<bar> < 1000000" unfolding y_def by (rule year_bound[OF assms])
  have "0 \<le> n" "n < 365 + leap_day y"
    using year_of_day[of d] day_from_year_step[of y] by (auto simp: n_def y_def leap_day_def)
  then have m: "1 \<le> m" "m \<le> 12" "1 \<le> k" "k \<le> days_in_month y m"
    using month_of_day[of n y] by (auto simp: Let_def m_def k_def)
  then have mk: "nat m < 100" "nat k < 100" by (auto simp: days_in_month_def split: if_splits)
  have civil: "civil_ms y m k = d * 86400000" by (simp add: civil_ms_def k_def n_def)
  have written: "date_text d @ r = year_text y @ CHR ''-'' # pad 2 (nat m) @ CHR ''-'' # pad 2 (nat k) @ r"
    by (simp add: date_text_def Let_def y_def n_def m_def k_def)
  show ?thesis
    using y m mk civil unfolding written read_date_def
    by (simp add: read_year_text read_field_pad)
qed

lemma day_bound: "\<bar>t\<bar> \<le> 8640000000000000 \<Longrightarrow> \<bar>t div 86400000\<bar> \<le> 100000000" for t :: int
  using int_div_bounds[of 86400000 t] by simp

lemma read_iso_text:
  assumes "\<bar>t\<bar> \<le> 8640000000000000"
  shows "read_iso (iso_text t) = Some (t, Some 0)"
proof -
  have "read_clock (clock_text (t mod 86400000)) = Some (t mod 86400000, ''Z'')"
    by (rule read_clock_text) simp_all
  moreover have "t div 86400000 * 86400000 + t mod 86400000 = t" by (rule div_mult_mod_eq)
  ultimately show ?thesis
    using read_date_text[OF day_bound[OF assms]]
    by (simp add: iso_text_def read_iso_def next_is_def read_zone_def)
qed

lemma date_ms_iso_text: "time_clip t = Some u \<Longrightarrow> date_ms env (iso_text t) = Some t"
  by (auto simp: date_ms_def read_iso_text time_clip_def split: if_splits)

text \<open>A local clock is read back to the minute.\<close>

lemma read_iso_minutes:
  assumes "\<bar>t\<bar> \<le> 8640000000000000"
  shows "read_iso (minutes_text t) = Some (t - t mod 60000, None)"
proof -
  define c where "c = t mod 86400000"
  define u where "u = c div 60000"
  define h mi where "h = u div 60" and "mi = u mod 60"
  have c: "0 \<le> c" "c < 86400000" by (simp_all add: c_def)
  have cu: "c = 60000 * u + c mod 60000" and u: "u = 60 * h + mi" by (simp_all add: u_def h_def mi_def)
  have cm: "c mod 60000 = t mod 60000" unfolding c_def by (rule mod_mod_cancel) simp
  have b: "0 \<le> mi" "mi < 60" "0 \<le> c mod 60000" "c mod 60000 < 60000" by (simp_all add: mi_def)
  have h: "0 \<le> h" "h < 24" using c cu u b by linarith+
  have n: "nat h < 10\<^sup>2" "nat mi < 100" using b h by simp_all
  have "read_clock (pad 2 (nat h) @ '':'' @ pad 2 (nat mi)) = Some (60000 * u, [])"
    using b h u read_digits_pad[OF n(1), of "CHR '':'' # pad 2 (nat mi)"] read_field_pad[OF n(2), of "CHR '':''" 0 "[]"]
    by (simp add: read_clock_def read_field_def[of _ _ "[]"] next_is_def)
  moreover have "t div 86400000 * 86400000 + 60000 * u = t - t mod 60000"
    using div_mult_mod_eq[of t 86400000] cu cm by (simp add: c_def[symmetric])
  ultimately show ?thesis
    using read_date_text[OF day_bound[OF assms]]
    by (simp add: minutes_text_def read_iso_def next_is_def[of "CHR ''T''"] read_zone_def c_def[symmetric] u_def[symmetric]
        h_def[symmetric] mi_def[symmetric])
qed

text \<open>Moments whose year has four digits.\<close>

definition ordinary_time :: "int \<Rightarrow> bool" where
  "ordinary_time t = (0 \<le> year_of_day (t div 86400000) \<and> year_of_day (t div 86400000) \<le> 9999 \<and> \<bar>t\<bar> \<le> 8640000000000000)"

lemma iso_text_example: "iso_text 1772361000000 = ''2026-03-01T10:30:00.000Z''"
  by code_simp

lemma minutes_text_example: "minutes_text 1772361000000 = ''2026-03-01T10:30''"
  by code_simp

end
