(* ===== verification/Queries.thy ===== *)
theory Queries
  imports Sdk
begin

text \<open>
  The queries and mutations of the pages (\<open>frontend/src/openapi/@tanstack/react-query.gen.ts\<close>): for each
  endpoint the key under which TanStack Query caches its answers, and the function it calls to load it or
  to change something. The record \<open>query\<close> holds what the entry of one endpoint passes on, a mutation is its
  endpoint.
\<close>

section \<open>Keys and functions\<close>

record query =
  q_id :: string
  q_infinite :: bool
  q_endpoint :: endpoint

definition createQueryKey ::
  "js_value \<Rightarrow> string \<Rightarrow> options \<Rightarrow> bool \<Rightarrow> string list option \<Rightarrow> (string \<times> js_value) list" where
  "createQueryKey base ident options isInfinite tags =
     (let part = \<lambda>k. if truthy (opt_val options k) then [(k, opt_val options k)] else []
      in [(''_id'', JStr ident),
          (''baseURL'', if truthy (opt_val options ''baseURL'') then opt_val options ''baseURL'' else base)] @
         (if isInfinite then [(''_infinite'', JBool True)] else []) @
         (case tags of None \<Rightarrow> [] | Some ts \<Rightarrow> [(''tags'', JArr (map JStr ts))]) @
         part ''body'' @ part ''headers'' @ part ''path'' @ part ''query'')"

definition query_key :: "client_state \<Rightarrow> query \<Rightarrow> options \<Rightarrow> (string \<times> js_value) list" where
  "query_key client q options =
     createQueryKey (opt_val (cl_config client) ''baseURL'') (q_id q) options (q_infinite q) None"

text \<open>The page of a list: its part of the request over the one in the key.\<close>

definition createInfiniteParams ::
  "(string \<times> js_value) list \<Rightarrow> (string \<times> js_value) list \<Rightarrow> (string \<times> js_value) list" where
  "createInfiniteParams key page =
     (let add = \<lambda>k params.
        if truthy (obj_get page k)
        then obj_set k (JObj (obj_spread (obj_spread [] (own_entries (obj_get key k)))
               (own_entries (obj_get page k)))) params
        else params
      in add ''query'' (add ''path'' (add ''headers'' (add ''body'' (obj_spread [] key)))))"

text \<open>The part of the request that a page parameter stands for; a number is an offset.\<close>

definition page_entries :: "js_value \<Rightarrow> (string \<times> js_value) list" where
  "page_entries pageParam =
     (if typeof_object pageParam then own_entries pageParam
      else [(''query'', JObj [(''offset'', pageParam)])])"

definition entries_options :: "(string \<times> js_value) list \<Rightarrow> options" where
  "entries_options es = map (\<lambda>(k, v). (k, OVal v)) es"

text \<open>The options of the request that loads a query; the abort signal is the cache's.\<close>

definition queryFn_options :: "options \<Rightarrow> (string \<times> js_value) list \<Rightarrow> opt_value \<Rightarrow> options" where
  "queryFn_options options key signal =
     obj_set ''throwOnError'' (OVal (JBool True))
       (obj_set ''signal'' signal (obj_spread (obj_spread [] options) (entries_options key)))"

definition mutationFn_options :: "options \<Rightarrow> options \<Rightarrow> options" where
  "mutationFn_options options fnOptions =
     obj_set ''throwOnError'' (OVal (JBool True)) (obj_spread (obj_spread [] options) fnOptions)"

text \<open>\<open>const { data } = await ...\<close>: the error object of a failure has no data.\<close>

definition fn_result :: "outcome \<Rightarrow> client_error + js_value" where
  "fn_result r =
     (case r of
        Data d \<Rightarrow> Inr d
      | Returned _ _ \<Rightarrow> Inr JUndefined
      | ThrownError e \<Rightarrow> Inl e)"

definition queryFn ::
  "text_env \<Rightarrow> axios \<Rightarrow> client_state \<Rightarrow> query \<Rightarrow> options \<Rightarrow> (string \<times> js_value) list \<Rightarrow> opt_value \<Rightarrow>
   client_error + js_value" where
  "queryFn te axios client q options key signal =
     fn_result (endpoint_call te axios client (q_endpoint q) (queryFn_options options key signal))"

definition infiniteQueryFn ::
  "text_env \<Rightarrow> axios \<Rightarrow> client_state \<Rightarrow> query \<Rightarrow> options \<Rightarrow> (string \<times> js_value) list \<Rightarrow> js_value \<Rightarrow>
   opt_value \<Rightarrow> client_error + js_value" where
  "infiniteQueryFn te axios client q options key pageParam signal =
     (if pageParam = JNull then Inl TypeErr
      else fn_result (endpoint_call te axios client (q_endpoint q)
        (queryFn_options options (createInfiniteParams key (page_entries pageParam)) signal)))"

definition mutationFn ::
  "text_env \<Rightarrow> axios \<Rightarrow> client_state \<Rightarrow> endpoint \<Rightarrow> options \<Rightarrow> options \<Rightarrow> client_error + js_value" where
  "mutationFn te axios client ep options fnOptions =
     fn_result (endpoint_call te axios client ep (mutationFn_options options fnOptions))"

section \<open>The entries\<close>

definition getAuthFeaturesApiAuthFeaturesGetOptions :: query where
  "getAuthFeaturesApiAuthFeaturesGetOptions =
     \<lparr>q_id = ''getAuthFeaturesApiAuthFeaturesGet'', q_infinite = False,
      q_endpoint = getAuthFeaturesApiAuthFeaturesGet\<rparr>"

definition getClubsApiClubsGetOptions :: query where
  "getClubsApiClubsGetOptions =
     \<lparr>q_id = ''getClubsApiClubsGet'', q_infinite = False,
      q_endpoint = getClubsApiClubsGet\<rparr>"

definition pingApiPingGetOptions :: query where
  "pingApiPingGetOptions =
     \<lparr>q_id = ''pingApiPingGet'', q_infinite = False,
      q_endpoint = pingApiPingGet\<rparr>"

definition getTournamentsApiTournamentsGetOptions :: query where
  "getTournamentsApiTournamentsGetOptions =
     \<lparr>q_id = ''getTournamentsApiTournamentsGet'', q_infinite = False,
      q_endpoint = getTournamentsApiTournamentsGet\<rparr>"

definition getTournamentApiTournamentsTournamentIdGetOptions :: query where
  "getTournamentApiTournamentsTournamentIdGetOptions =
     \<lparr>q_id = ''getTournamentApiTournamentsTournamentIdGet'', q_infinite = False,
      q_endpoint = getTournamentApiTournamentsTournamentIdGet\<rparr>"

definition getAvailableInputsApiTournamentsTournamentIdAvailableInputsGetOptions :: query where
  "getAvailableInputsApiTournamentsTournamentIdAvailableInputsGetOptions =
     \<lparr>q_id = ''getAvailableInputsApiTournamentsTournamentIdAvailableInputsGet'', q_infinite = False,
      q_endpoint = getAvailableInputsApiTournamentsTournamentIdAvailableInputsGet\<rparr>"

definition getTournamentLogoApiTournamentsTournamentIdLogoGetOptions :: query where
  "getTournamentLogoApiTournamentsTournamentIdLogoGetOptions =
     \<lparr>q_id = ''getTournamentLogoApiTournamentsTournamentIdLogoGet'', q_infinite = False,
      q_endpoint = getTournamentLogoApiTournamentsTournamentIdLogoGet\<rparr>"

definition getNextStageRankingsApiTournamentsTournamentIdNextStageRankingsGetOptions :: query where
  "getNextStageRankingsApiTournamentsTournamentIdNextStageRankingsGetOptions =
     \<lparr>q_id = ''getNextStageRankingsApiTournamentsTournamentIdNextStageRankingsGet'', q_infinite = False,
      q_endpoint = getNextStageRankingsApiTournamentsTournamentIdNextStageRankingsGet\<rparr>"

definition getPlayersApiTournamentsTournamentIdPlayersGetOptions :: query where
  "getPlayersApiTournamentsTournamentIdPlayersGetOptions =
     \<lparr>q_id = ''getPlayersApiTournamentsTournamentIdPlayersGet'', q_infinite = False,
      q_endpoint = getPlayersApiTournamentsTournamentIdPlayersGet\<rparr>"

definition getRankingsApiTournamentsTournamentIdRankingsGetOptions :: query where
  "getRankingsApiTournamentsTournamentIdRankingsGetOptions =
     \<lparr>q_id = ''getRankingsApiTournamentsTournamentIdRankingsGet'', q_infinite = False,
      q_endpoint = getRankingsApiTournamentsTournamentIdRankingsGet\<rparr>"

definition getStagesApiTournamentsTournamentIdStagesGetOptions :: query where
  "getStagesApiTournamentsTournamentIdStagesGetOptions =
     \<lparr>q_id = ''getStagesApiTournamentsTournamentIdStagesGet'', q_infinite = False,
      q_endpoint = getStagesApiTournamentsTournamentIdStagesGet\<rparr>"

definition getStandingsApiTournamentsTournamentIdStandingsGetOptions :: query where
  "getStandingsApiTournamentsTournamentIdStandingsGetOptions =
     \<lparr>q_id = ''getStandingsApiTournamentsTournamentIdStandingsGet'', q_infinite = False,
      q_endpoint = getStandingsApiTournamentsTournamentIdStandingsGet\<rparr>"

definition getTeamsApiTournamentsTournamentIdTeamsGetOptions :: query where
  "getTeamsApiTournamentsTournamentIdTeamsGetOptions =
     \<lparr>q_id = ''getTeamsApiTournamentsTournamentIdTeamsGet'', q_infinite = False,
      q_endpoint = getTeamsApiTournamentsTournamentIdTeamsGet\<rparr>"

definition getTeamLogoApiTournamentsTournamentIdTeamsTeamIdLogoGetOptions :: query where
  "getTeamLogoApiTournamentsTournamentIdTeamsTeamIdLogoGetOptions =
     \<lparr>q_id = ''getTeamLogoApiTournamentsTournamentIdTeamsTeamIdLogoGet'', q_infinite = False,
      q_endpoint = getTeamLogoApiTournamentsTournamentIdTeamsTeamIdLogoGet\<rparr>"

definition getUserApiUsersMeGetOptions :: query where
  "getUserApiUsersMeGetOptions =
     \<lparr>q_id = ''getUserApiUsersMeGet'', q_infinite = False,
      q_endpoint = getUserApiUsersMeGet\<rparr>"

definition getMeApiUsersUserIdGetOptions :: query where
  "getMeApiUsersUserIdGetOptions =
     \<lparr>q_id = ''getMeApiUsersUserIdGet'', q_infinite = False,
      q_endpoint = getMeApiUsersUserIdGet\<rparr>"

definition getPlayersApiTournamentsTournamentIdPlayersGetInfiniteOptions :: query where
  "getPlayersApiTournamentsTournamentIdPlayersGetInfiniteOptions =
     \<lparr>q_id = ''getPlayersApiTournamentsTournamentIdPlayersGet'', q_infinite = True,
      q_endpoint = getPlayersApiTournamentsTournamentIdPlayersGet\<rparr>"

definition getTeamsApiTournamentsTournamentIdTeamsGetInfiniteOptions :: query where
  "getTeamsApiTournamentsTournamentIdTeamsGetInfiniteOptions =
     \<lparr>q_id = ''getTeamsApiTournamentsTournamentIdTeamsGet'', q_infinite = True,
      q_endpoint = getTeamsApiTournamentsTournamentIdTeamsGet\<rparr>"

definition QUERIES :: "query list" where
  "QUERIES =
    [getAuthFeaturesApiAuthFeaturesGetOptions,
     getClubsApiClubsGetOptions,
     pingApiPingGetOptions,
     getTournamentsApiTournamentsGetOptions,
     getTournamentApiTournamentsTournamentIdGetOptions,
     getAvailableInputsApiTournamentsTournamentIdAvailableInputsGetOptions,
     getTournamentLogoApiTournamentsTournamentIdLogoGetOptions,
     getNextStageRankingsApiTournamentsTournamentIdNextStageRankingsGetOptions,
     getPlayersApiTournamentsTournamentIdPlayersGetOptions,
     getRankingsApiTournamentsTournamentIdRankingsGetOptions,
     getStagesApiTournamentsTournamentIdStagesGetOptions,
     getStandingsApiTournamentsTournamentIdStandingsGetOptions,
     getTeamsApiTournamentsTournamentIdTeamsGetOptions,
     getTeamLogoApiTournamentsTournamentIdTeamsTeamIdLogoGetOptions,
     getUserApiUsersMeGetOptions,
     getMeApiUsersUserIdGetOptions,
     getPlayersApiTournamentsTournamentIdPlayersGetInfiniteOptions,
     getTeamsApiTournamentsTournamentIdTeamsGetInfiniteOptions]"

definition createNewClubApiClubsPostMutation :: endpoint where
  "createNewClubApiClubsPostMutation =
     createNewClubApiClubsPost"

definition deleteClubApiClubsClubIdDeleteMutation :: endpoint where
  "deleteClubApiClubsClubIdDeleteMutation =
     deleteClubApiClubsClubIdDelete"

definition updateClubApiClubsClubIdPutMutation :: endpoint where
  "updateClubApiClubsClubIdPutMutation =
     updateClubApiClubsClubIdPut"

definition logoutApiLogoutPostMutation :: endpoint where
  "logoutApiLogoutPostMutation =
     logoutApiLogoutPost"

definition loginForAccessTokenApiTokenPostMutation :: endpoint where
  "loginForAccessTokenApiTokenPostMutation =
     loginForAccessTokenApiTokenPost"

definition createTournamentApiTournamentsPostMutation :: endpoint where
  "createTournamentApiTournamentsPostMutation =
     createTournamentApiTournamentsPost"

definition deleteTournamentApiTournamentsTournamentIdDeleteMutation :: endpoint where
  "deleteTournamentApiTournamentsTournamentIdDeleteMutation =
     deleteTournamentApiTournamentsTournamentIdDelete"

definition updateTournamentByIdApiTournamentsTournamentIdPutMutation :: endpoint where
  "updateTournamentByIdApiTournamentsTournamentIdPutMutation =
     updateTournamentByIdApiTournamentsTournamentIdPut"

definition changeStatusApiTournamentsTournamentIdChangeStatusPostMutation :: endpoint where
  "changeStatusApiTournamentsTournamentIdChangeStatusPostMutation =
     changeStatusApiTournamentsTournamentIdChangeStatusPost"

definition uploadLogoApiTournamentsTournamentIdLogoPostMutation :: endpoint where
  "uploadLogoApiTournamentsTournamentIdLogoPostMutation =
     uploadLogoApiTournamentsTournamentIdLogoPost"

definition createMatchApiTournamentsTournamentIdMatchesPostMutation :: endpoint where
  "createMatchApiTournamentsTournamentIdMatchesPostMutation =
     createMatchApiTournamentsTournamentIdMatchesPost"

definition deleteMatchApiTournamentsTournamentIdMatchesMatchIdDeleteMutation :: endpoint where
  "deleteMatchApiTournamentsTournamentIdMatchesMatchIdDeleteMutation =
     deleteMatchApiTournamentsTournamentIdMatchesMatchIdDelete"

definition updateMatchByIdApiTournamentsTournamentIdMatchesMatchIdPutMutation :: endpoint where
  "updateMatchByIdApiTournamentsTournamentIdMatchesMatchIdPutMutation =
     updateMatchByIdApiTournamentsTournamentIdMatchesMatchIdPut"

definition createSinglePlayerApiTournamentsTournamentIdPlayersPostMutation :: endpoint where
  "createSinglePlayerApiTournamentsTournamentIdPlayersPostMutation =
     createSinglePlayerApiTournamentsTournamentIdPlayersPost"

definition deletePlayerApiTournamentsTournamentIdPlayersPlayerIdDeleteMutation :: endpoint where
  "deletePlayerApiTournamentsTournamentIdPlayersPlayerIdDeleteMutation =
     deletePlayerApiTournamentsTournamentIdPlayersPlayerIdDelete"

definition updatePlayerByIdApiTournamentsTournamentIdPlayersPlayerIdPutMutation :: endpoint where
  "updatePlayerByIdApiTournamentsTournamentIdPlayersPlayerIdPutMutation =
     updatePlayerByIdApiTournamentsTournamentIdPlayersPlayerIdPut"

definition createMultiplePlayersApiTournamentsTournamentIdPlayersMultiPostMutation :: endpoint where
  "createMultiplePlayersApiTournamentsTournamentIdPlayersMultiPostMutation =
     createMultiplePlayersApiTournamentsTournamentIdPlayersMultiPost"

definition createRankingApiTournamentsTournamentIdRankingsPostMutation :: endpoint where
  "createRankingApiTournamentsTournamentIdRankingsPostMutation =
     createRankingApiTournamentsTournamentIdRankingsPost"

definition deleteRankingApiTournamentsTournamentIdRankingsRankingIdDeleteMutation :: endpoint where
  "deleteRankingApiTournamentsTournamentIdRankingsRankingIdDeleteMutation =
     deleteRankingApiTournamentsTournamentIdRankingsRankingIdDelete"

definition updateRankingByIdApiTournamentsTournamentIdRankingsRankingIdPutMutation :: endpoint where
  "updateRankingByIdApiTournamentsTournamentIdRankingsRankingIdPutMutation =
     updateRankingByIdApiTournamentsTournamentIdRankingsRankingIdPut"

definition createRoundApiTournamentsTournamentIdRoundsPostMutation :: endpoint where
  "createRoundApiTournamentsTournamentIdRoundsPostMutation =
     createRoundApiTournamentsTournamentIdRoundsPost"

definition deleteRoundApiTournamentsTournamentIdRoundsRoundIdDeleteMutation :: endpoint where
  "deleteRoundApiTournamentsTournamentIdRoundsRoundIdDeleteMutation =
     deleteRoundApiTournamentsTournamentIdRoundsRoundIdDelete"

definition updateRoundByIdApiTournamentsTournamentIdRoundsRoundIdPutMutation :: endpoint where
  "updateRoundByIdApiTournamentsTournamentIdRoundsRoundIdPutMutation =
     updateRoundByIdApiTournamentsTournamentIdRoundsRoundIdPut"

definition scheduleMatchesApiTournamentsTournamentIdScheduleMatchesPostMutation :: endpoint where
  "scheduleMatchesApiTournamentsTournamentIdScheduleMatchesPostMutation =
     scheduleMatchesApiTournamentsTournamentIdScheduleMatchesPost"

definition createStageItemApiTournamentsTournamentIdStageItemsPostMutation :: endpoint where
  "createStageItemApiTournamentsTournamentIdStageItemsPostMutation =
     createStageItemApiTournamentsTournamentIdStageItemsPost"

definition deleteStageItemApiTournamentsTournamentIdStageItemsStageItemIdDeleteMutation :: endpoint where
  "deleteStageItemApiTournamentsTournamentIdStageItemsStageItemIdDeleteMutation =
     deleteStageItemApiTournamentsTournamentIdStageItemsStageItemIdDelete"

definition updateStageItemApiTournamentsTournamentIdStageItemsStageItemIdPutMutation :: endpoint where
  "updateStageItemApiTournamentsTournamentIdStageItemsStageItemIdPutMutation =
     updateStageItemApiTournamentsTournamentIdStageItemsStageItemIdPut"

definition updateStageItemInputApiTournamentsTournamentIdStageItemsStageItemIdInputsStageItemInputIdPutMutation :: endpoint where
  "updateStageItemInputApiTournamentsTournamentIdStageItemsStageItemIdInputsStageItemInputIdPutMutation =
     updateStageItemInputApiTournamentsTournamentIdStageItemsStageItemIdInputsStageItemInputIdPut"

definition createStageApiTournamentsTournamentIdStagesPostMutation :: endpoint where
  "createStageApiTournamentsTournamentIdStagesPostMutation =
     createStageApiTournamentsTournamentIdStagesPost"

definition activateNextStageApiTournamentsTournamentIdStagesActivatePostMutation :: endpoint where
  "activateNextStageApiTournamentsTournamentIdStagesActivatePostMutation =
     activateNextStageApiTournamentsTournamentIdStagesActivatePost"

definition deleteStageApiTournamentsTournamentIdStagesStageIdDeleteMutation :: endpoint where
  "deleteStageApiTournamentsTournamentIdStagesStageIdDeleteMutation =
     deleteStageApiTournamentsTournamentIdStagesStageIdDelete"

definition updateStageApiTournamentsTournamentIdStagesStageIdPutMutation :: endpoint where
  "updateStageApiTournamentsTournamentIdStagesStageIdPutMutation =
     updateStageApiTournamentsTournamentIdStagesStageIdPut"

definition createTeamApiTournamentsTournamentIdTeamsPostMutation :: endpoint where
  "createTeamApiTournamentsTournamentIdTeamsPostMutation =
     createTeamApiTournamentsTournamentIdTeamsPost"

definition deleteTeamApiTournamentsTournamentIdTeamsTeamIdDeleteMutation :: endpoint where
  "deleteTeamApiTournamentsTournamentIdTeamsTeamIdDeleteMutation =
     deleteTeamApiTournamentsTournamentIdTeamsTeamIdDelete"

definition updateTeamByIdApiTournamentsTournamentIdTeamsTeamIdPutMutation :: endpoint where
  "updateTeamByIdApiTournamentsTournamentIdTeamsTeamIdPutMutation =
     updateTeamByIdApiTournamentsTournamentIdTeamsTeamIdPut"

definition updateTeamLogoApiTournamentsTournamentIdTeamsTeamIdLogoPostMutation :: endpoint where
  "updateTeamLogoApiTournamentsTournamentIdTeamsTeamIdLogoPostMutation =
     updateTeamLogoApiTournamentsTournamentIdTeamsTeamIdLogoPost"

definition createMultipleTeamsApiTournamentsTournamentIdTeamsMultiPostMutation :: endpoint where
  "createMultipleTeamsApiTournamentsTournamentIdTeamsMultiPostMutation =
     createMultipleTeamsApiTournamentsTournamentIdTeamsMultiPost"

definition registerUserApiUsersRegisterPostMutation :: endpoint where
  "registerUserApiUsersRegisterPostMutation =
     registerUserApiUsersRegisterPost"

definition updateUserDetailsApiUsersUserIdPutMutation :: endpoint where
  "updateUserDetailsApiUsersUserIdPutMutation =
     updateUserDetailsApiUsersUserIdPut"

definition putUserPasswordApiUsersUserIdPasswordPutMutation :: endpoint where
  "putUserPasswordApiUsersUserIdPasswordPutMutation =
     putUserPasswordApiUsersUserIdPasswordPut"

definition MUTATIONS :: "endpoint list" where
  "MUTATIONS =
    [createNewClubApiClubsPostMutation,
     deleteClubApiClubsClubIdDeleteMutation,
     updateClubApiClubsClubIdPutMutation,
     logoutApiLogoutPostMutation,
     loginForAccessTokenApiTokenPostMutation,
     createTournamentApiTournamentsPostMutation,
     deleteTournamentApiTournamentsTournamentIdDeleteMutation,
     updateTournamentByIdApiTournamentsTournamentIdPutMutation,
     changeStatusApiTournamentsTournamentIdChangeStatusPostMutation,
     uploadLogoApiTournamentsTournamentIdLogoPostMutation,
     createMatchApiTournamentsTournamentIdMatchesPostMutation,
     deleteMatchApiTournamentsTournamentIdMatchesMatchIdDeleteMutation,
     updateMatchByIdApiTournamentsTournamentIdMatchesMatchIdPutMutation,
     createSinglePlayerApiTournamentsTournamentIdPlayersPostMutation,
     deletePlayerApiTournamentsTournamentIdPlayersPlayerIdDeleteMutation,
     updatePlayerByIdApiTournamentsTournamentIdPlayersPlayerIdPutMutation,
     createMultiplePlayersApiTournamentsTournamentIdPlayersMultiPostMutation,
     createRankingApiTournamentsTournamentIdRankingsPostMutation,
     deleteRankingApiTournamentsTournamentIdRankingsRankingIdDeleteMutation,
     updateRankingByIdApiTournamentsTournamentIdRankingsRankingIdPutMutation,
     createRoundApiTournamentsTournamentIdRoundsPostMutation,
     deleteRoundApiTournamentsTournamentIdRoundsRoundIdDeleteMutation,
     updateRoundByIdApiTournamentsTournamentIdRoundsRoundIdPutMutation,
     scheduleMatchesApiTournamentsTournamentIdScheduleMatchesPostMutation,
     createStageItemApiTournamentsTournamentIdStageItemsPostMutation,
     deleteStageItemApiTournamentsTournamentIdStageItemsStageItemIdDeleteMutation,
     updateStageItemApiTournamentsTournamentIdStageItemsStageItemIdPutMutation,
     updateStageItemInputApiTournamentsTournamentIdStageItemsStageItemIdInputsStageItemInputIdPutMutation,
     createStageApiTournamentsTournamentIdStagesPostMutation,
     activateNextStageApiTournamentsTournamentIdStagesActivatePostMutation,
     deleteStageApiTournamentsTournamentIdStagesStageIdDeleteMutation,
     updateStageApiTournamentsTournamentIdStagesStageIdPutMutation,
     createTeamApiTournamentsTournamentIdTeamsPostMutation,
     deleteTeamApiTournamentsTournamentIdTeamsTeamIdDeleteMutation,
     updateTeamByIdApiTournamentsTournamentIdTeamsTeamIdPutMutation,
     updateTeamLogoApiTournamentsTournamentIdTeamsTeamIdLogoPostMutation,
     createMultipleTeamsApiTournamentsTournamentIdTeamsMultiPostMutation,
     registerUserApiUsersRegisterPostMutation,
     updateUserDetailsApiUsersUserIdPutMutation,
     putUserPasswordApiUsersUserIdPasswordPutMutation]"

lemmas query_defs = QUERIES_def
  getAuthFeaturesApiAuthFeaturesGetOptions_def
  getClubsApiClubsGetOptions_def
  pingApiPingGetOptions_def
  getTournamentsApiTournamentsGetOptions_def
  getTournamentApiTournamentsTournamentIdGetOptions_def
  getAvailableInputsApiTournamentsTournamentIdAvailableInputsGetOptions_def
  getTournamentLogoApiTournamentsTournamentIdLogoGetOptions_def
  getNextStageRankingsApiTournamentsTournamentIdNextStageRankingsGetOptions_def
  getPlayersApiTournamentsTournamentIdPlayersGetOptions_def
  getRankingsApiTournamentsTournamentIdRankingsGetOptions_def
  getStagesApiTournamentsTournamentIdStagesGetOptions_def
  getStandingsApiTournamentsTournamentIdStandingsGetOptions_def
  getTeamsApiTournamentsTournamentIdTeamsGetOptions_def
  getTeamLogoApiTournamentsTournamentIdTeamsTeamIdLogoGetOptions_def
  getUserApiUsersMeGetOptions_def
  getMeApiUsersUserIdGetOptions_def
  getPlayersApiTournamentsTournamentIdPlayersGetInfiniteOptions_def
  getTeamsApiTournamentsTournamentIdTeamsGetInfiniteOptions_def

lemmas mutation_defs = MUTATIONS_def
  createNewClubApiClubsPostMutation_def
  deleteClubApiClubsClubIdDeleteMutation_def
  updateClubApiClubsClubIdPutMutation_def
  logoutApiLogoutPostMutation_def
  loginForAccessTokenApiTokenPostMutation_def
  createTournamentApiTournamentsPostMutation_def
  deleteTournamentApiTournamentsTournamentIdDeleteMutation_def
  updateTournamentByIdApiTournamentsTournamentIdPutMutation_def
  changeStatusApiTournamentsTournamentIdChangeStatusPostMutation_def
  uploadLogoApiTournamentsTournamentIdLogoPostMutation_def
  createMatchApiTournamentsTournamentIdMatchesPostMutation_def
  deleteMatchApiTournamentsTournamentIdMatchesMatchIdDeleteMutation_def
  updateMatchByIdApiTournamentsTournamentIdMatchesMatchIdPutMutation_def
  createSinglePlayerApiTournamentsTournamentIdPlayersPostMutation_def
  deletePlayerApiTournamentsTournamentIdPlayersPlayerIdDeleteMutation_def
  updatePlayerByIdApiTournamentsTournamentIdPlayersPlayerIdPutMutation_def
  createMultiplePlayersApiTournamentsTournamentIdPlayersMultiPostMutation_def
  createRankingApiTournamentsTournamentIdRankingsPostMutation_def
  deleteRankingApiTournamentsTournamentIdRankingsRankingIdDeleteMutation_def
  updateRankingByIdApiTournamentsTournamentIdRankingsRankingIdPutMutation_def
  createRoundApiTournamentsTournamentIdRoundsPostMutation_def
  deleteRoundApiTournamentsTournamentIdRoundsRoundIdDeleteMutation_def
  updateRoundByIdApiTournamentsTournamentIdRoundsRoundIdPutMutation_def
  scheduleMatchesApiTournamentsTournamentIdScheduleMatchesPostMutation_def
  createStageItemApiTournamentsTournamentIdStageItemsPostMutation_def
  deleteStageItemApiTournamentsTournamentIdStageItemsStageItemIdDeleteMutation_def
  updateStageItemApiTournamentsTournamentIdStageItemsStageItemIdPutMutation_def
  updateStageItemInputApiTournamentsTournamentIdStageItemsStageItemIdInputsStageItemInputIdPutMutation_def
  createStageApiTournamentsTournamentIdStagesPostMutation_def
  activateNextStageApiTournamentsTournamentIdStagesActivatePostMutation_def
  deleteStageApiTournamentsTournamentIdStagesStageIdDeleteMutation_def
  updateStageApiTournamentsTournamentIdStagesStageIdPutMutation_def
  createTeamApiTournamentsTournamentIdTeamsPostMutation_def
  deleteTeamApiTournamentsTournamentIdTeamsTeamIdDeleteMutation_def
  updateTeamByIdApiTournamentsTournamentIdTeamsTeamIdPutMutation_def
  updateTeamLogoApiTournamentsTournamentIdTeamsTeamIdLogoPostMutation_def
  createMultipleTeamsApiTournamentsTournamentIdTeamsMultiPostMutation_def
  registerUserApiUsersRegisterPostMutation_def
  updateUserDetailsApiUsersUserIdPutMutation_def
  putUserPasswordApiUsersUserIdPasswordPutMutation_def

section \<open>Facts\<close>

lemma queries_read:
  "list_all (\<lambda>q. ep_method (q_endpoint q) = ''GET'') QUERIES" "list_all (\<lambda>q. q_endpoint q \<in> set ENDPOINTS) QUERIES"
  by (simp add: query_defs endpoint_defs) (simp add: query_defs ENDPOINTS_def)

lemma queries_distinct: "distinct (map (\<lambda>q. (q_id q, q_infinite q)) QUERIES)"
  by code_simp

lemma mutations_change:
  "list_all (\<lambda>ep. ep_method ep \<noteq> ''GET'') MUTATIONS" "list_all (\<lambda>ep. ep \<in> set ENDPOINTS) MUTATIONS"
  by (simp add: mutation_defs endpoint_defs) (simp add: mutation_defs ENDPOINTS_def)

text \<open>What a key tells: the query and the parts of its request that are set.\<close>

lemma query_key_get:
  "obj_get (query_key client q options) ''_id'' = JStr (q_id q)"
  "obj_get (query_key client q options) ''_infinite'' = (if q_infinite q then JBool True else JUndefined)"
  "k \<in> {''body'', ''headers'', ''path'', ''query''} \<Longrightarrow> obj_get (query_key client q options) k =
     (if truthy (opt_val options k) then opt_val options k else JUndefined)"
  by (auto simp: query_key_def createQueryKey_def obj_get_def Let_def)

lemma beforeRequest_keeps:
  assumes "beforeRequest te base config options = Inr (opts, url)" "k \<notin> {''headers'', ''query'', ''body''}"
  shows "opt_get opts k = opt_get (obj_spread config options) k"
  using assms
  by (auto simp: beforeRequest_def request_options_def serialize_body_def map_result_def Let_def
      split: sum.splits opt_value.splits option.splits if_splits)

lemma throwing_call:
  assumes "distinct (map fst options)" "opt_get options ''throwOnError'' = OVal (JBool True)"
  shows "endpoint_call te axios client ep options \<noteq> Returned e d"
proof -
  have d: "distinct (map fst (call_options te ep options))"
    by (rule distinct_call_options[OF assms(1)])
  have "''throwOnError'' \<in> fst ` set options"
    using assms(2) opt_get_absent[of "''throwOnError''" options] by fastforce
  then have "opt_get (call_options te ep options) ''throwOnError'' = OVal (JBool True)"
    "''throwOnError'' \<in> fst ` set (call_options te ep options)"
    using assms keys_call_options[of te ep options] by (auto simp: call_options_get)
  then have "opt_get (obj_spread config (call_options te ep options)) ''throwOnError'' = OVal (JBool True)" for config
    by (simp add: opt_get_spread[OF d])
  then show ?thesis
    by (auto simp: endpoint_call_def client_request_def makeMethodFn_def call_options_def[symmetric] request_def
        request_failed_def beforeRequest_keeps split: sum.splits axios_error.splits)
qed

lemma distinct_entries: "distinct (map fst (entries_options es)) = distinct (map fst es)"
  by (simp add: entries_options_def comp_def split_beta)

lemma distinct_fn_options:
  "distinct (map fst (queryFn_options options key signal))"
  "distinct (map fst (mutationFn_options options fnOptions))"
  by (simp_all add: queryFn_options_def mutationFn_options_def distinct_obj_set distinct_obj_spread)

section \<open>Properties\<close>

text \<open>C30: The cache never answers a query with the data of another one: two requests with the same key are of
  the same query, and agree on their body, headers, path and query.\<close>

theorem query_cache_sound:
  assumes "q \<in> set QUERIES" "q' \<in> set QUERIES" "query_key client q options = query_key client q' options'"
    and "k \<in> {''body'', ''headers'', ''path'', ''query''}" "truthy (opt_val options k) \<or> truthy (opt_val options' k)"
  shows "q = q' \<and> opt_val options k = opt_val options' k"
proof
  have "q_id q = q_id q'" "q_infinite q = q_infinite q'"
    using query_key_get(1,2)[of client q options] query_key_get(1,2)[of client q' options'] assms(3)
    by (auto split: if_splits)
  then show "q = q'"
    using queries_distinct assms(1,2) by (auto simp: distinct_map dest: inj_onD)
  show "opt_val options k = opt_val options' k"
    using query_key_get(3)[OF assms(4), of client q options] query_key_get(3)[OF assms(4), of client q' options']
      assms(3,5)
    by (auto split: if_splits)
qed

theorem query_cache_sound_witness:
  "query_key plainClient getTeamsApiTournamentsTournamentIdTeamsGetOptions
     [(''path'', OVal (JObj [(''tournament_id'', JNum (Fin 7))]))] \<noteq>
   query_key plainClient getTeamsApiTournamentsTournamentIdTeamsGetOptions
     [(''path'', OVal (JObj [(''tournament_id'', JNum (Fin 8))]))]"
proof
  let ?o = "\<lambda>n. [(''path'', OVal (JObj [(''tournament_id'', JNum (Fin n))]))]"
  assume *: "query_key plainClient getTeamsApiTournamentsTournamentIdTeamsGetOptions (?o 7) =
    query_key plainClient getTeamsApiTournamentsTournamentIdTeamsGetOptions (?o 8)"
  have "getTeamsApiTournamentsTournamentIdTeamsGetOptions \<in> set QUERIES" by (simp add: QUERIES_def)
  from query_cache_sound[OF this this *, of "''path''"]
  show False by (simp add: opt_val_def opt_get_def opt_value_of_def)
qed

text \<open>C31: No failure is cached as data: a query or mutation gives the data of the API, or throws the error of
  the request, never an answer without data.\<close>

theorem failure_never_cached:
  "(let r = endpoint_call te axios client (q_endpoint q) (queryFn_options options key signal)
    in (\<exists>d. r = Data d \<and> queryFn te axios client q options key signal = Inr d) \<or>
       (\<exists>e. r = ThrownError e \<and> queryFn te axios client q options key signal = Inl e)) \<and>
   (let r = endpoint_call te axios client ep (mutationFn_options options fnOptions)
    in (\<exists>d. r = Data d \<and> mutationFn te axios client ep options fnOptions = Inr d) \<or>
       (\<exists>e. r = ThrownError e \<and> mutationFn te axios client ep options fnOptions = Inl e))"
proof -
  have "opt_get (queryFn_options options key signal) ''throwOnError'' = OVal (JBool True)"
    "opt_get (mutationFn_options options fnOptions) ''throwOnError'' = OVal (JBool True)"
    by (simp_all add: queryFn_options_def mutationFn_options_def)
  note n = throwing_call[OF distinct_fn_options(1) this(1)] throwing_call[OF distinct_fn_options(2) this(2)]
  show ?thesis
    unfolding Let_def queryFn_def mutationFn_def fn_result_def
    using n(1)[of te axios client "q_endpoint q"] n(2)[of te axios client ep]
    by (auto split: outcome.split)
qed

end
