(* ===== verification/Forms.thy ===== *)
theory Forms
  imports Schemas AppUtils JsDateText Queries
begin

text \<open>
  What the forms of the pages have in common: controls and the values they give, the state of a form, its
  submission through the schema, and the request it makes. React Hook Form and \<open>zodResolver\<close> are followed
  as documented: a control registered with \<open>valueAsNumber\<close> gives NaN for an empty text, a group of checkboxes
  the values of the ticked ones, a form that gets new \<open>values\<close> with \<open>keepDirtyValues\<close> keeps what was typed.
  A submission the browser itself refuses (\<open>required\<close>, \<open>min\<close>, \<open>max\<close>) never gets here.
\<close>

section \<open>Controls\<close>

datatype FormInput =
    TextInput
  | NumberInput \<comment> \<open>\<open>valueAsNumber\<close>\<close>
  | MinutesInput \<comment> \<open>\<open>setValueAs\<close> of the stage form: an empty control is null\<close>
  | SelectInput "string list"
  | NumberSelect "string list"
  | CheckInput
  | ChecksInput "string list"

datatype UserInput = Typed string | Ticked bool | TickedValues "string list"

fun read_input :: "FormInput \<Rightarrow> UserInput \<Rightarrow> js_value option" where
  "read_input TextInput (Typed s) = Some (JStr s)"
| "read_input NumberInput (Typed s) = Some (JNum (if s = [] then NaN else to_number s))"
| "read_input MinutesInput (Typed s) = Some (if s = [] then JNull else JNum (to_number s))"
| "read_input (SelectInput opts) (Typed s) = (if s \<in> set opts then Some (JStr s) else None)"
| "read_input (NumberSelect opts) (Typed s) =
     (if s \<in> set opts then Some (JNum (if s = [] then NaN else to_number s)) else None)"
| "read_input CheckInput (Ticked b) = Some (JBool b)"
| "read_input (ChecksInput opts) (TickedValues vs) = Some (JArr (map JStr (filter (\<lambda>v. v \<in> set vs) opts)))"
| "read_input _ _ = None"

text \<open>A control with its label (\<open>Field\<close>, \<open>CheckboxField\<close>) and whether it shows the message of a rejection.\<close>

record FormField =
  fd_name :: string
  fd_label :: string
  fd_input :: FormInput
  fd_error :: bool

definition shown :: "string \<Rightarrow> string \<Rightarrow> FormInput \<Rightarrow> FormField" where
  "shown name label i = \<lparr>fd_name = name, fd_label = label, fd_input = i, fd_error = True\<rparr>"

definition unshown :: "string \<Rightarrow> string \<Rightarrow> FormInput \<Rightarrow> FormField" where
  "unshown name label i = \<lparr>fd_name = name, fd_label = label, fd_input = i, fd_error = False\<rparr>"

section \<open>Forms\<close>

text \<open>\<open>fo_follows\<close>: the form is given \<open>values\<close> (an editor), not \<open>defaultValues\<close>. \<open>fo_resets\<close>: it is emptied once
  its request has succeeded.\<close>

record Form =
  fo_values :: "(string \<times> js_value) list"
  fo_fields :: "FormField list"
  fo_schema :: schema
  fo_endpoint :: endpoint
  fo_body :: "js_value \<Rightarrow> js_value"
  fo_path :: "(string \<times> js_value) list"
  fo_follows :: bool
  fo_resets :: bool
  fo_submit :: string
  fo_message :: string

definition field_of :: "Form \<Rightarrow> string \<Rightarrow> FormField option" where
  "field_of form name = List.find (\<lambda>f. fd_name f = name) (fo_fields form)"

definition shows_error :: "Form \<Rightarrow> string \<Rightarrow> bool" where
  "shows_error form name = (case field_of form name of None \<Rightarrow> False | Some f \<Rightarrow> fd_error f)"

type_synonym request = "endpoint \<times> options"

text \<open>The variables of a mutation.\<close>

definition mutation_vars :: "js_value option \<Rightarrow> (string \<times> js_value) list \<Rightarrow> options" where
  "mutation_vars body path =
     (case body of None \<Rightarrow> [] | Some b \<Rightarrow> [(''body'', OVal b)]) @
     (if path = [] then [] else [(''path'', OVal (JObj path))])"

datatype SubmitResult = Sent request | Rejected "string list" | Crashed

definition handleSubmit :: "(schema \<Rightarrow> js_value \<Rightarrow> parsed) \<Rightarrow> Form \<Rightarrow> (string \<times> js_value) list \<Rightarrow> SubmitResult" where
  "handleSubmit safeParse form values =
     (case safeParse (fo_schema form) (JObj values) of
        Parsed body \<Rightarrow> Sent (fo_endpoint form, mutation_vars (Some (fo_body form body)) (fo_path form))
      | Issues ps \<Rightarrow> Rejected (rejected_fields ps)
      | Threw \<Rightarrow> Crashed)"

text \<open>Entries of bodies and paths.\<close>

abbreviation js_int :: "int \<Rightarrow> js_value" where "js_int i \<equiv> JNum (num_of_int i)"

definition js_null_or :: "('a \<Rightarrow> js_value) \<Rightarrow> 'a option \<Rightarrow> js_value" where
  "js_null_or f x = (case x of None \<Rightarrow> JNull | Some y \<Rightarrow> f y)"

definition tournament_path :: "int \<Rightarrow> (string \<times> js_value) list" where
  "tournament_path tid = [(''tournament_id'', js_int tid)]"

text \<open>A deletion that the user has to confirm.\<close>

definition confirmed :: "(string \<Rightarrow> bool) \<Rightarrow> string \<Rightarrow> endpoint \<Rightarrow> (string \<times> js_value) list \<Rightarrow> request option" where
  "confirmed confirm question ep path =
     (if confirm question then Some (ep, mutation_vars None path) else None)"

text \<open>A file that was picked (\<open>event.target.files?.[0]\<close>), by its content.\<close>

definition upload :: "endpoint \<Rightarrow> (string \<times> js_value) list \<Rightarrow> string list \<Rightarrow> request option" where
  "upload ep path files =
     (case files of [] \<Rightarrow> None
      | file # _ \<Rightarrow> Some (ep, mutation_vars (Some (JObj [(''file'', JBlob file)])) path))"

text \<open>\<open>zLocalDateTime\<close> (\<open>frontend/src/app/forms.ts\<close>)\<close>

definition zLocalDateTime :: "js_env \<Rightarrow> schema" where
  "zLocalDateTime env =
     ZTransform (ZString (Some 1) None None)
       (\<lambda>v. case v of JStr value \<Rightarrow> map_option JStr (toISOString (date_ms env value)) | _ \<Rightarrow> None)"

section \<open>The state of a form\<close>

record FormState =
  fs_defaults :: "(string \<times> js_value) list"
  fs_values :: "(string \<times> js_value) list"
  fs_dirty :: "string list"

definition startForm :: "Form \<Rightarrow> FormState" where
  "startForm form = \<lparr>fs_defaults = fo_values form, fs_values = fo_values form, fs_dirty = []\<rparr>"

definition changeField :: "Form \<Rightarrow> string \<Rightarrow> UserInput \<Rightarrow> FormState \<Rightarrow> FormState" where
  "changeField form name i st =
     (case field_of form name of
        None \<Rightarrow> st
      | Some f \<Rightarrow>
         (case read_input (fd_input f) i of
            None \<Rightarrow> st
          | Some v \<Rightarrow> st\<lparr>fs_values := obj_set name v (fs_values st),
              fs_dirty := (if v = obj_get (fs_defaults st) name then removeAll name (fs_dirty st)
                           else List.insert name (fs_dirty st))\<rparr>))"

text \<open>The entity was saved or reloaded: an editor follows it, without throwing away what is being typed.\<close>

definition followSaved :: "Form \<Rightarrow> FormState \<Rightarrow> FormState" where
  "followSaved form st =
     st\<lparr>fs_defaults := fo_values form,
        fs_values := map (\<lambda>(k, v). (k, if k \<in> set (fs_dirty st) then obj_get (fs_values st) k else v))
          (fo_values form)\<rparr>"

definition resetForm :: "FormState \<Rightarrow> FormState" where
  "resetForm st = st\<lparr>fs_values := fs_defaults st, fs_dirty := []\<rparr>"

section \<open>Facts\<close>

lemma field_of_Some: "field_of form name = Some f \<Longrightarrow> f \<in> set (fo_fields form) \<and> fd_name f = name"
  by (auto simp: field_of_def find_Some_iff in_set_conv_nth)

lemma map_of_map_key: "map_of (map (\<lambda>(k, v). (k, f k v)) r) n = map_option (f n) (map_of r n)"
  by (induction r) auto

lemma obj_get_map: "obj_get (map (\<lambda>(k, v). (k, f k v)) r) n =
    (if n \<in> fst ` set r then f n (obj_get r n) else JUndefined)"
proof (cases "map_of r n")
  case None
  then have "n \<notin> fst ` set r" by (simp add: map_of_eq_None_iff)
  with None show ?thesis by (simp add: obj_get_def map_of_map_key)
next
  case (Some v)
  then have "n \<in> fst ` set r" by (metis map_of_eq_None_iff option.distinct(1))
  with Some show ?thesis by (simp add: obj_get_def map_of_map_key)
qed

lemma obj_get_absent: "n \<notin> fst ` set r \<Longrightarrow> obj_get r n = JUndefined"
  using map_of_eq_None_iff[of r n] by (simp add: obj_get_def)

text \<open>A predicate that holds of the values a form starts with and of everything its controls give holds
  of its values in every state.\<close>

definition values_ok :: "(string \<Rightarrow> js_value \<Rightarrow> bool) \<Rightarrow> FormState \<Rightarrow> bool" where
  "values_ok P st \<longleftrightarrow> (\<forall>k. P k (obj_get (fs_values st) k) \<and> P k (obj_get (fs_defaults st) k))"

definition form_ok :: "(string \<Rightarrow> js_value \<Rightarrow> bool) \<Rightarrow> Form \<Rightarrow> bool" where
  "form_ok P form \<longleftrightarrow> (\<forall>k. P k (obj_get (fo_values form) k)) \<and>
     (\<forall>f \<in> set (fo_fields form). \<forall>i v. read_input (fd_input f) i = Some v \<longrightarrow> P (fd_name f) v)"

lemma values_ok_start: "form_ok P form \<Longrightarrow> values_ok P (startForm form)"
  by (simp add: form_ok_def values_ok_def startForm_def)

lemma values_ok_reset: "values_ok P st \<Longrightarrow> values_ok P (resetForm st)"
  by (simp add: values_ok_def resetForm_def)

lemma values_ok_change: "form_ok P form \<Longrightarrow> values_ok P st \<Longrightarrow> values_ok P (changeField form name i st)"
  by (auto simp: form_ok_def values_ok_def changeField_def obj_get_set dest: field_of_Some split: option.split)

lemma values_ok_follow:
  assumes "form_ok P form" "values_ok P st"
  shows "values_ok P (followSaved form st)"
proof -
  let ?f = "\<lambda>k v. if k \<in> set (fs_dirty st) then obj_get (fs_values st) k else v"
  have "P k (obj_get (map (\<lambda>(k, v). (k, ?f k v)) (fo_values form)) k)" for k
    using assms obj_get_absent[of k "fo_values form"]
    by (cases "k \<in> fst ` set (fo_values form)")
      (auto simp: obj_get_map form_ok_def values_ok_def, metis)
  then show ?thesis using assms(1) by (simp add: values_ok_def followSaved_def form_ok_def)
qed

end
