(* ===== verification/SessionFlow.thy ===== *)
theory SessionFlow
  imports AppTypes AppUtils
begin

text \<open>
  Who is signed in, and what the browser keeps: the stored session (\<open>hooks.ts\<close>), the interceptor that
  drops it when the API answers 401 (\<open>configureApiClient\<close> in \<open>api.ts\<close>), logging in and out
  (\<open>pages/auth-pages.tsx\<close>, \<open>RootLayout\<close> in \<open>app.tsx\<close>), and the cache of query results with the rules
  for refreshing it after a change (\<open>query-client.ts\<close>).
\<close>

section \<open>State\<close>

datatype Toast = ToastError string | ToastSuccess string

text \<open>A cached query result. \<open>cq_signedIn\<close> records whether it was loaded with a session.\<close>

record 'q CachedQuery =
  cq_query :: 'q
  cq_signedIn :: bool
  cq_stale :: bool

text \<open>A query whose answer is awaited, and whether it was sent with a session.\<close>

record 'q InFlight =
  if_query :: 'q
  if_signedIn :: bool

record 'q AppState =
  as_session :: Session
  as_hadSession :: bool
  as_cache :: "'q CachedQuery list"
  as_inFlight :: "'q InFlight list"
  as_toasts :: "Toast list"

text \<open>The meta of a mutation: the queries it refreshes, by key prefix (all without it), and a message.\<close>

record 'k MutationMeta =
  mm_invalidates :: "'k list option"
  mm_successMessage :: "string option"

section \<open>Operations\<close>

definition addToast :: "Toast \<Rightarrow> 'q AppState \<Rightarrow> 'q AppState" where
  "addToast t st = st\<lparr>as_toasts := as_toasts st @ [t]\<rparr>"

definition setSession :: "Session \<Rightarrow> 'q AppState \<Rightarrow> 'q AppState" where
  "setSession s st = st\<lparr>as_session := s\<rparr>"

text \<open>The effect of \<open>RootLayout\<close> that runs after every change of the session. \<open>queryClient.clear\<close> drops the results
  and the queries in flight, whose answers then go nowhere.\<close>

definition sessionEffect :: "'q AppState \<Rightarrow> 'q AppState" where
  "sessionEffect st =
     st\<lparr>as_cache := (if as_hadSession st \<and> as_session st = None then [] else as_cache st),
        as_inFlight := (if as_hadSession st \<and> as_session st = None then [] else as_inFlight st),
        as_hadSession := (as_session st \<noteq> None)\<rparr>"

definition invalidates :: "('k \<Rightarrow> 'q \<Rightarrow> bool) \<Rightarrow> 'k MutationMeta \<Rightarrow> 'q \<Rightarrow> bool" where
  "invalidates matchQuery meta query =
     (case mm_invalidates meta of None \<Rightarrow> True | Some keys \<Rightarrow> list_ex (\<lambda>k. matchQuery k query) keys)"

text \<open>\<open>onSuccess\<close> and \<open>onError\<close> of the mutation cache. A query in flight that is refreshed is sent again, with the
  session of the moment.\<close>

definition mutationSucceeded ::
  "('k \<Rightarrow> 'q \<Rightarrow> bool) \<Rightarrow> 'k MutationMeta \<Rightarrow> 'q AppState \<Rightarrow> 'q AppState" where
  "mutationSucceeded matchQuery meta st =
     (let refreshed = st\<lparr>
            as_cache := map (\<lambda>c. if invalidates matchQuery meta (cq_query c) then c\<lparr>cq_stale := True\<rparr> else c)
              (as_cache st),
            as_inFlight := map (\<lambda>f. if invalidates matchQuery meta (if_query f)
              then f\<lparr>if_signedIn := as_session st \<noteq> None\<rparr> else f) (as_inFlight st)\<rparr>
      in if or_text (mm_successMessage meta) [] \<noteq> []
         then addToast (ToastSuccess (or_text (mm_successMessage meta) [])) refreshed else refreshed)"

definition mutationFailed :: "request_error \<Rightarrow> 'q AppState \<Rightarrow> 'q AppState" where
  "mutationFailed error st = addToast (ToastError (getErrorMessage error)) st"

text \<open>The response interceptor: a refused session is dropped, if there is one.\<close>

definition interceptError :: "request_error \<Rightarrow> 'q AppState \<Rightarrow> 'q AppState" where
  "interceptError error st =
     (if error_status error = Some 401 \<and> as_session st \<noteq> None
      then sessionEffect (addToast (ToastError ''Your session expired. Please log in again.'')
        (setSession None st))
      else st)"

definition loginMeta :: "'k MutationMeta" where
  "loginMeta = \<lparr>mm_invalidates = None, mm_successMessage = Some ''Logged in successfully.''\<rparr>"

definition registerMeta :: "'k MutationMeta" where
  "registerMeta = \<lparr>mm_invalidates = None, mm_successMessage = Some ''Account created successfully.''\<rparr>"

definition logoutMeta :: "'k MutationMeta" where
  "logoutMeta = \<lparr>mm_invalidates = Some [], mm_successMessage = Some ''Logged out successfully.''\<rparr>"

definition loginSucceeded ::
  "('k \<Rightarrow> 'q \<Rightarrow> bool) \<Rightarrow> 'k MutationMeta \<Rightarrow> Token \<Rightarrow> 'q AppState \<Rightarrow> 'q AppState" where
  "loginSucceeded matchQuery meta token st =
     sessionEffect (setSession
       (Some \<lparr>session_name = token_name token, session_user_id = token_user_id token\<rparr>)
       (mutationSucceeded matchQuery meta st))"

text \<open>\<open>onSettled\<close> signs this browser out whether or not the API could be reached.\<close>

definition logoutSettled ::
  "('k \<Rightarrow> 'q \<Rightarrow> bool) \<Rightarrow> request_error option \<Rightarrow> 'q AppState \<Rightarrow> 'q AppState" where
  "logoutSettled matchQuery failure st =
     sessionEffect (setSession None
       (case failure of
          None \<Rightarrow> mutationSucceeded matchQuery (logoutMeta :: 'k MutationMeta) st
        | Some error \<Rightarrow> mutationFailed error (interceptError error st)))"

text \<open>A page asks for a query with the session of the moment, unless it is in flight already. The answer, or its
  failure, ends the flight; only an answer that is still awaited is kept.\<close>

definition queryStarted :: "'q \<Rightarrow> 'q AppState \<Rightarrow> 'q AppState" where
  "queryStarted q st =
     (if q \<in> if_query ` set (as_inFlight st) then st
      else st\<lparr>as_inFlight := as_inFlight st @ [\<lparr>if_query = q, if_signedIn = (as_session st \<noteq> None)\<rparr>]\<rparr>)"

definition queryLanded :: "'q \<Rightarrow> 'q AppState \<Rightarrow> 'q AppState" where
  "queryLanded q st = st\<lparr>as_inFlight := filter (\<lambda>f. if_query f \<noteq> q) (as_inFlight st)\<rparr>"

definition queryLoaded :: "'q \<Rightarrow> 'q AppState \<Rightarrow> 'q AppState" where
  "queryLoaded q st =
     (case find (\<lambda>f. if_query f = q) (as_inFlight st) of
        None \<Rightarrow> st
      | Some f \<Rightarrow> (queryLanded q st)\<lparr>as_cache :=
          \<lparr>cq_query = q, cq_signedIn = if_signedIn f, cq_stale = False\<rparr> #
          filter (\<lambda>c. cq_query c \<noteq> q) (as_cache st)\<rparr>)"

definition queryFailed :: "request_error \<Rightarrow> 'q \<Rightarrow> 'q AppState \<Rightarrow> 'q AppState" where
  "queryFailed error q st = queryLanded q (interceptError error st)"

definition initialState :: "Session \<Rightarrow> 'q AppState" where
  "initialState session =
     \<lparr>as_session = session, as_hadSession = (session \<noteq> None), as_cache = [], as_inFlight = [], as_toasts = []\<rparr>"

section \<open>Runs\<close>

text \<open>Everything that can happen in a tab, in any order.\<close>

inductive app_step :: "('k \<Rightarrow> 'q \<Rightarrow> bool) \<Rightarrow> 'q AppState \<Rightarrow> 'q AppState \<Rightarrow> bool" for matchQuery where
  load: "app_step matchQuery st (queryStarted q st)"
| loaded: "app_step matchQuery st (queryLoaded q st)"
| refused: "app_step matchQuery st (queryFailed error q st)"
| changed: "app_step matchQuery st (mutationSucceeded matchQuery meta st)"
| failed: "app_step matchQuery st (mutationFailed error (interceptError error st))"
| login: "app_step matchQuery st (loginSucceeded matchQuery meta token st)"
| logout: "app_step matchQuery st (logoutSettled matchQuery failure st)"

inductive app_reachable :: "('k \<Rightarrow> 'q \<Rightarrow> bool) \<Rightarrow> 'q AppState \<Rightarrow> bool" for matchQuery where
  start: "app_reachable matchQuery (initialState session)"
| step: "app_reachable matchQuery st \<Longrightarrow> app_step matchQuery st st' \<Longrightarrow> app_reachable matchQuery st'"

inductive_cases app_stepE: "app_step matchQuery st st'"

section \<open>The invariant\<close>

text \<open>The effect has seen the current session, and a signed-out tab keeps and awaits nothing from before.\<close>

definition app_inv :: "'q AppState \<Rightarrow> bool" where
  "app_inv st \<longleftrightarrow> as_hadSession st = (as_session st \<noteq> None) \<and>
     (as_session st = None \<longrightarrow>
       (\<forall>c \<in> set (as_cache st). \<not> cq_signedIn c) \<and> (\<forall>f \<in> set (as_inFlight st). \<not> if_signedIn f))"

lemma app_inv_initial: "app_inv (initialState session)"
  by (simp add: app_inv_def initialState_def)

lemma app_inv_queryStarted: "app_inv st \<Longrightarrow> app_inv (queryStarted q st)"
  by (auto simp: app_inv_def queryStarted_def)

lemma app_inv_queryLanded: "app_inv st \<Longrightarrow> app_inv (queryLanded q st)"
  by (auto simp: app_inv_def queryLanded_def)

lemma app_inv_queryLoaded: "app_inv st \<Longrightarrow> app_inv (queryLoaded q st)"
  by (auto simp: app_inv_def queryLoaded_def queryLanded_def dest: find_SomeD split: option.split)

lemma app_inv_toast [simp]: "app_inv (addToast t st) = app_inv st"
  by (simp add: app_inv_def addToast_def)

lemma app_inv_intercept: "app_inv st \<Longrightarrow> app_inv (interceptError error st)"
  by (auto simp: interceptError_def app_inv_def sessionEffect_def setSession_def addToast_def)

lemma app_inv_queryFailed: "app_inv st \<Longrightarrow> app_inv (queryFailed error q st)"
  by (simp add: queryFailed_def app_inv_queryLanded app_inv_intercept)

lemma app_inv_mutation: "app_inv st \<Longrightarrow> app_inv (mutationSucceeded matchQuery meta st)"
  by (auto simp: mutationSucceeded_def app_inv_def Let_def addToast_def)

lemma app_inv_failed: "app_inv st \<Longrightarrow> app_inv (mutationFailed error st)"
  by (simp add: mutationFailed_def)

lemma app_inv_effect: "app_inv st \<Longrightarrow> app_inv (sessionEffect (setSession s st))"
  by (cases s) (auto simp: app_inv_def sessionEffect_def setSession_def)

lemma app_inv_step: "app_step matchQuery st st' \<Longrightarrow> app_inv st \<Longrightarrow> app_inv st'"
  by (erule app_stepE)
    (auto simp: loginSucceeded_def logoutSettled_def app_inv_queryStarted app_inv_queryLoaded app_inv_queryFailed app_inv_intercept
      app_inv_mutation app_inv_failed intro!: app_inv_effect split: option.split)

lemma app_inv_reachable: "app_reachable matchQuery st \<Longrightarrow> app_inv st"
  by (induction rule: app_reachable.induct) (auto intro: app_inv_initial app_inv_step)

section \<open>Properties\<close>

text \<open>C4: Whatever happens in a tab, in whatever order, a browser that is signed out shows nothing that was
  loaded while someone was signed in, and awaits no such answer either: one that arrives late is not kept.\<close>

theorem signed_out_keeps_nothing:
  assumes "app_reachable matchQuery st" "as_session st = None"
  shows "list_all (\<lambda>c. \<not> cq_signedIn c) (as_cache st) \<and> list_all (\<lambda>f. \<not> if_signedIn f) (as_inFlight st)"
  using app_inv_reachable[OF assms(1)] assms(2) by (simp add: app_inv_def list_all_iff)

definition sampleUser :: Session where
  "sampleUser = Some \<lparr>session_name = ''Ada'', session_user_id = 1\<rparr>"

definition noMatch :: "nat \<Rightarrow> nat \<Rightarrow> bool" where
  "noMatch k q = False"

theorem signed_out_keeps_nothing_witness:
  "list_all (\<lambda>c. \<not> cq_signedIn c)
     (as_cache (queryLoaded (3::nat) (logoutSettled noMatch None (queryStarted 3 (initialState sampleUser)))))"
proof -
  let ?out = "logoutSettled noMatch None (queryStarted (3::nat) (initialState sampleUser))"
  have "app_reachable noMatch (queryLoaded 3 ?out)"
    by (rule app_reachable.step[OF app_reachable.step[OF app_reachable.step[OF app_reachable.start
          app_step.load] app_step.logout] app_step.loaded])
  moreover have "as_session (queryLoaded 3 ?out) = None" by code_simp
  ultimately show ?thesis using signed_out_keeps_nothing by blast
qed

text \<open>The other way round, what a visitor waits for is not lost: nothing is dropped while nobody was signed in, in
  particular not when the page starts.\<close>

lemma visitors_wait_on:
  assumes "app_reachable matchQuery st" "as_session st = None"
  shows "sessionEffect st = st"
  using app_inv_reachable[OF assms(1)] assms(2) by (simp add: app_inv_def sessionEffect_def)

lemma start_drops_nothing: "sessionEffect (initialState session) = initialState session"
  by (simp add: sessionEffect_def initialState_def)

text \<open>C25: A session the API refuses ends at once: after a 401 nobody is signed in, the cache is empty and no answer is awaited,
  the user is told once however many requests are refused, and no other failure touches the session.\<close>

theorem refused_session_ends:
  assumes "app_reachable matchQuery st"
  shows "if error_status error = Some 401 \<and> as_session st \<noteq> None
    then as_session (interceptError error st) = None \<and> as_cache (interceptError error st) = [] \<and>
      as_inFlight (interceptError error st) = [] \<and>
      as_toasts (interceptError error st) =
        as_toasts st @ [ToastError ''Your session expired. Please log in again.''] \<and>
      interceptError error' (interceptError error st) = interceptError error st
    else interceptError error st = st"
  using app_inv_reachable[OF assms]
  by (auto simp: interceptError_def sessionEffect_def setSession_def addToast_def app_inv_def)

theorem refused_session_ends_witness:
  "as_session (interceptError \<lparr>error_status = Some 401, error_detail_of = None, error_message = None\<rparr>
     (initialState sampleUser :: nat AppState)) = None"
  using refused_session_ends[OF app_reachable.start[of noMatch sampleUser],
      of "\<lparr>error_status = Some 401, error_detail_of = None, error_message = None\<rparr>"]
  by (simp add: initialState_def sampleUser_def)

text \<open>Logging out always signs this browser out and drops what was loaded, whether or not the API could
  be reached, and always tells the user how it went; logging in keeps the cached pages but marks every one
  of them for refresh.\<close>

lemma logout_always_signs_out:
  assumes "app_reachable matchQuery st" "as_session st \<noteq> None"
  shows "as_session (logoutSettled matchQuery failure st) = None \<and>
    as_cache (logoutSettled matchQuery failure st) = [] \<and>
    length (as_toasts (logoutSettled matchQuery failure st)) > length (as_toasts st) \<and>
    as_session (loginSucceeded matchQuery loginMeta token st) =
      Some \<lparr>session_name = token_name token, session_user_id = token_user_id token\<rparr> \<and>
    map cq_query (as_cache (loginSucceeded matchQuery loginMeta token st)) = map cq_query (as_cache st) \<and>
    list_all cq_stale (as_cache (loginSucceeded matchQuery loginMeta token st))"
proof -
  have had: "as_hadSession st" using app_inv_reachable[OF assms(1)] assms(2) by (simp add: app_inv_def)
  note defs = logoutSettled_def loginSucceeded_def sessionEffect_def setSession_def mutationSucceeded_def
    mutationFailed_def interceptError_def addToast_def logoutMeta_def loginMeta_def or_text_def invalidates_def
  have "as_session (logoutSettled matchQuery failure st) = None \<and>
    as_cache (logoutSettled matchQuery failure st) = [] \<and>
    length (as_toasts (logoutSettled matchQuery failure st)) > length (as_toasts st)"
    using had assms(2) by (auto simp: defs Let_def split: option.split)
  moreover have "map cq_query (as_cache (loginSucceeded matchQuery loginMeta token st)) = map cq_query (as_cache st) \<and>
    list_all cq_stale (as_cache (loginSucceeded matchQuery loginMeta token st))"
    by (simp add: defs Let_def list_all_iff)
  ultimately show ?thesis by (simp add: loginSucceeded_def sessionEffect_def setSession_def)
qed

lemma logout_always_signs_out_witness:
  "as_cache (logoutSettled noMatch (Some \<lparr>error_status = None, error_detail_of = None, error_message = None\<rparr>)
     (queryLoaded (3::nat) (queryStarted 3 (initialState sampleUser)))) = []"
proof -
  have "app_reachable noMatch (queryLoaded (3::nat) (queryStarted 3 (initialState sampleUser)))"
    by (rule app_reachable.step[OF app_reachable.step[OF app_reachable.start app_step.load] app_step.loaded])
  from logout_always_signs_out[OF this] show ?thesis
    by (simp add: queryLoaded_def queryLanded_def queryStarted_def initialState_def sampleUser_def)
qed

end
