(* ===== verification/AccountForms.thy ===== *)
theory AccountForms
  imports Forms SessionFlow
begin

text \<open>
  Signing in and the account (\<open>frontend/src/app/pages/auth-pages.tsx\<close>, \<open>user-page.tsx\<close>), the events
  (\<open>clubs-page.tsx\<close>) and the new tournament (\<open>new-tournament-form.tsx\<close>).
\<close>

section \<open>Signing in\<close>

definition loginSchema :: schema where
  "loginSchema = z_pick zBodyLoginForAccessTokenApiTokenPost [''password'', ''username'']"

text \<open>\<open>{ ...credentials, client_id: null, client_secret: null, grant_type: 'password', scope: '' }\<close>\<close>

definition loginBody :: "js_value \<Rightarrow> js_value" where
  "loginBody credentials =
     JObj (obj_spread (obj_spread [] (own_entries credentials))
       [(''client_id'', JNull), (''client_secret'', JNull), (''grant_type'', JStr ''password''), (''scope'', JStr [])])"

definition LoginPage :: Form where
  "LoginPage =
     \<lparr>fo_values = [(''password'', JStr []), (''username'', JStr [])],
      fo_fields = [unshown ''username'' ''Email'' TextInput, unshown ''password'' ''Password'' TextInput],
      fo_schema = loginSchema,
      fo_endpoint = loginForAccessTokenApiTokenPostMutation,
      fo_body = loginBody, fo_path = [],
      fo_follows = False, fo_resets = False,
      fo_submit = ''Log in'', fo_message = ''Logged in successfully.''\<rparr>"

text \<open>The links below the form, by whether accounts can be created (unknown while loading).\<close>

definition loginLinks :: "AuthFeatureFlags option \<Rightarrow> (string \<times> string) list" where
  "loginLinks features =
     (case features of
        Some f \<Rightarrow> if features_user_registration_enabled f then [(''/create-account'', ''Create account'')] else []
      | None \<Rightarrow> []) @ [(''/password-reset'', ''Password reset'')]"

definition z_field :: "schema \<Rightarrow> string \<Rightarrow> schema" where
  "z_field s k = (case map_of (object_shape s) k of Some f \<Rightarrow> f | None \<Rightarrow> ZVoid)"

definition registerSchema :: schema where
  "registerSchema = z_extend zUserToRegister [(''password'', z_field zUserPasswordToUpdate ''password'')]"

definition registerForm :: Form where
  "registerForm =
     \<lparr>fo_values = [(''email'', JStr []), (''name'', JStr []), (''password'', JStr [])],
      fo_fields = [shown ''name'' ''Display name'' TextInput, shown ''email'' ''Email'' TextInput,
        shown ''password'' ''Password'' TextInput],
      fo_schema = registerSchema,
      fo_endpoint = registerUserApiUsersRegisterPostMutation,
      fo_body = id, fo_path = [],
      fo_follows = False, fo_resets = False,
      fo_submit = ''Create account'', fo_message = ''Account created successfully.''\<rparr>"

text \<open>\<open>None\<close>: creating accounts is disabled.\<close>

definition RegisterPage :: "AuthFeatureFlags option \<Rightarrow> Form option" where
  "RegisterPage features =
     (case features of
        Some f \<Rightarrow> if features_user_registration_enabled f then Some registerForm else None
      | None \<Rightarrow> Some registerForm)"

section \<open>The account\<close>

definition user_path :: "int \<Rightarrow> (string \<times> js_value) list" where
  "user_path userId = [(''user_id'', js_int userId)]"

definition IdentityForm :: "UserPublic \<Rightarrow> Form" where
  "IdentityForm user =
     \<lparr>fo_values = [(''email'', JStr (user_email user)), (''name'', JStr (user_name user))],
      fo_fields = [shown ''name'' ''Display name'' TextInput, shown ''email'' ''Email'' TextInput],
      fo_schema = zUserToUpdate,
      fo_endpoint = updateUserDetailsApiUsersUserIdPutMutation,
      fo_body = id, fo_path = user_path (user_id user),
      fo_follows = True, fo_resets = False,
      fo_submit = ''Save profile'', fo_message = ''Account saved.''\<rparr>"

definition PasswordForm :: "int \<Rightarrow> Form" where
  "PasswordForm userId =
     \<lparr>fo_values = [(''current_password'', JStr []), (''password'', JStr [])],
      fo_fields = [shown ''current_password'' ''Current password'' TextInput,
        shown ''password'' ''New password'' TextInput],
      fo_schema = zUserPasswordToUpdate,
      fo_endpoint = putUserPasswordApiUsersUserIdPasswordPutMutation,
      fo_body = id, fo_path = user_path userId,
      fo_follows = False, fo_resets = True,
      fo_submit = ''Update password'', fo_message = ''Password updated.''\<rparr>"

text \<open>A query of a page: what TanStack Query tells of it.\<close>

record 'a QueryState =
  qs_pending :: bool
  qs_error :: "request_error option"
  qs_data :: "'a option"

datatype UserPageView =
    UserSignedOut
  | UserAccount bool "string option" "(Form \<times> Form) option"
      \<comment> \<open>loading, the error, the two forms\<close>

definition UserPage :: "Session \<Rightarrow> UserPublicResponse QueryState \<Rightarrow> UserPageView" where
  "UserPage session profile =
     (case session of
        None \<Rightarrow> UserSignedOut
      | Some _ \<Rightarrow> UserAccount (qs_pending profile) (map_option getErrorMessage (qs_error profile))
          (map_option (\<lambda>r. let user = user_public_response_data r in (IdentityForm user, PasswordForm (user_id user)))
            (qs_data profile)))"

section \<open>Events\<close>

definition NewClubForm :: Form where
  "NewClubForm =
     \<lparr>fo_values = [(''name'', JStr [])],
      fo_fields = [shown ''name'' ''Event name'' TextInput],
      fo_schema = zClubCreateBody,
      fo_endpoint = createNewClubApiClubsPostMutation,
      fo_body = id, fo_path = [],
      fo_follows = False, fo_resets = True,
      fo_submit = ''Create event'', fo_message = ''Event created.''\<rparr>"

definition club_path :: "Club \<Rightarrow> (string \<times> js_value) list" where
  "club_path club = [(''club_id'', js_int (club_id club))]"

definition ClubEditor :: "Club \<Rightarrow> Form" where
  "ClubEditor club =
     \<lparr>fo_values = [(''name'', JStr (club_name club))],
      fo_fields = [shown ''name'' ''Event name'' TextInput],
      fo_schema = zClubUpdateBody,
      fo_endpoint = updateClubApiClubsClubIdPutMutation,
      fo_body = id, fo_path = club_path club,
      fo_follows = True, fo_resets = False,
      fo_submit = ''Save'', fo_message = ''Event saved.''\<rparr>"

definition deleteClubClick :: "(string \<Rightarrow> bool) \<Rightarrow> Club \<Rightarrow> request option" where
  "deleteClubClick confirm club =
     confirmed confirm (''Delete '' @ club_name club @ ''?'') deleteClubApiClubsClubIdDeleteMutation (club_path club)"

record ClubsView =
  cv_new :: Form
  cv_count :: string
  cv_loading :: bool
  cv_error :: "string option"
  cv_editors :: "(string \<times> string \<times> Form) list"

text \<open>\<open>None\<close>: a visitor is sent to the login page.\<close>

definition ClubsPage :: "'d date_fns \<Rightarrow> Session \<Rightarrow> ClubsResponse QueryState \<Rightarrow> ClubsView option" where
  "ClubsPage df session clubs =
     (case session of
        None \<Rightarrow> None
      | Some _ \<Rightarrow>
         (let data = (case qs_data clubs of None \<Rightarrow> [] | Some r \<Rightarrow> clubs_response_data r)
          in Some \<lparr>cv_new = NewClubForm,
               cv_count = nat_text (length data) @ '' events'',
               cv_loading = qs_pending clubs,
               cv_error = map_option getErrorMessage (qs_error clubs),
               cv_editors = map (\<lambda>club.
                 (club_name club, ''Created '' @ formatDateTime df (Some (club_created club)), ClubEditor club)) data\<rparr>))"

section \<open>A new tournament\<close>

definition newTournamentSchema :: "js_env \<Rightarrow> schema" where
  "newTournamentSchema env = z_extend zTournamentBody [(''start_time'', zLocalDateTime env)]"

definition NewTournamentForm :: "js_env \<Rightarrow> Club list \<Rightarrow> Form" where
  "NewTournamentForm env clubs =
     \<lparr>fo_values =
        [(''club_id'', case clubs of [] \<Rightarrow> JUndefined | c # _ \<Rightarrow> js_int (club_id c)),
         (''dashboard_endpoint'', JStr []), (''dashboard_public'', JBool True),
         (''duration_minutes'', js_int 30), (''margin_minutes'', js_int 5), (''name'', JStr []),
         (''players_can_be_in_multiple_teams'', JBool False), (''start_time'', JStr [])],
      fo_fields =
        [shown ''name'' ''Tournament name'' TextInput,
         unshown ''club_id'' ''Event'' (NumberSelect (map (\<lambda>club. int_text (club_id club)) clubs)),
         shown ''start_time'' ''Start time'' TextInput,
         unshown ''dashboard_endpoint'' ''Details link'' TextInput,
         shown ''duration_minutes'' ''Match duration (minutes)'' NumberInput,
         shown ''margin_minutes'' ''Break between rounds (minutes)'' NumberInput,
         unshown ''dashboard_public'' ''Enable the Details page'' CheckInput,
         unshown ''players_can_be_in_multiple_teams'' ''Allow players in multiple teams'' CheckInput],
      fo_schema = newTournamentSchema env,
      fo_endpoint = createTournamentApiTournamentsPostMutation,
      fo_body = id, fo_path = [],
      fo_follows = False, fo_resets = True,
      fo_submit = ''Create tournament'', fo_message = ''Tournament created.''\<rparr>"

end
