(* ===== verification/MatchViews.thy ===== *)
theory MatchViews
  imports AppUtils
begin

text \<open>
  A match on the page (\<open>components/match-card.tsx\<close>, \<open>components/team-link.tsx\<close>), the addresses of the
  pages of a team (\<open>tournament-context.ts\<close>) and the schedule (\<open>sections/tournament-schedule.tsx\<close>). A
  component is a function from its props and the tournament context to what it shows; the classes that
  only style it are left out.
\<close>

section \<open>The context of a tournament's pages\<close>

record TournamentContextValue =
  tc_isBigScreen :: bool
  tc_myTeamId :: "int option"
  tc_publicPath :: string

definition teamPath :: "string \<Rightarrow> int \<Rightarrow> string" where
  "teamPath publicPath teamId = publicPath @ ''/teams/'' @ int_text teamId"

text \<open>The text of the link and its target, if it is one.\<close>

record LinkView =
  lv_text :: string
  lv_to :: "string option"

definition TeamLink :: "TournamentContextValue \<Rightarrow> int option \<Rightarrow> string \<Rightarrow> LinkView" where
  "TeamLink context teamId children =
     \<lparr>lv_text = children,
      lv_to = (if tc_isBigScreen context then None
               else map_option (teamPath (tc_publicPath context)) teamId)\<rparr>"

section \<open>The match card\<close>

record SideView =
  sv_team :: LinkView
  sv_isWinner :: bool
  sv_isLoser :: bool
  sv_isMine :: bool
  sv_score :: string

definition Side ::
  "TournamentContextValue \<Rightarrow> (int \<rightharpoonup> StageItemWithRounds) \<Rightarrow> StageItemInput option \<Rightarrow>
   bool \<Rightarrow> bool \<Rightarrow> bool \<Rightarrow> int \<Rightarrow> bool \<Rightarrow> SideView" where
  "Side context stageItemsById input isLoser isMine isWinner score showScore =
     \<lparr>sv_team = TeamLink context (inputTeamId input) (inputLabel input stageItemsById),
      sv_isWinner = isWinner, sv_isLoser = isLoser, sv_isMine = isMine,
      sv_score = (if showScore then int_text score else en_dash)\<rparr>"

record MatchCardView =
  mc_caption :: string
  mc_status :: string
  mc_pulsing :: bool
  mc_highlighted :: bool
  mc_side1 :: SideView
  mc_side2 :: SideView
  mc_time :: "string option"

definition isMineInput :: "int option \<Rightarrow> StageItemInput option \<Rightarrow> bool" where
  "isMineInput myTeamId input = (myTeamId \<noteq> None \<and> inputTeamId input = myTeamId)"

definition MatchCard ::
  "js_env \<Rightarrow> 'd date_fns \<Rightarrow> TournamentContextValue \<Rightarrow> (int \<rightharpoonup> StageItemWithRounds) \<Rightarrow> bool \<Rightarrow>
   FlattenedMatch \<Rightarrow> MatchCardView" where
  "MatchCard env df context stageItemsById showTime entry =
     (let m = fm_match entry;
          status = matchStatus env m;
          winner = matchWinner m;
          showScore = (status = Finished \<or> status = Live);
          isMine1 = isMineInput (tc_myTeamId context) (match_stage_item_input1 m);
          isMine2 = isMineInput (tc_myTeamId context) (match_stage_item_input2 m)
      in \<lparr>mc_caption = stage_item_label (fm_stageItem entry) @ '' '' @ middle_dot @ '' '' @
            round_name (fm_round entry),
          mc_status = MATCH_STATUS_LABELS status,
          mc_pulsing = (status = Live),
          mc_highlighted = (isMine1 \<or> isMine2),
          mc_side1 = Side context stageItemsById (match_stage_item_input1 m) (winner = Some Side2)
            isMine1 (winner = Some Side1) (match_stage_item_input1_score m) showScore,
          mc_side2 = Side context stageItemsById (match_stage_item_input2 m) (winner = Some Side1)
            isMine2 (winner = Some Side2) (match_stage_item_input2_score m) showScore,
          mc_time = (if showTime then Some (formatMatchTime df (match_start_time m)) else None)\<rparr>)"

section \<open>The schedule\<close>

text \<open>The key of a group is the start time as text, empty for a match without one.\<close>

definition slotKey :: "FlattenedMatch \<Rightarrow> string" where
  "slotKey entry = nullish (match_start_time (fm_match entry)) []"

definition timeSlots :: "nat option \<Rightarrow> FlattenedMatch list \<Rightarrow> (string \<times> FlattenedMatch list) list" where
  "timeSlots maxSlots entries =
     (let slots = group_by slotKey entries
      in case maxSlots of None \<Rightarrow> slots | Some n \<Rightarrow> take n slots)"

definition slotHeading :: "'d date_fns \<Rightarrow> string \<Rightarrow> string" where
  "slotHeading df startTime = formatMatchTime df (if startTime = [] then None else Some startTime)"

record TimeSlotView =
  ts_heading :: string
  ts_cards :: "MatchCardView list"

definition TimeSlots ::
  "js_env \<Rightarrow> 'd date_fns \<Rightarrow> TournamentContextValue \<Rightarrow> (int \<rightharpoonup> StageItemWithRounds) \<Rightarrow> nat option \<Rightarrow>
   FlattenedMatch list \<Rightarrow> TimeSlotView list" where
  "TimeSlots env df context stageItemsById maxSlots entries =
     map (\<lambda>(startTime, slotEntries).
        \<lparr>ts_heading = slotHeading df startTime,
         ts_cards = map (MatchCard env df context stageItemsById False) slotEntries\<rparr>)
       (timeSlots maxSlots entries)"

definition upcomingMatches :: "js_env \<Rightarrow> FlattenedMatch list \<Rightarrow> FlattenedMatch list" where
  "upcomingMatches env entries = filter (\<lambda>e. matchStatus env (fm_match e) \<noteq> Finished) entries"

definition finishedMatches :: "js_env \<Rightarrow> FlattenedMatch list \<Rightarrow> FlattenedMatch list" where
  "finishedMatches env entries = rev (filter (\<lambda>e. matchStatus env (fm_match e) = Finished) entries)"

datatype ScheduleBody = NoMatches | AllFinished | UpcomingSlots "TimeSlotView list"

record ScheduleView =
  sch_canRecalculate :: bool
  sch_bigScreen :: string
  sch_body :: ScheduleBody
  sch_finished :: "(string \<times> bool \<times> TimeSlotView list) option"

definition ScheduleSection ::
  "js_env \<Rightarrow> 'd date_fns \<Rightarrow> TournamentContextValue \<Rightarrow> (int \<rightharpoonup> StageItemWithRounds) \<Rightarrow> string \<Rightarrow> bool \<Rightarrow>
   FlattenedMatch list \<Rightarrow> ScheduleView" where
  "ScheduleSection env df context stageItemsById bigScreenPath canManage entries =
     (let upcoming = upcomingMatches env entries;
          finished = finishedMatches env entries
      in \<lparr>sch_canRecalculate = canManage, sch_bigScreen = bigScreenPath,
          sch_body = (if entries = [] then NoMatches else if upcoming = [] then AllFinished
            else UpcomingSlots (TimeSlots env df context stageItemsById None upcoming)),
          sch_finished = (if finished \<noteq> []
            then Some (''Finished matches ('' @ nat_text (length finished) @ '')'', upcoming = [],
                       TimeSlots env df context stageItemsById None finished)
            else None)\<rparr>)"

definition BigScreenSchedule ::
  "js_env \<Rightarrow> 'd date_fns \<Rightarrow> TournamentContextValue \<Rightarrow> (int \<rightharpoonup> StageItemWithRounds) \<Rightarrow>
   FlattenedMatch list \<Rightarrow> ScheduleBody" where
  "BigScreenSchedule env df context stageItemsById entries =
     (let upcoming = upcomingMatches env entries
      in if upcoming = [] then AllFinished
         else UpcomingSlots (TimeSlots env df context stageItemsById (Some 2) upcoming))"

section \<open>The order of the schedule\<close>

text \<open>What \<open>TournamentView\<close> shows: the published matches in the order of their times.\<close>

definition tournamentMatches :: "js_env \<Rightarrow> StageWithStageItems list \<Rightarrow> FlattenedMatch list" where
  "tournamentMatches env stages =
     js_sort (\<lambda>a b. sort_num (compareMatchesByTime env a b))
       (filter (\<lambda>e. \<not> round_is_draft (fm_round e)) (flattenMatches stages))"

text \<open>The matches whose time can be read: on these the comparator is a total preorder.\<close>

definition timed :: "js_env \<Rightarrow> FlattenedMatch set" where
  "timed env = {e. match_time env e \<noteq> None}"

interpretation time_order: js_key_comparator
  "\<lambda>a b. sort_num (compareMatchesByTime env a b)" "timed env" "\<lambda>e. match_id (fm_match e)"
  by (rule lex3_comparatorI[where f = "\<lambda>e. the (match_time env e)" and g = "\<lambda>e. round_id (fm_round e)"])
    (auto simp: compareMatchesByTime_def timed_def)

lemma time_order_le:
  "a \<in> timed env \<Longrightarrow> b \<in> timed env \<Longrightarrow> sort_num (compareMatchesByTime env a b) \<le> 0 \<Longrightarrow>
    the (match_time env a) \<le> the (match_time env b)"
  by (auto simp: compareMatchesByTime_def timed_def split: if_splits)

lemma set_tournamentMatches:
  "e \<in> set (tournamentMatches env stages) \<longleftrightarrow>
    e \<in> set (flattenMatches stages) \<and> \<not> round_is_draft (fm_round e)"
  by (auto simp: tournamentMatches_def)

lemma mset_upcoming_finished:
  "mset (upcomingMatches env entries) + mset (finishedMatches env entries) = mset entries"
  using multiset_partition[of "mset entries" "\<lambda>e. matchStatus env (fm_match e) \<noteq> Finished"]
  by (simp add: upcomingMatches_def finishedMatches_def)

text \<open>The time of a match is the time of its slot.\<close>

definition slot_time :: "js_env \<Rightarrow> string \<Rightarrow> int option" where
  "slot_time env key = (if key = [] then Some max_safe_integer else date_ms env key)"

lemma timed_slotKey: "match_time env e = slot_time env (slotKey e)"
  by (auto simp: match_time_def slot_time_def slotKey_def nullish_def split: option.splits)

section \<open>Properties\<close>

text \<open>C7: The schedule does not depend on the order in which the backend lists stages, rounds and
  matches: the same matches, with readable times and distinct ids, are always shown in one order.\<close>

theorem schedule_order_independent:
  assumes "mset (flattenMatches stages) = mset (flattenMatches stages')"
    and "\<forall>e \<in> set (flattenMatches stages). match_time env e \<noteq> None"
    and "distinct (map (\<lambda>e. match_id (fm_match e)) (flattenMatches stages))"
  shows "tournamentMatches env stages = tournamentMatches env stages'"
  unfolding tournamentMatches_def
proof (rule time_order.sort_order_independent)
  show "set (filter (\<lambda>e. \<not> round_is_draft (fm_round e)) (flattenMatches stages)) \<subseteq> timed env"
    using assms(2) by (auto simp: timed_def)
qed (use assms in \<open>simp_all add: distinct_map_filter\<close>)

definition sampleStages :: "MatchWithDetails list \<Rightarrow> StageWithStageItems list" where
  "sampleStages ms = [sampleStage 1 [sampleItem 1 ROUND_ROBIN [] [sampleRound 1 False ms]]]"

lemma sample_times:
  "match_time sampleClock \<lparr>fm_stage = s, fm_stageItem = i, fm_round = r, fm_match = matchA\<rparr>
    = Some 1714557600000"
  "match_time sampleClock \<lparr>fm_stage = s, fm_stageItem = i, fm_round = r, fm_match = matchB\<rparr>
    = Some 1714558500000"
  by (simp_all add: match_time_def, code_simp+)

theorem schedule_order_independent_witness:
  "tournamentMatches sampleClock (sampleStages [matchA] @ sampleStages [matchB])
    = tournamentMatches sampleClock (sampleStages [matchB] @ sampleStages [matchA])"
proof (rule schedule_order_independent)
  show "distinct (map (\<lambda>e. match_id (fm_match e))
      (flattenMatches (sampleStages [matchA] @ sampleStages [matchB])))"
    by (simp add: flattenMatches_def sampleStages_def sample_defs)
qed (auto simp: flattenMatches_def sampleStages_def sampleStage_def sampleItem_def sampleRound_def sample_times)

text \<open>C6: The schedule lists the published matches by time: each is shown in exactly one of the two
  parts, upcoming or finished, in the one slot of its start time, and the slots of the upcoming matches
  follow each other in time.\<close>

theorem schedule_complete:
  assumes "\<forall>e \<in> set (flattenMatches stages). match_time env e \<noteq> None"
  defines "shown \<equiv> tournamentMatches env stages"
  defines "upcoming \<equiv> timeSlots None (upcomingMatches env shown)"
  defines "finished \<equiv> timeSlots None (finishedMatches env shown)"
  shows "mset (concat (map snd (upcoming @ finished)))
      = mset (filter (\<lambda>e. \<not> round_is_draft (fm_round e)) (flattenMatches stages)) \<and>
    list_all (\<lambda>(key, es). list_all (\<lambda>e. slotKey e = key) es) (upcoming @ finished) \<and>
    distinct (map fst upcoming) \<and> distinct (map fst finished) \<and>
    sorted_wrt (\<lambda>(k, es) (k', es'). \<forall>e \<in> set es. \<forall>e' \<in> set es'.
      the (match_time env e) \<le> the (match_time env e')) upcoming"
proof -
  have groups: "upcoming = group_by slotKey (upcomingMatches env shown)"
    "finished = group_by slotKey (finishedMatches env shown)"
    by (simp_all add: upcoming_def finished_def timeSlots_def)
  have "mset (concat (map snd (upcoming @ finished))) = mset shown"
    using mset_upcoming_finished[of env shown] by (simp add: groups mset_group_by flip: mset_concat)
  then have all: "mset (concat (map snd (upcoming @ finished)))
      = mset (filter (\<lambda>e. \<not> round_is_draft (fm_round e)) (flattenMatches stages))"
    by (simp add: shown_def tournamentMatches_def)
  have keys: "slotKey e = k" if "(k, es) \<in> set (group_by slotKey vs)" "e \<in> set es" for k es vs e
    using group_by_filter[OF that(1)] that(2) by auto
  have sub: "set shown \<subseteq> timed env"
    using assms(1) by (auto simp: shown_def set_tournamentMatches timed_def)
  have "sorted_wrt (\<lambda>a b. sort_num (compareMatchesByTime env a b) \<le> 0) shown"
    unfolding shown_def tournamentMatches_def
    using assms(1) by (intro time_order.sorted_sort) (auto simp: timed_def)
  then have "sorted_wrt (\<lambda>a b. the (match_time env a) \<le> the (match_time env b)) shown"
    by (rule sorted_wrt_mono_rel[rotated]) (use sub time_order_le in blast)
  then have "sorted_wrt (\<lambda>k k'. the (slot_time env k) \<le> the (slot_time env k'))
      (map slotKey (upcomingMatches env shown))"
    by (simp add: upcomingMatches_def sorted_wrt_map sorted_wrt_filter timed_slotKey)
  from sorted_group_by[OF this]
  have "sorted_wrt (\<lambda>g g'. the (slot_time env (fst g)) \<le> the (slot_time env (fst g'))) upcoming"
    by (simp add: groups sorted_wrt_map)
  then have "sorted_wrt (\<lambda>(k, es) (k', es'). \<forall>e \<in> set es. \<forall>e' \<in> set es'.
      the (match_time env e) \<le> the (match_time env e')) upcoming"
    by (rule sorted_wrt_mono_rel[rotated]) (auto simp: groups timed_slotKey dest!: keys)
  with all keys show ?thesis
    by (auto simp: groups list_all_iff distinct_group_by)
qed

theorem schedule_complete_witness:
  "mset (concat (map snd
      (timeSlots None (upcomingMatches sampleClock
        (tournamentMatches sampleClock (sampleStages [matchB, matchA]))) @
       timeSlots None (finishedMatches sampleClock
        (tournamentMatches sampleClock (sampleStages [matchB, matchA]))))))
    = mset (flattenMatches (sampleStages [matchB, matchA]))"
proof -
  have "\<forall>e \<in> set (flattenMatches (sampleStages [matchB, matchA])). match_time sampleClock e \<noteq> None"
    by (auto simp: flattenMatches_def sampleStages_def sampleStage_def sampleItem_def sampleRound_def
        sample_times)
  from schedule_complete[OF this] show ?thesis
    by (simp add: flattenMatches_def sampleStages_def sampleStage_def sampleItem_def sampleRound_def)
qed

text \<open>A match card never contradicts itself: at most one side is the winner, the other one is then
  the loser, both scores are shown together and always for a finished match, and the big screen has no
  links.\<close>

lemma match_card_consistent:
  "let card = MatchCard env df context stageItemsById showTime entry;
       side1 = mc_side1 card; side2 = mc_side2 card
   in sv_isWinner side1 = sv_isLoser side2 \<and> sv_isWinner side2 = sv_isLoser side1 \<and>
      \<not> (sv_isWinner side1 \<and> sv_isWinner side2) \<and>
      (if mc_status card = ''Finished'' \<or> mc_status card = ''Playing now''
       then sv_score side1 = int_text (match_stage_item_input1_score (fm_match entry)) \<and>
            sv_score side2 = int_text (match_stage_item_input2_score (fm_match entry))
       else sv_score side1 = en_dash \<and> sv_score side2 = en_dash \<and>
            \<not> sv_isWinner side1 \<and> \<not> sv_isWinner side2) \<and>
      (tc_isBigScreen context \<longrightarrow> lv_to (sv_team side1) = None \<and> lv_to (sv_team side2) = None)"
proof -
  have "matchStatus env (fm_match entry) \<noteq> Finished \<Longrightarrow> matchWinner (fm_match entry) = None"
    using matchStatus_finished isScored_matchWinner by blast
  then show ?thesis
    by (cases "matchStatus env (fm_match entry)")
      (auto simp: MatchCard_def Let_def Side_def TeamLink_def MATCH_STATUS_LABELS_def)
qed

definition bigScreenContext :: TournamentContextValue where
  "bigScreenContext = \<lparr>tc_isBigScreen = True, tc_myTeamId = None, tc_publicPath = ''/tournaments/cup''\<rparr>"

definition sampleDates :: "string date_fns" where
  "sampleDates = \<lparr>df_parseISO = id, df_isValid = (\<lambda>_. True), df_isThisYear = (\<lambda>_. True),
     df_isToday = (\<lambda>_. False), df_format = (\<lambda>d f. d)\<rparr>"

lemma match_card_consistent_witness:
  "lv_to (sv_team (mc_side1
     (MatchCard sampleClock sampleDates bigScreenContext Map.empty True (sampleEntry matchA)))) = None"
  using match_card_consistent[of sampleClock sampleDates bigScreenContext Map.empty True "sampleEntry matchA"]
  by (simp add: Let_def bigScreenContext_def)

end
