(* ===== verification/BracketAdapter.thy ===== *)
theory BracketAdapter
  imports AppUtils Samples
begin

text \<open>
  The data brackets-viewer draws (\<open>frontend/src/app/bracket-adapter.ts\<close>): the rounds of a stage item
  with their matches ordered by the slots their competitors come from, the participants, and a status
  and a result for each match.
\<close>

section \<open>The data of brackets-viewer\<close>

datatype MatchResult = ResultDraw | ResultLoss | ResultWin

record ParticipantResult =
  pr_id :: "int option"
  pr_result :: "MatchResult option"
  pr_score :: "int option"

record ViewerMatch =
  vm_child_count :: int
  vm_group_id :: int
  vm_id :: int
  vm_number :: nat
  vm_opponent1 :: ParticipantResult
  vm_opponent2 :: ParticipantResult
  vm_round_id :: nat
  vm_stage_id :: int
  vm_status :: int

record ViewerParticipant =
  vp_id :: int
  vp_name :: string
  vp_tournament_id :: int

datatype ViewerStageType = ViewerRoundRobin | ViewerSingleElimination

record ViewerStage =
  vs_id :: int
  vs_name :: string
  vs_number :: int
  vs_size :: int
  vs_tournament_id :: int
  vs_type :: ViewerStageType

record BracketViewerData =
  bv_matches :: "ViewerMatch list"
  bv_participants :: "ViewerParticipant list"
  bv_stages :: "ViewerStage list"

datatype GroupType = FinalGroup | LoserBracket | RoundRobinGroup | SingleBracket | WinnerBracket

record RoundNameInfo =
  rn_groupType :: GroupType
  rn_roundCount :: int
  rn_roundNumber :: int

definition STATUS_LOCKED :: int where "STATUS_LOCKED = 0"
definition STATUS_WAITING :: int where "STATUS_WAITING = 1"
definition STATUS_READY :: int where "STATUS_READY = 2"
definition STATUS_COMPLETED :: int where "STATUS_COMPLETED = 4"
definition STAGE_ID :: int where "STAGE_ID = 1"
definition GROUP_ID :: int where "GROUP_ID = 1"

lemmas status_defs = STATUS_LOCKED_def STATUS_WAITING_def STATUS_READY_def STATUS_COMPLETED_def

section \<open>The order of the matches\<close>

definition origins :: "MatchWithDetails \<Rightarrow> (int \<rightharpoonup> nat) \<Rightarrow> nat list" where
  "origins m positionByMatchId =
     List.map_filter (\<lambda>i. case i of None \<Rightarrow> None | Some j \<Rightarrow> positionByMatchId j)
       [match_stage_item_input1_winner_from_match_id m,
        match_stage_item_input2_winner_from_match_id m]"

definition originPosition :: "MatchWithDetails \<Rightarrow> (int \<rightharpoonup> nat) \<Rightarrow> int" where
  "originPosition m positionByMatchId =
     (case origins m positionByMatchId of
        [] \<Rightarrow> max_safe_integer
      | p # ps \<Rightarrow> int (fold min ps p))"

definition compareOrigins :: "(int \<rightharpoonup> nat) \<Rightarrow> MatchWithDetails \<Rightarrow> MatchWithDetails \<Rightarrow> int" where
  "compareOrigins positionByMatchId left right =
     (let leftOrigin = originPosition left positionByMatchId;
          rightOrigin = originPosition right positionByMatchId
      in if leftOrigin \<noteq> rightOrigin then leftOrigin - rightOrigin else match_id left - match_id right)"

definition setPositions :: "MatchWithDetails list \<Rightarrow> (int \<rightharpoonup> nat) \<Rightarrow> (int \<rightharpoonup> nat)" where
  "setPositions ordered positionByMatchId =
     foldl (\<lambda>pos (index, m). pos(match_id m \<mapsto> index)) positionByMatchId (indexed ordered)"

text \<open>The rounds in turn, with the positions of all the rounds before.\<close>

fun orderRoundsFrom ::
  "(int \<rightharpoonup> nat) \<Rightarrow> RoundWithMatches list \<Rightarrow> (MatchWithDetails list \<times> RoundWithMatches) list" where
  "orderRoundsFrom pos [] = []"
| "orderRoundsFrom pos (rnd # rounds) =
     (let ordered = js_sort (compareOrigins pos) (round_matches rnd)
      in (ordered, rnd) # orderRoundsFrom (setPositions ordered pos) rounds)"

definition orderRounds :: "RoundWithMatches list \<Rightarrow> (MatchWithDetails list \<times> RoundWithMatches) list" where
  "orderRounds rounds = orderRoundsFrom Map.empty rounds"

section \<open>Conversion\<close>

definition toOpponent ::
  "int option \<Rightarrow> int \<Rightarrow> int list \<Rightarrow> bool \<Rightarrow> MatchResult option \<Rightarrow> ParticipantResult" where
  "toOpponent inputId score known showScore result =
     \<lparr>pr_id = (case inputId of None \<Rightarrow> None | Some i \<Rightarrow> if i \<in> set known then Some i else None),
      pr_result = result,
      pr_score = (if showScore then Some score else None)\<rparr>"

definition side_result :: "bool \<Rightarrow> int \<Rightarrow> int \<Rightarrow> MatchResult option" where
  "side_result scored own other =
     (if scored then Some (if own = other then ResultDraw else if own > other then ResultWin else ResultLoss)
      else None)"

definition toViewerMatch :: "int list \<Rightarrow> nat \<Rightarrow> nat \<Rightarrow> MatchWithDetails \<Rightarrow> ViewerMatch" where
  "toViewerMatch known roundIndex matchIndex m =
     (let scored = isScored m;
          first = match_stage_item_input1_score m;
          second = match_stage_item_input2_score m;
          hasBoth = match_stage_item_input1_id m \<noteq> None \<and> match_stage_item_input2_id m \<noteq> None;
          hasNone = match_stage_item_input1_id m = None \<and> match_stage_item_input2_id m = None
      in \<lparr>vm_child_count = 0, vm_group_id = GROUP_ID, vm_id = match_id m,
          vm_number = matchIndex + 1,
          vm_opponent1 = toOpponent (match_stage_item_input1_id m) first known scored
            (side_result scored first second),
          vm_opponent2 = toOpponent (match_stage_item_input2_id m) second known scored
            (side_result scored second first),
          vm_round_id = roundIndex + 1, vm_stage_id = STAGE_ID,
          vm_status = (if scored then STATUS_COMPLETED else if hasBoth then STATUS_READY
                       else if hasNone then STATUS_LOCKED else STATUS_WAITING)\<rparr>)"

definition bracketParticipants ::
  "StageItemWithRounds \<Rightarrow> (int \<rightharpoonup> StageItemWithRounds) \<Rightarrow> int \<Rightarrow> ViewerParticipant list" where
  "bracketParticipants stageItem stageItemsById tournamentId =
     filter (\<lambda>p. vp_name p \<noteq> ''TBD'')
       (map (\<lambda>i. \<lparr>vp_id = input_id i, vp_name = inputLabel (Some i) stageItemsById,
                  vp_tournament_id = tournamentId\<rparr>)
         (stage_item_inputs stageItem))"

definition bracketMatches :: "int list \<Rightarrow> RoundWithMatches list \<Rightarrow> ViewerMatch list" where
  "bracketMatches known rounds =
     List.maps (\<lambda>(roundIndex, roundMatches, _).
         map (\<lambda>(matchIndex, m). toViewerMatch known roundIndex matchIndex m) (indexed roundMatches))
       (indexed (orderRounds rounds))"

definition toBracketViewerData ::
  "StageItemWithRounds \<Rightarrow> (int \<rightharpoonup> StageItemWithRounds) \<Rightarrow> int \<Rightarrow> BracketViewerData option" where
  "toBracketViewerData stageItem stageItemsById tournamentId =
     (let participants = bracketParticipants stageItem stageItemsById tournamentId;
          known = map vp_id participants;
          matches = bracketMatches known (stage_item_rounds stageItem)
      in if matches = [] then None
         else Some \<lparr>bv_matches = matches, bv_participants = participants,
           bv_stages = [\<lparr>vs_id = STAGE_ID, vs_name = stage_item_label stageItem, vs_number = 1,
             vs_size = stage_item_team_count stageItem, vs_tournament_id = tournamentId,
             vs_type = (if stage_item_type stageItem = SWISS then ViewerRoundRobin
                        else ViewerSingleElimination)\<rparr>]\<rparr>)"

text \<open>\<open>2 ** (fromFinal + 1)\<close> is a fraction for a round number beyond the last round.\<close>

definition roundLabel :: "(rat \<Rightarrow> string) \<Rightarrow> RoundNameInfo \<Rightarrow> string" where
  "roundLabel num_text info =
     (if rn_groupType info = RoundRobinGroup then ''Round '' @ int_text (rn_roundNumber info)
      else (let fromFinal = rn_roundCount info - rn_roundNumber info
            in if fromFinal = 0 then ''Final''
               else if fromFinal = 1 then ''Semi-finals''
               else if fromFinal = 2 then ''Quarter-finals''
               else ''Round of '' @ js_num_text num_text
                 (Fin (if 0 \<le> fromFinal + 1 then 2 ^ nat (fromFinal + 1)
                       else 1 / 2 ^ nat (- (fromFinal + 1))))))"

section \<open>Facts about the order\<close>

text \<open>Comparing origins is a total preorder, and only a match with the same id compares as equal.\<close>

interpretation origin_order: js_key_comparator "compareOrigins pos" UNIV match_id
  by (rule lex3_comparatorI[where f = "\<lambda>_. 0" and g = "\<lambda>m. originPosition m pos"])
    (simp add: compareOrigins_def)

lemma fst_orderRoundsFrom:
  "list_all2 (\<lambda>(ordered, round') round. round' = round \<and> mset ordered = mset (round_matches round))
     (orderRoundsFrom pos rounds) rounds"
  by (induction rounds arbitrary: pos) (simp_all add: Let_def)

lemma length_orderRounds [simp]: "length (orderRounds rounds) = length rounds"
  using list_all2_lengthD[OF fst_orderRoundsFrom[of Map.empty rounds]]
  by (simp add: orderRounds_def)

lemma setPositions_snoc:
  "setPositions (ms @ [m]) pos = (setPositions ms pos)(match_id m \<mapsto> length ms)"
  by (simp add: setPositions_def enumerate_append_eq)

lemma setPositions_nth:
  "distinct (map match_id ms) \<Longrightarrow> i < length ms \<Longrightarrow> setPositions ms pos (match_id (ms ! i)) = Some i"
proof (induction ms rule: rev_induct)
  case (snoc m ms)
  show ?case
  proof (cases "i = length ms")
    case False
    then have i: "i < length ms" using snoc.prems by simp
    then have "match_id (ms ! i) \<noteq> match_id m"
      using snoc.prems by (metis distinct_append distinct.simps(2) image_eqI list.set_map map_append
          list.simps(9) nth_mem IntI empty_iff list.set_intros(1))
    with snoc i show ?thesis by (simp add: setPositions_snoc nth_append)
  qed (simp add: setPositions_snoc)
qed simp

lemma setPositions_other: "k \<notin> match_id ` set ms \<Longrightarrow> setPositions ms pos k = pos k"
  by (induction ms rule: rev_induct) (simp add: setPositions_def, simp add: setPositions_snoc)

lemma mset_bracket_ids_from:
  "mset (map vm_id (concat (map (\<lambda>(i, ms, _). map (\<lambda>(j, m). toViewerMatch known i j m) (indexed ms))
       (enumerate n (orderRoundsFrom pos rounds)))))
   = mset (map match_id (concat (map round_matches rounds)))"
proof (induction rounds arbitrary: pos n)
  case (Cons r rs)
  have "map (vm_id \<circ> (\<lambda>(j, m). toViewerMatch known n j m)) (indexed ms) = map match_id ms" for ms
    by (rule nth_equalityI) (auto simp: toViewerMatch_def Let_def nth_enumerate_eq)
  with Cons show ?case
    by (simp add: Let_def)
qed simp

lemma mset_bracketMatches:
  "mset (map vm_id (bracketMatches known rounds)) = mset (map match_id (concat (map round_matches rounds)))"
  using mset_bracket_ids_from[of known 0 Map.empty rounds]
  by (simp add: bracketMatches_def orderRounds_def)

lemma bracketMatches_mem:
  "v \<in> set (bracketMatches known rounds) \<Longrightarrow>
    \<exists>i j m. v = toViewerMatch known i j m \<and> i < length rounds \<and>
      m \<in> set (round_matches (rounds ! i)) \<and> j < length (round_matches (rounds ! i))"
proof -
  assume "v \<in> set (bracketMatches known rounds)"
  then obtain i ms r j m where
    o: "(i, ms, r) \<in> set (indexed (orderRounds rounds))" and "(j, m) \<in> set (indexed ms)"
    and v: "v = toViewerMatch known i j m"
    by (auto simp: bracketMatches_def)
  then have i: "i < length rounds" "orderRounds rounds ! i = (ms, r)" and "j < length ms" "m \<in> set ms"
    by (auto simp: in_set_enumerate_eq)
  moreover have "r = rounds ! i \<and> mset ms = mset (round_matches (rounds ! i))"
    using list_all2_nthD[OF fst_orderRoundsFrom[of Map.empty rounds], of i] i
    by (simp add: orderRounds_def[symmetric])
  ultimately have "m \<in> set (round_matches (rounds ! i))" "j < length (round_matches (rounds ! i))"
    by (metis set_mset_mset, metis size_mset)
  with v i show ?thesis by blast
qed

section \<open>Brackets of winners\<close>

text \<open>
  What the backend builds: each match of a round is played by the winners of two neighbouring matches
  of the round before.
\<close>

definition feeds :: "MatchWithDetails list \<Rightarrow> MatchWithDetails list \<Rightarrow> bool" where
  "feeds prev next \<longleftrightarrow> length prev = 2 * length next \<and>
     list_all (\<lambda>(p, m).
         match_stage_item_input1_winner_from_match_id m = Some (match_id (prev ! (2 * p))) \<and>
         match_stage_item_input2_winner_from_match_id m = Some (match_id (prev ! (2 * p + 1))))
       (indexed next)"

fun bracket_shape :: "MatchWithDetails list list \<Rightarrow> bool" where
  "bracket_shape (prev # next # rest) = (feeds prev next \<and> bracket_shape (next # rest))"
| "bracket_shape _ = True"

lemma feeds_nth:
  assumes "feeds prev next" "p < length next"
  shows "match_stage_item_input1_winner_from_match_id (next ! p) = Some (match_id (prev ! (2 * p)))"
    "match_stage_item_input2_winner_from_match_id (next ! p) = Some (match_id (prev ! (2 * p + 1)))"
  using assms by (auto simp: feeds_def list_all_length nth_enumerate_eq)

lemma origin_of_feeds:
  assumes "feeds prev next" "distinct (map match_id prev)" "p < length next"
  shows "originPosition (next ! p) (setPositions prev pos) = 2 * int p"
proof -
  have "2 * p + 1 < length prev" using assms by (simp add: feeds_def)
  then have "setPositions prev pos (match_id (prev ! (2 * p))) = Some (2 * p)"
    "setPositions prev pos (match_id (prev ! (2 * p + 1))) = Some (2 * p + 1)"
    using assms(2) setPositions_nth by simp_all
  then show ?thesis
    by (simp add: originPosition_def origins_def feeds_nth[OF assms(1,3)] List.map_filter_simps)
qed

lemma order_fed_round:
  assumes "feeds prev next" "distinct (map match_id prev)" "distinct (map match_id next)"
    and "mset ms = mset next"
  shows "js_sort (compareOrigins (setPositions prev pos)) ms = next"
proof -
  let ?cmp = "compareOrigins (setPositions prev pos)"
  have "js_sort ?cmp ms = js_sort ?cmp next"
    using assms by (intro origin_order.sort_order_independent)
      (auto simp: mset_eq_imp_distinct_iff[of "map match_id ms" "map match_id next"])
  also have "\<dots> = next"
    by (intro origin_order.sort_sorted_id)
      (auto simp: sorted_wrt_iff_nth_less compareOrigins_def origin_of_feeds[OF assms(1,2)])
  finally show ?thesis .
qed

lemma order_from_fed:
  "bracket_shape (prev # os) \<Longrightarrow> list_all (\<lambda>ms. distinct (map match_id ms)) (prev # os) \<Longrightarrow>
    list_all2 (\<lambda>r ms. mset (round_matches r) = mset ms) rounds os \<Longrightarrow>
    map fst (orderRoundsFrom (setPositions prev pos) rounds) = os"
proof (induction os arbitrary: prev rounds pos)
  case (Cons ms os)
  then obtain r rs where r: "rounds = r # rs" by (cases rounds) auto
  have "js_sort (compareOrigins (setPositions prev pos)) (round_matches r) = ms"
    using Cons.prems r by (intro order_fed_round) auto
  with Cons r show ?case by (simp add: Let_def)
qed simp

lemma toOpponent_known: "set_option (pr_id (toOpponent i score known shown result)) \<subseteq> set known"
  by (auto simp: toOpponent_def split: option.splits)

section \<open>Properties\<close>

text \<open>C5: A bracket is drawn in one order, whatever order its matches arrive in. If every match after
  the first round is played by the winners of two neighbours, the rounds are laid out as the tree: the
  first round by id, and every later match between its two feeders.\<close>

theorem bracket_layout:
  assumes "bracket_shape os" "os \<noteq> []" "list_all (\<lambda>ms. distinct (map match_id ms)) os"
    and "sorted (map match_id (hd os))"
    and "list_all2 (\<lambda>r ms. mset (round_matches r) = mset ms) rounds os"
  shows "map fst (orderRounds rounds) = os"
proof -
  obtain first rest where os: "os = first # rest" using assms(2) by (cases os) auto
  then obtain r rs where r: "rounds = r # rs" "mset (round_matches r) = mset first"
    "list_all2 (\<lambda>r ms. mset (round_matches r) = mset ms) rs rest"
    using assms(5) by (cases rounds) auto
  have origin: "originPosition m Map.empty = max_safe_integer" for m
    by (auto simp: originPosition_def origins_def List.map_filter_simps split: option.splits)
  have "js_sort (compareOrigins Map.empty) (round_matches r) = js_sort (compareOrigins Map.empty) first"
    using assms(3) os r(2) by (intro origin_order.sort_order_independent)
      (auto simp: mset_eq_imp_distinct_iff[of "map match_id (round_matches r)" "map match_id first"])
  also have "\<dots> = first"
    using assms(4) os by (intro origin_order.sort_sorted_id)
      (auto simp: compareOrigins_def origin sorted_map)
  finally show ?thesis
    using order_from_fed[of first rest rs Map.empty] assms(1,3) os r by (simp add: orderRounds_def Let_def)
qed

theorem bracket_layout_witness:
  "map fst (orderRounds (stage_item_rounds sampleBracket)) = [[matchA, matchB], [matchC]]"
  by (rule bracket_layout) (simp_all add: sample_defs feeds_def)

text \<open>C16: The bracket view shows every match of the stage item exactly once and only participants that
  have a name; each opponent of a drawn match is one of the participants or open.\<close>

theorem bracket_data_complete:
  assumes "toBracketViewerData stageItem stageItemsById tournamentId = Some d"
  shows "mset (map vm_id (bv_matches d)) =
      mset (map match_id (concat (map round_matches (stage_item_rounds stageItem)))) \<and>
    set (map vp_id (bv_participants d)) \<subseteq> set (map input_id (stage_item_inputs stageItem)) \<and>
    list_all (\<lambda>p. vp_name p \<noteq> ''TBD'') (bv_participants d) \<and>
    list_all (\<lambda>v. set_option (pr_id (vm_opponent1 v)) \<union> set_option (pr_id (vm_opponent2 v))
        \<subseteq> set (map vp_id (bv_participants d)))
      (bv_matches d)"
proof -
  let ?known = "map vp_id (bracketParticipants stageItem stageItemsById tournamentId)"
  have d: "bv_matches d = bracketMatches ?known (stage_item_rounds stageItem)"
    "bv_participants d = bracketParticipants stageItem stageItemsById tournamentId"
    using assms by (auto simp: toBracketViewerData_def Let_def split: if_splits)
  have "set_option (pr_id (vm_opponent1 v)) \<union> set_option (pr_id (vm_opponent2 v)) \<subseteq> set ?known"
    if v: "v \<in> set (bracketMatches ?known (stage_item_rounds stageItem))" for v
  proof -
    obtain i j m where "v = toViewerMatch ?known i j m" using bracketMatches_mem[OF v] by blast
    then show ?thesis by (simp only: toViewerMatch_def Let_def ViewerMatch.simps toOpponent_known Un_subset_iff simp_thms)
  qed
  moreover have "set ?known \<subseteq> set (map input_id (stage_item_inputs stageItem))"
    "list_all (\<lambda>p. vp_name p \<noteq> ''TBD'') (bracketParticipants stageItem stageItemsById tournamentId)"
    by (auto simp: bracketParticipants_def list.pred_set)
  ultimately show ?thesis unfolding d list.pred_set using mset_bracketMatches by blast
qed

theorem bracket_data_complete_witness:
  "map_option (\<lambda>d. mset (map vm_id (bv_matches d))) (toBracketViewerData sampleBracket Map.empty 1)
    = Some {#1, 2, 3#}"
proof -
  have "toBracketViewerData sampleBracket Map.empty 1 \<noteq> None" by code_simp
  then obtain d where d: "toBracketViewerData sampleBracket Map.empty 1 = Some d" by blast
  have "mset (map match_id (concat (map round_matches (stage_item_rounds sampleBracket)))) = {#1, 2, 3#}"
    by (simp add: sample_defs)
  with bracket_data_complete[OF d] show ?thesis by (simp add: d)
qed

text \<open>The two sides of a drawn match agree: exactly one of them wins when the other loses, both draw
  together, and a result and the scores are shown exactly when the match is completed.\<close>

lemma viewer_match_consistent:
  "let v = toViewerMatch known roundIndex matchIndex m;
       first = vm_opponent1 v; second = vm_opponent2 v; completed = (vm_status v = STATUS_COMPLETED)
   in (pr_result first = Some ResultWin) = (pr_result second = Some ResultLoss) \<and>
      (pr_result first = Some ResultLoss) = (pr_result second = Some ResultWin) \<and>
      (pr_result first = Some ResultDraw) = (pr_result second = Some ResultDraw) \<and>
      (pr_result first = Some ResultWin) = (matchWinner m = Some Side1) \<and>
      (pr_result second = Some ResultWin) = (matchWinner m = Some Side2) \<and>
      completed = (pr_result first \<noteq> None) \<and> completed = (pr_score first \<noteq> None) \<and>
      completed = (pr_result second \<noteq> None) \<and> completed = (pr_score second \<noteq> None)"
  by (simp add: toViewerMatch_def Let_def toOpponent_def side_result_def status_defs matchWinner_def)

end
