(* ===== verification/TournamentViews.thy ===== *)
theory TournamentViews
  imports AppTypes MatchViews BracketAdapter
begin

text \<open>
  The pages everyone can follow: the overview with the visitor's own team
  (\<open>sections/tournament-overview.tsx\<close>), the teams (\<open>sections/tournament-teams.tsx\<close>), the standings
  (\<open>sections/tournament-standings.tsx\<close>) and the brackets (\<open>sections/tournament-bracket.tsx\<close>).
\<close>

section \<open>The visitor's team\<close>

datatype MyTeamPanelView =
    NoPanel
  | ChooseTeamPanel "(int \<times> string) list" string
  | MyTeamShown FullTeamWithPlayers string string "(string \<times> FlattenedMatch) option"

definition team_matches :: "FlattenedMatch list \<Rightarrow> int \<Rightarrow> FlattenedMatch list" where
  "team_matches entries teamId = filter (\<lambda>e. involvesTeam (fm_match e) teamId) entries"

definition playerNames :: "FullTeamWithPlayers \<Rightarrow> string" where
  "playerNames team = join '', '' (map player_name (full_team_players team))"

definition MyTeamPanel ::
  "js_env \<Rightarrow> (string \<Rightarrow> string \<Rightarrow> int) \<Rightarrow> TournamentContextValue \<Rightarrow> FlattenedMatch list \<Rightarrow>
   FullTeamWithPlayers list \<Rightarrow> MyTeamPanelView" where
  "MyTeamPanel env localeCompare context entries teams =
     (let myTeam = List.find (\<lambda>team. Some (full_team_id team) = tc_myTeamId context) teams
      in if teams = [] then NoPanel
         else (case myTeam of
            None \<Rightarrow>
              ChooseTeamPanel
                (map (\<lambda>team. (full_team_id team, full_team_name team))
                  (sortTeamsByName localeCompare full_team_name teams))
                (tc_publicPath context @ ''/teams'')
          | Some team \<Rightarrow>
              MyTeamShown team (playerNames team) (teamPath (tc_publicPath context) (full_team_id team))
                (map_option
                  (\<lambda>next. (if matchStatus env (fm_match next) = Live then ''Playing now'' else ''Next match'', next))
                  (nextMatch env (team_matches entries (full_team_id team))))))"

section \<open>The overview\<close>

definition stageItemPath :: "string \<Rightarrow> StageItemWithRounds \<Rightarrow> string" where
  "stageItemPath publicPath stageItem =
     publicPath @ ''/'' @ (if isBracket stageItem then ''bracket'' else ''standings'') @
     ''#stage-item-'' @ int_text (stage_item_id stageItem)"

record StageItemCard =
  sic_to :: string
  sic_type_name :: string
  sic_title :: string
  sic_summary :: string

definition stageItemCard :: "string \<Rightarrow> StageItemWithRounds \<Rightarrow> StageItemCard" where
  "stageItemCard publicPath stageItem =
     (let stageItemMatches = List.maps round_matches (stage_item_rounds stageItem);
          played = length (filter isScored stageItemMatches)
      in \<lparr>sic_to = stageItemPath publicPath stageItem,
          sic_type_name = stage_item_type_name stageItem,
          sic_title = stage_item_label stageItem,
          sic_summary = int_text (stage_item_team_count stageItem) @ '' teams '' @ middle_dot @ '' '' @
            nat_text played @ '' of '' @ nat_text (length stageItemMatches) @ '' matches played''\<rparr>)"

record OverviewView =
  ov_heading :: string
  ov_nothing :: bool
  ov_cards :: "FlattenedMatch list"
  ov_next :: "FlattenedMatch list option"
  ov_stages :: "(string \<times> bool \<times> StageItemCard list) list"
  ov_results :: "FlattenedMatch list"

definition OverviewSection ::
  "js_env \<Rightarrow> TournamentContextValue \<Rightarrow> TournamentBundle \<Rightarrow> FlattenedMatch list \<Rightarrow> OverviewView" where
  "OverviewSection env context bundle entries =
     (let live = filter (\<lambda>e. matchStatus env (fm_match e) = Live) entries;
          upcoming = take 6 (filter (\<lambda>e. matchStatus env (fm_match e) = Scheduled) entries);
          finished = take_last 6 (filter (\<lambda>e. matchStatus env (fm_match e) = Finished) entries)
      in \<lparr>ov_heading = (if live \<noteq> [] then ''Playing now'' else ''Coming up next''),
          ov_nothing = (live = [] \<and> upcoming = []),
          ov_cards = (if live \<noteq> [] then live else upcoming),
          ov_next = (if live \<noteq> [] \<and> upcoming \<noteq> [] then Some upcoming else None),
          ov_stages = map (\<lambda>stage. (stage_name stage,
              isStageHappeningNow stage (tb_tournament bundle),
              map (stageItemCard (tc_publicPath context)) (stage_stage_items stage)))
            (tb_stages bundle),
          ov_results = rev finished\<rparr>)"

section \<open>A stage item\<close>

datatype SideClass = SideStrong | SideFaded | SidePlain

definition sideClass :: "MatchOutcome option \<Rightarrow> MatchOutcome \<Rightarrow> SideClass" where
  "sideClass winner side =
     (if winner = Some side then SideStrong
      else if winner = Some Side1 \<or> winner = Some Side2 then SideFaded else SidePlain)"

record TableRow =
  tr_position :: nat
  tr_team :: LinkView
  tr_record :: string

record ResultRow =
  rr_left :: "SideClass \<times> LinkView"
  rr_middle :: string
  rr_right :: "SideClass \<times> LinkView"

datatype StageItemBody =
    BracketBody "BracketViewerData option"
  | TableBody "TableRow list" "(string \<times> ResultRow list) list option"

record StageItemVisualizationView =
  siv_title :: string
  siv_subtitle :: string
  siv_body :: StageItemBody

definition resultRow ::
  "TournamentContextValue \<Rightarrow> (int \<rightharpoonup> StageItemWithRounds) \<Rightarrow> MatchWithDetails \<Rightarrow> ResultRow" where
  "resultRow context stageItemsById m =
     (let winner = matchWinner m
      in \<lparr>rr_left = (sideClass winner Side1,
             TeamLink context (inputTeamId (match_stage_item_input1 m))
               (inputLabel (match_stage_item_input1 m) stageItemsById)),
          rr_middle = (if isScored m
             then int_text (match_stage_item_input1_score m) @ '' '' @ en_dash @ '' '' @
                  int_text (match_stage_item_input2_score m)
             else ''vs''),
          rr_right = (sideClass winner Side2,
             TeamLink context (inputTeamId (match_stage_item_input2 m))
               (inputLabel (match_stage_item_input2 m) stageItemsById))\<rparr>)"

definition tableRow ::
  "number_format \<Rightarrow> TournamentContextValue \<Rightarrow> (int \<rightharpoonup> StageItemWithRounds) \<Rightarrow> (int \<rightharpoonup> FullTeamWithPlayers) \<Rightarrow>
   StageItemWithRounds \<Rightarrow> nat \<times> StandingEntry \<Rightarrow> TableRow" where
  "tableRow nf context stageItemsById teamMap stageItem = (\<lambda>(index, entry).
     (let input = entry_input entry; standing = entry_standing entry
      in \<lparr>tr_position = index + 1,
          tr_team = TeamLink context (Some (final_team_id input))
            (case teamMap (final_team_id input) of
               Some team \<Rightarrow> full_team_name team
             | None \<Rightarrow> inputLabel (Some (Final input)) stageItemsById),
          tr_record = int_text (standing_wins standing) @ '' won '' @ middle_dot @ '' '' @
            int_text (standing_draws standing) @ '' drawn '' @ middle_dot @ '' '' @
            int_text (standing_losses standing) @ '' lost '' @ middle_dot @ '' '' @
            pointsPhrase nf stageItem (standing_points standing)\<rparr>))"

definition StageItemVisualization ::
  "number_format \<Rightarrow> TournamentContextValue \<Rightarrow> bool \<Rightarrow> StageItemWithRounds \<Rightarrow>
   (int \<rightharpoonup> StageItemWithRounds) \<Rightarrow> (string \<rightharpoonup> StageItemInputStanding list) \<Rightarrow>
   (int \<rightharpoonup> FullTeamWithPlayers) \<Rightarrow> int \<Rightarrow> StageItemVisualizationView" where
  "StageItemVisualization nf context showMatches stageItem stageItemsById standings teamMap tournamentId =
     \<lparr>siv_title = stage_item_label stageItem,
      siv_subtitle = stage_item_type_name stageItem @ '' '' @ middle_dot @ '' '' @
        int_text (stage_item_team_count stageItem) @ '' teams'',
      siv_body =
        (if isBracket stageItem then BracketBody (toBracketViewerData stageItem stageItemsById tournamentId)
         else TableBody
           (map (tableRow nf context stageItemsById teamMap stageItem)
             (indexed (stageItemStandings stageItem standings)))
           (if showMatches
            then Some (map (\<lambda>r. (round_name r, map (resultRow context stageItemsById) (round_matches r)))
              (stage_item_rounds stageItem))
            else None))\<rparr>"

section \<open>Teams\<close>

record TeamCard =
  tcd_to :: string
  tcd_name :: string
  tcd_isMine :: bool
  tcd_players :: string

record TeamDirectoryView =
  tdv_noTeams :: bool
  tdv_noMatch :: "string option"
  tdv_cards :: "TeamCard list"

text \<open>The search itself is the library match-sorter, a parameter.\<close>

definition TeamDirectorySection ::
  "(FullTeamWithPlayers list \<Rightarrow> string \<Rightarrow> FullTeamWithPlayers list) \<Rightarrow> (string \<Rightarrow> string \<Rightarrow> int) \<Rightarrow>
   TournamentContextValue \<Rightarrow> string \<Rightarrow> FullTeamWithPlayers list \<Rightarrow> TeamDirectoryView" where
  "TeamDirectorySection matchSorter localeCompare context query teams =
     (let shown = (if trim query \<noteq> [] then matchSorter teams (trim query)
                   else sortTeamsByName localeCompare full_team_name teams)
      in \<lparr>tdv_noTeams = (teams = []),
          tdv_noMatch = (if teams \<noteq> [] \<and> shown = [] then Some (trim query) else None),
          tdv_cards = map (\<lambda>team.
             \<lparr>tcd_to = teamPath (tc_publicPath context) (full_team_id team),
              tcd_name = full_team_name team,
              tcd_isMine = (Some (full_team_id team) = tc_myTeamId context),
              tcd_players = (if playerNames team \<noteq> [] then playerNames team else ''No players listed'')\<rparr>)
            shown\<rparr>)"

record Placement =
  pl_entry :: StandingEntry
  pl_position :: nat
  pl_size :: nat
  pl_stageItem :: StageItemWithRounds

definition stageItemPlacement ::
  "(string \<rightharpoonup> StageItemInputStanding list) \<Rightarrow> int \<Rightarrow> StageItemWithRounds \<Rightarrow> Placement list" where
  "stageItemPlacement standings teamId stageItem =
     (let entries = stageItemStandings stageItem standings
      in case List.find (\<lambda>(_, entry). final_team_id (entry_input entry) = teamId) (indexed entries) of
           None \<Rightarrow> []
         | Some (index, entry) \<Rightarrow>
             [\<lparr>pl_entry = entry, pl_position = index + 1, pl_size = length entries, pl_stageItem = stageItem\<rparr>])"

definition teamPlacements :: "TournamentBundle \<Rightarrow> int \<Rightarrow> Placement list" where
  "teamPlacements bundle teamId =
     List.maps (\<lambda>stage.
        List.maps (stageItemPlacement (tb_standings bundle) teamId)
          (filter (\<lambda>s. \<not> isBracket s) (stage_stage_items stage)))
       (tb_stages bundle)"

record TeamDetailView =
  td_team :: FullTeamWithPlayers
  td_isMine :: bool
  td_placements :: "Placement list"
  td_noMatches :: bool
  td_comingUp :: "FlattenedMatch list"
  td_played :: "FlattenedMatch list"

text \<open>
  The source leaves the next match out of the rest by the identity of the match object. Matches have
  distinct ids, so that is the match with the same contents.
\<close>

definition comingUpMatches :: "js_env \<Rightarrow> FlattenedMatch list \<Rightarrow> FlattenedMatch list" where
  "comingUpMatches env teamMatches =
     (let next = nextMatch env teamMatches;
          upcoming = filter (\<lambda>e. \<not> isScored (fm_match e) \<and> Some (fm_match e) \<noteq> map_option fm_match next) teamMatches
      in case next of None \<Rightarrow> upcoming | Some n \<Rightarrow> n # upcoming)"

definition playedMatches :: "FlattenedMatch list \<Rightarrow> FlattenedMatch list" where
  "playedMatches teamMatches = rev (filter (\<lambda>e. isScored (fm_match e)) teamMatches)"

definition TeamDetailSection ::
  "js_env \<Rightarrow> TournamentContextValue \<Rightarrow> TournamentBundle \<Rightarrow> FlattenedMatch list \<Rightarrow> js_num option \<Rightarrow>
   TeamDetailView option" where
  "TeamDetailSection env context bundle entries teamId =
     map_option (\<lambda>team.
        (let teamMatches = team_matches entries (full_team_id team)
         in \<lparr>td_team = team,
             td_isMine = (Some (full_team_id team) = tc_myTeamId context),
             td_placements = teamPlacements bundle (full_team_id team),
             td_noMatches = (teamMatches = []),
             td_comingUp = comingUpMatches env teamMatches,
             td_played = playedMatches teamMatches\<rparr>))
       (List.find (\<lambda>c. Some (num_of_int (full_team_id c)) = teamId) (tb_teams bundle))"

text \<open>The button toggles the choice of the visitor's team.\<close>

definition toggleMyTeam :: "TeamDetailView \<Rightarrow> int option" where
  "toggleMyTeam view = (if td_isMine view then None else Some (full_team_id (td_team view)))"

section \<open>Standings\<close>

record StandingsRow =
  sr_position :: nat
  sr_team :: LinkView
  sr_isMine :: bool
  sr_players :: string
  sr_played :: int
  sr_won :: int
  sr_drawn :: int
  sr_lost :: int
  sr_difference :: string
  sr_points :: string

record StandingsTable =
  st_stage :: StageWithStageItems
  st_stageItem :: StageItemWithRounds
  st_entries :: "StandingEntry list"

definition standingsTables ::
  "StageWithStageItems list \<Rightarrow> (string \<rightharpoonup> StageItemInputStanding list) \<Rightarrow> StandingsTable list" where
  "standingsTables stages standings =
     List.maps (\<lambda>stage.
        filter (\<lambda>t. st_entries t \<noteq> [])
          (map (\<lambda>stageItem. \<lparr>st_stage = stage, st_stageItem = stageItem,
                  st_entries = stageItemStandings stageItem standings\<rparr>)
            (filter (\<lambda>s. \<not> isBracket s) (stage_stage_items stage))))
       stages"

definition standingsRow ::
  "number_format \<Rightarrow> TournamentContextValue \<Rightarrow> (int \<rightharpoonup> FullTeamWithPlayers) \<Rightarrow> nat \<times> StandingEntry \<Rightarrow> StandingsRow"
  where
  "standingsRow nf context teamMap = (\<lambda>(index, entry).
     (let input = entry_input entry; standing = entry_standing entry;
          names = (case teamMap (final_team_id input) of None \<Rightarrow> [] | Some team \<Rightarrow> playerNames team)
      in \<lparr>sr_position = index + 1,
          sr_team = TeamLink context (Some (final_team_id input)) (team_name (final_team input)),
          sr_isMine = (Some (final_team_id input) = tc_myTeamId context),
          sr_players = (if names \<noteq> [] then names else em_dash),
          sr_played = standing_wins standing + standing_draws standing + standing_losses standing,
          sr_won = standing_wins standing, sr_drawn = standing_draws standing,
          sr_lost = standing_losses standing,
          sr_difference = formatScoreDifference nf standing,
          sr_points = formatPoints nf (standing_points standing)\<rparr>))"

text \<open>The rows of the big screen are short.\<close>

record CompactRow =
  cr_position :: nat
  cr_name :: string
  cr_isMine :: bool
  cr_record :: string

definition compactRow ::
  "number_format \<Rightarrow> TournamentContextValue \<Rightarrow> StageItemWithRounds \<Rightarrow> nat \<times> StandingEntry \<Rightarrow> CompactRow" where
  "compactRow nf context stageItem = (\<lambda>(index, entry).
     (let input = entry_input entry; standing = entry_standing entry
      in \<lparr>cr_position = index + 1,
          cr_name = team_name (final_team input),
          cr_isMine = (Some (final_team_id input) = tc_myTeamId context),
          cr_record = int_text (standing_wins standing) @ '' won '' @ middle_dot @ '' '' @
            int_text (standing_draws standing) @ '' drawn '' @ middle_dot @ '' '' @
            int_text (standing_losses standing) @ '' lost '' @ middle_dot @ '' '' @
            pointsPhrase nf stageItem (standing_points standing)\<rparr>))"

datatype StandingsRows = CompactRows "CompactRow list" | FullRows string "StandingsRow list"

record StandingsView =
  stv_none :: bool
  stv_tables :: "(StandingsTable \<times> StandingsRows) list"
  stv_rules :: "string list option"
  stv_hasSwiss :: bool

definition rankingRule :: "number_format \<Rightarrow> Ranking \<Rightarrow> string" where
  "rankingRule nf ranking =
     ''A win is worth '' @ formatPoints nf (ranking_win_points ranking) @ '' '' @
     (if to_number (ranking_win_points ranking) = Fin 1 then ''point'' else ''points'') @ '', a draw '' @
     formatPoints nf (ranking_draw_points ranking) @ '' and a loss '' @
     formatPoints nf (ranking_loss_points ranking) @ ''.''"

definition StandingsSection ::
  "number_format \<Rightarrow> TournamentContextValue \<Rightarrow> bool \<Rightarrow> Ranking list \<Rightarrow> StageWithStageItems list \<Rightarrow>
   (string \<rightharpoonup> StageItemInputStanding list) \<Rightarrow> (int \<rightharpoonup> FullTeamWithPlayers) \<Rightarrow> StandingsView" where
  "StandingsSection nf context isCompact rankings stages standings teamMap =
     (let tables = standingsTables stages standings
      in \<lparr>stv_none = (tables = []),
          stv_tables = map (\<lambda>t. (t,
              if isCompact
              then CompactRows (map (compactRow nf context (st_stageItem t)) (indexed (st_entries t)))
              else FullRows (pointsLabel (st_stageItem t))
                (map (standingsRow nf context teamMap) (indexed (st_entries t))))) tables,
          stv_rules = (if isCompact then None else Some (map (rankingRule nf) rankings)),
          stv_hasSwiss = (\<not> isCompact \<and> list_ex (\<lambda>t. stage_item_type (st_stageItem t) = SWISS) tables)\<rparr>)"

section \<open>Brackets\<close>

record BracketView =
  brv_title :: string
  brv_subtitle :: string
  brv_data :: "BracketViewerData option"
  brv_teamParticipants :: "int \<rightharpoonup> int"
  brv_emptyText :: string

definition bracketStageItems ::
  "StageWithStageItems list \<Rightarrow> (StageWithStageItems \<times> StageItemWithRounds) list" where
  "bracketStageItems stages =
     List.maps (\<lambda>stage. map (\<lambda>s. (stage, s)) (filter hasBracketView (stage_stage_items stage))) stages"

definition teamParticipants :: "StageItemWithRounds \<Rightarrow> int \<rightharpoonup> int" where
  "teamParticipants stageItem =
     js_map (map (\<lambda>i. (final_id i, final_team_id i)) (finalInputs (stage_item_inputs stageItem)))"

definition BracketSection ::
  "StageWithStageItems list \<Rightarrow> (int \<rightharpoonup> StageItemWithRounds) \<Rightarrow> int \<Rightarrow> (string \<times> BracketView list) option" where
  "BracketSection stages stageItemsById tournamentId =
     (let brackets = bracketStageItems stages
      in if brackets = [] then None
         else Some (if length brackets = 1 then ''Bracket'' else ''Brackets'',
           map (\<lambda>(stage, stageItem).
             \<lparr>brv_title = stage_item_label stageItem,
              brv_subtitle = stage_name stage @ '' '' @ middle_dot @ '' '' @ stage_item_type_name stageItem @
                '' '' @ middle_dot @ '' '' @ int_text (stage_item_team_count stageItem) @ '' teams'',
              brv_data = toBracketViewerData stageItem stageItemsById tournamentId,
              brv_teamParticipants = teamParticipants stageItem,
              brv_emptyText = (if isBracket stageItem
                then ''The bracket appears here once the matches have been drawn.''
                else ''The rounds appear here once the first one has been drawn.'')\<rparr>) brackets))"

section \<open>Facts\<close>

lemma nextMatch_mem:
  "nextMatch env entries = Some n \<Longrightarrow> n \<in> set entries \<and> \<not> isScored (fm_match n)"
  by (auto simp: nextMatch_def dest!: find_SomeD matchStatus_live_unscored split: option.splits)

lemma nextMatch_None: "nextMatch env entries = None \<longleftrightarrow> (\<forall>e \<in> set entries. isScored (fm_match e))"
proof (cases "List.find (\<lambda>e. matchStatus env (fm_match e) = Live) entries")
  case None
  then have "nextMatch env entries = List.find (\<lambda>e. \<not> isScored (fm_match e)) entries"
    by (simp add: nextMatch_def)
  then show ?thesis by (auto simp: find_None_iff)
next
  case (Some e)
  then have "e \<in> set entries" "\<not> isScored (fm_match e)"
    using find_SomeD matchStatus_live_unscored by fast+
  with Some show ?thesis by (auto simp: nextMatch_def)
qed

lemma filter_remove_one:
  assumes "n \<in> set xs" "P n" "distinct (map f xs)"
  shows "add_mset n (mset (filter (\<lambda>x. P x \<and> f x \<noteq> f n) xs)) = mset (filter P xs)"
  using assms
proof (induction xs)
  case (Cons x xs)
  show ?case
  proof (cases "x = n")
    case True
    then have "filter (\<lambda>x. P x \<and> f x \<noteq> f n) xs = filter P xs"
      using Cons.prems by (intro filter_cong) (auto simp: image_iff)
    with True Cons.prems show ?thesis by simp
  next
    case False
    then have "n \<in> set xs" "f x \<noteq> f n" using Cons.prems by auto
    with Cons show ?thesis by auto
  qed
qed simp

lemma stageItemStandings_entry:
  "e \<in> set (stageItemStandings s standings) \<Longrightarrow>
    Final (entry_input e) \<in> set (stage_item_inputs s) \<and>
    final_id (entry_input e) = standing_stage_item_input_id (entry_standing e)"
  by (auto simp: stageItemStandings_def finalInputs_mem[symmetric]
      dest!: js_map_SomeD[OF sym] js_map_SomeD split: option.splits)

lemma indexed_find:
  "List.find (\<lambda>(_, x). P x) (enumerate n xs) = Some (i, x) \<Longrightarrow>
    n \<le> i \<and> i < n + length xs \<and> xs ! (i - n) = x \<and> P x"
  by (drule find_SomeD) (auto simp: in_set_enumerate_eq)

lemma teamParticipants_Some:
  assumes "distinct (map input_id (stage_item_inputs stageItem))"
  shows "teamParticipants stageItem i = Some t \<longleftrightarrow>
    (\<exists>f. Final f \<in> set (stage_item_inputs stageItem) \<and> final_id f = i \<and> final_team_id f = t)"
proof -
  have ids: "final_id f \<in> input_id ` set inputs" if "f \<in> set (finalInputs inputs)" for f inputs
    using that by (metis finalInputs_mem image_eqI input_id.simps(2))
  have "distinct (map final_id (finalInputs inputs))" if "distinct (map input_id inputs)" for inputs
    using that
  proof (induction inputs)
    case (Cons i inputs)
    show ?case
    proof (cases i)
      case (Final f)
      then have "finalInputs (i # inputs) = f # finalInputs inputs"
        by (simp add: finalInputs_def List.map_filter_simps)
      moreover have "final_id f \<notin> final_id ` set (finalInputs inputs)"
      proof
        assume "final_id f \<in> final_id ` set (finalInputs inputs)"
        then have "final_id f \<in> input_id ` set inputs" using ids by (metis imageE)
        with Cons.prems Final show False by simp
      qed
      ultimately show ?thesis using Cons by simp
    qed (use Cons in \<open>simp_all add: finalInputs_def List.map_filter_simps\<close>)
  qed (simp add: finalInputs_def List.map_filter_simps)
  then have "distinct (map fst (map (\<lambda>i. (final_id i, final_team_id i)) (finalInputs (stage_item_inputs stageItem))))"
    using assms by (simp add: o_def)
  then show ?thesis
    by (auto simp: teamParticipants_def finalInputs_mem[symmetric] dest!: js_map_SomeD intro: js_map_distinct)
qed

lemma teamParticipants_None:
  assumes "distinct (map input_id (stage_item_inputs stageItem))" "i \<in> set (stage_item_inputs stageItem)"
    and "\<not> hasTeam (Some i)"
  shows "teamParticipants stageItem (input_id i) = None"
proof (rule ccontr)
  assume "teamParticipants stageItem (input_id i) \<noteq> None"
  then obtain f where "Final f \<in> set (stage_item_inputs stageItem)" "final_id f = input_id i"
    using teamParticipants_Some[OF assms(1)] by auto
  then have "Final f = i"
    using assms(1,2) by (intro inj_onD[of input_id "set (stage_item_inputs stageItem)"]) (auto simp: distinct_map)
  with assms(3) show False by auto
qed

section \<open>Properties\<close>

text \<open>C19: The page of a team shows each of its matches once: the ones to come, headed by the next one, and
  the ones with a score, the latest first.\<close>

theorem team_page_matches:
  assumes "distinct (map fm_match (team_matches entries teamId))"
  shows "mset (comingUpMatches env (team_matches entries teamId)) + mset (playedMatches (team_matches entries teamId))
      = mset (filter (\<lambda>e. involvesTeam (fm_match e) teamId) entries) \<and>
    list_all (\<lambda>e. \<not> isScored (fm_match e)) (comingUpMatches env (team_matches entries teamId)) \<and>
    list_all (\<lambda>e. isScored (fm_match e)) (playedMatches (team_matches entries teamId)) \<and>
    (comingUpMatches env (team_matches entries teamId) = [] \<or>
      Some (hd (comingUpMatches env (team_matches entries teamId))) = nextMatch env (team_matches entries teamId))"
proof -
  let ?ms = "team_matches entries teamId"
  let ?open = "\<lambda>e. \<not> isScored (fm_match e)"
  have coming: "mset (comingUpMatches env ?ms) = mset (filter ?open ?ms) \<and>
      (comingUpMatches env ?ms = [] \<or> Some (hd (comingUpMatches env ?ms)) = nextMatch env ?ms)"
  proof (cases "nextMatch env ?ms")
    case None
    then have "filter ?open ?ms = []" by (auto simp: nextMatch_None filter_empty_conv)
    with None show ?thesis by (simp add: comingUpMatches_def)
  next
    case (Some n)
    then have "add_mset n (mset (filter (\<lambda>e. ?open e \<and> fm_match e \<noteq> fm_match n) ?ms)) = mset (filter ?open ?ms)"
      using nextMatch_mem[OF Some] assms by (intro filter_remove_one) auto
    with Some show ?thesis by (simp add: comingUpMatches_def)
  qed
  have played: "mset (playedMatches ?ms) = mset (filter (\<lambda>e. isScored (fm_match e)) ?ms)"
    by (simp add: playedMatches_def)
  have "mset (comingUpMatches env ?ms) + mset (playedMatches ?ms) = mset ?ms"
    using multiset_partition[of "mset ?ms" ?open] coming played by simp
  moreover have "set (comingUpMatches env ?ms) = set (filter ?open ?ms)"
    using coming by (metis set_mset_mset)
  moreover have "list_all (\<lambda>e. isScored (fm_match e)) (playedMatches ?ms)"
    by (simp add: playedMatches_def list_all_iff)
  ultimately show ?thesis
    using coming by (auto simp: team_matches_def list_all_iff)
qed

theorem team_page_matches_witness:
  "mset (comingUpMatches sampleClock (team_matches (map sampleEntry [matchA, matchC]) 11))
    + mset (playedMatches (team_matches (map sampleEntry [matchA, matchC]) 11))
    = {#sampleEntry matchA, sampleEntry matchC#}"
proof -
  have "team_matches (map sampleEntry [matchA, matchC]) 11 = map sampleEntry [matchA, matchC]"
    by (simp add: team_matches_def involvesTeam_def sampleEntry_def sample_defs)
  then have "distinct (map fm_match (team_matches (map sampleEntry [matchA, matchC]) 11))"
    by (simp add: sampleEntry_def sample_defs)
  from team_page_matches[OF this, of sampleClock] show ?thesis
    by (simp add: involvesTeam_def sampleEntry_def sample_defs)
qed

text \<open>C20: A placement on a team's page is a rank in a table the team plays in: the row is the team's own,
  the size is the number of rows of that table, the position lies between 1 and this size, and brackets have none.\<close>

theorem placement_in_table:
  assumes "p \<in> set (teamPlacements bundle teamId)"
  shows "final_team_id (entry_input (pl_entry p)) = teamId \<and>
    pl_size p = length (stageItemStandings (pl_stageItem p) (tb_standings bundle)) \<and>
    1 \<le> pl_position p \<and> pl_position p \<le> pl_size p \<and>
    stageItemStandings (pl_stageItem p) (tb_standings bundle) ! (pl_position p - 1) = pl_entry p \<and>
    stage_item_type (pl_stageItem p) \<noteq> SINGLE_ELIMINATION \<and>
    Final (entry_input (pl_entry p)) \<in> set (stage_item_inputs (pl_stageItem p))"
proof -
  obtain stage :: StageWithStageItems and item :: StageItemWithRounds where item: "item \<in> set (stage_stage_items stage)" "\<not> isBracket item"
    and p: "p \<in> set (stageItemPlacement (tb_standings bundle) teamId item)"
    using assms by (auto simp: teamPlacements_def intro: that)
  let ?entries = "stageItemStandings item (tb_standings bundle)"
  obtain i e where f: "List.find (\<lambda>(_, entry). final_team_id (entry_input entry) = teamId) (indexed ?entries) = Some (i, e)"
    and "p = \<lparr>pl_entry = e, pl_position = i + 1, pl_size = length ?entries, pl_stageItem = item\<rparr>"
    using p by (cases "List.find (\<lambda>(_, entry). final_team_id (entry_input entry) = teamId) (indexed ?entries)")
      (auto simp: stageItemPlacement_def Let_def)
  then show ?thesis
    using indexed_find[OF f] item(2) stageItemStandings_entry[of e item]
    by (auto simp: isBracket_def in_set_conv_nth)
qed

definition sampleStanding :: "int \<Rightarrow> StageItemInputStanding" where
  "sampleStanding i =
     \<lparr>standing_draws = 0, standing_losses = 0, standing_points = ''3'', standing_score_against = 1,
      standing_score_for = 3, standing_stage_item_input_id = i, standing_wins = 1\<rparr>"

definition sampleBundle :: TournamentBundle where
  "sampleBundle =
     \<lparr>tb_canManage = False, tb_tournament = sampleTournament 1 None,
      tb_stages = [sampleStage 1 [sampleItem 1 ROUND_ROBIN [Final input1, Final input2] [], sampleBracket]],
      tb_players = [], tb_teams = [], tb_rankings = [],
      tb_standings = [''1'' \<mapsto> [sampleStanding 2, sampleStanding 1]],
      tb_availableInputs = Map.empty, tb_nextStageRankings = Map.empty\<rparr>"

lemma sample_standings:
  "stageItemStandings (sampleItem 1 ROUND_ROBIN [Final input1, Final input2] [])
     [''1'' \<mapsto> [sampleStanding 2, sampleStanding 1]]
    = [\<lparr>entry_input = input2, entry_standing = sampleStanding 2\<rparr>,
       \<lparr>entry_input = input1, entry_standing = sampleStanding 1\<rparr>]"
  by code_simp

theorem placement_in_table_witness:
  "\<exists>p \<in> set (teamPlacements sampleBundle 11). 1 \<le> pl_position p \<and> pl_position p \<le> pl_size p \<and>
     pl_size p = length (stageItemStandings (pl_stageItem p) (tb_standings sampleBundle))"
proof -
  have "\<exists>p. p \<in> set (teamPlacements sampleBundle 11)"
    by (simp add: teamPlacements_def sampleBundle_def sampleStage_def sampleBracket_def isBracket_def
        stageItemPlacement_def sample_standings)
      (simp add: sample_defs)
  then show ?thesis using placement_in_table by blast
qed

text \<open>The tables of the standings: a stage item has one exactly when it is not a bracket and has rows;
  its rows are the ranking of the backend in its order, without inputs that hold no team.\<close>

lemma standings_tables_complete:
  "map (\<lambda>t. (st_stage t, st_stageItem t)) (standingsTables stages standings) =
     filter (\<lambda>(stage, s). \<not> isBracket s \<and> stageItemStandings s standings \<noteq> [])
       (concat (map (\<lambda>stage. map (Pair stage) (stage_stage_items stage)) stages)) \<and>
   list_all (\<lambda>t. st_entries t = stageItemStandings (st_stageItem t) standings \<and>
       map entry_standing (st_entries t) =
         filter (\<lambda>r. standing_stage_item_input_id r \<in> final_id ` set (finalInputs (stage_item_inputs (st_stageItem t))))
           (nullish (standings (int_text (stage_item_id (st_stageItem t)))) []))
     (standingsTables stages standings)"
proof -
  have keep: "map entry_standing (concat (map (\<lambda>r. case m (standing_stage_item_input_id r) of None \<Rightarrow> []
        | Some i \<Rightarrow> [\<lparr>entry_input = i, entry_standing = r\<rparr>]) rs))
      = filter (\<lambda>r. m (standing_stage_item_input_id r) \<noteq> None) rs" for m rs
    by (induction rs) (auto split: option.splits)
  have known: "(\<exists>i. js_map (map (\<lambda>i. (final_id i, i)) inputs) k = Some i) \<longleftrightarrow> k \<in> final_id ` set inputs"
    for k inputs
    using js_map_None[of "map (\<lambda>i. (final_id i, i)) inputs" k] by (auto simp: image_image)
  have rows: "map entry_standing (stageItemStandings s standings) =
      filter (\<lambda>r. standing_stage_item_input_id r \<in> final_id ` set (finalInputs (stage_item_inputs s)))
        (nullish (standings (int_text (stage_item_id s))) [])" for s
    by (simp add: stageItemStandings_def keep known)
  have "map (\<lambda>t. (st_stage t, st_stageItem t)) (standingsTables stages standings) =
     filter (\<lambda>(stage, s). \<not> isBracket s \<and> stageItemStandings s standings \<noteq> [])
       (concat (map (\<lambda>stage. map (Pair stage) (stage_stage_items stage)) stages))"
    by (induction stages)
      (simp_all add: standingsTables_def filter_map o_def filter_filter case_prod_unfold conj_commute)
  then show ?thesis
    by (auto simp: list_all_iff rows standingsTables_def)
qed

text \<open>The overview announces matches consistently: under \<open>Playing now\<close> it shows all and only matches
  being played; otherwise the cards are scheduled matches. At most six matches to come and six results are
  listed, results with the latest first, and no match is both announced and a result.\<close>

lemma overview_matches:
  "let v = OverviewSection env context bundle entries;
       live = filter (\<lambda>e. matchStatus env (fm_match e) = Live) entries
   in (if ov_heading v = ''Playing now'' then ov_cards v = live \<and> live \<noteq> []
       else live = [] \<and> length (ov_cards v) \<le> 6 \<and>
            list_all (\<lambda>e. matchStatus env (fm_match e) = Scheduled) (ov_cards v)) \<and>
      length (nullish (ov_next v) []) \<le> 6 \<and> length (ov_results v) \<le> 6 \<and>
      (\<exists>older. filter (\<lambda>e. matchStatus env (fm_match e) = Finished) entries = older @ rev (ov_results v)) \<and>
      ov_nothing v = (ov_cards v = []) \<and>
      set (ov_cards v) \<inter> set (ov_results v) = {}"
proof -
  have split: "\<exists>older. xs = older @ take_last n xs" for n and xs :: "FlattenedMatch list"
    by (metis append_take_drop_id take_last_def)
  have fin: "matchStatus env (fm_match e) = Finished"
    if "e \<in> set (take_last 6 (filter (\<lambda>e. matchStatus env (fm_match e) = Finished) entries))" for e
    using that set_take_last by fastforce
  have sched: "matchStatus env (fm_match e) = Scheduled"
    if "e \<in> set (take 6 (filter (\<lambda>e. matchStatus env (fm_match e) = Scheduled) entries))" for e
    using that by (auto dest: in_set_takeD)
  show ?thesis
    using split by (auto simp: OverviewSection_def Let_def list_all_iff dest!: fin sched)
qed

end
