(* ===== verification/TournamentPage.thy ===== *)
theory TournamentPage
  imports TournamentViews ApiBundle
begin

text \<open>
  The pages of a tournament (\<open>frontend/src/app/pages/tournament-page.tsx\<close>) and the table of routes
  (\<open>frontend/src/app.tsx\<close>): who may open which section, where everyone else is sent, which tabs lead
  where, and what each section shows.
\<close>

section \<open>Routes\<close>

definition TOURNAMENT_ROUTES :: "(string \<times> TournamentSection) list" where
  "TOURNAMENT_ROUTES =
    [('''', Overview),
     (''/players'', Players),
     (''/teams'', Teams),
     (''/schedule'', Schedule),
     (''/rankings'', Rankings),
     (''/settings'', Settings),
     (''/stages'', Stages),
     (''/stages/swiss/:stageItemId'', Stages),
     (''/dashboard'', Dashboard),
     (''/dashboard/schedule'', DashboardSchedule),
     (''/dashboard/standings'', DashboardStandings),
     (''/dashboard/bracket'', DashboardBracket),
     (''/dashboard/teams'', DashboardTeams),
     (''/dashboard/teams/:teamId'', DashboardTeam),
     (''/dashboard/present/schedule'', DashboardPresentSchedule),
     (''/dashboard/present/standings'', DashboardPresentStandings)]"

text \<open>The address of a route without parameters, for a tournament.\<close>

definition routeAddress :: "string \<Rightarrow> string \<Rightarrow> string" where
  "routeAddress tournamentKey path = ''/tournaments/'' @ tournamentKey @ path"

definition dashboardSection :: "TournamentSection \<Rightarrow> bool" where
  "dashboardSection section = starts_with (section_name section) ''dashboard''"

definition bigScreenSection :: "TournamentSection \<Rightarrow> bool" where
  "bigScreenSection section = starts_with (section_name section) ''dashboard-present''"

fun managementSection :: "TournamentSection \<Rightarrow> bool" where
  "managementSection Players = True"
| "managementSection Rankings = True"
| "managementSection Settings = True"
| "managementSection Stages = True"
| "managementSection Teams = True"
| "managementSection _ = False"

fun detailsSuffix :: "TournamentSection \<Rightarrow> string option" where
  "detailsSuffix Overview = Some []"
| "detailsSuffix Schedule = Some ''/schedule''"
| "detailsSuffix _ = None"

fun sectionTitle :: "TournamentSection \<Rightarrow> string option" where
  "sectionTitle DashboardBracket = Some ''Bracket''"
| "sectionTitle DashboardPresentSchedule = Some ''Now and next''"
| "sectionTitle DashboardPresentStandings = Some ''Standings''"
| "sectionTitle DashboardSchedule = Some ''Schedule''"
| "sectionTitle DashboardStandings = Some ''Standings''"
| "sectionTitle DashboardTeams = Some ''Teams''"
| "sectionTitle Players = Some ''Players''"
| "sectionTitle Rankings = Some ''Rankings''"
| "sectionTitle Schedule = Some ''Schedule''"
| "sectionTitle Settings = Some ''Settings''"
| "sectionTitle Stages = Some ''Stages''"
| "sectionTitle Teams = Some ''Teams''"
| "sectionTitle _ = None"

section \<open>Tabs\<close>

record Tab =
  tab_end :: bool
  tab_label :: string
  tab_to :: string

definition detailsTabs :: "string \<Rightarrow> StageWithStageItems list \<Rightarrow> Tab list" where
  "detailsTabs publicPath stages =
     (let stageItems = List.maps stage_stage_items stages
      in [\<lparr>tab_end = True, tab_label = ''Overview'', tab_to = publicPath\<rparr>,
          \<lparr>tab_end = False, tab_label = ''Schedule'', tab_to = publicPath @ ''/schedule''\<rparr>]
         @ (if list_ex (\<lambda>s. \<not> isBracket s) stageItems
            then [\<lparr>tab_end = False, tab_label = ''Standings'', tab_to = publicPath @ ''/standings''\<rparr>] else [])
         @ (if list_ex hasBracketView stageItems
            then [\<lparr>tab_end = False, tab_label = ''Bracket'', tab_to = publicPath @ ''/bracket''\<rparr>] else [])
         @ [\<lparr>tab_end = False, tab_label = ''Teams'', tab_to = publicPath @ ''/teams''\<rparr>])"

definition workspaceTabs :: "int \<Rightarrow> Tab list" where
  "workspaceTabs tournamentId =
     (let base = ''/tournaments/'' @ int_text tournamentId
      in [\<lparr>tab_end = True, tab_label = ''Overview'', tab_to = base\<rparr>,
          \<lparr>tab_end = False, tab_label = ''Players'', tab_to = base @ ''/players''\<rparr>,
          \<lparr>tab_end = False, tab_label = ''Teams'', tab_to = base @ ''/teams''\<rparr>,
          \<lparr>tab_end = False, tab_label = ''Stages'', tab_to = base @ ''/stages''\<rparr>,
          \<lparr>tab_end = False, tab_label = ''Schedule'', tab_to = base @ ''/schedule''\<rparr>,
          \<lparr>tab_end = False, tab_label = ''Rankings'', tab_to = base @ ''/rankings''\<rparr>,
          \<lparr>tab_end = False, tab_label = ''Settings'', tab_to = base @ ''/settings''\<rparr>])"

section \<open>The view\<close>

text \<open>What a section renders, with the props it is given.\<close>

datatype PageContent =
    OverviewContent OverviewView
  | ScheduleContent ScheduleView
  | StandingsContent StandingsView
  | BracketContent "(string \<times> BracketView list) option"
  | TeamsContent "FullTeamWithPlayers list"
  | TeamContent "TeamDetailView option"
  | BigScheduleContent ScheduleBody
  | BigStandingsContent "StandingsView option" "(string \<times> BracketView list) option"
  | NoBracketYet
  | PlayersEditor
  | TeamsEditor
  | RankingsEditor
  | SettingsEditor
  | StagesEditor "StageItemWithRounds option"
  | Redirect string

record PageEnv =
  pe_env :: js_env
  pe_nf :: number_format

record PageView =
  pv_context :: TournamentContextValue
  pv_title :: string
  pv_content :: PageContent
  pv_action :: "(string \<times> string) option"
  pv_tabs :: "Tab list option" \<comment> \<open>none on a big screen\<close>
  pv_counts :: "nat \<times> nat" \<comment> \<open>matches played, matches\<close>

definition stageItemsOf :: "StageWithStageItems list \<Rightarrow> StageItemWithRounds list" where
  "stageItemsOf stages = List.maps stage_stage_items stages"

definition stageItemsById :: "StageWithStageItems list \<Rightarrow> int \<rightharpoonup> StageItemWithRounds" where
  "stageItemsById stages = js_map (map (\<lambda>s. (stage_item_id s, s)) (stageItemsOf stages))"

definition teamMap :: "FullTeamWithPlayers list \<Rightarrow> int \<rightharpoonup> FullTeamWithPlayers" where
  "teamMap teams = js_map (map (\<lambda>t. (full_team_id t, t)) teams)"

definition num_lookup :: "(int \<rightharpoonup> 'a) \<Rightarrow> js_num option \<Rightarrow> 'a option" where
  "num_lookup m n = (case Option.bind n int_of_num of None \<Rightarrow> None | Some i \<Rightarrow> m i)"

definition viewContext ::
  "TournamentSection \<Rightarrow> string \<Rightarrow> TournamentBundle \<Rightarrow> int option \<Rightarrow> TournamentContextValue" where
  "viewContext section tournamentKey bundle rememberedTeamId =
     \<lparr>tc_isBigScreen = bigScreenSection section,
      tc_myTeamId = (if \<not> bigScreenSection section \<and>
          teamMap (tb_teams bundle) (nullish rememberedTeamId (-1)) \<noteq> None
        then rememberedTeamId else None),
      tc_publicPath = (if dashboardSection section
        then ''/tournaments/'' @ tournamentKey @ ''/dashboard''
        else publicTournamentPath (tb_tournament bundle))\<rparr>"

definition pageContent ::
  "PageEnv \<Rightarrow> 'd date_fns \<Rightarrow> TournamentSection \<Rightarrow> TournamentBundle \<Rightarrow> TournamentContextValue \<Rightarrow>
   js_num option \<Rightarrow> js_num option \<Rightarrow> PageContent" where
  "pageContent pe df section bundle context stageItemId teamId =
     (let stages = tb_stages bundle;
          byId = stageItemsById stages;
          teams = teamMap (tb_teams bundle);
          tid = tournament_id (tb_tournament bundle);
          entries = tournamentMatches (pe_env pe) stages;
          publicPath = tc_publicPath context;
          hasGroups = list_ex (\<lambda>s. \<not> isBracket s) (stageItemsOf stages);
          hasBrackets = list_ex hasBracketView (stageItemsOf stages);
          standings = \<lambda>small. StandingsSection (pe_nf pe) context small (tb_rankings bundle) stages
            (tb_standings bundle) teams;
          schedule = ScheduleSection (pe_env pe) df context byId (publicPath @ ''/present/schedule'')
            (\<not> dashboardSection section) entries
      in case section of
           Overview \<Rightarrow> OverviewContent (OverviewSection (pe_env pe) context bundle entries)
         | Dashboard \<Rightarrow> OverviewContent (OverviewSection (pe_env pe) context bundle entries)
         | Schedule \<Rightarrow> ScheduleContent schedule
         | DashboardSchedule \<Rightarrow> ScheduleContent schedule
         | DashboardStandings \<Rightarrow>
             if \<not> hasGroups \<and> hasBrackets then Redirect (publicPath @ ''/bracket'')
             else StandingsContent (standings False)
         | DashboardBracket \<Rightarrow>
             if hasBrackets then BracketContent (BracketSection stages byId tid)
             else if hasGroups then Redirect (publicPath @ ''/standings'')
             else NoBracketYet
         | DashboardTeams \<Rightarrow> TeamsContent (tb_teams bundle)
         | DashboardTeam \<Rightarrow>
             TeamContent (TeamDetailSection (pe_env pe) context bundle entries teamId)
         | DashboardPresentSchedule \<Rightarrow>
             BigScheduleContent (BigScreenSchedule (pe_env pe) df context byId entries)
         | DashboardPresentStandings \<Rightarrow>
             BigStandingsContent
               (if hasGroups \<or> \<not> hasBrackets then Some (standings True) else None)
               (BracketSection stages byId tid)
         | Players \<Rightarrow> PlayersEditor
         | Teams \<Rightarrow> TeamsEditor
         | Rankings \<Rightarrow> RankingsEditor
         | Settings \<Rightarrow> SettingsEditor
         | Stages \<Rightarrow>
             StagesEditor (if stageItemId = Some (Fin 0) then None else num_lookup byId stageItemId))"

definition TournamentView ::
  "PageEnv \<Rightarrow> 'd date_fns \<Rightarrow> TournamentSection \<Rightarrow> TournamentBundle \<Rightarrow> int option \<Rightarrow> string \<Rightarrow>
   js_num option \<Rightarrow> js_num option \<Rightarrow> PageView" where
  "TournamentView pe df section bundle rememberedTeamId tournamentKey stageItemId teamId =
     (let tournament = tb_tournament bundle;
          context = viewContext section tournamentKey bundle rememberedTeamId;
          publicPath = tc_publicPath context;
          entries = tournamentMatches (pe_env pe) (tb_stages bundle);
          pageTitle = (if section = DashboardTeam
             then map_option full_team_name
               (num_lookup (teamMap (tb_teams bundle)) (Some (nullish teamId (num_of_int (-1)))))
             else sectionTitle section)
      in \<lparr>pv_context = context,
          pv_title = join ('' '' @ middle_dot @ '' '')
            (filter (\<lambda>s. s \<noteq> []) [nullish pageTitle [], tournament_name tournament, ''Ctrl-Alt-GG Bracket'']),
          pv_content = pageContent pe df section bundle context stageItemId teamId,
          pv_action =
            (if bigScreenSection section
             then Some (''Exit big screen'',
               if section = DashboardPresentSchedule then publicPath @ ''/schedule'' else publicPath)
             else if dashboardSection section
             then (if tb_canManage bundle
                   then Some (''Manage'', ''/tournaments/'' @ int_text (tournament_id tournament)) else None)
             else Some (''Details'', publicPath)),
          pv_tabs = (if bigScreenSection section then None
             else Some (if dashboardSection section then detailsTabs publicPath (tb_stages bundle)
                        else workspaceTabs (tournament_id tournament))),
          pv_counts = (length (filter (\<lambda>e. isScored (fm_match e)) entries), length entries)\<rparr>)"

section \<open>The page\<close>

text \<open>The state of \<open>useQuery\<close>: still loading, or data (which a failed refetch keeps) or an error.\<close>

record WorkspaceQuery =
  wq_isPending :: bool
  wq_data :: "TournamentBundle option"
  wq_error :: request_error

datatype PageResult =
    NavigateTo string
  | OrganizersOnly
  | LoadingPage
  | UnableToLoad string
  | ReadOnly string
  | ShowView PageView

definition sendVisitorToDetails :: "TournamentSection \<Rightarrow> bool \<Rightarrow> bool" where
  "sendVisitorToDetails section isAuthenticated =
     (\<not> dashboardSection section \<and> \<not> isAuthenticated \<and> detailsSuffix section \<noteq> None)"

definition isLockedOut :: "TournamentSection \<Rightarrow> bool \<Rightarrow> bool" where
  "isLockedOut section isAuthenticated = (managementSection section \<and> \<not> isAuthenticated)"

text \<open>Whether the page loads the tournament at all.\<close>

definition queryEnabled :: "TournamentSection \<Rightarrow> string \<Rightarrow> bool \<Rightarrow> bool" where
  "queryEnabled section tournamentKey isAuthenticated =
     (tournamentKey \<noteq> [] \<and> \<not> isLockedOut section isAuthenticated \<and>
      \<not> sendVisitorToDetails section isAuthenticated)"

definition refetchInterval :: "TournamentSection \<Rightarrow> int option" where
  "refetchInterval section = (if dashboardSection section then Some 30000 else None)"

definition detailsAddress :: "string \<Rightarrow> TournamentSection \<Rightarrow> string" where
  "detailsAddress tournamentKey section =
     ''/tournaments/'' @ tournamentKey @ ''/dashboard'' @ nullish (detailsSuffix section) []"

definition number_param :: "string option \<Rightarrow> js_num option" where
  "number_param p = (case p of None \<Rightarrow> None | Some s \<Rightarrow> if s = [] then None else Some (to_number s))"

definition TournamentPage ::
  "PageEnv \<Rightarrow> 'd date_fns \<Rightarrow> TournamentSection \<Rightarrow> string option \<Rightarrow> string option \<Rightarrow> string option \<Rightarrow>
   Session \<Rightarrow> int option \<Rightarrow> WorkspaceQuery \<Rightarrow> PageResult" where
  "TournamentPage pe df section keyParam stageItemParam teamParam session rememberedTeamId workspace =
     (let tournamentKey = nullish keyParam [];
          isAuthenticated = (session \<noteq> None)
      in if sendVisitorToDetails section isAuthenticated
         then NavigateTo (detailsAddress tournamentKey section)
         else if isLockedOut section isAuthenticated then OrganizersOnly
         else if wq_isPending workspace then LoadingPage
         else (case wq_data workspace of
            None \<Rightarrow> UnableToLoad (getErrorMessage (wq_error workspace))
          | Some bundle \<Rightarrow>
             if \<not> dashboardSection section \<and> \<not> tb_canManage bundle \<and> detailsSuffix section \<noteq> None
             then NavigateTo (detailsAddress tournamentKey section)
             else if managementSection section \<and> \<not> tb_canManage bundle
             then ReadOnly (publicTournamentPath (tb_tournament bundle))
             else ShowView (TournamentView pe df section bundle rememberedTeamId tournamentKey
               (number_param stageItemParam) (number_param teamParam))))"

section \<open>Facts about sections\<close>

lemma dashboardSection_iff:
  "dashboardSection s \<longleftrightarrow>
    s \<in> {Dashboard, DashboardSchedule, DashboardStandings, DashboardBracket, DashboardTeams,
         DashboardTeam, DashboardPresentSchedule, DashboardPresentStandings}"
  by (cases s) (simp_all add: dashboardSection_def starts_with_def)

lemma bigScreenSection_iff:
  "bigScreenSection s \<longleftrightarrow> s \<in> {DashboardPresentSchedule, DashboardPresentStandings}"
  by (cases s) (simp_all add: bigScreenSection_def starts_with_def)

text \<open>Every section is a Details page, an editor, or has a Details page to fall back to.\<close>

lemma section_cases:
  "dashboardSection s \<or> managementSection s \<or> detailsSuffix s \<noteq> None"
  by (cases s) (simp_all add: dashboardSection_iff)

lemmas section_defs = dashboardSection_iff bigScreenSection_iff sendVisitorToDetails_def isLockedOut_def

lemma details_address_route:
  "detailsSuffix section = Some suffix \<Longrightarrow>
    detailsAddress key section = routeAddress key (''/dashboard'' @ suffix) \<and>
    (''/dashboard'' @ suffix, if section = Overview then Dashboard else DashboardSchedule) \<in> set TOURNAMENT_ROUTES"
  by (cases "section") (simp_all add: detailsAddress_def routeAddress_def TOURNAMENT_ROUTES_def)

lemma page_navigates:
  "TournamentPage pe df section keyParam itemParam teamParam session remembered workspace = NavigateTo a \<Longrightarrow>
    a = detailsAddress (nullish keyParam []) section \<and> \<not> dashboardSection section \<and> detailsSuffix section \<noteq> None"
  by (auto simp: TournamentPage_def Let_def sendVisitorToDetails_def split: if_splits option.splits)

lemma dashboard_never_navigates:
  "dashboardSection section \<Longrightarrow>
    TournamentPage pe df section keyParam itemParam teamParam session remembered workspace \<noteq> NavigateTo a"
  using page_navigates by blast

section \<open>Properties\<close>

text \<open>C3: Only organizers reach the workspace: a page outside the Details pages shows its content only to a
  signed-in user whose bundle can be managed, and an editor appears on no other page.\<close>

theorem workspace_needs_organizer:
  assumes "TournamentPage pe df section keyParam itemParam teamParam session remembered workspace = ShowView v"
  shows "(dashboardSection section \<or>
      session \<noteq> None \<and> (\<exists>b. wq_data workspace = Some b \<and> tb_canManage b)) \<and>
    (pv_content v \<in> {PlayersEditor, TeamsEditor, RankingsEditor, SettingsEditor} \<union> range StagesEditor
      \<longleftrightarrow> managementSection section)"
proof -
  obtain b where b: "wq_data workspace = Some b"
    and v: "v = TournamentView pe df section b remembered (nullish keyParam []) (number_param itemParam) (number_param teamParam)"
    and rest: "\<not> sendVisitorToDetails section (session \<noteq> None)" "\<not> isLockedOut section (session \<noteq> None)"
      "\<not> (\<not> dashboardSection section \<and> \<not> tb_canManage b \<and> detailsSuffix section \<noteq> None)"
      "\<not> (managementSection section \<and> \<not> tb_canManage b)"
    using assms by (auto simp: TournamentPage_def Let_def split: if_splits option.splits)
  have "pv_content v \<in> {PlayersEditor, TeamsEditor, RankingsEditor, SettingsEditor} \<union> range StagesEditor
      \<longleftrightarrow> managementSection section"
    by (cases "section") (simp_all add: v TournamentView_def pageContent_def Let_def image_iff)
  then show ?thesis
    using b rest section_cases[of "section"] by (auto simp: sendVisitorToDetails_def isLockedOut_def)
qed

definition samplePageEnv :: PageEnv where
  "samplePageEnv = \<lparr>pe_env = sampleClock, pe_nf = \<lparr>nf_points = (\<lambda>_. []), nf_signed = int_text\<rparr>\<rparr>"

definition sampleQuery :: "bool \<Rightarrow> WorkspaceQuery" where
  "sampleQuery canManage =
     \<lparr>wq_isPending = False, wq_data = Some (sampleBundle\<lparr>tb_canManage := canManage\<rparr>),
      wq_error = \<lparr>error_status = None, error_detail_of = None, error_message = None\<rparr>\<rparr>"

theorem workspace_needs_organizer_witness:
  "\<exists>v. TournamentPage samplePageEnv sampleDates Players (Some ''1'') None None
      (Some \<lparr>session_name = ''Ada'', session_user_id = 1\<rparr>) None (sampleQuery True) = ShowView v \<and>
    pv_content v \<in> {PlayersEditor, TeamsEditor, RankingsEditor, SettingsEditor} \<union> range StagesEditor"
proof -
  obtain v where v: "TournamentPage samplePageEnv sampleDates Players (Some ''1'') None None
      (Some \<lparr>session_name = ''Ada'', session_user_id = 1\<rparr>) None (sampleQuery True) = ShowView v"
    by (simp add: TournamentPage_def Let_def section_defs sampleQuery_def)
  from workspace_needs_organizer[OF v] show ?thesis using v by simp
qed

text \<open>Where a page sends the browser on: instead of the page, or as its content.\<close>

fun sends_on :: "PageResult \<Rightarrow> string option" where
  "sends_on (NavigateTo a) = Some a"
| "sends_on (ShowView v) = (case pv_content v of Redirect a \<Rightarrow> Some a | _ \<Rightarrow> None)"
| "sends_on _ = None"

lemma page_shows:
  "TournamentPage pe df section keyParam itemParam teamParam session remembered workspace = ShowView v \<Longrightarrow>
    \<exists>b. wq_data workspace = Some b \<and> \<not> wq_isPending workspace \<and>
      pv_content v = pageContent pe df section b (viewContext section (nullish keyParam []) b remembered)
        (number_param itemParam) (number_param teamParam)"
  by (auto simp: TournamentPage_def Let_def TournamentView_def split: if_splits option.splits)

lemma redirecting_section:
  "pageContent pe df section b context itemId teamId = Redirect a \<Longrightarrow> section \<in> {DashboardStandings, DashboardBracket}"
  by (cases "section") (simp_all add: pageContent_def Let_def)

lemma sends_on_cases:
  assumes "sends_on (TournamentPage pe df section keyParam itemParam teamParam session remembered workspace) = Some a"
  shows "a = detailsAddress (nullish keyParam []) section \<and> detailsSuffix section \<noteq> None \<or>
    (\<exists>b. wq_data workspace = Some b \<and> \<not> wq_isPending workspace \<and> dashboardSection section \<and>
      pageContent pe df section b (viewContext section (nullish keyParam []) b remembered)
        (number_param itemParam) (number_param teamParam) = Redirect a)"
proof (cases "TournamentPage pe df section keyParam itemParam teamParam session remembered workspace")
  case (NavigateTo a')
  then show ?thesis using assms page_navigates[OF NavigateTo] by simp
next
  case (ShowView v)
  then have "pv_content v = Redirect a" using assms by (simp split: PageContent.splits)
  then show ?thesis using page_shows[OF ShowView] redirecting_section by (fastforce simp: dashboardSection_iff)
qed (use assms in simp_all)

lemma stays_on_details:
  assumes "section \<in> {Dashboard, DashboardSchedule}"
  shows "sends_on (TournamentPage pe df section keyParam itemParam teamParam session remembered workspace) = None"
proof (rule ccontr)
  assume "\<not> ?thesis"
  then obtain a where "sends_on (TournamentPage pe df section keyParam itemParam teamParam session remembered workspace) = Some a"
    by blast
  from sends_on_cases[OF this] redirecting_section show False using assms by fastforce
qed

text \<open>The standings and the bracket, for one tournament: at most one of them sends on.\<close>

lemma other_one_stays:
  assumes "pageContent pe df section b context itemId teamId = Redirect a"
  obtains other suffix where "a = tc_publicPath context @ suffix" "(''/dashboard'' @ suffix, other) \<in> set TOURNAMENT_ROUTES"
    "other \<in> {DashboardStandings, DashboardBracket}" "section \<in> {DashboardStandings, DashboardBracket}"
    "\<And>context0 itemId' teamId' a'. pageContent pe df other b context0 itemId' teamId' \<noteq> Redirect a'"
proof (cases "section = DashboardStandings")
  case True
  then show thesis using assms that[of "''/bracket''" DashboardBracket]
    by (auto simp: pageContent_def Let_def TOURNAMENT_ROUTES_def split: if_splits)
next
  case False
  then show thesis using assms that[of "''/standings''" DashboardStandings]
    by (cases "section") (auto simp: pageContent_def Let_def TOURNAMENT_ROUTES_def split: if_splits)
qed

text \<open>C21: Whoever is sent on arrives. Wherever a page of a tournament sends the browser - from the workspace to the
  Details pages, or between the standings and the bracket - is a Details page of the same tournament with a
  route, and that page does not send it on: for the standings and the bracket with the tournament as it is
  loaded, for the others whoever is signed in and whatever is loaded.\<close>

theorem redirect_arrives:
  assumes "sends_on (TournamentPage pe df section keyParam itemParam teamParam session remembered workspace) = Some a"
  shows "\<exists>path target. (path, target) \<in> set TOURNAMENT_ROUTES \<and> a = routeAddress (nullish keyParam []) path \<and>
    dashboardSection target \<and>
    (\<forall>session' workspace'. (target \<in> {DashboardStandings, DashboardBracket} \<longrightarrow> workspace' = workspace) \<longrightarrow>
      sends_on (TournamentPage pe df target keyParam None None session' remembered workspace') = None)"
  using sends_on_cases[OF assms]
proof (elim disjE exE conjE)
  let ?target = "if section = Overview then Dashboard else DashboardSchedule"
  assume a: "a = detailsAddress (nullish keyParam []) section" and "detailsSuffix section \<noteq> None"
  then obtain suffix where suffix: "detailsSuffix section = Some suffix" by blast
  note route = details_address_route[OF suffix, of "nullish keyParam []"]
  show ?thesis
  proof (intro exI conjI allI impI)
    show "(''/dashboard'' @ suffix, ?target) \<in> set TOURNAMENT_ROUTES" using route by blast
    show "a = routeAddress (nullish keyParam []) (''/dashboard'' @ suffix)" unfolding a using route by blast
    show "dashboardSection ?target" by (simp add: dashboardSection_iff)
    show "sends_on (TournamentPage pe df ?target keyParam None None session' remembered workspace') = None"
      for session' workspace' by (rule stays_on_details) simp
  qed
next
  fix b
  let ?ctx = "viewContext section (nullish keyParam []) b remembered"
  assume b: "wq_data workspace = Some b" "\<not> wq_isPending workspace" "dashboardSection section"
    and r: "pageContent pe df section b ?ctx (number_param itemParam) (number_param teamParam) = Redirect a"
  from r show ?thesis
  proof (rule other_one_stays)
    fix other suffix
    assume o: "a = tc_publicPath ?ctx @ suffix" "(''/dashboard'' @ suffix, other) \<in> set TOURNAMENT_ROUTES"
      "other \<in> {DashboardStandings, DashboardBracket}"
      and stays: "\<And>context0 itemId' teamId' a'. pageContent pe df other b context0 itemId' teamId' \<noteq> Redirect a'"
    have "a = routeAddress (nullish keyParam []) (''/dashboard'' @ suffix)"
      using o(1) b(3) by (simp add: viewContext_def routeAddress_def)
    moreover have "sends_on (TournamentPage pe df other keyParam None None session' remembered workspace) = None" for session'
    proof (rule ccontr)
      assume "\<not> ?thesis"
      then obtain a' where
        "sends_on (TournamentPage pe df other keyParam None None session' remembered workspace) = Some a'" by blast
      moreover have "detailsSuffix other = None" using o(3) by auto
      ultimately show False using sends_on_cases b(1) stays by (metis option.inject)
    qed
    moreover have "dashboardSection other" using o(3) by (auto simp: dashboardSection_iff)
    ultimately show ?thesis using o(2,3) by (intro exI[of _ "''/dashboard'' @ suffix"] exI[of _ other]) simp
  qed
qed

definition bracketQuery :: WorkspaceQuery where
  "bracketQuery = (sampleQuery False)\<lparr>wq_data := Some (sampleBundle\<lparr>tb_stages := [sampleStage 1 [sampleBracket]]\<rparr>)\<rparr>"

theorem redirect_arrives_witness:
  "\<exists>path target. (path, target) \<in> set TOURNAMENT_ROUTES \<and>
    ''/tournaments/1/dashboard/bracket'' = routeAddress ''1'' path \<and> dashboardSection target"
proof -
  have "sends_on (TournamentPage samplePageEnv sampleDates DashboardStandings (Some ''1'') None None None None bracketQuery)
      = Some ''/tournaments/1/dashboard/bracket''"
    by (simp add: TournamentPage_def TournamentView_def pageContent_def Let_def section_defs bracketQuery_def sampleQuery_def
        viewContext_def stageItemsOf_def isBracket_def hasBracketView_def sample_defs)
  from redirect_arrives[OF this] show ?thesis by auto
qed

text \<open>The tab that a content belongs to. The notice that there is no bracket yet, and a section without any
  bracket, belong to none.\<close>

fun content_tab :: "PageContent \<Rightarrow> string option" where
  "content_tab (OverviewContent _) = Some ''Overview''"
| "content_tab (ScheduleContent _) = Some ''Schedule''"
| "content_tab (StandingsContent _) = Some ''Standings''"
| "content_tab (BracketContent (Some (_, _ # _))) = Some ''Bracket''"
| "content_tab (TeamsContent _) = Some ''Teams''"
| "content_tab PlayersEditor = Some ''Players''"
| "content_tab TeamsEditor = Some ''Teams''"
| "content_tab RankingsEditor = Some ''Rankings''"
| "content_tab SettingsEditor = Some ''Settings''"
| "content_tab (StagesEditor _) = Some ''Stages''"
| "content_tab _ = None"

lemma bracket_content:
  "list_ex hasBracketView (stageItemsOf stages) \<longleftrightarrow>
    (\<exists>title v vs. BracketSection stages byId tid = Some (title, v # vs))"
proof -
  have "list_ex hasBracketView (stageItemsOf stages) \<longleftrightarrow> bracketStageItems stages \<noteq> []"
    by (induction stages) (auto simp: bracketStageItems_def stageItemsOf_def list_ex_iff filter_empty_conv)
  then show ?thesis by (auto simp: BracketSection_def Let_def neq_Nil_conv)
qed

lemma group_tables:
  "standingsTables stages standings \<noteq> [] \<Longrightarrow> list_ex (\<lambda>i. \<not> isBracket i) (stageItemsOf stages)"
  by (induction stages) (auto simp: standingsTables_def stageItemsOf_def list_ex_iff filter_empty_conv)

text \<open>The content that a section has for its tab.\<close>

lemma section_content:
  "s \<in> {Overview, Dashboard} \<Longrightarrow> content_tab (pageContent pe df s bundle context itemId teamId) = Some ''Overview''"
  "s \<in> {Schedule, DashboardSchedule} \<Longrightarrow> content_tab (pageContent pe df s bundle context itemId teamId) = Some ''Schedule''"
  "s \<in> {Teams, DashboardTeams} \<Longrightarrow> content_tab (pageContent pe df s bundle context itemId teamId) = Some ''Teams''"
  "content_tab (pageContent pe df Players bundle context itemId teamId) = Some ''Players''"
  "content_tab (pageContent pe df Rankings bundle context itemId teamId) = Some ''Rankings''"
  "content_tab (pageContent pe df Settings bundle context itemId teamId) = Some ''Settings''"
  "content_tab (pageContent pe df Stages bundle context itemId teamId) = Some ''Stages''"
  "list_ex (\<lambda>i. \<not> isBracket i) (stageItemsOf (tb_stages bundle)) \<Longrightarrow>
    content_tab (pageContent pe df DashboardStandings bundle context itemId teamId) = Some ''Standings''"
  by (auto simp: pageContent_def Let_def)

lemma bracket_tab_content:
  "content_tab (pageContent pe df DashboardBracket bundle context itemId teamId) = Some ''Bracket'' \<longleftrightarrow>
    list_ex hasBracketView (stageItemsOf (tb_stages bundle))"
  using bracket_content[of "tb_stages bundle" "stageItemsById (tb_stages bundle)" "tournament_id (tb_tournament bundle)"]
  by (auto simp: pageContent_def Let_def)

lemma workspace_tabs_routed:
  "\<forall>tab \<in> set (workspaceTabs tid).
    \<exists>path section. (path, section) \<in> set TOURNAMENT_ROUTES \<and> tab_to tab = routeAddress (int_text tid) path \<and>
      \<not> dashboardSection section \<and> sectionTitle section \<in> {None, Some (tab_label tab)} \<and>
      content_tab (pageContent pe df section bundle context itemId teamId) = Some (tab_label tab)"
proof -
  define good where "good tab \<longleftrightarrow> (\<exists>path section. (path, section) \<in> set TOURNAMENT_ROUTES \<and>
      tab_to tab = routeAddress (int_text tid) path \<and> \<not> dashboardSection section \<and>
      sectionTitle section \<in> {None, Some (tab_label tab)} \<and>
      content_tab (pageContent pe df section bundle context itemId teamId) = Some (tab_label tab))" for tab :: Tab
  have goes: "good \<lparr>tab_end = e, tab_label = label, tab_to = ''/tournaments/'' @ int_text tid @ suffix\<rparr>"
    if "(suffix, s) \<in> set TOURNAMENT_ROUTES" "\<not> dashboardSection s" "sectionTitle s \<in> {None, Some label}"
      "content_tab (pageContent pe df s bundle context itemId teamId) = Some label" for suffix s label e
    unfolding good_def using that by (intro exI[of _ suffix] exI[of _ s]) (simp add: routeAddress_def)
  have "list_all good (workspaceTabs tid)"
    using goes[of "[]" Overview "''Overview''" True] goes[of "''/players''" Players "''Players''"]
      goes[of "''/teams''" Teams "''Teams''"] goes[of "''/stages''" Stages "''Stages''"]
      goes[of "''/schedule''" Schedule "''Schedule''"] goes[of "''/rankings''" Rankings "''Rankings''"]
      goes[of "''/settings''" Settings "''Settings''"]
    by (simp add: workspaceTabs_def Let_def section_content TOURNAMENT_ROUTES_def dashboardSection_iff)
  then show ?thesis unfolding list.pred_set good_def by blast
qed

lemma details_tabs_routed:
  "\<forall>tab \<in> set (detailsTabs (routeAddress key ''/dashboard'') (tb_stages bundle)).
    \<exists>path section. (path, section) \<in> set TOURNAMENT_ROUTES \<and> tab_to tab = routeAddress key path \<and>
      dashboardSection section \<and> sectionTitle section \<in> {None, Some (tab_label tab)} \<and>
      content_tab (pageContent pe df section bundle context itemId teamId) = Some (tab_label tab)"
proof -
  define good where "good tab \<longleftrightarrow> (\<exists>path section. (path, section) \<in> set TOURNAMENT_ROUTES \<and>
      tab_to tab = routeAddress key path \<and> dashboardSection section \<and>
      sectionTitle section \<in> {None, Some (tab_label tab)} \<and>
      content_tab (pageContent pe df section bundle context itemId teamId) = Some (tab_label tab))" for tab :: Tab
  have goes: "good \<lparr>tab_end = e, tab_label = label, tab_to = routeAddress key ''/dashboard'' @ suffix\<rparr>"
    if "(''/dashboard'' @ suffix, s) \<in> set TOURNAMENT_ROUTES" "dashboardSection s"
      "sectionTitle s \<in> {None, Some label}"
      "content_tab (pageContent pe df s bundle context itemId teamId) = Some label" for suffix s label e
    unfolding good_def using that
    by (intro exI[of _ "''/dashboard'' @ suffix"] exI[of _ s]) (simp add: routeAddress_def)
  have fixed: "good \<lparr>tab_end = True, tab_label = ''Overview'', tab_to = routeAddress key ''/dashboard''\<rparr>"
    "good \<lparr>tab_end = False, tab_label = ''Schedule'', tab_to = routeAddress key ''/dashboard'' @ ''/schedule''\<rparr>"
    "good \<lparr>tab_end = False, tab_label = ''Teams'', tab_to = routeAddress key ''/dashboard'' @ ''/teams''\<rparr>"
    using goes[of "[]" Dashboard "''Overview''"] goes[of "''/schedule''" DashboardSchedule "''Schedule''"]
      goes[of "''/teams''" DashboardTeams "''Teams''"]
    by (simp_all add: TOURNAMENT_ROUTES_def dashboardSection_iff section_content)
  have groups: "list_ex (\<lambda>i. \<not> isBracket i) (stageItemsOf (tb_stages bundle)) \<Longrightarrow>
      good \<lparr>tab_end = False, tab_label = ''Standings'', tab_to = routeAddress key ''/dashboard'' @ ''/standings''\<rparr>"
    "list_ex hasBracketView (stageItemsOf (tb_stages bundle)) \<Longrightarrow>
      good \<lparr>tab_end = False, tab_label = ''Bracket'', tab_to = routeAddress key ''/dashboard'' @ ''/bracket''\<rparr>"
    using goes[of "''/standings''" DashboardStandings "''Standings''"]
      goes[of "''/bracket''" DashboardBracket "''Bracket''"]
    by (simp_all add: TOURNAMENT_ROUTES_def dashboardSection_iff section_content bracket_tab_content)
  have "list_all good (detailsTabs (routeAddress key ''/dashboard'') (tb_stages bundle))"
    unfolding detailsTabs_def Let_def stageItemsOf_def[symmetric]
    using groups by (simp only: list_all_append list.pred_inject fixed split: if_split) blast
  then show ?thesis unfolding list.pred_set good_def by blast
qed

lemma tabs_offered:
  "''Bracket'' \<in> tab_label ` set (detailsTabs publicPath stages) \<longleftrightarrow> list_ex hasBracketView (stageItemsOf stages)"
  "''Standings'' \<in> tab_label ` set (detailsTabs publicPath stages) \<longleftrightarrow> list_ex (\<lambda>i. \<not> isBracket i) (stageItemsOf stages)"
  by (auto simp: detailsTabs_def Let_def stageItemsOf_def)

text \<open>C23: Every tab leads to its own page: each tab of the Details pages and of the workspace opens an address with
  a route of its own, whose page shows the content that the tab names. The tab for the bracket is offered exactly
  when its page has a bracket to show, and the one for the standings whenever there is a table.\<close>

theorem tabs_lead_to_pages:
  "list_all (\<lambda>tab. \<exists>path section. (path, section) \<in> set TOURNAMENT_ROUTES \<and> tab_to tab = routeAddress key path \<and>
        dashboardSection section \<and> sectionTitle section \<in> {None, Some (tab_label tab)} \<and>
        content_tab (pageContent pe df section bundle context itemId teamId) = Some (tab_label tab))
     (detailsTabs (routeAddress key ''/dashboard'') (tb_stages bundle)) \<and>
   list_all (\<lambda>tab. \<exists>path section. (path, section) \<in> set TOURNAMENT_ROUTES \<and> tab_to tab = routeAddress (int_text tid) path \<and>
        \<not> dashboardSection section \<and> sectionTitle section \<in> {None, Some (tab_label tab)} \<and>
        content_tab (pageContent pe df section bundle context itemId teamId) = Some (tab_label tab))
     (workspaceTabs tid) \<and>
   (''Bracket'' \<in> tab_label ` set (detailsTabs publicPath (tb_stages bundle)) \<longleftrightarrow>
      content_tab (pageContent pe df DashboardBracket bundle context itemId teamId) = Some ''Bracket'') \<and>
   (standingsTables (tb_stages bundle) (tb_standings bundle) \<noteq> [] \<longrightarrow>
      ''Standings'' \<in> tab_label ` set (detailsTabs publicPath (tb_stages bundle)))"
  unfolding list.pred_set tabs_offered bracket_tab_content
  by (intro conjI impI details_tabs_routed workspace_tabs_routed refl group_tables)

theorem tabs_lead_to_pages_witness:
  "''Standings'' \<in> tab_label ` set (detailsTabs ''/tournaments/1/dashboard'' (tb_stages sampleBundle))"
proof -
  have "standingsTables (tb_stages sampleBundle) (tb_standings sampleBundle) \<noteq> []"
    by (simp add: standingsTables_def sampleBundle_def sampleStage_def sample_standings isBracket_def sampleItem_def
        sampleBracket_def)
      (simp add: sample_standings[unfolded sampleItem_def])
  then show ?thesis by (rule tabs_lead_to_pages[THEN conjunct2, THEN conjunct2, THEN conjunct2, rule_format])
qed

end
