(* ===== verification/HomePage.thy ===== *)
theory HomePage
  imports AccountForms TournamentPage
begin

text \<open>
  The frame of every page (\<open>RootLayout\<close> and \<open>RouteError\<close> in \<open>frontend/src/app.tsx\<close>, \<open>TopNav\<close> in
  \<open>app/ui.tsx\<close>) and the home page (\<open>app/pages/home-page.tsx\<close>): the tournaments in two groups, what each
  card links to, and the form for a new one.
\<close>

section \<open>The frame\<close>

record TopNavView =
  nav_links :: "(string \<times> string) list"
  nav_account :: "string \<times> string"
  nav_logout :: bool

definition TopNav :: "string option \<Rightarrow> Session \<Rightarrow> TopNavView" where
  "TopNav currentUserName session =
     (case session of
        Some _ \<Rightarrow> \<lparr>nav_links = [(''/'', ''Tournaments''), (''/events'', ''Events'')],
          nav_account = (''/user'', nullish currentUserName ''Account''), nav_logout = True\<rparr>
      | None \<Rightarrow> \<lparr>nav_links = [], nav_account = (''/login'', ''Organizer login''), nav_logout = False\<rparr>)"

definition isBigScreen :: "string \<Rightarrow> bool" where
  "isBigScreen pathname = str_includes pathname ''/dashboard/present/''"

text \<open>The navigation above the page; \<open>None\<close> on a big screen.\<close>

definition RootLayout :: "string \<Rightarrow> Session \<Rightarrow> TopNavView option" where
  "RootLayout pathname session =
     (if isBigScreen pathname then None else Some (TopNav (map_option session_name session) session))"

text \<open>What a page threw: a response of the router, an \<open>Error\<close>, or anything else.\<close>

datatype thrown = RouteResponse string | ThrownError string | ThrownOther

definition RouteError :: "thrown \<Rightarrow> string" where
  "RouteError error =
     (case error of
        RouteResponse statusText \<Rightarrow> statusText
      | ThrownError message \<Rightarrow> message
      | ThrownOther \<Rightarrow> ''An unexpected error occurred.'')"

section \<open>Cards\<close>

record StatusBadgeView =
  sb_label :: string
  sb_pulse :: bool

definition TournamentStatusBadge :: "js_env \<Rightarrow> Tournament \<Rightarrow> StatusBadgeView" where
  "TournamentStatusBadge env tournament =
     (let phase = tournamentPhase env tournament
      in \<lparr>sb_label = TOURNAMENT_PHASE_LABELS phase, sb_pulse = (phase = PhaseRunning)\<rparr>)"

record TournamentCardView =
  tcv_status :: StatusBadgeView
  tcv_name :: string
  tcv_date :: string
  tcv_lengths :: "string option"
  tcv_links :: "(string \<times> string) list"

definition TournamentCard :: "js_env \<Rightarrow> 'd date_fns \<Rightarrow> bool \<Rightarrow> Tournament \<Rightarrow> TournamentCardView" where
  "TournamentCard env df canManage tournament =
     (let detailsPath = publicTournamentPath tournament
      in \<lparr>tcv_status = TournamentStatusBadge env tournament,
          tcv_name = tournament_name tournament,
          tcv_date = tournamentDateLabel env df tournament,
          tcv_lengths = (if canManage
            then Some (int_text (tournament_duration_minutes tournament) @ ''-minute matches, '' @
              int_text (tournament_margin_minutes tournament) @ ''-minute breaks'') else None),
          tcv_links =
            [if canManage then (''/tournaments/'' @ int_text (tournament_id tournament), ''Manage'')
             else (detailsPath, ''Details'')] @
            (if canManage \<and> tournament_dashboard_public tournament then [(detailsPath, ''Details'')] else [])\<rparr>)"

record TournamentGroupView =
  tg_title :: string
  tg_cards :: "TournamentCardView list"

definition TournamentGroup ::
  "js_env \<Rightarrow> 'd date_fns \<Rightarrow> bool \<Rightarrow> string \<Rightarrow> Tournament list \<Rightarrow> TournamentGroupView option" where
  "TournamentGroup env df canManage title tournaments =
     (if tournaments = [] then None
      else Some \<lparr>tg_title = title, tg_cards = map (TournamentCard env df canManage) tournaments\<rparr>)"

section \<open>The page\<close>

text \<open>The difference of two start times; NaN counts as 0 for sorting.\<close>

definition byStartTime :: "js_env \<Rightarrow> Tournament \<Rightarrow> Tournament \<Rightarrow> int option" where
  "byStartTime env left right =
     (case (date_ms env (tournament_start_time left), date_ms env (tournament_start_time right)) of
        (Some l, Some r) \<Rightarrow> Some (l - r)
      | _ \<Rightarrow> None)"

definition activeTournaments :: "js_env \<Rightarrow> Tournament list \<Rightarrow> Tournament list" where
  "activeTournaments env all =
     js_sort (\<lambda>a b. sort_num (byStartTime env a b)) (filter (\<lambda>t. tournament_status t = OPEN) all)"

definition finishedTournaments :: "js_env \<Rightarrow> Tournament list \<Rightarrow> Tournament list" where
  "finishedTournaments env all =
     rev (js_sort (\<lambda>a b. sort_num (byStartTime env a b)) (filter (\<lambda>t. tournament_status t \<noteq> OPEN) all))"

datatype HomeList =
    HomeLoading
  | HomeError string
  | HomeEmpty string
  | HomeGroups "TournamentGroupView list"

datatype NewTournament = NewTournamentPanel Form | NeedsEvent

record HomeView =
  hv_list :: HomeList
  hv_new :: "NewTournament option"

definition HomePage ::
  "js_env \<Rightarrow> 'd date_fns \<Rightarrow> Session \<Rightarrow> TournamentsResponse QueryState \<Rightarrow> ClubsResponse QueryState \<Rightarrow> HomeView" where
  "HomePage env df session tournaments clubs =
     (let canManage = (session \<noteq> None);
          all = nullish (map_option tournaments_response_data (qs_data tournaments)) [];
          clubList = nullish (map_option clubs_response_data (qs_data clubs)) [];
          tournamentList =
            (if qs_pending tournaments then HomeLoading
             else (case qs_error tournaments of
                Some error \<Rightarrow> HomeError (getErrorMessage error)
              | None \<Rightarrow>
                 if all = [] then
                   HomeEmpty (if canManage then ''Create your first tournament with the form on this page.''
                     else ''Tournaments show up here as soon as the organizers publish them.'')
                 else HomeGroups (List.map_filter id
                   [TournamentGroup env df canManage ''Running and upcoming'' (activeTournaments env all),
                    TournamentGroup env df canManage ''Finished'' (finishedTournaments env all)])))
      in \<lparr>hv_list = tournamentList,
          hv_new = (if \<not> canManage then None
            else Some (if clubList \<noteq> [] then NewTournamentPanel (NewTournamentForm env clubList) else NeedsEvent))\<rparr>)"

section \<open>Lemmas\<close>

definition readable :: "js_env \<Rightarrow> Tournament set" where
  "readable env = {t. date_ms env (tournament_start_time t) \<noteq> None}"

interpretation start_order: js_comparator "\<lambda>a b. sort_num (byStartTime env a b)" "readable env"
  by unfold_locales (auto simp: byStartTime_def readable_def)

abbreviation starts_before :: "js_env \<Rightarrow> Tournament \<Rightarrow> Tournament \<Rightarrow> bool" where
  "starts_before env a b \<equiv>
     the (date_ms env (tournament_start_time a)) \<le> the (date_ms env (tournament_start_time b))"

lemma start_order_le:
  "a \<in> readable env \<Longrightarrow> b \<in> readable env \<Longrightarrow> sort_num (byStartTime env a b) \<le> 0 \<Longrightarrow> starts_before env a b"
  by (auto simp: byStartTime_def readable_def)

lemma sorted_by_start:
  assumes "set ts \<subseteq> readable env"
  shows "sorted_wrt (starts_before env) (js_sort (\<lambda>a b. sort_num (byStartTime env a b)) ts)"
  by (rule sorted_wrt_mono_rel[OF _ start_order.sorted_sort[OF assms]])
    (use assms in \<open>auto intro: start_order_le\<close>)

lemma group_cards:
  "concat (map tg_cards (List.map_filter id
     [TournamentGroup env df m title ts, TournamentGroup env df m title' ts'])) =
   map (TournamentCard env df m) (ts @ ts')"
  by (auto simp: TournamentGroup_def List.map_filter_simps)

lemma active_finished:
  "mset (activeTournaments env all) + mset (finishedTournaments env all) = mset all"
  using multiset_partition[of "mset all" "\<lambda>t. tournament_status t = OPEN"]
  by (simp add: activeTournaments_def finishedTournaments_def)

lemma active_finished_status:
  "t \<in> set (activeTournaments env all) \<Longrightarrow> tournament_status t = OPEN"
  "t \<in> set (finishedTournaments env all) \<Longrightarrow> tournament_status t \<noteq> OPEN"
  by (auto simp: activeTournaments_def finishedTournaments_def)

section \<open>Properties\<close>

definition loadedTournaments :: "Tournament list \<Rightarrow> TournamentsResponse QueryState" where
  "loadedTournaments all =
     \<lparr>qs_pending = False, qs_error = None, qs_data = Some \<lparr>tournaments_response_data = all\<rparr>\<rparr>"

text \<open>C18: The home page shows a card for every tournament the API returned, once each: first the open ones in the
  order they start, then the others with the latest first, each group under its title and only if it has
  cards.\<close>

theorem home_lists_all:
  assumes "\<forall>t \<in> set all. date_ms env (tournament_start_time t) \<noteq> None" "all \<noteq> []"
  shows "\<exists>groups open closed.
    hv_list (HomePage env df session (loadedTournaments all) clubs) = HomeGroups groups \<and>
    mset (open @ closed) = mset all \<and>
    (\<forall>t \<in> set open. tournament_status t = OPEN) \<and> (\<forall>t \<in> set closed. tournament_status t \<noteq> OPEN) \<and>
    sorted_wrt (\<lambda>a b. the (date_ms env (tournament_start_time a)) \<le> the (date_ms env (tournament_start_time b))) open \<and>
    sorted_wrt (\<lambda>a b. the (date_ms env (tournament_start_time b)) \<le> the (date_ms env (tournament_start_time a))) closed \<and>
    concat (map tg_cards groups) = map (TournamentCard env df (session \<noteq> None)) (open @ closed) \<and>
    map tg_title groups =
      (if open = [] then [] else [''Running and upcoming'']) @ (if closed = [] then [] else [''Finished''])"
proof (intro exI conjI)
  let ?open = "activeTournaments env all" and ?closed = "finishedTournaments env all"
  let ?groups = "List.map_filter id
      [TournamentGroup env df (session \<noteq> None) ''Running and upcoming'' ?open,
       TournamentGroup env df (session \<noteq> None) ''Finished'' ?closed]"
  show "hv_list (HomePage env df session (loadedTournaments all) clubs) = HomeGroups ?groups"
    using assms(2) by (simp add: HomePage_def loadedTournaments_def Let_def)
  show "mset (?open @ ?closed) = mset all" by (simp add: active_finished)
  show "\<forall>t \<in> set ?open. tournament_status t = OPEN" "\<forall>t \<in> set ?closed. tournament_status t \<noteq> OPEN"
    using active_finished_status by blast+
  have sub: "set (filter P all) \<subseteq> readable env" for P using assms(1) by (auto simp: readable_def)
  show "sorted_wrt (starts_before env) ?open"
    unfolding activeTournaments_def by (rule sorted_by_start[OF sub])
  show "sorted_wrt (\<lambda>a b. starts_before env b a) ?closed"
    unfolding finishedTournaments_def sorted_wrt_rev by (rule sorted_by_start[OF sub])
  show "concat (map tg_cards ?groups) = map (TournamentCard env df (session \<noteq> None)) (?open @ ?closed)"
    by (rule group_cards)
  show "map tg_title ?groups =
      (if ?open = [] then [] else [''Running and upcoming'']) @ (if ?closed = [] then [] else [''Finished''])"
    by (simp add: TournamentGroup_def List.map_filter_simps)
qed

theorem home_lists_all_witness:
  "\<exists>groups. hv_list (HomePage sampleClock sampleDates None
      (loadedTournaments [sampleTournament 1 None, (sampleTournament 2 None)\<lparr>tournament_status := ARCHIVED\<rparr>])
      \<lparr>qs_pending = True, qs_error = None, qs_data = None\<rparr>) =
    HomeGroups groups \<and> length (concat (map tg_cards groups)) = 2"
proof -
  let ?all = "[sampleTournament 1 None, (sampleTournament 2 None)\<lparr>tournament_status := ARCHIVED\<rparr>]"
  have "date_ms sampleClock ''2024-05-01T10:00:00Z'' \<noteq> None" by code_simp
  then have "\<forall>t \<in> set ?all. date_ms sampleClock (tournament_start_time t) \<noteq> None"
    by (simp add: sampleTournament_def)
  from home_lists_all[OF this, of sampleDates None "\<lparr>qs_pending = True, qs_error = None, qs_data = None\<rparr>"]
  obtain groups opened closed where
    g: "hv_list (HomePage sampleClock sampleDates None (loadedTournaments ?all)
      \<lparr>qs_pending = True, qs_error = None, qs_data = None\<rparr>) = HomeGroups groups"
    and m: "mset (opened @ closed) = mset ?all"
    and c: "concat (map tg_cards groups) =
      map (TournamentCard sampleClock sampleDates (None \<noteq> (None :: Session))) (opened @ closed)"
    by blast
  have "length (opened @ closed) = 2" using arg_cong[OF m, of size] by simp
  then have "length (concat (map tg_cards groups)) = 2" using c by simp
  with g show ?thesis by blast
qed

text \<open>A card leads only to pages of its tournament that have a route; the workspace is offered to organizers
  only, and the Details page to visitors always.\<close>

lemma card_links_routed:
  assumes "(to, label) \<in> set (tcv_links (TournamentCard env df canManage t))"
  shows "\<exists>key path target. (path, target) \<in> set TOURNAMENT_ROUTES \<and> to = routeAddress key path \<and>
    key \<in> {int_text (tournament_id t)} \<union> set_option (normalizeDashboardEndpoint (tournament_dashboard_endpoint t)) \<and>
    (if label = ''Manage'' then canManage \<and> target = Overview else target = Dashboard)"
proof -
  have r: "('''', Overview) \<in> set TOURNAMENT_ROUTES" "(''/dashboard'', Dashboard) \<in> set TOURNAMENT_ROUTES"
    by (simp_all add: TOURNAMENT_ROUTES_def)
  have d: "\<exists>key. publicTournamentPath t = routeAddress key ''/dashboard'' \<and>
      key \<in> {int_text (tournament_id t)} \<union> set_option (normalizeDashboardEndpoint (tournament_dashboard_endpoint t))"
    by (cases "normalizeDashboardEndpoint (tournament_dashboard_endpoint t)")
      (auto simp: publicTournamentPath_def routeAddress_def)
  have m: "''/tournaments/'' @ int_text (tournament_id t) = routeAddress (int_text (tournament_id t)) ''''"
    by (simp add: routeAddress_def)
  from assms consider "to = publicTournamentPath t" "label = ''Details''"
    | "to = ''/tournaments/'' @ int_text (tournament_id t)" "label = ''Manage''" "canManage"
    by (auto simp: TournamentCard_def Let_def split: if_splits)
  then show ?thesis
  proof cases
    case 1 then show ?thesis using d r(2) by fastforce
  next
    case 2 then show ?thesis using m r(1) by fastforce
  qed
qed

text \<open>The form for a new tournament is for organizers, and only once they have an event to put it in.\<close>

lemma home_form_needs_organizer:
  "hv_new (HomePage env df session tournaments clubs) = Some (NewTournamentPanel form) \<Longrightarrow>
    session \<noteq> None \<and> (\<exists>r. qs_data clubs = Some r \<and> clubs_response_data r \<noteq> [] \<and>
      form = NewTournamentForm env (clubs_response_data r))"
  by (cases "qs_data clubs") (auto simp: HomePage_def Let_def split: if_splits)

end
