(* ===== verification/UiMarkup.thy ===== *)
theory UiMarkup
  imports HomePage
begin

text \<open>
  What the components of \<open>frontend/src/app/ui.tsx\<close> render, as a tree of elements, with the header of a tournament
  (\<open>TournamentHeader\<close> in \<open>pages/tournament-page.tsx\<close>) and the pages that consist of nothing else (\<open>NotFoundPage\<close>,
  \<open>PasswordResetStatusPage\<close>, \<open>RouteError\<close>). CSS classes are left out; an attribute is a text, a mark or the action of
  a handler.
\<close>

section \<open>Trees\<close>

datatype 'a attribute = AText string | AMark | AAction 'a

datatype 'a node =
    Text string
  | Element string "(string \<times> 'a attribute) list" "'a node list"

fun texts :: "'a node \<Rightarrow> string list" where
  "texts (Text s) = [s]"
| "texts (Element tag attrs children) = concat (map texts children)"

text \<open>The elements of a tree from the outside in, each with its attributes and its text.\<close>

fun elements :: "'a node \<Rightarrow> (string \<times> (string \<times> 'a attribute) list \<times> string) list" where
  "elements (Text s) = []"
| "elements (Element tag attrs children) =
     (tag, attrs, concat (concat (map texts children))) # concat (map elements children)"

abbreviation all_texts :: "'a node list \<Rightarrow> string list" where "all_texts ns \<equiv> concat (map texts ns)"
abbreviation all_elements :: "'a node list \<Rightarrow> (string \<times> (string \<times> 'a attribute) list \<times> string) list" where
  "all_elements ns \<equiv> concat (map elements ns)"

definition links :: "'a node list \<Rightarrow> (string \<times> string) list" where
  "links ns = List.map_filter (\<lambda>(tag, attrs, label).
     if tag \<in> {''Link'', ''NavLink''}
     then (case map_of attrs ''to'' of Some (AText address) \<Rightarrow> Some (address, label) | _ \<Rightarrow> None) else None)
     (all_elements ns)"

definition buttons :: "'a node list \<Rightarrow> (string \<times> 'a) list" where
  "buttons ns = List.map_filter (\<lambda>(tag, attrs, label).
     if tag = ''button'' then (case map_of attrs ''onClick'' of Some (AAction a) \<Rightarrow> Some (label, a) | _ \<Rightarrow> None)
     else None) (all_elements ns)"

definition headings :: "'a node list \<Rightarrow> (string \<times> string) list" where
  "headings ns = List.map_filter (\<lambda>(tag, attrs, label).
     if tag \<in> {''h1'', ''h2'', ''h3''} then Some (tag, label) else None) (all_elements ns)"

text \<open>\<open>{node ? <div>{node}</div> : null}\<close>\<close>

definition in_div :: "'a node list option \<Rightarrow> 'a node list" where
  "in_div n = (case n of None \<Rightarrow> [] | Some ns \<Rightarrow> [Element ''div'' [] ns])"

section \<open>The components\<close>

definition PageShell :: "'a node list option \<Rightarrow> 'a node list \<Rightarrow> string \<Rightarrow> 'a node" where
  "PageShell actions children title =
     Element ''section'' []
       (Element ''header'' []
          [Element ''div'' [] (Element ''h1'' [] [Text title] # in_div actions)] # children)"

definition Surface :: "string option \<Rightarrow> 'a node list \<Rightarrow> 'a node" where
  "Surface idAttr children =
     Element ''section'' (case idAttr of None \<Rightarrow> [] | Some i \<Rightarrow> [(''id'', AText i)]) [Element ''div'' [] children]"

definition SurfaceHeading :: "'a node list option \<Rightarrow> string \<Rightarrow> 'a node" where
  "SurfaceHeading actions title = Element ''div'' [] (Element ''h2'' [] [Text title] # nullish actions [])"

definition SectionLabel :: "'a node list \<Rightarrow> 'a node" where
  "SectionLabel children = Element ''h3'' [] children"

definition Field :: "'a node list \<Rightarrow> string option \<Rightarrow> string \<Rightarrow> 'a node" where
  "Field children error label =
     Element ''label'' []
       (Element ''span'' [] [Text label] # children @
        (if or_text error [] \<noteq> [] then [Element ''span'' [] [Text (or_text error [])]] else []))"

text \<open>The type of the input comes after the spread props, so none of them can change it.\<close>

definition CheckboxField :: "string option \<Rightarrow> string \<Rightarrow> (string \<times> 'a attribute) list \<Rightarrow> 'a node" where
  "CheckboxField description label props =
     Element ''label'' []
       [Element ''input'' (obj_spread props [(''type'', AText ''checkbox'')]) [],
        Element ''span'' []
          (Element ''span'' [] [Text label] #
           (if or_text description [] \<noteq> [] then [Element ''span'' [] [Text (or_text description [])]] else []))]"

definition LoadingState :: "string \<Rightarrow> 'a node" where
  "LoadingState title =
     Surface None
       [Element ''div'' [(''role'', AText ''status'')] [Element ''span'' [] [], Element ''p'' [] [Text title]]]"

definition ErrorState :: "'a node list option \<Rightarrow> string \<Rightarrow> string \<Rightarrow> 'a node" where
  "ErrorState action error title =
     Element ''div'' [(''role'', AText ''alert'')]
       ([Element ''h2'' [] [Text title], Element ''p'' [] [Text error]] @ nullish action [])"

definition EmptyState :: "'a node list option \<Rightarrow> string \<Rightarrow> string \<Rightarrow> 'a node" where
  "EmptyState action message title =
     Surface None ([Element ''h3'' [] [Text title], Element ''p'' [] [Text message]] @ in_div action)"

abbreviation Link :: "string \<Rightarrow> 'a node list \<Rightarrow> 'a node" where
  "Link address children \<equiv> Element ''Link'' [(''to'', AText address)] children"

abbreviation NavLink :: "bool \<Rightarrow> string \<Rightarrow> string \<Rightarrow> 'a node" where
  "NavLink isEnd address label \<equiv>
     Element ''NavLink'' ([(''to'', AText address)] @ (if isEnd then [(''end'', AMark)] else [])) [Text label]"

definition TopNavMarkup :: "string option \<Rightarrow> 'a \<Rightarrow> Session \<Rightarrow> 'a node" where
  "TopNavMarkup currentUserName onLogout session =
     Element ''header'' []
       [Element ''nav'' [(''aria-label'', AText ''Main'')]
         ([Link ''/'' [Element ''img'' [(''alt'', AText []), (''aria-hidden'', AText ''true''),
             (''src'', AText ''/ctrl-alt-gg-mark.svg'')] [],
           Element ''span'' [] [Text ''Ctrl-Alt-GG Bracket'']]] @
          (if session \<noteq> None
           then [Element ''div'' []
             (map (\<lambda>(to, label). NavLink True to label) [(''/'', ''Tournaments''), (''/events'', ''Events'')])]
           else []) @
          [Element ''div'' []
            (if session \<noteq> None
             then [Link ''/user'' [Text (nullish currentUserName ''Account'')],
               Element ''button'' [(''onClick'', AAction onLogout), (''type'', AText ''button'')] [Text ''Log out'']]
             else [Link ''/login'' [Text ''Organizer login'']])])]"

section \<open>Pages\<close>

definition NotFoundPage :: "'a node" where
  "NotFoundPage =
     PageShell None
       [EmptyState (Some [Link ''/'' [Text ''Back to the tournaments'']])
         ''The link may be mistyped, or the page has moved.'' (''There'' @ [CHR 0x27] @ ''s nothing here'')]
       ''Page not found''"

definition PasswordResetStatusPage :: "'a node" where
  "PasswordResetStatusPage =
     PageShell None [Surface None [Element ''p'' [] [Text ''Password reset is currently unavailable.'']]]
       ''Password reset''"

definition RouteErrorPage :: "'a \<Rightarrow> thrown \<Rightarrow> 'a node" where
  "RouteErrorPage reload error =
     ErrorState
       (Some [Element ''button'' [(''onClick'', AAction reload), (''type'', AText ''button'')]
         [Text ''Reload the page'']])
       (RouteError error) ''This page failed to render''"

definition TournamentHeader ::
  "js_env \<Rightarrow> 'd date_fns \<Rightarrow> 'a node list \<Rightarrow> nat \<Rightarrow> nat \<Rightarrow> Tab list \<Rightarrow> nat \<Rightarrow> Tournament \<Rightarrow> 'a node" where
  "TournamentHeader env df actions matchCount matchesPlayed tabs teamCount tournament =
     (let dot = Element ''span'' [(''aria-hidden'', AText ''true'')] [Text middle_dot];
          badge = TournamentStatusBadge env tournament
      in Element ''header'' []
        [Element ''div'' []
          [Element ''div'' []
            (Element ''div'' []
              [Element ''h1'' [] [Text (tournament_name tournament)],
               Element ''p'' []
                 ([Element ''span'' []
                    ((if sb_pulse badge then [Element ''span'' [(''aria-hidden'', AText ''true'')] []] else []) @
                     [Text (sb_label badge)]),
                   Element ''span'' [] [Text (tournamentDateLabel env df tournament)],
                   dot,
                   Element ''span'' [] [Text (if teamCount = 1 then ''1 team'' else nat_text teamCount @ '' teams'')]] @
                  (if matchCount > 0
                   then [dot, Element ''span'' [] [Text (nat_text matchesPlayed @ '' of '' @ nat_text matchCount @
                     '' matches played'')]]
                   else []))] # actions),
           Element ''nav'' [(''aria-label'', AText ''Tournament pages'')]
             (map (\<lambda>tab. NavLink (tab_end tab) (tab_to tab) (tab_label tab)) tabs)]])"

text \<open>What \<open>TournamentView\<close> renders around the content of a section.\<close>

definition actionLinks :: "PageView \<Rightarrow> 'a node list" where
  "actionLinks view = (case pv_action view of None \<Rightarrow> [] | Some (label, to) \<Rightarrow> [Link to [Text label]])"

definition TournamentViewMarkup ::
  "js_env \<Rightarrow> 'd date_fns \<Rightarrow> TournamentBundle \<Rightarrow> PageView \<Rightarrow> 'a node list \<Rightarrow> 'a node" where
  "TournamentViewMarkup env df bundle view content =
     Element ''section'' []
       ((case pv_tabs view of
           None \<Rightarrow> Element ''header'' []
             (Element ''h1'' [] [Text (tournament_name (tb_tournament bundle))] # actionLinks view)
         | Some tabs \<Rightarrow> TournamentHeader env df (actionLinks view) (snd (pv_counts view)) (fst (pv_counts view)) tabs
             (length (tb_teams bundle)) (tb_tournament bundle)) # content)"

section \<open>What is shown\<close>

lemmas markup_defs = PageShell_def Surface_def SurfaceHeading_def SectionLabel_def Field_def CheckboxField_def
  LoadingState_def ErrorState_def EmptyState_def in_div_def

text \<open>A wrapper shows its parts, each once and in reading order, and nothing else.\<close>

lemma shown_parts:
  "texts (PageShell actions children title) = title # all_texts (nullish actions []) @ all_texts children"
  "texts (Surface idAttr children) = all_texts children"
  "texts (SurfaceHeading actions title) = title # all_texts (nullish actions [])"
  "texts (SectionLabel children) = all_texts children"
  "texts (Field children fieldError label) =
     label # all_texts children @ (if or_text fieldError [] \<noteq> [] then [or_text fieldError []] else [])"
  "texts (CheckboxField description label props) =
     label # (if or_text description [] \<noteq> [] then [or_text description []] else [])"
  "texts (LoadingState title) = [title]"
  "texts (ErrorState action error title) = title # error # all_texts (nullish action [])"
  "texts (EmptyState action message title) = title # message # all_texts (nullish action [])"
  by (simp_all add: markup_defs split: option.split)

text \<open>A checkbox stays one whatever props it is given, and they all reach it otherwise.\<close>

lemma checkbox_type:
  "\<exists>attrs. (''input'', attrs, []) \<in> set (elements (CheckboxField description label props)) \<and>
     map_of attrs = (map_of props)(''type'' \<mapsto> AText ''checkbox'')"
  by (rule exI[of _ "obj_spread props [(''type'', AText ''checkbox'')]"]) (simp add: CheckboxField_def obj_spread_def)

text \<open>Screen readers are told of what loads and of what failed.\<close>

lemma announced_states:
  "(''div'', [(''role'', AText ''status'')], title) \<in> set (elements (LoadingState title))"
  "\<exists>shown. (''div'', [(''role'', AText ''alert'')], shown) \<in> set (elements (ErrorState action error title))"
  by (simp add: markup_defs) (auto simp: markup_defs)

text \<open>Each page has one main heading, its title, before every other.\<close>

lemma links_append: "links (a @ b) = links a @ links b" "buttons (a @ b) = buttons a @ buttons b"
  "headings (a @ b) = headings a @ headings b"
  by (simp_all add: links_def buttons_def headings_def List.map_filter_def)

lemma page_heading:
  "headings [PageShell actions children title] = (''h1'', title) # headings (nullish actions []) @ headings children"
  by (simp add: headings_def PageShell_def in_div_def List.map_filter_def split: option.split)

lemma fixed_pages:
  "links [NotFoundPage] = [(''/'', ''Back to the tournaments'')]"
  "texts PasswordResetStatusPage = [''Password reset'', ''Password reset is currently unavailable.'']"
  "buttons [RouteErrorPage reload error] = [(''Reload the page'', reload)]"
  "texts (RouteErrorPage reload error) = [''This page failed to render'', RouteError error, ''Reload the page'']"
  by (simp_all add: NotFoundPage_def PasswordResetStatusPage_def RouteErrorPage_def markup_defs links_def buttons_def
      List.map_filter_def)

text \<open>The rendered navigation offers what \<open>TopNav\<close> says, after the link home, and only someone who is signed in can
  log out.\<close>

lemma top_nav_links:
  "links [TopNavMarkup name onLogout session] =
     (''/'', ''Ctrl-Alt-GG Bracket'') # nav_links (TopNav name session) @ [nav_account (TopNav name session)]"
  "buttons [TopNavMarkup name onLogout session] =
     (if nav_logout (TopNav name session) then [(''Log out'', onLogout)] else [])"
  by (simp_all add: TopNavMarkup_def TopNav_def links_def buttons_def List.map_filter_def split: option.split)

text \<open>The header of a tournament offers its tabs in order, after the actions of the page.\<close>

lemma header_links:
  "links [TournamentHeader env df actions matchCount matchesPlayed tabs teamCount tournament] =
     links actions @ map (\<lambda>tab. (tab_to tab, tab_label tab)) tabs"
  by (induction tabs) (auto simp: TournamentHeader_def links_def List.map_filter_def Let_def)

lemma header_headings:
  "headings [TournamentHeader env df actions matchCount matchesPlayed tabs teamCount tournament] =
     (''h1'', tournament_name tournament) # headings actions"
  by (induction tabs) (auto simp: TournamentHeader_def headings_def List.map_filter_def Let_def)

text \<open>A tournament page offers its action, its tabs and the links of its content, under the name of the tournament.\<close>

lemma view_markup:
  "links [TournamentViewMarkup env df bundle view content] =
     (case pv_action view of None \<Rightarrow> [] | Some (label, to) \<Rightarrow> [(to, label)]) @
     map (\<lambda>tab. (tab_to tab, tab_label tab)) (nullish (pv_tabs view) []) @ links content"
  "headings [TournamentViewMarkup env df bundle view content] =
     (''h1'', tournament_name (tb_tournament bundle)) # headings content"
proof -
  have action: "links (actionLinks view :: 'a node list) = (case pv_action view of None \<Rightarrow> [] | Some (label, to) \<Rightarrow> [(to, label)])"
    "headings (actionLinks view :: 'a node list) = []"
    by (simp_all add: actionLinks_def links_def headings_def List.map_filter_def split: option.split)
  have inside: "links [Element ''section'' [] (n # ns)] = links [n] @ links ns"
    "headings [Element ''section'' [] (n # ns)] = headings [n] @ headings ns" for n :: "'a node" and ns
    by (simp_all add: links_def headings_def List.map_filter_def)
  have screen: "links [Element ''header'' [] (Element ''h1'' [] [Text name] # ns)] = links ns"
    "headings [Element ''header'' [] (Element ''h1'' [] [Text name] # ns)] = (''h1'', name) # headings ns"
    for name and ns :: "'a node list"
    by (simp_all add: links_def headings_def List.map_filter_def)
  show "links [TournamentViewMarkup env df bundle view content] =
     (case pv_action view of None \<Rightarrow> [] | Some (label, to) \<Rightarrow> [(to, label)]) @
     map (\<lambda>tab. (tab_to tab, tab_label tab)) (nullish (pv_tabs view) []) @ links content"
    by (simp add: TournamentViewMarkup_def inside screen header_links action split: option.split)
  show "headings [TournamentViewMarkup env df bundle view content] =
     (''h1'', tournament_name (tb_tournament bundle)) # headings content"
    by (simp add: TournamentViewMarkup_def inside screen header_headings action split: option.split)
qed

section \<open>The tab of the page\<close>

text \<open>\<open>NavLink\<close> of React Router: active at its own address, and below it unless it is marked with \<open>end\<close>. Addresses
  here are without capitals and without a slash at the end, which the router would look through.\<close>

definition plain_address :: "string \<Rightarrow> bool" where
  "plain_address a \<longleftrightarrow> list_all (\<lambda>c. \<not> (65 \<le> (of_char c :: nat) \<and> (of_char c :: nat) \<le> 90)) a \<and> a \<noteq> [] \<and> last a \<noteq> CHR ''/''"

definition nav_link_rule :: "(bool \<Rightarrow> string \<Rightarrow> string \<Rightarrow> bool) \<Rightarrow> bool" where
  "nav_link_rule isActive \<longleftrightarrow>
     (\<forall>isEnd to pathname. plain_address to \<longrightarrow> plain_address pathname \<longrightarrow>
       isActive isEnd to pathname = (pathname = to \<or> \<not> isEnd \<and> starts_with pathname (to @ ''/'')))"

definition active_tabs :: "(bool \<Rightarrow> string \<Rightarrow> string \<Rightarrow> bool) \<Rightarrow> string \<Rightarrow> Tab list \<Rightarrow> Tab list" where
  "active_tabs isActive pathname tabs = filter (\<lambda>tab. isActive (tab_end tab) (tab_to tab) pathname) tabs"

text \<open>The pages of a tab: its own and, without \<open>end\<close>, those below it.\<close>

definition tab_page :: "Tab \<Rightarrow> string \<Rightarrow> bool" where
  "tab_page tab pathname \<longleftrightarrow> pathname = tab_to tab \<or> \<not> tab_end tab \<and> starts_with pathname (tab_to tab @ ''/'')"

text \<open>Both lists of tabs have the overview at a base address, and sections directly below it.\<close>

definition section_tabs :: "string \<Rightarrow> (string \<times> string) list \<Rightarrow> Tab list" where
  "section_tabs base sections =
     \<lparr>tab_end = True, tab_label = ''Overview'', tab_to = base\<rparr> #
     map (\<lambda>(label, name). \<lparr>tab_end = False, tab_label = label, tab_to = base @ ''/'' @ name\<rparr>) sections"

definition sections_ok :: "(string \<times> string) list \<Rightarrow> bool" where
  "sections_ok sections \<longleftrightarrow> distinct (map snd sections) \<and>
     list_all (\<lambda>(label, name). plain_address name \<and> CHR ''/'' \<notin> set name) sections"

lemma plain_names:
  "plain_address ''players''" "plain_address ''teams''" "plain_address ''stages''" "plain_address ''schedule''"
  "plain_address ''rankings''" "plain_address ''settings''" "plain_address ''standings''" "plain_address ''bracket''"
  by code_simp+

lemma workspace_section_tabs:
  "\<exists>sections. workspaceTabs tid = section_tabs (''/tournaments/'' @ int_text tid) sections \<and> sections_ok sections"
  by (rule exI[of _ "[(''Players'', ''players''), (''Teams'', ''teams''), (''Stages'', ''stages''),
      (''Schedule'', ''schedule''), (''Rankings'', ''rankings''), (''Settings'', ''settings'')]"])
    (simp add: workspaceTabs_def section_tabs_def sections_ok_def plain_names)

lemma details_section_tabs:
  "\<exists>sections. detailsTabs publicPath stages = section_tabs publicPath sections \<and> sections_ok sections"
  by (rule exI[of _ "[(''Schedule'', ''schedule'')] @
      (if list_ex (\<lambda>s. \<not> isBracket s) (List.maps stage_stage_items stages) then [(''Standings'', ''standings'')] else []) @
      (if list_ex hasBracketView (List.maps stage_stage_items stages) then [(''Bracket'', ''bracket'')] else []) @
      [(''Teams'', ''teams'')]"])
    (simp add: detailsTabs_def section_tabs_def sections_ok_def plain_names)

text \<open>The section of an address below the base.\<close>

definition first_part :: "string \<Rightarrow> string" where
  "first_part s = takeWhile (\<lambda>c. c \<noteq> CHR ''/'') s"

lemma first_part_name: "CHR ''/'' \<notin> set name \<Longrightarrow> first_part (name @ r) = name @ first_part r"
  unfolding first_part_def by (induction name) auto

lemma first_part_rest: "\<exists>r. s = first_part s @ r \<and> (r = [] \<or> (\<exists>r'. r = CHR ''/'' # r'))"
  unfolding first_part_def by (induction s) auto

lemma first_part_iff:
  assumes "CHR ''/'' \<notin> set name"
  shows "first_part s = name \<longleftrightarrow> s = name \<or> starts_with s (name @ ''/'')"
proof
  show "first_part s = name \<Longrightarrow> s = name \<or> starts_with s (name @ ''/'')"
    using first_part_rest[of s] by (auto simp: starts_with_iff)
  have "first_part (name @ []) = name" "first_part (name @ CHR ''/'' # r) = name" for r
    unfolding first_part_name[OF assms] by (simp_all add: first_part_def)
  then show "s = name \<or> starts_with s (name @ ''/'') \<Longrightarrow> first_part s = name"
    by (auto simp: starts_with_iff)
qed

lemma plain_below: "plain_address base \<Longrightarrow> plain_address name \<Longrightarrow> plain_address (base @ ''/'' @ name)"
  by (auto simp: plain_address_def)

lemma section_active:
  assumes "nav_link_rule isActive" "plain_address base" "plain_address pathname" "plain_address name" "CHR ''/'' \<notin> set name"
  shows "isActive False (base @ ''/'' @ name) pathname \<longleftrightarrow> (\<exists>s. pathname = base @ ''/'' @ s \<and> first_part s = name)"
    and "isActive True base pathname \<longleftrightarrow> pathname = base"
  using assms plain_below[OF assms(2,4)]
  by (auto simp: nav_link_rule_def starts_with_iff first_part_iff)

lemma filter_by_name: "distinct (map snd xs) \<Longrightarrow> (l, n) \<in> set xs \<Longrightarrow> filter (\<lambda>(l, m). m = n) xs = [(l, n)]"
proof (induction xs)
  case (Cons x xs)
  show ?case
  proof (cases "snd x = n")
    case True
    then have "\<forall>y \<in> set xs. snd y \<noteq> n" using Cons.prems(1) by (auto simp: image_iff)
    then have "filter (\<lambda>(l, m). m = n) xs = []" "x = (l, n)"
      using Cons.prems(2) by (auto simp: filter_empty_conv)
    then show ?thesis by simp
  qed (use Cons in \<open>auto simp: case_prod_unfold\<close>)
qed simp

lemma one_active:
  assumes "nav_link_rule isActive" "plain_address base" "plain_address pathname" "sections_ok sections"
    and "tab \<in> set (section_tabs base sections)" "tab_page tab pathname"
  shows "active_tabs isActive pathname (section_tabs base sections) = [tab]"
proof -
  have active: "isActive False (base @ ''/'' @ name) pathname \<longleftrightarrow> (\<exists>s. pathname = base @ ''/'' @ s \<and> first_part s = name)"
    if "(label, name) \<in> set sections" for label name
    using that assms(4) section_active(1)[OF assms(1-3)] by (auto simp: sections_ok_def list_all_iff)
  have overview: "isActive True base pathname \<longleftrightarrow> pathname = base"
    using section_active(2)[OF assms(1-3) plain_names(1)] by simp
  from assms(5) consider "tab = \<lparr>tab_end = True, tab_label = ''Overview'', tab_to = base\<rparr>"
    | label name where "(label, name) \<in> set sections"
        "tab = \<lparr>tab_end = False, tab_label = label, tab_to = base @ ''/'' @ name\<rparr>"
    by (auto simp: section_tabs_def)
  then show ?thesis
  proof cases
    case 1
    then have "pathname = base" using assms(6) by (simp add: tab_page_def)
    then show ?thesis using 1 active overview
      by (auto simp: active_tabs_def section_tabs_def filter_empty_conv)
  next
    case 2
    have n: "CHR ''/'' \<notin> set name" using 2 assms(4) by (auto simp: sections_ok_def list_all_iff)
    then obtain s where s: "pathname = base @ ''/'' @ s" "first_part s = name"
      using assms(6) 2(2) by (auto simp: tab_page_def starts_with_iff first_part_iff)
    have "filter (\<lambda>tab. isActive (tab_end tab) (tab_to tab) pathname)
        (map (\<lambda>(label, name). \<lparr>tab_end = False, tab_label = label, tab_to = base @ ''/'' @ name\<rparr>) sections) =
      map (\<lambda>(label, name). \<lparr>tab_end = False, tab_label = label, tab_to = base @ ''/'' @ name\<rparr>)
        (filter (\<lambda>(l, n). n = name) sections)"
      unfolding filter_map using active s by (auto intro!: arg_cong[where f = "map _"] filter_cong)
    moreover have "filter (\<lambda>(l, n). n = name) sections = [(label, name)]"
      using 2(1) assms(4) by (intro filter_by_name) (simp add: sections_ok_def)
    ultimately show ?thesis using overview s 2(2) by (simp add: active_tabs_def section_tabs_def)
  qed
qed

section \<open>Properties\<close>

text \<open>C24: On every page that a tab of a tournament leads to, or that lies below it, that tab and no other is shown as the
  active one, in the organizers' workspace and on the Details pages.\<close>

theorem one_tab_active:
  assumes "nav_link_rule isActive" "plain_address pathname" "tab_page tab pathname"
    and "(tabs, base) \<in> {(workspaceTabs tid, ''/tournaments/'' @ int_text tid), (detailsTabs publicPath stages, publicPath)}"
    and "plain_address base" "tab \<in> set tabs"
  shows "active_tabs isActive pathname tabs = [tab]"
proof -
  obtain sections where "tabs = section_tabs base sections" "sections_ok sections"
    using assms(4) workspace_section_tabs[of tid] details_section_tabs[of publicPath stages] by auto
  with one_active[OF assms(1,5,2)] assms(3,6) show ?thesis by simp
qed

definition sampleNavLink :: "bool \<Rightarrow> string \<Rightarrow> string \<Rightarrow> bool" where
  "sampleNavLink isEnd to pathname = (pathname = to \<or> \<not> isEnd \<and> starts_with pathname (to @ ''/''))"

theorem one_tab_active_witness:
  "map tab_label (active_tabs sampleNavLink ''/tournaments/cup/dashboard/teams/12''
     (detailsTabs ''/tournaments/cup/dashboard'' [])) = [''Teams'']"
proof -
  let ?teams = "\<lparr>tab_end = False, tab_label = ''Teams'', tab_to = ''/tournaments/cup/dashboard/teams''\<rparr>"
  have "nav_link_rule sampleNavLink" by (simp add: nav_link_rule_def sampleNavLink_def)
  moreover have "plain_address ''/tournaments/cup/dashboard/teams/12''" "plain_address ''/tournaments/cup/dashboard''"
    by code_simp+
  moreover have "tab_page ?teams ''/tournaments/cup/dashboard/teams/12''" by code_simp
  moreover have "?teams \<in> set (detailsTabs ''/tournaments/cup/dashboard'' [])" by (simp add: detailsTabs_def)
  ultimately have "active_tabs sampleNavLink ''/tournaments/cup/dashboard/teams/12''
      (detailsTabs ''/tournaments/cup/dashboard'' []) = [?teams]"
    using one_tab_active[of sampleNavLink _ ?teams "detailsTabs ''/tournaments/cup/dashboard'' []"
        "''/tournaments/cup/dashboard''" 1 "''/tournaments/cup/dashboard''" "[]"] by blast
  then show ?thesis by simp
qed

end
