(* ===== verification/BrowserStorage.thy ===== *)
theory BrowserStorage
  imports SessionFlow
begin

text \<open>
  What the browser remembers (\<open>frontend/src/app/hooks.ts\<close>): the session, and for each tournament the team a
  visitor picked as their own. A value is written under its key and read back by the same hook; \<open>null\<close> is the
  default of both.
\<close>

section \<open>State and operations\<close>

datatype Stored = StoredSession Session | StoredTeam "int option"

type_synonym Storage = "string \<rightharpoonup> Stored"

definition SESSION_KEY :: string where
  "SESSION_KEY = ''bracket:session''"

definition myTeamKey :: "int \<Rightarrow> string" where
  "myTeamKey tournamentId = ''bracket:my-team:'' @ int_text tournamentId"

definition readSession :: "Storage \<Rightarrow> Session" where
  "readSession storage = (case storage SESSION_KEY of Some (StoredSession s) \<Rightarrow> s | _ \<Rightarrow> None)"

text \<open>The value of each hook with its setter.\<close>

definition useSession :: "Storage \<Rightarrow> Session \<times> (Session \<Rightarrow> Storage)" where
  "useSession storage = (readSession storage, \<lambda>s. storage(SESSION_KEY \<mapsto> StoredSession s))"

definition useMyTeam :: "Storage \<Rightarrow> int \<Rightarrow> int option \<times> (int option \<Rightarrow> Storage)" where
  "useMyTeam storage tournamentId =
     (case storage (myTeamKey tournamentId) of Some (StoredTeam t) \<Rightarrow> t | _ \<Rightarrow> None,
      \<lambda>t. storage(myTeamKey tournamentId \<mapsto> StoredTeam t))"

section \<open>Lemmas\<close>

lemma myTeamKey_inject: "myTeamKey a = myTeamKey b \<longleftrightarrow> a = b"
  using int_text_inject by (simp add: myTeamKey_def)

lemma session_key_apart: "myTeamKey t \<noteq> SESSION_KEY"
  by (simp add: myTeamKey_def SESSION_KEY_def)

text \<open>The team of a tournament is remembered until it is changed: not by another tournament, and not by signing in
  or out.\<close>

lemma my_team_remembered:
  "fst (useMyTeam (snd (useMyTeam storage t) v) t) = v"
  "t' \<noteq> t \<Longrightarrow> fst (useMyTeam (snd (useMyTeam storage t') v) t) = fst (useMyTeam storage t)"
  "fst (useMyTeam (snd (useSession storage) s) t) = fst (useMyTeam storage t)"
  by (simp_all add: useMyTeam_def useSession_def myTeamKey_inject session_key_apart)

lemma session_remembered:
  "readSession (snd (useSession storage) s) = s"
  "readSession (snd (useMyTeam storage t) v) = readSession storage"
  by (simp_all add: useSession_def readSession_def useMyTeam_def session_key_apart[symmetric])

end
