(* ===== verification/EntryPoint.thy ===== *)
theory EntryPoint
  imports UiMarkup BrowserStorage Sdk
begin

text \<open>
  How the application starts (\<open>frontend/src/main.tsx\<close>, \<open>openapi/client.gen.ts\<close>), the methods of the API client
  (the end of \<open>openapi/client/client.gen.ts\<close>), and the router of \<open>frontend/src/app.tsx\<close> with the pages it finds for an
  address.
\<close>

section \<open>The methods of the client\<close>

datatype HttpMethod = CONNECT | DELETE | GET | HEAD | OPTIONS | PATCH | POST | PUT | TRACE

definition methodFns :: "(string \<times> HttpMethod) list" where
  "methodFns =
     [(''connect'', CONNECT), (''delete'', DELETE), (''get'', GET), (''head'', HEAD), (''options'', OPTIONS),
      (''patch'', PATCH), (''post'', POST), (''put'', PUT), (''trace'', TRACE)]"

definition sseFns :: "(string \<times> HttpMethod) list" where
  "sseFns =
     [(''connect'', CONNECT), (''delete'', DELETE), (''get'', GET), (''head'', HEAD), (''options'', OPTIONS),
      (''patch'', PATCH), (''post'', POST), (''put'', PUT), (''trace'', TRACE)]"

fun method_text :: "HttpMethod \<Rightarrow> string" where
  "method_text CONNECT = ''CONNECT''"
| "method_text DELETE = ''DELETE''"
| "method_text GET = ''GET''"
| "method_text HEAD = ''HEAD''"
| "method_text OPTIONS = ''OPTIONS''"
| "method_text PATCH = ''PATCH''"
| "method_text POST = ''POST''"
| "method_text PUT = ''PUT''"
| "method_text TRACE = ''TRACE''"

text \<open>\<open>client.get(options)\<close> and the like.\<close>

definition clientMethod ::
  "text_env \<Rightarrow> axios \<Rightarrow> client_state \<Rightarrow> string \<Rightarrow> options \<Rightarrow> outcome option" where
  "clientMethod te axios client name options =
     map_option (\<lambda>m. client_request te axios client (method_text m) options) (map_of methodFns name)"

text \<open>Every function of the API calls a method the client has, and the client can stream over every method it has.\<close>

lemma endpoint_methods:
  "list_all (\<lambda>ep. \<exists>(name, m) \<in> set methodFns. method_text m = ep_method ep) ENDPOINTS"
  "map_of methodFns = map_of sseFns"
  by (simp add: endpoint_defs methodFns_def) (simp add: methodFns_def sseFns_def)

text \<open>What fails before the request is sent is thrown even if errors were to be returned, which is the default.\<close>

lemma early_errors_thrown:
  "beforeRequest te base config options = Inl e \<Longrightarrow> request te axios base config options = outcome.ThrownError e"
  by (simp add: request_def)

section \<open>Starting\<close>

text \<open>The local storage as raw texts by key; \<open>None\<close> when the browser refuses it.\<close>

type_synonym RawStorage = "(string \<rightharpoonup> string) option"

definition removeOldLogin :: "RawStorage \<Rightarrow> RawStorage" where
  "removeOldLogin storage = map_option (\<lambda>s. s(''login'' := None)) storage"

record Started =
  sd_client :: client_state
  sd_storage :: RawStorage
  sd_logged :: "string list" \<comment> \<open>the events that are logged\<close>
  sd_root :: bool \<comment> \<open>whether the page is rendered\<close>

definition configureApiClient ::
  "text_env \<Rightarrow> (options \<Rightarrow> options) \<Rightarrow> string option \<Rightarrow> string option \<Rightarrow> client_error + client_state" where
  "configureApiClient te axios_create runtimeApiBaseUrl viteApiBaseUrl =
     apiClient te axios_create (getApiBaseUrl runtimeApiBaseUrl viteApiBaseUrl)"

definition startApp ::
  "text_env \<Rightarrow> (options \<Rightarrow> options) \<Rightarrow> string option \<Rightarrow> string option \<Rightarrow> RawStorage \<Rightarrow> client_error + Started" where
  "startApp te axios_create runtimeApiBaseUrl viteApiBaseUrl storage =
     map_result (\<lambda>client. \<lparr>sd_client = client, sd_storage = removeOldLogin storage,
         sd_logged = [''error'', ''unhandledrejection''], sd_root = True\<rparr>)
       (configureApiClient te axios_create runtimeApiBaseUrl viteApiBaseUrl)"

text \<open>The start forgets the token of old sessions and nothing else, and does not depend on the storage.\<close>

lemma start_storage:
  assumes "startApp te axios_create runtime vite storage = Inr started"
  shows "sd_root started"
    and "sd_storage started = Some s \<Longrightarrow> s ''login'' = None"
    and "storage = Some s \<Longrightarrow> k \<in> {SESSION_KEY, myTeamKey t} \<Longrightarrow> map_option (\<lambda>s. s k) (sd_storage started) = Some (s k)"
    and "\<exists>started'. startApp te axios_create runtime vite None = Inr started'"
  using assms
  by (auto simp: startApp_def map_result_def removeOldLogin_def SESSION_KEY_def myTeamKey_def split: sum.splits)

section \<open>The router\<close>

datatype RouteElement =
    HomeRoute
  | LoginRoute
  | RegisterRoute
  | PasswordResetRoute
  | ClubsRoute
  | UserRoute
  | TournamentRoute TournamentSection
  | NavigateRoute string \<comment> \<open>replaced by the address relative to its path\<close>
  | NotFoundRoute

definition router :: "(string \<times> RouteElement) list" where
  "router =
     [(''/'', HomeRoute), (''/login'', LoginRoute), (''/create-account'', RegisterRoute),
      (''/password-reset'', PasswordResetRoute), (''/events'', ClubsRoute), (''/user'', UserRoute)] @
     map (\<lambda>(path, section). (''/tournaments/:tournamentKey'' @ path, TournamentRoute section)) TOURNAMENT_ROUTES @
     [(''/tournaments/:tournamentKey/results'', NavigateRoute ''../schedule''),
      (''/tournaments/:tournamentKey/dashboard/present/courts'', NavigateRoute ''../schedule'')]"

text \<open>
  Paths are matched part by part, as React Router documents: a part \<open>:name\<close> takes any part of the address, and \<open>same\<close>
  says which parts of an address a fixed part stands for. The catch-all \<open>*\<close> comes last. No two routes match the
  same address (\<open>routes_apart\<close>), so that their ranking plays no role.
\<close>

definition path_parts :: "string \<Rightarrow> string list" where
  "path_parts s = filter (\<lambda>p. p \<noteq> []) (split_on (CHR ''/'') s)"

definition is_param :: "string \<Rightarrow> bool" where
  "is_param p = starts_with p '':''"

fun match_parts ::
  "(string \<Rightarrow> string \<Rightarrow> bool) \<Rightarrow> string list \<Rightarrow> string list \<Rightarrow> (string \<times> string) list option" where
  "match_parts same [] [] = Some []"
| "match_parts same (p # ps) (a # as) =
     (if is_param p then map_option (\<lambda>params. (tl p, a) # params) (match_parts same ps as)
      else if same p a then match_parts same ps as else None)"
| "match_parts same _ _ = None"

definition matches :: "(string \<Rightarrow> string \<Rightarrow> bool) \<Rightarrow> string \<Rightarrow> (RouteElement \<times> (string \<times> string) list) list" where
  "matches same address =
     List.map_filter (\<lambda>(path, e). map_option (Pair e) (match_parts same (path_parts path) (path_parts address))) router"

definition routeOf :: "(string \<Rightarrow> string \<Rightarrow> bool) \<Rightarrow> string \<Rightarrow> RouteElement \<times> (string \<times> string) list" where
  "routeOf same address = (case matches same address of [] \<Rightarrow> (NotFoundRoute, []) | m # _ \<Rightarrow> m)"

text \<open>A part of an address stands for one fixed part at most: for itself, up to capitals.\<close>

definition part_rule :: "(string \<Rightarrow> string \<Rightarrow> bool) \<Rightarrow> bool" where
  "part_rule same \<longleftrightarrow> (\<forall>p. same p p) \<and>
     (\<forall>p q a. list_all (\<lambda>c. \<not> (65 \<le> (of_char c :: nat) \<and> of_char c \<le> (90 :: nat))) (p @ q) \<longrightarrow> same p a \<longrightarrow> same q a \<longrightarrow> p = q)"

section \<open>Routes do not compete\<close>

fun compete :: "string list \<Rightarrow> string list \<Rightarrow> bool" where
  "compete [] [] = True"
| "compete (p # ps) (q # qs) = ((is_param p \<or> is_param q \<or> p = q) \<and> compete ps qs)"
| "compete _ _ = False"

abbreviation small_letters :: "string \<Rightarrow> bool" where
  "small_letters \<equiv> list_all (\<lambda>c. \<not> (65 \<le> (of_char c :: nat) \<and> of_char c \<le> (90 :: nat)))"

lemma both_match_compete:
  assumes "part_rule same"
  shows "match_parts same ps as \<noteq> None \<Longrightarrow> match_parts same qs as \<noteq> None \<Longrightarrow>
    list_all (\<lambda>p. is_param p \<or> small_letters p) (ps @ qs) \<Longrightarrow> compete ps qs"
  using assms
  by (induction ps qs arbitrary: as rule: compete.induct; case_tac as)
    (auto simp: part_rule_def split: if_splits)

definition route_parts :: "string list list" where
  "route_parts = map (\<lambda>(path, e). path_parts path) router"

lemma routes_apart:
  "sorted_wrt (\<lambda>p q. \<not> compete p q) route_parts"
  "list_all (list_all (\<lambda>p. is_param p \<or> small_letters p)) route_parts"
  by code_simp+

lemma one_match:
  assumes "part_rule same"
  shows "length (matches same address) \<le> 1"
proof -
  let ?m = "\<lambda>p. match_parts same p (path_parts address)"
  have apart: "?m p = None \<or> ?m q = None" if "\<not> compete p q" "p \<in> set route_parts" "q \<in> set route_parts" for p q
  proof -
    have "list_all (\<lambda>p. is_param p \<or> small_letters p) p" "list_all (\<lambda>p. is_param p \<or> small_letters p) q"
      using routes_apart(2) that(2,3) unfolding list.pred_set by blast+
    then have "list_all (\<lambda>p. is_param p \<or> small_letters p) (p @ q)" unfolding list_all_append by blast
    then show ?thesis using both_match_compete[OF assms] that(1) by blast
  qed
  have "length (filter (\<lambda>p. ?m p \<noteq> None) ps) \<le> 1"
    if "sorted_wrt (\<lambda>p q. \<not> compete p q) ps" "set ps \<subseteq> set route_parts" for ps
    using that
  proof (induction ps)
    case (Cons p ps)
    show ?case
    proof (cases "?m p")
      case (Some v)
      then have "\<forall>q \<in> set ps. ?m q = None" using Cons.prems apart[of p] by auto
      then have "filter (\<lambda>p. ?m p \<noteq> None) ps = []" unfolding filter_empty_conv by simp
      then show ?thesis by simp
    qed (use Cons in simp)
  qed simp
  moreover have "length (matches same address) = length (filter (\<lambda>p. ?m p \<noteq> None) route_parts)"
    unfolding matches_def route_parts_def List.map_filter_def filter_map length_map
    by (simp add: comp_def case_prod_unfold)
  ultimately show ?thesis using routes_apart(1) by simp
qed

lemma routeOf_match:
  assumes "part_rule same" "(path, e) \<in> set router"
    and "match_parts same (path_parts path) (path_parts address) = Some params"
  shows "routeOf same address = (e, params)"
proof -
  have "(e, params) \<in> set (matches same address)"
    using assms(2,3) unfolding matches_def List.map_filter_def by (force simp: image_iff)
  with one_match[OF assms(1), of address] show ?thesis
    by (cases "matches same address") (auto simp: routeOf_def)
qed

section \<open>Addresses\<close>

text \<open>The address of a route, with a text for each parameter of its path.\<close>

definition address_part :: "(string \<Rightarrow> string) \<Rightarrow> string \<Rightarrow> string" where
  "address_part vals p = (if is_param p then vals (tl p) else p)"

definition address_of :: "(string \<Rightarrow> string) \<Rightarrow> string \<Rightarrow> string" where
  "address_of vals path = concat (map (\<lambda>p. CHR ''/'' # p) (map (address_part vals) (path_parts path)))"

definition route_params :: "(string \<Rightarrow> string) \<Rightarrow> string \<Rightarrow> (string \<times> string) list" where
  "route_params vals path = map (\<lambda>p. (tl p, vals (tl p))) (filter is_param (path_parts path))"

definition path_text :: "string \<Rightarrow> bool" where
  "path_text s \<longleftrightarrow> s \<noteq> [] \<and> CHR ''/'' \<notin> set s"

lemma path_parts_Nil: "path_parts [] = []"
  by (simp add: path_parts_def)

lemma path_parts_slash: "path_parts (CHR ''/'' # s) = path_parts s"
  by (simp add: path_parts_def)

lemma path_parts_part: "path_text a \<Longrightarrow> path_parts (a @ CHR ''/'' # s) = a # path_parts s" "path_text a \<Longrightarrow> path_parts a = [a]"
  by (simp_all add: path_parts_def path_text_def split_on_append split_on_none)

lemma path_parts_address: "list_all path_text ps \<Longrightarrow> path_parts (concat (map (\<lambda>p. CHR ''/'' # p) ps)) = ps"
proof (induction ps)
  case (Cons p ps)
  then show ?case by (cases ps) (simp_all add: path_parts_slash path_parts_part)
qed (simp add: path_parts_Nil)

lemma path_parts_texts: "list_all path_text (path_parts s)"
proof -
  have "CHR ''/'' \<notin> set p" if "p \<in> set (split_on (CHR ''/'') s)" for p
    using that by (induction s arbitrary: p) (auto split: if_splits list.splits)
  then show ?thesis by (auto simp: path_parts_def path_text_def list_all_iff)
qed

lemma address_parts:
  "(\<And>name. path_text (vals name)) \<Longrightarrow> path_parts (address_of vals path) = map (address_part vals) (path_parts path)"
  unfolding address_of_def
  by (rule path_parts_address) (use path_parts_texts[of path] in \<open>auto simp: list_all_iff address_part_def\<close>)

lemma match_own_parts:
  "part_rule same \<Longrightarrow> match_parts same ps (map (address_part vals) ps) =
     Some (map (\<lambda>p. (tl p, vals (tl p))) (filter is_param ps))"
  by (induction ps) (auto simp: address_part_def part_rule_def)

text \<open>Relative to the path, \<open>..\<close> takes away the last part of the address.\<close>

definition resolvePath :: "string \<Rightarrow> string \<Rightarrow> string" where
  "resolvePath address to =
     (if starts_with to ''../'' then concat (map (\<lambda>p. CHR ''/'' # p) (butlast (path_parts address))) @ drop 2 to else to)"

section \<open>Properties\<close>

text \<open>C22: Every address made from a path of the router, with any text for its parameters, is answered by the page of
  that path and no other, and the page gets exactly these texts as its parameters.\<close>

theorem address_finds_page:
  assumes "part_rule same" "(path, e) \<in> set router" "\<And>name. path_text (vals name)"
  shows "matches same (address_of vals path) = [(e, route_params vals path)]"
    (is "?m = _")
proof -
  have "match_parts same (path_parts path) (path_parts (address_of vals path)) = Some (route_params vals path)"
    by (simp add: address_parts assms(3) match_own_parts[OF assms(1)] route_params_def)
  then have "(e, route_params vals path) \<in> set ?m"
    using assms(2) unfolding matches_def List.map_filter_def by (force simp: image_iff)
  with one_match[OF assms(1), of "address_of vals path"] show ?thesis
    by (cases ?m) auto
qed

theorem address_finds_page_witness:
  "routeOf (=) ''/tournaments/cup/dashboard/teams/12'' =
     (TournamentRoute DashboardTeam, [(''tournamentKey'', ''cup''), (''teamId'', ''12'')])"
proof -
  let ?path = "''/tournaments/:tournamentKey/dashboard/teams/:teamId''"
  let ?vals = "\<lambda>name. if name = ''teamId'' then ''12'' else ''cup''"
  have "(?path, TournamentRoute DashboardTeam) \<in> set router" by (simp add: router_def TOURNAMENT_ROUTES_def)
  moreover have "part_rule (=)" by (simp add: part_rule_def)
  moreover have "path_text (?vals name)" for name by (simp add: path_text_def)
  ultimately have "matches (=) (address_of ?vals ?path) = [(TournamentRoute DashboardTeam, route_params ?vals ?path)]"
    using address_finds_page[of "(=)" ?path "TournamentRoute DashboardTeam" ?vals] by blast
  moreover have "address_of ?vals ?path = ''/tournaments/cup/dashboard/teams/12''"
    "route_params ?vals ?path = [(''tournamentKey'', ''cup''), (''teamId'', ''12'')]" by code_simp+
  ultimately show ?thesis by (simp add: routeOf_def)
qed

text \<open>The fixed links of the site and the old addresses lead to pages.\<close>

lemma fixed_links_routed:
  "list_all (\<lambda>(to, label). to \<in> fst ` set router) (links [TopNavMarkup name onLogout session] @ links [NotFoundPage])"
  by (simp add: top_nav_links fixed_pages TopNav_def router_def split: option.split)

lemma old_addresses_redirected:
  assumes "\<And>name. path_text (vals name)"
  shows "resolvePath (address_of vals ''/tournaments/:tournamentKey/results'') ''../schedule'' =
      address_of vals ''/tournaments/:tournamentKey/schedule''"
    and "resolvePath (address_of vals ''/tournaments/:tournamentKey/dashboard/present/courts'') ''../schedule'' =
      address_of vals ''/tournaments/:tournamentKey/dashboard/present/schedule''"
proof -
  have parts: "path_parts ''/tournaments/:tournamentKey/results'' = [''tournaments'', '':tournamentKey'', ''results'']"
    "path_parts ''/tournaments/:tournamentKey/schedule'' = [''tournaments'', '':tournamentKey'', ''schedule'']"
    "path_parts ''/tournaments/:tournamentKey/dashboard/present/courts'' =
      [''tournaments'', '':tournamentKey'', ''dashboard'', ''present'', ''courts'']"
    "path_parts ''/tournaments/:tournamentKey/dashboard/present/schedule'' =
      [''tournaments'', '':tournamentKey'', ''dashboard'', ''present'', ''schedule'']"
    by code_simp+
  have fixed: "\<not> is_param ''schedule''" "starts_with ''../schedule'' ''../''" by code_simp+
  show "resolvePath (address_of vals ''/tournaments/:tournamentKey/results'') ''../schedule'' =
      address_of vals ''/tournaments/:tournamentKey/schedule''"
    unfolding resolvePath_def address_parts[OF assms] if_P[OF fixed(2)]
    by (simp add: address_of_def parts address_part_def fixed(1))
  show "resolvePath (address_of vals ''/tournaments/:tournamentKey/dashboard/present/courts'') ''../schedule'' =
      address_of vals ''/tournaments/:tournamentKey/dashboard/present/schedule''"
    unfolding resolvePath_def address_parts[OF assms] if_P[OF fixed(2)]
    by (simp add: address_of_def parts address_part_def fixed(1))
qed

end
