(* ===== verification/BracketCanvas.thy ===== *)
theory BracketCanvas
  imports TournamentViews
begin

text \<open>
  The drawn bracket (\<open>frontend/src/app/components/bracket-viewer-canvas.tsx\<close>, loaded by \<open>bracket-viewer.tsx\<close>):
  brackets-viewer draws into a container in its own time, the component marks the teams among the drawn participants
  as links, and a click on a participant opens the page of its team. \<open>canvas_step\<close> has the events of a
  mounted bracket in any order: a new rendering of the page, and the progress of every drawing still under way.
\<close>

section \<open>State\<close>

text \<open>A drawn element that matches \<open>PARTICIPANT_SELECTOR\<close>: its \<open>data-participant-id\<close>, and whether it has the class
  \<open>team-link\<close>.\<close>

record ParticipantElement =
  pe_participantId :: string
  pe_teamLink :: bool

record 'a CanvasProps =
  cp_data :: BracketViewerData
  cp_onTeamClick :: "(int \<Rightarrow> 'a) option"
  cp_teamParticipants :: "(int \<rightharpoonup> int) option"

text \<open>A call of \<open>viewer.render\<close>: before it has drawn its data, and after that until its promise is answered.\<close>

datatype drawing = ToDraw BracketViewerData | Drawn

record 'a CanvasState =
  cs_props :: "'a CanvasProps"
  cs_elements :: "ParticipantElement list"
  cs_drawings :: "drawing list"

section \<open>The component\<close>

text \<open>The id of the container: what \<open>useId\<close> gives, without the characters a selector could not have.\<close>

definition is_alphanumeric :: "char \<Rightarrow> bool" where
  "is_alphanumeric c =
     (let n = (of_char c :: nat)
      in 97 \<le> n \<and> n \<le> 122 \<or> 65 \<le> n \<and> n \<le> 90 \<or> 48 \<le> n \<and> n \<le> 57)"

definition containerId :: "string \<Rightarrow> string" where
  "containerId useId = ''bracket-'' @ filter is_alphanumeric useId"

text \<open>\<open>teamParticipants.get(Number(id))\<close>: a number that is no integer is no key of the map.\<close>

definition participantTeam :: "(int \<rightharpoonup> int) \<Rightarrow> string \<Rightarrow> int option" where
  "participantTeam participants text =
     (case int_of_num (to_number text) of None \<Rightarrow> None | Some i \<Rightarrow> participants i)"

definition markTeams :: "'a CanvasProps \<Rightarrow> ParticipantElement list \<Rightarrow> ParticipantElement list" where
  "markTeams props container =
     (case (cp_onTeamClick props, cp_teamParticipants props) of
        (Some _, Some participants) \<Rightarrow>
          map (\<lambda>e. if participantTeam participants (pe_participantId e) \<noteq> None then e\<lparr>pe_teamLink := True\<rparr> else e)
            container
      | _ \<Rightarrow> container)"

text \<open>A click inside the bracket; \<open>None\<close> for one that hits no participant.\<close>

definition canvasClick :: "'a CanvasProps \<Rightarrow> string option \<Rightarrow> 'a option" where
  "canvasClick props participantId =
     (case participantId of
        None \<Rightarrow> None
      | Some text \<Rightarrow>
         (case cp_teamParticipants props of
            None \<Rightarrow> None
          | Some participants \<Rightarrow>
             (case participantTeam participants text of
                None \<Rightarrow> None
              | Some teamId \<Rightarrow> map_option (\<lambda>onTeamClick. onTeamClick teamId) (cp_onTeamClick props))))"

text \<open>A rendering with new props. Only a new \<open>data\<close> runs the effect again: its clean-up empties the container, and it
  starts a drawing if brackets-viewer is there.\<close>

definition canvasRendered :: "bool \<Rightarrow> bool \<Rightarrow> 'a CanvasProps \<Rightarrow> 'a CanvasState \<Rightarrow> 'a CanvasState" where
  "canvasRendered viewer sameData props st =
     (if sameData then st\<lparr>cs_props := props\<rparr>
      else st\<lparr>cs_props := props, cs_elements := [],
        cs_drawings := cs_drawings st @ (if viewer then [ToDraw (cp_data props)] else [])\<rparr>)"

definition canvasMounted :: "bool \<Rightarrow> 'a CanvasProps \<Rightarrow> 'a CanvasState" where
  "canvasMounted viewer props =
     canvasRendered viewer False props \<lparr>cs_props = props, cs_elements = [], cs_drawings = []\<rparr>"

text \<open>A drawing replaces what the container shows (\<open>clear: true\<close>), and marks the teams afterwards, under the props of
  that moment (\<open>useEffectEvent\<close>); \<open>draw\<close> gives the participants brackets-viewer draws for the data.\<close>

definition canvasDrawn ::
  "(BracketViewerData \<Rightarrow> string list) \<Rightarrow> nat \<Rightarrow> BracketViewerData \<Rightarrow> 'a CanvasState \<Rightarrow> 'a CanvasState" where
  "canvasDrawn draw k data st =
     st\<lparr>cs_elements := map (\<lambda>i. \<lparr>pe_participantId = i, pe_teamLink = False\<rparr>) (draw data),
        cs_drawings := (cs_drawings st)[k := Drawn]\<rparr>"

definition canvasSettled :: "nat \<Rightarrow> 'a CanvasState \<Rightarrow> 'a CanvasState" where
  "canvasSettled k st =
     st\<lparr>cs_elements := markTeams (cs_props st) (cs_elements st),
        cs_drawings := take k (cs_drawings st) @ drop (Suc k) (cs_drawings st)\<rparr>"

definition canvasFailed :: "nat \<Rightarrow> 'a CanvasState \<Rightarrow> 'a CanvasState" where
  "canvasFailed k st = st\<lparr>cs_drawings := take k (cs_drawings st) @ drop (Suc k) (cs_drawings st)\<rparr>"

text \<open>\<open>BracketSection\<close> makes the data and the map of the teams anew whenever it renders, so the two change
  together.\<close>

inductive canvas_step ::
  "(BracketViewerData \<Rightarrow> string list) \<Rightarrow> bool \<Rightarrow> 'a CanvasState \<Rightarrow> 'a CanvasState \<Rightarrow> bool" for draw viewer where
  rendered: "canvas_step draw viewer st (canvasRendered viewer False props st)"
| drawn: "k < length (cs_drawings st) \<Longrightarrow> cs_drawings st ! k = ToDraw data \<Longrightarrow>
    canvas_step draw viewer st (canvasDrawn draw k data st)"
| settled: "k < length (cs_drawings st) \<Longrightarrow> cs_drawings st ! k = Drawn \<Longrightarrow>
    canvas_step draw viewer st (canvasSettled k st)"
| failed: "k < length (cs_drawings st) \<Longrightarrow> cs_drawings st ! k = ToDraw data \<Longrightarrow>
    canvas_step draw viewer st (canvasFailed k st)"

inductive canvas_reachable ::
  "(BracketViewerData \<Rightarrow> string list) \<Rightarrow> bool \<Rightarrow> 'a CanvasState \<Rightarrow> bool" for draw viewer where
  mounted: "canvas_reachable draw viewer (canvasMounted viewer props)"
| step: "canvas_reachable draw viewer st \<Longrightarrow> canvas_step draw viewer st st' \<Longrightarrow> canvas_reachable draw viewer st'"

inductive_cases canvas_stepE: "canvas_step draw viewer st st'"

text \<open>The canvas loads on its own; until then a spinner takes its place.\<close>

datatype 'a ViewerView = ViewerLoading | ViewerCanvas "'a CanvasProps"

definition BracketViewer :: "bool \<Rightarrow> 'a CanvasProps \<Rightarrow> 'a ViewerView" where
  "BracketViewer loaded props = (if loaded then ViewerCanvas props else ViewerLoading)"

text \<open>The props of a bracket on the brackets page.\<close>

definition bracketProps ::
  "TournamentContextValue \<Rightarrow> StageItemWithRounds \<Rightarrow> BracketViewerData \<Rightarrow> string CanvasProps" where
  "bracketProps context stageItem data =
     \<lparr>cp_data = data, cp_onTeamClick = Some (teamPath (tc_publicPath context)),
      cp_teamParticipants = Some (teamParticipants stageItem)\<rparr>"

section \<open>Lemmas\<close>

lemma take_drop_set: "x \<in> set xs \<Longrightarrow> x \<noteq> xs ! k \<Longrightarrow> k < length xs \<Longrightarrow> x \<in> set (take k xs @ drop (Suc k) xs)"
  by (metis Cons_eq_appendI UnE UnI1 UnI2 id_take_nth_drop set_ConsD set_append)

text \<open>Marking is the same as asking what a click would do.\<close>

lemma markTeams_clicks:
  "markTeams props container =
     map (\<lambda>e. if canvasClick props (Some (pe_participantId e)) \<noteq> None then e\<lparr>pe_teamLink := True\<rparr> else e) container"
  by (cases "cp_onTeamClick props"; cases "cp_teamParticipants props")
    (auto simp: markTeams_def canvasClick_def map_idI split: option.split)

definition canvas_inv :: "'a CanvasState \<Rightarrow> bool" where
  "canvas_inv st \<longleftrightarrow> (\<forall>e \<in> set (cs_elements st).
     if canvasClick (cs_props st) (Some (pe_participantId e)) = None then \<not> pe_teamLink e
     else pe_teamLink e \<or> Drawn \<in> set (cs_drawings st))"

lemma canvas_inv_rendered: "canvas_inv (canvasRendered viewer False props st)"
  by (simp add: canvas_inv_def canvasRendered_def)

lemma canvas_inv_drawn: "k < length (cs_drawings st) \<Longrightarrow> canvas_inv (canvasDrawn draw k data st)"
  by (auto simp: canvas_inv_def canvasDrawn_def set_update_memI)

lemma canvas_inv_settled: "canvas_inv st \<Longrightarrow> canvas_inv (canvasSettled k st)"
  by (auto simp: canvas_inv_def canvasSettled_def markTeams_clicks)

lemma canvas_inv_failed:
  "canvas_inv st \<Longrightarrow> k < length (cs_drawings st) \<Longrightarrow> cs_drawings st ! k = ToDraw data \<Longrightarrow> canvas_inv (canvasFailed k st)"
  using take_drop_set[of Drawn "cs_drawings st" k] by (auto simp: canvas_inv_def canvasFailed_def)

lemma canvas_inv_step: "canvas_step draw viewer st st' \<Longrightarrow> canvas_inv st \<Longrightarrow> canvas_inv st'"
  by (erule canvas_stepE)
    (simp_all add: canvas_inv_rendered canvas_inv_drawn canvas_inv_settled canvas_inv_failed)

lemma canvas_inv_reachable: "canvas_reachable draw viewer st \<Longrightarrow> canvas_inv st"
  by (induction rule: canvas_reachable.induct)
    (simp_all add: canvasMounted_def canvas_inv_rendered canvas_inv_step)

text \<open>A click on a participant of a bracket opens the page of the team that holds the input, and a
  click on a participant without a team does nothing.\<close>

lemma participant_click_opens_team:
  assumes "distinct (map input_id (stage_item_inputs stageItem))" "i \<in> set (stage_item_inputs stageItem)"
  shows "canvasClick (bracketProps context stageItem data) (Some (int_text (input_id i)))
    = map_option (teamPath (tc_publicPath context)) (inputTeamId (Some i))"
proof (cases i)
  case (Final f)
  then have "teamParticipants stageItem (final_id f) = Some (final_team_id f)"
    using assms teamParticipants_Some by blast
  with Final show ?thesis
    by (simp add: canvasClick_def participantTeam_def bracketProps_def to_number_int_text)
qed (use teamParticipants_None[OF assms] in
    \<open>simp_all add: canvasClick_def participantTeam_def bracketProps_def to_number_int_text\<close>)

section \<open>Properties\<close>

text \<open>C17: However the drawings of a bracket and the renderings of the page interleave, a participant never looks
  clickable without being so: what is marked as a link opens a team when clicked. And once no drawing is under
  way, whatever opens a team is marked.\<close>

theorem bracket_links_honest:
  assumes "canvas_reachable draw viewer st"
  shows "list_all (\<lambda>e. pe_teamLink e \<longrightarrow> canvasClick (cs_props st) (Some (pe_participantId e)) \<noteq> None) (cs_elements st) \<and>
    (cs_drawings st = [] \<longrightarrow>
      list_all (\<lambda>e. pe_teamLink e = (canvasClick (cs_props st) (Some (pe_participantId e)) \<noteq> None)) (cs_elements st))"
  using canvas_inv_reachable[OF assms] by (auto simp: canvas_inv_def list_all_iff split: if_splits)

definition drawAll :: "BracketViewerData \<Rightarrow> string list" where
  "drawAll data = map (\<lambda>p. int_text (vp_id p)) (bv_participants data)"

theorem bracket_links_honest_witness:
  "let props = bracketProps bigScreenContext sampleBracket
         \<lparr>bv_matches = [], bv_participants = [\<lparr>vp_id = 2, vp_name = ''Lions'', vp_tournament_id = 1\<rparr>], bv_stages = []\<rparr>;
       st = canvasSettled 0 (canvasDrawn drawAll 0 (cp_data props) (canvasMounted True props))
   in list_all (\<lambda>e. pe_teamLink e) (cs_elements st) \<and> length (cs_elements st) = 1"
proof -
  let ?data = "\<lparr>bv_matches = [], bv_participants = [\<lparr>vp_id = 2, vp_name = ''Lions'', vp_tournament_id = 1\<rparr>],
    bv_stages = []\<rparr>"
  let ?props = "bracketProps bigScreenContext sampleBracket ?data"
  let ?drawn = "canvasDrawn drawAll 0 (cp_data ?props) (canvasMounted True ?props)"
  have "canvas_step drawAll True (canvasMounted True ?props) ?drawn"
    by (rule canvas_step.drawn) (simp_all add: canvasMounted_def canvasRendered_def)
  moreover have "canvas_step drawAll True ?drawn (canvasSettled 0 ?drawn)"
    by (rule canvas_step.settled) (simp_all add: canvasMounted_def canvasRendered_def canvasDrawn_def)
  ultimately have "canvas_reachable drawAll True (canvasSettled 0 ?drawn)"
    using canvas_reachable.mounted canvas_reachable.step by metis
  note honest = bracket_links_honest[OF this]
  have st: "cs_drawings (canvasSettled 0 ?drawn) = []" "cs_props (canvasSettled 0 ?drawn) = ?props"
    "map pe_participantId (cs_elements (canvasSettled 0 ?drawn)) = [int_text 2]"
    by (simp_all add: canvasSettled_def canvasDrawn_def canvasMounted_def canvasRendered_def drawAll_def
        markTeams_clicks bracketProps_def)
  have "canvasClick ?props (Some (int_text 2)) = Some (teamPath ''/tournaments/cup'' 12)"
    using participant_click_opens_team[of sampleBracket "Final input2" bigScreenContext ?data]
    by (simp add: sample_defs bigScreenContext_def)
  with honest st show ?thesis by (auto simp: list_all_iff)
qed

end
