(* ===== verification/StageRounds.thy ===== *)
theory StageRounds
  imports AppUtils
begin

text \<open>
  The rounds of a stage item in the bracket editor (\<open>frontend/src/app/sections/stage-item-rounds.tsx\<close>):
  which round is the draft, the current and the latest one, what the organizer is told, and the
  requests the forms send. Each component is a function from its props (and form state) to what it
  shows; each handler is a function to the request it makes.
\<close>

section \<open>Requests\<close>

datatype RoundCall =
    CreateRound int RoundCreateBody
  | DeleteRound int int
  | UpdateRound int int RoundUpdateBody
  | CreateMatch int MatchCreateBodyFrontend
  | DeleteMatch int int
  | UpdateMatch int int MatchBody

text \<open>The API as the page sees it: a call changes the server and succeeds or fails.\<close>

type_synonym 's server = "'s \<Rightarrow> RoundCall \<Rightarrow> 's \<times> (request_error + unit)"

record RoundContext =
  rc_stageItemsById :: "int \<rightharpoonup> StageItemWithRounds"
  rc_tournamentId :: int

section \<open>Helpers\<close>

definition sortedRounds :: "StageItemWithRounds \<Rightarrow> RoundWithMatches list" where
  "sortedRounds stageItem = js_sort (\<lambda>left right. round_id left - round_id right) (stage_item_rounds stageItem)"

definition playedCount :: "RoundWithMatches \<Rightarrow> nat" where
  "playedCount rnd = length (filter isScored (round_matches rnd))"

definition pairKey :: "int option \<Rightarrow> int option \<Rightarrow> string" where
  "pairKey input1Id input2Id =
     int_text (min (nullish input1Id 0) (nullish input2Id 0)) @ ''-'' @
     int_text (max (nullish input1Id 0) (nullish input2Id 0))"

definition generateRound :: "RoundContext \<Rightarrow> int \<Rightarrow> RoundCall" where
  "generateRound context stageItemId =
     CreateRound (rc_tournamentId context)
       \<lparr>round_create_body_name = None, round_create_body_stage_item_id = stageItemId\<rparr>"

definition stageItemStatus :: "StageItemWithRounds \<Rightarrow> string" where
  "stageItemStatus stageItem =
     (let inputs = stage_item_inputs stageItem;
          emptySlots = length (filter isEmptySlot inputs);
          rounds = sortedRounds stageItem
      in if emptySlots > 0
         then nat_text (length inputs - emptySlots) @ '' of '' @ nat_text (length inputs) @ '' slots filled''
         else (case List.find round_is_draft rounds of
            Some draft \<Rightarrow> round_name draft @ '' is waiting to be published''
          | None \<Rightarrow>
             (case List.find (\<lambda>r. playedCount r < length (round_matches r)) rounds of
                Some current \<Rightarrow>
                  round_name current @ '': '' @ nat_text (playedCount current) @ '' of '' @
                  nat_text (length (round_matches current)) @ '' matches played''
              | None \<Rightarrow>
                  if stage_item_type stageItem = SWISS
                  then ''Ready for round '' @ nat_text (length rounds + 1)
                  else ''All matches played'')))"

section \<open>The list of rounds\<close>

record PublishedRoundProps =
  prp_round :: RoundWithMatches
  prp_canDelete :: bool
  prp_open :: bool

datatype RoundsHeader =
    CreatedTogether bool \<comment> \<open>whether empty slots remain to be filled\<close>
  | DraftHeader RoundWithMatches
  | NextSwissHeader "RoundWithMatches option" nat

record StageItemRoundsView =
  srv_header :: RoundsHeader
  srv_published :: "PublishedRoundProps list"

definition StageItemRounds :: "StageItemWithRounds \<Rightarrow> StageItemRoundsView" where
  "StageItemRounds stageItem =
     (let rounds = sortedRounds stageItem;
          draft = List.find round_is_draft rounds;
          published = filter (\<lambda>r. \<not> round_is_draft r) rounds;
          current = List.find (\<lambda>r. playedCount r < length (round_matches r)) published;
          latest = (if published = [] then None else Some (last published));
          isSwiss = (stage_item_type stageItem = SWISS)
      in \<lparr>srv_header =
            (if \<not> isSwiss then CreatedTogether (list_ex isEmptySlot (stage_item_inputs stageItem))
             else (case draft of Some d \<Rightarrow> DraftHeader d
                   | None \<Rightarrow> NextSwissHeader latest (length rounds + 1))),
          srv_published =
            map (\<lambda>r. \<lparr>prp_round = r,
                      prp_canDelete = (isSwiss \<and> draft = None \<and>
                        Some (round_id r) = map_option round_id latest),
                      prp_open = (Some (round_id r) = map_option round_id current)\<rparr>)
              (if isSwiss then rev published else published)\<rparr>)"

section \<open>The next Swiss round\<close>

record NextSwissView =
  nsv_needsTeams :: bool
  nsv_warning :: "string option"
  nsv_disabled :: bool
  nsv_label :: string

definition unplayedCount :: "RoundWithMatches option \<Rightarrow> nat" where
  "unplayedCount previous =
     (case previous of None \<Rightarrow> 0 | Some p \<Rightarrow> length (round_matches p) - playedCount p)"

definition canGenerate :: "StageItemWithRounds \<Rightarrow> bool" where
  "canGenerate stageItem = (length (activeTeamInputs stageItem) \<ge> 2)"

definition NextSwissRound ::
  "RoundWithMatches option \<Rightarrow> nat \<Rightarrow> StageItemWithRounds \<Rightarrow> bool \<Rightarrow> NextSwissView" where
  "NextSwissRound previous roundNumber stageItem isPending =
     (let unplayed = unplayedCount previous
      in \<lparr>nsv_needsTeams = (\<not> canGenerate stageItem),
          nsv_warning =
            (case previous of
               None \<Rightarrow> None
             | Some p \<Rightarrow>
                if canGenerate stageItem \<and> unplayed > 0
                then Some (round_name p @ '' still has '' @ nat_text unplayed @ '' '' @
                  (if unplayed = 1 then ''match'' else ''matches'') @
                  '' without a score. The pairings are based on the results entered so far.'')
                else None),
          nsv_disabled = (\<not> canGenerate stageItem \<or> isPending),
          nsv_label = (if isPending then ''Generating'' @ ellipsis
                       else ''Generate round '' @ nat_text roundNumber)\<rparr>)"

text \<open>The click on the button; \<open>confirm\<close> is the answer of \<open>window.confirm\<close>.\<close>

definition generateClick ::
  "(string \<Rightarrow> bool) \<Rightarrow> RoundContext \<Rightarrow> RoundWithMatches option \<Rightarrow> nat \<Rightarrow> StageItemWithRounds \<Rightarrow> RoundCall option"
  where
  "generateClick confirm context previous roundNumber stageItem =
     (case previous of
        Some p \<Rightarrow>
          if unplayedCount previous > 0 \<and>
             \<not> confirm (round_name p @ '' isn'' @ [CHR 0x27] @ ''t finished. Generate round '' @
                        nat_text roundNumber @ '' anyway?'')
          then None else Some (generateRound context (stage_item_id stageItem))
      | None \<Rightarrow> Some (generateRound context (stage_item_id stageItem)))"

section \<open>The draft round\<close>

definition pairedIds :: "RoundWithMatches \<Rightarrow> int option list" where
  "pairedIds rnd =
     List.maps (\<lambda>m. [match_stage_item_input1_id m, match_stage_item_input2_id m]) (round_matches rnd)"

definition unpairedInputs :: "StageItemWithRounds \<Rightarrow> RoundWithMatches \<Rightarrow> StageItemInputFinal list" where
  "unpairedInputs stageItem rnd =
     filter (\<lambda>i. Some (final_id i) \<notin> set (pairedIds rnd)) (activeTeamInputs stageItem)"

definition playedPairs :: "StageItemWithRounds \<Rightarrow> string list" where
  "playedPairs stageItem =
     List.maps
       (\<lambda>other. map (\<lambda>m. pairKey (match_stage_item_input1_id m) (match_stage_item_input2_id m))
          (round_matches other))
       (filter (\<lambda>other. \<not> round_is_draft other) (stage_item_rounds stageItem))"

record DraftRoundView =
  drv_name :: string
  drv_noPairings :: bool
  drv_matches :: "MatchWithDetails list"
  drv_sittingOut :: "string option"
  drv_addPairing :: "StageItemInputFinal list option"
  drv_publishDisabled :: bool

definition DraftRound :: "RoundWithMatches \<Rightarrow> StageItemWithRounds \<Rightarrow> bool \<Rightarrow> DraftRoundView" where
  "DraftRound rnd stageItem busy =
     (let unpaired = unpairedInputs stageItem rnd
      in \<lparr>drv_name = round_name rnd,
          drv_noPairings = (round_matches rnd = []),
          drv_matches = round_matches rnd,
          drv_sittingOut = (if unpaired \<noteq> []
             then Some (''Sitting out this round: '' @ join '', '' (map (\<lambda>i. team_name (final_team i)) unpaired))
             else None),
          drv_addPairing = (if length unpaired \<ge> 2 then Some unpaired else None),
          drv_publishDisabled = (busy \<or> round_matches rnd = [])\<rparr>)"

definition publishClick :: "RoundContext \<Rightarrow> RoundWithMatches \<Rightarrow> RoundCall" where
  "publishClick context rnd =
     UpdateRound (rc_tournamentId context) (round_id rnd)
       \<lparr>round_update_body_is_draft = False, round_update_body_name = round_name rnd\<rparr>"

definition discardClick :: "(string \<Rightarrow> bool) \<Rightarrow> RoundContext \<Rightarrow> RoundWithMatches \<Rightarrow> RoundCall option" where
  "discardClick confirm context rnd =
     (if confirm (''Discard the draft '' @ round_name rnd @ ''?'')
      then Some (DeleteRound (rc_tournamentId context) (round_id rnd)) else None)"

text \<open>New pairings: the draft is deleted first, and a failure there leaves it alone.\<close>

definition regenerate ::
  "'s server \<Rightarrow> RoundContext \<Rightarrow> RoundWithMatches \<Rightarrow> int \<Rightarrow> 's \<Rightarrow> 's \<times> (request_error + unit)" where
  "regenerate server context rnd stageItemId s =
     (case server s (DeleteRound (rc_tournamentId context) (round_id rnd)) of
        (s', Inl e) \<Rightarrow> (s', Inl e)
      | (s', Inr _) \<Rightarrow> server s' (generateRound context stageItemId))"

definition TeamWithRecord :: "RoundContext \<Rightarrow> StageItemInput option \<Rightarrow> string \<times> string option" where
  "TeamWithRecord context input =
     (inputLabel input (rc_stageItemsById context),
      case input of
        None \<Rightarrow> None
      | Some i \<Rightarrow>
         if input_wins i + input_draws i + input_losses i > 0
         then Some (''('' @ int_text (input_wins i) @ ''W '' @ int_text (input_draws i) @ ''D '' @
                    int_text (input_losses i) @ ''L)'')
         else None)"

definition removePairingClick :: "RoundContext \<Rightarrow> MatchWithDetails \<Rightarrow> RoundCall" where
  "removePairingClick context m = DeleteMatch (rc_tournamentId context) (match_id m)"

section \<open>Adding a pairing\<close>

record PairingForm =
  pf_first :: string
  pf_second :: string

definition emptyPairing :: PairingForm where
  "emptyPairing = \<lparr>pf_first = [], pf_second = []\<rparr>"

text \<open>Choosing the first team clears the second one when it is the same.\<close>

definition chooseFirst :: "string \<Rightarrow> PairingForm \<Rightarrow> PairingForm" where
  "chooseFirst v form =
     \<lparr>pf_first = v, pf_second = (if v = pf_second form then [] else pf_second form)\<rparr>"

definition chooseSecond :: "string \<Rightarrow> PairingForm \<Rightarrow> PairingForm" where
  "chooseSecond v form = form\<lparr>pf_second := v\<rparr>"

definition firstOptions :: "StageItemInputFinal list \<Rightarrow> string list" where
  "firstOptions teams = [] # map (\<lambda>i. int_text (final_id i)) teams"

text \<open>The options of the second list with their labels.\<close>

definition secondOptions ::
  "string list \<Rightarrow> StageItemInputFinal list \<Rightarrow> PairingForm \<Rightarrow> (string \<times> string) list" where
  "secondOptions played teams form =
     ([], ''Pick a team'') #
     map (\<lambda>i. (int_text (final_id i),
               team_name (final_team i) @
               (if pf_first form \<noteq> [] \<and>
                   pairKey (int_of_num (to_number (pf_first form))) (Some (final_id i)) \<in> set played
                then '' (rematch)'' else [])))
       (filter (\<lambda>i. int_text (final_id i) \<noteq> pf_first form) teams)"

definition addDisabled :: "bool \<Rightarrow> bool \<Rightarrow> PairingForm \<Rightarrow> bool" where
  "addDisabled disabled isPending form =
     (disabled \<or> isPending \<or> pf_first form = [] \<or> pf_second form = [])"

definition addPairing :: "RoundContext \<Rightarrow> int \<Rightarrow> PairingForm \<Rightarrow> RoundCall" where
  "addPairing context roundId form =
     CreateMatch (rc_tournamentId context)
       \<lparr>match_create_body_frontend_round_id = roundId,
        match_create_body_frontend_stage_item_input1_id = int_of_num (to_number (pf_first form)),
        match_create_body_frontend_stage_item_input1_winner_from_match_id = None,
        match_create_body_frontend_stage_item_input2_id = int_of_num (to_number (pf_second form)),
        match_create_body_frontend_stage_item_input2_winner_from_match_id = None\<rparr>"

text \<open>
  What can happen to the form while the page is open. The teams on offer may change under it, as the
  page follows the server; a saved pairing resets it.
\<close>

inductive pairing_step ::
  "string list \<Rightarrow> StageItemInputFinal list \<times> PairingForm \<Rightarrow> StageItemInputFinal list \<times> PairingForm \<Rightarrow> bool"
  for played where
  first: "v \<in> set (firstOptions teams) \<Longrightarrow> pairing_step played (teams, form) (teams, chooseFirst v form)"
| second: "v \<in> fst ` set (secondOptions played teams form) \<Longrightarrow>
    pairing_step played (teams, form) (teams, chooseSecond v form)"
| reload: "pairing_step played (teams, form) (teams', form)"
| saved: "pairing_step played (teams, form) (teams, emptyPairing)"

inductive pairing_reachable ::
  "string list \<Rightarrow> StageItemInputFinal list \<times> PairingForm \<Rightarrow> bool" for played where
  start: "pairing_reachable played (teams, emptyPairing)"
| step: "pairing_reachable played s \<Longrightarrow> pairing_step played s t \<Longrightarrow> pairing_reachable played t"

section \<open>Published rounds and scores\<close>

record PublishedRoundView =
  prv_name :: string
  prv_done :: bool
  prv_summary :: string
  prv_matches :: "MatchWithDetails list"
  prv_showDelete :: bool

definition PublishedRound :: "'d date_fns \<Rightarrow> bool \<Rightarrow> RoundWithMatches \<Rightarrow> PublishedRoundView" where
  "PublishedRound df canDelete rnd =
     (let played = playedCount rnd;
          total = length (round_matches rnd);
          startTime = (case List.find (\<lambda>m. or_text (match_start_time m) [] \<noteq> []) (round_matches rnd) of
                         None \<Rightarrow> None | Some m \<Rightarrow> match_start_time m)
      in \<lparr>prv_name = round_name rnd,
          prv_done = (total > 0 \<and> played = total),
          prv_summary = formatDateTime df startTime @ '' '' @ middle_dot @ '' '' @ nat_text played @ '' of '' @
            nat_text total @ '' matches played'',
          prv_matches = round_matches rnd,
          prv_showDelete = canDelete\<rparr>)"

definition deleteRoundClick :: "(string \<Rightarrow> bool) \<Rightarrow> RoundContext \<Rightarrow> RoundWithMatches \<Rightarrow> RoundCall option" where
  "deleteRoundClick confirm context rnd =
     (if confirm (''Delete '' @ round_name rnd @ '' and its results?'')
      then Some (DeleteRound (rc_tournamentId context) (round_id rnd)) else None)"

definition scoreReady :: "MatchWithDetails \<Rightarrow> bool" where
  "scoreReady m = (hasTeam (match_stage_item_input1 m) \<and> hasTeam (match_stage_item_input2 m))"

text \<open>The form keeps everything else of the match as it is.\<close>

definition saveScores :: "RoundContext \<Rightarrow> MatchWithDetails \<Rightarrow> int \<Rightarrow> int \<Rightarrow> RoundCall" where
  "saveScores context m score1 score2 =
     UpdateMatch (rc_tournamentId context) (match_id m)
       \<lparr>match_body_custom_duration_minutes = match_custom_duration_minutes m,
        match_body_custom_margin_minutes = match_custom_margin_minutes m,
        match_body_round_id = match_round_id m,
        match_body_stage_item_input1_score = score1,
        match_body_stage_item_input2_score = score2\<rparr>"

section \<open>Facts\<close>

interpretation round_order: js_key_comparator
  "\<lambda>left right. round_id left - round_id right" UNIV round_id
  by (rule lex3_comparatorI[where f = "\<lambda>_. 0" and g = "\<lambda>_. 0"]) simp

lemma set_sortedRounds [simp]: "set (sortedRounds s) = set (stage_item_rounds s)"
  by (simp add: sortedRounds_def)

lemma sortedRounds_sorted: "sorted_wrt (\<lambda>a b. round_id a \<le> round_id b) (sortedRounds s)"
  using round_order.sorted_sort[of "stage_item_rounds s"] by (simp add: sortedRounds_def)

lemma pairing_step_distinct:
  "pairing_step played s t \<Longrightarrow> pf_second (snd s) = [] \<or> pf_first (snd s) \<noteq> pf_second (snd s) \<Longrightarrow>
    pf_second (snd t) = [] \<or> pf_first (snd t) \<noteq> pf_second (snd t)"
  by (induction rule: pairing_step.induct)
    (auto simp: chooseFirst_def chooseSecond_def secondOptions_def emptyPairing_def)

lemma pairing_distinct:
  "pairing_reachable played s \<Longrightarrow> pf_second (snd s) = [] \<or> pf_first (snd s) \<noteq> pf_second (snd s)"
proof (induction rule: pairing_reachable.induct)
  case (step s t)
  then show ?case using pairing_step_distinct by blast
qed (simp add: emptyPairing_def)

definition option_text :: "string \<Rightarrow> bool" where
  "option_text v = (v = [] \<or> (\<exists>i. v = int_text i))"

lemma pairing_texts:
  "pairing_reachable played s \<Longrightarrow> option_text (pf_first (snd s)) \<and> option_text (pf_second (snd s))"
proof (induction rule: pairing_reachable.induct)
  case (step s t)
  from step.hyps(2) step.IH show ?case
    by (induction rule: pairing_step.induct)
      (auto simp: chooseFirst_def chooseSecond_def firstOptions_def secondOptions_def
        emptyPairing_def option_text_def)
qed (simp add: emptyPairing_def option_text_def)

text \<open>The key of a pairing names the two inputs, in whatever order they play.\<close>

lemma int_text_no_minus: "0 \<le> i \<Longrightarrow> CHR ''-'' \<notin> set (int_text i)"
  by (auto simp: int_text_def minus_not_digit dest: nat_text_digits)

lemma pairKey_eq:
  assumes "0 \<le> nullish a 0" "0 \<le> nullish b 0" "0 \<le> nullish c 0" "0 \<le> nullish d 0"
  shows "pairKey a b = pairKey c d \<longleftrightarrow> {nullish a 0, nullish b 0} = {nullish c 0, nullish d (0::int)}"
proof -
  have "pairKey a b = pairKey c d \<longleftrightarrow>
      min (nullish a 0) (nullish b 0) = min (nullish c 0) (nullish d 0) \<and>
      max (nullish a 0) (nullish b 0) = max (nullish c 0) (nullish d 0)"
    using assms by (simp add: pairKey_def append_Cons_eq_iff int_text_no_minus)
  then show ?thesis by (auto simp: min_def max_def doubleton_eq_iff split: if_splits)
qed

lemma pairKey_pair:
  assumes "0 < a" "0 < b" "c = None \<or> 0 < the c" "d = None \<or> 0 < the d"
  shows "pairKey (Some a) (Some b) = pairKey c d \<longleftrightarrow> {c, d} = {Some a, Some b}"
  using assms by (cases c; cases d) (auto simp: pairKey_eq doubleton_eq_iff)

lemma playedPairs_mem:
  "k \<in> set (playedPairs stageItem) \<longleftrightarrow>
    (\<exists>r \<in> set (stage_item_rounds stageItem). \<not> round_is_draft r \<and>
      (\<exists>m \<in> set (round_matches r). k = pairKey (match_stage_item_input1_id m) (match_stage_item_input2_id m)))"
  by (auto simp: playedPairs_def)

lemma addable_texts:
  assumes "pairing_reachable played (teams, form)" "\<not> addDisabled disabled isPending form"
  obtains a b where "pf_first form = int_text a" "pf_second form = int_text b" "a \<noteq> b"
proof -
  have "pf_first form \<noteq> []" "pf_second form \<noteq> []" using assms(2) by (auto simp: addDisabled_def)
  then show thesis
    using pairing_texts[OF assms(1)] pairing_distinct[OF assms(1)] that by (auto simp: option_text_def)
qed

lemma playedCount_le: "playedCount r \<le> length (round_matches r)"
  by (simp add: playedCount_def)

lemma mset_sortedRounds [simp]: "mset (sortedRounds s) = mset (stage_item_rounds s)"
  by (simp add: sortedRounds_def)

lemma filter_id: "distinct (map f xs) \<Longrightarrow> x \<in> set xs \<Longrightarrow> filter (\<lambda>y. f y = f x) xs = [x]"
  by (induction xs) (auto simp: filter_empty_conv image_iff)

text \<open>The current round is the first one, by id, with a match to play.\<close>

lemma current_round:
  assumes "List.find P xs = Some c" "sorted_wrt (\<lambda>a b. round_id a \<le> round_id b) xs"
  shows "c \<in> set xs \<and> P c \<and> (\<forall>r \<in> set xs. P r \<longrightarrow> round_id c \<le> round_id r)"
proof -
  obtain ys zs where xs: "xs = ys @ c # zs" "P c" "list_all (\<lambda>y. \<not> P y) ys"
    using find_first[OF assms(1)] by blast
  with assms(2) show ?thesis by (auto simp: sorted_wrt_append list_all_iff)
qed

lemma latest_round:
  assumes "xs \<noteq> []" "sorted_wrt (\<lambda>a b. round_id a \<le> round_id b) xs"
  shows "last xs \<in> set xs \<and> (\<forall>r \<in> set xs. round_id r \<le> round_id (last xs))"
  using assms by (cases xs rule: rev_cases) (auto simp: sorted_wrt_append)

text \<open>The list of published rounds, opened up.\<close>

definition publishedRounds :: "StageItemWithRounds \<Rightarrow> RoundWithMatches list" where
  "publishedRounds stageItem = filter (\<lambda>r. \<not> round_is_draft r) (sortedRounds stageItem)"

lemma Some_eq_map: "Some k = map_option f x \<longleftrightarrow> (\<exists>c. x = Some c \<and> k = f c)"
  by (cases x) auto

lemma published_props:
  fixes stageItem
  defines "swiss \<equiv> stage_item_type stageItem = SWISS" and "pub \<equiv> publishedRounds stageItem"
  shows "srv_published (StageItemRounds stageItem) =
    map (\<lambda>r. \<lparr>prp_round = r,
        prp_canDelete = (swiss \<and> List.find round_is_draft (sortedRounds stageItem) = None \<and>
          pub \<noteq> [] \<and> round_id r = round_id (last pub)),
        prp_open = (\<exists>c. List.find (\<lambda>r. playedCount r < length (round_matches r)) pub = Some c \<and>
          round_id r = round_id c)\<rparr>)
      (if swiss then rev pub else pub)"
  by (simp add: StageItemRounds_def Let_def publishedRounds_def swiss_def pub_def Some_eq_map)

lemma published_facts:
  assumes "distinct (map round_id (stage_item_rounds stageItem))"
  shows "distinct (map round_id (publishedRounds stageItem))"
    and "sorted_wrt (\<lambda>a b. round_id a \<le> round_id b) (publishedRounds stageItem)"
    and "mset (publishedRounds stageItem) = mset (filter (\<lambda>r. \<not> round_is_draft r) (stage_item_rounds stageItem))"
proof -
  have "distinct (map round_id (sortedRounds stageItem))"
    using assms by (simp add: sortedRounds_def distinct_map_js_sort)
  then show "distinct (map round_id (publishedRounds stageItem))"
    by (simp add: publishedRounds_def distinct_map_filter)
  show "sorted_wrt (\<lambda>a b. round_id a \<le> round_id b) (publishedRounds stageItem)"
    unfolding publishedRounds_def using sortedRounds_sorted by (rule sorted_wrt_filter)
qed (simp add: publishedRounds_def)

section \<open>Properties\<close>

text \<open>C8: However the organizer fills the pairing form, and however the teams on offer change meanwhile,
  the button that is enabled only ever asks for a match of two different inputs.\<close>

theorem pairing_two_teams:
  assumes "pairing_reachable played (teams, form)" "\<not> addDisabled disabled isPending form"
  shows "\<exists>a b body. addPairing context roundId form = CreateMatch (rc_tournamentId context) body \<and>
    match_create_body_frontend_round_id body = roundId \<and>
    match_create_body_frontend_stage_item_input1_id body = Some a \<and>
    match_create_body_frontend_stage_item_input2_id body = Some b \<and> a \<noteq> b"
proof -
  obtain a b where "pf_first form = int_text a" "pf_second form = int_text b" "a \<noteq> b"
    using addable_texts[OF assms] .
  then show ?thesis by (simp add: addPairing_def to_number_int_text)
qed

theorem pairing_two_teams_witness:
  "\<exists>a b. a \<noteq> b \<and>
    addPairing \<lparr>rc_stageItemsById = Map.empty, rc_tournamentId = 1\<rparr> 7 \<lparr>pf_first = ''1'', pf_second = ''2''\<rparr>
    = CreateMatch 1 \<lparr>match_create_body_frontend_round_id = 7,
        match_create_body_frontend_stage_item_input1_id = Some a,
        match_create_body_frontend_stage_item_input1_winner_from_match_id = None,
        match_create_body_frontend_stage_item_input2_id = Some b,
        match_create_body_frontend_stage_item_input2_winner_from_match_id = None\<rparr>"
proof -
  let ?teams = "[input1, input2]"
  have texts: "int_text 1 = ''1''" "int_text 2 = ''2''" by code_simp+
  have "pairing_reachable [] (?teams, chooseFirst ''1'' emptyPairing)"
    by (rule pairing_reachable.step[OF pairing_reachable.start pairing_step.first])
      (simp add: firstOptions_def sample_defs texts)
  then have "pairing_reachable [] (?teams, chooseSecond ''2'' (chooseFirst ''1'' emptyPairing))"
    by (rule pairing_reachable.step[OF _ pairing_step.second])
      (simp add: secondOptions_def chooseFirst_def sample_defs texts)
  then have "pairing_reachable [] (?teams, \<lparr>pf_first = ''1'', pf_second = ''2''\<rparr>)"
    by (simp add: chooseFirst_def chooseSecond_def emptyPairing_def)
  from pairing_two_teams[OF this, of False False "\<lparr>rc_stageItemsById = Map.empty, rc_tournamentId = 1\<rparr>" 7]
  show ?thesis by (auto simp: addDisabled_def addPairing_def)
qed

text \<open>C10: The form marks an opponent as a rematch exactly when a published round of the stage item has a
  match between the two inputs, on either side.\<close>

theorem rematch_marked:
  assumes "0 < a" "list_all (\<lambda>i. 0 < final_id i) teams"
    and "\<forall>r \<in> set (stage_item_rounds stageItem). \<forall>m \<in> set (round_matches r).
      list_all (\<lambda>i. i = None \<or> 0 < the i) [match_stage_item_input1_id m, match_stage_item_input2_id m]"
  shows "secondOptions (playedPairs stageItem) teams \<lparr>pf_first = int_text a, pf_second = second\<rparr> =
    ([], ''Pick a team'') #
    map (\<lambda>i. (int_text (final_id i), team_name (final_team i) @
        (if \<exists>r \<in> set (stage_item_rounds stageItem). \<not> round_is_draft r \<and>
            (\<exists>m \<in> set (round_matches r). {match_stage_item_input1_id m, match_stage_item_input2_id m}
              = {Some a, Some (final_id i)})
         then '' (rematch)'' else [])))
      (filter (\<lambda>i. final_id i \<noteq> a) teams)"
proof -
  have "pairKey (Some a) (Some b) \<in> set (playedPairs stageItem) \<longleftrightarrow>
      (\<exists>r \<in> set (stage_item_rounds stageItem). \<not> round_is_draft r \<and>
        (\<exists>m \<in> set (round_matches r). {match_stage_item_input1_id m, match_stage_item_input2_id m}
          = {Some a, Some b}))" if b: "0 < b" for b
  proof -
    have "pairKey (Some a) (Some b) = pairKey (match_stage_item_input1_id m) (match_stage_item_input2_id m)
        \<longleftrightarrow> {match_stage_item_input1_id m, match_stage_item_input2_id m} = {Some a, Some b}"
      if "r \<in> set (stage_item_rounds stageItem)" "m \<in> set (round_matches r)" for r m
      using assms(1,3) b that by (intro pairKey_pair) (auto simp: list_all_iff)
    then show ?thesis unfolding playedPairs_mem by blast
  qed
  then show ?thesis
    using assms(2) int_text_nonempty
    by (auto simp: secondOptions_def to_number_int_text list_all_iff)
qed

theorem rematch_marked_witness:
  "map snd (secondOptions
      (playedPairs (sampleItem 1 SWISS [] [sampleRound 1 False [matchA], sampleRound 2 True [matchB]]))
      [input1, input2, input3, input4] \<lparr>pf_first = int_text 1, pf_second = []\<rparr>)
    = [''Pick a team'', ''Ben (rematch)'', ''Cem'', ''Dia'']"
  by (subst rematch_marked) (simp_all add: sample_defs doubleton_eq_iff)

text \<open>The open panel is that of the first unfinished round, and the one that can be deleted that of the latest.\<close>

lemma open_panel_current:
  assumes "distinct (map round_id (stage_item_rounds stageItem))"
    and "p \<in> set (srv_published (StageItemRounds stageItem))" "prp_open p"
  defines "unfinished \<equiv> \<lambda>r. playedCount r < length (round_matches r)"
  shows "unfinished (prp_round p) \<and> (\<forall>q \<in> set (srv_published (StageItemRounds stageItem)).
    unfinished (prp_round q) \<longrightarrow> round_id (prp_round p) \<le> round_id (prp_round q))"
proof -
  let ?pub = "publishedRounds stageItem"
  note facts = published_facts[OF assms(1)] and props = published_props[of stageItem, folded unfinished_def]
  obtain c where c: "List.find unfinished ?pub = Some c" "round_id (prp_round p) = round_id c"
    and "prp_round p \<in> set ?pub"
    using assms(2,3) by (auto simp: props split: if_splits)
  then have "prp_round p = c"
    using current_round[OF c(1) facts(2)] facts(1) by (auto simp: distinct_map dest: inj_onD)
  then show ?thesis using current_round[OF c(1) facts(2)] by (auto simp: props split: if_splits)
qed

lemma deletable_panel_latest:
  assumes "distinct (map round_id (stage_item_rounds stageItem))"
    and "p \<in> set (srv_published (StageItemRounds stageItem))" "prp_canDelete p"
  shows "stage_item_type stageItem = SWISS \<and>
    (\<forall>r \<in> set (stage_item_rounds stageItem). \<not> round_is_draft r \<and> round_id r \<le> round_id (prp_round p))"
proof -
  let ?pub = "publishedRounds stageItem"
  have swiss: "stage_item_type stageItem = SWISS" "\<forall>r \<in> set (stage_item_rounds stageItem). \<not> round_is_draft r"
    and last: "?pub \<noteq> []" "round_id (prp_round p) = round_id (last ?pub)"
    using assms(2,3) by (auto simp: published_props find_None_iff)
  then have "set ?pub = set (stage_item_rounds stageItem)"
    by (auto simp: publishedRounds_def)
  then show ?thesis using swiss latest_round[OF last(1) published_facts(2)[OF assms(1)]] last(2) by auto
qed

text \<open>C11: The rounds of a stage item are listed completely and safely: every published round once, at most
  one of them opened, which is the first with a match to play, and at most one to delete, which is the
  latest of all rounds of a Swiss stage item that has no draft.\<close>

theorem rounds_list:
  assumes "distinct (map round_id (stage_item_rounds stageItem))"
  defines "published \<equiv> srv_published (StageItemRounds stageItem)"
  defines "unfinished \<equiv> \<lambda>r. playedCount r < length (round_matches r)"
  shows "mset (map prp_round published) = mset (filter (\<lambda>r. \<not> round_is_draft r) (stage_item_rounds stageItem)) \<and>
    map prp_round (filter prp_open published) =
      (case List.find unfinished (publishedRounds stageItem) of None \<Rightarrow> [] | Some r \<Rightarrow> [r]) \<and>
    length (filter prp_canDelete published) \<le> 1 \<and>
    (\<forall>p \<in> set published. prp_open p \<longrightarrow> unfinished (prp_round p) \<and>
      (\<forall>q \<in> set published. unfinished (prp_round q) \<longrightarrow> round_id (prp_round p) \<le> round_id (prp_round q))) \<and>
    (\<forall>p \<in> set published. prp_canDelete p \<longrightarrow> stage_item_type stageItem = SWISS \<and>
      (\<forall>r \<in> set (stage_item_rounds stageItem). \<not> round_is_draft r \<and> round_id r \<le> round_id (prp_round p)))"
proof -
  let ?pub = "publishedRounds stageItem"
  let ?shown = "if stage_item_type stageItem = SWISS then rev ?pub else ?pub"
  note facts = published_facts[OF assms(1)]
  have shown: "set ?shown = set ?pub" "mset ?shown = mset ?pub" "distinct (map round_id ?shown)"
    using facts(1) by (auto simp: rev_map[symmetric])
  note props = published_props[of stageItem, folded published_def unfinished_def]
  have "mset (map prp_round published) = mset ?pub"
    using shown(2) by (simp add: props o_def)
  moreover have "map prp_round (filter prp_open published) =
      (case List.find unfinished ?pub of None \<Rightarrow> [] | Some r \<Rightarrow> [r])"
    using filter_id[OF shown(3)] shown(1) find_SomeD[of unfinished ?pub]
    by (auto simp: props filter_map o_def split: option.splits)
  moreover have "length (filter prp_canDelete published) \<le> 1"
  proof (cases "?pub = []")
    case False
    then have "filter (\<lambda>r. round_id r = round_id (last ?pub)) ?shown = [last ?pub]"
      using filter_id[OF shown(3)] shown(1) by auto
    with False show ?thesis
      by (cases "List.find round_is_draft (sortedRounds stageItem)") (auto simp: props filter_map o_def)
  qed (simp add: props)
  moreover have "unfinished (prp_round p) \<and>
      (\<forall>q \<in> set published. unfinished (prp_round q) \<longrightarrow> round_id (prp_round p) \<le> round_id (prp_round q))"
    if "p \<in> set published" "prp_open p" for p
    using open_panel_current[OF assms(1), of p] that unfolding published_def unfinished_def by blast
  moreover have "stage_item_type stageItem = SWISS \<and>
      (\<forall>r \<in> set (stage_item_rounds stageItem). \<not> round_is_draft r \<and> round_id r \<le> round_id (prp_round p))"
    if "p \<in> set published" "prp_canDelete p" for p
    using deletable_panel_latest[OF assms(1), of p] that unfolding published_def by blast
  ultimately show ?thesis using facts(3) by auto
qed

theorem rounds_list_witness:
  "map prp_round (filter prp_open (srv_published (StageItemRounds
      (sampleItem 1 ROUND_ROBIN [] [sampleRound 2 False [matchB], sampleRound 1 False [matchA]]))))
    = [sampleRound 2 False [matchB]]"
  using rounds_list[of "sampleItem 1 ROUND_ROBIN [] [sampleRound 2 False [matchB], sampleRound 1 False [matchA]]"]
  by (simp add: publishedRounds_def sortedRounds_def playedCount_def sample_defs isScored_def)

end
