(* ===== verification/ScoreEntry.thy ===== *)
theory ScoreEntry
  imports StageRounds Forms
begin

text \<open>
  The form for the scores of a match (\<open>ScoreForm\<close> in \<open>frontend/src/app/sections/stage-item-rounds.tsx\<close>): an editor of
  two numbers that sends them with everything else of the match as it is.
\<close>

section \<open>The form\<close>

definition scoresSchema :: schema where
  "scoresSchema = z_pick zMatchBody [''stage_item_input1_score'', ''stage_item_input2_score'']"

definition match_path :: "int \<Rightarrow> MatchWithDetails \<Rightarrow> (string \<times> js_value) list" where
  "match_path tournamentId m = [(''match_id'', js_int (match_id m)), (''tournament_id'', js_int tournamentId)]"

text \<open>What the request says of the match besides the scores.\<close>

definition kept_entries :: "MatchWithDetails \<Rightarrow> (string \<times> js_value) list" where
  "kept_entries m =
     [(''custom_duration_minutes'', js_null_or js_int (match_custom_duration_minutes m)),
      (''custom_margin_minutes'', js_null_or js_int (match_custom_margin_minutes m)),
      (''round_id'', js_int (match_round_id m))]"

definition scoresBody :: "MatchWithDetails \<Rightarrow> js_value \<Rightarrow> js_value" where
  "scoresBody m scores = JObj (obj_spread (kept_entries m) (own_entries scores))"

definition ScoreForm :: "RoundContext \<Rightarrow> MatchWithDetails \<Rightarrow> Form" where
  "ScoreForm context m =
     (let label1 = inputLabel (match_stage_item_input1 m) (rc_stageItemsById context);
          label2 = inputLabel (match_stage_item_input2 m) (rc_stageItemsById context)
      in \<lparr>fo_values = [(''stage_item_input1_score'', js_int (match_stage_item_input1_score m)),
            (''stage_item_input2_score'', js_int (match_stage_item_input2_score m))],
          fo_fields = [unshown ''stage_item_input1_score'' (label1 @ '' score'') NumberInput,
            unshown ''stage_item_input2_score'' (label2 @ '' score'') NumberInput],
          fo_schema = scoresSchema,
          fo_endpoint = updateMatchByIdApiTournamentsTournamentIdMatchesMatchIdPutMutation,
          fo_body = scoresBody m, fo_path = match_path (rc_tournamentId context) m,
          fo_follows = True, fo_resets = False,
          fo_submit = ''Save'', fo_message = ''Score saved: '' @ label1 @ '' vs '' @ label2 @ ''.''\<rparr>)"

text \<open>What shows whether scores can be entered: the title of the form, its inputs, and its button.\<close>

record ScoreFormView =
  sfv_title :: "string option"
  sfv_inputsDisabled :: bool
  sfv_save :: "string \<times> bool"

definition ScoreFormControls :: "bool \<Rightarrow> MatchWithDetails \<Rightarrow> ScoreFormView" where
  "ScoreFormControls isPending m =
     \<lparr>sfv_title = (if scoreReady m then None else Some ''Waiting for both teams to be known''),
      sfv_inputsDisabled = (\<not> scoreReady m),
      sfv_save = (if isPending then ''Saving'' @ ellipsis else ''Save'', \<not> scoreReady m \<or> isPending)\<rparr>"

section \<open>The body\<close>

text \<open>A match as the API stores it, with numbers that its schema takes.\<close>

definition storable_match :: "MatchWithDetails \<Rightarrow> bool" where
  "storable_match m \<longleftrightarrow> \<bar>match_round_id m\<bar> < 2 ^ 53 \<and>
     pred_option (\<lambda>d. 1 \<le> d \<and> d < 2 ^ 53) (match_custom_duration_minutes m) \<and>
     pred_option (\<lambda>d. 0 \<le> d \<and> d < 2 ^ 53) (match_custom_margin_minutes m)"

lemma kept_entries_taken:
  assumes "storable_match m"
  shows "zparse em dt (ZNullable (ZInt (Some 1) None)) (js_null_or js_int (match_custom_duration_minutes m)) =
      Parsed (js_null_or js_int (match_custom_duration_minutes m))"
    "zparse em dt (ZNullable (ZInt (Some 0) None)) (js_null_or js_int (match_custom_margin_minutes m)) =
      Parsed (js_null_or js_int (match_custom_margin_minutes m))"
    "zparse em dt ZInteger (js_int (match_round_id m)) = Parsed (js_int (match_round_id m))"
  using assms
  by (cases "match_custom_duration_minutes m"; cases "match_custom_margin_minutes m";
      simp add: storable_match_def js_null_or_def int_ok_def safe_integer_def opt_all_def)+

text \<open>The scores the schema lets through are numbers that the endpoint takes, with what is kept of the match.\<close>

lemma scores_schema_fields:
  "scoresSchema = ZObject [(''stage_item_input1_score'', ZDefault (ZInt (Some 0) None) (JNum (Fin 0))),
     (''stage_item_input2_score'', ZDefault (ZInt (Some 0) None) (JNum (Fin 0)))]"
  by (simp add: scoresSchema_def z_pick_def zMatchBody_def)

end
