(* ===== verification/DraftActivity.thy ===== *)
theory DraftActivity
  imports StageRounds SessionFlow
begin

text \<open>
  The draft of a Swiss round while it is worked on (\<open>DraftRound\<close>, \<open>DraftPairing\<close> and \<open>AddPairingForm\<close> in
  \<open>frontend/src/app/sections/stage-item-rounds.tsx\<close>): its buttons start mutations, a pending mutation disables
  buttons, and a mutation stays pending until the page shows the new data (\<open>query-client.ts\<close>). \<open>draft_step\<close> has the
  clicks and the answers in any order, with the requests each of them sends.
\<close>

section \<open>State\<close>

datatype DraftAction = Publish | Regenerate | Discard | RemovePairing int | AddPairing

text \<open>Where the mutation of an action is: \<open>SecondSent\<close> is the second request of \<open>regenerate\<close>, and \<open>Refreshing\<close> the time
  between the answer and the new data.\<close>

datatype phase = AtRest | FirstSent | SecondSent | Refreshing

record Draft =
  dr_round :: RoundWithMatches
  dr_stageItem :: StageItemWithRounds
  dr_phase :: "DraftAction \<Rightarrow> phase"

definition isPending :: "Draft \<Rightarrow> DraftAction \<Rightarrow> bool" where
  "isPending st a = (dr_phase st a \<noteq> AtRest)"

definition busy :: "Draft \<Rightarrow> bool" where
  "busy st = (isPending st Publish \<or> isPending st Regenerate \<or> isPending st Discard)"

section \<open>The buttons\<close>

text \<open>A button with its label, and whether it is disabled.\<close>

definition publishButton :: "Draft \<Rightarrow> string \<times> bool" where
  "publishButton st =
     (if isPending st Publish then ''Publishing'' @ ellipsis else ''Publish '' @ round_name (dr_round st),
      drv_publishDisabled (DraftRound (dr_round st) (dr_stageItem st) (busy st)))"

definition regenerateButton :: "Draft \<Rightarrow> string \<times> bool" where
  "regenerateButton st =
     (if isPending st Regenerate then ''Generating'' @ ellipsis else ''Regenerate pairings'', busy st)"

definition discardButton :: "Draft \<Rightarrow> string \<times> bool" where
  "discardButton st =
     (if isPending st Discard then ''Discarding'' @ ellipsis else ''Discard draft'', busy st)"

record DraftPairingView =
  dpv_team1 :: "string \<times> string option"
  dpv_team2 :: "string \<times> string option"
  dpv_remove :: "string \<times> bool"

definition DraftPairing :: "RoundContext \<Rightarrow> bool \<Rightarrow> bool \<Rightarrow> MatchWithDetails \<Rightarrow> DraftPairingView" where
  "DraftPairing context disabled pending m =
     \<lparr>dpv_team1 = TeamWithRecord context (match_stage_item_input1 m),
      dpv_team2 = TeamWithRecord context (match_stage_item_input2 m),
      dpv_remove = (if pending then ''Removing'' @ ellipsis else ''Remove'', disabled \<or> pending)\<rparr>"

definition removeDisabled :: "RoundContext \<Rightarrow> Draft \<Rightarrow> MatchWithDetails \<Rightarrow> bool" where
  "removeDisabled context st m =
     snd (dpv_remove (DraftPairing context (busy st) (isPending st (RemovePairing (match_id m))) m))"

definition setPhase :: "DraftAction \<Rightarrow> phase \<Rightarrow> Draft \<Rightarrow> Draft" where
  "setPhase a p st = st\<lparr>dr_phase := (dr_phase st)(a := p)\<rparr>"

definition regenerateClick :: "(string \<Rightarrow> bool) \<Rightarrow> RoundContext \<Rightarrow> RoundWithMatches \<Rightarrow> RoundCall option" where
  "regenerateClick confirm context rnd =
     (if confirm ''Replace these pairings with newly generated ones?''
      then Some (DeleteRound (rc_tournamentId context) (round_id rnd)) else None)"

section \<open>Runs\<close>

inductive draft_step ::
  "(string \<Rightarrow> bool) \<Rightarrow> RoundContext \<Rightarrow> Draft \<Rightarrow> RoundCall list \<Rightarrow> Draft \<Rightarrow> bool" for confirm ctx where
  publish: "\<not> snd (publishButton st) \<Longrightarrow>
    draft_step confirm ctx st [publishClick ctx (dr_round st)] (setPhase Publish FirstSent st)"
| regenerate: "\<not> snd (regenerateButton st) \<Longrightarrow> regenerateClick confirm ctx (dr_round st) = Some call \<Longrightarrow>
    draft_step confirm ctx st [call] (setPhase Regenerate FirstSent st)"
| regenerate_next: "dr_phase st Regenerate = FirstSent \<Longrightarrow>
    draft_step confirm ctx st [generateRound ctx (stage_item_id (dr_stageItem st))]
      (setPhase Regenerate SecondSent st)"
| discard: "\<not> snd (discardButton st) \<Longrightarrow> discardClick confirm ctx (dr_round st) = Some call \<Longrightarrow>
    draft_step confirm ctx st [call] (setPhase Discard FirstSent st)"
| remove: "m \<in> set (round_matches (dr_round st)) \<Longrightarrow> \<not> removeDisabled ctx st m \<Longrightarrow>
    draft_step confirm ctx st [removePairingClick ctx m] (setPhase (RemovePairing (match_id m)) FirstSent st)"
| add: "drv_addPairing (DraftRound (dr_round st) (dr_stageItem st) (busy st)) = Some teams \<Longrightarrow>
    \<not> addDisabled (busy st) (isPending st AddPairing) form \<Longrightarrow>
    draft_step confirm ctx st [addPairing ctx (round_id (dr_round st)) form] (setPhase AddPairing FirstSent st)"
| answered: "dr_phase st a = (if a = Regenerate then SecondSent else FirstSent) \<Longrightarrow>
    draft_step confirm ctx st [] (setPhase a Refreshing st)"
| failed: "dr_phase st a \<in> {FirstSent, SecondSent} \<Longrightarrow> draft_step confirm ctx st [] (setPhase a AtRest st)"
| refreshed: "dr_phase st a = Refreshing \<Longrightarrow>
    draft_step confirm ctx st [] (setPhase a AtRest (st\<lparr>dr_round := rnd, dr_stageItem := stageItem\<rparr>))"
| reloaded: "draft_step confirm ctx st [] (st\<lparr>dr_round := rnd, dr_stageItem := stageItem\<rparr>)"

definition draftOpened :: "RoundWithMatches \<Rightarrow> StageItemWithRounds \<Rightarrow> Draft" where
  "draftOpened rnd stageItem = \<lparr>dr_round = rnd, dr_stageItem = stageItem, dr_phase = (\<lambda>_. AtRest)\<rparr>"

inductive draft_reachable :: "(string \<Rightarrow> bool) \<Rightarrow> RoundContext \<Rightarrow> Draft \<Rightarrow> bool" for confirm ctx where
  opened: "draft_reachable confirm ctx (draftOpened rnd stageItem)"
| step: "draft_reachable confirm ctx st \<Longrightarrow> draft_step confirm ctx st calls st' \<Longrightarrow>
    draft_reachable confirm ctx st'"

inductive_cases draft_stepE: "draft_step confirm ctx st calls st'"

section \<open>Lemmas\<close>

lemma phase_setPhase [simp]: "dr_phase (setPhase a p st) b = (if b = a then p else dr_phase st b)"
  by (simp add: setPhase_def)

lemmas button_defs = publishButton_def regenerateButton_def discardButton_def removeDisabled_def DraftPairing_def
  DraftRound_def addDisabled_def Let_def

text \<open>Of the actions on the whole draft one at most is under way.\<close>

definition whole_draft :: "DraftAction list" where
  "whole_draft = [Publish, Regenerate, Discard]"

definition one_at_a_time :: "Draft \<Rightarrow> bool" where
  "one_at_a_time st \<longleftrightarrow> length (filter (isPending st) whole_draft) \<le> 1"

lemma busy_iff: "busy st \<longleftrightarrow> filter (isPending st) whole_draft \<noteq> []"
  by (simp add: busy_def whole_draft_def)

lemma one_at_a_time_step:
  "draft_step confirm ctx st calls st' \<Longrightarrow> one_at_a_time st \<Longrightarrow> one_at_a_time st'"
  by (erule draft_stepE)
    (auto simp: one_at_a_time_def whole_draft_def isPending_def busy_def button_defs split: if_splits)

lemma one_at_a_time_reachable: "draft_reachable confirm ctx st \<Longrightarrow> one_at_a_time st"
  by (induction rule: draft_reachable.induct)
    (auto simp: one_at_a_time_step, simp add: one_at_a_time_def draftOpened_def whole_draft_def isPending_def)

text \<open>A click on a button of a busy draft sends nothing.\<close>

lemma busy_sends:
  "draft_step confirm ctx st calls st' \<Longrightarrow> busy st \<Longrightarrow>
    calls = [] \<or> dr_phase st Regenerate = FirstSent \<and> calls = [generateRound ctx (stage_item_id (dr_stageItem st))]"
  by (erule draft_stepE) (auto simp: button_defs)

text \<open>A pairing is not removed twice, and no second pairing is added while the first one is on its way.\<close>

lemma pending_not_repeated:
  "draft_step confirm ctx st [removePairingClick ctx m] st' \<Longrightarrow>
    \<not> isPending st (RemovePairing (match_id m))"
  by (erule draft_stepE)
    (auto simp: button_defs removePairingClick_def publishClick_def regenerateClick_def discardClick_def
      generateRound_def addPairing_def split: if_splits)

section \<open>Properties\<close>

text \<open>New pairings come in two steps, and if the second one fails the first is not undone: the draft is gone from the API,
  and as a failed mutation refreshes nothing, the page still shows it.\<close>

lemma regenerate_may_lose_draft:
  assumes "server s (DeleteRound (rc_tournamentId ctx) (round_id rnd)) = (s', Inr ())"
    and "server s' (generateRound ctx stageItemId) = (s'', Inl error)"
  shows "regenerate server ctx rnd stageItemId s = (s'', Inl error)"
    and "dr_phase st Regenerate = SecondSent \<Longrightarrow> draft_step confirm ctx st [] (setPhase Regenerate AtRest st)"
    and "dr_round (setPhase Regenerate AtRest st) = dr_round st"
    and "as_cache (mutationFailed error app) = as_cache app"
  by (simp add: regenerate_def assms) (rule draft_step.failed, simp, simp_all add: setPhase_def mutationFailed_def addToast_def)

text \<open>C9: The actions on a draft exclude each other: of publishing, regenerating and discarding one at most is under way,
  and from its click until the page shows the new data no button of the draft sends anything; only regenerating
  has a second request of its own, for the new round.\<close>

theorem draft_actions_exclusive:
  assumes "draft_reachable confirm ctx st" "draft_step confirm ctx st calls st'"
  shows "length (filter (isPending st') [Publish, Regenerate, Discard]) \<le> 1 \<and>
    (busy st \<longrightarrow> calls = [] \<or>
      dr_phase st Regenerate = FirstSent \<and> calls = [generateRound ctx (stage_item_id (dr_stageItem st))])"
  using one_at_a_time_step[OF assms(2) one_at_a_time_reachable[OF assms(1)]] busy_sends[OF assms(2)]
  by (auto simp: one_at_a_time_def whole_draft_def)

theorem draft_actions_exclusive_witness:
  "let st = setPhase Regenerate FirstSent (draftOpened (sampleRound 4 True []) sampleBracket)
   in length (filter (isPending (setPhase Regenerate SecondSent st)) [Publish, Regenerate, Discard]) \<le> 1"
proof -
  let ?rnd = "sampleRound 4 True []"
  let ?opened = "draftOpened ?rnd sampleBracket" and ?ctx = "\<lparr>rc_stageItemsById = Map.empty, rc_tournamentId = 1\<rparr>"
  have "draft_step (\<lambda>_. True) ?ctx ?opened [DeleteRound 1 (round_id ?rnd)] (setPhase Regenerate FirstSent ?opened)"
    by (rule draft_step.regenerate)
      (simp_all add: regenerateButton_def busy_def isPending_def draftOpened_def regenerateClick_def)
  from draft_reachable.step[OF draft_reachable.opened this]
  have "draft_reachable (\<lambda>_. True) ?ctx (setPhase Regenerate FirstSent ?opened)" .
  moreover have "draft_step (\<lambda>_. True) ?ctx (setPhase Regenerate FirstSent ?opened)
      [generateRound ?ctx (stage_item_id (dr_stageItem (setPhase Regenerate FirstSent ?opened)))]
      (setPhase Regenerate SecondSent (setPhase Regenerate FirstSent ?opened))"
    by (rule draft_step.regenerate_next) simp
  ultimately show ?thesis using draft_actions_exclusive unfolding Let_def by blast
qed

end
