(* ===== verification/StageSlots.thy ===== *)
theory StageSlots
  imports AppUtils
begin

text \<open>
  Filling the slots of a stage item (\<open>frontend/src/app/sections/stage-item-slots.tsx\<close>). A slot holds a
  team, the winner of another stage item, or nothing; the select control holds that choice as text.
  The encoding is an interpretation of the locale \<open>codec\<close>.
\<close>

section \<open>Slots as text\<close>

definition EMPTY_SLOT :: string where
  "EMPTY_SLOT = ''empty''"

definition slotValue :: "int option \<Rightarrow> int option \<Rightarrow> int option \<Rightarrow> string" where
  "slotValue teamId winnerFrom winnerPosition =
     (case teamId of
        Some t \<Rightarrow> ''team:'' @ int_text t
      | None \<Rightarrow>
         (case (winnerFrom, winnerPosition) of
            (Some s, Some p) \<Rightarrow> ''winner:'' @ int_text s @ '':'' @ int_text p
          | _ \<Rightarrow> EMPTY_SLOT))"

definition inputSlotValue :: "StageItemInput \<Rightarrow> string" where
  "inputSlotValue i = slotValue (input_team_id i) (input_winner_from_stage_item_id i) (input_winner_position i)"

fun optionValue :: "SlotOption \<Rightarrow> string" where
  "optionValue (OptionFinal opt) = ''team:'' @ int_text (stage_item_input_option_final_team_id opt)"
| "optionValue (OptionTentative opt) =
     ''winner:'' @ int_text (stage_item_input_option_tentative_winner_from_stage_item_id opt) @ '':'' @
     int_text (stage_item_input_option_tentative_winner_position opt)"

text \<open>The body of the request. Its numbers come from \<open>Number(...)\<close>, NaN included.\<close>

datatype SlotBody = BodyFinal js_num | BodyTentative js_num js_num | BodyEmpty

definition nth_number :: "string list \<Rightarrow> nat \<Rightarrow> js_num" where
  "nth_number parts i = (if i < length parts then to_number (parts ! i) else NaN)"

definition slotBody :: "string \<Rightarrow> SlotBody" where
  "slotBody value =
     (let parts = split_on (CHR '':'') value; kind = hd parts
      in if kind = ''team'' then BodyFinal (nth_number parts 1)
         else if kind = ''winner'' then BodyTentative (nth_number parts 1) (nth_number parts 2)
         else BodyEmpty)"

text \<open>\<open>slotValue\<close> of a body that is being saved.\<close>

fun bodySlotValue :: "(rat \<Rightarrow> string) \<Rightarrow> SlotBody \<Rightarrow> string" where
  "bodySlotValue nt (BodyFinal t) = ''team:'' @ js_num_text nt t"
| "bodySlotValue nt (BodyTentative s p) =
     ''winner:'' @ js_num_text nt s @ '':'' @ js_num_text nt p"
| "bodySlotValue nt BodyEmpty = EMPTY_SLOT"

section \<open>The editor\<close>

record SlotOptionView =
  so_value :: string
  so_label :: string

definition taken_text :: "bool \<Rightarrow> string \<Rightarrow> string \<Rightarrow> string" where
  "taken_text already_taken value currentValue =
     (if already_taken \<and> value \<noteq> currentValue then '' (taken)'' else [])"

text \<open>\<open>source?.name || source?.type_name\<close> of an unknown stage item shows nothing.\<close>

definition slotOptionView ::
  "(int \<rightharpoonup> StageItemWithRounds) \<Rightarrow> (int \<rightharpoonup> FullTeamWithPlayers) \<Rightarrow> string \<Rightarrow> SlotOption \<Rightarrow> SlotOptionView" where
  "slotOptionView stageItemsById teamLookup currentValue opt =
     \<lparr>so_value = optionValue opt,
      so_label =
        (case opt of
           OptionFinal f \<Rightarrow>
             (case teamLookup (stage_item_input_option_final_team_id f) of
                Some t \<Rightarrow> full_team_name t
              | None \<Rightarrow> ''Team #'' @ int_text (stage_item_input_option_final_team_id f)) @
             taken_text (stage_item_input_option_final_already_taken f) (optionValue opt) currentValue
         | OptionTentative w \<Rightarrow>
             (case stageItemsById (stage_item_input_option_tentative_winner_from_stage_item_id w) of
                None \<Rightarrow> [] | Some s \<Rightarrow> stage_item_label s) @
             '' #'' @ int_text (stage_item_input_option_tentative_winner_position w) @
             taken_text (stage_item_input_option_tentative_already_taken w) (optionValue opt) currentValue)\<rparr>"

text \<open>\<open>pending\<close> is the body of the assignment being saved, if there is one.\<close>

record SlotSelectView =
  ss_slot :: int
  ss_value :: string
  ss_disabled :: bool
  ss_options :: "SlotOptionView list"

definition SlotSelect ::
  "(rat \<Rightarrow> string) \<Rightarrow> (int \<rightharpoonup> StageItemWithRounds) \<Rightarrow> (int \<rightharpoonup> FullTeamWithPlayers) \<Rightarrow>
   SlotOption list \<Rightarrow> SlotBody option \<Rightarrow> StageItemInput \<Rightarrow> SlotSelectView" where
  "SlotSelect nt stageItemsById teamLookup options pending i =
     (let currentValue = inputSlotValue i
      in \<lparr>ss_slot = input_slot i,
          ss_value = (case pending of Some b \<Rightarrow> bodySlotValue nt b | None \<Rightarrow> currentValue),
          ss_disabled = (pending \<noteq> None),
          ss_options = \<lparr>so_value = EMPTY_SLOT, so_label = ''Open slot''\<rparr> #
            map (slotOptionView stageItemsById teamLookup currentValue) options\<rparr>)"

record StageItemSlotsView =
  sis_open :: bool
  sis_summary :: string
  sis_inputs :: "StageItemInput list"
  sis_moving :: "(string \<times> int) list option"

definition filledSlots :: "StageItemWithRounds \<Rightarrow> nat" where
  "filledSlots stageItem = length (filter (\<lambda>i. \<not> isEmptySlot i) (stage_item_inputs stageItem))"

definition StageItemSlots ::
  "StageItemInputUpdate list option \<Rightarrow> StageItemWithRounds \<Rightarrow> StageItemSlotsView" where
  "StageItemSlots nextStageEntries stageItem =
     (let filled = filledSlots stageItem; total = length (stage_item_inputs stageItem)
      in \<lparr>sis_open = (filled < total),
          sis_summary = nat_text filled @ '' of '' @ nat_text total @ '' slots filled'',
          sis_inputs = stage_item_inputs stageItem,
          sis_moving = map_option
            (map (\<lambda>entry. (team_name (input_update_team entry),
                           tentative_slot (input_update_stage_item_input entry))))
            nextStageEntries\<rparr>)"

section \<open>The encoding of choices\<close>

text \<open>What a choice in the select control means.\<close>

datatype SlotChoice = ChooseTeam int | ChooseWinner int int | ChooseNothing

fun choiceText :: "SlotChoice \<Rightarrow> string" where
  "choiceText (ChooseTeam t) = slotValue (Some t) None None"
| "choiceText (ChooseWinner s p) = slotValue None (Some s) (Some p)"
| "choiceText ChooseNothing = slotValue None None None"

fun bodyChoice :: "SlotBody \<Rightarrow> SlotChoice option" where
  "bodyChoice (BodyFinal t) = map_option ChooseTeam (int_of_num t)"
| "bodyChoice (BodyTentative s p) =
     (case (int_of_num s, int_of_num p) of (Some i, Some j) \<Rightarrow> Some (ChooseWinner i j) | _ \<Rightarrow> None)"
| "bodyChoice BodyEmpty = Some ChooseNothing"

fun optionChoice :: "SlotOption \<Rightarrow> SlotChoice" where
  "optionChoice (OptionFinal opt) = ChooseTeam (stage_item_input_option_final_team_id opt)"
| "optionChoice (OptionTentative opt) =
     ChooseWinner (stage_item_input_option_tentative_winner_from_stage_item_id opt)
       (stage_item_input_option_tentative_winner_position opt)"

lemma int_text_no_colon: "CHR '':'' \<notin> set (int_text i)"
  by (auto dest!: int_text_chars simp: is_digit_def)

lemma optionValue_choice: "optionValue opt = choiceText (optionChoice opt)"
  by (cases opt) (simp_all add: slotValue_def)

lemma slotBody_choice: "bodyChoice (slotBody (choiceText c)) = Some c"
proof (cases c)
  case (ChooseTeam t)
  have "split_on (CHR '':'') (''team'' @ CHR '':'' # int_text t) = [''team'', int_text t]"
    by (subst split_on_append) (simp_all add: split_on_none int_text_no_colon)
  then show ?thesis
    by (simp add: ChooseTeam slotBody_def slotValue_def nth_number_def to_number_int_text del: split_on.simps)
next
  case (ChooseWinner s p)
  have "split_on (CHR '':'') (''winner'' @ CHR '':'' # int_text s @ CHR '':'' # int_text p)
      = [''winner'', int_text s, int_text p]"
    by (subst split_on_append) (simp_all add: split_on_append split_on_none int_text_no_colon del: split_on.simps)
  then show ?thesis
    by (simp add: ChooseWinner slotBody_def slotValue_def nth_number_def to_number_int_text del: split_on.simps)
next
  case ChooseNothing
  have "slotBody EMPTY_SLOT = BodyEmpty" by code_simp
  then show ?thesis by (simp add: ChooseNothing slotValue_def)
qed

interpretation slot_codec: codec choiceText "\<lambda>v. the (bodyChoice (slotBody v))" "\<lambda>_. True"
  by unfold_locales (simp add: slotBody_choice)

text \<open>
  The choice a slot already holds. A tentative or final input always has one; the text and the choice
  agree.
\<close>

definition inputChoice :: "StageItemInput \<Rightarrow> SlotChoice" where
  "inputChoice i =
     (case input_team_id i of
        Some t \<Rightarrow> ChooseTeam t
      | None \<Rightarrow>
         (case (input_winner_from_stage_item_id i, input_winner_position i) of
            (Some s, Some p) \<Rightarrow> ChooseWinner s p | _ \<Rightarrow> ChooseNothing))"

lemma inputSlotValue_choice: "inputSlotValue i = choiceText (inputChoice i)"
  by (auto simp: inputSlotValue_def slotValue_def inputChoice_def split: option.splits)

text \<open>Numbers below \<open>10^21\<close> are written as integers, so an id is.\<close>

fun choice_bounded :: "SlotChoice \<Rightarrow> bool" where
  "choice_bounded (ChooseTeam t) = (\<bar>t\<bar> < 10 ^ 21)"
| "choice_bounded (ChooseWinner s p) = (\<bar>s\<bar> < 10 ^ 21 \<and> \<bar>p\<bar> < 10 ^ 21)"
| "choice_bounded ChooseNothing = True"

lemma js_num_text_int: "\<bar>i\<bar> < 10 ^ 21 \<Longrightarrow> js_num_text nt (num_of_int i) = int_text i"
proof -
  assume "\<bar>i\<bar> < 10 ^ 21"
  moreover have "int_of_num (Fin (of_int i)) = Some i"
    using int_of_num_of_int[of i] by (simp add: num_of_int_def)
  ultimately show ?thesis by (simp add: js_num_text_def num_of_int_def)
qed

lemma bodySlotValue_of_choice:
  "bodyChoice b = Some c \<Longrightarrow> choice_bounded c \<Longrightarrow> bodySlotValue nt b = choiceText c"
  by (cases b) (auto simp: slotValue_def int_of_num_Some js_num_text_int split: option.splits)

lemma choice_of_option: "slotBody (optionValue opt) = b \<Longrightarrow> bodyChoice b = Some (optionChoice opt)"
  using slotBody_choice by (auto simp: optionValue_choice)

text \<open>What the select control offers, as choices.\<close>

definition offeredChoices :: "SlotOption list \<Rightarrow> SlotChoice list" where
  "offeredChoices options = ChooseNothing # map optionChoice options"

lemma offered_values:
  "map so_value (ss_options (SlotSelect nt stageItemsById teamLookup options pending i))
    = map choiceText (offeredChoices options)"
  by (simp add: SlotSelect_def Let_def offeredChoices_def slotOptionView_def optionValue_choice slotValue_def)

section \<open>Properties\<close>

text \<open>C12: What the organizer picks for a slot is what is sent: the body of the request of the n-th option
  means the n-th choice on offer, and different choices have different values in the control.\<close>

theorem slot_choice_sent:
  "let view = SlotSelect nt stageItemsById teamLookup options pending i
   in map (\<lambda>o'. bodyChoice (slotBody (so_value o'))) (ss_options view) = map Some (offeredChoices options) \<and>
      distinct (map so_value (ss_options view)) = distinct (offeredChoices options)"
proof -
  let ?view = "SlotSelect nt stageItemsById teamLookup options pending i"
  have "map (\<lambda>o'. bodyChoice (slotBody (so_value o'))) (ss_options ?view)
      = map (\<lambda>v. bodyChoice (slotBody v)) (map so_value (ss_options ?view))"
    by simp
  also have "\<dots> = map Some (offeredChoices options)"
    by (simp only: offered_values) (simp add: slotBody_choice)
  finally show ?thesis
    using slot_codec.distinct_enc[of "offeredChoices options"]
    by (simp add: Let_def offered_values list.pred_True del: map_map)
qed

text \<open>While an assignment is being saved the control is disabled and shows the option picked; otherwise
  it shows what the slot holds. Ids are written as integers below \<open>10^21\<close>.\<close>

lemma slot_pending_shown:
  assumes "picked \<in> set (map so_value (ss_options (SlotSelect nt stageItemsById teamLookup options None i)))"
    and "list_all choice_bounded (offeredChoices options)"
  shows "let view = SlotSelect nt stageItemsById teamLookup options (Some (slotBody picked)) i
    in ss_value view = picked \<and> ss_disabled view \<and>
      \<not> ss_disabled (SlotSelect nt stageItemsById teamLookup options None i) \<and>
      bodyChoice (slotBody (ss_value (SlotSelect nt stageItemsById teamLookup options None i)))
        = Some (inputChoice i)"
proof -
  obtain c where c: "picked = choiceText c" "c \<in> set (offeredChoices options)"
    using assms(1) unfolding offered_values by auto
  then have "bodySlotValue nt (slotBody picked) = picked"
    using bodySlotValue_of_choice[OF slotBody_choice] assms(2) by (auto simp: list_all_iff)
  then show ?thesis
    by (simp add: SlotSelect_def Let_def inputSlotValue_choice slotBody_choice)
qed

lemma slot_pending_shown_witness:
  "ss_value (SlotSelect (\<lambda>_. []) Map.empty Map.empty
      [OptionFinal \<lparr>stage_item_input_option_final_already_taken = False,
                    stage_item_input_option_final_team_id = 7\<rparr>]
      (Some (slotBody (''team:'' @ int_text 7))) (Final input1)) = ''team:'' @ int_text 7"
  using slot_pending_shown[of "''team:'' @ int_text 7" "\<lambda>_. []" Map.empty Map.empty
      "[OptionFinal \<lparr>stage_item_input_option_final_already_taken = False,
        stage_item_input_option_final_team_id = 7\<rparr>]" "Final input1"]
  by (simp add: offered_values offeredChoices_def slotValue_def Let_def)

end
