(* ===== verification/EditorRequests.thy ===== *)
theory EditorRequests
  imports ScoreEntry DraftActivity StageSlots
begin

text \<open>
  The requests of the bracket editor as they leave the page (\<open>frontend/src/app/sections/stage-item-rounds.tsx\<close>
  and \<open>stage-item-slots.tsx\<close>): the endpoint, the body and the path of every call that \<open>StageRounds\<close> and
  \<open>StageSlots\<close> make.
\<close>

section \<open>Rounds and matches\<close>

definition round_path :: "int \<Rightarrow> int \<Rightarrow> (string \<times> js_value) list" where
  "round_path tournamentId roundId =
     [(''round_id'', js_int roundId), (''tournament_id'', js_int tournamentId)]"

definition editor_match_path :: "int \<Rightarrow> int \<Rightarrow> (string \<times> js_value) list" where
  "editor_match_path tournamentId matchId =
     [(''match_id'', js_int matchId), (''tournament_id'', js_int tournamentId)]"

definition round_create_value :: "RoundCreateBody \<Rightarrow> js_value" where
  "round_create_value b =
     JObj [(''name'', js_null_or JStr (round_create_body_name b)),
       (''stage_item_id'', js_int (round_create_body_stage_item_id b))]"

definition round_update_value :: "RoundUpdateBody \<Rightarrow> js_value" where
  "round_update_value b =
     JObj [(''is_draft'', JBool (round_update_body_is_draft b)), (''name'', JStr (round_update_body_name b))]"

definition match_create_value :: "MatchCreateBodyFrontend \<Rightarrow> js_value" where
  "match_create_value b =
     JObj [(''round_id'', js_int (match_create_body_frontend_round_id b)),
       (''stage_item_input1_id'', js_null_or js_int (match_create_body_frontend_stage_item_input1_id b)),
       (''stage_item_input1_winner_from_match_id'',
          js_null_or js_int (match_create_body_frontend_stage_item_input1_winner_from_match_id b)),
       (''stage_item_input2_id'', js_null_or js_int (match_create_body_frontend_stage_item_input2_id b)),
       (''stage_item_input2_winner_from_match_id'',
          js_null_or js_int (match_create_body_frontend_stage_item_input2_winner_from_match_id b))]"

definition match_value :: "MatchBody \<Rightarrow> js_value" where
  "match_value b =
     JObj [(''custom_duration_minutes'', js_null_or js_int (match_body_custom_duration_minutes b)),
       (''custom_margin_minutes'', js_null_or js_int (match_body_custom_margin_minutes b)),
       (''round_id'', js_int (match_body_round_id b)),
       (''stage_item_input1_score'', js_int (match_body_stage_item_input1_score b)),
       (''stage_item_input2_score'', js_int (match_body_stage_item_input2_score b))]"

fun round_request :: "RoundCall \<Rightarrow> request" where
  "round_request (CreateRound tid b) =
     (createRoundApiTournamentsTournamentIdRoundsPostMutation,
      mutation_vars (Some (round_create_value b)) (tournament_path tid))"
| "round_request (DeleteRound tid rid) =
     (deleteRoundApiTournamentsTournamentIdRoundsRoundIdDeleteMutation, mutation_vars None (round_path tid rid))"
| "round_request (UpdateRound tid rid b) =
     (updateRoundByIdApiTournamentsTournamentIdRoundsRoundIdPutMutation,
      mutation_vars (Some (round_update_value b)) (round_path tid rid))"
| "round_request (CreateMatch tid b) =
     (createMatchApiTournamentsTournamentIdMatchesPostMutation,
      mutation_vars (Some (match_create_value b)) (tournament_path tid))"
| "round_request (DeleteMatch tid mid) =
     (deleteMatchApiTournamentsTournamentIdMatchesMatchIdDeleteMutation,
      mutation_vars None (editor_match_path tid mid))"
| "round_request (UpdateMatch tid mid b) =
     (updateMatchByIdApiTournamentsTournamentIdMatchesMatchIdPutMutation,
      mutation_vars (Some (match_value b)) (editor_match_path tid mid))"

text \<open>\<open>regenerate\<close> calls the endpoints itself, so it asks for errors to be thrown.\<close>

definition regenerate_requests :: "RoundContext \<Rightarrow> RoundWithMatches \<Rightarrow> int \<Rightarrow> request list" where
  "regenerate_requests context rnd stageItemId =
     map (\<lambda>call. case round_request call of (ep, opts) \<Rightarrow> (ep, opts @ [(''throwOnError'', OVal (JBool True))]))
       [DeleteRound (rc_tournamentId context) (round_id rnd), generateRound context stageItemId]"

section \<open>Slots\<close>

fun slot_body_value :: "SlotBody \<Rightarrow> js_value" where
  "slot_body_value (BodyFinal t) = JObj [(''team_id'', JNum t)]"
| "slot_body_value (BodyTentative s p) =
     JObj [(''winner_from_stage_item_id'', JNum s), (''winner_position'', JNum p)]"
| "slot_body_value BodyEmpty =
     JObj [(''team_id'', JNull), (''winner_from_stage_item_id'', JNull), (''winner_position'', JNull)]"

definition assignSlot :: "int \<Rightarrow> int \<Rightarrow> int \<Rightarrow> string \<Rightarrow> request" where
  "assignSlot tournamentId stageItemId inputId value' =
     (updateStageItemInputApiTournamentsTournamentIdStageItemsStageItemIdInputsStageItemInputIdPutMutation,
      mutation_vars (Some (slot_body_value (slotBody value')))
        [(''stage_item_id'', js_int stageItemId), (''stage_item_input_id'', js_int inputId),
         (''tournament_id'', js_int tournamentId)])"

section \<open>Facts\<close>

lemmas editor_request_defs = round_path_def editor_match_path_def round_create_value_def round_update_value_def
  match_create_value_def match_value_def tournament_path_def js_null_or_def

text \<open>The calls of the server model are the ones that are sent, in their order.\<close>

lemma regenerate_sends:
  "map fst (regenerate_requests ctx rnd sid) =
     [deleteRoundApiTournamentsTournamentIdRoundsRoundIdDelete, createRoundApiTournamentsTournamentIdRoundsPost]"
  by (simp add: regenerate_requests_def generateRound_def mutation_defs)

text \<open>The form for the scores sends the call that \<open>saveScores\<close> describes.\<close>

lemma score_form_sends:
  assumes "zod_library safeParse email datetime"
    and "0 \<le> score1" "score1 < 2 ^ 53" "0 \<le> score2" "score2 < 2 ^ 53"
  shows "handleSubmit safeParse (ScoreForm ctx m)
      [(''stage_item_input1_score'', js_int score1), (''stage_item_input2_score'', js_int score2)] =
    Sent (round_request (saveScores ctx m score1 score2))"
proof -
  let ?scores = "[(''stage_item_input1_score'', js_int score1), (''stage_item_input2_score'', js_int score2)]"
  have "safeParse scoresSchema (JObj ?scores) = Parsed (JObj ?scores)"
    using assms by (simp add: zod_library_def scores_schema_fields object_result_def parts_result_def part_issues_def
      parsed_entries_def part_value_def opt_all_def obj_get_def check_def int_ok_def safe_integer_def)
  then show ?thesis
    by (simp add: handleSubmit_def ScoreForm_def Let_def saveScores_def scoresBody_def kept_entries_def match_path_def
      match_value_def editor_match_path_def obj_spread_def)
qed

lemma round_request_mutation: "fst (round_request call) \<in> set ENDPOINTS \<and> ep_method (fst (round_request call)) \<noteq> ''GET''"
  by (cases call) (simp_all add: mutation_defs ENDPOINTS_def endpoint_defs)

end
