(* ===== verification/ApiRequests.thy ===== *)
theory ApiRequests
  imports ApiBundle Queries
begin

text \<open>
  The requests that load a tournament (\<open>frontend/src/app/api.ts\<close>): the endpoint and the options of every
  call of \<open>ApiBundle\<close>, and the address at which the backend answers it.
\<close>

section \<open>The requests of a tournament page\<close>

definition id_path :: "int \<Rightarrow> string \<times> opt_value" where
  "id_path tid = (''path'', OVal (JObj [(''tournament_id'', JNum (num_of_int tid))]))"

text \<open>\<open>all\<close>: the largest page.\<close>

definition all_query :: "string \<times> opt_value" where
  "all_query =
     (''query'', OVal (JObj [(''limit'', JNum (num_of_int 500)), (''offset'', JNum (num_of_int 0)),
        (''sort_by'', JStr ''name''), (''sort_direction'', JStr ''asc'')]))"

definition throwing :: "string \<times> opt_value" where
  "throwing = (''throwOnError'', OVal (JBool True))"

fun api_request :: "ApiCall \<Rightarrow> endpoint \<times> options" where
  "api_request (GetTournaments key) =
     (getTournamentsApiTournamentsGet,
      [(''query'', OVal (JObj [(''endpoint_name'', JStr key)])), throwing])"
| "api_request (GetTournament tid) =
     (getTournamentApiTournamentsTournamentIdGet, [id_path tid, throwing])"
| "api_request (GetStages tid noDrafts) =
     (getStagesApiTournamentsTournamentIdStagesGet,
      [id_path tid, (''query'', OVal (JObj [(''no_draft_rounds'', JBool noDrafts)])), throwing])"
| "api_request (GetPlayers tid) =
     (getPlayersApiTournamentsTournamentIdPlayersGet, [id_path tid, all_query, throwing])"
| "api_request (GetTeams tid) =
     (getTeamsApiTournamentsTournamentIdTeamsGet, [id_path tid, all_query, throwing])"
| "api_request (GetRankings tid) =
     (getRankingsApiTournamentsTournamentIdRankingsGet, [id_path tid, throwing])"
| "api_request (GetStandings tid) =
     (getStandingsApiTournamentsTournamentIdStandingsGet, [id_path tid, throwing])"
| "api_request (GetAvailableInputs tid) =
     (getAvailableInputsApiTournamentsTournamentIdAvailableInputsGet, [id_path tid, throwing])"
| "api_request (GetNextStageRankings tid) =
     (getNextStageRankingsApiTournamentsTournamentIdNextStageRankingsGet, [id_path tid, throwing])"

section \<open>Addresses\<close>

text \<open>The addresses of the API, written out.\<close>

definition tournament_address :: "int \<Rightarrow> string" where
  "tournament_address tid = ''/api/tournaments/'' @ int_text tid"

definition page_address :: string where
  "page_address = ''?limit=500&offset=0&sort_by=name&sort_direction=asc''"

fun api_address :: "ApiCall \<Rightarrow> string" where
  "api_address (GetTournaments key) = ''/api/tournaments?endpoint_name='' @ encodeURIComponent key"
| "api_address (GetTournament tid) = tournament_address tid"
| "api_address (GetStages tid noDrafts) =
     tournament_address tid @ ''/stages?no_draft_rounds='' @ (if noDrafts then ''true'' else ''false'')"
| "api_address (GetPlayers tid) = tournament_address tid @ ''/players'' @ page_address"
| "api_address (GetTeams tid) = tournament_address tid @ ''/teams'' @ page_address"
| "api_address (GetRankings tid) = tournament_address tid @ ''/rankings''"
| "api_address (GetStandings tid) = tournament_address tid @ ''/standings''"
| "api_address (GetAvailableInputs tid) = tournament_address tid @ ''/available_inputs''"
| "api_address (GetNextStageRankings tid) = tournament_address tid @ ''/next_stage_rankings''"

text \<open>The id a call is about, if any.\<close>

fun call_id :: "ApiCall \<Rightarrow> int" where
  "call_id (GetTournaments _) = 0"
| "call_id (GetTournament tid) = tid"
| "call_id (GetStages tid _) = tid"
| "call_id (GetPlayers tid) = tid"
| "call_id (GetTeams tid) = tid"
| "call_id (GetRankings tid) = tid"
| "call_id (GetStandings tid) = tid"
| "call_id (GetAvailableInputs tid) = tid"
| "call_id (GetNextStageRankings tid) = tid"

lemma encode_unreserved: "list_all unreserved s \<Longrightarrow> encodeURIComponent s = s"
  by (induction s) (simp_all add: encodeURIComponent_def)

lemma digit_unreserved: "is_digit c \<Longrightarrow> unreserved c"
  by (auto simp: is_digit_def unreserved_def Let_def)

lemma encode_int_text: "encodeURIComponent (int_text i) = int_text i"
proof (rule encode_unreserved)
  have "unreserved (CHR ''-'')" by code_simp
  then show "list_all unreserved (int_text i)"
    using int_text_chars[of _ i] digit_unreserved by (fastforce simp only: list_all_iff)
qed

lemma id_text: "\<bar>i\<bar> < 9007199254740992 \<Longrightarrow> js_num_text f (num_of_int i) = int_text i"
  by (simp add: js_num_text_def num_of_int_def int_of_num_def)

lemma api_url_parts:
  "url_parts (ep_url getTournamentsApiTournamentsGet) = [Lit ''/api/tournaments'']"
  "url_parts (ep_url getTournamentApiTournamentsTournamentIdGet) =
     [Lit ''/api/tournaments/'', Param ''tournament_id'']"
  "url_parts (ep_url getStagesApiTournamentsTournamentIdStagesGet) =
     [Lit ''/api/tournaments/'', Param ''tournament_id'', Lit ''/stages'']"
  "url_parts (ep_url getPlayersApiTournamentsTournamentIdPlayersGet) =
     [Lit ''/api/tournaments/'', Param ''tournament_id'', Lit ''/players'']"
  "url_parts (ep_url getTeamsApiTournamentsTournamentIdTeamsGet) =
     [Lit ''/api/tournaments/'', Param ''tournament_id'', Lit ''/teams'']"
  "url_parts (ep_url getRankingsApiTournamentsTournamentIdRankingsGet) =
     [Lit ''/api/tournaments/'', Param ''tournament_id'', Lit ''/rankings'']"
  "url_parts (ep_url getStandingsApiTournamentsTournamentIdStandingsGet) =
     [Lit ''/api/tournaments/'', Param ''tournament_id'', Lit ''/standings'']"
  "url_parts (ep_url getAvailableInputsApiTournamentsTournamentIdAvailableInputsGet) =
     [Lit ''/api/tournaments/'', Param ''tournament_id'', Lit ''/available_inputs'']"
  "url_parts (ep_url getNextStageRankingsApiTournamentsTournamentIdNextStageRankingsGet) =
     [Lit ''/api/tournaments/'', Param ''tournament_id'', Lit ''/next_stage_rankings'']"
  by code_simp+

lemma api_request_endpoint: "fst (api_request c) \<in> set ENDPOINTS \<and> ep_method (fst (api_request c)) = ''GET''"
  by (cases c) (simp_all add: ENDPOINTS_def endpoint_defs)

lemmas option_defs = opt_val_def opt_get_def opt_value_of_def val_entries_def call_path_def call_query_def
  id_path_def all_query_def throwing_def

lemma api_request_sendable: "sendable te base (fst (api_request c)) (snd (api_request c))"
  by (cases c)
    (simp_all add: sendable_def plain_call_def caller_headers_def body_writable_def api_url_parts option_defs
      simple_value_def is_nullish_def obj_get_def plain_query_def query_values_def)

lemma query_texts:
  "encodeURIComponent ''name'' = ''name''" "encodeURIComponent ''asc'' = ''asc''"
  "encodeURIComponent ''true'' = ''true''" "encodeURIComponent ''false'' = ''false''"
  "int_text 500 = ''500''" "int_text 0 = ''0''" "encodeURIComponent ''500'' = ''500''" "encodeURIComponent ''0'' = ''0''"
  by code_simp+

lemma api_request_text:
  assumes "\<bar>call_id c\<bar> < 2 ^ 53"
  shows "concat (map (fill_part te (call_path (snd (api_request c)))) (url_parts (ep_url (fst (api_request c))))) @
    (let s = join ''&'' (query_pieces te (call_query (snd (api_request c)))) in if s = [] then [] else ''?'' @ s) =
    api_address c"
  using assms
  by (cases c)
    (simp_all add: api_url_parts option_defs obj_get_def id_text encode_int_text query_pieces_def query_values_def
      is_nullish_def value_text_def tournament_address_def page_address_def query_texts Let_def)

section \<open>Properties\<close>

text \<open>C29: Every request that loads a tournament reaches the API at its documented address, as a reading
  request, with the id of the tournament, the choice of draft rounds, the link that is looked up, or the
  largest page of players and teams in it.\<close>

theorem loading_addresses:
  assumes "apiClient te axios_create base = Inr client" "list_all (\<lambda>c. \<not> brace c) base" "\<bar>call_id c\<bar> < 2 ^ 53"
  shows "(case beforeRequest te (instance_base client) (cl_config client)
        (call_options te (fst (api_request c)) (snd (api_request c))) of
      Inl _ \<Rightarrow> False
    | Inr (opts, url) \<Rightarrow> url = base @ api_address c \<and> ar_method (axios_call opts url) = JStr ''GET'')"
proof -
  let ?ep = "fst (api_request c)" and ?o = "snd (api_request c)"
  have "?ep \<in> set ENDPOINTS" using api_request_endpoint by blast
  then have wf: "well_formed_url (ep_url ?ep)" using endpoints_well_formed by (simp add: list_all_iff)
  have pc: "plain_call ?o" using api_request_sendable[of te base c] by (simp add: sendable_def)
  obtain opts where o: "\<And>k. k \<notin> {''headers'', ''body'', ''query''} \<Longrightarrow> opt_get opts k =
      opt_get (obj_spread (page_config base) (call_options te ?ep ?o)) k"
    and b: "beforeRequest te (instance_base client) (cl_config client) (call_options te ?ep ?o) =
      (let s = join ''&'' (query_pieces te (call_query ?o));
           u = base @ concat (map (fill_part te (call_path ?o)) (url_parts (ep_url ?ep)))
       in Inr (opts, if s = [] then u else u @ ''?'' @ s))"
    using call_request[OF wf assms(1) api_request_sendable assms(2)] by (metis (no_types, lifting))
  have "opt_get opts ''method'' = OVal (JStr ''GET'')"
    using o[of "''method''"] api_request_endpoint[of c] by (simp add: page_call_get[OF pc])
  then show ?thesis
    using api_request_text[OF assms(3), of te] unfolding b
    by (simp add: Let_def axios_call_def opt_val_def opt_value_of_def split: if_splits)
qed

theorem loading_addresses_witness:
  "(case beforeRequest plainText (instance_base plainClient) (cl_config plainClient)
      (call_options plainText getStagesApiTournamentsTournamentIdStagesGet (snd (api_request (GetStages 12 True)))) of
      Inl _ \<Rightarrow> False
    | Inr (opts, url) \<Rightarrow> url = ''http://h/api/tournaments/12/stages?no_draft_rounds=true'')"
proof -
  have "list_all (\<lambda>c. \<not> brace c) ''http://h''" "int_text 12 = ''12''" by code_simp+
  with loading_addresses[OF plainClient, of "GetStages 12 True"] show ?thesis
    by (auto simp: tournament_address_def split: sum.splits)
qed

end
