(* ===== verification/ManagementForms.thy ===== *)
theory ManagementForms
  imports Forms SessionFlow TournamentPage StageRounds StageSlots
begin

text \<open>
  The bracket editor, the rankings and the settings of a tournament
  (\<open>frontend/src/app/sections/tournament-management.tsx\<close>): what the sections show, their forms, and the
  requests of their buttons.
\<close>

section \<open>Rankings\<close>

definition POINT_FIELDS :: "(string \<times> string) list" where
  "POINT_FIELDS =
     [(''win_points'', ''Win points''), (''draw_points'', ''Draw points''), (''loss_points'', ''Loss points'')]"

definition point_fields :: "FormField list" where
  "point_fields = map (\<lambda>(name, label). shown name label NumberInput) POINT_FIELDS"

definition NewRankingForm :: "int \<Rightarrow> Form" where
  "NewRankingForm tournamentId =
     \<lparr>fo_values = [(''add_score_points'', JBool False), (''draw_points'', js_int 1),
        (''loss_points'', js_int 0), (''win_points'', js_int 3)],
      fo_fields = point_fields @ [unshown ''add_score_points'' ''Add raw score points'' CheckInput],
      fo_schema = zRankingCreateBody,
      fo_endpoint = createRankingApiTournamentsTournamentIdRankingsPostMutation,
      fo_body = id, fo_path = tournament_path tournamentId,
      fo_follows = False, fo_resets = True,
      fo_submit = ''Create ranking'', fo_message = ''Ranking created.''\<rparr>"

definition ranking_path :: "int \<Rightarrow> Ranking \<Rightarrow> (string \<times> js_value) list" where
  "ranking_path tournamentId ranking =
     [(''ranking_id'', js_int (ranking_id ranking)), (''tournament_id'', js_int tournamentId)]"

definition RankingEditor :: "int \<Rightarrow> Ranking \<Rightarrow> Form" where
  "RankingEditor tournamentId ranking =
     \<lparr>fo_values = [(''add_score_points'', JBool (ranking_add_score_points ranking)),
        (''draw_points'', JStr (ranking_draw_points ranking)),
        (''loss_points'', JStr (ranking_loss_points ranking)),
        (''position'', js_int (ranking_position ranking)),
        (''win_points'', JStr (ranking_win_points ranking))],
      fo_fields = shown ''position'' ''Position'' NumberInput #
        point_fields @ [unshown ''add_score_points'' ''Add raw score points'' CheckInput],
      fo_schema = zRankingBody,
      fo_endpoint = updateRankingByIdApiTournamentsTournamentIdRankingsRankingIdPutMutation,
      fo_body = id, fo_path = ranking_path tournamentId ranking,
      fo_follows = True, fo_resets = False,
      fo_submit = ''Save ranking'', fo_message = ''Ranking saved.''\<rparr>"

record RankingEditorView =
  rev_title :: string
  rev_addsScores :: bool
  rev_summary :: string
  rev_form :: Form

definition RankingEditorSummary :: "number_format \<Rightarrow> int \<Rightarrow> Ranking \<Rightarrow> RankingEditorView" where
  "RankingEditorSummary nf tournamentId ranking =
     \<lparr>rev_title = ''Ranking #'' @ int_text (ranking_position ranking),
      rev_addsScores = ranking_add_score_points ranking,
      rev_summary = ''Win '' @ formatPoints nf (ranking_win_points ranking) @ '' '' @ middle_dot @
        '' Draw '' @ formatPoints nf (ranking_draw_points ranking) @ '' '' @ middle_dot @
        '' Loss '' @ formatPoints nf (ranking_loss_points ranking),
      rev_form = RankingEditor tournamentId ranking\<rparr>"

definition deleteRankingClick :: "(string \<Rightarrow> bool) \<Rightarrow> int \<Rightarrow> Ranking \<Rightarrow> request option" where
  "deleteRankingClick confirm tournamentId ranking =
     confirmed confirm (''Delete ranking #'' @ int_text (ranking_position ranking) @ ''?'')
       deleteRankingApiTournamentsTournamentIdRankingsRankingIdDeleteMutation
       (ranking_path tournamentId ranking)"

record RankingsView =
  rv_standings :: StandingsView
  rv_new :: Form
  rv_count :: string
  rv_editors :: "RankingEditorView list"

definition RankingsSection ::
  "number_format \<Rightarrow> TournamentContextValue \<Rightarrow> TournamentBundle \<Rightarrow> (int \<rightharpoonup> FullTeamWithPlayers) \<Rightarrow> RankingsView" where
  "RankingsSection nf context bundle teams =
     (let tid = tournament_id (tb_tournament bundle)
      in \<lparr>rv_standings = StandingsSection nf context False (tb_rankings bundle) (tb_stages bundle)
            (tb_standings bundle) teams,
          rv_new = NewRankingForm tid,
          rv_count = nat_text (length (tb_rankings bundle)) @ '' rankings'',
          rv_editors = map (RankingEditorSummary nf tid) (tb_rankings bundle)\<rparr>)"

section \<open>Settings\<close>

definition tournamentSettingsSchema :: "js_env \<Rightarrow> schema" where
  "tournamentSettingsSchema env = z_extend zTournamentUpdateBody [(''start_time'', zLocalDateTime env)]"

definition TournamentSettingsForm :: "js_env \<Rightarrow> 'd date_fns \<Rightarrow> Tournament \<Rightarrow> Form" where
  "TournamentSettingsForm env df tournament =
     \<lparr>fo_values =
        [(''dashboard_endpoint'',
            JStr (nullish (normalizeDashboardEndpoint (tournament_dashboard_endpoint tournament)) [])),
         (''dashboard_public'', JBool (tournament_dashboard_public tournament)),
         (''duration_minutes'', js_int (tournament_duration_minutes tournament)),
         (''margin_minutes'', js_int (tournament_margin_minutes tournament)),
         (''name'', JStr (tournament_name tournament)),
         (''players_can_be_in_multiple_teams'', JBool (tournament_players_can_be_in_multiple_teams tournament)),
         (''start_time'', JStr (toDateTimeLocal df (tournament_start_time tournament)))],
      fo_fields =
        [shown ''name'' ''Tournament name'' TextInput,
         unshown ''dashboard_endpoint'' ''Details link'' TextInput,
         shown ''start_time'' ''Start time'' TextInput,
         shown ''duration_minutes'' ''Match duration (minutes)'' NumberInput,
         shown ''margin_minutes'' ''Break between rounds (minutes)'' NumberInput,
         unshown ''dashboard_public'' ''Details page enabled'' CheckInput,
         unshown ''players_can_be_in_multiple_teams'' ''Players can join multiple teams'' CheckInput],
      fo_schema = tournamentSettingsSchema env,
      fo_endpoint = updateTournamentByIdApiTournamentsTournamentIdPutMutation,
      fo_body = id, fo_path = tournament_path (tournament_id tournament),
      fo_follows = True, fo_resets = False,
      fo_submit = ''Save tournament'', fo_message = ''Tournament saved.''\<rparr>"

definition uploadTournamentLogo :: "Tournament \<Rightarrow> string list \<Rightarrow> request option" where
  "uploadTournamentLogo tournament files =
     upload uploadLogoApiTournamentsTournamentIdLogoPostMutation
       (tournament_path (tournament_id tournament)) files"

record SettingsView =
  set_form :: Form
  set_hint :: string
  set_statusButton :: string
  set_detailsPath :: "string option"

definition SettingsSection :: "js_env \<Rightarrow> 'd date_fns \<Rightarrow> TournamentBundle \<Rightarrow> SettingsView" where
  "SettingsSection env df bundle =
     (let tournament = tb_tournament bundle; isOpen = (tournament_status tournament = OPEN)
      in \<lparr>set_form = TournamentSettingsForm env df tournament,
          set_hint = (if isOpen
            then ''Archive the tournament once it is over. Archived tournaments can no longer be changed.''
            else ''This tournament is archived. Reopen it to make changes again.''),
          set_statusButton = (if isOpen then ''Archive tournament'' else ''Reopen tournament''),
          set_detailsPath = (if tournament_dashboard_public tournament
            then Some (publicTournamentPath tournament) else None)\<rparr>)"

definition changeStatusClick :: "Tournament \<Rightarrow> request \<times> string" where
  "changeStatusClick tournament =
     (let isOpen = (tournament_status tournament = OPEN)
      in ((changeStatusApiTournamentsTournamentIdChangeStatusPostMutation,
           mutation_vars (Some (JObj [(''status'', JStr (if isOpen then ''ARCHIVED'' else ''OPEN''))]))
             (tournament_path (tournament_id tournament))),
          if isOpen then ''Tournament archived.'' else ''Tournament reopened.''))"

definition deleteTournamentClick :: "(string \<Rightarrow> bool) \<Rightarrow> Tournament \<Rightarrow> request option" where
  "deleteTournamentClick confirm tournament =
     confirmed confirm (''Delete '' @ tournament_name tournament @ ''? This cannot be undone.'')
       deleteTournamentApiTournamentsTournamentIdDeleteMutation
       (tournament_path (tournament_id tournament))"

text \<open>The deleted tournament is not reloaded: only the list of tournaments is.\<close>

definition deleteTournamentMeta :: "client_state \<Rightarrow> (string \<times> js_value) list MutationMeta" where
  "deleteTournamentMeta client =
     \<lparr>mm_invalidates = Some [query_key client getTournamentsApiTournamentsGetOptions []],
      mm_successMessage = Some ''Tournament deleted.''\<rparr>"

section \<open>Stages\<close>

definition stage_path :: "Tournament \<Rightarrow> StageWithStageItems \<Rightarrow> (string \<times> js_value) list" where
  "stage_path tournament stage =
     [(''stage_id'', js_int (stage_id stage)), (''tournament_id'', js_int (tournament_id tournament))]"

definition StageForm :: "Tournament \<Rightarrow> StageWithStageItems \<Rightarrow> Form" where
  "StageForm tournament stage =
     \<lparr>fo_values =
        [(''custom_duration_minutes'', js_null_or js_int (stage_custom_duration_minutes stage)),
         (''name'', JStr (stage_name stage))],
      fo_fields = [shown ''name'' ''Stage name'' TextInput,
        shown ''custom_duration_minutes'' ''Match duration (minutes)'' MinutesInput],
      fo_schema = zStageUpdateBody,
      fo_endpoint = updateStageApiTournamentsTournamentIdStagesStageIdPutMutation,
      fo_body = id, fo_path = stage_path tournament stage,
      fo_follows = True, fo_resets = False,
      fo_submit = ''Save stage'', fo_message = ''Stage saved.''\<rparr>"

definition deleteStageClick :: "(string \<Rightarrow> bool) \<Rightarrow> Tournament \<Rightarrow> StageWithStageItems \<Rightarrow> request option" where
  "deleteStageClick confirm tournament stage =
     confirmed confirm (''Delete stage '' @ stage_name stage @ ''?'')
       deleteStageApiTournamentsTournamentIdStagesStageIdDeleteMutation (stage_path tournament stage)"

text \<open>\<open>{ ...body, name: body.name?.trim() || null }\<close>\<close>

definition stageItemBody :: "js_value \<Rightarrow> js_value" where
  "stageItemBody body =
     (let es = own_entries body;
          name = (case obj_get es ''name'' of JStr s \<Rightarrow> if trim s = [] then JNull else JStr (trim s) | _ \<Rightarrow> JNull)
      in JObj (obj_set ''name'' name es))"

definition STAGE_TYPE_OPTIONS :: "(string \<times> string) list" where
  "STAGE_TYPE_OPTIONS =
     [(''ROUND_ROBIN'', ''Round robin''), (''SINGLE_ELIMINATION'', ''Single elimination''), (''SWISS'', ''Swiss'')]"

definition NewStageItemForm :: "Ranking list \<Rightarrow> int \<Rightarrow> int \<Rightarrow> Form" where
  "NewStageItemForm rankings stageId tournamentId =
     \<lparr>fo_values =
        [(''name'', JStr []),
         (''ranking_id'', case rankings of [] \<Rightarrow> JNull | r # _ \<Rightarrow> js_int (ranking_id r)),
         (''stage_id'', js_int stageId), (''team_count'', js_int 8), (''type'', JStr ''ROUND_ROBIN'')],
      fo_fields =
        [unshown ''name'' ''Name'' TextInput,
         unshown ''type'' ''Type'' (SelectInput (map fst STAGE_TYPE_OPTIONS)),
         shown ''team_count'' ''Team count'' NumberInput] @
        (if 1 < length rankings
         then [unshown ''ranking_id'' ''Ranking'' (NumberSelect (map (\<lambda>r. int_text (ranking_id r)) rankings))]
         else []),
      fo_schema = zStageItemCreateBody,
      fo_endpoint = createStageItemApiTournamentsTournamentIdStageItemsPostMutation,
      fo_body = stageItemBody, fo_path = tournament_path tournamentId,
      fo_follows = False, fo_resets = True,
      fo_submit = ''Create stage item'', fo_message = ''Stage item created.''\<rparr>"

definition rankingOption :: "number_format \<Rightarrow> Ranking \<Rightarrow> string \<times> string" where
  "rankingOption nf ranking =
     (int_text (ranking_id ranking),
      ''#'' @ int_text (ranking_position ranking) @ '': win '' @ formatPoints nf (ranking_win_points ranking) @
      '', draw '' @ formatPoints nf (ranking_draw_points ranking) @ '', loss '' @
      formatPoints nf (ranking_loss_points ranking))"

definition stage_item_path :: "int \<Rightarrow> StageItemWithRounds \<Rightarrow> (string \<times> js_value) list" where
  "stage_item_path tournamentId stageItem =
     [(''stage_item_id'', js_int (stage_item_id stageItem)), (''tournament_id'', js_int tournamentId)]"

text \<open>Its control has no \<open>Field\<close> around it, so it shows no message.\<close>

definition StageItemNameForm :: "int \<Rightarrow> StageItemWithRounds \<Rightarrow> Form" where
  "StageItemNameForm tournamentId stageItem =
     \<lparr>fo_values = [(''name'', JStr (stage_item_name stageItem)),
        (''ranking_id'', js_int (nullish (stage_item_ranking_id stageItem) 0))],
      fo_fields = [unshown ''name'' ''Stage item name'' TextInput],
      fo_schema = zStageItemUpdateBody,
      fo_endpoint = updateStageItemApiTournamentsTournamentIdStageItemsStageItemIdPutMutation,
      fo_body = id, fo_path = stage_item_path tournamentId stageItem,
      fo_follows = True, fo_resets = False,
      fo_submit = ''Save name'', fo_message = ''Name saved.''\<rparr>"

definition deleteStageItemClick :: "(string \<Rightarrow> bool) \<Rightarrow> int \<Rightarrow> StageItemWithRounds \<Rightarrow> request option" where
  "deleteStageItemClick confirm tournamentId stageItem =
     confirmed confirm (''Delete stage item '' @ stage_item_label stageItem @ ''?'')
       deleteStageItemApiTournamentsTournamentIdStageItemsStageItemIdDeleteMutation
       (stage_item_path tournamentId stageItem)"

definition createStageClick :: "int \<Rightarrow> request" where
  "createStageClick tournamentId =
     (createStageApiTournamentsTournamentIdStagesPostMutation, mutation_vars None (tournament_path tournamentId))"

definition activateStageClick :: "StageDirection \<Rightarrow> int \<Rightarrow> request \<times> string" where
  "activateStageClick direction tournamentId =
     ((activateNextStageApiTournamentsTournamentIdStagesActivatePostMutation,
       mutation_vars (Some (JObj [(''direction'', JStr (case direction of Next \<Rightarrow> ''next'' | Previous \<Rightarrow> ''previous''))]))
         (tournament_path tournamentId)),
      case direction of Next \<Rightarrow> ''Moved active stage forward.'' | Previous \<Rightarrow> ''Moved active stage backward.'')"

record StageItemPanel =
  sp_badge :: string
  sp_title :: string
  sp_status :: string
  sp_nameForm :: Form
  sp_slots :: StageItemSlotsView
  sp_options :: "SlotOption list"
  sp_rounds :: StageItemRoundsView
  sp_table :: StageItemVisualizationView

record StagePanel =
  pl_open :: bool
  pl_badge :: string
  pl_count :: string
  pl_title :: string
  pl_form :: Form
  pl_new :: Form
  pl_items :: "StageItemPanel list"

record StagesView =
  sv_focus :: "string option"
  sv_stages :: "StagePanel list"

definition sortedRankings :: "Ranking list \<Rightarrow> Ranking list" where
  "sortedRankings rankings = js_sort (\<lambda>left right. ranking_position left - ranking_position right) rankings"

definition stageItemPanel ::
  "number_format \<Rightarrow> TournamentContextValue \<Rightarrow> TournamentBundle \<Rightarrow> StageWithStageItems \<Rightarrow> StageItemWithRounds \<Rightarrow> StageItemPanel" where
  "stageItemPanel nf context bundle stage stageItem =
     (let tid = tournament_id (tb_tournament bundle)
      in \<lparr>sp_badge = stage_item_type_name stageItem,
          sp_title = stage_item_label stageItem,
          sp_status = stageItemStatus stageItem,
          sp_nameForm = StageItemNameForm tid stageItem,
          sp_slots = StageItemSlots (tb_nextStageRankings bundle (int_text (stage_item_id stageItem))) stageItem,
          sp_options = nullish (tb_availableInputs bundle (int_text (stage_id stage))) [],
          sp_rounds = StageItemRounds stageItem,
          sp_table = StageItemVisualization nf context False stageItem (stageItemsById (tb_stages bundle))
            (tb_standings bundle) (teamMap (tb_teams bundle)) tid\<rparr>)"

definition StagesSection ::
  "number_format \<Rightarrow> TournamentContextValue \<Rightarrow> TournamentBundle \<Rightarrow> StageItemWithRounds option \<Rightarrow> StagesView" where
  "StagesSection nf context bundle focusStageItem =
     (let tournament = tb_tournament bundle; rankings = sortedRankings (tb_rankings bundle)
      in \<lparr>sv_focus = map_option stage_item_label focusStageItem,
          sv_stages = map (\<lambda>stage.
            \<lparr>pl_open = (stage_is_active stage \<or>
                list_ex (\<lambda>item. Some (stage_item_id item) = map_option stage_item_id focusStageItem)
                  (stage_stage_items stage)),
             pl_badge = (if stage_is_active stage then ''Active'' else ''Inactive''),
             pl_count = nat_text (length (stage_stage_items stage)) @ '' stage items'',
             pl_title = stage_name stage,
             pl_form = StageForm tournament stage,
             pl_new = NewStageItemForm rankings (stage_id stage) (tournament_id tournament),
             pl_items = map (stageItemPanel nf context bundle stage) (stage_stage_items stage)\<rparr>)
            (tb_stages bundle)\<rparr>)"

end
