(* ===== verification/RosterForms.thy ===== *)
theory RosterForms
  imports Forms AppTypes
begin

text \<open>
  The players and teams of a tournament (\<open>frontend/src/app/sections/tournament-roster.tsx\<close>): the sections,
  their forms and the requests of their buttons.
\<close>

section \<open>Players\<close>

definition ActiveBadge :: "bool \<Rightarrow> string" where
  "ActiveBadge active = (if active then ''Active'' else ''Inactive'')"

definition NewPlayerForm :: "int \<Rightarrow> Form" where
  "NewPlayerForm tournamentId =
     \<lparr>fo_values = [(''active'', JBool True), (''name'', JStr [])],
      fo_fields = [shown ''name'' ''Player name'' TextInput, unshown ''active'' ''Player is active'' CheckInput],
      fo_schema = zPlayerBody,
      fo_endpoint = createSinglePlayerApiTournamentsTournamentIdPlayersPostMutation,
      fo_body = id, fo_path = tournament_path tournamentId,
      fo_follows = False, fo_resets = True,
      fo_submit = ''Add player'', fo_message = ''Player added.''\<rparr>"

definition BulkPlayersForm :: "int \<Rightarrow> Form" where
  "BulkPlayersForm tournamentId =
     \<lparr>fo_values = [(''active'', JBool True), (''names'', JStr [])],
      fo_fields = [shown ''names'' ''Bulk import names'' TextInput],
      fo_schema = zPlayerMultiBody,
      fo_endpoint = createMultiplePlayersApiTournamentsTournamentIdPlayersMultiPostMutation,
      fo_body = id, fo_path = tournament_path tournamentId,
      fo_follows = False, fo_resets = True,
      fo_submit = ''Bulk import'', fo_message = ''Players added.''\<rparr>"

definition player_path :: "int \<Rightarrow> Player \<Rightarrow> (string \<times> js_value) list" where
  "player_path tournamentId player =
     [(''player_id'', js_int (player_id player)), (''tournament_id'', js_int tournamentId)]"

definition PlayerEditor :: "int \<Rightarrow> Player \<Rightarrow> Form" where
  "PlayerEditor tournamentId player =
     \<lparr>fo_values = [(''active'', JBool (player_active player)), (''name'', JStr (player_name player))],
      fo_fields = [shown ''name'' ''Name'' TextInput, unshown ''active'' ''Active player'' CheckInput],
      fo_schema = zPlayerBody,
      fo_endpoint = updatePlayerByIdApiTournamentsTournamentIdPlayersPlayerIdPutMutation,
      fo_body = id, fo_path = player_path tournamentId player,
      fo_follows = True, fo_resets = False,
      fo_submit = ''Save'', fo_message = ''Player saved.''\<rparr>"

definition deletePlayerClick :: "(string \<Rightarrow> bool) \<Rightarrow> int \<Rightarrow> Player \<Rightarrow> request option" where
  "deletePlayerClick confirm tournamentId player =
     confirmed confirm (''Delete '' @ player_name player @ ''?'')
       deletePlayerApiTournamentsTournamentIdPlayersPlayerIdDeleteMutation (player_path tournamentId player)"

record EditorView =
  ev_title :: string
  ev_badge :: string
  ev_summary :: string
  ev_form :: Form

definition playerSummary :: "Player \<Rightarrow> string" where
  "playerSummary player =
     int_text (player_wins player) @ ''W / '' @ int_text (player_draws player) @ ''D / '' @
     int_text (player_losses player) @ ''L '' @ middle_dot @ '' ELO '' @ player_elo_score player"

record PlayersView =
  pv_new :: Form
  pv_bulk :: Form
  pv_count :: string
  pv_empty :: bool
  pv_editors :: "EditorView list"

definition PlayersSection :: "TournamentBundle \<Rightarrow> PlayersView" where
  "PlayersSection bundle =
     (let tournamentId = tournament_id (tb_tournament bundle)
      in \<lparr>pv_new = NewPlayerForm tournamentId,
          pv_bulk = BulkPlayersForm tournamentId,
          pv_count = nat_text (length (tb_players bundle)) @ '' players'',
          pv_empty = (tb_players bundle = []),
          pv_editors = map (\<lambda>player.
            \<lparr>ev_title = player_name player, ev_badge = ActiveBadge (player_active player),
             ev_summary = playerSummary player, ev_form = PlayerEditor tournamentId player\<rparr>)
            (tb_players bundle)\<rparr>)"

section \<open>Teams\<close>

text \<open>\<open>z.array(z.coerce.number().int())\<close>: the checkboxes hold their values as strings.\<close>

fun coerce_number :: "text_env \<Rightarrow> js_value \<Rightarrow> js_num" where
  "coerce_number te JUndefined = NaN"
| "coerce_number te JNull = Fin 0"
| "coerce_number te (JBool b) = Fin (if b then 1 else 0)"
| "coerce_number te (JNum n) = n"
| "coerce_number te (JStr s) = to_number s"
| "coerce_number te (JBigInt i) = num_of_int i"
| "coerce_number te (JArr vs) = to_number (js_text te (JArr vs))"
| "coerce_number te (JDate s) =
     (case read_iso s of Some (t, Some off) \<Rightarrow> num_of_int (t - off) | _ \<Rightarrow> NaN)"
| "coerce_number te _ = NaN"

definition teamSchema :: "text_env \<Rightarrow> schema" where
  "teamSchema te =
     z_extend zTeamBody
       [(''player_ids'', ZArray (ZPreprocess (\<lambda>v. JNum (coerce_number te v)) ZInteger))]"

definition PlayerChecklist :: "Player list \<Rightarrow> FormField" where
  "PlayerChecklist players =
     unshown ''player_ids'' ''Players'' (ChecksInput (map (\<lambda>player. int_text (player_id player)) players))"

definition NewTeamForm :: "text_env \<Rightarrow> int \<Rightarrow> Player list \<Rightarrow> Form" where
  "NewTeamForm te tournamentId players =
     \<lparr>fo_values = [(''active'', JBool True), (''name'', JStr []), (''player_ids'', JArr [])],
      fo_fields = [shown ''name'' ''Team name'' TextInput, unshown ''active'' ''Team is active'' CheckInput,
        PlayerChecklist players],
      fo_schema = teamSchema te,
      fo_endpoint = createTeamApiTournamentsTournamentIdTeamsPostMutation,
      fo_body = id, fo_path = tournament_path tournamentId,
      fo_follows = False, fo_resets = True,
      fo_submit = ''Create team'', fo_message = ''Team created.''\<rparr>"

definition BulkTeamsForm :: "int \<Rightarrow> Form" where
  "BulkTeamsForm tournamentId =
     \<lparr>fo_values = [(''active'', JBool True), (''names'', JStr [])],
      fo_fields = [shown ''names'' ''Team names'' TextInput],
      fo_schema = zTeamMultiBody,
      fo_endpoint = createMultipleTeamsApiTournamentsTournamentIdTeamsMultiPostMutation,
      fo_body = id, fo_path = tournament_path tournamentId,
      fo_follows = False, fo_resets = True,
      fo_submit = ''Create from list'', fo_message = ''Teams created.''\<rparr>"

definition team_path :: "int \<Rightarrow> FullTeamWithPlayers \<Rightarrow> (string \<times> js_value) list" where
  "team_path tournamentId team =
     [(''team_id'', js_int (full_team_id team)), (''tournament_id'', js_int tournamentId)]"

definition TeamEditor :: "text_env \<Rightarrow> int \<Rightarrow> Player list \<Rightarrow> FullTeamWithPlayers \<Rightarrow> Form" where
  "TeamEditor te tournamentId players team =
     \<lparr>fo_values = [(''active'', JBool (full_team_active team)), (''name'', JStr (full_team_name team)),
        (''player_ids'', JArr (map (\<lambda>player. JStr (int_text (player_id player))) (full_team_players team)))],
      fo_fields = [shown ''name'' ''Team name'' TextInput, unshown ''active'' ''Active team'' CheckInput,
        PlayerChecklist players],
      fo_schema = teamSchema te,
      fo_endpoint = updateTeamByIdApiTournamentsTournamentIdTeamsTeamIdPutMutation,
      fo_body = id, fo_path = team_path tournamentId team,
      fo_follows = True, fo_resets = False,
      fo_submit = ''Save team'', fo_message = ''Team saved.''\<rparr>"

definition uploadTeamLogo :: "int \<Rightarrow> FullTeamWithPlayers \<Rightarrow> string list \<Rightarrow> request option" where
  "uploadTeamLogo tournamentId team files =
     upload updateTeamLogoApiTournamentsTournamentIdTeamsTeamIdLogoPostMutation
       (team_path tournamentId team) files"

definition deleteTeamClick :: "(string \<Rightarrow> bool) \<Rightarrow> int \<Rightarrow> FullTeamWithPlayers \<Rightarrow> request option" where
  "deleteTeamClick confirm tournamentId team =
     confirmed confirm (''Delete '' @ full_team_name team @ ''?'')
       deleteTeamApiTournamentsTournamentIdTeamsTeamIdDeleteMutation (team_path tournamentId team)"

definition teamSummary :: "FullTeamWithPlayers \<Rightarrow> string" where
  "teamSummary team =
     (let names = join '', '' (map player_name (full_team_players team))
      in if names = [] then ''No players yet'' else names)"

record TeamsView =
  tv_new :: Form
  tv_bulk :: Form
  tv_count :: string
  tv_empty :: bool
  tv_editors :: "EditorView list"

definition TeamsSection :: "text_env \<Rightarrow> TournamentBundle \<Rightarrow> TeamsView" where
  "TeamsSection te bundle =
     (let tournamentId = tournament_id (tb_tournament bundle)
      in \<lparr>tv_new = NewTeamForm te tournamentId (tb_players bundle),
          tv_bulk = BulkTeamsForm tournamentId,
          tv_count = nat_text (length (tb_teams bundle)) @ '' teams'',
          tv_empty = (tb_teams bundle = []),
          tv_editors = map (\<lambda>team.
            \<lparr>ev_title = full_team_name team, ev_badge = ActiveBadge (full_team_active team),
             ev_summary = teamSummary team, ev_form = TeamEditor te tournamentId (tb_players bundle) team\<rparr>)
            (tb_teams bundle)\<rparr>)"

end
