(* ===== verification/OrganizerForms.thy ===== *)
theory OrganizerForms
  imports ManagementForms RosterForms AccountForms ScoreEntry
begin

text \<open>
  All forms of the frontend together, and what holds of each of them: what they send is what the schema of
  the endpoint takes, and every rejection is shown to the user, with one kind of exception.
\<close>

section \<open>The forms\<close>

datatype AppForm =
    FNewRanking int
  | FRanking int Ranking
  | FSettings Tournament
  | FStage Tournament StageWithStageItems
  | FNewStageItem "Ranking list" int int
  | FStageItemName int StageItemWithRounds
  | FNewPlayer int
  | FBulkPlayers int
  | FPlayer int Player
  | FNewTeam int "Player list"
  | FBulkTeams int
  | FTeam int "Player list" FullTeamWithPlayers
  | FNewTournament "Club list"
  | FNewClub
  | FClub Club
  | FLogin
  | FRegister
  | FIdentity UserPublic
  | FPassword int
  | FScore RoundContext MatchWithDetails

text \<open>What the forms take from their surroundings.\<close>

record 'd FormEnv =
  fe_env :: js_env
  fe_text :: text_env
  fe_dates :: "'d date_fns"

fun form_of :: "'d FormEnv \<Rightarrow> AppForm \<Rightarrow> Form" where
  "form_of fe (FNewRanking tid) = NewRankingForm tid"
| "form_of fe (FRanking tid r) = RankingEditor tid r"
| "form_of fe (FSettings t) = TournamentSettingsForm (fe_env fe) (fe_dates fe) t"
| "form_of fe (FStage t s) = StageForm t s"
| "form_of fe (FNewStageItem rs sid tid) = NewStageItemForm rs sid tid"
| "form_of fe (FStageItemName tid i) = StageItemNameForm tid i"
| "form_of fe (FNewPlayer tid) = NewPlayerForm tid"
| "form_of fe (FBulkPlayers tid) = BulkPlayersForm tid"
| "form_of fe (FPlayer tid p) = PlayerEditor tid p"
| "form_of fe (FNewTeam tid ps) = NewTeamForm (fe_text fe) tid ps"
| "form_of fe (FBulkTeams tid) = BulkTeamsForm tid"
| "form_of fe (FTeam tid ps t) = TeamEditor (fe_text fe) tid ps t"
| "form_of fe (FNewTournament cs) = NewTournamentForm (fe_env fe) cs"
| "form_of fe FNewClub = NewClubForm"
| "form_of fe (FClub c) = ClubEditor c"
| "form_of fe FLogin = LoginPage"
| "form_of fe FRegister = registerForm"
| "form_of fe (FIdentity u) = IdentityForm u"
| "form_of fe (FPassword uid) = PasswordForm uid"
| "form_of fe (FScore context m) = ScoreForm context m"

text \<open>The generated schema of the body the form's endpoint takes.\<close>

fun body_schema :: "AppForm \<Rightarrow> schema" where
  "body_schema (FNewRanking _) = zCreateRankingApiTournamentsTournamentIdRankingsPostBody"
| "body_schema (FRanking _ _) = zUpdateRankingByIdApiTournamentsTournamentIdRankingsRankingIdPutBody"
| "body_schema (FSettings _) = zUpdateTournamentByIdApiTournamentsTournamentIdPutBody"
| "body_schema (FStage _ _) = zUpdateStageApiTournamentsTournamentIdStagesStageIdPutBody"
| "body_schema (FNewStageItem _ _ _) = zCreateStageItemApiTournamentsTournamentIdStageItemsPostBody"
| "body_schema (FStageItemName _ _) = zUpdateStageItemApiTournamentsTournamentIdStageItemsStageItemIdPutBody"
| "body_schema (FNewPlayer _) = zCreateSinglePlayerApiTournamentsTournamentIdPlayersPostBody"
| "body_schema (FBulkPlayers _) = zCreateMultiplePlayersApiTournamentsTournamentIdPlayersMultiPostBody"
| "body_schema (FPlayer _ _) = zUpdatePlayerByIdApiTournamentsTournamentIdPlayersPlayerIdPutBody"
| "body_schema (FNewTeam _ _) = zCreateTeamApiTournamentsTournamentIdTeamsPostBody"
| "body_schema (FBulkTeams _) = zCreateMultipleTeamsApiTournamentsTournamentIdTeamsMultiPostBody"
| "body_schema (FTeam _ _ _) = zUpdateTeamByIdApiTournamentsTournamentIdTeamsTeamIdPutBody"
| "body_schema (FNewTournament _) = zCreateTournamentApiTournamentsPostBody"
| "body_schema FNewClub = zCreateNewClubApiClubsPostBody"
| "body_schema (FClub _) = zUpdateClubApiClubsClubIdPutBody"
| "body_schema FLogin = zLoginForAccessTokenApiTokenPostBody"
| "body_schema FRegister = zRegisterUserApiUsersRegisterPostBody"
| "body_schema (FIdentity _) = zUpdateUserDetailsApiUsersUserIdPutBody"
| "body_schema (FPassword _) = zPutUserPasswordApiUsersUserIdPasswordPutBody"
| "body_schema (FScore _ _) = zUpdateMatchByIdApiTournamentsTournamentIdMatchesMatchIdPutBody"

lemmas form_defs = NewRankingForm_def RankingEditor_def TournamentSettingsForm_def StageForm_def
  NewStageItemForm_def StageItemNameForm_def NewPlayerForm_def BulkPlayersForm_def PlayerEditor_def
  NewTeamForm_def BulkTeamsForm_def TeamEditor_def NewTournamentForm_def NewClubForm_def ClubEditor_def
  LoginPage_def registerForm_def IdentityForm_def PasswordForm_def ScoreForm_def Let_def

text \<open>The schemas of the forms, written out.\<close>

lemmas extended_schemas = tournamentSettingsSchema_def newTournamentSchema_def teamSchema_def loginSchema_def
  registerSchema_def scoresSchema_def z_extend_def z_pick_def z_field_def obj_spread_def

lemma form_schema_fields: "fo_schema (form_of fe a) = ZObject (object_shape (fo_schema (form_of fe a)))"
  by (cases a) (simp_all add: form_defs extended_schemas schema_defs)

lemma body_schema_fields: "body_schema a = ZObject (object_shape (body_schema a))"
  by (cases a) (simp_all add: schema_defs)

lemma form_schema_distinct: "distinct (map fst (object_shape (fo_schema (form_of fe a))))"
  by (cases a) (simp_all add: form_defs extended_schemas schema_defs)

section \<open>Bodies\<close>

text \<open>The moment a form's start time denotes has a year of four digits.\<close>

definition ordinary_start :: "js_env \<Rightarrow> (string \<times> js_value) list \<Rightarrow> bool" where
  "ordinary_start env values =
     (case obj_get values ''start_time'' of
        JStr s \<Rightarrow> (case date_ms env s of Some t \<Rightarrow> ordinary_time t | None \<Rightarrow> True)
      | _ \<Rightarrow> True)"

text \<open>Zod's ISO format takes what \<open>toISOString\<close> writes.\<close>

definition iso_datetimes :: "(string \<Rightarrow> bool) \<Rightarrow> bool" where
  "iso_datetimes datetime = (\<forall>t. ordinary_time t \<longrightarrow> datetime (iso_text t))"

lemma transformed_Parsed: "transformed f r = Parsed w \<longleftrightarrow> (\<exists>v. r = Parsed v \<and> f v = Some w)"
  by (auto simp: transformed_def split: parsed.split option.split)

lemma local_time_Parsed: "zparse em dt (zLocalDateTime env) v = Parsed w \<longleftrightarrow>
    (\<exists>s t. v = JStr s \<and> s \<noteq> [] \<and> 1 \<le> js_length s \<and> date_ms env s = Some t \<and> w = JStr (iso_text t))"
  by (cases v)
    (auto simp: zLocalDateTime_def transformed_Parsed text_ok_def opt_all_def toISOString_def js_length_def)

lemma local_start_time:
  assumes "iso_datetimes dt" "ordinary_start env vals"
  shows "\<forall>w. zparse em dt (zLocalDateTime env) (obj_get vals ''start_time'') = Parsed w \<longrightarrow>
    zparse em dt ZDateTime w = Parsed w"
  using assms
  by (auto simp: local_time_Parsed text_ok_def opt_all_def ordinary_start_def iso_datetimes_def)

lemma coerced_ids: "into em dt (ZArray (ZPreprocess g ZInteger)) (ZArray ZInteger)"
  by (intro array_into preprocess_into checks_only_into) simp

text \<open>Field by field, what a form lets through and what its endpoint takes.\<close>

definition field_passes ::
  "(string \<Rightarrow> bool) \<Rightarrow> (string \<Rightarrow> bool) \<Rightarrow> (string \<times> js_value) list \<Rightarrow> string \<times> schema \<Rightarrow> string \<times> schema \<Rightarrow> bool" where
  "field_passes em dt vals f f' \<longleftrightarrow> fst f = fst f' \<and>
     (\<forall>x. zparse em dt (snd f) (obj_get vals (fst f)) = Parsed x \<longrightarrow> zparse em dt (snd f') x = Parsed x)"

lemma passes_into: "into em dt s s' \<Longrightarrow> field_passes em dt vals (k, s) (k, s')"
  by (auto simp: field_passes_def dest: intoD)

lemma passes_same: "checks_only s \<Longrightarrow> field_passes em dt vals (k, s) (k, s)"
  by (rule passes_into) (rule checks_only_into)

lemma passes_default: "checks_only s \<Longrightarrow> zparse em dt s d = Parsed d \<Longrightarrow> d \<noteq> JUndefined \<Longrightarrow>
    field_passes em dt vals (k, ZDefault s d) (k, ZDefault s d)"
  by (rule passes_into) (rule default_into)

lemma passes_text: "field_passes em dt vals (k, ZString mn mx fmt) (k, ZText)"
  by (rule passes_into, rule intoI) (auto simp: text_ok_def opt_all_def split: js_value.splits)

lemma passes_start_time:
  "iso_datetimes dt \<Longrightarrow> ordinary_start env vals \<Longrightarrow>
   field_passes em dt vals (''start_time'', zLocalDateTime env) (''start_time'', ZDateTime)"
  unfolding field_passes_def using local_start_time[of dt env vals em] by simp

lemma passes_ids: "field_passes em dt vals (k, ZArray (ZPreprocess g ZInteger)) (k, ZArray ZInteger)"
  by (rule passes_into) (rule coerced_ids)

lemma form_into_body:
  assumes "zparse em dt s (JObj vals) = Parsed w" "s = ZObject fs" "s' = ZObject fs'" "distinct (map fst fs)"
    and "list_all2 (field_passes em dt vals) fs fs'"
  shows "zparse em dt s' w = Parsed w"
proof -
  have "list_all2 (\<lambda>(k, s) (k', s'). k = k' \<and>
      (\<forall>x. zparse em dt s (obj_get vals k) = Parsed x \<longrightarrow> zparse em dt s' x = Parsed x)) fs fs'"
    by (rule list_all2_mono[OF assms(5)]) (auto simp: field_passes_def)
  then show ?thesis using object_into_at assms(1-4) by blast
qed

lemma default_points:
  "zparse em dt (ZUnion [ZNumber, ZDecimal]) (JStr ''0.5'') = Parsed (JStr ''0.5'')"
  "zparse em dt (ZUnion [ZNumber, ZDecimal]) (JStr ''0.0'') = Parsed (JStr ''0.0'')"
  "zparse em dt (ZUnion [ZNumber, ZDecimal]) (JStr ''1.0'') = Parsed (JStr ''1.0'')"
proof -
  have "decimal_text ''0.5''" "decimal_text ''0.0''" "decimal_text ''1.0''" by code_simp+
  then show "zparse em dt (ZUnion [ZNumber, ZDecimal]) (JStr ''0.5'') = Parsed (JStr ''0.5'')"
    "zparse em dt (ZUnion [ZNumber, ZDecimal]) (JStr ''0.0'') = Parsed (JStr ''0.0'')"
    "zparse em dt (ZUnion [ZNumber, ZDecimal]) (JStr ''1.0'') = Parsed (JStr ''1.0'')"
    by (simp_all add: text_ok_def opt_all_def check_def is_finite_def)
qed

lemmas passes_points = passes_default[OF _ default_points(1)] passes_default[OF _ default_points(2)]
  passes_default[OF _ default_points(3)]

lemmas passes = passes_same passes_default passes_points passes_start_time passes_ids

text \<open>The forms whose body is sent as the schema gives it.\<close>

fun sends_parsed :: "AppForm \<Rightarrow> bool" where
  "sends_parsed (FNewStageItem _ _ _) = False"
| "sends_parsed FLogin = False"
| "sends_parsed (FScore _ _) = False"
| "sends_parsed _ = True"

lemma sends_parsed_id: "sends_parsed a \<Longrightarrow> fo_body (form_of fe a) = id"
  by (cases a) (simp_all add: form_defs)

lemma parsed_body_accepted:
  assumes "sends_parsed a" "iso_datetimes dt" "ordinary_start (fe_env fe) vals"
    and "zparse em dt (fo_schema (form_of fe a)) (JObj vals) = Parsed w"
  shows "zparse em dt (body_schema a) w = Parsed w"
proof (rule form_into_body[OF assms(4) form_schema_fields body_schema_fields form_schema_distinct])
  show "list_all2 (field_passes em dt vals) (object_shape (fo_schema (form_of fe a))) (object_shape (body_schema a))"
    using assms(1-3)
    by (cases a) (simp_all add: form_defs extended_schemas schema_defs passes passes_text check_def is_boolean_def)
qed

text \<open>The forms that send something else: the login, the new stage item with its name trimmed, and the scores of a
  match with the rest of the match.\<close>

lemma accepted_fields:
  assumes "zparse em dt (ZObject fs) (JObj vals) = Parsed w" "distinct (map fst fs)"
    and "\<forall>f \<in> set fs. \<forall>x. zparse em dt (snd f) x \<noteq> Parsed JUndefined"
  shows "own_entries w = map (\<lambda>(k, s). (k, obj_get (own_entries w) k)) fs"
    "(k, s) \<in> set fs \<Longrightarrow> zparse em dt s (obj_get vals k) = Parsed (obj_get (own_entries w) k)"
proof -
  note o = object_Parsed[OF assms(1,2)]
  show "(k, s) \<in> set fs \<Longrightarrow> zparse em dt s (obj_get vals k) = Parsed (obj_get (own_entries w) k)" by (rule o(2))
  have "obj_get (own_entries w) k \<noteq> JUndefined" if "(k, s) \<in> set fs" for k s
    using o(2)[OF that] assms(3) that by (metis snd_conv)
  then have "filter (\<lambda>(k, v). v \<noteq> JUndefined \<or> obj_has vals k) (map (\<lambda>(k, s). (k, obj_get (own_entries w) k)) fs) =
      map (\<lambda>(k, s). (k, obj_get (own_entries w) k)) fs"
    by (intro filter_True) auto
  with o(3) show "own_entries w = map (\<lambda>(k, s). (k, obj_get (own_entries w) k)) fs" by (rule trans)
qed

lemma login_body_accepted:
  assumes "zparse em dt loginSchema (JObj vals) = Parsed w"
  shows "\<exists>es. zparse em dt zLoginForAccessTokenApiTokenPostBody (loginBody w) = Parsed (JObj es) \<and>
    map_of es = map_of (own_entries (loginBody w))"
proof -
  let ?fs = "[(''password'', ZText), (''username'', ZText)]"
  have p: "zparse em dt (ZObject ?fs) (JObj vals) = Parsed w"
    using assms by (simp add: loginSchema_def z_pick_def schema_defs)
  have u: "\<forall>f \<in> set ?fs. \<forall>x. zparse em dt (snd f) x \<noteq> Parsed JUndefined"
    by (auto simp: text_ok_def)
  have d: "distinct (map fst ?fs)" by simp
  note a = accepted_fields[OF p d u]
  have "\<exists>q. obj_get (own_entries w) ''password'' = JStr q" "\<exists>n. obj_get (own_entries w) ''username'' = JStr n"
    using a(2)[of "''password''" ZText] a(2)[of "''username''" ZText]
    by (auto simp: text_ok_def split: js_value.splits)
  then obtain q n where e: "obj_get (own_entries w) ''password'' = JStr q" "obj_get (own_entries w) ''username'' = JStr n"
    by blast
  have "own_entries w = [(''password'', JStr q), (''username'', JStr n)]"
    using a(1) by (simp add: e)
  then have b: "loginBody w = JObj [(''password'', JStr q), (''username'', JStr n), (''client_id'', JNull),
      (''client_secret'', JNull), (''grant_type'', JStr ''password''), (''scope'', JStr [])]"
    by (simp add: loginBody_def obj_spread_def)
  show ?thesis
    by (rule exI[of _ "[(''client_id'', JNull), (''client_secret'', JNull), (''grant_type'', JStr ''password''),
        (''password'', JStr q), (''scope'', JStr []), (''username'', JStr n)]"])
      (simp add: b schema_defs object_result_def obj_get_def text_ok_def opt_all_def check_def Let_def
        parts_result_def part_issues_def parsed_entries_def part_value_def fun_eq_iff)
qed

text \<open>Texts that are UTF-8, as far as their characters can be told apart: no continuation byte without the
  character it continues.\<close>

definition continuation :: "char \<Rightarrow> bool" where
  "continuation c = (128 \<le> (of_char c :: nat) \<and> (of_char c :: nat) < 192)"

fun bytes_after :: "char \<Rightarrow> nat" where
  "bytes_after c = (let b = of_char c :: nat in if b < 192 then 0 else if b < 224 then 1 else if b < 240 then 2 else 3)"

fun utf8_from :: "nat \<Rightarrow> string \<Rightarrow> bool" where
  "utf8_from k [] = (k = 0)"
| "utf8_from k (c # s) =
     (if continuation c then (case k of 0 \<Rightarrow> False | Suc j \<Rightarrow> utf8_from j s)
      else k = 0 \<and> utf8_from (bytes_after c) s)"

abbreviation utf8 :: "string \<Rightarrow> bool" where "utf8 s \<equiv> utf8_from 0 s"

lemma space_bytes: "js_space c \<Longrightarrow> \<not> continuation c \<and> bytes_after c = 0"
  by (auto simp: js_space_def continuation_def)

lemma utf8_trim_start: "utf8 s \<Longrightarrow> utf8 (trim_start s)"
  by (induction s) (use space_bytes in \<open>auto simp: trim_start_def simp del: bytes_after.simps split: if_splits\<close>)

lemma js_length_append: "js_length (a @ b) = js_length a + js_length b"
  by (simp add: js_length_def)

lemma js_length_dropWhile: "js_length (dropWhile P s) \<le> js_length s"
  by (induction s) (auto simp: js_length_def)

lemma js_length_rev: "js_length (rev s) = js_length s"
  by (simp add: js_length_def rev_map[symmetric] sum_list_rev)

lemma js_length_trim: "js_length (trim s) \<le> js_length s"
  unfolding trim_def trim_start_def
  using js_length_dropWhile[of js_space s] js_length_dropWhile[of js_space "rev (dropWhile js_space s)"]
  by (simp add: js_length_rev)

lemma js_length_positive: "\<not> continuation (hd s) \<Longrightarrow> s \<noteq> [] \<Longrightarrow> 1 \<le> js_length s"
  by (cases s) (auto simp: js_length_def char_units_def continuation_def Let_def)

lemma trim_prefix: "\<exists>r. trim_start s = trim s @ r"
proof -
  have "rev (trim_start s) = takeWhile js_space (rev (trim_start s)) @ dropWhile js_space (rev (trim_start s))"
    by simp
  then have "trim_start s = rev (dropWhile js_space (rev (trim_start s))) @ rev (takeWhile js_space (rev (trim_start s)))"
    by (metis rev_append rev_rev_ident)
  then show ?thesis unfolding trim_def trim_start_def by blast
qed

lemma trim_length_positive:
  assumes "utf8 s" "trim s \<noteq> []"
  shows "1 \<le> js_length (trim s)"
proof (rule js_length_positive[OF _ assms(2)])
  obtain r where "trim_start s = trim s @ r" using trim_prefix by blast
  then have "utf8 (trim s @ r)" using utf8_trim_start[OF assms(1)] by simp
  then show "\<not> continuation (hd (trim s))" using assms(2) by (cases "trim s") (auto split: if_splits)
qed

definition utf8_name :: "(string \<times> js_value) list \<Rightarrow> bool" where
  "utf8_name vals = (case obj_get vals ''name'' of JStr s \<Rightarrow> utf8 s | _ \<Rightarrow> True)"

lemma object_maps:
  assumes "map fst es = map fst fs" "map fst es' = map fst fs" "distinct (map fst fs)"
    and "list_all (\<lambda>(k, s). zparse em dt s (obj_get es k) = Parsed (obj_get es' k)) fs"
  shows "zparse em dt (ZObject fs) (JObj es) = Parsed (JObj es')"
proof -
  have r: "field_results em dt fs es = map (\<lambda>(k, s). (k, Parsed (obj_get es' k))) fs"
    using assms(4) by (auto simp: field_results_def list_all_iff)
  have "obj_has es k" if "(k, s) \<in> set fs" for k s
  proof -
    have "k \<in> set (map fst fs)" using that by force
    then show ?thesis unfolding assms(1)[symmetric] obj_has_def by simp
  qed
  then have "parsed_entries es (field_results em dt fs es) = map (\<lambda>(k, s). (k, obj_get es' k)) fs"
    unfolding r parsed_entries_def by (subst filter_True) (auto simp: part_value_def)
  also have "\<dots> = map (\<lambda>k. (k, obj_get es' k)) (map fst es')" unfolding assms(2) by (simp add: case_prod_unfold)
  also have "\<dots> = map (\<lambda>e. (fst e, snd e)) es'"
  proof -
    have "obj_get es' (fst e) = snd e" if "e \<in> set es'" for e
      using that assms(3) unfolding assms(2)[symmetric]
      by (simp add: obj_get_def map_of_is_SomeI[of es' "fst e" "snd e"])
    then show ?thesis unfolding map_map by (intro map_cong) auto
  qed
  finally have "parsed_entries es (field_results em dt fs es) = es'" by simp
  moreover have "parts_result (field_results em dt fs es) v = Parsed v" for v
    unfolding r by (auto simp: parts_result_Parsed part_issues_Nil list_ex_iff)
  ultimately show ?thesis unfolding zparse_object by simp
qed

lemma object_same:
  assumes "map fst es = map fst fs" "list_all (\<lambda>(k, s). zparse em dt s (obj_get es k) = Parsed (obj_get es k)) fs"
    and "distinct (map fst fs)"
  shows "zparse em dt (ZObject fs) (JObj es) = Parsed (JObj es)"
  using object_maps assms by blast

text \<open>What an object becomes, from what its fields become.\<close>

lemma object_becomes:
  assumes "zparse em dt (ZObject fs) (JObj es) = Parsed w"
    and "map fst es = map fst fs" "map fst es' = map fst fs" "distinct (map fst fs)"
    and "list_all (\<lambda>(k, s). \<forall>x. zparse em dt s (obj_get es k) = Parsed x \<longrightarrow> x = obj_get es' k) fs"
  shows "w = JObj es'"
proof -
  have "list_all (\<lambda>(k, s). zparse em dt s (obj_get es k) = Parsed (obj_get es' k)) fs"
    using object_Parsed(2)[OF assms(1,4)] assms(5) by (fastforce simp: list_all_iff)
  from object_maps[OF assms(2,3,4) this] show ?thesis using assms(1) by simp
qed

abbreviation stage_item_fields :: "(string \<times> schema) list" where
  "stage_item_fields \<equiv>
     [(''name'', ZNullable (ZString (Some 1) (Some 100) None)), (''ranking_id'', ZNullable ZInteger),
      (''stage_id'', ZInteger), (''team_count'', ZInt (Some 2) (Some 64)),
      (''type'', ZEnum [''ROUND_ROBIN'', ''SINGLE_ELIMINATION'', ''SWISS''])]"

lemma stage_item_name_accepted:
  assumes "zparse em dt (ZNullable (ZString (Some 1) (Some 100) None)) v = Parsed v" "\<forall>s. v = JStr s \<longrightarrow> utf8 s"
    and "name = (case v of JStr s \<Rightarrow> if trim s = [] then JNull else JStr (trim s) | _ \<Rightarrow> JNull)"
  shows "zparse em dt (ZNullable (ZString (Some 1) (Some 100) None)) name = Parsed name"
proof (cases v)
  case (JStr s)
  have "utf8 s" using JStr assms(2) by simp
  moreover have "js_length s \<le> 100" using JStr assms(1) by (simp add: text_ok_def opt_all_def)
  ultimately show ?thesis
    using trim_length_positive[of s] js_length_trim[of s] JStr assms(3) by (auto simp: text_ok_def opt_all_def)
qed (simp_all add: assms(3))

lemma stage_item_body_accepted:
  assumes "zparse em dt zStageItemCreateBody (JObj vals) = Parsed w" "utf8_name vals"
  shows "zparse em dt zCreateStageItemApiTournamentsTournamentIdStageItemsPostBody (stageItemBody w) =
    Parsed (stageItemBody w)"
proof -
  let ?v = "obj_get (own_entries w)"
  have p: "zparse em dt (ZObject stage_item_fields) (JObj vals) = Parsed w" using assms by (simp add: schema_defs)
  have d: "distinct (map fst stage_item_fields)" by simp
  have u: "\<forall>f \<in> set stage_item_fields. \<forall>x. zparse em dt (snd f) x \<noteq> Parsed JUndefined"
    by (auto simp: text_ok_def int_ok_def safe_integer_def)
  note a = accepted_fields[OF p d u]
  have f: "zparse em dt s (?v k) = Parsed (?v k) \<and> obj_get vals k = ?v k" if "(k, s) \<in> set stage_item_fields" for k s
  proof -
    have "checks_only s" using that by auto
    from checks_only_same[OF this a(2)[OF that]] have "obj_get vals k = ?v k" by simp
    with a(2)[OF that] show ?thesis by simp
  qed
  obtain n r st tc ty where v: "?v ''name'' = n" "?v ''ranking_id'' = r" "?v ''stage_id'' = st"
    "?v ''team_count'' = tc" "?v ''type'' = ty" by simp
  have e: "own_entries w = [(''name'', n), (''ranking_id'', r), (''stage_id'', st), (''team_count'', tc), (''type'', ty)]"
    using a(1) by (simp add: v)
  define name where "name = (case n of JStr s \<Rightarrow> if trim s = [] then JNull else JStr (trim s) | _ \<Rightarrow> JNull)"
  have b: "stageItemBody w = JObj [(''name'', name), (''ranking_id'', r), (''stage_id'', st), (''team_count'', tc), (''type'', ty)]"
    by (simp add: stageItemBody_def Let_def e obj_get_def name_def)
  have fn: "zparse em dt (ZNullable (ZString (Some 1) (Some 100) None)) n = Parsed n \<and> obj_get vals ''name'' = n"
    using f[of "''name''"] unfolding v by (simp del: zparse.simps)
  have "zparse em dt (ZNullable (ZString (Some 1) (Some 100) None)) name = Parsed name"
    by (rule stage_item_name_accepted[OF conjunct1[OF fn] _ name_def])
      (use assms(2) fn in \<open>auto simp: utf8_name_def\<close>)
  moreover have "zparse em dt (ZNullable ZInteger) r = Parsed r" "zparse em dt ZInteger st = Parsed st"
    "zparse em dt (ZInt (Some 2) (Some 64)) tc = Parsed tc"
    "zparse em dt (ZEnum [''ROUND_ROBIN'', ''SINGLE_ELIMINATION'', ''SWISS'']) ty = Parsed ty"
    using f[of "''ranking_id''"] f[of "''stage_id''"] f[of "''team_count''"] f[of "''type''"]
    unfolding v by (simp_all del: zparse.simps)
  ultimately have "zparse em dt (ZObject stage_item_fields) (stageItemBody w) = Parsed (stageItemBody w)"
    unfolding b by (intro object_same) (simp_all add: obj_get_def del: zparse.simps)
  then show ?thesis by (simp add: schema_defs del: zparse.simps)
qed

lemma scores_body_accepted:
  assumes "zparse em dt scoresSchema (JObj vals) = Parsed w" "storable_match m"
  shows "zparse em dt zUpdateMatchByIdApiTournamentsTournamentIdMatchesMatchIdPutBody (scoresBody m w) =
    Parsed (scoresBody m w)"
proof -
  let ?score = "ZDefault (ZInt (Some 0) None) (JNum (Fin 0))"
  let ?fs = "[(''stage_item_input1_score'', ?score), (''stage_item_input2_score'', ?score)]"
  let ?v = "obj_get (own_entries w)"
  have p: "zparse em dt (ZObject ?fs) (JObj vals) = Parsed w" using assms(1) by (simp only: scores_schema_fields)
  have d: "distinct (map fst ?fs)" by simp
  have u: "\<forall>f \<in> set ?fs. \<forall>x. zparse em dt (snd f) x \<noteq> Parsed JUndefined"
    by (auto simp: int_ok_def safe_integer_def split: if_splits)
  note a = accepted_fields[OF p d u]
  have "zparse em dt ?score x = Parsed y \<Longrightarrow> zparse em dt ?score y = Parsed y" for x y
    by (auto simp: int_ok_def safe_integer_def opt_all_def int_of_num_def is_undefined_iff split: if_splits)
  then have s: "zparse em dt ?score (?v ''stage_item_input1_score'') = Parsed (?v ''stage_item_input1_score'')"
    "zparse em dt ?score (?v ''stage_item_input2_score'') = Parsed (?v ''stage_item_input2_score'')"
    using a(2)[of "''stage_item_input1_score''" ?score] a(2)[of "''stage_item_input2_score''" ?score] by auto
  obtain x y where v: "?v ''stage_item_input1_score'' = x" "?v ''stage_item_input2_score'' = y" by simp
  have "own_entries w = [(''stage_item_input1_score'', x), (''stage_item_input2_score'', y)]"
    using a(1) by (simp add: v)
  then have b: "scoresBody m w = JObj (kept_entries m @ [(''stage_item_input1_score'', x), (''stage_item_input2_score'', y)])"
    by (simp add: scoresBody_def obj_spread_def kept_entries_def)
  show ?thesis unfolding b schema_defs
    by (rule object_same)
      (use s v kept_entries_taken[OF assms(2), of em dt] in \<open>simp_all add: kept_entries_def obj_get_def del: zparse.simps\<close>)
qed

text \<open>What a form sends along without showing it, as the API stores it.\<close>

fun stored_ok :: "AppForm \<Rightarrow> bool" where
  "stored_ok (FScore _ m) = storable_match m"
| "stored_ok _ = True"

section \<open>Properties of bodies\<close>

text \<open>The schema takes the value and keeps all of it.\<close>

definition taken_whole :: "(schema \<Rightarrow> js_value \<Rightarrow> parsed) \<Rightarrow> schema \<Rightarrow> js_value \<Rightarrow> bool" where
  "taken_whole safeParse s body \<longleftrightarrow>
     (\<exists>es bes. body = JObj bes \<and> safeParse s body = Parsed (JObj es) \<and> map_of es = map_of bes)"

lemma parsed_object: "zparse em dt (ZObject fs) v = Parsed w \<Longrightarrow> \<exists>es. w = JObj es"
  by (auto simp: object_result_def Let_def parts_result_Parsed split: option.splits)

text \<open>A body that is sent is taken whole by the schema of its endpoint.\<close>

lemma sent_body_taken:
  assumes "zod_library safeParse email datetime" "iso_datetimes datetime"
    and "ordinary_start (fe_env fe) vals" "utf8_name vals" "stored_ok a"
    and "handleSubmit safeParse (form_of fe a) vals = Sent (ep, opts)"
  shows "ep = fo_endpoint (form_of fe a) \<and>
    (\<exists>body. opts = mutation_vars (Some body) (fo_path (form_of fe a)) \<and> taken_whole safeParse (body_schema a) body)"
proof -
  let ?f = "form_of fe a"
  have z: "safeParse = zparse email datetime" by (rule zod_library.safeParse_unique[OF assms(1)])
  obtain w where w: "zparse email datetime (fo_schema ?f) (JObj vals) = Parsed w"
    and s: "ep = fo_endpoint ?f" "opts = mutation_vars (Some (fo_body ?f w)) (fo_path ?f)"
    using assms(6) unfolding handleSubmit_def z by (auto split: parsed.splits)
  have "taken_whole safeParse (body_schema a) (fo_body ?f w)"
  proof (cases "sends_parsed a")
    case True
    have "zparse email datetime (body_schema a) w = Parsed w"
      by (rule parsed_body_accepted[OF True assms(2,3) w])
    moreover obtain es where "w = JObj es"
      using parsed_object w form_schema_fields[of fe a] by metis
    ultimately show ?thesis by (auto simp: taken_whole_def z sends_parsed_id[OF True])
  next
    case False
    then consider rs sid tid where "a = FNewStageItem rs sid tid" | "a = FLogin" | ctx m where "a = FScore ctx m"
      by (cases a) simp_all
    then show ?thesis
    proof cases
      case 1
      then have "zparse email datetime zStageItemCreateBody (JObj vals) = Parsed w"
        using w by (simp add: NewStageItemForm_def del: zparse.simps)
      from stage_item_body_accepted[OF this assms(4)] show ?thesis
        by (simp add: 1 NewStageItemForm_def taken_whole_def z stageItemBody_def Let_def del: zparse.simps)
    next
      case 2
      then have "zparse email datetime loginSchema (JObj vals) = Parsed w"
        using w by (simp add: LoginPage_def del: zparse.simps)
      from login_body_accepted[OF this] show ?thesis
        by (auto simp: 2 LoginPage_def taken_whole_def z loginBody_def simp del: zparse.simps)
    next
      case 3
      then have "zparse email datetime scoresSchema (JObj vals) = Parsed w"
        using w by (simp add: ScoreForm_def Let_def del: zparse.simps)
      from scores_body_accepted[OF this, of m] show ?thesis
        using 3 assms(5) by (simp add: ScoreForm_def Let_def taken_whole_def z scoresBody_def del: zparse.simps)
    qed
  qed
  with s show ?thesis by blast
qed

text \<open>C34: Every body a form of the application sends is one that the generated schema of the endpoint takes, and keeps
  whole: the forms' own schemas, the trimmed name of a stage item, the converted ids of players, the local
  start time sent as a timestamp, the completed login body and the scores sent with the rest of a match (as the API
  stores it) all fit the API. A start is taken to fall in a year of four digits, as UTC writes it.\<close>

theorem sent_bodies_valid:
  assumes "zod_library safeParse email datetime" "iso_datetimes datetime"
    and "ordinary_start (fe_env fe) vals" "utf8_name vals" "stored_ok a"
    and "handleSubmit safeParse (form_of fe a) vals = Sent (ep, opts)"
  shows "ep = fo_endpoint (form_of fe a) \<and>
    (\<exists>body. opts = mutation_vars (Some body) (fo_path (form_of fe a)) \<and> taken_whole safeParse (body_schema a) body)"
  using assms by (rule sent_body_taken)

text \<open>The hypotheses hold of a concrete library and a concrete form.\<close>

definition sampleFormEnv :: "string FormEnv" where
  "sampleFormEnv =
     \<lparr>fe_env = \<lparr>env_now = 0, env_local_offset = (\<lambda>_. 0), env_date_fallback = (\<lambda>_. None)\<rparr>,
      fe_text = \<lparr>te_num = (\<lambda>_. []), te_date = (\<lambda>s. s), te_other = (\<lambda>_. [])\<rparr>, fe_dates = sampleDates\<rparr>"

abbreviation sampleParse :: "schema \<Rightarrow> js_value \<Rightarrow> parsed" where
  "sampleParse \<equiv> zparse (\<lambda>s. CHR ''@'' \<in> set s) (\<lambda>_. True)"

lemmas sample_library = zod_reference.zod_library_axioms[of "\<lambda>s. CHR ''@'' \<in> set s" "\<lambda>_. True"]

theorem sent_bodies_valid_witness:
  "taken_whole sampleParse zCreateStageItemApiTournamentsTournamentIdStageItemsPostBody
     (JObj [(''name'', JStr ''Final''), (''ranking_id'', JNull), (''stage_id'', JNum (Fin 2)),
       (''team_count'', JNum (Fin 8)), (''type'', JStr ''SWISS'')])"
proof -
  let ?vals = "[(''name'', JStr '' Final''), (''ranking_id'', JNull), (''stage_id'', js_int 2),
    (''team_count'', js_int 8), (''type'', JStr ''SWISS'')]"
  have p: "int_ok None None (js_int 2)" "int_ok (Some 2) (Some 64) (js_int 8)" "utf8 '' Final''"
    "js_length '' Final'' = 6" "trim '' Final'' = ''Final''" by code_simp+
  have "zparse (\<lambda>s. CHR ''@'' \<in> set s) (\<lambda>_. True) (ZObject stage_item_fields) (JObj ?vals) = Parsed (JObj ?vals)"
    by (rule object_same) (simp_all add: obj_get_def p text_ok_def opt_all_def)
  then have "handleSubmit sampleParse (form_of sampleFormEnv (FNewStageItem [] 2 7)) ?vals =
      Sent (fo_endpoint (NewStageItemForm [] 2 7),
        mutation_vars (Some (stageItemBody (JObj ?vals))) (fo_path (NewStageItemForm [] 2 7)))"
    by (simp add: handleSubmit_def NewStageItemForm_def schema_defs)
  moreover have "iso_datetimes (\<lambda>_. True)" "ordinary_start (fe_env sampleFormEnv) ?vals"
    by (simp_all add: iso_datetimes_def ordinary_start_def obj_get_def)
  moreover have "utf8_name ?vals" using p(3) by (simp add: utf8_name_def obj_get_def del: utf8_from.simps)
  ultimately have "taken_whole sampleParse (body_schema (FNewStageItem [] 2 7)) (stageItemBody (JObj ?vals))"
    using sent_bodies_valid[OF sample_library, of sampleFormEnv ?vals "FNewStageItem [] 2 7"]
    by (simp add: mutation_vars_def NewStageItemForm_def del: body_schema.simps)
  moreover have "stageItemBody (JObj ?vals) = JObj [(''name'', JStr ''Final''), (''ranking_id'', JNull),
      (''stage_id'', JNum (Fin 2)), (''team_count'', JNum (Fin 8)), (''type'', JStr ''SWISS'')]"
    by (simp add: stageItemBody_def obj_get_def p num_of_int_def)
  ultimately show ?thesis by simp
qed

end
