(* ===== verification/FormErrors.thy ===== *)
theory FormErrors
  imports OrganizerForms
begin

text \<open>
  The forms in use: what the user types, the entities that are reloaded meanwhile, and what the user is told
  when the form is rejected.
\<close>

section \<open>A form in use\<close>

text \<open>The component a form belongs to: an editor stays while its entity is reloaded.\<close>

fun component :: "AppForm \<Rightarrow> string" where
  "component (FNewRanking _) = ''NewRankingForm''"
| "component (FRanking _ _) = ''RankingEditor''"
| "component (FSettings _) = ''TournamentSettingsForm''"
| "component (FStage _ _) = ''StageForm''"
| "component (FNewStageItem _ _ _) = ''NewStageItemForm''"
| "component (FStageItemName _ _) = ''StageItemNameForm''"
| "component (FNewPlayer _) = ''NewPlayerForm''"
| "component (FBulkPlayers _) = ''BulkPlayersForm''"
| "component (FPlayer _ _) = ''PlayerEditor''"
| "component (FNewTeam _ _) = ''NewTeamForm''"
| "component (FBulkTeams _) = ''BulkTeamsForm''"
| "component (FTeam _ _ _) = ''TeamEditor''"
| "component (FNewTournament _) = ''NewTournamentForm''"
| "component FNewClub = ''NewClubForm''"
| "component (FClub _) = ''ClubEditor''"
| "component FLogin = ''LoginPage''"
| "component FRegister = ''RegisterPage''"
| "component (FIdentity _) = ''IdentityForm''"
| "component (FPassword _) = ''PasswordForm''"
| "component (FScore _ _) = ''ScoreForm''"

text \<open>Ids that JavaScript holds exactly; the new tournament form is shown only with an event to choose.\<close>

definition safe_id :: "int \<Rightarrow> bool" where
  "safe_id i = (\<bar>i\<bar> < 2 ^ 53)"

fun ids_ok :: "AppForm \<Rightarrow> bool" where
  "ids_ok (FNewStageItem rs sid tid) = (list_all (\<lambda>r. safe_id (ranking_id r)) rs \<and> safe_id sid)"
| "ids_ok (FStageItemName tid i) = safe_id (nullish (stage_item_ranking_id i) 0)"
| "ids_ok (FNewTeam tid ps) = list_all (\<lambda>p. safe_id (player_id p)) ps"
| "ids_ok (FTeam tid ps t) =
     (list_all (\<lambda>p. safe_id (player_id p)) ps \<and> list_all (\<lambda>p. safe_id (player_id p)) (full_team_players t))"
| "ids_ok (FNewTournament cs) = (cs \<noteq> [] \<and> list_all (\<lambda>c. safe_id (club_id c)) cs)"
| "ids_ok _ = True"

inductive form_run :: "'d FormEnv \<Rightarrow> AppForm \<Rightarrow> FormState \<Rightarrow> bool" for fe where
  start: "ids_ok a \<Longrightarrow> form_run fe a (startForm (form_of fe a))"
| change: "form_run fe a st \<Longrightarrow> form_run fe a (changeField (form_of fe a) name i st)"
| reloaded: "form_run fe a st \<Longrightarrow> ids_ok a' \<Longrightarrow> component a' = component a \<Longrightarrow> fo_follows (form_of fe a') \<Longrightarrow>
    form_run fe a' (followSaved (form_of fe a') st)"
| succeeded: "form_run fe a st \<Longrightarrow> fo_resets (form_of fe a) \<Longrightarrow> form_run fe a (resetForm st)"

section \<open>Fields without a message\<close>

text \<open>The controls that can be rejected without a message: the name of a stage item, and the scores of a match, where
  the browser itself refuses an empty or negative number first.\<close>

fun silent :: "AppForm \<Rightarrow> string \<Rightarrow> bool" where
  "silent (FNewStageItem _ _ _) k = (k = ''name'')"
| "silent (FStageItemName _ _) k = (k = ''name'')"
| "silent (FScore _ _) k = (k \<in> {''stage_item_input1_score'', ''stage_item_input2_score''})"
| "silent _ k = False"

definition unseen :: "'d FormEnv \<Rightarrow> AppForm \<Rightarrow> (string \<times> schema) list" where
  "unseen fe a =
     filter (\<lambda>(k, s). \<not> shows_error (form_of fe a) k \<and> \<not> silent a k) (object_shape (fo_schema (form_of fe a)))"

text \<open>The other fields that show no message, by component.\<close>

fun unseen_fields :: "text_env \<Rightarrow> AppForm \<Rightarrow> (string \<times> schema) list" where
  "unseen_fields te (FNewRanking _) = [(''add_score_points'', ZDefault ZBoolean (JBool False))]"
| "unseen_fields te (FRanking _ _) = [(''add_score_points'', ZBoolean)]"
| "unseen_fields te (FSettings _) = [(''dashboard_endpoint'', ZNullable ZText), (''dashboard_public'', ZBoolean),
     (''players_can_be_in_multiple_teams'', ZBoolean)]"
| "unseen_fields te (FNewStageItem _ _ _) = [(''ranking_id'', ZNullable ZInteger), (''stage_id'', ZInteger),
     (''type'', ZEnum [''ROUND_ROBIN'', ''SINGLE_ELIMINATION'', ''SWISS''])]"
| "unseen_fields te (FStageItemName _ _) = [(''ranking_id'', ZInteger)]"
| "unseen_fields te (FNewPlayer _) = [(''active'', ZBoolean)]"
| "unseen_fields te (FBulkPlayers _) = [(''active'', ZBoolean)]"
| "unseen_fields te (FPlayer _ _) = [(''active'', ZBoolean)]"
| "unseen_fields te (FNewTeam _ _) =
     [(''active'', ZBoolean), (''player_ids'', ZArray (ZPreprocess (\<lambda>v. JNum (coerce_number te v)) ZInteger))]"
| "unseen_fields te (FBulkTeams _) = [(''active'', ZBoolean)]"
| "unseen_fields te (FTeam _ _ _) =
     [(''active'', ZBoolean), (''player_ids'', ZArray (ZPreprocess (\<lambda>v. JNum (coerce_number te v)) ZInteger))]"
| "unseen_fields te (FNewTournament _) = [(''club_id'', ZInteger), (''dashboard_endpoint'', ZNullable ZText),
     (''dashboard_public'', ZBoolean), (''players_can_be_in_multiple_teams'', ZBoolean)]"
| "unseen_fields te FLogin = [(''password'', ZText), (''username'', ZText)]"
| "unseen_fields te _ = []"

lemmas field_defs = shown_def unshown_def point_fields_def POINT_FIELDS_def PlayerChecklist_def

lemma unseen_eq: "unseen fe a = unseen_fields (fe_text fe) a"
  by (cases a)
    (simp_all add: unseen_def shows_error_def field_of_def form_defs field_defs extended_schemas schema_defs)

lemma unseen_component: "component a = component a' \<Longrightarrow> unseen_fields te a = unseen_fields te a'"
  by (cases a; cases a') simp_all

text \<open>Such a field is never rejected, whatever the user does.\<close>

definition takes :: "(string \<Rightarrow> bool) \<Rightarrow> (string \<Rightarrow> bool) \<Rightarrow> schema \<Rightarrow> js_value \<Rightarrow> bool" where
  "takes em dt s v \<longleftrightarrow> (\<exists>x. zparse em dt s v = Parsed x)"

abbreviation player_ids_schema :: "text_env \<Rightarrow> schema" where
  "player_ids_schema te \<equiv> ZArray (ZPreprocess (\<lambda>v. JNum (coerce_number te v)) ZInteger)"

lemma integer_Parsed: "safe_id i \<Longrightarrow> zparse em dt ZInteger (js_int i) = Parsed (js_int i)"
  by (simp add: safe_id_def int_ok_def safe_integer_def opt_all_def)

lemma ids_Parsed:
  assumes "list_all (\<lambda>i. safe_id i) is"
  shows "zparse em dt (player_ids_schema te) (JArr (map (\<lambda>i. JStr (int_text i)) is)) = Parsed (JArr (map js_int is))"
proof -
  have p: "zparse em dt (ZPreprocess (\<lambda>v. JNum (coerce_number te v)) ZInteger) (JStr (int_text i)) = Parsed (js_int i)"
    if "i \<in> set is" for i
  proof -
    have "zparse em dt (ZPreprocess (\<lambda>v. JNum (coerce_number te v)) ZInteger) (JStr (int_text i)) =
        zparse em dt ZInteger (js_int i)"
      by (simp add: to_number_int_text)
    also have "\<dots> = Parsed (js_int i)" using assms that by (intro integer_Parsed) (simp add: list_all_iff)
    finally show ?thesis .
  qed
  then show ?thesis unfolding array_Parsed by (auto simp: part_value_def simp del: zparse.simps)
qed

lemma takes_ids:
  "list_all (\<lambda>x. safe_id (f x)) xs \<Longrightarrow> takes em dt (player_ids_schema te) (JArr (map (\<lambda>x. JStr (int_text (f x))) xs))"
  using ids_Parsed[of "map f xs" em dt te] by (auto simp: takes_def comp_def list_all_iff simp del: zparse.simps)

lemma takes_rules:
  "takes em dt ZBoolean (JBool b)" "takes em dt (ZDefault ZBoolean d) (JBool b)"
  "takes em dt ZText (JStr s)" "takes em dt (ZNullable ZText) (JStr s)"
  "safe_id i \<Longrightarrow> takes em dt ZInteger (js_int i)" "safe_id i \<Longrightarrow> takes em dt (ZNullable ZInteger) (js_int i)"
  "takes em dt (ZNullable ZInteger) JNull" "takes em dt (player_ids_schema te) (JArr [])"
  "s \<in> set ts \<Longrightarrow> takes em dt (ZEnum ts) (JStr s)"
  using integer_Parsed[of i em dt] takes_ids[of "\<lambda>x. x" "[]" em dt te]
  by (auto simp: takes_def check_def is_boolean_def text_ok_def opt_all_def list_ex_iff)

definition unseen_ok ::
  "(string \<Rightarrow> bool) \<Rightarrow> (string \<Rightarrow> bool) \<Rightarrow> text_env \<Rightarrow> AppForm \<Rightarrow> string \<Rightarrow> js_value \<Rightarrow> bool" where
  "unseen_ok em dt te a k v \<longleftrightarrow> (\<forall>(k', s) \<in> set (unseen_fields te a). k' = k \<longrightarrow> takes em dt s v)"

lemma unseen_values:
  assumes "ids_ok a"
  shows "list_all (\<lambda>(k, s). takes em dt s (obj_get (fo_values (form_of fe a)) k)) (unseen_fields (fe_text fe) a)"
  using assms
  by (cases a) (simp_all add: form_defs obj_get_def takes_rules takes_ids split: list.split, auto simp: takes_rules)

lemma unseen_ok_start: "ids_ok a \<Longrightarrow> unseen_ok em dt (fe_text fe) a k (obj_get (fo_values (form_of fe a)) k)"
  using unseen_values[of a em dt fe] by (auto simp: unseen_ok_def list_all_iff)

text \<open>What the controls of these fields give.\<close>

lemma picked_id:
  assumes "list_all (\<lambda>x. safe_id (f x)) xs" "s \<in> set (map (\<lambda>x. int_text (f x)) xs)"
  shows "\<exists>i. safe_id i \<and> s \<noteq> [] \<and> JNum (to_number s) = js_int i"
  using assms by (auto simp: list_all_iff to_number_int_text int_text_nonempty)

definition gives :: "(string \<Rightarrow> bool) \<Rightarrow> (string \<Rightarrow> bool) \<Rightarrow> schema \<Rightarrow> FormInput \<Rightarrow> bool" where
  "gives em dt s inp \<longleftrightarrow> (\<forall>i v. read_input inp i = Some v \<longrightarrow> takes em dt s v)"

lemma read_input_Some:
  "read_input CheckInput i = Some v \<Longrightarrow> \<exists>b. v = JBool b"
  "read_input TextInput i = Some v \<Longrightarrow> \<exists>s. v = JStr s"
  "read_input (SelectInput opts) i = Some v \<Longrightarrow> \<exists>s \<in> set opts. v = JStr s"
  "read_input (NumberSelect opts) i = Some v \<Longrightarrow> \<exists>s \<in> set opts. v = JNum (if s = [] then NaN else to_number s)"
  "read_input (ChecksInput opts) i = Some v \<Longrightarrow> \<exists>P. v = JArr (map JStr (filter P opts))"
  by (cases i; force split: if_splits)+

lemma gives_number:
  assumes "list_all (\<lambda>x. safe_id (f x)) xs"
  shows "gives em dt ZInteger (NumberSelect (map (\<lambda>x. int_text (f x)) xs))"
    and "gives em dt (ZNullable ZInteger) (NumberSelect (map (\<lambda>x. int_text (f x)) xs))"
proof -
  have "\<exists>i. safe_id i \<and> v = js_int i" if "read_input (NumberSelect (map (\<lambda>x. int_text (f x)) xs)) j = Some v" for j v
    using read_input_Some(4)[OF that] picked_id[OF assms] by fastforce
  then show "gives em dt ZInteger (NumberSelect (map (\<lambda>x. int_text (f x)) xs))"
    "gives em dt (ZNullable ZInteger) (NumberSelect (map (\<lambda>x. int_text (f x)) xs))"
    unfolding gives_def using takes_rules(5,6) by blast+
qed

lemma gives_ids:
  assumes "list_all (\<lambda>x. safe_id (f x)) xs"
  shows "gives em dt (player_ids_schema te) (ChecksInput (map (\<lambda>x. int_text (f x)) xs))"
proof -
  have "takes em dt (player_ids_schema te) (JArr (map JStr (filter P (map (\<lambda>x. int_text (f x)) xs))))" for P
    using takes_ids[of f "filter (\<lambda>x. P (int_text (f x))) xs" em dt te] assms
    by (simp add: filter_map comp_def list_all_iff)
  then show ?thesis unfolding gives_def using read_input_Some(5) by blast
qed

lemma gives_rules:
  "gives em dt ZBoolean CheckInput" "gives em dt (ZDefault ZBoolean d) CheckInput"
  "gives em dt ZText TextInput" "gives em dt (ZNullable ZText) TextInput"
  "gives em dt (ZEnum ts) (SelectInput ts)"
  by (auto simp: gives_def takes_rules dest!: read_input_Some(1-3))

lemma unseen_controls:
  assumes "ids_ok a"
  shows "list_all (\<lambda>f. list_all (\<lambda>(k, s). k = fd_name f \<longrightarrow> gives em dt s (fd_input f)) (unseen_fields (fe_text fe) a))
    (fo_fields (form_of fe a))"
  using assms
  by (cases a) (simp_all add: form_defs field_defs STAGE_TYPE_OPTIONS_def gives_rules gives_number gives_ids)

lemma unseen_ok_form: "ids_ok a \<Longrightarrow> form_ok (unseen_ok em dt (fe_text fe) a) (form_of fe a)"
  unfolding form_ok_def
  using unseen_ok_start unseen_controls[of a em dt fe] by (fastforce simp: unseen_ok_def list_all_iff gives_def)

lemma unseen_ok_run:
  "form_run fe a st \<Longrightarrow> ids_ok a \<and> values_ok (unseen_ok em dt (fe_text fe) a) st"
proof (induction rule: form_run.induct)
  case (reloaded a st a')
  have "unseen_ok em dt (fe_text fe) a' = unseen_ok em dt (fe_text fe) a"
    using unseen_component[OF reloaded.hyps(3)] by (auto simp: unseen_ok_def fun_eq_iff)
  then have "values_ok (unseen_ok em dt (fe_text fe) a') st" using reloaded.IH by simp
  with reloaded.hyps(2) show ?case by (auto intro: values_ok_follow unseen_ok_form)
qed (auto intro: values_ok_start values_ok_change values_ok_reset unseen_ok_form)

section \<open>Properties\<close>

text \<open>C35: However a form is used - typed in, reloaded while being typed in, emptied after success - every field it
  is rejected for shows its message, except the name of a stage item and the scores of a match, which have no
  place for a message.\<close>

theorem rejections_shown:
  assumes "zod_library safeParse email datetime" "form_run fe a st"
    and "handleSubmit safeParse (form_of fe a) (fs_values st) = Rejected ks" "k \<in> set ks"
  shows "shows_error (form_of fe a) k \<or> silent a k"
proof (rule ccontr)
  assume n: "\<not> (shows_error (form_of fe a) k \<or> silent a k)"
  have z: "safeParse = zparse email datetime" by (rule zod_library.safeParse_unique[OF assms(1)])
  obtain ps where ps: "zparse email datetime (fo_schema (form_of fe a)) (JObj (fs_values st)) = Issues ps"
    "k \<in> set (rejected_fields ps)"
    using assms(3,4) unfolding handleSubmit_def z by (auto split: parsed.splits)
  then obtain s js where s: "(k, s) \<in> set (object_shape (fo_schema (form_of fe a)))"
    and r: "zparse email datetime s (obj_get (fs_values st) k) = Issues js"
    using object_Issues form_schema_fields[of fe a] by metis
  have "(k, s) \<in> set (unseen_fields (fe_text fe) a)"
    using s n unfolding unseen_eq[symmetric] by (auto simp: unseen_def)
  moreover have "unseen_ok email datetime (fe_text fe) a k (obj_get (fs_values st) k)"
    using unseen_ok_run[OF assms(2)] by (simp add: values_ok_def)
  ultimately have "takes email datetime s (obj_get (fs_values st) k)" by (auto simp: unseen_ok_def)
  with r show False by (simp add: takes_def)
qed

theorem rejections_shown_witness:
  "shows_error NewClubForm ''name''"
proof -
  have r: "form_run sampleFormEnv FNewClub (startForm (form_of sampleFormEnv FNewClub))"
    by (rule form_run.start) simp
  have "sampleParse zClubCreateBody (JObj [(''name'', JStr [])]) = Issues [[''name'']]" by code_simp
  then have "handleSubmit sampleParse (form_of sampleFormEnv FNewClub)
      (fs_values (startForm (form_of sampleFormEnv FNewClub))) = Rejected [''name'']"
    by (simp add: handleSubmit_def NewClubForm_def startForm_def rejected_fields_def del: zparse.simps)
  from rejections_shown[OF sample_library r this] show ?thesis by simp
qed

text \<open>The name of a new stage item may be left blank - the body then says null - but the schema already refuses
  the blank text, and nothing tells the user.\<close>

lemma blank_stage_item_name_stuck:
  assumes "zod_library safeParse email datetime"
    and "obj_get vals ''name'' = JStr []"
  shows "\<nexists>r. handleSubmit safeParse (NewStageItemForm rs sid tid) vals = Sent r"
    and "\<not> shows_error (NewStageItemForm rs sid tid) ''name''"
    and "obj_get (own_entries (stageItemBody (JObj vals))) ''name'' = JNull"
proof -
  have z: "safeParse = zparse email datetime" by (rule zod_library.safeParse_unique[OF assms(1)])
  have "\<not> takes email datetime (ZNullable (ZString (Some 1) (Some 100) None)) (JStr [])"
    by (simp add: takes_def text_ok_def opt_all_def js_length_def)
  then have "\<nexists>w. zparse email datetime (ZObject stage_item_fields) (JObj vals) = Parsed w"
    unfolding object_accepts using assms(2) by (simp add: takes_def)
  then show "\<nexists>r. handleSubmit safeParse (NewStageItemForm rs sid tid) vals = Sent r"
    by (auto simp: handleSubmit_def NewStageItemForm_def z schema_defs simp del: zparse.simps split: parsed.splits)
  show "\<not> shows_error (NewStageItemForm rs sid tid) ''name''"
    by (simp add: shows_error_def field_of_def NewStageItemForm_def field_defs)
  show "obj_get (own_entries (stageItemBody (JObj vals))) ''name'' = JNull"
    using assms(2) by (simp add: stageItemBody_def Let_def obj_get_set trim_def trim_start_def)
qed

section \<open>Editors\<close>

text \<open>The local clock at a start time, where \<open>zone\<close> is the offset from UTC at a moment: date-fns writes a moment as the
  local clock shows it, and reading a local time gives a moment at which the clock shows it (the first one, where
  the end of daylight saving shows it twice).\<close>

definition sent_start :: "js_env \<Rightarrow> (int \<Rightarrow> int) \<Rightarrow> int \<Rightarrow> int" where
  "sent_start env zone t = (let l = t - t mod 60000 + zone t in l - env_local_offset env l)"

definition local_clock :: "js_env \<Rightarrow> 'd date_fns \<Rightarrow> (int \<Rightarrow> int) \<Rightarrow> string \<Rightarrow> int \<Rightarrow> bool" where
  "local_clock env df zone text t \<longleftrightarrow>
     date_ms env text = Some t \<and> toDateTimeLocal df text = minutes_text (t + zone t) \<and> zone t mod 60000 = 0 \<and>
     zone (t - t mod 60000) = zone t \<and>
     zone (sent_start env zone t) = env_local_offset env (t - t mod 60000 + zone t) \<and>
     \<bar>t + zone t\<bar> \<le> 8640000000000000 \<and> \<bar>sent_start env zone t\<bar> \<le> 8640000000000000"

text \<open>What an editor shows of an entity, as the API has it.\<close>

fun stored_entries :: "AppForm \<Rightarrow> (string \<times> js_value) list" where
  "stored_entries (FSettings tn) =
     [(''dashboard_endpoint'', js_null_or JStr (tournament_dashboard_endpoint tn)),
      (''dashboard_public'', JBool (tournament_dashboard_public tn)),
      (''duration_minutes'', js_int (tournament_duration_minutes tn)),
      (''margin_minutes'', js_int (tournament_margin_minutes tn)),
      (''name'', JStr (tournament_name tn)),
      (''players_can_be_in_multiple_teams'', JBool (tournament_players_can_be_in_multiple_teams tn)),
      (''start_time'', JStr (tournament_start_time tn))]"
| "stored_entries (FTeam tid ps tm) =
     [(''active'', JBool (full_team_active tm)), (''name'', JStr (full_team_name tm)),
      (''player_ids'', JArr (map (\<lambda>p. js_int (player_id p)) (full_team_players tm)))]"
| "stored_entries (FRanking tid r) =
     [(''add_score_points'', JBool (ranking_add_score_points r)), (''draw_points'', JStr (ranking_draw_points r)),
      (''loss_points'', JStr (ranking_loss_points r)), (''position'', js_int (ranking_position r)),
      (''win_points'', JStr (ranking_win_points r))]"
| "stored_entries (FStage tn s) =
     [(''custom_duration_minutes'', js_null_or js_int (stage_custom_duration_minutes s)), (''name'', JStr (stage_name s))]"
| "stored_entries (FStageItemName tid i) =
     [(''name'', JStr (stage_item_name i)), (''ranking_id'', js_null_or js_int (stage_item_ranking_id i))]"
| "stored_entries (FPlayer tid p) = [(''active'', JBool (player_active p)), (''name'', JStr (player_name p))]"
| "stored_entries (FClub c) = [(''name'', JStr (club_name c))]"
| "stored_entries (FScore ctx m) = kept_entries m @
     [(''stage_item_input1_score'', js_int (match_stage_item_input1_score m)),
      (''stage_item_input2_score'', js_int (match_stage_item_input2_score m))]"
| "stored_entries (FIdentity u) = [(''email'', JStr (user_email u)), (''name'', JStr (user_name u))]"
| "stored_entries _ = []"

text \<open>How a stored entry is sent back: as it is, but a start time as a moment that the local clock shows as the stored
  one to the minute, no link as the blank text, and no ranking as the ranking 0.\<close>

definition sent_as :: "(int \<Rightarrow> int) \<Rightarrow> int \<Rightarrow> string \<times> js_value \<Rightarrow> string \<times> js_value \<Rightarrow> bool" where
  "sent_as zone t stored sent \<longleftrightarrow>
     fst sent = fst stored \<and>
     (if fst stored = ''start_time''
      then \<exists>u. snd sent = JStr (iso_text u) \<and> u + zone u = t - t mod 60000 + zone (t - t mod 60000)
      else if snd stored = JNull \<and> fst stored = ''dashboard_endpoint'' then snd sent = JStr []
      else if snd stored = JNull \<and> fst stored = ''ranking_id'' then snd sent = js_int 0
      else snd sent = snd stored)"

text \<open>The backend takes the blank text for no link.\<close>

lemma blank_link_is_none: "validate_dashboard_endpoint (Some []) = Inr None"
  by (simp add: validate_dashboard_endpoint_def trim_def trim_start_def)

text \<open>What the schema of an editor makes of its values when nothing was changed.\<close>

fun form_entries :: "int \<Rightarrow> AppForm \<Rightarrow> (string \<times> js_value) list" where
  "form_entries u (FSettings tn) =
     [(''dashboard_endpoint'', JStr (nullish (normalizeDashboardEndpoint (tournament_dashboard_endpoint tn)) [])),
      (''dashboard_public'', JBool (tournament_dashboard_public tn)),
      (''duration_minutes'', js_int (tournament_duration_minutes tn)),
      (''margin_minutes'', js_int (tournament_margin_minutes tn)),
      (''name'', JStr (tournament_name tn)),
      (''players_can_be_in_multiple_teams'', JBool (tournament_players_can_be_in_multiple_teams tn)),
      (''start_time'', JStr (iso_text u))]"
| "form_entries u (FStageItemName tid i) =
     [(''name'', JStr (stage_item_name i)), (''ranking_id'', js_int (nullish (stage_item_ranking_id i) 0))]"
| "form_entries u (FScore ctx m) =
     [(''stage_item_input1_score'', js_int (match_stage_item_input1_score m)),
      (''stage_item_input2_score'', js_int (match_stage_item_input2_score m))]"
| "form_entries u a = stored_entries a"

definition sent_entries :: "int \<Rightarrow> AppForm \<Rightarrow> (string \<times> js_value) list" where
  "sent_entries u a = (case a of FScore ctx m \<Rightarrow> kept_entries m | _ \<Rightarrow> []) @ form_entries u a"

definition becomes :: "(string \<Rightarrow> bool) \<Rightarrow> (string \<Rightarrow> bool) \<Rightarrow> schema \<Rightarrow> js_value \<Rightarrow> js_value \<Rightarrow> bool" where
  "becomes em dt s v w \<longleftrightarrow> (\<forall>x. zparse em dt s v = Parsed x \<longrightarrow> x = w)"

lemma becomes_same: "checks_only s \<Longrightarrow> becomes em dt s v v"
  by (auto simp: becomes_def dest: checks_only_same)

lemma becomes_score: "becomes em dt (ZDefault (ZInt lo hi) d) (js_int i) (js_int i)"
  by (auto simp: becomes_def check_def split: if_splits)

lemma becomes_ids:
  assumes "list_all (\<lambda>p. safe_id (f p)) ps"
  shows "becomes em dt (player_ids_schema te) (JArr (map (\<lambda>p. JStr (int_text (f p))) ps)) (JArr (map (\<lambda>p. js_int (f p)) ps))"
  using ids_Parsed[of "map f ps" em dt te] assms
  by (simp add: becomes_def comp_def list_all_iff del: zparse.simps)

lemma reads_start_time:
  assumes "local_clock env df zone text t"
  shows "date_ms env (toDateTimeLocal df text) = Some (sent_start env zone t)"
proof -
  define l where "l = t + zone t"
  have c: "toDateTimeLocal df text = minutes_text l" "zone t mod 60000 = 0" "\<bar>l\<bar> \<le> 8640000000000000"
    "\<bar>sent_start env zone t\<bar> \<le> 8640000000000000"
    using assms unfolding local_clock_def l_def by blast+
  have "l mod 60000 = (t mod 60000 + zone t mod 60000) mod 60000"
    unfolding l_def by (rule mod_add_eq[symmetric])
  then have m: "l - l mod 60000 = t - t mod 60000 + zone t" unfolding c(2) by (simp add: l_def)
  have "read_iso (minutes_text l) = Some (l - l mod 60000, None)" by (rule read_iso_minutes[OF c(3)])
  then have "date_ms env (minutes_text l) = time_clip (sent_start env zone t)"
    by (simp add: date_ms_def m sent_start_def Let_def)
  then show ?thesis using c(4) unfolding c(1) by (simp add: time_clip_def)
qed

lemma becomes_start_time:
  "local_clock env df zone text t \<Longrightarrow>
    becomes em dt (zLocalDateTime env) (JStr (toDateTimeLocal df text)) (JStr (iso_text (sent_start env zone t)))"
  using reads_start_time by (fastforce simp: becomes_def local_time_Parsed)

lemma editor_becomes:
  assumes "fo_follows (form_of fe a)" "ids_ok a"
    and "\<And>tn. a = FSettings tn \<Longrightarrow> local_clock (fe_env fe) (fe_dates fe) zone (tournament_start_time tn) t"
  defines "u \<equiv> sent_start (fe_env fe) zone t"
  shows "list_all (\<lambda>(k, s). becomes em dt s (obj_get (fo_values (form_of fe a)) k) (obj_get (form_entries u a) k))
      (object_shape (fo_schema (form_of fe a)))"
    and "map fst (fo_values (form_of fe a)) = map fst (object_shape (fo_schema (form_of fe a)))"
    and "map fst (form_entries u a) = map fst (object_shape (fo_schema (form_of fe a)))"
    and "fo_body (form_of fe a) (JObj (form_entries u a)) = JObj (sent_entries u a)"
  unfolding u_def using assms(1-3)
  by (cases a; simp add: form_defs extended_schemas schema_defs obj_get_def becomes_same becomes_score becomes_ids
      becomes_start_time scoresBody_def kept_entries_def sent_entries_def)+

lemma editor_sends:
  assumes "fo_follows (form_of fe a)"
    and "\<And>tn. a = FSettings tn \<Longrightarrow> stored_link tn \<and>
      local_clock (fe_env fe) (fe_dates fe) zone (tournament_start_time tn) t"
  shows "list_all2 (sent_as zone t) (stored_entries a) (sent_entries (sent_start (fe_env fe) zone t) a)"
proof (cases a)
  case (FSettings tn)
  then have c: "stored_link tn" "zone (t - t mod 60000) = zone t"
    "zone (sent_start (fe_env fe) zone t) = env_local_offset (fe_env fe) (t - t mod 60000 + zone t)"
    using assms(2) by (auto simp: local_clock_def)
  have "sent_start (fe_env fe) zone t + zone (sent_start (fe_env fe) zone t) = t - t mod 60000 + zone t"
    unfolding c(3) by (simp add: sent_start_def Let_def)
  then have time: "\<exists>u. iso_text (sent_start (fe_env fe) zone t) = iso_text u \<and>
      u + zone u = t - t mod 60000 + zone (t - t mod 60000)"
    unfolding c(2) by blast
  have link: "nullish (normalizeDashboardEndpoint (tournament_dashboard_endpoint tn)) [] = v"
    if "tournament_dashboard_endpoint tn = Some v" for v
    using stored_link_trim[OF c(1) that] that by (simp add: normalizeDashboardEndpoint_def)
  show ?thesis
    using time link
    by (cases "tournament_dashboard_endpoint tn")
      (simp_all add: FSettings sent_entries_def sent_as_def js_null_or_def normalizeDashboardEndpoint_def)
qed (use assms(1) in \<open>simp_all add: sent_entries_def sent_as_def js_null_or_def kept_entries_def form_defs split: option.split\<close>)

text \<open>C36: Saving an editor that nobody changed sends every entry of the entity as it is stored: the same texts, numbers
  and marks, the same players of a team, and with the scores of a match the rest of it. Three entries are sent
  in another form: a start time as a moment that the local clock shows as the stored one to the minute (it is
  the stored one unless the clock shows that time twice), no link as the blank text, which the backend takes
  for no link, and no ranking of a stage item as the ranking 0, which is an error of the form.\<close>

theorem unchanged_editor_sends_saved:
  assumes "zod_library safeParse email datetime" "fo_follows (form_of fe a)" "ids_ok a"
    and "\<And>tn. a = FSettings tn \<Longrightarrow> stored_link tn \<and>
      local_clock (fe_env fe) (fe_dates fe) zone (tournament_start_time tn) t"
    and "handleSubmit safeParse (form_of fe a) (fs_values (startForm (form_of fe a))) = Sent (ep, opts)"
  shows "\<exists>es. opts = mutation_vars (Some (JObj es)) (fo_path (form_of fe a)) \<and>
    list_all2 (sent_as zone t) (stored_entries a) es"
proof -
  let ?f = "form_of fe a" and ?u = "sent_start (fe_env fe) zone t"
  have clock: "\<And>tn. a = FSettings tn \<Longrightarrow> local_clock (fe_env fe) (fe_dates fe) zone (tournament_start_time tn) t"
    using assms(4) by blast
  have z: "safeParse = zparse email datetime" by (rule zod_library.safeParse_unique[OF assms(1)])
  obtain w where w: "zparse email datetime (fo_schema ?f) (JObj (fo_values ?f)) = Parsed w"
    and s: "opts = mutation_vars (Some (fo_body ?f w)) (fo_path ?f)"
    using assms(5) unfolding handleSubmit_def z startForm_def by (auto split: parsed.splits)
  have b: "list_all (\<lambda>(k, s). becomes email datetime s (obj_get (fo_values ?f) k) (obj_get (form_entries ?u a) k))
      (object_shape (fo_schema ?f))"
    by (rule editor_becomes(1)[OF assms(2,3)]) (rule clock)
  have e: "map fst (fo_values ?f) = map fst (object_shape (fo_schema ?f))"
    "map fst (form_entries ?u a) = map fst (object_shape (fo_schema ?f))"
    "fo_body ?f (JObj (form_entries ?u a)) = JObj (sent_entries ?u a)"
    by (rule editor_becomes(2-4)[OF assms(2,3)], rule clock, assumption)+
  have "zparse email datetime (ZObject (object_shape (fo_schema ?f))) (JObj (fo_values ?f)) = Parsed w"
    using w form_schema_fields[of fe a] by simp
  then have "w = JObj (form_entries ?u a)"
    by (rule object_becomes[OF _ e(1,2) form_schema_distinct])
      (use b in \<open>simp only: becomes_def\<close>)
  with s e(3) have "opts = mutation_vars (Some (JObj (sent_entries ?u a))) (fo_path ?f)" by simp
  then show ?thesis using editor_sends[OF assms(2,4)] by blast
qed

text \<open>A tournament that starts at a time which the clock shows twice: it is the second one, and the form, left as it
  is, sends the first.\<close>

definition autumnZone :: "int \<Rightarrow> int" where
  "autumnZone u = (if u < 1729990800000 then 7200000 else 3600000)"

definition autumnEnv :: js_env where
  "autumnEnv =
     \<lparr>env_now = 0, env_local_offset = (\<lambda>l. if l < 1729998000000 then 7200000 else 3600000),
      env_date_fallback = (\<lambda>_. None)\<rparr>"

definition autumnForms :: "string FormEnv" where
  "autumnForms =
     \<lparr>fe_env = autumnEnv,
      fe_text = \<lparr>te_num = (\<lambda>_. []), te_date = (\<lambda>s. s), te_other = (\<lambda>_. [])\<rparr>,
      fe_dates = \<lparr>df_parseISO = (\<lambda>s. s), df_isValid = (\<lambda>_. True), df_isThisYear = (\<lambda>_. True), df_isToday = (\<lambda>_. False),
        df_format = (\<lambda>d _. case date_ms autumnEnv d of None \<Rightarrow> [] | Some u \<Rightarrow> minutes_text (u + autumnZone u))\<rparr>\<rparr>"

definition autumnCup :: Tournament where
  "autumnCup = (sampleTournament 7 None)\<lparr>tournament_start_time := ''2024-10-27T01:30:00Z''\<rparr>"

lemma autumn_start: "date_ms autumnEnv ''2024-10-27T01:30:00Z'' = Some 1729992600000"
  by code_simp

lemma autumn_clock:
  "local_clock (fe_env autumnForms) (fe_dates autumnForms) autumnZone (tournament_start_time autumnCup) 1729992600000"
  unfolding local_clock_def
  by (simp add: autumnForms_def autumnCup_def toDateTimeLocal_def autumn_start sent_start_def autumnZone_def)
    (simp add: autumnEnv_def)

theorem unchanged_editor_sends_saved_witness:
  "\<exists>ep es. handleSubmit sampleParse (TournamentSettingsForm autumnEnv (fe_dates autumnForms) autumnCup)
      (fo_values (TournamentSettingsForm autumnEnv (fe_dates autumnForms) autumnCup)) =
      Sent (ep, mutation_vars (Some (JObj es)) (tournament_path 7)) \<and>
    list_all2 (sent_as autumnZone 1729992600000) (stored_entries (FSettings autumnCup)) es \<and>
    obj_get es ''name'' = JStr ''Cup'' \<and> obj_get es ''dashboard_endpoint'' = JStr []"
proof -
  let ?a = "FSettings autumnCup"
  let ?f = "form_of autumnForms ?a"
  have start: "toDateTimeLocal (fe_dates autumnForms) (tournament_start_time autumnCup) = ''2024-10-27T02:30''"
    by (simp add: autumnForms_def autumnCup_def toDateTimeLocal_def autumn_start autumnZone_def) code_simp
  have reads: "date_ms autumnEnv ''2024-10-27T02:30'' = Some (sent_start autumnEnv autumnZone 1729992600000)"
    using reads_start_time[OF autumn_clock] unfolding start by (simp add: autumnForms_def)
  have shape: "object_shape (fo_schema ?f) = [(''dashboard_endpoint'', ZNullable ZText), (''dashboard_public'', ZBoolean),
      (''duration_minutes'', ZInt (Some 1) None), (''margin_minutes'', ZInt (Some 0) None),
      (''name'', ZString (Some 1) (Some 100) None), (''players_can_be_in_multiple_teams'', ZBoolean),
      (''start_time'', zLocalDateTime autumnEnv)]"
    by (simp add: TournamentSettingsForm_def tournamentSettingsSchema_def schema_defs z_extend_def obj_spread_def
        autumnForms_def)
  have vals: "fo_values ?f = [(''dashboard_endpoint'', JStr []), (''dashboard_public'', JBool True),
      (''duration_minutes'', js_int 10), (''margin_minutes'', js_int 5), (''name'', JStr ''Cup''),
      (''players_can_be_in_multiple_teams'', JBool False), (''start_time'', JStr ''2024-10-27T02:30'')]"
    using start by (simp add: TournamentSettingsForm_def autumnCup_def sampleTournament_def normalizeDashboardEndpoint_def)
  have l: "js_length ''Cup'' = 3" "js_length ''2024-10-27T02:30'' = 16" by code_simp+
  have "\<exists>w. sampleParse (fo_schema ?f) (JObj (fo_values ?f)) = Parsed w"
    by (subst form_schema_fields) (simp only: object_accepts shape vals, insert reads,
      simp add: obj_get_def text_ok_def opt_all_def check_def is_boolean_def int_ok_def safe_integer_def l
        local_time_Parsed)
  then obtain w where s: "handleSubmit sampleParse ?f (fs_values (startForm ?f)) =
      Sent (fo_endpoint ?f, mutation_vars (Some (fo_body ?f w)) (fo_path ?f))"
    by (auto simp: handleSubmit_def startForm_def)
  have "stored_link autumnCup" by (simp add: autumnCup_def stored_link_def sampleTournament_def)
  with unchanged_editor_sends_saved[OF sample_library _ _ _ s, of autumnZone 1729992600000] autumn_clock
  obtain es where es: "mutation_vars (Some (fo_body ?f w)) (fo_path ?f) = mutation_vars (Some (JObj es)) (fo_path ?f)"
    "list_all2 (sent_as autumnZone 1729992600000) (stored_entries ?a) es"
    by (auto simp: TournamentSettingsForm_def)
  have "obj_get es ''name'' = JStr ''Cup'' \<and> obj_get es ''dashboard_endpoint'' = JStr []"
    using es(2)
    by (auto simp: list_all2_Cons1 sent_as_def autumnCup_def sampleTournament_def js_null_or_def obj_get_def)
  then show ?thesis
    using s es by (auto simp: startForm_def TournamentSettingsForm_def autumnForms_def autumnCup_def sampleTournament_def)
qed

end
