(* ===== verification/TsTypes.thy ===== *)
theory TsTypes
  imports Zod
begin

text \<open>
  The type language of \<open>frontend/src/openapi/types.gen.ts\<close>, as far as the file uses it, with the values of
  each type, and a check that relates a schema to a type: what a fitting schema gives is of the type.
\<close>

section \<open>Types\<close>

datatype ts_type =
    TNever
  | TVoid
  | TNull
  | TBoolean
  | TNumber
  | TString
  | TUnknown
  | TBlob \<comment> \<open>\<open>Blob | File\<close>\<close>
  | TLit string
  | TUnion "ts_type list"
  | TArray ts_type
  | TRecord ts_type \<comment> \<open>\<open>{ [key: string]: ... }\<close>\<close>
  | TObject "(string \<times> bool \<times> ts_type) list" \<comment> \<open>with a flag at the optional properties\<close>

text \<open>\<open>X[keyof X]\<close>, \<open>keyof X\<close> and \<open>X['key']\<close> of an object type.\<close>

fun ts_properties :: "ts_type \<Rightarrow> (string \<times> bool \<times> ts_type) list" where
  "ts_properties (TObject ps) = ps"
| "ts_properties _ = []"

definition ts_values :: "ts_type \<Rightarrow> ts_type" where
  "ts_values t = TUnion (map (snd \<circ> snd) (ts_properties t))"

definition ts_at :: "ts_type \<Rightarrow> string \<Rightarrow> ts_type" where
  "ts_at t k = (case map_of (ts_properties t) k of Some (_, u) \<Rightarrow> u | None \<Rightarrow> TNever)"

section \<open>Values\<close>

text \<open>A property may be \<open>undefined\<close> exactly where it may be absent.\<close>

fun has_type :: "ts_type \<Rightarrow> js_value \<Rightarrow> bool" where
  "has_type TNever v = False"
| "has_type TVoid v = is_undefined v"
| "has_type TNull v = is_null v"
| "has_type TBoolean v = is_boolean v"
| "has_type TNumber v = (case v of JNum _ \<Rightarrow> True | _ \<Rightarrow> False)"
| "has_type TString v = (case v of JStr _ \<Rightarrow> True | _ \<Rightarrow> False)"
| "has_type TUnknown v = True"
| "has_type TBlob v = (case v of JBlob _ \<Rightarrow> True | _ \<Rightarrow> False)"
| "has_type (TLit s) v = (case v of JStr s' \<Rightarrow> s' = s | _ \<Rightarrow> False)"
| "has_type (TUnion ts) v = list_ex (\<lambda>b. b) (map (\<lambda>t. has_type t v) ts)"
| "has_type (TArray t) v = (case v of JArr vs \<Rightarrow> list_all (has_type t) vs | _ \<Rightarrow> False)"
| "has_type (TRecord t) v = (case v of JObj es \<Rightarrow> list_all (\<lambda>e. has_type t (snd e)) es | _ \<Rightarrow> False)"
| "has_type (TObject ps) v =
     (case v of
        JObj es \<Rightarrow> list_all (\<lambda>b. b)
          (map (\<lambda>(k, opt, t). opt \<and> is_undefined (obj_get es k) \<or> has_type t (obj_get es k)) ps)
      | _ \<Rightarrow> False)"

lemma has_union: "has_type (TUnion ts) v \<longleftrightarrow> (\<exists>t \<in> set ts. has_type t v)"
  by (auto simp: list_ex_iff)

lemma has_object: "has_type (TObject ps) (JObj es) \<longleftrightarrow>
    (\<forall>(k, opt, t) \<in> set ps. opt \<and> obj_get es k = JUndefined \<or> has_type t (obj_get es k))"
  by (auto simp: list_all_iff)

section \<open>Schemas that fit a type\<close>

text \<open>The members of a union of unions.\<close>

fun members :: "ts_type \<Rightarrow> ts_type list" where
  "members (TUnion ts) = concat (map members ts)"
| "members t = [t]"

lemma has_member: "has_type t v \<longleftrightarrow> (\<exists>u \<in> set (members t). has_type u v)"
  by (induction t) (auto simp: list_ex_iff simp del: has_type.simps(11-))

definition some_member :: "(ts_type \<Rightarrow> bool) \<Rightarrow> ts_type \<Rightarrow> bool" where
  "some_member P t = list_ex (\<lambda>u. u = TUnknown \<or> P u) (members t)"

fun array_of :: "(ts_type \<Rightarrow> bool) \<Rightarrow> ts_type \<Rightarrow> bool" where
  "array_of P (TArray t) = P t"
| "array_of P _ = False"

fun record_of :: "(ts_type \<Rightarrow> bool) \<Rightarrow> ts_type \<Rightarrow> bool" where
  "record_of P (TRecord t) = P t"
| "record_of P _ = False"

text \<open>A property that the schema has fits its type; one that it does not have is optional.\<close>

fun object_of :: "(string \<times> (ts_type \<Rightarrow> bool)) list \<Rightarrow> ts_type \<Rightarrow> bool" where
  "object_of fs (TObject ps) =
     list_all (\<lambda>(k, opt, t).
       (case map_of fs k of
          Some P \<Rightarrow> P (if opt then TUnion [TVoid, t] else t)
        | None \<Rightarrow> opt)) ps"
| "object_of fs _ = False"

fun fits :: "schema \<Rightarrow> ts_type \<Rightarrow> bool" where
  "fits ZBoolean t = some_member (\<lambda>u. u = TBoolean) t"
| "fits ZNumber t = some_member (\<lambda>u. u = TNumber) t"
| "fits (ZInt lo hi) t = some_member (\<lambda>u. u = TNumber) t"
| "fits (ZString mn mx fmt) t = some_member (\<lambda>u. u = TString) t"
| "fits (ZEnum xs) t = list_all (\<lambda>x. has_type t (JStr x)) xs"
| "fits ZNull t = has_type t JNull"
| "fits ZUnknown t = some_member (\<lambda>u. False) t"
| "fits ZVoid t = has_type t JUndefined"
| "fits (ZArray s) t = some_member (array_of (fits s)) t"
| "fits (ZRecord s) t = some_member (record_of (fits s)) t"
| "fits (ZUnion ss) t = list_all (\<lambda>P. P t) (map fits ss)"
| "fits (ZObject fs) t =
     (distinct (map fst fs) \<and> some_member (object_of (map (\<lambda>e. (fst e, fits (snd e))) fs)) t)"
| "fits (ZNullable s) t = (has_type t JNull \<and> fits s t)"
| "fits (ZOptional s) t = (has_type t JUndefined \<and> fits s t)"
| "fits (ZDefault s d) t = (has_type t d \<and> fits s t)"
| "fits (ZTransform s f) t = False"
| "fits (ZPreprocess g s) t = fits s t"

text \<open>The facts that a schema fits a type; a union has what fits one of its members.\<close>

named_theorems fitting

declare some_member_def [fitting]

lemma boolean_literal [fitting]: "is_boolean (JBool b)"
  by (simp add: is_boolean_def)

lemma has_type_union: "t \<in> set ts \<Longrightarrow> has_type t v \<Longrightarrow> has_type (TUnion ts) v"
  unfolding has_union by blast

lemma some_member_union: "t \<in> set ts \<Longrightarrow> some_member P t \<Longrightarrow> some_member P (TUnion ts)"
  by (auto simp: some_member_def list_ex_iff)

lemma fits_member: "fits s t \<Longrightarrow> t \<in> set ts \<Longrightarrow> fits s (TUnion ts)"
  by (induction s) (auto simp: list_all_iff has_union intro: some_member_union simp del: has_type.simps(10))

lemma fits_union [fitting]: "list_ex (fits s) ts \<Longrightarrow> fits s (TUnion ts)"
  by (auto simp: list_ex_iff intro: fits_member)

lemma some_memberI:
  assumes "some_member P t" "\<And>u. P u \<Longrightarrow> has_type u v"
  shows "has_type t v"
proof -
  obtain u where "u \<in> set (members t)" "u = TUnknown \<or> P u"
    using assms(1) by (auto simp: some_member_def list_ex_iff)
  moreover from this(2) have "has_type u v" using assms(2) by auto
  ultimately show ?thesis using has_member[of t v] by blast
qed

text \<open>An accepted record, entry by entry.\<close>

lemma record_Parsed:
  assumes "zparse em dt (ZRecord s) v = Parsed w"
  obtains es where "v = JObj es" "w = JObj (map (\<lambda>(k, x). (k, part_value (zparse em dt s x))) es)"
    "\<And>k x. (k, x) \<in> set es \<Longrightarrow> zparse em dt s x = Parsed (part_value (zparse em dt s x))"
proof -
  obtain es where v: "v = JObj es" using assms by (auto simp: record_result_def split: js_value.splits)
  let ?rs = "map (\<lambda>(k, x). (k, zparse em dt s x)) es"
  have r: "parts_result ?rs (JObj (map (\<lambda>(k, r). (k, part_value r)) ?rs)) = Parsed w"
    using assms by (simp add: v record_result_def Let_def)
  have "ps \<noteq> []" if "(k, r) \<in> set ?rs" "r = Issues ps" for k r ps
    using that issues_nonempty[of em dt s _ ps] by fastforce
  note ok = iffD1[OF parts_result_ok[OF this] r]
  then have "w = JObj (map (\<lambda>(k, x). (k, part_value (zparse em dt s x))) es)"
    by (simp add: comp_def case_prod_unfold)
  moreover have "zparse em dt s x = Parsed (part_value (zparse em dt s x))" if "(k, x) \<in> set es" for k x
    using ok that by (fastforce simp: list_all_iff)
  ultimately show ?thesis using that v by blast
qed

lemma array_has_type:
  assumes "zparse em dt (ZArray s) v = Parsed w" "array_of P u"
    and "\<And>x y t. zparse em dt s x = Parsed y \<Longrightarrow> P t \<Longrightarrow> has_type t y"
  shows "has_type u w"
proof -
  obtain vs where v: "v = JArr vs" using assms(1) array_Parsed_array by blast
  then have ys: "\<forall>x \<in> set vs. \<exists>y. zparse em dt s x = Parsed y"
    and w: "w = JArr (map (\<lambda>x. part_value (zparse em dt s x)) vs)"
    using assms(1) unfolding v array_Parsed by auto
  obtain t where "u = TArray t" "P t" using assms(2) by (cases u) simp_all
  then show ?thesis using ys assms(3) by (fastforce simp: w list_all_iff part_value_def)
qed

lemma record_has_type:
  assumes "zparse em dt (ZRecord s) v = Parsed w" "record_of P u"
    and "\<And>x y t. zparse em dt s x = Parsed y \<Longrightarrow> P t \<Longrightarrow> has_type t y"
  shows "has_type u w"
proof -
  obtain t where t: "u = TRecord t" "P t" using assms(2) by (cases u) simp_all
  show ?thesis
  proof (rule record_Parsed[OF assms(1)])
    fix es
    assume w: "w = JObj (map (\<lambda>(k, x). (k, part_value (zparse em dt s x))) es)"
      and p: "\<And>k x. (k, x) \<in> set es \<Longrightarrow> zparse em dt s x = Parsed (part_value (zparse em dt s x))"
    have "has_type t (part_value (zparse em dt s x))" if "(k, x) \<in> set es" for k x
      by (rule assms(3)[OF p[OF that] t(2)])
    then show "has_type u w" unfolding t w by (auto simp: list_all_iff)
  qed
qed

lemma object_has_type:
  assumes "zparse em dt (ZObject fs) v = Parsed w" "distinct (map fst fs)"
    and "object_of (map (\<lambda>e. (fst e, fits (snd e))) fs) u"
    and "\<And>k s x y t. (k, s) \<in> set fs \<Longrightarrow> zparse em dt s x = Parsed y \<Longrightarrow> fits s t \<Longrightarrow> has_type t y"
  shows "has_type u w"
proof -
  obtain es where p: "zparse em dt (ZObject fs) (JObj es) = Parsed w"
    using object_Parsed_object[OF assms(1)] by blast
  note o = object_Parsed[OF p assms(2)]
  define ws where "ws = own_entries w"
  note w = o(1)[folded ws_def] and f = o(2)[folded ws_def] and ws = o(3)[folded ws_def]
  have absent: "obj_get ws k = JUndefined" if "k \<notin> fst ` set fs" for k
  proof -
    have "fst ` set ws \<subseteq> fst ` set fs" by (subst ws) force
    then have "k \<notin> fst ` set ws" using that by blast
    then have "map_of ws k = None" by (simp add: map_of_eq_None_iff)
    then show ?thesis by (simp add: obj_get_def)
  qed
  obtain ps where u: "u = TObject ps" using assms(3) by (cases u) simp_all
  have "opt \<and> obj_get ws k = JUndefined \<or> has_type t (obj_get ws k)" if m: "(k, opt, t) \<in> set ps" for k opt t
  proof (cases "map_of fs k")
    case None
    then have "map_of (map (\<lambda>e. (fst e, fits (snd e))) fs) k = None" by (force simp: map_of_eq_None_iff)
    then have "opt" using assms(3) m by (fastforce simp: u list_all_iff)
    then show ?thesis using None absent by (simp add: map_of_eq_None_iff)
  next
    case (Some s)
    then have s: "(k, s) \<in> set fs" by (rule map_of_SomeD)
    have "map_of (map (\<lambda>e. (fst e, fits (snd e))) fs) k = Some (fits s)"
      using Some by (induction fs) auto
    then have "fits s (if opt then TUnion [TVoid, t] else t)" using assms(3) m by (fastforce simp: u list_all_iff)
    then have "has_type (if opt then TUnion [TVoid, t] else t) (obj_get ws k)" using assms(4)[OF s f[OF s]] by blast
    then show ?thesis by (simp split: if_splits)
  qed
  then show ?thesis unfolding u w has_object by blast
qed

lemma fits_sound: "zparse em dt s v = Parsed w \<Longrightarrow> fits s t \<Longrightarrow> has_type t w"
proof (induction s arbitrary: v w t)
  case (ZArray s)
  show ?case
    by (rule some_memberI[of "array_of (fits s)"])
      (use ZArray array_has_type[OF ZArray.prems(1)] in auto)
next
  case (ZRecord s)
  show ?case
    by (rule some_memberI[of "record_of (fits s)"])
      (use ZRecord record_has_type[OF ZRecord.prems(1)] in auto)
next
  case (ZUnion ss)
  then have "Parsed w \<in> set (map (\<lambda>s. zparse em dt s v) ss)" by (auto dest: first_parsed_Parsed)
  with ZUnion show ?case by (auto simp: list_all_iff)
next
  case (ZObject fs)
  show ?case
  proof (rule some_memberI)
    show "some_member (object_of (map (\<lambda>e. (fst e, fits (snd e))) fs)) t" using ZObject.prems(2) by simp
    fix u assume "object_of (map (\<lambda>e. (fst e, fits (snd e))) fs) u"
    from object_has_type[OF ZObject.prems(1) _ this] show "has_type u w"
      using ZObject.IH ZObject.prems(2) by fastforce
  qed
next
  case (ZEnum xs)
  then show ?case by (auto simp: list_all_iff list_ex_iff)
qed (auto elim!: some_memberI simp: is_boolean_def is_finite_def int_ok_def safe_integer_def text_ok_def
    split: if_splits js_value.splits js_num.splits)

end
