(* ===== verification/EndpointTypes.thy ===== *)
theory EndpointTypes
  imports TsTypes Schemas
begin

text \<open>
  The types of \<open>frontend/src/openapi/types.gen.ts\<close> as data: what the API exchanges, and for each endpoint the
  type of its request, its errors and its answers. \<open>ENDPOINT_TYPES\<close> holds the types each function of
  \<open>sdk.gen.ts\<close> passes to the client, and \<open>SCHEMA_TYPES\<close> relates the schemas of \<open>zod.gen.ts\<close> to the types.
\<close>

section \<open>Data\<close>

definition tsAuthFeatureFlags :: ts_type where
  "tsAuthFeatureFlags =
     TObject [(''password_reset_enabled'', False, TBoolean), (''user_registration_enabled'', False, TBoolean)]"

definition tsAuthFeatureFlagsResponse :: ts_type where
  "tsAuthFeatureFlagsResponse =
     TObject [(''data'', False, tsAuthFeatureFlags)]"

definition tsBodyLoginForAccessTokenApiTokenPost :: ts_type where
  "tsBodyLoginForAccessTokenApiTokenPost =
     TObject [(''client_id'', False, TUnion [TString, TNull]), (''client_secret'', False, TUnion [TString,
       TNull]), (''grant_type'', False, TUnion [TString, TNull]), (''password'', False, TString),
       (''scope'', False, TString), (''username'', False, TString)]"

definition tsBodyUpdateTeamLogoApiTournamentsTournamentIdTeamsTeamIdLogoPost :: ts_type where
  "tsBodyUpdateTeamLogoApiTournamentsTournamentIdTeamsTeamIdLogoPost =
     TObject [(''file'', False, TUnion [TBlob, TNull])]"

definition tsBodyUploadLogoApiTournamentsTournamentIdLogoPost :: ts_type where
  "tsBodyUploadLogoApiTournamentsTournamentIdLogoPost =
     TObject [(''file'', False, TUnion [TBlob, TNull])]"

definition tsClub :: ts_type where
  "tsClub =
     TObject [(''created'', False, TString), (''id'', False, TNumber), (''name'', False, TString)]"

definition tsClubCreateBody :: ts_type where
  "tsClubCreateBody =
     TObject [(''name'', False, TString)]"

definition tsClubResponse :: ts_type where
  "tsClubResponse =
     TObject [(''data'', False, TUnion [tsClub, TNull])]"

definition tsClubUpdateBody :: ts_type where
  "tsClubUpdateBody =
     TObject [(''name'', False, TString)]"

definition tsClubsResponse :: ts_type where
  "tsClubsResponse =
     TObject [(''data'', False, TArray tsClub)]"

definition tsPlayer :: ts_type where
  "tsPlayer =
     TObject [(''active'', False, TBoolean), (''created'', False, TString), (''draws'', False, TNumber),
       (''elo_score'', False, TString), (''id'', False, TNumber), (''losses'', False, TNumber),
       (''name'', False, TString), (''swiss_score'', False, TString), (''tournament_id'', False, TNumber),
       (''wins'', False, TNumber)]"

definition tsFullTeamWithPlayers :: ts_type where
  "tsFullTeamWithPlayers =
     TObject [(''active'', False, TBoolean), (''created'', False, TString), (''draws'', False, TNumber),
       (''elo_score'', False, TString), (''id'', False, TNumber), (''logo_path'', False, TUnion [TString,
       TNull]), (''losses'', False, TNumber), (''name'', False, TString), (''players'', False, TArray tsPlayer),
       (''swiss_score'', False, TString), (''tournament_id'', False, TNumber), (''wins'', False, TNumber)]"

definition tsValidationError :: ts_type where
  "tsValidationError =
     TObject [(''ctx'', True, TRecord TUnknown), (''input'', True, TUnknown), (''loc'', False,
       TArray (TUnion [TString, TNumber])), (''msg'', False, TString), (''type'', False, TString)]"

definition tsHttpValidationError :: ts_type where
  "tsHttpValidationError =
     TObject [(''detail'', True, TArray tsValidationError)]"

definition tsStageItemInputTentative :: ts_type where
  "tsStageItemInputTentative =
     TObject [(''draws'', False, TNumber), (''id'', False, TNumber), (''losses'', False, TNumber),
       (''points'', False, TString), (''slot'', False, TNumber), (''stage_item_id'', False, TUnion [TNumber,
       TNull]), (''team_id'', False, TNull), (''tournament_id'', False, TNumber),
       (''winner_from_stage_item_id'', False, TNumber), (''winner_position'', False, TNumber),
       (''wins'', False, TNumber)]"

definition tsTeam :: ts_type where
  "tsTeam =
     TObject [(''active'', False, TBoolean), (''created'', False, TString), (''draws'', False, TNumber),
       (''elo_score'', False, TString), (''id'', False, TNumber), (''logo_path'', False, TUnion [TString,
       TNull]), (''losses'', False, TNumber), (''name'', False, TString), (''swiss_score'', False, TString),
       (''tournament_id'', False, TNumber), (''wins'', False, TNumber)]"

definition tsStageItemInputFinal :: ts_type where
  "tsStageItemInputFinal =
     TObject [(''draws'', False, TNumber), (''id'', False, TNumber), (''losses'', False, TNumber),
       (''points'', False, TString), (''slot'', False, TNumber), (''stage_item_id'', False, TUnion [TNumber,
       TNull]), (''team'', False, tsTeam), (''team_id'', False, TNumber), (''tournament_id'', False, TNumber),
       (''winner_from_stage_item_id'', False, TUnion [TNumber, TNull]), (''winner_position'', False,
       TUnion [TNumber, TNull]), (''wins'', False, TNumber)]"

definition tsStageItemInputEmpty :: ts_type where
  "tsStageItemInputEmpty =
     TObject [(''draws'', False, TNumber), (''id'', False, TNumber), (''losses'', False, TNumber),
       (''points'', False, TString), (''slot'', False, TNumber), (''stage_item_id'', False, TUnion [TNumber,
       TNull]), (''team_id'', False, TNull), (''tournament_id'', False, TNumber),
       (''winner_from_stage_item_id'', False, TNull), (''winner_position'', False, TNull),
       (''wins'', False, TNumber)]"

definition tsMatch :: ts_type where
  "tsMatch =
     TObject [(''created'', False, TString), (''custom_duration_minutes'', False, TUnion [TNumber, TNull]),
       (''custom_margin_minutes'', False, TUnion [TNumber, TNull]), (''duration_minutes'', False, TNumber),
       (''id'', False, TNumber), (''margin_minutes'', False, TNumber), (''round_id'', False, TNumber),
       (''stage_item_input1'', False, TUnion [tsStageItemInputTentative, tsStageItemInputFinal,
       tsStageItemInputEmpty, TNull]), (''stage_item_input1_conflict'', False, TBoolean),
       (''stage_item_input1_id'', False, TUnion [TNumber, TNull]), (''stage_item_input1_score'', False, TNumber),
       (''stage_item_input1_winner_from_match_id'', False, TUnion [TNumber, TNull]),
       (''stage_item_input2'', False, TUnion [tsStageItemInputTentative, tsStageItemInputFinal,
       tsStageItemInputEmpty, TNull]), (''stage_item_input2_conflict'', False, TBoolean),
       (''stage_item_input2_id'', False, TUnion [TNumber, TNull]), (''stage_item_input2_score'', False, TNumber),
       (''stage_item_input2_winner_from_match_id'', False, TUnion [TNumber, TNull]), (''start_time'', False,
       TUnion [TString, TNull])]"

definition tsMatchBody :: ts_type where
  "tsMatchBody =
     TObject [(''custom_duration_minutes'', False, TUnion [TNumber, TNull]), (''custom_margin_minutes'', False,
       TUnion [TNumber, TNull]), (''round_id'', False, TNumber), (''stage_item_input1_score'', False, TNumber),
       (''stage_item_input2_score'', False, TNumber)]"

definition tsMatchCreateBodyFrontend :: ts_type where
  "tsMatchCreateBodyFrontend =
     TObject [(''round_id'', False, TNumber), (''stage_item_input1_id'', False, TUnion [TNumber, TNull]),
       (''stage_item_input1_winner_from_match_id'', False, TUnion [TNumber, TNull]),
       (''stage_item_input2_id'', False, TUnion [TNumber, TNull]),
       (''stage_item_input2_winner_from_match_id'', False, TUnion [TNumber, TNull])]"

definition tsMatchWithDetails :: ts_type where
  "tsMatchWithDetails =
     TObject [(''created'', False, TString), (''custom_duration_minutes'', False, TUnion [TNumber, TNull]),
       (''custom_margin_minutes'', False, TUnion [TNumber, TNull]), (''duration_minutes'', False, TNumber),
       (''id'', False, TNumber), (''margin_minutes'', False, TNumber), (''round_id'', False, TNumber),
       (''stage_item_input1'', False, TUnion [tsStageItemInputTentative, tsStageItemInputFinal,
       tsStageItemInputEmpty, TNull]), (''stage_item_input1_conflict'', False, TBoolean),
       (''stage_item_input1_id'', False, TUnion [TNumber, TNull]), (''stage_item_input1_score'', False, TNumber),
       (''stage_item_input1_winner_from_match_id'', False, TUnion [TNumber, TNull]),
       (''stage_item_input2'', False, TUnion [tsStageItemInputTentative, tsStageItemInputFinal,
       tsStageItemInputEmpty, TNull]), (''stage_item_input2_conflict'', False, TBoolean),
       (''stage_item_input2_id'', False, TUnion [TNumber, TNull]), (''stage_item_input2_score'', False, TNumber),
       (''stage_item_input2_winner_from_match_id'', False, TUnion [TNumber, TNull]), (''start_time'', False,
       TUnion [TString, TNull])]"

definition tsMatchWithDetailsDefinitive :: ts_type where
  "tsMatchWithDetailsDefinitive =
     TObject [(''created'', False, TString), (''custom_duration_minutes'', False, TUnion [TNumber, TNull]),
       (''custom_margin_minutes'', False, TUnion [TNumber, TNull]), (''duration_minutes'', False, TNumber),
       (''id'', False, TNumber), (''margin_minutes'', False, TNumber), (''round_id'', False, TNumber),
       (''stage_item_input1'', False, TUnion [tsStageItemInputTentative, tsStageItemInputFinal,
       tsStageItemInputEmpty]), (''stage_item_input1_conflict'', False, TBoolean),
       (''stage_item_input1_id'', False, TUnion [TNumber, TNull]), (''stage_item_input1_score'', False, TNumber),
       (''stage_item_input1_winner_from_match_id'', False, TUnion [TNumber, TNull]),
       (''stage_item_input2'', False, TUnion [tsStageItemInputTentative, tsStageItemInputFinal,
       tsStageItemInputEmpty]), (''stage_item_input2_conflict'', False, TBoolean),
       (''stage_item_input2_id'', False, TUnion [TNumber, TNull]), (''stage_item_input2_score'', False, TNumber),
       (''stage_item_input2_winner_from_match_id'', False, TUnion [TNumber, TNull]), (''start_time'', False,
       TUnion [TString, TNull])]"

definition tsPaginatedPlayers :: ts_type where
  "tsPaginatedPlayers =
     TObject [(''count'', False, TNumber), (''players'', False, TArray tsPlayer)]"

definition tsPaginatedTeams :: ts_type where
  "tsPaginatedTeams =
     TObject [(''count'', False, TNumber), (''teams'', False, TArray tsFullTeamWithPlayers)]"

definition tsPlayerBody :: ts_type where
  "tsPlayerBody =
     TObject [(''active'', False, TBoolean), (''name'', False, TString)]"

definition tsPlayerMultiBody :: ts_type where
  "tsPlayerMultiBody =
     TObject [(''active'', False, TBoolean), (''names'', False, TString)]"

definition tsPlayersResponse :: ts_type where
  "tsPlayersResponse =
     TObject [(''data'', False, tsPaginatedPlayers)]"

definition tsRanking :: ts_type where
  "tsRanking =
     TObject [(''add_score_points'', False, TBoolean), (''created'', False, TString),
       (''draw_points'', False, TString), (''id'', False, TNumber), (''loss_points'', False, TString),
       (''position'', False, TNumber), (''tournament_id'', False, TNumber), (''win_points'', False, TString)]"

definition tsRankingBody :: ts_type where
  "tsRankingBody =
     TObject [(''add_score_points'', False, TBoolean), (''draw_points'', False, TUnion [TNumber, TString]),
       (''loss_points'', False, TUnion [TNumber, TString]), (''position'', False, TNumber),
       (''win_points'', False, TUnion [TNumber, TString])]"

definition tsRankingCreateBody :: ts_type where
  "tsRankingCreateBody =
     TObject [(''add_score_points'', False, TBoolean), (''draw_points'', False, TUnion [TNumber, TString]),
       (''loss_points'', False, TUnion [TNumber, TString]), (''win_points'', False, TUnion [TNumber, TString])]"

definition tsRankingsResponse :: ts_type where
  "tsRankingsResponse =
     TObject [(''data'', False, TArray tsRanking)]"

definition tsRoundCreateBody :: ts_type where
  "tsRoundCreateBody =
     TObject [(''name'', False, TUnion [TString, TNull]), (''stage_item_id'', False, TNumber)]"

definition tsRoundUpdateBody :: ts_type where
  "tsRoundUpdateBody =
     TObject [(''is_draft'', False, TBoolean), (''name'', False, TString)]"

definition tsRoundWithMatches :: ts_type where
  "tsRoundWithMatches =
     TObject [(''created'', False, TString), (''id'', False, TNumber), (''is_draft'', False, TBoolean),
       (''matches'', False, TArray (TUnion [tsMatchWithDetailsDefinitive, tsMatchWithDetails])),
       (''name'', False, TString), (''stage_item_id'', False, TNumber)]"

definition tsSingleMatchResponse :: ts_type where
  "tsSingleMatchResponse =
     TObject [(''data'', False, tsMatch)]"

definition tsSinglePlayerResponse :: ts_type where
  "tsSinglePlayerResponse =
     TObject [(''data'', False, tsPlayer)]"

definition tsSingleTeamResponse :: ts_type where
  "tsSingleTeamResponse =
     TObject [(''data'', False, tsTeam)]"

definition tsStageActivateBody :: ts_type where
  "tsStageActivateBody =
     TObject [(''direction'', False, TUnion [TLit ''next'', TLit ''previous''])]"

definition tsStageType :: ts_type where
  "tsStageType =
     TUnion [TLit ''ROUND_ROBIN'', TLit ''SINGLE_ELIMINATION'', TLit ''SWISS'']"

definition tsStageItemCreateBody :: ts_type where
  "tsStageItemCreateBody =
     TObject [(''name'', False, TUnion [TString, TNull]), (''ranking_id'', False, TUnion [TNumber, TNull]),
       (''stage_id'', False, TNumber), (''team_count'', False, TNumber), (''type'', False, tsStageType)]"

definition tsStageItemInputOptionFinal :: ts_type where
  "tsStageItemInputOptionFinal =
     TObject [(''already_taken'', False, TBoolean), (''team_id'', False, TNumber)]"

definition tsStageItemInputOptionTentative :: ts_type where
  "tsStageItemInputOptionTentative =
     TObject [(''already_taken'', False, TBoolean), (''winner_from_stage_item_id'', False, TNumber),
       (''winner_position'', False, TNumber)]"

definition tsStageItemInputOptionsResponse :: ts_type where
  "tsStageItemInputOptionsResponse =
     TObject [(''data'', False, TRecord (TArray (TUnion [tsStageItemInputOptionTentative,
       tsStageItemInputOptionFinal])))]"

definition tsStageItemInputStanding :: ts_type where
  "tsStageItemInputStanding =
     TObject [(''draws'', False, TNumber), (''losses'', False, TNumber), (''points'', False, TString),
       (''score_against'', False, TNumber), (''score_for'', False, TNumber),
       (''stage_item_input_id'', False, TNumber), (''wins'', False, TNumber)]"

definition tsStageItemInputUpdate :: ts_type where
  "tsStageItemInputUpdate =
     TObject [(''stage_item_input'', False, tsStageItemInputTentative), (''team'', False, tsTeam)]"

definition tsStageItemInputUpdateBodyEmpty :: ts_type where
  "tsStageItemInputUpdateBodyEmpty =
     TObject [(''team_id'', False, TNull), (''winner_from_stage_item_id'', False, TNull),
       (''winner_position'', False, TNull)]"

definition tsStageItemInputUpdateBodyFinal :: ts_type where
  "tsStageItemInputUpdateBodyFinal =
     TObject [(''team_id'', False, TNumber)]"

definition tsStageItemInputUpdateBodyTentative :: ts_type where
  "tsStageItemInputUpdateBodyTentative =
     TObject [(''winner_from_stage_item_id'', False, TNumber), (''winner_position'', False, TNumber)]"

definition tsStageItemUpdateBody :: ts_type where
  "tsStageItemUpdateBody =
     TObject [(''name'', False, TString), (''ranking_id'', False, TNumber)]"

definition tsStageItemWithRounds :: ts_type where
  "tsStageItemWithRounds =
     TObject [(''created'', False, TString), (''id'', False, TNumber), (''inputs'', False,
       TArray (TUnion [tsStageItemInputTentative, tsStageItemInputFinal, tsStageItemInputEmpty])),
       (''name'', False, TString), (''ranking_id'', False, TUnion [TNumber, TNull]), (''rounds'', False,
       TArray tsRoundWithMatches), (''stage_id'', False, TNumber), (''team_count'', False, TNumber),
       (''type'', False, tsStageType), (''type_name'', False, TString)]"

definition tsStageRankingResponse :: ts_type where
  "tsStageRankingResponse =
     TObject [(''data'', False, TRecord (TArray tsStageItemInputUpdate))]"

definition tsStageUpdateBody :: ts_type where
  "tsStageUpdateBody =
     TObject [(''custom_duration_minutes'', False, TUnion [TNumber, TNull]), (''name'', False, TString)]"

definition tsStageWithStageItems :: ts_type where
  "tsStageWithStageItems =
     TObject [(''created'', False, TString), (''custom_duration_minutes'', False, TUnion [TNumber, TNull]),
       (''id'', False, TNumber), (''is_active'', False, TBoolean), (''name'', False, TString),
       (''stage_items'', False, TArray tsStageItemWithRounds), (''tournament_id'', False, TNumber)]"

definition tsStagesWithStageItemsResponse :: ts_type where
  "tsStagesWithStageItemsResponse =
     TObject [(''data'', False, TArray tsStageWithStageItems)]"

definition tsStandingsResponse :: ts_type where
  "tsStandingsResponse =
     TObject [(''data'', False, TRecord (TArray tsStageItemInputStanding))]"

definition tsSuccessResponse :: ts_type where
  "tsSuccessResponse =
     TObject [(''success'', False, TBoolean)]"

definition tsTeamBody :: ts_type where
  "tsTeamBody =
     TObject [(''active'', False, TBoolean), (''name'', False, TString), (''player_ids'', False, TArray TNumber)]"

definition tsTeamMultiBody :: ts_type where
  "tsTeamMultiBody =
     TObject [(''active'', False, TBoolean), (''names'', False, TString)]"

definition tsTeamsWithPlayersResponse :: ts_type where
  "tsTeamsWithPlayersResponse =
     TObject [(''data'', False, tsPaginatedTeams)]"

definition tsToken :: ts_type where
  "tsToken =
     TObject [(''access_token'', False, TString), (''name'', False, TString), (''token_type'', False, TString),
       (''user_id'', False, TNumber)]"

definition tsTokenResponse :: ts_type where
  "tsTokenResponse =
     TObject [(''data'', False, tsToken)]"

definition tsTournamentStatus :: ts_type where
  "tsTournamentStatus =
     TUnion [TLit ''OPEN'', TLit ''ARCHIVED'']"

definition tsTournament :: ts_type where
  "tsTournament =
     TObject [(''club_id'', False, TNumber), (''created'', False, TString), (''dashboard_endpoint'', False,
       TUnion [TString, TNull]), (''dashboard_public'', False, TBoolean), (''duration_minutes'', False, TNumber),
       (''id'', False, TNumber), (''logo_path'', False, TUnion [TString, TNull]),
       (''margin_minutes'', False, TNumber), (''name'', False, TString),
       (''players_can_be_in_multiple_teams'', False, TBoolean), (''start_time'', False, TString),
       (''status'', False, tsTournamentStatus)]"

definition tsTournamentBody :: ts_type where
  "tsTournamentBody =
     TObject [(''club_id'', False, TNumber), (''dashboard_endpoint'', False, TUnion [TString, TNull]),
       (''dashboard_public'', False, TBoolean), (''duration_minutes'', False, TNumber),
       (''margin_minutes'', False, TNumber), (''name'', False, TString),
       (''players_can_be_in_multiple_teams'', False, TBoolean), (''start_time'', False, TString)]"

definition tsTournamentChangeStatusBody :: ts_type where
  "tsTournamentChangeStatusBody =
     TObject [(''status'', False, tsTournamentStatus)]"

definition tsTournamentResponse :: ts_type where
  "tsTournamentResponse =
     TObject [(''data'', False, tsTournament)]"

definition tsTournamentUpdateBody :: ts_type where
  "tsTournamentUpdateBody =
     TObject [(''dashboard_endpoint'', False, TUnion [TString, TNull]), (''dashboard_public'', False, TBoolean),
       (''duration_minutes'', False, TNumber), (''margin_minutes'', False, TNumber), (''name'', False, TString),
       (''players_can_be_in_multiple_teams'', False, TBoolean), (''start_time'', False, TString)]"

definition tsTournamentsResponse :: ts_type where
  "tsTournamentsResponse =
     TObject [(''data'', False, TArray tsTournament)]"

definition tsUserAccountType :: ts_type where
  "tsUserAccountType =
     TLit ''REGULAR''"

definition tsUserPasswordToUpdate :: ts_type where
  "tsUserPasswordToUpdate =
     TObject [(''current_password'', False, TString), (''password'', False, TString)]"

definition tsUserPublic :: ts_type where
  "tsUserPublic =
     TObject [(''account_type'', False, tsUserAccountType), (''created'', False, TString),
       (''email'', False, TString), (''id'', False, TNumber), (''name'', False, TString)]"

definition tsUserPublicResponse :: ts_type where
  "tsUserPublicResponse =
     TObject [(''data'', False, tsUserPublic)]"

definition tsUserToRegister :: ts_type where
  "tsUserToRegister =
     TObject [(''email'', False, TString), (''name'', False, TString), (''password'', False, TString)]"

definition tsUserToUpdate :: ts_type where
  "tsUserToUpdate =
     TObject [(''email'', False, TString), (''name'', False, TString)]"

section \<open>Requests and answers\<close>

definition tsGetAuthFeaturesApiAuthFeaturesGetData :: ts_type where
  "tsGetAuthFeaturesApiAuthFeaturesGetData =
     TObject [(''body'', True, TNever), (''path'', True, TNever), (''query'', True, TNever), (''url'', False,
       TLit ''/api/auth/features'')]"

definition tsGetAuthFeaturesApiAuthFeaturesGetResponses :: ts_type where
  "tsGetAuthFeaturesApiAuthFeaturesGetResponses =
     TObject [(''200'', False, tsAuthFeatureFlagsResponse)]"

definition tsGetAuthFeaturesApiAuthFeaturesGetResponse :: ts_type where
  "tsGetAuthFeaturesApiAuthFeaturesGetResponse =
     ts_values tsGetAuthFeaturesApiAuthFeaturesGetResponses"

definition tsGetClubsApiClubsGetData :: ts_type where
  "tsGetClubsApiClubsGetData =
     TObject [(''body'', True, TNever), (''path'', True, TNever), (''query'', True, TNever), (''url'', False,
       TLit ''/api/clubs'')]"

definition tsGetClubsApiClubsGetResponses :: ts_type where
  "tsGetClubsApiClubsGetResponses =
     TObject [(''200'', False, tsClubsResponse)]"

definition tsGetClubsApiClubsGetResponse :: ts_type where
  "tsGetClubsApiClubsGetResponse =
     ts_values tsGetClubsApiClubsGetResponses"

definition tsCreateNewClubApiClubsPostData :: ts_type where
  "tsCreateNewClubApiClubsPostData =
     TObject [(''body'', False, tsClubCreateBody), (''path'', True, TNever), (''query'', True, TNever),
       (''url'', False, TLit ''/api/clubs'')]"

definition tsCreateNewClubApiClubsPostErrors :: ts_type where
  "tsCreateNewClubApiClubsPostErrors =
     TObject [(''422'', False, tsHttpValidationError)]"

definition tsCreateNewClubApiClubsPostError :: ts_type where
  "tsCreateNewClubApiClubsPostError =
     ts_values tsCreateNewClubApiClubsPostErrors"

definition tsCreateNewClubApiClubsPostResponses :: ts_type where
  "tsCreateNewClubApiClubsPostResponses =
     TObject [(''200'', False, tsClubResponse)]"

definition tsCreateNewClubApiClubsPostResponse :: ts_type where
  "tsCreateNewClubApiClubsPostResponse =
     ts_values tsCreateNewClubApiClubsPostResponses"

definition tsDeleteClubApiClubsClubIdDeleteData :: ts_type where
  "tsDeleteClubApiClubsClubIdDeleteData =
     TObject [(''body'', True, TNever), (''path'', False, TObject [(''club_id'', False, TNumber)]),
       (''query'', True, TNever), (''url'', False, TLit ''/api/clubs/{club_id}'')]"

definition tsDeleteClubApiClubsClubIdDeleteErrors :: ts_type where
  "tsDeleteClubApiClubsClubIdDeleteErrors =
     TObject [(''422'', False, tsHttpValidationError)]"

definition tsDeleteClubApiClubsClubIdDeleteError :: ts_type where
  "tsDeleteClubApiClubsClubIdDeleteError =
     ts_values tsDeleteClubApiClubsClubIdDeleteErrors"

definition tsDeleteClubApiClubsClubIdDeleteResponses :: ts_type where
  "tsDeleteClubApiClubsClubIdDeleteResponses =
     TObject [(''200'', False, tsSuccessResponse)]"

definition tsDeleteClubApiClubsClubIdDeleteResponse :: ts_type where
  "tsDeleteClubApiClubsClubIdDeleteResponse =
     ts_values tsDeleteClubApiClubsClubIdDeleteResponses"

definition tsUpdateClubApiClubsClubIdPutData :: ts_type where
  "tsUpdateClubApiClubsClubIdPutData =
     TObject [(''body'', False, tsClubUpdateBody), (''path'', False, TObject [(''club_id'', False, TNumber)]),
       (''query'', True, TNever), (''url'', False, TLit ''/api/clubs/{club_id}'')]"

definition tsUpdateClubApiClubsClubIdPutErrors :: ts_type where
  "tsUpdateClubApiClubsClubIdPutErrors =
     TObject [(''422'', False, tsHttpValidationError)]"

definition tsUpdateClubApiClubsClubIdPutError :: ts_type where
  "tsUpdateClubApiClubsClubIdPutError =
     ts_values tsUpdateClubApiClubsClubIdPutErrors"

definition tsUpdateClubApiClubsClubIdPutResponses :: ts_type where
  "tsUpdateClubApiClubsClubIdPutResponses =
     TObject [(''200'', False, tsClubResponse)]"

definition tsUpdateClubApiClubsClubIdPutResponse :: ts_type where
  "tsUpdateClubApiClubsClubIdPutResponse =
     ts_values tsUpdateClubApiClubsClubIdPutResponses"

definition tsLogoutApiLogoutPostData :: ts_type where
  "tsLogoutApiLogoutPostData =
     TObject [(''body'', True, TNever), (''path'', True, TNever), (''query'', True, TNever), (''url'', False,
       TLit ''/api/logout'')]"

definition tsLogoutApiLogoutPostResponses :: ts_type where
  "tsLogoutApiLogoutPostResponses =
     TObject [(''204'', False, TVoid)]"

definition tsLogoutApiLogoutPostResponse :: ts_type where
  "tsLogoutApiLogoutPostResponse =
     ts_values tsLogoutApiLogoutPostResponses"

definition tsPingApiPingGetData :: ts_type where
  "tsPingApiPingGetData =
     TObject [(''body'', True, TNever), (''path'', True, TNever), (''query'', True, TNever), (''url'', False,
       TLit ''/api/ping'')]"

definition tsPingApiPingGetResponses :: ts_type where
  "tsPingApiPingGetResponses =
     TObject [(''200'', False, TString)]"

definition tsPingApiPingGetResponse :: ts_type where
  "tsPingApiPingGetResponse =
     ts_values tsPingApiPingGetResponses"

definition tsLoginForAccessTokenApiTokenPostData :: ts_type where
  "tsLoginForAccessTokenApiTokenPostData =
     TObject [(''body'', False, tsBodyLoginForAccessTokenApiTokenPost), (''path'', True, TNever),
       (''query'', True, TNever), (''url'', False, TLit ''/api/token'')]"

definition tsLoginForAccessTokenApiTokenPostErrors :: ts_type where
  "tsLoginForAccessTokenApiTokenPostErrors =
     TObject [(''422'', False, tsHttpValidationError)]"

definition tsLoginForAccessTokenApiTokenPostError :: ts_type where
  "tsLoginForAccessTokenApiTokenPostError =
     ts_values tsLoginForAccessTokenApiTokenPostErrors"

definition tsLoginForAccessTokenApiTokenPostResponses :: ts_type where
  "tsLoginForAccessTokenApiTokenPostResponses =
     TObject [(''200'', False, tsToken)]"

definition tsLoginForAccessTokenApiTokenPostResponse :: ts_type where
  "tsLoginForAccessTokenApiTokenPostResponse =
     ts_values tsLoginForAccessTokenApiTokenPostResponses"

definition tsGetTournamentsApiTournamentsGetData :: ts_type where
  "tsGetTournamentsApiTournamentsGetData =
     TObject [(''body'', True, TNever), (''path'', True, TNever), (''query'', True, TObject [(''filter_'', True,
       TUnion [TLit ''ALL'', TLit ''OPEN'', TLit ''ARCHIVED'']), (''endpoint_name'', True, TUnion [TString,
       TNull])]), (''url'', False, TLit ''/api/tournaments'')]"

definition tsGetTournamentsApiTournamentsGetErrors :: ts_type where
  "tsGetTournamentsApiTournamentsGetErrors =
     TObject [(''422'', False, tsHttpValidationError)]"

definition tsGetTournamentsApiTournamentsGetError :: ts_type where
  "tsGetTournamentsApiTournamentsGetError =
     ts_values tsGetTournamentsApiTournamentsGetErrors"

definition tsGetTournamentsApiTournamentsGetResponses :: ts_type where
  "tsGetTournamentsApiTournamentsGetResponses =
     TObject [(''200'', False, tsTournamentsResponse)]"

definition tsGetTournamentsApiTournamentsGetResponse :: ts_type where
  "tsGetTournamentsApiTournamentsGetResponse =
     ts_values tsGetTournamentsApiTournamentsGetResponses"

definition tsCreateTournamentApiTournamentsPostData :: ts_type where
  "tsCreateTournamentApiTournamentsPostData =
     TObject [(''body'', False, tsTournamentBody), (''path'', True, TNever), (''query'', True, TNever),
       (''url'', False, TLit ''/api/tournaments'')]"

definition tsCreateTournamentApiTournamentsPostErrors :: ts_type where
  "tsCreateTournamentApiTournamentsPostErrors =
     TObject [(''422'', False, tsHttpValidationError)]"

definition tsCreateTournamentApiTournamentsPostError :: ts_type where
  "tsCreateTournamentApiTournamentsPostError =
     ts_values tsCreateTournamentApiTournamentsPostErrors"

definition tsCreateTournamentApiTournamentsPostResponses :: ts_type where
  "tsCreateTournamentApiTournamentsPostResponses =
     TObject [(''200'', False, tsSuccessResponse)]"

definition tsCreateTournamentApiTournamentsPostResponse :: ts_type where
  "tsCreateTournamentApiTournamentsPostResponse =
     ts_values tsCreateTournamentApiTournamentsPostResponses"

definition tsDeleteTournamentApiTournamentsTournamentIdDeleteData :: ts_type where
  "tsDeleteTournamentApiTournamentsTournamentIdDeleteData =
     TObject [(''body'', True, TNever), (''path'', False, TObject [(''tournament_id'', False, TNumber)]),
       (''query'', True, TNever), (''url'', False, TLit ''/api/tournaments/{tournament_id}'')]"

definition tsDeleteTournamentApiTournamentsTournamentIdDeleteErrors :: ts_type where
  "tsDeleteTournamentApiTournamentsTournamentIdDeleteErrors =
     TObject [(''422'', False, tsHttpValidationError)]"

definition tsDeleteTournamentApiTournamentsTournamentIdDeleteError :: ts_type where
  "tsDeleteTournamentApiTournamentsTournamentIdDeleteError =
     ts_values tsDeleteTournamentApiTournamentsTournamentIdDeleteErrors"

definition tsDeleteTournamentApiTournamentsTournamentIdDeleteResponses :: ts_type where
  "tsDeleteTournamentApiTournamentsTournamentIdDeleteResponses =
     TObject [(''200'', False, tsSuccessResponse)]"

definition tsDeleteTournamentApiTournamentsTournamentIdDeleteResponse :: ts_type where
  "tsDeleteTournamentApiTournamentsTournamentIdDeleteResponse =
     ts_values tsDeleteTournamentApiTournamentsTournamentIdDeleteResponses"

definition tsGetTournamentApiTournamentsTournamentIdGetData :: ts_type where
  "tsGetTournamentApiTournamentsTournamentIdGetData =
     TObject [(''body'', True, TNever), (''path'', False, TObject [(''tournament_id'', False, TNumber)]),
       (''query'', True, TNever), (''url'', False, TLit ''/api/tournaments/{tournament_id}'')]"

definition tsGetTournamentApiTournamentsTournamentIdGetErrors :: ts_type where
  "tsGetTournamentApiTournamentsTournamentIdGetErrors =
     TObject [(''422'', False, tsHttpValidationError)]"

definition tsGetTournamentApiTournamentsTournamentIdGetError :: ts_type where
  "tsGetTournamentApiTournamentsTournamentIdGetError =
     ts_values tsGetTournamentApiTournamentsTournamentIdGetErrors"

definition tsGetTournamentApiTournamentsTournamentIdGetResponses :: ts_type where
  "tsGetTournamentApiTournamentsTournamentIdGetResponses =
     TObject [(''200'', False, tsTournamentResponse)]"

definition tsGetTournamentApiTournamentsTournamentIdGetResponse :: ts_type where
  "tsGetTournamentApiTournamentsTournamentIdGetResponse =
     ts_values tsGetTournamentApiTournamentsTournamentIdGetResponses"

definition tsUpdateTournamentByIdApiTournamentsTournamentIdPutData :: ts_type where
  "tsUpdateTournamentByIdApiTournamentsTournamentIdPutData =
     TObject [(''body'', False, tsTournamentUpdateBody), (''path'', False,
       TObject [(''tournament_id'', False, TNumber)]), (''query'', True, TNever), (''url'', False,
       TLit ''/api/tournaments/{tournament_id}'')]"

definition tsUpdateTournamentByIdApiTournamentsTournamentIdPutErrors :: ts_type where
  "tsUpdateTournamentByIdApiTournamentsTournamentIdPutErrors =
     TObject [(''422'', False, tsHttpValidationError)]"

definition tsUpdateTournamentByIdApiTournamentsTournamentIdPutError :: ts_type where
  "tsUpdateTournamentByIdApiTournamentsTournamentIdPutError =
     ts_values tsUpdateTournamentByIdApiTournamentsTournamentIdPutErrors"

definition tsUpdateTournamentByIdApiTournamentsTournamentIdPutResponses :: ts_type where
  "tsUpdateTournamentByIdApiTournamentsTournamentIdPutResponses =
     TObject [(''200'', False, tsSuccessResponse)]"

definition tsUpdateTournamentByIdApiTournamentsTournamentIdPutResponse :: ts_type where
  "tsUpdateTournamentByIdApiTournamentsTournamentIdPutResponse =
     ts_values tsUpdateTournamentByIdApiTournamentsTournamentIdPutResponses"

definition tsGetAvailableInputsApiTournamentsTournamentIdAvailableInputsGetData :: ts_type where
  "tsGetAvailableInputsApiTournamentsTournamentIdAvailableInputsGetData =
     TObject [(''body'', True, TNever), (''path'', False, TObject [(''tournament_id'', False, TNumber)]),
       (''query'', True, TNever), (''url'', False, TLit ''/api/tournaments/{tournament_id}/available_inputs'')]"

definition tsGetAvailableInputsApiTournamentsTournamentIdAvailableInputsGetErrors :: ts_type where
  "tsGetAvailableInputsApiTournamentsTournamentIdAvailableInputsGetErrors =
     TObject [(''422'', False, tsHttpValidationError)]"

definition tsGetAvailableInputsApiTournamentsTournamentIdAvailableInputsGetError :: ts_type where
  "tsGetAvailableInputsApiTournamentsTournamentIdAvailableInputsGetError =
     ts_values tsGetAvailableInputsApiTournamentsTournamentIdAvailableInputsGetErrors"

definition tsGetAvailableInputsApiTournamentsTournamentIdAvailableInputsGetResponses :: ts_type where
  "tsGetAvailableInputsApiTournamentsTournamentIdAvailableInputsGetResponses =
     TObject [(''200'', False, tsStageItemInputOptionsResponse)]"

definition tsGetAvailableInputsApiTournamentsTournamentIdAvailableInputsGetResponse :: ts_type where
  "tsGetAvailableInputsApiTournamentsTournamentIdAvailableInputsGetResponse =
     ts_values tsGetAvailableInputsApiTournamentsTournamentIdAvailableInputsGetResponses"

definition tsChangeStatusApiTournamentsTournamentIdChangeStatusPostData :: ts_type where
  "tsChangeStatusApiTournamentsTournamentIdChangeStatusPostData =
     TObject [(''body'', False, tsTournamentChangeStatusBody), (''path'', False,
       TObject [(''tournament_id'', False, TNumber)]), (''query'', True, TNever), (''url'', False,
       TLit ''/api/tournaments/{tournament_id}/change-status'')]"

definition tsChangeStatusApiTournamentsTournamentIdChangeStatusPostErrors :: ts_type where
  "tsChangeStatusApiTournamentsTournamentIdChangeStatusPostErrors =
     TObject [(''422'', False, tsHttpValidationError)]"

definition tsChangeStatusApiTournamentsTournamentIdChangeStatusPostError :: ts_type where
  "tsChangeStatusApiTournamentsTournamentIdChangeStatusPostError =
     ts_values tsChangeStatusApiTournamentsTournamentIdChangeStatusPostErrors"

definition tsChangeStatusApiTournamentsTournamentIdChangeStatusPostResponses :: ts_type where
  "tsChangeStatusApiTournamentsTournamentIdChangeStatusPostResponses =
     TObject [(''200'', False, tsSuccessResponse)]"

definition tsChangeStatusApiTournamentsTournamentIdChangeStatusPostResponse :: ts_type where
  "tsChangeStatusApiTournamentsTournamentIdChangeStatusPostResponse =
     ts_values tsChangeStatusApiTournamentsTournamentIdChangeStatusPostResponses"

definition tsGetTournamentLogoApiTournamentsTournamentIdLogoGetData :: ts_type where
  "tsGetTournamentLogoApiTournamentsTournamentIdLogoGetData =
     TObject [(''body'', True, TNever), (''path'', False, TObject [(''tournament_id'', False, TNumber)]),
       (''query'', True, TNever), (''url'', False, TLit ''/api/tournaments/{tournament_id}/logo'')]"

definition tsGetTournamentLogoApiTournamentsTournamentIdLogoGetErrors :: ts_type where
  "tsGetTournamentLogoApiTournamentsTournamentIdLogoGetErrors =
     TObject [(''422'', False, tsHttpValidationError)]"

definition tsGetTournamentLogoApiTournamentsTournamentIdLogoGetError :: ts_type where
  "tsGetTournamentLogoApiTournamentsTournamentIdLogoGetError =
     ts_values tsGetTournamentLogoApiTournamentsTournamentIdLogoGetErrors"

definition tsGetTournamentLogoApiTournamentsTournamentIdLogoGetResponses :: ts_type where
  "tsGetTournamentLogoApiTournamentsTournamentIdLogoGetResponses =
     TObject [(''200'', False, TUnknown)]"

definition tsUploadLogoApiTournamentsTournamentIdLogoPostData :: ts_type where
  "tsUploadLogoApiTournamentsTournamentIdLogoPostData =
     TObject [(''body'', True, tsBodyUploadLogoApiTournamentsTournamentIdLogoPost), (''path'', False,
       TObject [(''tournament_id'', False, TNumber)]), (''query'', True, TNever), (''url'', False,
       TLit ''/api/tournaments/{tournament_id}/logo'')]"

definition tsUploadLogoApiTournamentsTournamentIdLogoPostErrors :: ts_type where
  "tsUploadLogoApiTournamentsTournamentIdLogoPostErrors =
     TObject [(''422'', False, tsHttpValidationError)]"

definition tsUploadLogoApiTournamentsTournamentIdLogoPostError :: ts_type where
  "tsUploadLogoApiTournamentsTournamentIdLogoPostError =
     ts_values tsUploadLogoApiTournamentsTournamentIdLogoPostErrors"

definition tsUploadLogoApiTournamentsTournamentIdLogoPostResponses :: ts_type where
  "tsUploadLogoApiTournamentsTournamentIdLogoPostResponses =
     TObject [(''200'', False, tsTournamentResponse)]"

definition tsUploadLogoApiTournamentsTournamentIdLogoPostResponse :: ts_type where
  "tsUploadLogoApiTournamentsTournamentIdLogoPostResponse =
     ts_values tsUploadLogoApiTournamentsTournamentIdLogoPostResponses"

definition tsCreateMatchApiTournamentsTournamentIdMatchesPostData :: ts_type where
  "tsCreateMatchApiTournamentsTournamentIdMatchesPostData =
     TObject [(''body'', False, tsMatchCreateBodyFrontend), (''path'', False,
       TObject [(''tournament_id'', False, TNumber)]), (''query'', True, TNever), (''url'', False,
       TLit ''/api/tournaments/{tournament_id}/matches'')]"

definition tsCreateMatchApiTournamentsTournamentIdMatchesPostErrors :: ts_type where
  "tsCreateMatchApiTournamentsTournamentIdMatchesPostErrors =
     TObject [(''422'', False, tsHttpValidationError)]"

definition tsCreateMatchApiTournamentsTournamentIdMatchesPostError :: ts_type where
  "tsCreateMatchApiTournamentsTournamentIdMatchesPostError =
     ts_values tsCreateMatchApiTournamentsTournamentIdMatchesPostErrors"

definition tsCreateMatchApiTournamentsTournamentIdMatchesPostResponses :: ts_type where
  "tsCreateMatchApiTournamentsTournamentIdMatchesPostResponses =
     TObject [(''200'', False, tsSingleMatchResponse)]"

definition tsCreateMatchApiTournamentsTournamentIdMatchesPostResponse :: ts_type where
  "tsCreateMatchApiTournamentsTournamentIdMatchesPostResponse =
     ts_values tsCreateMatchApiTournamentsTournamentIdMatchesPostResponses"

definition tsDeleteMatchApiTournamentsTournamentIdMatchesMatchIdDeleteData :: ts_type where
  "tsDeleteMatchApiTournamentsTournamentIdMatchesMatchIdDeleteData =
     TObject [(''body'', True, TNever), (''path'', False, TObject [(''tournament_id'', False, TNumber),
       (''match_id'', False, TNumber)]), (''query'', True, TNever), (''url'', False,
       TLit ''/api/tournaments/{tournament_id}/matches/{match_id}'')]"

definition tsDeleteMatchApiTournamentsTournamentIdMatchesMatchIdDeleteErrors :: ts_type where
  "tsDeleteMatchApiTournamentsTournamentIdMatchesMatchIdDeleteErrors =
     TObject [(''422'', False, tsHttpValidationError)]"

definition tsDeleteMatchApiTournamentsTournamentIdMatchesMatchIdDeleteError :: ts_type where
  "tsDeleteMatchApiTournamentsTournamentIdMatchesMatchIdDeleteError =
     ts_values tsDeleteMatchApiTournamentsTournamentIdMatchesMatchIdDeleteErrors"

definition tsDeleteMatchApiTournamentsTournamentIdMatchesMatchIdDeleteResponses :: ts_type where
  "tsDeleteMatchApiTournamentsTournamentIdMatchesMatchIdDeleteResponses =
     TObject [(''200'', False, tsSuccessResponse)]"

definition tsDeleteMatchApiTournamentsTournamentIdMatchesMatchIdDeleteResponse :: ts_type where
  "tsDeleteMatchApiTournamentsTournamentIdMatchesMatchIdDeleteResponse =
     ts_values tsDeleteMatchApiTournamentsTournamentIdMatchesMatchIdDeleteResponses"

definition tsUpdateMatchByIdApiTournamentsTournamentIdMatchesMatchIdPutData :: ts_type where
  "tsUpdateMatchByIdApiTournamentsTournamentIdMatchesMatchIdPutData =
     TObject [(''body'', False, tsMatchBody), (''path'', False, TObject [(''tournament_id'', False, TNumber),
       (''match_id'', False, TNumber)]), (''query'', True, TNever), (''url'', False,
       TLit ''/api/tournaments/{tournament_id}/matches/{match_id}'')]"

definition tsUpdateMatchByIdApiTournamentsTournamentIdMatchesMatchIdPutErrors :: ts_type where
  "tsUpdateMatchByIdApiTournamentsTournamentIdMatchesMatchIdPutErrors =
     TObject [(''422'', False, tsHttpValidationError)]"

definition tsUpdateMatchByIdApiTournamentsTournamentIdMatchesMatchIdPutError :: ts_type where
  "tsUpdateMatchByIdApiTournamentsTournamentIdMatchesMatchIdPutError =
     ts_values tsUpdateMatchByIdApiTournamentsTournamentIdMatchesMatchIdPutErrors"

definition tsUpdateMatchByIdApiTournamentsTournamentIdMatchesMatchIdPutResponses :: ts_type where
  "tsUpdateMatchByIdApiTournamentsTournamentIdMatchesMatchIdPutResponses =
     TObject [(''200'', False, tsSuccessResponse)]"

definition tsUpdateMatchByIdApiTournamentsTournamentIdMatchesMatchIdPutResponse :: ts_type where
  "tsUpdateMatchByIdApiTournamentsTournamentIdMatchesMatchIdPutResponse =
     ts_values tsUpdateMatchByIdApiTournamentsTournamentIdMatchesMatchIdPutResponses"

definition tsGetNextStageRankingsApiTournamentsTournamentIdNextStageRankingsGetData :: ts_type where
  "tsGetNextStageRankingsApiTournamentsTournamentIdNextStageRankingsGetData =
     TObject [(''body'', True, TNever), (''path'', False, TObject [(''tournament_id'', False, TNumber)]),
       (''query'', True, TNever), (''url'', False,
       TLit ''/api/tournaments/{tournament_id}/next_stage_rankings'')]"

definition tsGetNextStageRankingsApiTournamentsTournamentIdNextStageRankingsGetErrors :: ts_type where
  "tsGetNextStageRankingsApiTournamentsTournamentIdNextStageRankingsGetErrors =
     TObject [(''422'', False, tsHttpValidationError)]"

definition tsGetNextStageRankingsApiTournamentsTournamentIdNextStageRankingsGetError :: ts_type where
  "tsGetNextStageRankingsApiTournamentsTournamentIdNextStageRankingsGetError =
     ts_values tsGetNextStageRankingsApiTournamentsTournamentIdNextStageRankingsGetErrors"

definition tsGetNextStageRankingsApiTournamentsTournamentIdNextStageRankingsGetResponses :: ts_type where
  "tsGetNextStageRankingsApiTournamentsTournamentIdNextStageRankingsGetResponses =
     TObject [(''200'', False, tsStageRankingResponse)]"

definition tsGetNextStageRankingsApiTournamentsTournamentIdNextStageRankingsGetResponse :: ts_type where
  "tsGetNextStageRankingsApiTournamentsTournamentIdNextStageRankingsGetResponse =
     ts_values tsGetNextStageRankingsApiTournamentsTournamentIdNextStageRankingsGetResponses"

definition tsGetPlayersApiTournamentsTournamentIdPlayersGetData :: ts_type where
  "tsGetPlayersApiTournamentsTournamentIdPlayersGetData =
     TObject [(''body'', True, TNever), (''path'', False, TObject [(''tournament_id'', False, TNumber)]),
       (''query'', True, TObject [(''not_in_team'', True, TBoolean), (''limit'', True, TNumber),
       (''offset'', True, TNumber), (''sort_direction'', True, TUnion [TLit ''asc'', TLit ''desc'']),
       (''sort_by'', True, TUnion [TLit ''name'', TLit ''elo_score'', TLit ''swiss_score'', TLit ''wins'',
       TLit ''draws'', TLit ''losses'', TLit ''active'', TLit ''created''])]), (''url'', False,
       TLit ''/api/tournaments/{tournament_id}/players'')]"

definition tsGetPlayersApiTournamentsTournamentIdPlayersGetErrors :: ts_type where
  "tsGetPlayersApiTournamentsTournamentIdPlayersGetErrors =
     TObject [(''422'', False, tsHttpValidationError)]"

definition tsGetPlayersApiTournamentsTournamentIdPlayersGetError :: ts_type where
  "tsGetPlayersApiTournamentsTournamentIdPlayersGetError =
     ts_values tsGetPlayersApiTournamentsTournamentIdPlayersGetErrors"

definition tsGetPlayersApiTournamentsTournamentIdPlayersGetResponses :: ts_type where
  "tsGetPlayersApiTournamentsTournamentIdPlayersGetResponses =
     TObject [(''200'', False, tsPlayersResponse)]"

definition tsGetPlayersApiTournamentsTournamentIdPlayersGetResponse :: ts_type where
  "tsGetPlayersApiTournamentsTournamentIdPlayersGetResponse =
     ts_values tsGetPlayersApiTournamentsTournamentIdPlayersGetResponses"

definition tsCreateSinglePlayerApiTournamentsTournamentIdPlayersPostData :: ts_type where
  "tsCreateSinglePlayerApiTournamentsTournamentIdPlayersPostData =
     TObject [(''body'', False, tsPlayerBody), (''path'', False, TObject [(''tournament_id'', False, TNumber)]),
       (''query'', True, TNever), (''url'', False, TLit ''/api/tournaments/{tournament_id}/players'')]"

definition tsCreateSinglePlayerApiTournamentsTournamentIdPlayersPostErrors :: ts_type where
  "tsCreateSinglePlayerApiTournamentsTournamentIdPlayersPostErrors =
     TObject [(''422'', False, tsHttpValidationError)]"

definition tsCreateSinglePlayerApiTournamentsTournamentIdPlayersPostError :: ts_type where
  "tsCreateSinglePlayerApiTournamentsTournamentIdPlayersPostError =
     ts_values tsCreateSinglePlayerApiTournamentsTournamentIdPlayersPostErrors"

definition tsCreateSinglePlayerApiTournamentsTournamentIdPlayersPostResponses :: ts_type where
  "tsCreateSinglePlayerApiTournamentsTournamentIdPlayersPostResponses =
     TObject [(''200'', False, tsSuccessResponse)]"

definition tsCreateSinglePlayerApiTournamentsTournamentIdPlayersPostResponse :: ts_type where
  "tsCreateSinglePlayerApiTournamentsTournamentIdPlayersPostResponse =
     ts_values tsCreateSinglePlayerApiTournamentsTournamentIdPlayersPostResponses"

definition tsDeletePlayerApiTournamentsTournamentIdPlayersPlayerIdDeleteData :: ts_type where
  "tsDeletePlayerApiTournamentsTournamentIdPlayersPlayerIdDeleteData =
     TObject [(''body'', True, TNever), (''path'', False, TObject [(''tournament_id'', False, TNumber),
       (''player_id'', False, TNumber)]), (''query'', True, TNever), (''url'', False,
       TLit ''/api/tournaments/{tournament_id}/players/{player_id}'')]"

definition tsDeletePlayerApiTournamentsTournamentIdPlayersPlayerIdDeleteErrors :: ts_type where
  "tsDeletePlayerApiTournamentsTournamentIdPlayersPlayerIdDeleteErrors =
     TObject [(''422'', False, tsHttpValidationError)]"

definition tsDeletePlayerApiTournamentsTournamentIdPlayersPlayerIdDeleteError :: ts_type where
  "tsDeletePlayerApiTournamentsTournamentIdPlayersPlayerIdDeleteError =
     ts_values tsDeletePlayerApiTournamentsTournamentIdPlayersPlayerIdDeleteErrors"

definition tsDeletePlayerApiTournamentsTournamentIdPlayersPlayerIdDeleteResponses :: ts_type where
  "tsDeletePlayerApiTournamentsTournamentIdPlayersPlayerIdDeleteResponses =
     TObject [(''200'', False, tsSuccessResponse)]"

definition tsDeletePlayerApiTournamentsTournamentIdPlayersPlayerIdDeleteResponse :: ts_type where
  "tsDeletePlayerApiTournamentsTournamentIdPlayersPlayerIdDeleteResponse =
     ts_values tsDeletePlayerApiTournamentsTournamentIdPlayersPlayerIdDeleteResponses"

definition tsUpdatePlayerByIdApiTournamentsTournamentIdPlayersPlayerIdPutData :: ts_type where
  "tsUpdatePlayerByIdApiTournamentsTournamentIdPlayersPlayerIdPutData =
     TObject [(''body'', False, tsPlayerBody), (''path'', False, TObject [(''tournament_id'', False, TNumber),
       (''player_id'', False, TNumber)]), (''query'', True, TNever), (''url'', False,
       TLit ''/api/tournaments/{tournament_id}/players/{player_id}'')]"

definition tsUpdatePlayerByIdApiTournamentsTournamentIdPlayersPlayerIdPutErrors :: ts_type where
  "tsUpdatePlayerByIdApiTournamentsTournamentIdPlayersPlayerIdPutErrors =
     TObject [(''422'', False, tsHttpValidationError)]"

definition tsUpdatePlayerByIdApiTournamentsTournamentIdPlayersPlayerIdPutError :: ts_type where
  "tsUpdatePlayerByIdApiTournamentsTournamentIdPlayersPlayerIdPutError =
     ts_values tsUpdatePlayerByIdApiTournamentsTournamentIdPlayersPlayerIdPutErrors"

definition tsUpdatePlayerByIdApiTournamentsTournamentIdPlayersPlayerIdPutResponses :: ts_type where
  "tsUpdatePlayerByIdApiTournamentsTournamentIdPlayersPlayerIdPutResponses =
     TObject [(''200'', False, tsSinglePlayerResponse)]"

definition tsUpdatePlayerByIdApiTournamentsTournamentIdPlayersPlayerIdPutResponse :: ts_type where
  "tsUpdatePlayerByIdApiTournamentsTournamentIdPlayersPlayerIdPutResponse =
     ts_values tsUpdatePlayerByIdApiTournamentsTournamentIdPlayersPlayerIdPutResponses"

definition tsCreateMultiplePlayersApiTournamentsTournamentIdPlayersMultiPostData :: ts_type where
  "tsCreateMultiplePlayersApiTournamentsTournamentIdPlayersMultiPostData =
     TObject [(''body'', False, tsPlayerMultiBody), (''path'', False,
       TObject [(''tournament_id'', False, TNumber)]), (''query'', True, TNever), (''url'', False,
       TLit ''/api/tournaments/{tournament_id}/players_multi'')]"

definition tsCreateMultiplePlayersApiTournamentsTournamentIdPlayersMultiPostErrors :: ts_type where
  "tsCreateMultiplePlayersApiTournamentsTournamentIdPlayersMultiPostErrors =
     TObject [(''422'', False, tsHttpValidationError)]"

definition tsCreateMultiplePlayersApiTournamentsTournamentIdPlayersMultiPostError :: ts_type where
  "tsCreateMultiplePlayersApiTournamentsTournamentIdPlayersMultiPostError =
     ts_values tsCreateMultiplePlayersApiTournamentsTournamentIdPlayersMultiPostErrors"

definition tsCreateMultiplePlayersApiTournamentsTournamentIdPlayersMultiPostResponses :: ts_type where
  "tsCreateMultiplePlayersApiTournamentsTournamentIdPlayersMultiPostResponses =
     TObject [(''200'', False, tsSuccessResponse)]"

definition tsCreateMultiplePlayersApiTournamentsTournamentIdPlayersMultiPostResponse :: ts_type where
  "tsCreateMultiplePlayersApiTournamentsTournamentIdPlayersMultiPostResponse =
     ts_values tsCreateMultiplePlayersApiTournamentsTournamentIdPlayersMultiPostResponses"

definition tsGetRankingsApiTournamentsTournamentIdRankingsGetData :: ts_type where
  "tsGetRankingsApiTournamentsTournamentIdRankingsGetData =
     TObject [(''body'', True, TNever), (''path'', False, TObject [(''tournament_id'', False, TNumber)]),
       (''query'', True, TNever), (''url'', False, TLit ''/api/tournaments/{tournament_id}/rankings'')]"

definition tsGetRankingsApiTournamentsTournamentIdRankingsGetErrors :: ts_type where
  "tsGetRankingsApiTournamentsTournamentIdRankingsGetErrors =
     TObject [(''422'', False, tsHttpValidationError)]"

definition tsGetRankingsApiTournamentsTournamentIdRankingsGetError :: ts_type where
  "tsGetRankingsApiTournamentsTournamentIdRankingsGetError =
     ts_values tsGetRankingsApiTournamentsTournamentIdRankingsGetErrors"

definition tsGetRankingsApiTournamentsTournamentIdRankingsGetResponses :: ts_type where
  "tsGetRankingsApiTournamentsTournamentIdRankingsGetResponses =
     TObject [(''200'', False, tsRankingsResponse)]"

definition tsGetRankingsApiTournamentsTournamentIdRankingsGetResponse :: ts_type where
  "tsGetRankingsApiTournamentsTournamentIdRankingsGetResponse =
     ts_values tsGetRankingsApiTournamentsTournamentIdRankingsGetResponses"

definition tsCreateRankingApiTournamentsTournamentIdRankingsPostData :: ts_type where
  "tsCreateRankingApiTournamentsTournamentIdRankingsPostData =
     TObject [(''body'', False, tsRankingCreateBody), (''path'', False,
       TObject [(''tournament_id'', False, TNumber)]), (''query'', True, TNever), (''url'', False,
       TLit ''/api/tournaments/{tournament_id}/rankings'')]"

definition tsCreateRankingApiTournamentsTournamentIdRankingsPostErrors :: ts_type where
  "tsCreateRankingApiTournamentsTournamentIdRankingsPostErrors =
     TObject [(''422'', False, tsHttpValidationError)]"

definition tsCreateRankingApiTournamentsTournamentIdRankingsPostError :: ts_type where
  "tsCreateRankingApiTournamentsTournamentIdRankingsPostError =
     ts_values tsCreateRankingApiTournamentsTournamentIdRankingsPostErrors"

definition tsCreateRankingApiTournamentsTournamentIdRankingsPostResponses :: ts_type where
  "tsCreateRankingApiTournamentsTournamentIdRankingsPostResponses =
     TObject [(''200'', False, tsSuccessResponse)]"

definition tsCreateRankingApiTournamentsTournamentIdRankingsPostResponse :: ts_type where
  "tsCreateRankingApiTournamentsTournamentIdRankingsPostResponse =
     ts_values tsCreateRankingApiTournamentsTournamentIdRankingsPostResponses"

definition tsDeleteRankingApiTournamentsTournamentIdRankingsRankingIdDeleteData :: ts_type where
  "tsDeleteRankingApiTournamentsTournamentIdRankingsRankingIdDeleteData =
     TObject [(''body'', True, TNever), (''path'', False, TObject [(''tournament_id'', False, TNumber),
       (''ranking_id'', False, TNumber)]), (''query'', True, TNever), (''url'', False,
       TLit ''/api/tournaments/{tournament_id}/rankings/{ranking_id}'')]"

definition tsDeleteRankingApiTournamentsTournamentIdRankingsRankingIdDeleteErrors :: ts_type where
  "tsDeleteRankingApiTournamentsTournamentIdRankingsRankingIdDeleteErrors =
     TObject [(''422'', False, tsHttpValidationError)]"

definition tsDeleteRankingApiTournamentsTournamentIdRankingsRankingIdDeleteError :: ts_type where
  "tsDeleteRankingApiTournamentsTournamentIdRankingsRankingIdDeleteError =
     ts_values tsDeleteRankingApiTournamentsTournamentIdRankingsRankingIdDeleteErrors"

definition tsDeleteRankingApiTournamentsTournamentIdRankingsRankingIdDeleteResponses :: ts_type where
  "tsDeleteRankingApiTournamentsTournamentIdRankingsRankingIdDeleteResponses =
     TObject [(''200'', False, tsSuccessResponse)]"

definition tsDeleteRankingApiTournamentsTournamentIdRankingsRankingIdDeleteResponse :: ts_type where
  "tsDeleteRankingApiTournamentsTournamentIdRankingsRankingIdDeleteResponse =
     ts_values tsDeleteRankingApiTournamentsTournamentIdRankingsRankingIdDeleteResponses"

definition tsUpdateRankingByIdApiTournamentsTournamentIdRankingsRankingIdPutData :: ts_type where
  "tsUpdateRankingByIdApiTournamentsTournamentIdRankingsRankingIdPutData =
     TObject [(''body'', False, tsRankingBody), (''path'', False, TObject [(''tournament_id'', False, TNumber),
       (''ranking_id'', False, TNumber)]), (''query'', True, TNever), (''url'', False,
       TLit ''/api/tournaments/{tournament_id}/rankings/{ranking_id}'')]"

definition tsUpdateRankingByIdApiTournamentsTournamentIdRankingsRankingIdPutErrors :: ts_type where
  "tsUpdateRankingByIdApiTournamentsTournamentIdRankingsRankingIdPutErrors =
     TObject [(''422'', False, tsHttpValidationError)]"

definition tsUpdateRankingByIdApiTournamentsTournamentIdRankingsRankingIdPutError :: ts_type where
  "tsUpdateRankingByIdApiTournamentsTournamentIdRankingsRankingIdPutError =
     ts_values tsUpdateRankingByIdApiTournamentsTournamentIdRankingsRankingIdPutErrors"

definition tsUpdateRankingByIdApiTournamentsTournamentIdRankingsRankingIdPutResponses :: ts_type where
  "tsUpdateRankingByIdApiTournamentsTournamentIdRankingsRankingIdPutResponses =
     TObject [(''200'', False, tsSuccessResponse)]"

definition tsUpdateRankingByIdApiTournamentsTournamentIdRankingsRankingIdPutResponse :: ts_type where
  "tsUpdateRankingByIdApiTournamentsTournamentIdRankingsRankingIdPutResponse =
     ts_values tsUpdateRankingByIdApiTournamentsTournamentIdRankingsRankingIdPutResponses"

definition tsCreateRoundApiTournamentsTournamentIdRoundsPostData :: ts_type where
  "tsCreateRoundApiTournamentsTournamentIdRoundsPostData =
     TObject [(''body'', False, tsRoundCreateBody), (''path'', False,
       TObject [(''tournament_id'', False, TNumber)]), (''query'', True, TNever), (''url'', False,
       TLit ''/api/tournaments/{tournament_id}/rounds'')]"

definition tsCreateRoundApiTournamentsTournamentIdRoundsPostErrors :: ts_type where
  "tsCreateRoundApiTournamentsTournamentIdRoundsPostErrors =
     TObject [(''422'', False, tsHttpValidationError)]"

definition tsCreateRoundApiTournamentsTournamentIdRoundsPostError :: ts_type where
  "tsCreateRoundApiTournamentsTournamentIdRoundsPostError =
     ts_values tsCreateRoundApiTournamentsTournamentIdRoundsPostErrors"

definition tsCreateRoundApiTournamentsTournamentIdRoundsPostResponses :: ts_type where
  "tsCreateRoundApiTournamentsTournamentIdRoundsPostResponses =
     TObject [(''200'', False, tsSuccessResponse)]"

definition tsCreateRoundApiTournamentsTournamentIdRoundsPostResponse :: ts_type where
  "tsCreateRoundApiTournamentsTournamentIdRoundsPostResponse =
     ts_values tsCreateRoundApiTournamentsTournamentIdRoundsPostResponses"

definition tsDeleteRoundApiTournamentsTournamentIdRoundsRoundIdDeleteData :: ts_type where
  "tsDeleteRoundApiTournamentsTournamentIdRoundsRoundIdDeleteData =
     TObject [(''body'', True, TNever), (''path'', False, TObject [(''tournament_id'', False, TNumber),
       (''round_id'', False, TNumber)]), (''query'', True, TNever), (''url'', False,
       TLit ''/api/tournaments/{tournament_id}/rounds/{round_id}'')]"

definition tsDeleteRoundApiTournamentsTournamentIdRoundsRoundIdDeleteErrors :: ts_type where
  "tsDeleteRoundApiTournamentsTournamentIdRoundsRoundIdDeleteErrors =
     TObject [(''422'', False, tsHttpValidationError)]"

definition tsDeleteRoundApiTournamentsTournamentIdRoundsRoundIdDeleteError :: ts_type where
  "tsDeleteRoundApiTournamentsTournamentIdRoundsRoundIdDeleteError =
     ts_values tsDeleteRoundApiTournamentsTournamentIdRoundsRoundIdDeleteErrors"

definition tsDeleteRoundApiTournamentsTournamentIdRoundsRoundIdDeleteResponses :: ts_type where
  "tsDeleteRoundApiTournamentsTournamentIdRoundsRoundIdDeleteResponses =
     TObject [(''200'', False, tsSuccessResponse)]"

definition tsDeleteRoundApiTournamentsTournamentIdRoundsRoundIdDeleteResponse :: ts_type where
  "tsDeleteRoundApiTournamentsTournamentIdRoundsRoundIdDeleteResponse =
     ts_values tsDeleteRoundApiTournamentsTournamentIdRoundsRoundIdDeleteResponses"

definition tsUpdateRoundByIdApiTournamentsTournamentIdRoundsRoundIdPutData :: ts_type where
  "tsUpdateRoundByIdApiTournamentsTournamentIdRoundsRoundIdPutData =
     TObject [(''body'', False, tsRoundUpdateBody), (''path'', False,
       TObject [(''tournament_id'', False, TNumber), (''round_id'', False, TNumber)]), (''query'', True, TNever),
       (''url'', False, TLit ''/api/tournaments/{tournament_id}/rounds/{round_id}'')]"

definition tsUpdateRoundByIdApiTournamentsTournamentIdRoundsRoundIdPutErrors :: ts_type where
  "tsUpdateRoundByIdApiTournamentsTournamentIdRoundsRoundIdPutErrors =
     TObject [(''422'', False, tsHttpValidationError)]"

definition tsUpdateRoundByIdApiTournamentsTournamentIdRoundsRoundIdPutError :: ts_type where
  "tsUpdateRoundByIdApiTournamentsTournamentIdRoundsRoundIdPutError =
     ts_values tsUpdateRoundByIdApiTournamentsTournamentIdRoundsRoundIdPutErrors"

definition tsUpdateRoundByIdApiTournamentsTournamentIdRoundsRoundIdPutResponses :: ts_type where
  "tsUpdateRoundByIdApiTournamentsTournamentIdRoundsRoundIdPutResponses =
     TObject [(''200'', False, tsSuccessResponse)]"

definition tsUpdateRoundByIdApiTournamentsTournamentIdRoundsRoundIdPutResponse :: ts_type where
  "tsUpdateRoundByIdApiTournamentsTournamentIdRoundsRoundIdPutResponse =
     ts_values tsUpdateRoundByIdApiTournamentsTournamentIdRoundsRoundIdPutResponses"

definition tsScheduleMatchesApiTournamentsTournamentIdScheduleMatchesPostData :: ts_type where
  "tsScheduleMatchesApiTournamentsTournamentIdScheduleMatchesPostData =
     TObject [(''body'', True, TNever), (''path'', False, TObject [(''tournament_id'', False, TNumber)]),
       (''query'', True, TNever), (''url'', False, TLit ''/api/tournaments/{tournament_id}/schedule_matches'')]"

definition tsScheduleMatchesApiTournamentsTournamentIdScheduleMatchesPostErrors :: ts_type where
  "tsScheduleMatchesApiTournamentsTournamentIdScheduleMatchesPostErrors =
     TObject [(''422'', False, tsHttpValidationError)]"

definition tsScheduleMatchesApiTournamentsTournamentIdScheduleMatchesPostError :: ts_type where
  "tsScheduleMatchesApiTournamentsTournamentIdScheduleMatchesPostError =
     ts_values tsScheduleMatchesApiTournamentsTournamentIdScheduleMatchesPostErrors"

definition tsScheduleMatchesApiTournamentsTournamentIdScheduleMatchesPostResponses :: ts_type where
  "tsScheduleMatchesApiTournamentsTournamentIdScheduleMatchesPostResponses =
     TObject [(''200'', False, tsSuccessResponse)]"

definition tsScheduleMatchesApiTournamentsTournamentIdScheduleMatchesPostResponse :: ts_type where
  "tsScheduleMatchesApiTournamentsTournamentIdScheduleMatchesPostResponse =
     ts_values tsScheduleMatchesApiTournamentsTournamentIdScheduleMatchesPostResponses"

definition tsCreateStageItemApiTournamentsTournamentIdStageItemsPostData :: ts_type where
  "tsCreateStageItemApiTournamentsTournamentIdStageItemsPostData =
     TObject [(''body'', False, tsStageItemCreateBody), (''path'', False,
       TObject [(''tournament_id'', False, TNumber)]), (''query'', True, TNever), (''url'', False,
       TLit ''/api/tournaments/{tournament_id}/stage_items'')]"

definition tsCreateStageItemApiTournamentsTournamentIdStageItemsPostErrors :: ts_type where
  "tsCreateStageItemApiTournamentsTournamentIdStageItemsPostErrors =
     TObject [(''422'', False, tsHttpValidationError)]"

definition tsCreateStageItemApiTournamentsTournamentIdStageItemsPostError :: ts_type where
  "tsCreateStageItemApiTournamentsTournamentIdStageItemsPostError =
     ts_values tsCreateStageItemApiTournamentsTournamentIdStageItemsPostErrors"

definition tsCreateStageItemApiTournamentsTournamentIdStageItemsPostResponses :: ts_type where
  "tsCreateStageItemApiTournamentsTournamentIdStageItemsPostResponses =
     TObject [(''200'', False, tsSuccessResponse)]"

definition tsCreateStageItemApiTournamentsTournamentIdStageItemsPostResponse :: ts_type where
  "tsCreateStageItemApiTournamentsTournamentIdStageItemsPostResponse =
     ts_values tsCreateStageItemApiTournamentsTournamentIdStageItemsPostResponses"

definition tsDeleteStageItemApiTournamentsTournamentIdStageItemsStageItemIdDeleteData :: ts_type where
  "tsDeleteStageItemApiTournamentsTournamentIdStageItemsStageItemIdDeleteData =
     TObject [(''body'', True, TNever), (''path'', False, TObject [(''tournament_id'', False, TNumber),
       (''stage_item_id'', False, TNumber)]), (''query'', True, TNever), (''url'', False,
       TLit ''/api/tournaments/{tournament_id}/stage_items/{stage_item_id}'')]"

definition tsDeleteStageItemApiTournamentsTournamentIdStageItemsStageItemIdDeleteErrors :: ts_type where
  "tsDeleteStageItemApiTournamentsTournamentIdStageItemsStageItemIdDeleteErrors =
     TObject [(''422'', False, tsHttpValidationError)]"

definition tsDeleteStageItemApiTournamentsTournamentIdStageItemsStageItemIdDeleteError :: ts_type where
  "tsDeleteStageItemApiTournamentsTournamentIdStageItemsStageItemIdDeleteError =
     ts_values tsDeleteStageItemApiTournamentsTournamentIdStageItemsStageItemIdDeleteErrors"

definition tsDeleteStageItemApiTournamentsTournamentIdStageItemsStageItemIdDeleteResponses :: ts_type where
  "tsDeleteStageItemApiTournamentsTournamentIdStageItemsStageItemIdDeleteResponses =
     TObject [(''200'', False, tsSuccessResponse)]"

definition tsDeleteStageItemApiTournamentsTournamentIdStageItemsStageItemIdDeleteResponse :: ts_type where
  "tsDeleteStageItemApiTournamentsTournamentIdStageItemsStageItemIdDeleteResponse =
     ts_values tsDeleteStageItemApiTournamentsTournamentIdStageItemsStageItemIdDeleteResponses"

definition tsUpdateStageItemApiTournamentsTournamentIdStageItemsStageItemIdPutData :: ts_type where
  "tsUpdateStageItemApiTournamentsTournamentIdStageItemsStageItemIdPutData =
     TObject [(''body'', False, tsStageItemUpdateBody), (''path'', False,
       TObject [(''tournament_id'', False, TNumber), (''stage_item_id'', False, TNumber)]),
       (''query'', True, TNever), (''url'', False,
       TLit ''/api/tournaments/{tournament_id}/stage_items/{stage_item_id}'')]"

definition tsUpdateStageItemApiTournamentsTournamentIdStageItemsStageItemIdPutErrors :: ts_type where
  "tsUpdateStageItemApiTournamentsTournamentIdStageItemsStageItemIdPutErrors =
     TObject [(''422'', False, tsHttpValidationError)]"

definition tsUpdateStageItemApiTournamentsTournamentIdStageItemsStageItemIdPutError :: ts_type where
  "tsUpdateStageItemApiTournamentsTournamentIdStageItemsStageItemIdPutError =
     ts_values tsUpdateStageItemApiTournamentsTournamentIdStageItemsStageItemIdPutErrors"

definition tsUpdateStageItemApiTournamentsTournamentIdStageItemsStageItemIdPutResponses :: ts_type where
  "tsUpdateStageItemApiTournamentsTournamentIdStageItemsStageItemIdPutResponses =
     TObject [(''200'', False, tsSuccessResponse)]"

definition tsUpdateStageItemApiTournamentsTournamentIdStageItemsStageItemIdPutResponse :: ts_type where
  "tsUpdateStageItemApiTournamentsTournamentIdStageItemsStageItemIdPutResponse =
     ts_values tsUpdateStageItemApiTournamentsTournamentIdStageItemsStageItemIdPutResponses"

definition tsUpdateStageItemInputApiTournamentsTournamentIdStageItemsStageItemIdInputsStageItemInputIdPutData :: ts_type where
  "tsUpdateStageItemInputApiTournamentsTournamentIdStageItemsStageItemIdInputsStageItemInputIdPutData =
     TObject [(''body'', False, TUnion [tsStageItemInputUpdateBodyTentative, tsStageItemInputUpdateBodyFinal,
       tsStageItemInputUpdateBodyEmpty]), (''path'', False, TObject [(''tournament_id'', False, TNumber),
       (''stage_item_id'', False, TNumber), (''stage_item_input_id'', False, TNumber)]),
       (''query'', True, TNever), (''url'', False,
       TLit ''/api/tournaments/{tournament_id}/stage_items/{stage_item_id}/inputs/{stage_item_input_id}'')]"

definition tsUpdateStageItemInputApiTournamentsTournamentIdStageItemsStageItemIdInputsStageItemInputIdPutErrors :: ts_type where
  "tsUpdateStageItemInputApiTournamentsTournamentIdStageItemsStageItemIdInputsStageItemInputIdPutErrors =
     TObject [(''422'', False, tsHttpValidationError)]"

definition tsUpdateStageItemInputApiTournamentsTournamentIdStageItemsStageItemIdInputsStageItemInputIdPutError :: ts_type where
  "tsUpdateStageItemInputApiTournamentsTournamentIdStageItemsStageItemIdInputsStageItemInputIdPutError =
     ts_values tsUpdateStageItemInputApiTournamentsTournamentIdStageItemsStageItemIdInputsStageItemInputIdPutErrors"

definition tsUpdateStageItemInputApiTournamentsTournamentIdStageItemsStageItemIdInputsStageItemInputIdPutResponses :: ts_type where
  "tsUpdateStageItemInputApiTournamentsTournamentIdStageItemsStageItemIdInputsStageItemInputIdPutResponses =
     TObject [(''200'', False, tsSuccessResponse)]"

definition tsUpdateStageItemInputApiTournamentsTournamentIdStageItemsStageItemIdInputsStageItemInputIdPutResponse :: ts_type where
  "tsUpdateStageItemInputApiTournamentsTournamentIdStageItemsStageItemIdInputsStageItemInputIdPutResponse =
     ts_values tsUpdateStageItemInputApiTournamentsTournamentIdStageItemsStageItemIdInputsStageItemInputIdPutResponses"

definition tsGetStagesApiTournamentsTournamentIdStagesGetData :: ts_type where
  "tsGetStagesApiTournamentsTournamentIdStagesGetData =
     TObject [(''body'', True, TNever), (''path'', False, TObject [(''tournament_id'', False, TNumber)]),
       (''query'', True, TObject [(''no_draft_rounds'', True, TBoolean)]), (''url'', False,
       TLit ''/api/tournaments/{tournament_id}/stages'')]"

definition tsGetStagesApiTournamentsTournamentIdStagesGetErrors :: ts_type where
  "tsGetStagesApiTournamentsTournamentIdStagesGetErrors =
     TObject [(''422'', False, tsHttpValidationError)]"

definition tsGetStagesApiTournamentsTournamentIdStagesGetError :: ts_type where
  "tsGetStagesApiTournamentsTournamentIdStagesGetError =
     ts_values tsGetStagesApiTournamentsTournamentIdStagesGetErrors"

definition tsGetStagesApiTournamentsTournamentIdStagesGetResponses :: ts_type where
  "tsGetStagesApiTournamentsTournamentIdStagesGetResponses =
     TObject [(''200'', False, tsStagesWithStageItemsResponse)]"

definition tsGetStagesApiTournamentsTournamentIdStagesGetResponse :: ts_type where
  "tsGetStagesApiTournamentsTournamentIdStagesGetResponse =
     ts_values tsGetStagesApiTournamentsTournamentIdStagesGetResponses"

definition tsCreateStageApiTournamentsTournamentIdStagesPostData :: ts_type where
  "tsCreateStageApiTournamentsTournamentIdStagesPostData =
     TObject [(''body'', True, TNever), (''path'', False, TObject [(''tournament_id'', False, TNumber)]),
       (''query'', True, TNever), (''url'', False, TLit ''/api/tournaments/{tournament_id}/stages'')]"

definition tsCreateStageApiTournamentsTournamentIdStagesPostErrors :: ts_type where
  "tsCreateStageApiTournamentsTournamentIdStagesPostErrors =
     TObject [(''422'', False, tsHttpValidationError)]"

definition tsCreateStageApiTournamentsTournamentIdStagesPostError :: ts_type where
  "tsCreateStageApiTournamentsTournamentIdStagesPostError =
     ts_values tsCreateStageApiTournamentsTournamentIdStagesPostErrors"

definition tsCreateStageApiTournamentsTournamentIdStagesPostResponses :: ts_type where
  "tsCreateStageApiTournamentsTournamentIdStagesPostResponses =
     TObject [(''200'', False, tsSuccessResponse)]"

definition tsCreateStageApiTournamentsTournamentIdStagesPostResponse :: ts_type where
  "tsCreateStageApiTournamentsTournamentIdStagesPostResponse =
     ts_values tsCreateStageApiTournamentsTournamentIdStagesPostResponses"

definition tsActivateNextStageApiTournamentsTournamentIdStagesActivatePostData :: ts_type where
  "tsActivateNextStageApiTournamentsTournamentIdStagesActivatePostData =
     TObject [(''body'', False, tsStageActivateBody), (''path'', False,
       TObject [(''tournament_id'', False, TNumber)]), (''query'', True, TNever), (''url'', False,
       TLit ''/api/tournaments/{tournament_id}/stages/activate'')]"

definition tsActivateNextStageApiTournamentsTournamentIdStagesActivatePostErrors :: ts_type where
  "tsActivateNextStageApiTournamentsTournamentIdStagesActivatePostErrors =
     TObject [(''422'', False, tsHttpValidationError)]"

definition tsActivateNextStageApiTournamentsTournamentIdStagesActivatePostError :: ts_type where
  "tsActivateNextStageApiTournamentsTournamentIdStagesActivatePostError =
     ts_values tsActivateNextStageApiTournamentsTournamentIdStagesActivatePostErrors"

definition tsActivateNextStageApiTournamentsTournamentIdStagesActivatePostResponses :: ts_type where
  "tsActivateNextStageApiTournamentsTournamentIdStagesActivatePostResponses =
     TObject [(''200'', False, tsSuccessResponse)]"

definition tsActivateNextStageApiTournamentsTournamentIdStagesActivatePostResponse :: ts_type where
  "tsActivateNextStageApiTournamentsTournamentIdStagesActivatePostResponse =
     ts_values tsActivateNextStageApiTournamentsTournamentIdStagesActivatePostResponses"

definition tsDeleteStageApiTournamentsTournamentIdStagesStageIdDeleteData :: ts_type where
  "tsDeleteStageApiTournamentsTournamentIdStagesStageIdDeleteData =
     TObject [(''body'', True, TNever), (''path'', False, TObject [(''tournament_id'', False, TNumber),
       (''stage_id'', False, TNumber)]), (''query'', True, TNever), (''url'', False,
       TLit ''/api/tournaments/{tournament_id}/stages/{stage_id}'')]"

definition tsDeleteStageApiTournamentsTournamentIdStagesStageIdDeleteErrors :: ts_type where
  "tsDeleteStageApiTournamentsTournamentIdStagesStageIdDeleteErrors =
     TObject [(''422'', False, tsHttpValidationError)]"

definition tsDeleteStageApiTournamentsTournamentIdStagesStageIdDeleteError :: ts_type where
  "tsDeleteStageApiTournamentsTournamentIdStagesStageIdDeleteError =
     ts_values tsDeleteStageApiTournamentsTournamentIdStagesStageIdDeleteErrors"

definition tsDeleteStageApiTournamentsTournamentIdStagesStageIdDeleteResponses :: ts_type where
  "tsDeleteStageApiTournamentsTournamentIdStagesStageIdDeleteResponses =
     TObject [(''200'', False, tsSuccessResponse)]"

definition tsDeleteStageApiTournamentsTournamentIdStagesStageIdDeleteResponse :: ts_type where
  "tsDeleteStageApiTournamentsTournamentIdStagesStageIdDeleteResponse =
     ts_values tsDeleteStageApiTournamentsTournamentIdStagesStageIdDeleteResponses"

definition tsUpdateStageApiTournamentsTournamentIdStagesStageIdPutData :: ts_type where
  "tsUpdateStageApiTournamentsTournamentIdStagesStageIdPutData =
     TObject [(''body'', False, tsStageUpdateBody), (''path'', False,
       TObject [(''tournament_id'', False, TNumber), (''stage_id'', False, TNumber)]), (''query'', True, TNever),
       (''url'', False, TLit ''/api/tournaments/{tournament_id}/stages/{stage_id}'')]"

definition tsUpdateStageApiTournamentsTournamentIdStagesStageIdPutErrors :: ts_type where
  "tsUpdateStageApiTournamentsTournamentIdStagesStageIdPutErrors =
     TObject [(''422'', False, tsHttpValidationError)]"

definition tsUpdateStageApiTournamentsTournamentIdStagesStageIdPutError :: ts_type where
  "tsUpdateStageApiTournamentsTournamentIdStagesStageIdPutError =
     ts_values tsUpdateStageApiTournamentsTournamentIdStagesStageIdPutErrors"

definition tsUpdateStageApiTournamentsTournamentIdStagesStageIdPutResponses :: ts_type where
  "tsUpdateStageApiTournamentsTournamentIdStagesStageIdPutResponses =
     TObject [(''200'', False, tsSuccessResponse)]"

definition tsUpdateStageApiTournamentsTournamentIdStagesStageIdPutResponse :: ts_type where
  "tsUpdateStageApiTournamentsTournamentIdStagesStageIdPutResponse =
     ts_values tsUpdateStageApiTournamentsTournamentIdStagesStageIdPutResponses"

definition tsGetStandingsApiTournamentsTournamentIdStandingsGetData :: ts_type where
  "tsGetStandingsApiTournamentsTournamentIdStandingsGetData =
     TObject [(''body'', True, TNever), (''path'', False, TObject [(''tournament_id'', False, TNumber)]),
       (''query'', True, TNever), (''url'', False, TLit ''/api/tournaments/{tournament_id}/standings'')]"

definition tsGetStandingsApiTournamentsTournamentIdStandingsGetErrors :: ts_type where
  "tsGetStandingsApiTournamentsTournamentIdStandingsGetErrors =
     TObject [(''422'', False, tsHttpValidationError)]"

definition tsGetStandingsApiTournamentsTournamentIdStandingsGetError :: ts_type where
  "tsGetStandingsApiTournamentsTournamentIdStandingsGetError =
     ts_values tsGetStandingsApiTournamentsTournamentIdStandingsGetErrors"

definition tsGetStandingsApiTournamentsTournamentIdStandingsGetResponses :: ts_type where
  "tsGetStandingsApiTournamentsTournamentIdStandingsGetResponses =
     TObject [(''200'', False, tsStandingsResponse)]"

definition tsGetStandingsApiTournamentsTournamentIdStandingsGetResponse :: ts_type where
  "tsGetStandingsApiTournamentsTournamentIdStandingsGetResponse =
     ts_values tsGetStandingsApiTournamentsTournamentIdStandingsGetResponses"

definition tsGetTeamsApiTournamentsTournamentIdTeamsGetData :: ts_type where
  "tsGetTeamsApiTournamentsTournamentIdTeamsGetData =
     TObject [(''body'', True, TNever), (''path'', False, TObject [(''tournament_id'', False, TNumber)]),
       (''query'', True, TObject [(''limit'', True, TNumber), (''offset'', True, TNumber),
       (''sort_direction'', True, TUnion [TLit ''asc'', TLit ''desc'']), (''sort_by'', True,
       TUnion [TLit ''name'', TLit ''elo_score'', TLit ''swiss_score'', TLit ''wins'', TLit ''draws'',
       TLit ''losses'', TLit ''active'', TLit ''created''])]), (''url'', False,
       TLit ''/api/tournaments/{tournament_id}/teams'')]"

definition tsGetTeamsApiTournamentsTournamentIdTeamsGetErrors :: ts_type where
  "tsGetTeamsApiTournamentsTournamentIdTeamsGetErrors =
     TObject [(''422'', False, tsHttpValidationError)]"

definition tsGetTeamsApiTournamentsTournamentIdTeamsGetError :: ts_type where
  "tsGetTeamsApiTournamentsTournamentIdTeamsGetError =
     ts_values tsGetTeamsApiTournamentsTournamentIdTeamsGetErrors"

definition tsGetTeamsApiTournamentsTournamentIdTeamsGetResponses :: ts_type where
  "tsGetTeamsApiTournamentsTournamentIdTeamsGetResponses =
     TObject [(''200'', False, tsTeamsWithPlayersResponse)]"

definition tsGetTeamsApiTournamentsTournamentIdTeamsGetResponse :: ts_type where
  "tsGetTeamsApiTournamentsTournamentIdTeamsGetResponse =
     ts_values tsGetTeamsApiTournamentsTournamentIdTeamsGetResponses"

definition tsCreateTeamApiTournamentsTournamentIdTeamsPostData :: ts_type where
  "tsCreateTeamApiTournamentsTournamentIdTeamsPostData =
     TObject [(''body'', False, tsTeamBody), (''path'', False, TObject [(''tournament_id'', False, TNumber)]),
       (''query'', True, TNever), (''url'', False, TLit ''/api/tournaments/{tournament_id}/teams'')]"

definition tsCreateTeamApiTournamentsTournamentIdTeamsPostErrors :: ts_type where
  "tsCreateTeamApiTournamentsTournamentIdTeamsPostErrors =
     TObject [(''422'', False, tsHttpValidationError)]"

definition tsCreateTeamApiTournamentsTournamentIdTeamsPostError :: ts_type where
  "tsCreateTeamApiTournamentsTournamentIdTeamsPostError =
     ts_values tsCreateTeamApiTournamentsTournamentIdTeamsPostErrors"

definition tsCreateTeamApiTournamentsTournamentIdTeamsPostResponses :: ts_type where
  "tsCreateTeamApiTournamentsTournamentIdTeamsPostResponses =
     TObject [(''200'', False, tsSingleTeamResponse)]"

definition tsCreateTeamApiTournamentsTournamentIdTeamsPostResponse :: ts_type where
  "tsCreateTeamApiTournamentsTournamentIdTeamsPostResponse =
     ts_values tsCreateTeamApiTournamentsTournamentIdTeamsPostResponses"

definition tsDeleteTeamApiTournamentsTournamentIdTeamsTeamIdDeleteData :: ts_type where
  "tsDeleteTeamApiTournamentsTournamentIdTeamsTeamIdDeleteData =
     TObject [(''body'', True, TNever), (''path'', False, TObject [(''tournament_id'', False, TNumber),
       (''team_id'', False, TNumber)]), (''query'', True, TNever), (''url'', False,
       TLit ''/api/tournaments/{tournament_id}/teams/{team_id}'')]"

definition tsDeleteTeamApiTournamentsTournamentIdTeamsTeamIdDeleteErrors :: ts_type where
  "tsDeleteTeamApiTournamentsTournamentIdTeamsTeamIdDeleteErrors =
     TObject [(''422'', False, tsHttpValidationError)]"

definition tsDeleteTeamApiTournamentsTournamentIdTeamsTeamIdDeleteError :: ts_type where
  "tsDeleteTeamApiTournamentsTournamentIdTeamsTeamIdDeleteError =
     ts_values tsDeleteTeamApiTournamentsTournamentIdTeamsTeamIdDeleteErrors"

definition tsDeleteTeamApiTournamentsTournamentIdTeamsTeamIdDeleteResponses :: ts_type where
  "tsDeleteTeamApiTournamentsTournamentIdTeamsTeamIdDeleteResponses =
     TObject [(''200'', False, tsSuccessResponse)]"

definition tsDeleteTeamApiTournamentsTournamentIdTeamsTeamIdDeleteResponse :: ts_type where
  "tsDeleteTeamApiTournamentsTournamentIdTeamsTeamIdDeleteResponse =
     ts_values tsDeleteTeamApiTournamentsTournamentIdTeamsTeamIdDeleteResponses"

definition tsUpdateTeamByIdApiTournamentsTournamentIdTeamsTeamIdPutData :: ts_type where
  "tsUpdateTeamByIdApiTournamentsTournamentIdTeamsTeamIdPutData =
     TObject [(''body'', False, tsTeamBody), (''path'', False, TObject [(''tournament_id'', False, TNumber),
       (''team_id'', False, TNumber)]), (''query'', True, TNever), (''url'', False,
       TLit ''/api/tournaments/{tournament_id}/teams/{team_id}'')]"

definition tsUpdateTeamByIdApiTournamentsTournamentIdTeamsTeamIdPutErrors :: ts_type where
  "tsUpdateTeamByIdApiTournamentsTournamentIdTeamsTeamIdPutErrors =
     TObject [(''422'', False, tsHttpValidationError)]"

definition tsUpdateTeamByIdApiTournamentsTournamentIdTeamsTeamIdPutError :: ts_type where
  "tsUpdateTeamByIdApiTournamentsTournamentIdTeamsTeamIdPutError =
     ts_values tsUpdateTeamByIdApiTournamentsTournamentIdTeamsTeamIdPutErrors"

definition tsUpdateTeamByIdApiTournamentsTournamentIdTeamsTeamIdPutResponses :: ts_type where
  "tsUpdateTeamByIdApiTournamentsTournamentIdTeamsTeamIdPutResponses =
     TObject [(''200'', False, tsSingleTeamResponse)]"

definition tsUpdateTeamByIdApiTournamentsTournamentIdTeamsTeamIdPutResponse :: ts_type where
  "tsUpdateTeamByIdApiTournamentsTournamentIdTeamsTeamIdPutResponse =
     ts_values tsUpdateTeamByIdApiTournamentsTournamentIdTeamsTeamIdPutResponses"

definition tsGetTeamLogoApiTournamentsTournamentIdTeamsTeamIdLogoGetData :: ts_type where
  "tsGetTeamLogoApiTournamentsTournamentIdTeamsTeamIdLogoGetData =
     TObject [(''body'', True, TNever), (''path'', False, TObject [(''tournament_id'', False, TNumber),
       (''team_id'', False, TNumber)]), (''query'', True, TNever), (''url'', False,
       TLit ''/api/tournaments/{tournament_id}/teams/{team_id}/logo'')]"

definition tsGetTeamLogoApiTournamentsTournamentIdTeamsTeamIdLogoGetErrors :: ts_type where
  "tsGetTeamLogoApiTournamentsTournamentIdTeamsTeamIdLogoGetErrors =
     TObject [(''422'', False, tsHttpValidationError)]"

definition tsGetTeamLogoApiTournamentsTournamentIdTeamsTeamIdLogoGetError :: ts_type where
  "tsGetTeamLogoApiTournamentsTournamentIdTeamsTeamIdLogoGetError =
     ts_values tsGetTeamLogoApiTournamentsTournamentIdTeamsTeamIdLogoGetErrors"

definition tsGetTeamLogoApiTournamentsTournamentIdTeamsTeamIdLogoGetResponses :: ts_type where
  "tsGetTeamLogoApiTournamentsTournamentIdTeamsTeamIdLogoGetResponses =
     TObject [(''200'', False, TUnknown)]"

definition tsUpdateTeamLogoApiTournamentsTournamentIdTeamsTeamIdLogoPostData :: ts_type where
  "tsUpdateTeamLogoApiTournamentsTournamentIdTeamsTeamIdLogoPostData =
     TObject [(''body'', True, tsBodyUpdateTeamLogoApiTournamentsTournamentIdTeamsTeamIdLogoPost),
       (''path'', False, TObject [(''tournament_id'', False, TNumber), (''team_id'', False, TNumber)]),
       (''query'', True, TNever), (''url'', False,
       TLit ''/api/tournaments/{tournament_id}/teams/{team_id}/logo'')]"

definition tsUpdateTeamLogoApiTournamentsTournamentIdTeamsTeamIdLogoPostErrors :: ts_type where
  "tsUpdateTeamLogoApiTournamentsTournamentIdTeamsTeamIdLogoPostErrors =
     TObject [(''422'', False, tsHttpValidationError)]"

definition tsUpdateTeamLogoApiTournamentsTournamentIdTeamsTeamIdLogoPostError :: ts_type where
  "tsUpdateTeamLogoApiTournamentsTournamentIdTeamsTeamIdLogoPostError =
     ts_values tsUpdateTeamLogoApiTournamentsTournamentIdTeamsTeamIdLogoPostErrors"

definition tsUpdateTeamLogoApiTournamentsTournamentIdTeamsTeamIdLogoPostResponses :: ts_type where
  "tsUpdateTeamLogoApiTournamentsTournamentIdTeamsTeamIdLogoPostResponses =
     TObject [(''200'', False, tsSingleTeamResponse)]"

definition tsUpdateTeamLogoApiTournamentsTournamentIdTeamsTeamIdLogoPostResponse :: ts_type where
  "tsUpdateTeamLogoApiTournamentsTournamentIdTeamsTeamIdLogoPostResponse =
     ts_values tsUpdateTeamLogoApiTournamentsTournamentIdTeamsTeamIdLogoPostResponses"

definition tsCreateMultipleTeamsApiTournamentsTournamentIdTeamsMultiPostData :: ts_type where
  "tsCreateMultipleTeamsApiTournamentsTournamentIdTeamsMultiPostData =
     TObject [(''body'', False, tsTeamMultiBody), (''path'', False,
       TObject [(''tournament_id'', False, TNumber)]), (''query'', True, TNever), (''url'', False,
       TLit ''/api/tournaments/{tournament_id}/teams_multi'')]"

definition tsCreateMultipleTeamsApiTournamentsTournamentIdTeamsMultiPostErrors :: ts_type where
  "tsCreateMultipleTeamsApiTournamentsTournamentIdTeamsMultiPostErrors =
     TObject [(''422'', False, tsHttpValidationError)]"

definition tsCreateMultipleTeamsApiTournamentsTournamentIdTeamsMultiPostError :: ts_type where
  "tsCreateMultipleTeamsApiTournamentsTournamentIdTeamsMultiPostError =
     ts_values tsCreateMultipleTeamsApiTournamentsTournamentIdTeamsMultiPostErrors"

definition tsCreateMultipleTeamsApiTournamentsTournamentIdTeamsMultiPostResponses :: ts_type where
  "tsCreateMultipleTeamsApiTournamentsTournamentIdTeamsMultiPostResponses =
     TObject [(''200'', False, tsSuccessResponse)]"

definition tsCreateMultipleTeamsApiTournamentsTournamentIdTeamsMultiPostResponse :: ts_type where
  "tsCreateMultipleTeamsApiTournamentsTournamentIdTeamsMultiPostResponse =
     ts_values tsCreateMultipleTeamsApiTournamentsTournamentIdTeamsMultiPostResponses"

definition tsGetUserApiUsersMeGetData :: ts_type where
  "tsGetUserApiUsersMeGetData =
     TObject [(''body'', True, TNever), (''path'', True, TNever), (''query'', True, TNever), (''url'', False,
       TLit ''/api/users/me'')]"

definition tsGetUserApiUsersMeGetResponses :: ts_type where
  "tsGetUserApiUsersMeGetResponses =
     TObject [(''200'', False, tsUserPublicResponse)]"

definition tsGetUserApiUsersMeGetResponse :: ts_type where
  "tsGetUserApiUsersMeGetResponse =
     ts_values tsGetUserApiUsersMeGetResponses"

definition tsRegisterUserApiUsersRegisterPostData :: ts_type where
  "tsRegisterUserApiUsersRegisterPostData =
     TObject [(''body'', False, tsUserToRegister), (''path'', True, TNever), (''query'', True, TNever),
       (''url'', False, TLit ''/api/users/register'')]"

definition tsRegisterUserApiUsersRegisterPostErrors :: ts_type where
  "tsRegisterUserApiUsersRegisterPostErrors =
     TObject [(''422'', False, tsHttpValidationError)]"

definition tsRegisterUserApiUsersRegisterPostError :: ts_type where
  "tsRegisterUserApiUsersRegisterPostError =
     ts_values tsRegisterUserApiUsersRegisterPostErrors"

definition tsRegisterUserApiUsersRegisterPostResponses :: ts_type where
  "tsRegisterUserApiUsersRegisterPostResponses =
     TObject [(''200'', False, tsTokenResponse)]"

definition tsRegisterUserApiUsersRegisterPostResponse :: ts_type where
  "tsRegisterUserApiUsersRegisterPostResponse =
     ts_values tsRegisterUserApiUsersRegisterPostResponses"

definition tsGetMeApiUsersUserIdGetData :: ts_type where
  "tsGetMeApiUsersUserIdGetData =
     TObject [(''body'', True, TNever), (''path'', False, TObject [(''user_id'', False, TNumber)]),
       (''query'', True, TNever), (''url'', False, TLit ''/api/users/{user_id}'')]"

definition tsGetMeApiUsersUserIdGetErrors :: ts_type where
  "tsGetMeApiUsersUserIdGetErrors =
     TObject [(''422'', False, tsHttpValidationError)]"

definition tsGetMeApiUsersUserIdGetError :: ts_type where
  "tsGetMeApiUsersUserIdGetError =
     ts_values tsGetMeApiUsersUserIdGetErrors"

definition tsGetMeApiUsersUserIdGetResponses :: ts_type where
  "tsGetMeApiUsersUserIdGetResponses =
     TObject [(''200'', False, tsUserPublicResponse)]"

definition tsGetMeApiUsersUserIdGetResponse :: ts_type where
  "tsGetMeApiUsersUserIdGetResponse =
     ts_values tsGetMeApiUsersUserIdGetResponses"

definition tsUpdateUserDetailsApiUsersUserIdPutData :: ts_type where
  "tsUpdateUserDetailsApiUsersUserIdPutData =
     TObject [(''body'', False, tsUserToUpdate), (''path'', False, TObject [(''user_id'', False, TNumber)]),
       (''query'', True, TNever), (''url'', False, TLit ''/api/users/{user_id}'')]"

definition tsUpdateUserDetailsApiUsersUserIdPutErrors :: ts_type where
  "tsUpdateUserDetailsApiUsersUserIdPutErrors =
     TObject [(''422'', False, tsHttpValidationError)]"

definition tsUpdateUserDetailsApiUsersUserIdPutError :: ts_type where
  "tsUpdateUserDetailsApiUsersUserIdPutError =
     ts_values tsUpdateUserDetailsApiUsersUserIdPutErrors"

definition tsUpdateUserDetailsApiUsersUserIdPutResponses :: ts_type where
  "tsUpdateUserDetailsApiUsersUserIdPutResponses =
     TObject [(''200'', False, tsUserPublicResponse)]"

definition tsUpdateUserDetailsApiUsersUserIdPutResponse :: ts_type where
  "tsUpdateUserDetailsApiUsersUserIdPutResponse =
     ts_values tsUpdateUserDetailsApiUsersUserIdPutResponses"

definition tsPutUserPasswordApiUsersUserIdPasswordPutData :: ts_type where
  "tsPutUserPasswordApiUsersUserIdPasswordPutData =
     TObject [(''body'', False, tsUserPasswordToUpdate), (''path'', False,
       TObject [(''user_id'', False, TNumber)]), (''query'', True, TNever), (''url'', False,
       TLit ''/api/users/{user_id}/password'')]"

definition tsPutUserPasswordApiUsersUserIdPasswordPutErrors :: ts_type where
  "tsPutUserPasswordApiUsersUserIdPasswordPutErrors =
     TObject [(''422'', False, tsHttpValidationError)]"

definition tsPutUserPasswordApiUsersUserIdPasswordPutError :: ts_type where
  "tsPutUserPasswordApiUsersUserIdPasswordPutError =
     ts_values tsPutUserPasswordApiUsersUserIdPasswordPutErrors"

definition tsPutUserPasswordApiUsersUserIdPasswordPutResponses :: ts_type where
  "tsPutUserPasswordApiUsersUserIdPasswordPutResponses =
     TObject [(''200'', False, tsSuccessResponse)]"

definition tsPutUserPasswordApiUsersUserIdPasswordPutResponse :: ts_type where
  "tsPutUserPasswordApiUsersUserIdPasswordPutResponse =
     ts_values tsPutUserPasswordApiUsersUserIdPasswordPutResponses"

section \<open>Which type belongs to what\<close>

text \<open>The type arguments each endpoint passes to the client: its request, its answers and its errors.\<close>

definition ENDPOINT_TYPES :: "(endpoint \<times> ts_type \<times> ts_type \<times> ts_type option) list" where
  "ENDPOINT_TYPES =
    [(getAuthFeaturesApiAuthFeaturesGet,
       tsGetAuthFeaturesApiAuthFeaturesGetData,
       tsGetAuthFeaturesApiAuthFeaturesGetResponses,
       None),
     (getClubsApiClubsGet,
       tsGetClubsApiClubsGetData,
       tsGetClubsApiClubsGetResponses,
       None),
     (createNewClubApiClubsPost,
       tsCreateNewClubApiClubsPostData,
       tsCreateNewClubApiClubsPostResponses,
       Some tsCreateNewClubApiClubsPostErrors),
     (deleteClubApiClubsClubIdDelete,
       tsDeleteClubApiClubsClubIdDeleteData,
       tsDeleteClubApiClubsClubIdDeleteResponses,
       Some tsDeleteClubApiClubsClubIdDeleteErrors),
     (updateClubApiClubsClubIdPut,
       tsUpdateClubApiClubsClubIdPutData,
       tsUpdateClubApiClubsClubIdPutResponses,
       Some tsUpdateClubApiClubsClubIdPutErrors),
     (logoutApiLogoutPost,
       tsLogoutApiLogoutPostData,
       tsLogoutApiLogoutPostResponses,
       None),
     (pingApiPingGet,
       tsPingApiPingGetData,
       tsPingApiPingGetResponses,
       None),
     (loginForAccessTokenApiTokenPost,
       tsLoginForAccessTokenApiTokenPostData,
       tsLoginForAccessTokenApiTokenPostResponses,
       Some tsLoginForAccessTokenApiTokenPostErrors),
     (getTournamentsApiTournamentsGet,
       tsGetTournamentsApiTournamentsGetData,
       tsGetTournamentsApiTournamentsGetResponses,
       Some tsGetTournamentsApiTournamentsGetErrors),
     (createTournamentApiTournamentsPost,
       tsCreateTournamentApiTournamentsPostData,
       tsCreateTournamentApiTournamentsPostResponses,
       Some tsCreateTournamentApiTournamentsPostErrors),
     (deleteTournamentApiTournamentsTournamentIdDelete,
       tsDeleteTournamentApiTournamentsTournamentIdDeleteData,
       tsDeleteTournamentApiTournamentsTournamentIdDeleteResponses,
       Some tsDeleteTournamentApiTournamentsTournamentIdDeleteErrors),
     (getTournamentApiTournamentsTournamentIdGet,
       tsGetTournamentApiTournamentsTournamentIdGetData,
       tsGetTournamentApiTournamentsTournamentIdGetResponses,
       Some tsGetTournamentApiTournamentsTournamentIdGetErrors),
     (updateTournamentByIdApiTournamentsTournamentIdPut,
       tsUpdateTournamentByIdApiTournamentsTournamentIdPutData,
       tsUpdateTournamentByIdApiTournamentsTournamentIdPutResponses,
       Some tsUpdateTournamentByIdApiTournamentsTournamentIdPutErrors),
     (getAvailableInputsApiTournamentsTournamentIdAvailableInputsGet,
       tsGetAvailableInputsApiTournamentsTournamentIdAvailableInputsGetData,
       tsGetAvailableInputsApiTournamentsTournamentIdAvailableInputsGetResponses,
       Some tsGetAvailableInputsApiTournamentsTournamentIdAvailableInputsGetErrors),
     (changeStatusApiTournamentsTournamentIdChangeStatusPost,
       tsChangeStatusApiTournamentsTournamentIdChangeStatusPostData,
       tsChangeStatusApiTournamentsTournamentIdChangeStatusPostResponses,
       Some tsChangeStatusApiTournamentsTournamentIdChangeStatusPostErrors),
     (getTournamentLogoApiTournamentsTournamentIdLogoGet,
       tsGetTournamentLogoApiTournamentsTournamentIdLogoGetData,
       tsGetTournamentLogoApiTournamentsTournamentIdLogoGetResponses,
       Some tsGetTournamentLogoApiTournamentsTournamentIdLogoGetErrors),
     (uploadLogoApiTournamentsTournamentIdLogoPost,
       tsUploadLogoApiTournamentsTournamentIdLogoPostData,
       tsUploadLogoApiTournamentsTournamentIdLogoPostResponses,
       Some tsUploadLogoApiTournamentsTournamentIdLogoPostErrors),
     (createMatchApiTournamentsTournamentIdMatchesPost,
       tsCreateMatchApiTournamentsTournamentIdMatchesPostData,
       tsCreateMatchApiTournamentsTournamentIdMatchesPostResponses,
       Some tsCreateMatchApiTournamentsTournamentIdMatchesPostErrors),
     (deleteMatchApiTournamentsTournamentIdMatchesMatchIdDelete,
       tsDeleteMatchApiTournamentsTournamentIdMatchesMatchIdDeleteData,
       tsDeleteMatchApiTournamentsTournamentIdMatchesMatchIdDeleteResponses,
       Some tsDeleteMatchApiTournamentsTournamentIdMatchesMatchIdDeleteErrors),
     (updateMatchByIdApiTournamentsTournamentIdMatchesMatchIdPut,
       tsUpdateMatchByIdApiTournamentsTournamentIdMatchesMatchIdPutData,
       tsUpdateMatchByIdApiTournamentsTournamentIdMatchesMatchIdPutResponses,
       Some tsUpdateMatchByIdApiTournamentsTournamentIdMatchesMatchIdPutErrors),
     (getNextStageRankingsApiTournamentsTournamentIdNextStageRankingsGet,
       tsGetNextStageRankingsApiTournamentsTournamentIdNextStageRankingsGetData,
       tsGetNextStageRankingsApiTournamentsTournamentIdNextStageRankingsGetResponses,
       Some tsGetNextStageRankingsApiTournamentsTournamentIdNextStageRankingsGetErrors),
     (getPlayersApiTournamentsTournamentIdPlayersGet,
       tsGetPlayersApiTournamentsTournamentIdPlayersGetData,
       tsGetPlayersApiTournamentsTournamentIdPlayersGetResponses,
       Some tsGetPlayersApiTournamentsTournamentIdPlayersGetErrors),
     (createSinglePlayerApiTournamentsTournamentIdPlayersPost,
       tsCreateSinglePlayerApiTournamentsTournamentIdPlayersPostData,
       tsCreateSinglePlayerApiTournamentsTournamentIdPlayersPostResponses,
       Some tsCreateSinglePlayerApiTournamentsTournamentIdPlayersPostErrors),
     (deletePlayerApiTournamentsTournamentIdPlayersPlayerIdDelete,
       tsDeletePlayerApiTournamentsTournamentIdPlayersPlayerIdDeleteData,
       tsDeletePlayerApiTournamentsTournamentIdPlayersPlayerIdDeleteResponses,
       Some tsDeletePlayerApiTournamentsTournamentIdPlayersPlayerIdDeleteErrors),
     (updatePlayerByIdApiTournamentsTournamentIdPlayersPlayerIdPut,
       tsUpdatePlayerByIdApiTournamentsTournamentIdPlayersPlayerIdPutData,
       tsUpdatePlayerByIdApiTournamentsTournamentIdPlayersPlayerIdPutResponses,
       Some tsUpdatePlayerByIdApiTournamentsTournamentIdPlayersPlayerIdPutErrors),
     (createMultiplePlayersApiTournamentsTournamentIdPlayersMultiPost,
       tsCreateMultiplePlayersApiTournamentsTournamentIdPlayersMultiPostData,
       tsCreateMultiplePlayersApiTournamentsTournamentIdPlayersMultiPostResponses,
       Some tsCreateMultiplePlayersApiTournamentsTournamentIdPlayersMultiPostErrors),
     (getRankingsApiTournamentsTournamentIdRankingsGet,
       tsGetRankingsApiTournamentsTournamentIdRankingsGetData,
       tsGetRankingsApiTournamentsTournamentIdRankingsGetResponses,
       Some tsGetRankingsApiTournamentsTournamentIdRankingsGetErrors),
     (createRankingApiTournamentsTournamentIdRankingsPost,
       tsCreateRankingApiTournamentsTournamentIdRankingsPostData,
       tsCreateRankingApiTournamentsTournamentIdRankingsPostResponses,
       Some tsCreateRankingApiTournamentsTournamentIdRankingsPostErrors),
     (deleteRankingApiTournamentsTournamentIdRankingsRankingIdDelete,
       tsDeleteRankingApiTournamentsTournamentIdRankingsRankingIdDeleteData,
       tsDeleteRankingApiTournamentsTournamentIdRankingsRankingIdDeleteResponses,
       Some tsDeleteRankingApiTournamentsTournamentIdRankingsRankingIdDeleteErrors),
     (updateRankingByIdApiTournamentsTournamentIdRankingsRankingIdPut,
       tsUpdateRankingByIdApiTournamentsTournamentIdRankingsRankingIdPutData,
       tsUpdateRankingByIdApiTournamentsTournamentIdRankingsRankingIdPutResponses,
       Some tsUpdateRankingByIdApiTournamentsTournamentIdRankingsRankingIdPutErrors),
     (createRoundApiTournamentsTournamentIdRoundsPost,
       tsCreateRoundApiTournamentsTournamentIdRoundsPostData,
       tsCreateRoundApiTournamentsTournamentIdRoundsPostResponses,
       Some tsCreateRoundApiTournamentsTournamentIdRoundsPostErrors),
     (deleteRoundApiTournamentsTournamentIdRoundsRoundIdDelete,
       tsDeleteRoundApiTournamentsTournamentIdRoundsRoundIdDeleteData,
       tsDeleteRoundApiTournamentsTournamentIdRoundsRoundIdDeleteResponses,
       Some tsDeleteRoundApiTournamentsTournamentIdRoundsRoundIdDeleteErrors),
     (updateRoundByIdApiTournamentsTournamentIdRoundsRoundIdPut,
       tsUpdateRoundByIdApiTournamentsTournamentIdRoundsRoundIdPutData,
       tsUpdateRoundByIdApiTournamentsTournamentIdRoundsRoundIdPutResponses,
       Some tsUpdateRoundByIdApiTournamentsTournamentIdRoundsRoundIdPutErrors),
     (scheduleMatchesApiTournamentsTournamentIdScheduleMatchesPost,
       tsScheduleMatchesApiTournamentsTournamentIdScheduleMatchesPostData,
       tsScheduleMatchesApiTournamentsTournamentIdScheduleMatchesPostResponses,
       Some tsScheduleMatchesApiTournamentsTournamentIdScheduleMatchesPostErrors),
     (createStageItemApiTournamentsTournamentIdStageItemsPost,
       tsCreateStageItemApiTournamentsTournamentIdStageItemsPostData,
       tsCreateStageItemApiTournamentsTournamentIdStageItemsPostResponses,
       Some tsCreateStageItemApiTournamentsTournamentIdStageItemsPostErrors),
     (deleteStageItemApiTournamentsTournamentIdStageItemsStageItemIdDelete,
       tsDeleteStageItemApiTournamentsTournamentIdStageItemsStageItemIdDeleteData,
       tsDeleteStageItemApiTournamentsTournamentIdStageItemsStageItemIdDeleteResponses,
       Some tsDeleteStageItemApiTournamentsTournamentIdStageItemsStageItemIdDeleteErrors),
     (updateStageItemApiTournamentsTournamentIdStageItemsStageItemIdPut,
       tsUpdateStageItemApiTournamentsTournamentIdStageItemsStageItemIdPutData,
       tsUpdateStageItemApiTournamentsTournamentIdStageItemsStageItemIdPutResponses,
       Some tsUpdateStageItemApiTournamentsTournamentIdStageItemsStageItemIdPutErrors),
     (updateStageItemInputApiTournamentsTournamentIdStageItemsStageItemIdInputsStageItemInputIdPut,
       tsUpdateStageItemInputApiTournamentsTournamentIdStageItemsStageItemIdInputsStageItemInputIdPutData,
       tsUpdateStageItemInputApiTournamentsTournamentIdStageItemsStageItemIdInputsStageItemInputIdPutResponses,
       Some tsUpdateStageItemInputApiTournamentsTournamentIdStageItemsStageItemIdInputsStageItemInputIdPutErrors),
     (getStagesApiTournamentsTournamentIdStagesGet,
       tsGetStagesApiTournamentsTournamentIdStagesGetData,
       tsGetStagesApiTournamentsTournamentIdStagesGetResponses,
       Some tsGetStagesApiTournamentsTournamentIdStagesGetErrors),
     (createStageApiTournamentsTournamentIdStagesPost,
       tsCreateStageApiTournamentsTournamentIdStagesPostData,
       tsCreateStageApiTournamentsTournamentIdStagesPostResponses,
       Some tsCreateStageApiTournamentsTournamentIdStagesPostErrors),
     (activateNextStageApiTournamentsTournamentIdStagesActivatePost,
       tsActivateNextStageApiTournamentsTournamentIdStagesActivatePostData,
       tsActivateNextStageApiTournamentsTournamentIdStagesActivatePostResponses,
       Some tsActivateNextStageApiTournamentsTournamentIdStagesActivatePostErrors),
     (deleteStageApiTournamentsTournamentIdStagesStageIdDelete,
       tsDeleteStageApiTournamentsTournamentIdStagesStageIdDeleteData,
       tsDeleteStageApiTournamentsTournamentIdStagesStageIdDeleteResponses,
       Some tsDeleteStageApiTournamentsTournamentIdStagesStageIdDeleteErrors),
     (updateStageApiTournamentsTournamentIdStagesStageIdPut,
       tsUpdateStageApiTournamentsTournamentIdStagesStageIdPutData,
       tsUpdateStageApiTournamentsTournamentIdStagesStageIdPutResponses,
       Some tsUpdateStageApiTournamentsTournamentIdStagesStageIdPutErrors),
     (getStandingsApiTournamentsTournamentIdStandingsGet,
       tsGetStandingsApiTournamentsTournamentIdStandingsGetData,
       tsGetStandingsApiTournamentsTournamentIdStandingsGetResponses,
       Some tsGetStandingsApiTournamentsTournamentIdStandingsGetErrors),
     (getTeamsApiTournamentsTournamentIdTeamsGet,
       tsGetTeamsApiTournamentsTournamentIdTeamsGetData,
       tsGetTeamsApiTournamentsTournamentIdTeamsGetResponses,
       Some tsGetTeamsApiTournamentsTournamentIdTeamsGetErrors),
     (createTeamApiTournamentsTournamentIdTeamsPost,
       tsCreateTeamApiTournamentsTournamentIdTeamsPostData,
       tsCreateTeamApiTournamentsTournamentIdTeamsPostResponses,
       Some tsCreateTeamApiTournamentsTournamentIdTeamsPostErrors),
     (deleteTeamApiTournamentsTournamentIdTeamsTeamIdDelete,
       tsDeleteTeamApiTournamentsTournamentIdTeamsTeamIdDeleteData,
       tsDeleteTeamApiTournamentsTournamentIdTeamsTeamIdDeleteResponses,
       Some tsDeleteTeamApiTournamentsTournamentIdTeamsTeamIdDeleteErrors),
     (updateTeamByIdApiTournamentsTournamentIdTeamsTeamIdPut,
       tsUpdateTeamByIdApiTournamentsTournamentIdTeamsTeamIdPutData,
       tsUpdateTeamByIdApiTournamentsTournamentIdTeamsTeamIdPutResponses,
       Some tsUpdateTeamByIdApiTournamentsTournamentIdTeamsTeamIdPutErrors),
     (getTeamLogoApiTournamentsTournamentIdTeamsTeamIdLogoGet,
       tsGetTeamLogoApiTournamentsTournamentIdTeamsTeamIdLogoGetData,
       tsGetTeamLogoApiTournamentsTournamentIdTeamsTeamIdLogoGetResponses,
       Some tsGetTeamLogoApiTournamentsTournamentIdTeamsTeamIdLogoGetErrors),
     (updateTeamLogoApiTournamentsTournamentIdTeamsTeamIdLogoPost,
       tsUpdateTeamLogoApiTournamentsTournamentIdTeamsTeamIdLogoPostData,
       tsUpdateTeamLogoApiTournamentsTournamentIdTeamsTeamIdLogoPostResponses,
       Some tsUpdateTeamLogoApiTournamentsTournamentIdTeamsTeamIdLogoPostErrors),
     (createMultipleTeamsApiTournamentsTournamentIdTeamsMultiPost,
       tsCreateMultipleTeamsApiTournamentsTournamentIdTeamsMultiPostData,
       tsCreateMultipleTeamsApiTournamentsTournamentIdTeamsMultiPostResponses,
       Some tsCreateMultipleTeamsApiTournamentsTournamentIdTeamsMultiPostErrors),
     (getUserApiUsersMeGet,
       tsGetUserApiUsersMeGetData,
       tsGetUserApiUsersMeGetResponses,
       None),
     (registerUserApiUsersRegisterPost,
       tsRegisterUserApiUsersRegisterPostData,
       tsRegisterUserApiUsersRegisterPostResponses,
       Some tsRegisterUserApiUsersRegisterPostErrors),
     (getMeApiUsersUserIdGet,
       tsGetMeApiUsersUserIdGetData,
       tsGetMeApiUsersUserIdGetResponses,
       Some tsGetMeApiUsersUserIdGetErrors),
     (updateUserDetailsApiUsersUserIdPut,
       tsUpdateUserDetailsApiUsersUserIdPutData,
       tsUpdateUserDetailsApiUsersUserIdPutResponses,
       Some tsUpdateUserDetailsApiUsersUserIdPutErrors),
     (putUserPasswordApiUsersUserIdPasswordPut,
       tsPutUserPasswordApiUsersUserIdPasswordPutData,
       tsPutUserPasswordApiUsersUserIdPasswordPutResponses,
       Some tsPutUserPasswordApiUsersUserIdPasswordPutErrors)]"

text \<open>The generated schemas, each with the type of the same name.\<close>

definition SCHEMA_TYPES :: "(schema \<times> ts_type) list" where
  "SCHEMA_TYPES =
    [(zAuthFeatureFlags, tsAuthFeatureFlags),
     (zAuthFeatureFlagsResponse, tsAuthFeatureFlagsResponse),
     (zBodyLoginForAccessTokenApiTokenPost, tsBodyLoginForAccessTokenApiTokenPost),
     (zBodyUpdateTeamLogoApiTournamentsTournamentIdTeamsTeamIdLogoPost,
       tsBodyUpdateTeamLogoApiTournamentsTournamentIdTeamsTeamIdLogoPost),
     (zBodyUploadLogoApiTournamentsTournamentIdLogoPost, tsBodyUploadLogoApiTournamentsTournamentIdLogoPost),
     (zClub, tsClub),
     (zClubCreateBody, tsClubCreateBody),
     (zClubResponse, tsClubResponse),
     (zClubUpdateBody, tsClubUpdateBody),
     (zClubsResponse, tsClubsResponse),
     (zMatchBody, tsMatchBody),
     (zMatchCreateBodyFrontend, tsMatchCreateBodyFrontend),
     (zPlayer, tsPlayer),
     (zFullTeamWithPlayers, tsFullTeamWithPlayers),
     (zPaginatedPlayers, tsPaginatedPlayers),
     (zPaginatedTeams, tsPaginatedTeams),
     (zPlayerBody, tsPlayerBody),
     (zPlayerMultiBody, tsPlayerMultiBody),
     (zPlayersResponse, tsPlayersResponse),
     (zRanking, tsRanking),
     (zRankingBody, tsRankingBody),
     (zRankingCreateBody, tsRankingCreateBody),
     (zRankingsResponse, tsRankingsResponse),
     (zRoundCreateBody, tsRoundCreateBody),
     (zRoundUpdateBody, tsRoundUpdateBody),
     (zSinglePlayerResponse, tsSinglePlayerResponse),
     (zStageActivateBody, tsStageActivateBody),
     (zStageItemInputEmpty, tsStageItemInputEmpty),
     (zStageItemInputOptionFinal, tsStageItemInputOptionFinal),
     (zStageItemInputOptionTentative, tsStageItemInputOptionTentative),
     (zStageItemInputOptionsResponse, tsStageItemInputOptionsResponse),
     (zStageItemInputStanding, tsStageItemInputStanding),
     (zStageItemInputTentative, tsStageItemInputTentative),
     (zStageItemInputUpdateBodyEmpty, tsStageItemInputUpdateBodyEmpty),
     (zStageItemInputUpdateBodyFinal, tsStageItemInputUpdateBodyFinal),
     (zStageItemInputUpdateBodyTentative, tsStageItemInputUpdateBodyTentative),
     (zStageItemUpdateBody, tsStageItemUpdateBody),
     (zStageType, tsStageType),
     (zStageItemCreateBody, tsStageItemCreateBody),
     (zStageUpdateBody, tsStageUpdateBody),
     (zStandingsResponse, tsStandingsResponse),
     (zSuccessResponse, tsSuccessResponse),
     (zTeam, tsTeam),
     (zSingleTeamResponse, tsSingleTeamResponse),
     (zStageItemInputFinal, tsStageItemInputFinal),
     (zMatch, tsMatch),
     (zMatchWithDetails, tsMatchWithDetails),
     (zMatchWithDetailsDefinitive, tsMatchWithDetailsDefinitive),
     (zRoundWithMatches, tsRoundWithMatches),
     (zSingleMatchResponse, tsSingleMatchResponse),
     (zStageItemInputUpdate, tsStageItemInputUpdate),
     (zStageItemWithRounds, tsStageItemWithRounds),
     (zStageRankingResponse, tsStageRankingResponse),
     (zStageWithStageItems, tsStageWithStageItems),
     (zStagesWithStageItemsResponse, tsStagesWithStageItemsResponse),
     (zTeamBody, tsTeamBody),
     (zTeamMultiBody, tsTeamMultiBody),
     (zTeamsWithPlayersResponse, tsTeamsWithPlayersResponse),
     (zToken, tsToken),
     (zTokenResponse, tsTokenResponse),
     (zTournamentBody, tsTournamentBody),
     (zTournamentStatus, tsTournamentStatus),
     (zTournament, tsTournament),
     (zTournamentChangeStatusBody, tsTournamentChangeStatusBody),
     (zTournamentResponse, tsTournamentResponse),
     (zTournamentUpdateBody, tsTournamentUpdateBody),
     (zTournamentsResponse, tsTournamentsResponse),
     (zUserAccountType, tsUserAccountType),
     (zUserPasswordToUpdate, tsUserPasswordToUpdate),
     (zUserPublic, tsUserPublic),
     (zUserPublicResponse, tsUserPublicResponse),
     (zUserToRegister, tsUserToRegister),
     (zUserToUpdate, tsUserToUpdate),
     (zValidationError, tsValidationError),
     (zHttpValidationError, tsHttpValidationError),
     (zGetAuthFeaturesApiAuthFeaturesGetResponse, tsGetAuthFeaturesApiAuthFeaturesGetResponse),
     (zGetClubsApiClubsGetResponse, tsGetClubsApiClubsGetResponse),
     (zCreateNewClubApiClubsPostBody, ts_at tsCreateNewClubApiClubsPostData ''body''),
     (zCreateNewClubApiClubsPostResponse, tsCreateNewClubApiClubsPostResponse),
     (zDeleteClubApiClubsClubIdDeletePath, ts_at tsDeleteClubApiClubsClubIdDeleteData ''path''),
     (zDeleteClubApiClubsClubIdDeleteResponse, tsDeleteClubApiClubsClubIdDeleteResponse),
     (zUpdateClubApiClubsClubIdPutBody, ts_at tsUpdateClubApiClubsClubIdPutData ''body''),
     (zUpdateClubApiClubsClubIdPutPath, ts_at tsUpdateClubApiClubsClubIdPutData ''path''),
     (zUpdateClubApiClubsClubIdPutResponse, tsUpdateClubApiClubsClubIdPutResponse),
     (zLogoutApiLogoutPostResponse, tsLogoutApiLogoutPostResponse),
     (zPingApiPingGetResponse, tsPingApiPingGetResponse),
     (zLoginForAccessTokenApiTokenPostBody, ts_at tsLoginForAccessTokenApiTokenPostData ''body''),
     (zLoginForAccessTokenApiTokenPostResponse, tsLoginForAccessTokenApiTokenPostResponse),
     (zGetTournamentsApiTournamentsGetQuery, ts_at tsGetTournamentsApiTournamentsGetData ''query''),
     (zGetTournamentsApiTournamentsGetResponse, tsGetTournamentsApiTournamentsGetResponse),
     (zCreateTournamentApiTournamentsPostBody, ts_at tsCreateTournamentApiTournamentsPostData ''body''),
     (zCreateTournamentApiTournamentsPostResponse, tsCreateTournamentApiTournamentsPostResponse),
     (zDeleteTournamentApiTournamentsTournamentIdDeletePath,
       ts_at tsDeleteTournamentApiTournamentsTournamentIdDeleteData ''path''),
     (zDeleteTournamentApiTournamentsTournamentIdDeleteResponse,
       tsDeleteTournamentApiTournamentsTournamentIdDeleteResponse),
     (zGetTournamentApiTournamentsTournamentIdGetPath,
       ts_at tsGetTournamentApiTournamentsTournamentIdGetData ''path''),
     (zGetTournamentApiTournamentsTournamentIdGetResponse, tsGetTournamentApiTournamentsTournamentIdGetResponse),
     (zUpdateTournamentByIdApiTournamentsTournamentIdPutBody,
       ts_at tsUpdateTournamentByIdApiTournamentsTournamentIdPutData ''body''),
     (zUpdateTournamentByIdApiTournamentsTournamentIdPutPath,
       ts_at tsUpdateTournamentByIdApiTournamentsTournamentIdPutData ''path''),
     (zUpdateTournamentByIdApiTournamentsTournamentIdPutResponse,
       tsUpdateTournamentByIdApiTournamentsTournamentIdPutResponse),
     (zGetAvailableInputsApiTournamentsTournamentIdAvailableInputsGetPath,
       ts_at tsGetAvailableInputsApiTournamentsTournamentIdAvailableInputsGetData ''path''),
     (zGetAvailableInputsApiTournamentsTournamentIdAvailableInputsGetResponse,
       tsGetAvailableInputsApiTournamentsTournamentIdAvailableInputsGetResponse),
     (zChangeStatusApiTournamentsTournamentIdChangeStatusPostBody,
       ts_at tsChangeStatusApiTournamentsTournamentIdChangeStatusPostData ''body''),
     (zChangeStatusApiTournamentsTournamentIdChangeStatusPostPath,
       ts_at tsChangeStatusApiTournamentsTournamentIdChangeStatusPostData ''path''),
     (zChangeStatusApiTournamentsTournamentIdChangeStatusPostResponse,
       tsChangeStatusApiTournamentsTournamentIdChangeStatusPostResponse),
     (zGetTournamentLogoApiTournamentsTournamentIdLogoGetPath,
       ts_at tsGetTournamentLogoApiTournamentsTournamentIdLogoGetData ''path''),
     (zUploadLogoApiTournamentsTournamentIdLogoPostBody,
       ts_at tsUploadLogoApiTournamentsTournamentIdLogoPostData ''body''),
     (zUploadLogoApiTournamentsTournamentIdLogoPostPath,
       ts_at tsUploadLogoApiTournamentsTournamentIdLogoPostData ''path''),
     (zUploadLogoApiTournamentsTournamentIdLogoPostResponse,
       tsUploadLogoApiTournamentsTournamentIdLogoPostResponse),
     (zCreateMatchApiTournamentsTournamentIdMatchesPostBody,
       ts_at tsCreateMatchApiTournamentsTournamentIdMatchesPostData ''body''),
     (zCreateMatchApiTournamentsTournamentIdMatchesPostPath,
       ts_at tsCreateMatchApiTournamentsTournamentIdMatchesPostData ''path''),
     (zCreateMatchApiTournamentsTournamentIdMatchesPostResponse,
       tsCreateMatchApiTournamentsTournamentIdMatchesPostResponse),
     (zDeleteMatchApiTournamentsTournamentIdMatchesMatchIdDeletePath,
       ts_at tsDeleteMatchApiTournamentsTournamentIdMatchesMatchIdDeleteData ''path''),
     (zDeleteMatchApiTournamentsTournamentIdMatchesMatchIdDeleteResponse,
       tsDeleteMatchApiTournamentsTournamentIdMatchesMatchIdDeleteResponse),
     (zUpdateMatchByIdApiTournamentsTournamentIdMatchesMatchIdPutBody,
       ts_at tsUpdateMatchByIdApiTournamentsTournamentIdMatchesMatchIdPutData ''body''),
     (zUpdateMatchByIdApiTournamentsTournamentIdMatchesMatchIdPutPath,
       ts_at tsUpdateMatchByIdApiTournamentsTournamentIdMatchesMatchIdPutData ''path''),
     (zUpdateMatchByIdApiTournamentsTournamentIdMatchesMatchIdPutResponse,
       tsUpdateMatchByIdApiTournamentsTournamentIdMatchesMatchIdPutResponse),
     (zGetNextStageRankingsApiTournamentsTournamentIdNextStageRankingsGetPath,
       ts_at tsGetNextStageRankingsApiTournamentsTournamentIdNextStageRankingsGetData ''path''),
     (zGetNextStageRankingsApiTournamentsTournamentIdNextStageRankingsGetResponse,
       tsGetNextStageRankingsApiTournamentsTournamentIdNextStageRankingsGetResponse),
     (zGetPlayersApiTournamentsTournamentIdPlayersGetPath,
       ts_at tsGetPlayersApiTournamentsTournamentIdPlayersGetData ''path''),
     (zGetPlayersApiTournamentsTournamentIdPlayersGetQuery,
       ts_at tsGetPlayersApiTournamentsTournamentIdPlayersGetData ''query''),
     (zGetPlayersApiTournamentsTournamentIdPlayersGetResponse,
       tsGetPlayersApiTournamentsTournamentIdPlayersGetResponse),
     (zCreateSinglePlayerApiTournamentsTournamentIdPlayersPostBody,
       ts_at tsCreateSinglePlayerApiTournamentsTournamentIdPlayersPostData ''body''),
     (zCreateSinglePlayerApiTournamentsTournamentIdPlayersPostPath,
       ts_at tsCreateSinglePlayerApiTournamentsTournamentIdPlayersPostData ''path''),
     (zCreateSinglePlayerApiTournamentsTournamentIdPlayersPostResponse,
       tsCreateSinglePlayerApiTournamentsTournamentIdPlayersPostResponse),
     (zDeletePlayerApiTournamentsTournamentIdPlayersPlayerIdDeletePath,
       ts_at tsDeletePlayerApiTournamentsTournamentIdPlayersPlayerIdDeleteData ''path''),
     (zDeletePlayerApiTournamentsTournamentIdPlayersPlayerIdDeleteResponse,
       tsDeletePlayerApiTournamentsTournamentIdPlayersPlayerIdDeleteResponse),
     (zUpdatePlayerByIdApiTournamentsTournamentIdPlayersPlayerIdPutBody,
       ts_at tsUpdatePlayerByIdApiTournamentsTournamentIdPlayersPlayerIdPutData ''body''),
     (zUpdatePlayerByIdApiTournamentsTournamentIdPlayersPlayerIdPutPath,
       ts_at tsUpdatePlayerByIdApiTournamentsTournamentIdPlayersPlayerIdPutData ''path''),
     (zUpdatePlayerByIdApiTournamentsTournamentIdPlayersPlayerIdPutResponse,
       tsUpdatePlayerByIdApiTournamentsTournamentIdPlayersPlayerIdPutResponse),
     (zCreateMultiplePlayersApiTournamentsTournamentIdPlayersMultiPostBody,
       ts_at tsCreateMultiplePlayersApiTournamentsTournamentIdPlayersMultiPostData ''body''),
     (zCreateMultiplePlayersApiTournamentsTournamentIdPlayersMultiPostPath,
       ts_at tsCreateMultiplePlayersApiTournamentsTournamentIdPlayersMultiPostData ''path''),
     (zCreateMultiplePlayersApiTournamentsTournamentIdPlayersMultiPostResponse,
       tsCreateMultiplePlayersApiTournamentsTournamentIdPlayersMultiPostResponse),
     (zGetRankingsApiTournamentsTournamentIdRankingsGetPath,
       ts_at tsGetRankingsApiTournamentsTournamentIdRankingsGetData ''path''),
     (zGetRankingsApiTournamentsTournamentIdRankingsGetResponse,
       tsGetRankingsApiTournamentsTournamentIdRankingsGetResponse),
     (zCreateRankingApiTournamentsTournamentIdRankingsPostBody,
       ts_at tsCreateRankingApiTournamentsTournamentIdRankingsPostData ''body''),
     (zCreateRankingApiTournamentsTournamentIdRankingsPostPath,
       ts_at tsCreateRankingApiTournamentsTournamentIdRankingsPostData ''path''),
     (zCreateRankingApiTournamentsTournamentIdRankingsPostResponse,
       tsCreateRankingApiTournamentsTournamentIdRankingsPostResponse),
     (zDeleteRankingApiTournamentsTournamentIdRankingsRankingIdDeletePath,
       ts_at tsDeleteRankingApiTournamentsTournamentIdRankingsRankingIdDeleteData ''path''),
     (zDeleteRankingApiTournamentsTournamentIdRankingsRankingIdDeleteResponse,
       tsDeleteRankingApiTournamentsTournamentIdRankingsRankingIdDeleteResponse),
     (zUpdateRankingByIdApiTournamentsTournamentIdRankingsRankingIdPutBody,
       ts_at tsUpdateRankingByIdApiTournamentsTournamentIdRankingsRankingIdPutData ''body''),
     (zUpdateRankingByIdApiTournamentsTournamentIdRankingsRankingIdPutPath,
       ts_at tsUpdateRankingByIdApiTournamentsTournamentIdRankingsRankingIdPutData ''path''),
     (zUpdateRankingByIdApiTournamentsTournamentIdRankingsRankingIdPutResponse,
       tsUpdateRankingByIdApiTournamentsTournamentIdRankingsRankingIdPutResponse),
     (zCreateRoundApiTournamentsTournamentIdRoundsPostBody,
       ts_at tsCreateRoundApiTournamentsTournamentIdRoundsPostData ''body''),
     (zCreateRoundApiTournamentsTournamentIdRoundsPostPath,
       ts_at tsCreateRoundApiTournamentsTournamentIdRoundsPostData ''path''),
     (zCreateRoundApiTournamentsTournamentIdRoundsPostResponse,
       tsCreateRoundApiTournamentsTournamentIdRoundsPostResponse),
     (zDeleteRoundApiTournamentsTournamentIdRoundsRoundIdDeletePath,
       ts_at tsDeleteRoundApiTournamentsTournamentIdRoundsRoundIdDeleteData ''path''),
     (zDeleteRoundApiTournamentsTournamentIdRoundsRoundIdDeleteResponse,
       tsDeleteRoundApiTournamentsTournamentIdRoundsRoundIdDeleteResponse),
     (zUpdateRoundByIdApiTournamentsTournamentIdRoundsRoundIdPutBody,
       ts_at tsUpdateRoundByIdApiTournamentsTournamentIdRoundsRoundIdPutData ''body''),
     (zUpdateRoundByIdApiTournamentsTournamentIdRoundsRoundIdPutPath,
       ts_at tsUpdateRoundByIdApiTournamentsTournamentIdRoundsRoundIdPutData ''path''),
     (zUpdateRoundByIdApiTournamentsTournamentIdRoundsRoundIdPutResponse,
       tsUpdateRoundByIdApiTournamentsTournamentIdRoundsRoundIdPutResponse),
     (zScheduleMatchesApiTournamentsTournamentIdScheduleMatchesPostPath,
       ts_at tsScheduleMatchesApiTournamentsTournamentIdScheduleMatchesPostData ''path''),
     (zScheduleMatchesApiTournamentsTournamentIdScheduleMatchesPostResponse,
       tsScheduleMatchesApiTournamentsTournamentIdScheduleMatchesPostResponse),
     (zCreateStageItemApiTournamentsTournamentIdStageItemsPostBody,
       ts_at tsCreateStageItemApiTournamentsTournamentIdStageItemsPostData ''body''),
     (zCreateStageItemApiTournamentsTournamentIdStageItemsPostPath,
       ts_at tsCreateStageItemApiTournamentsTournamentIdStageItemsPostData ''path''),
     (zCreateStageItemApiTournamentsTournamentIdStageItemsPostResponse,
       tsCreateStageItemApiTournamentsTournamentIdStageItemsPostResponse),
     (zDeleteStageItemApiTournamentsTournamentIdStageItemsStageItemIdDeletePath,
       ts_at tsDeleteStageItemApiTournamentsTournamentIdStageItemsStageItemIdDeleteData ''path''),
     (zDeleteStageItemApiTournamentsTournamentIdStageItemsStageItemIdDeleteResponse,
       tsDeleteStageItemApiTournamentsTournamentIdStageItemsStageItemIdDeleteResponse),
     (zUpdateStageItemApiTournamentsTournamentIdStageItemsStageItemIdPutBody,
       ts_at tsUpdateStageItemApiTournamentsTournamentIdStageItemsStageItemIdPutData ''body''),
     (zUpdateStageItemApiTournamentsTournamentIdStageItemsStageItemIdPutPath,
       ts_at tsUpdateStageItemApiTournamentsTournamentIdStageItemsStageItemIdPutData ''path''),
     (zUpdateStageItemApiTournamentsTournamentIdStageItemsStageItemIdPutResponse,
       tsUpdateStageItemApiTournamentsTournamentIdStageItemsStageItemIdPutResponse),
     (zUpdateStageItemInputApiTournamentsTournamentIdStageItemsStageItemIdInputsStageItemInputIdPutBody,
       ts_at tsUpdateStageItemInputApiTournamentsTournamentIdStageItemsStageItemIdInputsStageItemInputIdPutData ''body''),
     (zUpdateStageItemInputApiTournamentsTournamentIdStageItemsStageItemIdInputsStageItemInputIdPutPath,
       ts_at tsUpdateStageItemInputApiTournamentsTournamentIdStageItemsStageItemIdInputsStageItemInputIdPutData ''path''),
     (zUpdateStageItemInputApiTournamentsTournamentIdStageItemsStageItemIdInputsStageItemInputIdPutResponse,
       tsUpdateStageItemInputApiTournamentsTournamentIdStageItemsStageItemIdInputsStageItemInputIdPutResponse),
     (zGetStagesApiTournamentsTournamentIdStagesGetPath,
       ts_at tsGetStagesApiTournamentsTournamentIdStagesGetData ''path''),
     (zGetStagesApiTournamentsTournamentIdStagesGetQuery,
       ts_at tsGetStagesApiTournamentsTournamentIdStagesGetData ''query''),
     (zGetStagesApiTournamentsTournamentIdStagesGetResponse,
       tsGetStagesApiTournamentsTournamentIdStagesGetResponse),
     (zCreateStageApiTournamentsTournamentIdStagesPostPath,
       ts_at tsCreateStageApiTournamentsTournamentIdStagesPostData ''path''),
     (zCreateStageApiTournamentsTournamentIdStagesPostResponse,
       tsCreateStageApiTournamentsTournamentIdStagesPostResponse),
     (zActivateNextStageApiTournamentsTournamentIdStagesActivatePostBody,
       ts_at tsActivateNextStageApiTournamentsTournamentIdStagesActivatePostData ''body''),
     (zActivateNextStageApiTournamentsTournamentIdStagesActivatePostPath,
       ts_at tsActivateNextStageApiTournamentsTournamentIdStagesActivatePostData ''path''),
     (zActivateNextStageApiTournamentsTournamentIdStagesActivatePostResponse,
       tsActivateNextStageApiTournamentsTournamentIdStagesActivatePostResponse),
     (zDeleteStageApiTournamentsTournamentIdStagesStageIdDeletePath,
       ts_at tsDeleteStageApiTournamentsTournamentIdStagesStageIdDeleteData ''path''),
     (zDeleteStageApiTournamentsTournamentIdStagesStageIdDeleteResponse,
       tsDeleteStageApiTournamentsTournamentIdStagesStageIdDeleteResponse),
     (zUpdateStageApiTournamentsTournamentIdStagesStageIdPutBody,
       ts_at tsUpdateStageApiTournamentsTournamentIdStagesStageIdPutData ''body''),
     (zUpdateStageApiTournamentsTournamentIdStagesStageIdPutPath,
       ts_at tsUpdateStageApiTournamentsTournamentIdStagesStageIdPutData ''path''),
     (zUpdateStageApiTournamentsTournamentIdStagesStageIdPutResponse,
       tsUpdateStageApiTournamentsTournamentIdStagesStageIdPutResponse),
     (zGetStandingsApiTournamentsTournamentIdStandingsGetPath,
       ts_at tsGetStandingsApiTournamentsTournamentIdStandingsGetData ''path''),
     (zGetStandingsApiTournamentsTournamentIdStandingsGetResponse,
       tsGetStandingsApiTournamentsTournamentIdStandingsGetResponse),
     (zGetTeamsApiTournamentsTournamentIdTeamsGetPath,
       ts_at tsGetTeamsApiTournamentsTournamentIdTeamsGetData ''path''),
     (zGetTeamsApiTournamentsTournamentIdTeamsGetQuery,
       ts_at tsGetTeamsApiTournamentsTournamentIdTeamsGetData ''query''),
     (zGetTeamsApiTournamentsTournamentIdTeamsGetResponse, tsGetTeamsApiTournamentsTournamentIdTeamsGetResponse),
     (zCreateTeamApiTournamentsTournamentIdTeamsPostBody,
       ts_at tsCreateTeamApiTournamentsTournamentIdTeamsPostData ''body''),
     (zCreateTeamApiTournamentsTournamentIdTeamsPostPath,
       ts_at tsCreateTeamApiTournamentsTournamentIdTeamsPostData ''path''),
     (zCreateTeamApiTournamentsTournamentIdTeamsPostResponse,
       tsCreateTeamApiTournamentsTournamentIdTeamsPostResponse),
     (zDeleteTeamApiTournamentsTournamentIdTeamsTeamIdDeletePath,
       ts_at tsDeleteTeamApiTournamentsTournamentIdTeamsTeamIdDeleteData ''path''),
     (zDeleteTeamApiTournamentsTournamentIdTeamsTeamIdDeleteResponse,
       tsDeleteTeamApiTournamentsTournamentIdTeamsTeamIdDeleteResponse),
     (zUpdateTeamByIdApiTournamentsTournamentIdTeamsTeamIdPutBody,
       ts_at tsUpdateTeamByIdApiTournamentsTournamentIdTeamsTeamIdPutData ''body''),
     (zUpdateTeamByIdApiTournamentsTournamentIdTeamsTeamIdPutPath,
       ts_at tsUpdateTeamByIdApiTournamentsTournamentIdTeamsTeamIdPutData ''path''),
     (zUpdateTeamByIdApiTournamentsTournamentIdTeamsTeamIdPutResponse,
       tsUpdateTeamByIdApiTournamentsTournamentIdTeamsTeamIdPutResponse),
     (zGetTeamLogoApiTournamentsTournamentIdTeamsTeamIdLogoGetPath,
       ts_at tsGetTeamLogoApiTournamentsTournamentIdTeamsTeamIdLogoGetData ''path''),
     (zUpdateTeamLogoApiTournamentsTournamentIdTeamsTeamIdLogoPostBody,
       ts_at tsUpdateTeamLogoApiTournamentsTournamentIdTeamsTeamIdLogoPostData ''body''),
     (zUpdateTeamLogoApiTournamentsTournamentIdTeamsTeamIdLogoPostPath,
       ts_at tsUpdateTeamLogoApiTournamentsTournamentIdTeamsTeamIdLogoPostData ''path''),
     (zUpdateTeamLogoApiTournamentsTournamentIdTeamsTeamIdLogoPostResponse,
       tsUpdateTeamLogoApiTournamentsTournamentIdTeamsTeamIdLogoPostResponse),
     (zCreateMultipleTeamsApiTournamentsTournamentIdTeamsMultiPostBody,
       ts_at tsCreateMultipleTeamsApiTournamentsTournamentIdTeamsMultiPostData ''body''),
     (zCreateMultipleTeamsApiTournamentsTournamentIdTeamsMultiPostPath,
       ts_at tsCreateMultipleTeamsApiTournamentsTournamentIdTeamsMultiPostData ''path''),
     (zCreateMultipleTeamsApiTournamentsTournamentIdTeamsMultiPostResponse,
       tsCreateMultipleTeamsApiTournamentsTournamentIdTeamsMultiPostResponse),
     (zGetUserApiUsersMeGetResponse, tsGetUserApiUsersMeGetResponse),
     (zRegisterUserApiUsersRegisterPostBody, ts_at tsRegisterUserApiUsersRegisterPostData ''body''),
     (zRegisterUserApiUsersRegisterPostResponse, tsRegisterUserApiUsersRegisterPostResponse),
     (zGetMeApiUsersUserIdGetPath, ts_at tsGetMeApiUsersUserIdGetData ''path''),
     (zGetMeApiUsersUserIdGetResponse, tsGetMeApiUsersUserIdGetResponse),
     (zUpdateUserDetailsApiUsersUserIdPutBody, ts_at tsUpdateUserDetailsApiUsersUserIdPutData ''body''),
     (zUpdateUserDetailsApiUsersUserIdPutPath, ts_at tsUpdateUserDetailsApiUsersUserIdPutData ''path''),
     (zUpdateUserDetailsApiUsersUserIdPutResponse, tsUpdateUserDetailsApiUsersUserIdPutResponse),
     (zPutUserPasswordApiUsersUserIdPasswordPutBody,
       ts_at tsPutUserPasswordApiUsersUserIdPasswordPutData ''body''),
     (zPutUserPasswordApiUsersUserIdPasswordPutPath,
       ts_at tsPutUserPasswordApiUsersUserIdPasswordPutData ''path''),
     (zPutUserPasswordApiUsersUserIdPasswordPutResponse, tsPutUserPasswordApiUsersUserIdPasswordPutResponse)]"

lemmas ts_data_defs =
  tsAuthFeatureFlags_def
  tsAuthFeatureFlagsResponse_def
  tsBodyLoginForAccessTokenApiTokenPost_def
  tsBodyUpdateTeamLogoApiTournamentsTournamentIdTeamsTeamIdLogoPost_def
  tsBodyUploadLogoApiTournamentsTournamentIdLogoPost_def
  tsClub_def
  tsClubCreateBody_def
  tsClubResponse_def
  tsClubUpdateBody_def
  tsClubsResponse_def
  tsPlayer_def
  tsFullTeamWithPlayers_def
  tsValidationError_def
  tsHttpValidationError_def
  tsStageItemInputTentative_def
  tsTeam_def
  tsStageItemInputFinal_def
  tsStageItemInputEmpty_def
  tsMatch_def
  tsMatchBody_def
  tsMatchCreateBodyFrontend_def
  tsMatchWithDetails_def
  tsMatchWithDetailsDefinitive_def
  tsPaginatedPlayers_def
  tsPaginatedTeams_def
  tsPlayerBody_def
  tsPlayerMultiBody_def
  tsPlayersResponse_def
  tsRanking_def
  tsRankingBody_def
  tsRankingCreateBody_def
  tsRankingsResponse_def
  tsRoundCreateBody_def
  tsRoundUpdateBody_def
  tsRoundWithMatches_def
  tsSingleMatchResponse_def
  tsSinglePlayerResponse_def
  tsSingleTeamResponse_def
  tsStageActivateBody_def
  tsStageType_def
  tsStageItemCreateBody_def
  tsStageItemInputOptionFinal_def
  tsStageItemInputOptionTentative_def
  tsStageItemInputOptionsResponse_def
  tsStageItemInputStanding_def
  tsStageItemInputUpdate_def
  tsStageItemInputUpdateBodyEmpty_def
  tsStageItemInputUpdateBodyFinal_def
  tsStageItemInputUpdateBodyTentative_def
  tsStageItemUpdateBody_def
  tsStageItemWithRounds_def
  tsStageRankingResponse_def
  tsStageUpdateBody_def
  tsStageWithStageItems_def
  tsStagesWithStageItemsResponse_def
  tsStandingsResponse_def
  tsSuccessResponse_def
  tsTeamBody_def
  tsTeamMultiBody_def
  tsTeamsWithPlayersResponse_def
  tsToken_def
  tsTokenResponse_def
  tsTournamentStatus_def
  tsTournament_def
  tsTournamentBody_def
  tsTournamentChangeStatusBody_def
  tsTournamentResponse_def
  tsTournamentUpdateBody_def
  tsTournamentsResponse_def
  tsUserAccountType_def
  tsUserPasswordToUpdate_def
  tsUserPublic_def
  tsUserPublicResponse_def
  tsUserToRegister_def
  tsUserToUpdate_def

lemmas ts_endpoint_defs =
  tsGetAuthFeaturesApiAuthFeaturesGetData_def
  tsGetAuthFeaturesApiAuthFeaturesGetResponses_def
  tsGetAuthFeaturesApiAuthFeaturesGetResponse_def
  tsGetClubsApiClubsGetData_def
  tsGetClubsApiClubsGetResponses_def
  tsGetClubsApiClubsGetResponse_def
  tsCreateNewClubApiClubsPostData_def
  tsCreateNewClubApiClubsPostErrors_def
  tsCreateNewClubApiClubsPostError_def
  tsCreateNewClubApiClubsPostResponses_def
  tsCreateNewClubApiClubsPostResponse_def
  tsDeleteClubApiClubsClubIdDeleteData_def
  tsDeleteClubApiClubsClubIdDeleteErrors_def
  tsDeleteClubApiClubsClubIdDeleteError_def
  tsDeleteClubApiClubsClubIdDeleteResponses_def
  tsDeleteClubApiClubsClubIdDeleteResponse_def
  tsUpdateClubApiClubsClubIdPutData_def
  tsUpdateClubApiClubsClubIdPutErrors_def
  tsUpdateClubApiClubsClubIdPutError_def
  tsUpdateClubApiClubsClubIdPutResponses_def
  tsUpdateClubApiClubsClubIdPutResponse_def
  tsLogoutApiLogoutPostData_def
  tsLogoutApiLogoutPostResponses_def
  tsLogoutApiLogoutPostResponse_def
  tsPingApiPingGetData_def
  tsPingApiPingGetResponses_def
  tsPingApiPingGetResponse_def
  tsLoginForAccessTokenApiTokenPostData_def
  tsLoginForAccessTokenApiTokenPostErrors_def
  tsLoginForAccessTokenApiTokenPostError_def
  tsLoginForAccessTokenApiTokenPostResponses_def
  tsLoginForAccessTokenApiTokenPostResponse_def
  tsGetTournamentsApiTournamentsGetData_def
  tsGetTournamentsApiTournamentsGetErrors_def
  tsGetTournamentsApiTournamentsGetError_def
  tsGetTournamentsApiTournamentsGetResponses_def
  tsGetTournamentsApiTournamentsGetResponse_def
  tsCreateTournamentApiTournamentsPostData_def
  tsCreateTournamentApiTournamentsPostErrors_def
  tsCreateTournamentApiTournamentsPostError_def
  tsCreateTournamentApiTournamentsPostResponses_def
  tsCreateTournamentApiTournamentsPostResponse_def
  tsDeleteTournamentApiTournamentsTournamentIdDeleteData_def
  tsDeleteTournamentApiTournamentsTournamentIdDeleteErrors_def
  tsDeleteTournamentApiTournamentsTournamentIdDeleteError_def
  tsDeleteTournamentApiTournamentsTournamentIdDeleteResponses_def
  tsDeleteTournamentApiTournamentsTournamentIdDeleteResponse_def
  tsGetTournamentApiTournamentsTournamentIdGetData_def
  tsGetTournamentApiTournamentsTournamentIdGetErrors_def
  tsGetTournamentApiTournamentsTournamentIdGetError_def
  tsGetTournamentApiTournamentsTournamentIdGetResponses_def
  tsGetTournamentApiTournamentsTournamentIdGetResponse_def
  tsUpdateTournamentByIdApiTournamentsTournamentIdPutData_def
  tsUpdateTournamentByIdApiTournamentsTournamentIdPutErrors_def
  tsUpdateTournamentByIdApiTournamentsTournamentIdPutError_def
  tsUpdateTournamentByIdApiTournamentsTournamentIdPutResponses_def
  tsUpdateTournamentByIdApiTournamentsTournamentIdPutResponse_def
  tsGetAvailableInputsApiTournamentsTournamentIdAvailableInputsGetData_def
  tsGetAvailableInputsApiTournamentsTournamentIdAvailableInputsGetErrors_def
  tsGetAvailableInputsApiTournamentsTournamentIdAvailableInputsGetError_def
  tsGetAvailableInputsApiTournamentsTournamentIdAvailableInputsGetResponses_def
  tsGetAvailableInputsApiTournamentsTournamentIdAvailableInputsGetResponse_def
  tsChangeStatusApiTournamentsTournamentIdChangeStatusPostData_def
  tsChangeStatusApiTournamentsTournamentIdChangeStatusPostErrors_def
  tsChangeStatusApiTournamentsTournamentIdChangeStatusPostError_def
  tsChangeStatusApiTournamentsTournamentIdChangeStatusPostResponses_def
  tsChangeStatusApiTournamentsTournamentIdChangeStatusPostResponse_def
  tsGetTournamentLogoApiTournamentsTournamentIdLogoGetData_def
  tsGetTournamentLogoApiTournamentsTournamentIdLogoGetErrors_def
  tsGetTournamentLogoApiTournamentsTournamentIdLogoGetError_def
  tsGetTournamentLogoApiTournamentsTournamentIdLogoGetResponses_def
  tsUploadLogoApiTournamentsTournamentIdLogoPostData_def
  tsUploadLogoApiTournamentsTournamentIdLogoPostErrors_def
  tsUploadLogoApiTournamentsTournamentIdLogoPostError_def
  tsUploadLogoApiTournamentsTournamentIdLogoPostResponses_def
  tsUploadLogoApiTournamentsTournamentIdLogoPostResponse_def
  tsCreateMatchApiTournamentsTournamentIdMatchesPostData_def
  tsCreateMatchApiTournamentsTournamentIdMatchesPostErrors_def
  tsCreateMatchApiTournamentsTournamentIdMatchesPostError_def
  tsCreateMatchApiTournamentsTournamentIdMatchesPostResponses_def
  tsCreateMatchApiTournamentsTournamentIdMatchesPostResponse_def
  tsDeleteMatchApiTournamentsTournamentIdMatchesMatchIdDeleteData_def
  tsDeleteMatchApiTournamentsTournamentIdMatchesMatchIdDeleteErrors_def
  tsDeleteMatchApiTournamentsTournamentIdMatchesMatchIdDeleteError_def
  tsDeleteMatchApiTournamentsTournamentIdMatchesMatchIdDeleteResponses_def
  tsDeleteMatchApiTournamentsTournamentIdMatchesMatchIdDeleteResponse_def
  tsUpdateMatchByIdApiTournamentsTournamentIdMatchesMatchIdPutData_def
  tsUpdateMatchByIdApiTournamentsTournamentIdMatchesMatchIdPutErrors_def
  tsUpdateMatchByIdApiTournamentsTournamentIdMatchesMatchIdPutError_def
  tsUpdateMatchByIdApiTournamentsTournamentIdMatchesMatchIdPutResponses_def
  tsUpdateMatchByIdApiTournamentsTournamentIdMatchesMatchIdPutResponse_def
  tsGetNextStageRankingsApiTournamentsTournamentIdNextStageRankingsGetData_def
  tsGetNextStageRankingsApiTournamentsTournamentIdNextStageRankingsGetErrors_def
  tsGetNextStageRankingsApiTournamentsTournamentIdNextStageRankingsGetError_def
  tsGetNextStageRankingsApiTournamentsTournamentIdNextStageRankingsGetResponses_def
  tsGetNextStageRankingsApiTournamentsTournamentIdNextStageRankingsGetResponse_def
  tsGetPlayersApiTournamentsTournamentIdPlayersGetData_def
  tsGetPlayersApiTournamentsTournamentIdPlayersGetErrors_def
  tsGetPlayersApiTournamentsTournamentIdPlayersGetError_def
  tsGetPlayersApiTournamentsTournamentIdPlayersGetResponses_def
  tsGetPlayersApiTournamentsTournamentIdPlayersGetResponse_def
  tsCreateSinglePlayerApiTournamentsTournamentIdPlayersPostData_def
  tsCreateSinglePlayerApiTournamentsTournamentIdPlayersPostErrors_def
  tsCreateSinglePlayerApiTournamentsTournamentIdPlayersPostError_def
  tsCreateSinglePlayerApiTournamentsTournamentIdPlayersPostResponses_def
  tsCreateSinglePlayerApiTournamentsTournamentIdPlayersPostResponse_def
  tsDeletePlayerApiTournamentsTournamentIdPlayersPlayerIdDeleteData_def
  tsDeletePlayerApiTournamentsTournamentIdPlayersPlayerIdDeleteErrors_def
  tsDeletePlayerApiTournamentsTournamentIdPlayersPlayerIdDeleteError_def
  tsDeletePlayerApiTournamentsTournamentIdPlayersPlayerIdDeleteResponses_def
  tsDeletePlayerApiTournamentsTournamentIdPlayersPlayerIdDeleteResponse_def
  tsUpdatePlayerByIdApiTournamentsTournamentIdPlayersPlayerIdPutData_def
  tsUpdatePlayerByIdApiTournamentsTournamentIdPlayersPlayerIdPutErrors_def
  tsUpdatePlayerByIdApiTournamentsTournamentIdPlayersPlayerIdPutError_def
  tsUpdatePlayerByIdApiTournamentsTournamentIdPlayersPlayerIdPutResponses_def
  tsUpdatePlayerByIdApiTournamentsTournamentIdPlayersPlayerIdPutResponse_def
  tsCreateMultiplePlayersApiTournamentsTournamentIdPlayersMultiPostData_def
  tsCreateMultiplePlayersApiTournamentsTournamentIdPlayersMultiPostErrors_def
  tsCreateMultiplePlayersApiTournamentsTournamentIdPlayersMultiPostError_def
  tsCreateMultiplePlayersApiTournamentsTournamentIdPlayersMultiPostResponses_def
  tsCreateMultiplePlayersApiTournamentsTournamentIdPlayersMultiPostResponse_def
  tsGetRankingsApiTournamentsTournamentIdRankingsGetData_def
  tsGetRankingsApiTournamentsTournamentIdRankingsGetErrors_def
  tsGetRankingsApiTournamentsTournamentIdRankingsGetError_def
  tsGetRankingsApiTournamentsTournamentIdRankingsGetResponses_def
  tsGetRankingsApiTournamentsTournamentIdRankingsGetResponse_def
  tsCreateRankingApiTournamentsTournamentIdRankingsPostData_def
  tsCreateRankingApiTournamentsTournamentIdRankingsPostErrors_def
  tsCreateRankingApiTournamentsTournamentIdRankingsPostError_def
  tsCreateRankingApiTournamentsTournamentIdRankingsPostResponses_def
  tsCreateRankingApiTournamentsTournamentIdRankingsPostResponse_def
  tsDeleteRankingApiTournamentsTournamentIdRankingsRankingIdDeleteData_def
  tsDeleteRankingApiTournamentsTournamentIdRankingsRankingIdDeleteErrors_def
  tsDeleteRankingApiTournamentsTournamentIdRankingsRankingIdDeleteError_def
  tsDeleteRankingApiTournamentsTournamentIdRankingsRankingIdDeleteResponses_def
  tsDeleteRankingApiTournamentsTournamentIdRankingsRankingIdDeleteResponse_def
  tsUpdateRankingByIdApiTournamentsTournamentIdRankingsRankingIdPutData_def
  tsUpdateRankingByIdApiTournamentsTournamentIdRankingsRankingIdPutErrors_def
  tsUpdateRankingByIdApiTournamentsTournamentIdRankingsRankingIdPutError_def
  tsUpdateRankingByIdApiTournamentsTournamentIdRankingsRankingIdPutResponses_def
  tsUpdateRankingByIdApiTournamentsTournamentIdRankingsRankingIdPutResponse_def
  tsCreateRoundApiTournamentsTournamentIdRoundsPostData_def
  tsCreateRoundApiTournamentsTournamentIdRoundsPostErrors_def
  tsCreateRoundApiTournamentsTournamentIdRoundsPostError_def
  tsCreateRoundApiTournamentsTournamentIdRoundsPostResponses_def
  tsCreateRoundApiTournamentsTournamentIdRoundsPostResponse_def
  tsDeleteRoundApiTournamentsTournamentIdRoundsRoundIdDeleteData_def
  tsDeleteRoundApiTournamentsTournamentIdRoundsRoundIdDeleteErrors_def
  tsDeleteRoundApiTournamentsTournamentIdRoundsRoundIdDeleteError_def
  tsDeleteRoundApiTournamentsTournamentIdRoundsRoundIdDeleteResponses_def
  tsDeleteRoundApiTournamentsTournamentIdRoundsRoundIdDeleteResponse_def
  tsUpdateRoundByIdApiTournamentsTournamentIdRoundsRoundIdPutData_def
  tsUpdateRoundByIdApiTournamentsTournamentIdRoundsRoundIdPutErrors_def
  tsUpdateRoundByIdApiTournamentsTournamentIdRoundsRoundIdPutError_def
  tsUpdateRoundByIdApiTournamentsTournamentIdRoundsRoundIdPutResponses_def
  tsUpdateRoundByIdApiTournamentsTournamentIdRoundsRoundIdPutResponse_def
  tsScheduleMatchesApiTournamentsTournamentIdScheduleMatchesPostData_def
  tsScheduleMatchesApiTournamentsTournamentIdScheduleMatchesPostErrors_def
  tsScheduleMatchesApiTournamentsTournamentIdScheduleMatchesPostError_def
  tsScheduleMatchesApiTournamentsTournamentIdScheduleMatchesPostResponses_def
  tsScheduleMatchesApiTournamentsTournamentIdScheduleMatchesPostResponse_def
  tsCreateStageItemApiTournamentsTournamentIdStageItemsPostData_def
  tsCreateStageItemApiTournamentsTournamentIdStageItemsPostErrors_def
  tsCreateStageItemApiTournamentsTournamentIdStageItemsPostError_def
  tsCreateStageItemApiTournamentsTournamentIdStageItemsPostResponses_def
  tsCreateStageItemApiTournamentsTournamentIdStageItemsPostResponse_def
  tsDeleteStageItemApiTournamentsTournamentIdStageItemsStageItemIdDeleteData_def
  tsDeleteStageItemApiTournamentsTournamentIdStageItemsStageItemIdDeleteErrors_def
  tsDeleteStageItemApiTournamentsTournamentIdStageItemsStageItemIdDeleteError_def
  tsDeleteStageItemApiTournamentsTournamentIdStageItemsStageItemIdDeleteResponses_def
  tsDeleteStageItemApiTournamentsTournamentIdStageItemsStageItemIdDeleteResponse_def
  tsUpdateStageItemApiTournamentsTournamentIdStageItemsStageItemIdPutData_def
  tsUpdateStageItemApiTournamentsTournamentIdStageItemsStageItemIdPutErrors_def
  tsUpdateStageItemApiTournamentsTournamentIdStageItemsStageItemIdPutError_def
  tsUpdateStageItemApiTournamentsTournamentIdStageItemsStageItemIdPutResponses_def
  tsUpdateStageItemApiTournamentsTournamentIdStageItemsStageItemIdPutResponse_def
  tsUpdateStageItemInputApiTournamentsTournamentIdStageItemsStageItemIdInputsStageItemInputIdPutData_def
  tsUpdateStageItemInputApiTournamentsTournamentIdStageItemsStageItemIdInputsStageItemInputIdPutErrors_def
  tsUpdateStageItemInputApiTournamentsTournamentIdStageItemsStageItemIdInputsStageItemInputIdPutError_def
  tsUpdateStageItemInputApiTournamentsTournamentIdStageItemsStageItemIdInputsStageItemInputIdPutResponses_def
  tsUpdateStageItemInputApiTournamentsTournamentIdStageItemsStageItemIdInputsStageItemInputIdPutResponse_def
  tsGetStagesApiTournamentsTournamentIdStagesGetData_def
  tsGetStagesApiTournamentsTournamentIdStagesGetErrors_def
  tsGetStagesApiTournamentsTournamentIdStagesGetError_def
  tsGetStagesApiTournamentsTournamentIdStagesGetResponses_def
  tsGetStagesApiTournamentsTournamentIdStagesGetResponse_def
  tsCreateStageApiTournamentsTournamentIdStagesPostData_def
  tsCreateStageApiTournamentsTournamentIdStagesPostErrors_def
  tsCreateStageApiTournamentsTournamentIdStagesPostError_def
  tsCreateStageApiTournamentsTournamentIdStagesPostResponses_def
  tsCreateStageApiTournamentsTournamentIdStagesPostResponse_def
  tsActivateNextStageApiTournamentsTournamentIdStagesActivatePostData_def
  tsActivateNextStageApiTournamentsTournamentIdStagesActivatePostErrors_def
  tsActivateNextStageApiTournamentsTournamentIdStagesActivatePostError_def
  tsActivateNextStageApiTournamentsTournamentIdStagesActivatePostResponses_def
  tsActivateNextStageApiTournamentsTournamentIdStagesActivatePostResponse_def
  tsDeleteStageApiTournamentsTournamentIdStagesStageIdDeleteData_def
  tsDeleteStageApiTournamentsTournamentIdStagesStageIdDeleteErrors_def
  tsDeleteStageApiTournamentsTournamentIdStagesStageIdDeleteError_def
  tsDeleteStageApiTournamentsTournamentIdStagesStageIdDeleteResponses_def
  tsDeleteStageApiTournamentsTournamentIdStagesStageIdDeleteResponse_def
  tsUpdateStageApiTournamentsTournamentIdStagesStageIdPutData_def
  tsUpdateStageApiTournamentsTournamentIdStagesStageIdPutErrors_def
  tsUpdateStageApiTournamentsTournamentIdStagesStageIdPutError_def
  tsUpdateStageApiTournamentsTournamentIdStagesStageIdPutResponses_def
  tsUpdateStageApiTournamentsTournamentIdStagesStageIdPutResponse_def
  tsGetStandingsApiTournamentsTournamentIdStandingsGetData_def
  tsGetStandingsApiTournamentsTournamentIdStandingsGetErrors_def
  tsGetStandingsApiTournamentsTournamentIdStandingsGetError_def
  tsGetStandingsApiTournamentsTournamentIdStandingsGetResponses_def
  tsGetStandingsApiTournamentsTournamentIdStandingsGetResponse_def
  tsGetTeamsApiTournamentsTournamentIdTeamsGetData_def
  tsGetTeamsApiTournamentsTournamentIdTeamsGetErrors_def
  tsGetTeamsApiTournamentsTournamentIdTeamsGetError_def
  tsGetTeamsApiTournamentsTournamentIdTeamsGetResponses_def
  tsGetTeamsApiTournamentsTournamentIdTeamsGetResponse_def
  tsCreateTeamApiTournamentsTournamentIdTeamsPostData_def
  tsCreateTeamApiTournamentsTournamentIdTeamsPostErrors_def
  tsCreateTeamApiTournamentsTournamentIdTeamsPostError_def
  tsCreateTeamApiTournamentsTournamentIdTeamsPostResponses_def
  tsCreateTeamApiTournamentsTournamentIdTeamsPostResponse_def
  tsDeleteTeamApiTournamentsTournamentIdTeamsTeamIdDeleteData_def
  tsDeleteTeamApiTournamentsTournamentIdTeamsTeamIdDeleteErrors_def
  tsDeleteTeamApiTournamentsTournamentIdTeamsTeamIdDeleteError_def
  tsDeleteTeamApiTournamentsTournamentIdTeamsTeamIdDeleteResponses_def
  tsDeleteTeamApiTournamentsTournamentIdTeamsTeamIdDeleteResponse_def
  tsUpdateTeamByIdApiTournamentsTournamentIdTeamsTeamIdPutData_def
  tsUpdateTeamByIdApiTournamentsTournamentIdTeamsTeamIdPutErrors_def
  tsUpdateTeamByIdApiTournamentsTournamentIdTeamsTeamIdPutError_def
  tsUpdateTeamByIdApiTournamentsTournamentIdTeamsTeamIdPutResponses_def
  tsUpdateTeamByIdApiTournamentsTournamentIdTeamsTeamIdPutResponse_def
  tsGetTeamLogoApiTournamentsTournamentIdTeamsTeamIdLogoGetData_def
  tsGetTeamLogoApiTournamentsTournamentIdTeamsTeamIdLogoGetErrors_def
  tsGetTeamLogoApiTournamentsTournamentIdTeamsTeamIdLogoGetError_def
  tsGetTeamLogoApiTournamentsTournamentIdTeamsTeamIdLogoGetResponses_def
  tsUpdateTeamLogoApiTournamentsTournamentIdTeamsTeamIdLogoPostData_def
  tsUpdateTeamLogoApiTournamentsTournamentIdTeamsTeamIdLogoPostErrors_def
  tsUpdateTeamLogoApiTournamentsTournamentIdTeamsTeamIdLogoPostError_def
  tsUpdateTeamLogoApiTournamentsTournamentIdTeamsTeamIdLogoPostResponses_def
  tsUpdateTeamLogoApiTournamentsTournamentIdTeamsTeamIdLogoPostResponse_def
  tsCreateMultipleTeamsApiTournamentsTournamentIdTeamsMultiPostData_def
  tsCreateMultipleTeamsApiTournamentsTournamentIdTeamsMultiPostErrors_def
  tsCreateMultipleTeamsApiTournamentsTournamentIdTeamsMultiPostError_def
  tsCreateMultipleTeamsApiTournamentsTournamentIdTeamsMultiPostResponses_def
  tsCreateMultipleTeamsApiTournamentsTournamentIdTeamsMultiPostResponse_def
  tsGetUserApiUsersMeGetData_def
  tsGetUserApiUsersMeGetResponses_def
  tsGetUserApiUsersMeGetResponse_def
  tsRegisterUserApiUsersRegisterPostData_def
  tsRegisterUserApiUsersRegisterPostErrors_def
  tsRegisterUserApiUsersRegisterPostError_def
  tsRegisterUserApiUsersRegisterPostResponses_def
  tsRegisterUserApiUsersRegisterPostResponse_def
  tsGetMeApiUsersUserIdGetData_def
  tsGetMeApiUsersUserIdGetErrors_def
  tsGetMeApiUsersUserIdGetError_def
  tsGetMeApiUsersUserIdGetResponses_def
  tsGetMeApiUsersUserIdGetResponse_def
  tsUpdateUserDetailsApiUsersUserIdPutData_def
  tsUpdateUserDetailsApiUsersUserIdPutErrors_def
  tsUpdateUserDetailsApiUsersUserIdPutError_def
  tsUpdateUserDetailsApiUsersUserIdPutResponses_def
  tsUpdateUserDetailsApiUsersUserIdPutResponse_def
  tsPutUserPasswordApiUsersUserIdPasswordPutData_def
  tsPutUserPasswordApiUsersUserIdPasswordPutErrors_def
  tsPutUserPasswordApiUsersUserIdPasswordPutError_def
  tsPutUserPasswordApiUsersUserIdPasswordPutResponses_def
  tsPutUserPasswordApiUsersUserIdPasswordPutResponse_def

section \<open>Endpoints and their types\<close>

definition request_type :: "endpoint \<Rightarrow> ts_type option" where
  "request_type ep = map_option fst (map_of ENDPOINT_TYPES ep)"

text \<open>The request type of an endpoint asks for its address, for a number for each placeholder of the address, and
  for a body if the endpoint sends one.\<close>

definition type_fits_endpoint :: "endpoint \<Rightarrow> ts_type \<Rightarrow> bool" where
  "type_fits_endpoint ep d =
     (let names = param_names (url_parts (ep_url ep)); path = ts_properties (ts_at d ''path'')
      in ts_at d ''url'' = TLit (ep_url ep) \<and>
         list_all (\<lambda>n. n \<in> fst ` set path) names \<and>
         list_all (\<lambda>(k, opt, t). k \<in> set names \<and> \<not> opt \<and> t = TNumber) path \<and>
         (path \<noteq> [] \<longrightarrow> (''path'', False, ts_at d ''path'') \<in> set (ts_properties d)) \<and>
         (ep_body ep = NoBody) = (ts_at d ''body'' = TNever))"

lemma endpoint_types_keys: "map fst ENDPOINT_TYPES = ENDPOINTS"
  unfolding ENDPOINT_TYPES_def ENDPOINTS_def by (simp only: list.map fst_conv)

lemma endpoint_types_fit: "list_all (\<lambda>(ep, d, r, e). type_fits_endpoint ep d) ENDPOINT_TYPES"
  by code_simp

text \<open>Every endpoint whose request can be wrong has the error type of a failed validation, and every endpoint has
  answers of status 200 or 204 only.\<close>

lemma endpoint_answers:
  "list_all (\<lambda>(ep, d, r, e). list_all (\<lambda>(k, opt, t). k \<in> {''200'', ''204''} \<and> \<not> opt) (ts_properties r) \<and>
     (case e of
        None \<Rightarrow> ts_at d ''path'' = TNever \<and> ts_at d ''query'' = TNever \<and> ts_at d ''body'' = TNever
      | Some t \<Rightarrow> t = TObject [(''422'', False, tsHttpValidationError)])) ENDPOINT_TYPES"
  by code_simp

section \<open>Schemas and their types\<close>

text \<open>The file of an upload is a text to the generated schema.\<close>

definition upload_schema :: schema where
  "upload_schema = ZObject [(''file'', ZNullable ZText)]"

definition is_upload :: "schema \<Rightarrow> bool" where
  "is_upload s =
     (case s of
        ZObject [(k, ZNullable (ZString None None None))] \<Rightarrow> k = ''file''
      | _ \<Rightarrow> False)"

lemma is_upload_simps [simp]: "is_upload (ZObject [(''file'', ZNullable ZText)])"
  by (simp add: is_upload_def)

lemma is_upload_iff: "is_upload s \<longleftrightarrow> s = upload_schema"
  by (auto simp: is_upload_def upload_schema_def split: schema.splits list.splits option.splits)

text \<open>The schemas of the data fit their types, those first that the others are made of.\<close>

lemma open_status [fitting]: "has_type tsTournamentStatus (JStr ''OPEN'')"
  by (simp add: tsTournamentStatus_def)

lemma data_fits_0 [fitting]:
  "fits zAuthFeatureFlags tsAuthFeatureFlags"
  "fits zBodyLoginForAccessTokenApiTokenPost tsBodyLoginForAccessTokenApiTokenPost"
  "fits zClub tsClub"
  "fits zClubCreateBody tsClubCreateBody"
  "fits zClubUpdateBody tsClubUpdateBody"
  "fits zPlayer tsPlayer"
  "fits zValidationError tsValidationError"
  "fits zStageItemInputTentative tsStageItemInputTentative"
  "fits zTeam tsTeam"
  "fits zStageItemInputEmpty tsStageItemInputEmpty"
  "fits zMatchBody tsMatchBody"
  "fits zMatchCreateBodyFrontend tsMatchCreateBodyFrontend"
  "fits zPlayerBody tsPlayerBody"
  "fits zPlayerMultiBody tsPlayerMultiBody"
  "fits zRanking tsRanking"
  "fits zRankingBody tsRankingBody"
  "fits zRankingCreateBody tsRankingCreateBody"
  "fits zRoundCreateBody tsRoundCreateBody"
  "fits zRoundUpdateBody tsRoundUpdateBody"
  "fits zStageActivateBody tsStageActivateBody"
  "fits zStageType tsStageType"
  "fits zStageItemInputOptionFinal tsStageItemInputOptionFinal"
  "fits zStageItemInputOptionTentative tsStageItemInputOptionTentative"
  "fits zStageItemInputStanding tsStageItemInputStanding"
  "fits zStageItemInputUpdateBodyEmpty tsStageItemInputUpdateBodyEmpty"
  "fits zStageItemInputUpdateBodyFinal tsStageItemInputUpdateBodyFinal"
  "fits zStageItemInputUpdateBodyTentative tsStageItemInputUpdateBodyTentative"
  "fits zStageItemUpdateBody tsStageItemUpdateBody"
  "fits zStageUpdateBody tsStageUpdateBody"
  "fits zSuccessResponse tsSuccessResponse"
  "fits zTeamBody tsTeamBody"
  "fits zTeamMultiBody tsTeamMultiBody"
  "fits zToken tsToken"
  "fits zTournamentStatus tsTournamentStatus"
  "fits zTournamentBody tsTournamentBody"
  "fits zTournamentUpdateBody tsTournamentUpdateBody"
  "fits zUserAccountType tsUserAccountType"
  "fits zUserPasswordToUpdate tsUserPasswordToUpdate"
  "fits zUserToRegister tsUserToRegister"
  "fits zUserToUpdate tsUserToUpdate"
  by (simp_all add: fitting zAuthFeatureFlags_def tsAuthFeatureFlags_def
      zBodyLoginForAccessTokenApiTokenPost_def tsBodyLoginForAccessTokenApiTokenPost_def
      zClub_def tsClub_def
      zClubCreateBody_def tsClubCreateBody_def
      zClubUpdateBody_def tsClubUpdateBody_def
      zPlayer_def tsPlayer_def
      zValidationError_def tsValidationError_def
      zStageItemInputTentative_def tsStageItemInputTentative_def
      zTeam_def tsTeam_def
      zStageItemInputEmpty_def tsStageItemInputEmpty_def
      zMatchBody_def tsMatchBody_def
      zMatchCreateBodyFrontend_def tsMatchCreateBodyFrontend_def
      zPlayerBody_def tsPlayerBody_def
      zPlayerMultiBody_def tsPlayerMultiBody_def
      zRanking_def tsRanking_def
      zRankingBody_def tsRankingBody_def
      zRankingCreateBody_def tsRankingCreateBody_def
      zRoundCreateBody_def tsRoundCreateBody_def
      zRoundUpdateBody_def tsRoundUpdateBody_def
      zStageActivateBody_def tsStageActivateBody_def
      zStageType_def tsStageType_def
      zStageItemInputOptionFinal_def tsStageItemInputOptionFinal_def
      zStageItemInputOptionTentative_def tsStageItemInputOptionTentative_def
      zStageItemInputStanding_def tsStageItemInputStanding_def
      zStageItemInputUpdateBodyEmpty_def tsStageItemInputUpdateBodyEmpty_def
      zStageItemInputUpdateBodyFinal_def tsStageItemInputUpdateBodyFinal_def
      zStageItemInputUpdateBodyTentative_def tsStageItemInputUpdateBodyTentative_def
      zStageItemUpdateBody_def tsStageItemUpdateBody_def
      zStageUpdateBody_def tsStageUpdateBody_def
      zSuccessResponse_def tsSuccessResponse_def
      zTeamBody_def tsTeamBody_def
      zTeamMultiBody_def tsTeamMultiBody_def
      zToken_def tsToken_def
      zTournamentStatus_def tsTournamentStatus_def
      zTournamentBody_def tsTournamentBody_def
      zTournamentUpdateBody_def tsTournamentUpdateBody_def
      zUserAccountType_def tsUserAccountType_def
      zUserPasswordToUpdate_def tsUserPasswordToUpdate_def
      zUserToRegister_def tsUserToRegister_def
      zUserToUpdate_def tsUserToUpdate_def)

lemma data_fits_1 [fitting]:
  "fits zAuthFeatureFlagsResponse tsAuthFeatureFlagsResponse"
  "fits zClubResponse tsClubResponse"
  "fits zClubsResponse tsClubsResponse"
  "fits zFullTeamWithPlayers tsFullTeamWithPlayers"
  "fits zHttpValidationError tsHttpValidationError"
  "fits zStageItemInputFinal tsStageItemInputFinal"
  "fits zPaginatedPlayers tsPaginatedPlayers"
  "fits zRankingsResponse tsRankingsResponse"
  "fits zSinglePlayerResponse tsSinglePlayerResponse"
  "fits zSingleTeamResponse tsSingleTeamResponse"
  "fits zStageItemCreateBody tsStageItemCreateBody"
  "fits zStageItemInputOptionsResponse tsStageItemInputOptionsResponse"
  "fits zStageItemInputUpdate tsStageItemInputUpdate"
  "fits zStandingsResponse tsStandingsResponse"
  "fits zTokenResponse tsTokenResponse"
  "fits zTournament tsTournament"
  "fits zTournamentChangeStatusBody tsTournamentChangeStatusBody"
  "fits zUserPublic tsUserPublic"
  by (simp_all add: fitting zAuthFeatureFlagsResponse_def tsAuthFeatureFlagsResponse_def
      zClubResponse_def tsClubResponse_def
      zClubsResponse_def tsClubsResponse_def
      zFullTeamWithPlayers_def tsFullTeamWithPlayers_def
      zHttpValidationError_def tsHttpValidationError_def
      zStageItemInputFinal_def tsStageItemInputFinal_def
      zPaginatedPlayers_def tsPaginatedPlayers_def
      zRankingsResponse_def tsRankingsResponse_def
      zSinglePlayerResponse_def tsSinglePlayerResponse_def
      zSingleTeamResponse_def tsSingleTeamResponse_def
      zStageItemCreateBody_def tsStageItemCreateBody_def
      zStageItemInputOptionsResponse_def tsStageItemInputOptionsResponse_def
      zStageItemInputUpdate_def tsStageItemInputUpdate_def
      zStandingsResponse_def tsStandingsResponse_def
      zTokenResponse_def tsTokenResponse_def
      zTournament_def tsTournament_def
      zTournamentChangeStatusBody_def tsTournamentChangeStatusBody_def
      zUserPublic_def tsUserPublic_def)

lemma data_fits_2 [fitting]:
  "fits zMatch tsMatch"
  "fits zMatchWithDetails tsMatchWithDetails"
  "fits zMatchWithDetailsDefinitive tsMatchWithDetailsDefinitive"
  "fits zPaginatedTeams tsPaginatedTeams"
  "fits zPlayersResponse tsPlayersResponse"
  "fits zStageRankingResponse tsStageRankingResponse"
  "fits zTournamentResponse tsTournamentResponse"
  "fits zTournamentsResponse tsTournamentsResponse"
  "fits zUserPublicResponse tsUserPublicResponse"
  by (simp_all add: fitting zMatch_def tsMatch_def
      zMatchWithDetails_def tsMatchWithDetails_def
      zMatchWithDetailsDefinitive_def tsMatchWithDetailsDefinitive_def
      zPaginatedTeams_def tsPaginatedTeams_def
      zPlayersResponse_def tsPlayersResponse_def
      zStageRankingResponse_def tsStageRankingResponse_def
      zTournamentResponse_def tsTournamentResponse_def
      zTournamentsResponse_def tsTournamentsResponse_def
      zUserPublicResponse_def tsUserPublicResponse_def)

lemma data_fits_3 [fitting]:
  "fits zRoundWithMatches tsRoundWithMatches"
  "fits zSingleMatchResponse tsSingleMatchResponse"
  "fits zTeamsWithPlayersResponse tsTeamsWithPlayersResponse"
  by (simp_all add: fitting zRoundWithMatches_def tsRoundWithMatches_def
      zSingleMatchResponse_def tsSingleMatchResponse_def
      zTeamsWithPlayersResponse_def tsTeamsWithPlayersResponse_def)

lemma data_fits_4 [fitting]:
  "fits zStageItemWithRounds tsStageItemWithRounds"
  by (simp_all add: fitting zStageItemWithRounds_def tsStageItemWithRounds_def)

lemma data_fits_5 [fitting]:
  "fits zStageWithStageItems tsStageWithStageItems"
  by (simp_all add: fitting zStageWithStageItems_def tsStageWithStageItems_def)

lemma data_fits_6 [fitting]:
  "fits zStagesWithStageItemsResponse tsStagesWithStageItemsResponse"
  by (simp_all add: fitting zStagesWithStageItemsResponse_def tsStagesWithStageItemsResponse_def)

lemmas endpoint_schema_defs =
  zGetAuthFeaturesApiAuthFeaturesGetResponse_def
  zGetClubsApiClubsGetResponse_def
  zCreateNewClubApiClubsPostBody_def
  zCreateNewClubApiClubsPostResponse_def
  zDeleteClubApiClubsClubIdDeletePath_def
  zDeleteClubApiClubsClubIdDeleteResponse_def
  zUpdateClubApiClubsClubIdPutBody_def
  zUpdateClubApiClubsClubIdPutPath_def
  zUpdateClubApiClubsClubIdPutResponse_def
  zLogoutApiLogoutPostResponse_def
  zPingApiPingGetResponse_def
  zLoginForAccessTokenApiTokenPostBody_def
  zLoginForAccessTokenApiTokenPostResponse_def
  zGetTournamentsApiTournamentsGetQuery_def
  zGetTournamentsApiTournamentsGetResponse_def
  zCreateTournamentApiTournamentsPostBody_def
  zCreateTournamentApiTournamentsPostResponse_def
  zDeleteTournamentApiTournamentsTournamentIdDeletePath_def
  zDeleteTournamentApiTournamentsTournamentIdDeleteResponse_def
  zGetTournamentApiTournamentsTournamentIdGetPath_def
  zGetTournamentApiTournamentsTournamentIdGetResponse_def
  zUpdateTournamentByIdApiTournamentsTournamentIdPutBody_def
  zUpdateTournamentByIdApiTournamentsTournamentIdPutPath_def
  zUpdateTournamentByIdApiTournamentsTournamentIdPutResponse_def
  zGetAvailableInputsApiTournamentsTournamentIdAvailableInputsGetPath_def
  zGetAvailableInputsApiTournamentsTournamentIdAvailableInputsGetResponse_def
  zChangeStatusApiTournamentsTournamentIdChangeStatusPostBody_def
  zChangeStatusApiTournamentsTournamentIdChangeStatusPostPath_def
  zChangeStatusApiTournamentsTournamentIdChangeStatusPostResponse_def
  zGetTournamentLogoApiTournamentsTournamentIdLogoGetPath_def
  zUploadLogoApiTournamentsTournamentIdLogoPostBody_def
  zUploadLogoApiTournamentsTournamentIdLogoPostPath_def
  zUploadLogoApiTournamentsTournamentIdLogoPostResponse_def
  zCreateMatchApiTournamentsTournamentIdMatchesPostBody_def
  zCreateMatchApiTournamentsTournamentIdMatchesPostPath_def
  zCreateMatchApiTournamentsTournamentIdMatchesPostResponse_def
  zDeleteMatchApiTournamentsTournamentIdMatchesMatchIdDeletePath_def
  zDeleteMatchApiTournamentsTournamentIdMatchesMatchIdDeleteResponse_def
  zUpdateMatchByIdApiTournamentsTournamentIdMatchesMatchIdPutBody_def
  zUpdateMatchByIdApiTournamentsTournamentIdMatchesMatchIdPutPath_def
  zUpdateMatchByIdApiTournamentsTournamentIdMatchesMatchIdPutResponse_def
  zGetNextStageRankingsApiTournamentsTournamentIdNextStageRankingsGetPath_def
  zGetNextStageRankingsApiTournamentsTournamentIdNextStageRankingsGetResponse_def
  zGetPlayersApiTournamentsTournamentIdPlayersGetPath_def
  zGetPlayersApiTournamentsTournamentIdPlayersGetQuery_def
  zGetPlayersApiTournamentsTournamentIdPlayersGetResponse_def
  zCreateSinglePlayerApiTournamentsTournamentIdPlayersPostBody_def
  zCreateSinglePlayerApiTournamentsTournamentIdPlayersPostPath_def
  zCreateSinglePlayerApiTournamentsTournamentIdPlayersPostResponse_def
  zDeletePlayerApiTournamentsTournamentIdPlayersPlayerIdDeletePath_def
  zDeletePlayerApiTournamentsTournamentIdPlayersPlayerIdDeleteResponse_def
  zUpdatePlayerByIdApiTournamentsTournamentIdPlayersPlayerIdPutBody_def
  zUpdatePlayerByIdApiTournamentsTournamentIdPlayersPlayerIdPutPath_def
  zUpdatePlayerByIdApiTournamentsTournamentIdPlayersPlayerIdPutResponse_def
  zCreateMultiplePlayersApiTournamentsTournamentIdPlayersMultiPostBody_def
  zCreateMultiplePlayersApiTournamentsTournamentIdPlayersMultiPostPath_def
  zCreateMultiplePlayersApiTournamentsTournamentIdPlayersMultiPostResponse_def
  zGetRankingsApiTournamentsTournamentIdRankingsGetPath_def
  zGetRankingsApiTournamentsTournamentIdRankingsGetResponse_def
  zCreateRankingApiTournamentsTournamentIdRankingsPostBody_def
  zCreateRankingApiTournamentsTournamentIdRankingsPostPath_def
  zCreateRankingApiTournamentsTournamentIdRankingsPostResponse_def
  zDeleteRankingApiTournamentsTournamentIdRankingsRankingIdDeletePath_def
  zDeleteRankingApiTournamentsTournamentIdRankingsRankingIdDeleteResponse_def
  zUpdateRankingByIdApiTournamentsTournamentIdRankingsRankingIdPutBody_def
  zUpdateRankingByIdApiTournamentsTournamentIdRankingsRankingIdPutPath_def
  zUpdateRankingByIdApiTournamentsTournamentIdRankingsRankingIdPutResponse_def
  zCreateRoundApiTournamentsTournamentIdRoundsPostBody_def
  zCreateRoundApiTournamentsTournamentIdRoundsPostPath_def
  zCreateRoundApiTournamentsTournamentIdRoundsPostResponse_def
  zDeleteRoundApiTournamentsTournamentIdRoundsRoundIdDeletePath_def
  zDeleteRoundApiTournamentsTournamentIdRoundsRoundIdDeleteResponse_def
  zUpdateRoundByIdApiTournamentsTournamentIdRoundsRoundIdPutBody_def
  zUpdateRoundByIdApiTournamentsTournamentIdRoundsRoundIdPutPath_def
  zUpdateRoundByIdApiTournamentsTournamentIdRoundsRoundIdPutResponse_def
  zScheduleMatchesApiTournamentsTournamentIdScheduleMatchesPostPath_def
  zScheduleMatchesApiTournamentsTournamentIdScheduleMatchesPostResponse_def
  zCreateStageItemApiTournamentsTournamentIdStageItemsPostBody_def
  zCreateStageItemApiTournamentsTournamentIdStageItemsPostPath_def
  zCreateStageItemApiTournamentsTournamentIdStageItemsPostResponse_def
  zDeleteStageItemApiTournamentsTournamentIdStageItemsStageItemIdDeletePath_def
  zDeleteStageItemApiTournamentsTournamentIdStageItemsStageItemIdDeleteResponse_def
  zUpdateStageItemApiTournamentsTournamentIdStageItemsStageItemIdPutBody_def
  zUpdateStageItemApiTournamentsTournamentIdStageItemsStageItemIdPutPath_def
  zUpdateStageItemApiTournamentsTournamentIdStageItemsStageItemIdPutResponse_def
  zUpdateStageItemInputApiTournamentsTournamentIdStageItemsStageItemIdInputsStageItemInputIdPutBody_def
  zUpdateStageItemInputApiTournamentsTournamentIdStageItemsStageItemIdInputsStageItemInputIdPutPath_def
  zUpdateStageItemInputApiTournamentsTournamentIdStageItemsStageItemIdInputsStageItemInputIdPutResponse_def
  zGetStagesApiTournamentsTournamentIdStagesGetPath_def
  zGetStagesApiTournamentsTournamentIdStagesGetQuery_def
  zGetStagesApiTournamentsTournamentIdStagesGetResponse_def
  zCreateStageApiTournamentsTournamentIdStagesPostPath_def
  zCreateStageApiTournamentsTournamentIdStagesPostResponse_def
  zActivateNextStageApiTournamentsTournamentIdStagesActivatePostBody_def
  zActivateNextStageApiTournamentsTournamentIdStagesActivatePostPath_def
  zActivateNextStageApiTournamentsTournamentIdStagesActivatePostResponse_def
  zDeleteStageApiTournamentsTournamentIdStagesStageIdDeletePath_def
  zDeleteStageApiTournamentsTournamentIdStagesStageIdDeleteResponse_def
  zUpdateStageApiTournamentsTournamentIdStagesStageIdPutBody_def
  zUpdateStageApiTournamentsTournamentIdStagesStageIdPutPath_def
  zUpdateStageApiTournamentsTournamentIdStagesStageIdPutResponse_def
  zGetStandingsApiTournamentsTournamentIdStandingsGetPath_def
  zGetStandingsApiTournamentsTournamentIdStandingsGetResponse_def
  zGetTeamsApiTournamentsTournamentIdTeamsGetPath_def
  zGetTeamsApiTournamentsTournamentIdTeamsGetQuery_def
  zGetTeamsApiTournamentsTournamentIdTeamsGetResponse_def
  zCreateTeamApiTournamentsTournamentIdTeamsPostBody_def
  zCreateTeamApiTournamentsTournamentIdTeamsPostPath_def
  zCreateTeamApiTournamentsTournamentIdTeamsPostResponse_def
  zDeleteTeamApiTournamentsTournamentIdTeamsTeamIdDeletePath_def
  zDeleteTeamApiTournamentsTournamentIdTeamsTeamIdDeleteResponse_def
  zUpdateTeamByIdApiTournamentsTournamentIdTeamsTeamIdPutBody_def
  zUpdateTeamByIdApiTournamentsTournamentIdTeamsTeamIdPutPath_def
  zUpdateTeamByIdApiTournamentsTournamentIdTeamsTeamIdPutResponse_def
  zGetTeamLogoApiTournamentsTournamentIdTeamsTeamIdLogoGetPath_def
  zUpdateTeamLogoApiTournamentsTournamentIdTeamsTeamIdLogoPostBody_def
  zUpdateTeamLogoApiTournamentsTournamentIdTeamsTeamIdLogoPostPath_def
  zUpdateTeamLogoApiTournamentsTournamentIdTeamsTeamIdLogoPostResponse_def
  zCreateMultipleTeamsApiTournamentsTournamentIdTeamsMultiPostBody_def
  zCreateMultipleTeamsApiTournamentsTournamentIdTeamsMultiPostPath_def
  zCreateMultipleTeamsApiTournamentsTournamentIdTeamsMultiPostResponse_def
  zGetUserApiUsersMeGetResponse_def
  zRegisterUserApiUsersRegisterPostBody_def
  zRegisterUserApiUsersRegisterPostResponse_def
  zGetMeApiUsersUserIdGetPath_def
  zGetMeApiUsersUserIdGetResponse_def
  zUpdateUserDetailsApiUsersUserIdPutBody_def
  zUpdateUserDetailsApiUsersUserIdPutPath_def
  zUpdateUserDetailsApiUsersUserIdPutResponse_def
  zPutUserPasswordApiUsersUserIdPasswordPutBody_def
  zPutUserPasswordApiUsersUserIdPasswordPutPath_def
  zPutUserPasswordApiUsersUserIdPasswordPutResponse_def

lemma schemas_fit: "list_all (\<lambda>(s, t). is_upload s \<or> fits s t) SCHEMA_TYPES"
  by (simp add: SCHEMA_TYPES_def fitting endpoint_schema_defs ts_endpoint_defs ts_at_def ts_values_def
      zBodyUpdateTeamLogoApiTournamentsTournamentIdTeamsTeamIdLogoPost_def
      zBodyUploadLogoApiTournamentsTournamentIdLogoPost_def)

text \<open>Whatever a schema lets through is of the type of the same name.\<close>

lemma schema_gives_type:
  assumes "zod_library safeParse email datetime" "(s, t) \<in> set SCHEMA_TYPES" "s \<noteq> upload_schema"
    and "safeParse s v = Parsed w"
  shows "has_type t w"
proof -
  have "fits s t" using schemas_fit assms(2,3) by (auto simp: list_all_iff is_upload_iff)
  moreover have "zparse email datetime s v = Parsed w"
    using assms(4) by (simp add: zod_library.safeParse_unique[OF assms(1)])
  ultimately show ?thesis using fits_sound by blast
qed

section \<open>Properties\<close>

text \<open>C33: The generated schemas and the generated types agree: whatever a schema lets through is a value of the type of
  the same name, for all data, bodies, paths, queries and answers, except for the bodies of the two uploads.\<close>

theorem schemas_give_types:
  assumes "zod_library safeParse email datetime" "(s, t) \<in> set SCHEMA_TYPES" "s \<noteq> upload_schema"
    and "safeParse s v = Parsed w"
  shows "has_type t w"
  using assms by (rule schema_gives_type)

theorem schemas_give_types_witness:
  "has_type tsClubCreateBody (JObj [(''name'', JStr ''Chess'')])"
proof -
  have "(zClubCreateBody, tsClubCreateBody) \<in> set SCHEMA_TYPES" by (simp add: SCHEMA_TYPES_def)
  note t = schemas_give_types[OF zod_reference.zod_library_axioms this]
  have "zClubCreateBody \<noteq> upload_schema" by (simp add: zClubCreateBody_def upload_schema_def)
  moreover have "zparse (\<lambda>_. False) (\<lambda>_. False) zClubCreateBody (JObj [(''name'', JStr ''Chess''), (''extra'', JNull)]) =
      Parsed (JObj [(''name'', JStr ''Chess'')])"
    by code_simp
  ultimately show ?thesis by (rule t)
qed

text \<open>The schema of an upload takes a text, which its type does not have, and refuses the file that the pages send.\<close>

lemma upload_schema_wrong:
  "zparse em dt zBodyUploadLogoApiTournamentsTournamentIdLogoPost (JObj [(''file'', JStr s)]) = Parsed (JObj [(''file'', JStr s)])"
  "\<not> has_type tsBodyUploadLogoApiTournamentsTournamentIdLogoPost (JObj [(''file'', JStr s)])"
  "zparse em dt zBodyUploadLogoApiTournamentsTournamentIdLogoPost (JObj [(''file'', JBlob b)]) = Issues [[''file'']]"
  "has_type tsBodyUploadLogoApiTournamentsTournamentIdLogoPost (JObj [(''file'', JBlob b)])"
  by (simp_all add: zBodyUploadLogoApiTournamentsTournamentIdLogoPost_def
      tsBodyUploadLogoApiTournamentsTournamentIdLogoPost_def object_result_def parts_result_def part_issues_def
      parsed_entries_def part_value_def text_ok_def opt_all_def obj_get_def check_def)

text \<open>The generated types and the generated functions agree: every endpoint has a request type with its address, a
  number for exactly each placeholder of the address, and a body exactly if the endpoint sends one.\<close>

lemma endpoint_types_agree:
  "\<forall>ep \<in> set ENDPOINTS. \<exists>d. request_type ep = Some d \<and> type_fits_endpoint ep d"
proof
  fix ep assume "ep \<in> set ENDPOINTS"
  then have "map_of ENDPOINT_TYPES ep \<noteq> None"
    unfolding endpoint_types_keys[symmetric] by (simp add: map_of_eq_None_iff)
  then obtain d r e where m: "map_of ENDPOINT_TYPES ep = Some (d, r, e)" by auto
  then have "type_fits_endpoint ep d"
    using endpoint_types_fit by (fastforce simp: list_all_iff dest: map_of_SomeD)
  then show "\<exists>d. request_type ep = Some d \<and> type_fits_endpoint ep d" using m by (simp add: request_type_def)
qed

end
