(* ===== verification/OpenApiIndex.thy ===== *)
theory OpenApiIndex
  imports EndpointTypes
begin

text \<open>
  The module \<open>frontend/src/openapi/index.ts\<close>, which the pages import as \<open>OpenApi\<close>: the functions and types it
  exports, each name with what it stands for in \<open>sdk.gen.ts\<close> or \<open>types.gen.ts\<close>. The generic type \<open>Options\<close>,
  which it exports as well, is the list \<open>options\<close> that a call of a function takes.
\<close>

section \<open>The exports\<close>

text \<open>The base address of a client is \<open>`${string}://${string}` | (string & {})\<close>: any text.\<close>

definition tsClientOptions :: ts_type where
  "tsClientOptions = TObject [(''baseURL'', False, TString)]"

definition OPENAPI_FUNCTIONS :: "(string \<times> endpoint) list" where
  "OPENAPI_FUNCTIONS =
    [(''activateNextStageApiTournamentsTournamentIdStagesActivatePost'', activateNextStageApiTournamentsTournamentIdStagesActivatePost),
     (''changeStatusApiTournamentsTournamentIdChangeStatusPost'', changeStatusApiTournamentsTournamentIdChangeStatusPost),
     (''createMatchApiTournamentsTournamentIdMatchesPost'', createMatchApiTournamentsTournamentIdMatchesPost),
     (''createMultiplePlayersApiTournamentsTournamentIdPlayersMultiPost'', createMultiplePlayersApiTournamentsTournamentIdPlayersMultiPost),
     (''createMultipleTeamsApiTournamentsTournamentIdTeamsMultiPost'', createMultipleTeamsApiTournamentsTournamentIdTeamsMultiPost),
     (''createNewClubApiClubsPost'', createNewClubApiClubsPost),
     (''createRankingApiTournamentsTournamentIdRankingsPost'', createRankingApiTournamentsTournamentIdRankingsPost),
     (''createRoundApiTournamentsTournamentIdRoundsPost'', createRoundApiTournamentsTournamentIdRoundsPost),
     (''createSinglePlayerApiTournamentsTournamentIdPlayersPost'', createSinglePlayerApiTournamentsTournamentIdPlayersPost),
     (''createStageApiTournamentsTournamentIdStagesPost'', createStageApiTournamentsTournamentIdStagesPost),
     (''createStageItemApiTournamentsTournamentIdStageItemsPost'', createStageItemApiTournamentsTournamentIdStageItemsPost),
     (''createTeamApiTournamentsTournamentIdTeamsPost'', createTeamApiTournamentsTournamentIdTeamsPost),
     (''createTournamentApiTournamentsPost'', createTournamentApiTournamentsPost),
     (''deleteClubApiClubsClubIdDelete'', deleteClubApiClubsClubIdDelete),
     (''deleteMatchApiTournamentsTournamentIdMatchesMatchIdDelete'', deleteMatchApiTournamentsTournamentIdMatchesMatchIdDelete),
     (''deletePlayerApiTournamentsTournamentIdPlayersPlayerIdDelete'', deletePlayerApiTournamentsTournamentIdPlayersPlayerIdDelete),
     (''deleteRankingApiTournamentsTournamentIdRankingsRankingIdDelete'', deleteRankingApiTournamentsTournamentIdRankingsRankingIdDelete),
     (''deleteRoundApiTournamentsTournamentIdRoundsRoundIdDelete'', deleteRoundApiTournamentsTournamentIdRoundsRoundIdDelete),
     (''deleteStageApiTournamentsTournamentIdStagesStageIdDelete'', deleteStageApiTournamentsTournamentIdStagesStageIdDelete),
     (''deleteStageItemApiTournamentsTournamentIdStageItemsStageItemIdDelete'', deleteStageItemApiTournamentsTournamentIdStageItemsStageItemIdDelete),
     (''deleteTeamApiTournamentsTournamentIdTeamsTeamIdDelete'', deleteTeamApiTournamentsTournamentIdTeamsTeamIdDelete),
     (''deleteTournamentApiTournamentsTournamentIdDelete'', deleteTournamentApiTournamentsTournamentIdDelete),
     (''getAuthFeaturesApiAuthFeaturesGet'', getAuthFeaturesApiAuthFeaturesGet),
     (''getAvailableInputsApiTournamentsTournamentIdAvailableInputsGet'', getAvailableInputsApiTournamentsTournamentIdAvailableInputsGet),
     (''getClubsApiClubsGet'', getClubsApiClubsGet),
     (''getMeApiUsersUserIdGet'', getMeApiUsersUserIdGet),
     (''getNextStageRankingsApiTournamentsTournamentIdNextStageRankingsGet'', getNextStageRankingsApiTournamentsTournamentIdNextStageRankingsGet),
     (''getPlayersApiTournamentsTournamentIdPlayersGet'', getPlayersApiTournamentsTournamentIdPlayersGet),
     (''getRankingsApiTournamentsTournamentIdRankingsGet'', getRankingsApiTournamentsTournamentIdRankingsGet),
     (''getStagesApiTournamentsTournamentIdStagesGet'', getStagesApiTournamentsTournamentIdStagesGet),
     (''getStandingsApiTournamentsTournamentIdStandingsGet'', getStandingsApiTournamentsTournamentIdStandingsGet),
     (''getTeamLogoApiTournamentsTournamentIdTeamsTeamIdLogoGet'', getTeamLogoApiTournamentsTournamentIdTeamsTeamIdLogoGet),
     (''getTeamsApiTournamentsTournamentIdTeamsGet'', getTeamsApiTournamentsTournamentIdTeamsGet),
     (''getTournamentApiTournamentsTournamentIdGet'', getTournamentApiTournamentsTournamentIdGet),
     (''getTournamentLogoApiTournamentsTournamentIdLogoGet'', getTournamentLogoApiTournamentsTournamentIdLogoGet),
     (''getTournamentsApiTournamentsGet'', getTournamentsApiTournamentsGet),
     (''getUserApiUsersMeGet'', getUserApiUsersMeGet),
     (''loginForAccessTokenApiTokenPost'', loginForAccessTokenApiTokenPost),
     (''logoutApiLogoutPost'', logoutApiLogoutPost),
     (''pingApiPingGet'', pingApiPingGet),
     (''putUserPasswordApiUsersUserIdPasswordPut'', putUserPasswordApiUsersUserIdPasswordPut),
     (''registerUserApiUsersRegisterPost'', registerUserApiUsersRegisterPost),
     (''scheduleMatchesApiTournamentsTournamentIdScheduleMatchesPost'', scheduleMatchesApiTournamentsTournamentIdScheduleMatchesPost),
     (''updateClubApiClubsClubIdPut'', updateClubApiClubsClubIdPut),
     (''updateMatchByIdApiTournamentsTournamentIdMatchesMatchIdPut'', updateMatchByIdApiTournamentsTournamentIdMatchesMatchIdPut),
     (''updatePlayerByIdApiTournamentsTournamentIdPlayersPlayerIdPut'', updatePlayerByIdApiTournamentsTournamentIdPlayersPlayerIdPut),
     (''updateRankingByIdApiTournamentsTournamentIdRankingsRankingIdPut'', updateRankingByIdApiTournamentsTournamentIdRankingsRankingIdPut),
     (''updateRoundByIdApiTournamentsTournamentIdRoundsRoundIdPut'', updateRoundByIdApiTournamentsTournamentIdRoundsRoundIdPut),
     (''updateStageApiTournamentsTournamentIdStagesStageIdPut'', updateStageApiTournamentsTournamentIdStagesStageIdPut),
     (''updateStageItemApiTournamentsTournamentIdStageItemsStageItemIdPut'', updateStageItemApiTournamentsTournamentIdStageItemsStageItemIdPut),
     (''updateStageItemInputApiTournamentsTournamentIdStageItemsStageItemIdInputsStageItemInputIdPut'', updateStageItemInputApiTournamentsTournamentIdStageItemsStageItemIdInputsStageItemInputIdPut),
     (''updateTeamByIdApiTournamentsTournamentIdTeamsTeamIdPut'', updateTeamByIdApiTournamentsTournamentIdTeamsTeamIdPut),
     (''updateTeamLogoApiTournamentsTournamentIdTeamsTeamIdLogoPost'', updateTeamLogoApiTournamentsTournamentIdTeamsTeamIdLogoPost),
     (''updateTournamentByIdApiTournamentsTournamentIdPut'', updateTournamentByIdApiTournamentsTournamentIdPut),
     (''updateUserDetailsApiUsersUserIdPut'', updateUserDetailsApiUsersUserIdPut),
     (''uploadLogoApiTournamentsTournamentIdLogoPost'', uploadLogoApiTournamentsTournamentIdLogoPost)]"

definition OPENAPI_TYPES_1 :: "(string \<times> ts_type) list" where
  "OPENAPI_TYPES_1 =
    [(''ActivateNextStageApiTournamentsTournamentIdStagesActivatePostData'', tsActivateNextStageApiTournamentsTournamentIdStagesActivatePostData),
     (''ActivateNextStageApiTournamentsTournamentIdStagesActivatePostError'', tsActivateNextStageApiTournamentsTournamentIdStagesActivatePostError),
     (''ActivateNextStageApiTournamentsTournamentIdStagesActivatePostErrors'', tsActivateNextStageApiTournamentsTournamentIdStagesActivatePostErrors),
     (''ActivateNextStageApiTournamentsTournamentIdStagesActivatePostResponse'', tsActivateNextStageApiTournamentsTournamentIdStagesActivatePostResponse),
     (''ActivateNextStageApiTournamentsTournamentIdStagesActivatePostResponses'', tsActivateNextStageApiTournamentsTournamentIdStagesActivatePostResponses),
     (''AuthFeatureFlags'', tsAuthFeatureFlags),
     (''AuthFeatureFlagsResponse'', tsAuthFeatureFlagsResponse),
     (''BodyLoginForAccessTokenApiTokenPost'', tsBodyLoginForAccessTokenApiTokenPost),
     (''BodyUpdateTeamLogoApiTournamentsTournamentIdTeamsTeamIdLogoPost'', tsBodyUpdateTeamLogoApiTournamentsTournamentIdTeamsTeamIdLogoPost),
     (''BodyUploadLogoApiTournamentsTournamentIdLogoPost'', tsBodyUploadLogoApiTournamentsTournamentIdLogoPost),
     (''ChangeStatusApiTournamentsTournamentIdChangeStatusPostData'', tsChangeStatusApiTournamentsTournamentIdChangeStatusPostData),
     (''ChangeStatusApiTournamentsTournamentIdChangeStatusPostError'', tsChangeStatusApiTournamentsTournamentIdChangeStatusPostError),
     (''ChangeStatusApiTournamentsTournamentIdChangeStatusPostErrors'', tsChangeStatusApiTournamentsTournamentIdChangeStatusPostErrors),
     (''ChangeStatusApiTournamentsTournamentIdChangeStatusPostResponse'', tsChangeStatusApiTournamentsTournamentIdChangeStatusPostResponse),
     (''ChangeStatusApiTournamentsTournamentIdChangeStatusPostResponses'', tsChangeStatusApiTournamentsTournamentIdChangeStatusPostResponses),
     (''ClientOptions'', tsClientOptions),
     (''Club'', tsClub),
     (''ClubCreateBody'', tsClubCreateBody),
     (''ClubResponse'', tsClubResponse),
     (''ClubsResponse'', tsClubsResponse),
     (''ClubUpdateBody'', tsClubUpdateBody),
     (''CreateMatchApiTournamentsTournamentIdMatchesPostData'', tsCreateMatchApiTournamentsTournamentIdMatchesPostData),
     (''CreateMatchApiTournamentsTournamentIdMatchesPostError'', tsCreateMatchApiTournamentsTournamentIdMatchesPostError),
     (''CreateMatchApiTournamentsTournamentIdMatchesPostErrors'', tsCreateMatchApiTournamentsTournamentIdMatchesPostErrors),
     (''CreateMatchApiTournamentsTournamentIdMatchesPostResponse'', tsCreateMatchApiTournamentsTournamentIdMatchesPostResponse),
     (''CreateMatchApiTournamentsTournamentIdMatchesPostResponses'', tsCreateMatchApiTournamentsTournamentIdMatchesPostResponses),
     (''CreateMultiplePlayersApiTournamentsTournamentIdPlayersMultiPostData'', tsCreateMultiplePlayersApiTournamentsTournamentIdPlayersMultiPostData),
     (''CreateMultiplePlayersApiTournamentsTournamentIdPlayersMultiPostError'', tsCreateMultiplePlayersApiTournamentsTournamentIdPlayersMultiPostError),
     (''CreateMultiplePlayersApiTournamentsTournamentIdPlayersMultiPostErrors'', tsCreateMultiplePlayersApiTournamentsTournamentIdPlayersMultiPostErrors),
     (''CreateMultiplePlayersApiTournamentsTournamentIdPlayersMultiPostResponse'', tsCreateMultiplePlayersApiTournamentsTournamentIdPlayersMultiPostResponse),
     (''CreateMultiplePlayersApiTournamentsTournamentIdPlayersMultiPostResponses'', tsCreateMultiplePlayersApiTournamentsTournamentIdPlayersMultiPostResponses),
     (''CreateMultipleTeamsApiTournamentsTournamentIdTeamsMultiPostData'', tsCreateMultipleTeamsApiTournamentsTournamentIdTeamsMultiPostData),
     (''CreateMultipleTeamsApiTournamentsTournamentIdTeamsMultiPostError'', tsCreateMultipleTeamsApiTournamentsTournamentIdTeamsMultiPostError),
     (''CreateMultipleTeamsApiTournamentsTournamentIdTeamsMultiPostErrors'', tsCreateMultipleTeamsApiTournamentsTournamentIdTeamsMultiPostErrors),
     (''CreateMultipleTeamsApiTournamentsTournamentIdTeamsMultiPostResponse'', tsCreateMultipleTeamsApiTournamentsTournamentIdTeamsMultiPostResponse),
     (''CreateMultipleTeamsApiTournamentsTournamentIdTeamsMultiPostResponses'', tsCreateMultipleTeamsApiTournamentsTournamentIdTeamsMultiPostResponses),
     (''CreateNewClubApiClubsPostData'', tsCreateNewClubApiClubsPostData),
     (''CreateNewClubApiClubsPostError'', tsCreateNewClubApiClubsPostError),
     (''CreateNewClubApiClubsPostErrors'', tsCreateNewClubApiClubsPostErrors),
     (''CreateNewClubApiClubsPostResponse'', tsCreateNewClubApiClubsPostResponse),
     (''CreateNewClubApiClubsPostResponses'', tsCreateNewClubApiClubsPostResponses),
     (''CreateRankingApiTournamentsTournamentIdRankingsPostData'', tsCreateRankingApiTournamentsTournamentIdRankingsPostData),
     (''CreateRankingApiTournamentsTournamentIdRankingsPostError'', tsCreateRankingApiTournamentsTournamentIdRankingsPostError),
     (''CreateRankingApiTournamentsTournamentIdRankingsPostErrors'', tsCreateRankingApiTournamentsTournamentIdRankingsPostErrors),
     (''CreateRankingApiTournamentsTournamentIdRankingsPostResponse'', tsCreateRankingApiTournamentsTournamentIdRankingsPostResponse),
     (''CreateRankingApiTournamentsTournamentIdRankingsPostResponses'', tsCreateRankingApiTournamentsTournamentIdRankingsPostResponses),
     (''CreateRoundApiTournamentsTournamentIdRoundsPostData'', tsCreateRoundApiTournamentsTournamentIdRoundsPostData),
     (''CreateRoundApiTournamentsTournamentIdRoundsPostError'', tsCreateRoundApiTournamentsTournamentIdRoundsPostError),
     (''CreateRoundApiTournamentsTournamentIdRoundsPostErrors'', tsCreateRoundApiTournamentsTournamentIdRoundsPostErrors),
     (''CreateRoundApiTournamentsTournamentIdRoundsPostResponse'', tsCreateRoundApiTournamentsTournamentIdRoundsPostResponse),
     (''CreateRoundApiTournamentsTournamentIdRoundsPostResponses'', tsCreateRoundApiTournamentsTournamentIdRoundsPostResponses),
     (''CreateSinglePlayerApiTournamentsTournamentIdPlayersPostData'', tsCreateSinglePlayerApiTournamentsTournamentIdPlayersPostData),
     (''CreateSinglePlayerApiTournamentsTournamentIdPlayersPostError'', tsCreateSinglePlayerApiTournamentsTournamentIdPlayersPostError),
     (''CreateSinglePlayerApiTournamentsTournamentIdPlayersPostErrors'', tsCreateSinglePlayerApiTournamentsTournamentIdPlayersPostErrors),
     (''CreateSinglePlayerApiTournamentsTournamentIdPlayersPostResponse'', tsCreateSinglePlayerApiTournamentsTournamentIdPlayersPostResponse),
     (''CreateSinglePlayerApiTournamentsTournamentIdPlayersPostResponses'', tsCreateSinglePlayerApiTournamentsTournamentIdPlayersPostResponses),
     (''CreateStageApiTournamentsTournamentIdStagesPostData'', tsCreateStageApiTournamentsTournamentIdStagesPostData),
     (''CreateStageApiTournamentsTournamentIdStagesPostError'', tsCreateStageApiTournamentsTournamentIdStagesPostError),
     (''CreateStageApiTournamentsTournamentIdStagesPostErrors'', tsCreateStageApiTournamentsTournamentIdStagesPostErrors),
     (''CreateStageApiTournamentsTournamentIdStagesPostResponse'', tsCreateStageApiTournamentsTournamentIdStagesPostResponse),
     (''CreateStageApiTournamentsTournamentIdStagesPostResponses'', tsCreateStageApiTournamentsTournamentIdStagesPostResponses),
     (''CreateStageItemApiTournamentsTournamentIdStageItemsPostData'', tsCreateStageItemApiTournamentsTournamentIdStageItemsPostData),
     (''CreateStageItemApiTournamentsTournamentIdStageItemsPostError'', tsCreateStageItemApiTournamentsTournamentIdStageItemsPostError),
     (''CreateStageItemApiTournamentsTournamentIdStageItemsPostErrors'', tsCreateStageItemApiTournamentsTournamentIdStageItemsPostErrors),
     (''CreateStageItemApiTournamentsTournamentIdStageItemsPostResponse'', tsCreateStageItemApiTournamentsTournamentIdStageItemsPostResponse),
     (''CreateStageItemApiTournamentsTournamentIdStageItemsPostResponses'', tsCreateStageItemApiTournamentsTournamentIdStageItemsPostResponses),
     (''CreateTeamApiTournamentsTournamentIdTeamsPostData'', tsCreateTeamApiTournamentsTournamentIdTeamsPostData),
     (''CreateTeamApiTournamentsTournamentIdTeamsPostError'', tsCreateTeamApiTournamentsTournamentIdTeamsPostError),
     (''CreateTeamApiTournamentsTournamentIdTeamsPostErrors'', tsCreateTeamApiTournamentsTournamentIdTeamsPostErrors),
     (''CreateTeamApiTournamentsTournamentIdTeamsPostResponse'', tsCreateTeamApiTournamentsTournamentIdTeamsPostResponse),
     (''CreateTeamApiTournamentsTournamentIdTeamsPostResponses'', tsCreateTeamApiTournamentsTournamentIdTeamsPostResponses),
     (''CreateTournamentApiTournamentsPostData'', tsCreateTournamentApiTournamentsPostData),
     (''CreateTournamentApiTournamentsPostError'', tsCreateTournamentApiTournamentsPostError),
     (''CreateTournamentApiTournamentsPostErrors'', tsCreateTournamentApiTournamentsPostErrors),
     (''CreateTournamentApiTournamentsPostResponse'', tsCreateTournamentApiTournamentsPostResponse),
     (''CreateTournamentApiTournamentsPostResponses'', tsCreateTournamentApiTournamentsPostResponses),
     (''DeleteClubApiClubsClubIdDeleteData'', tsDeleteClubApiClubsClubIdDeleteData),
     (''DeleteClubApiClubsClubIdDeleteError'', tsDeleteClubApiClubsClubIdDeleteError),
     (''DeleteClubApiClubsClubIdDeleteErrors'', tsDeleteClubApiClubsClubIdDeleteErrors),
     (''DeleteClubApiClubsClubIdDeleteResponse'', tsDeleteClubApiClubsClubIdDeleteResponse),
     (''DeleteClubApiClubsClubIdDeleteResponses'', tsDeleteClubApiClubsClubIdDeleteResponses),
     (''DeleteMatchApiTournamentsTournamentIdMatchesMatchIdDeleteData'', tsDeleteMatchApiTournamentsTournamentIdMatchesMatchIdDeleteData),
     (''DeleteMatchApiTournamentsTournamentIdMatchesMatchIdDeleteError'', tsDeleteMatchApiTournamentsTournamentIdMatchesMatchIdDeleteError),
     (''DeleteMatchApiTournamentsTournamentIdMatchesMatchIdDeleteErrors'', tsDeleteMatchApiTournamentsTournamentIdMatchesMatchIdDeleteErrors),
     (''DeleteMatchApiTournamentsTournamentIdMatchesMatchIdDeleteResponse'', tsDeleteMatchApiTournamentsTournamentIdMatchesMatchIdDeleteResponse),
     (''DeleteMatchApiTournamentsTournamentIdMatchesMatchIdDeleteResponses'', tsDeleteMatchApiTournamentsTournamentIdMatchesMatchIdDeleteResponses),
     (''DeletePlayerApiTournamentsTournamentIdPlayersPlayerIdDeleteData'', tsDeletePlayerApiTournamentsTournamentIdPlayersPlayerIdDeleteData),
     (''DeletePlayerApiTournamentsTournamentIdPlayersPlayerIdDeleteError'', tsDeletePlayerApiTournamentsTournamentIdPlayersPlayerIdDeleteError),
     (''DeletePlayerApiTournamentsTournamentIdPlayersPlayerIdDeleteErrors'', tsDeletePlayerApiTournamentsTournamentIdPlayersPlayerIdDeleteErrors),
     (''DeletePlayerApiTournamentsTournamentIdPlayersPlayerIdDeleteResponse'', tsDeletePlayerApiTournamentsTournamentIdPlayersPlayerIdDeleteResponse),
     (''DeletePlayerApiTournamentsTournamentIdPlayersPlayerIdDeleteResponses'', tsDeletePlayerApiTournamentsTournamentIdPlayersPlayerIdDeleteResponses),
     (''DeleteRankingApiTournamentsTournamentIdRankingsRankingIdDeleteData'', tsDeleteRankingApiTournamentsTournamentIdRankingsRankingIdDeleteData),
     (''DeleteRankingApiTournamentsTournamentIdRankingsRankingIdDeleteError'', tsDeleteRankingApiTournamentsTournamentIdRankingsRankingIdDeleteError),
     (''DeleteRankingApiTournamentsTournamentIdRankingsRankingIdDeleteErrors'', tsDeleteRankingApiTournamentsTournamentIdRankingsRankingIdDeleteErrors),
     (''DeleteRankingApiTournamentsTournamentIdRankingsRankingIdDeleteResponse'', tsDeleteRankingApiTournamentsTournamentIdRankingsRankingIdDeleteResponse),
     (''DeleteRankingApiTournamentsTournamentIdRankingsRankingIdDeleteResponses'', tsDeleteRankingApiTournamentsTournamentIdRankingsRankingIdDeleteResponses),
     (''DeleteRoundApiTournamentsTournamentIdRoundsRoundIdDeleteData'', tsDeleteRoundApiTournamentsTournamentIdRoundsRoundIdDeleteData),
     (''DeleteRoundApiTournamentsTournamentIdRoundsRoundIdDeleteError'', tsDeleteRoundApiTournamentsTournamentIdRoundsRoundIdDeleteError),
     (''DeleteRoundApiTournamentsTournamentIdRoundsRoundIdDeleteErrors'', tsDeleteRoundApiTournamentsTournamentIdRoundsRoundIdDeleteErrors),
     (''DeleteRoundApiTournamentsTournamentIdRoundsRoundIdDeleteResponse'', tsDeleteRoundApiTournamentsTournamentIdRoundsRoundIdDeleteResponse),
     (''DeleteRoundApiTournamentsTournamentIdRoundsRoundIdDeleteResponses'', tsDeleteRoundApiTournamentsTournamentIdRoundsRoundIdDeleteResponses),
     (''DeleteStageApiTournamentsTournamentIdStagesStageIdDeleteData'', tsDeleteStageApiTournamentsTournamentIdStagesStageIdDeleteData),
     (''DeleteStageApiTournamentsTournamentIdStagesStageIdDeleteError'', tsDeleteStageApiTournamentsTournamentIdStagesStageIdDeleteError),
     (''DeleteStageApiTournamentsTournamentIdStagesStageIdDeleteErrors'', tsDeleteStageApiTournamentsTournamentIdStagesStageIdDeleteErrors),
     (''DeleteStageApiTournamentsTournamentIdStagesStageIdDeleteResponse'', tsDeleteStageApiTournamentsTournamentIdStagesStageIdDeleteResponse),
     (''DeleteStageApiTournamentsTournamentIdStagesStageIdDeleteResponses'', tsDeleteStageApiTournamentsTournamentIdStagesStageIdDeleteResponses),
     (''DeleteStageItemApiTournamentsTournamentIdStageItemsStageItemIdDeleteData'', tsDeleteStageItemApiTournamentsTournamentIdStageItemsStageItemIdDeleteData),
     (''DeleteStageItemApiTournamentsTournamentIdStageItemsStageItemIdDeleteError'', tsDeleteStageItemApiTournamentsTournamentIdStageItemsStageItemIdDeleteError),
     (''DeleteStageItemApiTournamentsTournamentIdStageItemsStageItemIdDeleteErrors'', tsDeleteStageItemApiTournamentsTournamentIdStageItemsStageItemIdDeleteErrors),
     (''DeleteStageItemApiTournamentsTournamentIdStageItemsStageItemIdDeleteResponse'', tsDeleteStageItemApiTournamentsTournamentIdStageItemsStageItemIdDeleteResponse),
     (''DeleteStageItemApiTournamentsTournamentIdStageItemsStageItemIdDeleteResponses'', tsDeleteStageItemApiTournamentsTournamentIdStageItemsStageItemIdDeleteResponses),
     (''DeleteTeamApiTournamentsTournamentIdTeamsTeamIdDeleteData'', tsDeleteTeamApiTournamentsTournamentIdTeamsTeamIdDeleteData),
     (''DeleteTeamApiTournamentsTournamentIdTeamsTeamIdDeleteError'', tsDeleteTeamApiTournamentsTournamentIdTeamsTeamIdDeleteError),
     (''DeleteTeamApiTournamentsTournamentIdTeamsTeamIdDeleteErrors'', tsDeleteTeamApiTournamentsTournamentIdTeamsTeamIdDeleteErrors),
     (''DeleteTeamApiTournamentsTournamentIdTeamsTeamIdDeleteResponse'', tsDeleteTeamApiTournamentsTournamentIdTeamsTeamIdDeleteResponse),
     (''DeleteTeamApiTournamentsTournamentIdTeamsTeamIdDeleteResponses'', tsDeleteTeamApiTournamentsTournamentIdTeamsTeamIdDeleteResponses),
     (''DeleteTournamentApiTournamentsTournamentIdDeleteData'', tsDeleteTournamentApiTournamentsTournamentIdDeleteData),
     (''DeleteTournamentApiTournamentsTournamentIdDeleteError'', tsDeleteTournamentApiTournamentsTournamentIdDeleteError),
     (''DeleteTournamentApiTournamentsTournamentIdDeleteErrors'', tsDeleteTournamentApiTournamentsTournamentIdDeleteErrors),
     (''DeleteTournamentApiTournamentsTournamentIdDeleteResponse'', tsDeleteTournamentApiTournamentsTournamentIdDeleteResponse),
     (''DeleteTournamentApiTournamentsTournamentIdDeleteResponses'', tsDeleteTournamentApiTournamentsTournamentIdDeleteResponses),
     (''FullTeamWithPlayers'', tsFullTeamWithPlayers),
     (''GetAuthFeaturesApiAuthFeaturesGetData'', tsGetAuthFeaturesApiAuthFeaturesGetData),
     (''GetAuthFeaturesApiAuthFeaturesGetResponse'', tsGetAuthFeaturesApiAuthFeaturesGetResponse),
     (''GetAuthFeaturesApiAuthFeaturesGetResponses'', tsGetAuthFeaturesApiAuthFeaturesGetResponses),
     (''GetAvailableInputsApiTournamentsTournamentIdAvailableInputsGetData'', tsGetAvailableInputsApiTournamentsTournamentIdAvailableInputsGetData),
     (''GetAvailableInputsApiTournamentsTournamentIdAvailableInputsGetError'', tsGetAvailableInputsApiTournamentsTournamentIdAvailableInputsGetError),
     (''GetAvailableInputsApiTournamentsTournamentIdAvailableInputsGetErrors'', tsGetAvailableInputsApiTournamentsTournamentIdAvailableInputsGetErrors),
     (''GetAvailableInputsApiTournamentsTournamentIdAvailableInputsGetResponse'', tsGetAvailableInputsApiTournamentsTournamentIdAvailableInputsGetResponse),
     (''GetAvailableInputsApiTournamentsTournamentIdAvailableInputsGetResponses'', tsGetAvailableInputsApiTournamentsTournamentIdAvailableInputsGetResponses),
     (''GetClubsApiClubsGetData'', tsGetClubsApiClubsGetData),
     (''GetClubsApiClubsGetResponse'', tsGetClubsApiClubsGetResponse),
     (''GetClubsApiClubsGetResponses'', tsGetClubsApiClubsGetResponses),
     (''GetMeApiUsersUserIdGetData'', tsGetMeApiUsersUserIdGetData),
     (''GetMeApiUsersUserIdGetError'', tsGetMeApiUsersUserIdGetError),
     (''GetMeApiUsersUserIdGetErrors'', tsGetMeApiUsersUserIdGetErrors),
     (''GetMeApiUsersUserIdGetResponse'', tsGetMeApiUsersUserIdGetResponse),
     (''GetMeApiUsersUserIdGetResponses'', tsGetMeApiUsersUserIdGetResponses),
     (''GetNextStageRankingsApiTournamentsTournamentIdNextStageRankingsGetData'', tsGetNextStageRankingsApiTournamentsTournamentIdNextStageRankingsGetData),
     (''GetNextStageRankingsApiTournamentsTournamentIdNextStageRankingsGetError'', tsGetNextStageRankingsApiTournamentsTournamentIdNextStageRankingsGetError),
     (''GetNextStageRankingsApiTournamentsTournamentIdNextStageRankingsGetErrors'', tsGetNextStageRankingsApiTournamentsTournamentIdNextStageRankingsGetErrors),
     (''GetNextStageRankingsApiTournamentsTournamentIdNextStageRankingsGetResponse'', tsGetNextStageRankingsApiTournamentsTournamentIdNextStageRankingsGetResponse),
     (''GetNextStageRankingsApiTournamentsTournamentIdNextStageRankingsGetResponses'', tsGetNextStageRankingsApiTournamentsTournamentIdNextStageRankingsGetResponses),
     (''GetPlayersApiTournamentsTournamentIdPlayersGetData'', tsGetPlayersApiTournamentsTournamentIdPlayersGetData),
     (''GetPlayersApiTournamentsTournamentIdPlayersGetError'', tsGetPlayersApiTournamentsTournamentIdPlayersGetError),
     (''GetPlayersApiTournamentsTournamentIdPlayersGetErrors'', tsGetPlayersApiTournamentsTournamentIdPlayersGetErrors),
     (''GetPlayersApiTournamentsTournamentIdPlayersGetResponse'', tsGetPlayersApiTournamentsTournamentIdPlayersGetResponse),
     (''GetPlayersApiTournamentsTournamentIdPlayersGetResponses'', tsGetPlayersApiTournamentsTournamentIdPlayersGetResponses),
     (''GetRankingsApiTournamentsTournamentIdRankingsGetData'', tsGetRankingsApiTournamentsTournamentIdRankingsGetData)]"

definition OPENAPI_TYPES_2 :: "(string \<times> ts_type) list" where
  "OPENAPI_TYPES_2 =
    [(''GetRankingsApiTournamentsTournamentIdRankingsGetError'', tsGetRankingsApiTournamentsTournamentIdRankingsGetError),
     (''GetRankingsApiTournamentsTournamentIdRankingsGetErrors'', tsGetRankingsApiTournamentsTournamentIdRankingsGetErrors),
     (''GetRankingsApiTournamentsTournamentIdRankingsGetResponse'', tsGetRankingsApiTournamentsTournamentIdRankingsGetResponse),
     (''GetRankingsApiTournamentsTournamentIdRankingsGetResponses'', tsGetRankingsApiTournamentsTournamentIdRankingsGetResponses),
     (''GetStagesApiTournamentsTournamentIdStagesGetData'', tsGetStagesApiTournamentsTournamentIdStagesGetData),
     (''GetStagesApiTournamentsTournamentIdStagesGetError'', tsGetStagesApiTournamentsTournamentIdStagesGetError),
     (''GetStagesApiTournamentsTournamentIdStagesGetErrors'', tsGetStagesApiTournamentsTournamentIdStagesGetErrors),
     (''GetStagesApiTournamentsTournamentIdStagesGetResponse'', tsGetStagesApiTournamentsTournamentIdStagesGetResponse),
     (''GetStagesApiTournamentsTournamentIdStagesGetResponses'', tsGetStagesApiTournamentsTournamentIdStagesGetResponses),
     (''GetStandingsApiTournamentsTournamentIdStandingsGetData'', tsGetStandingsApiTournamentsTournamentIdStandingsGetData),
     (''GetStandingsApiTournamentsTournamentIdStandingsGetError'', tsGetStandingsApiTournamentsTournamentIdStandingsGetError),
     (''GetStandingsApiTournamentsTournamentIdStandingsGetErrors'', tsGetStandingsApiTournamentsTournamentIdStandingsGetErrors),
     (''GetStandingsApiTournamentsTournamentIdStandingsGetResponse'', tsGetStandingsApiTournamentsTournamentIdStandingsGetResponse),
     (''GetStandingsApiTournamentsTournamentIdStandingsGetResponses'', tsGetStandingsApiTournamentsTournamentIdStandingsGetResponses),
     (''GetTeamLogoApiTournamentsTournamentIdTeamsTeamIdLogoGetData'', tsGetTeamLogoApiTournamentsTournamentIdTeamsTeamIdLogoGetData),
     (''GetTeamLogoApiTournamentsTournamentIdTeamsTeamIdLogoGetError'', tsGetTeamLogoApiTournamentsTournamentIdTeamsTeamIdLogoGetError),
     (''GetTeamLogoApiTournamentsTournamentIdTeamsTeamIdLogoGetErrors'', tsGetTeamLogoApiTournamentsTournamentIdTeamsTeamIdLogoGetErrors),
     (''GetTeamLogoApiTournamentsTournamentIdTeamsTeamIdLogoGetResponses'', tsGetTeamLogoApiTournamentsTournamentIdTeamsTeamIdLogoGetResponses),
     (''GetTeamsApiTournamentsTournamentIdTeamsGetData'', tsGetTeamsApiTournamentsTournamentIdTeamsGetData),
     (''GetTeamsApiTournamentsTournamentIdTeamsGetError'', tsGetTeamsApiTournamentsTournamentIdTeamsGetError),
     (''GetTeamsApiTournamentsTournamentIdTeamsGetErrors'', tsGetTeamsApiTournamentsTournamentIdTeamsGetErrors),
     (''GetTeamsApiTournamentsTournamentIdTeamsGetResponse'', tsGetTeamsApiTournamentsTournamentIdTeamsGetResponse),
     (''GetTeamsApiTournamentsTournamentIdTeamsGetResponses'', tsGetTeamsApiTournamentsTournamentIdTeamsGetResponses),
     (''GetTournamentApiTournamentsTournamentIdGetData'', tsGetTournamentApiTournamentsTournamentIdGetData),
     (''GetTournamentApiTournamentsTournamentIdGetError'', tsGetTournamentApiTournamentsTournamentIdGetError),
     (''GetTournamentApiTournamentsTournamentIdGetErrors'', tsGetTournamentApiTournamentsTournamentIdGetErrors),
     (''GetTournamentApiTournamentsTournamentIdGetResponse'', tsGetTournamentApiTournamentsTournamentIdGetResponse),
     (''GetTournamentApiTournamentsTournamentIdGetResponses'', tsGetTournamentApiTournamentsTournamentIdGetResponses),
     (''GetTournamentLogoApiTournamentsTournamentIdLogoGetData'', tsGetTournamentLogoApiTournamentsTournamentIdLogoGetData),
     (''GetTournamentLogoApiTournamentsTournamentIdLogoGetError'', tsGetTournamentLogoApiTournamentsTournamentIdLogoGetError),
     (''GetTournamentLogoApiTournamentsTournamentIdLogoGetErrors'', tsGetTournamentLogoApiTournamentsTournamentIdLogoGetErrors),
     (''GetTournamentLogoApiTournamentsTournamentIdLogoGetResponses'', tsGetTournamentLogoApiTournamentsTournamentIdLogoGetResponses),
     (''GetTournamentsApiTournamentsGetData'', tsGetTournamentsApiTournamentsGetData),
     (''GetTournamentsApiTournamentsGetError'', tsGetTournamentsApiTournamentsGetError),
     (''GetTournamentsApiTournamentsGetErrors'', tsGetTournamentsApiTournamentsGetErrors),
     (''GetTournamentsApiTournamentsGetResponse'', tsGetTournamentsApiTournamentsGetResponse),
     (''GetTournamentsApiTournamentsGetResponses'', tsGetTournamentsApiTournamentsGetResponses),
     (''GetUserApiUsersMeGetData'', tsGetUserApiUsersMeGetData),
     (''GetUserApiUsersMeGetResponse'', tsGetUserApiUsersMeGetResponse),
     (''GetUserApiUsersMeGetResponses'', tsGetUserApiUsersMeGetResponses),
     (''HttpValidationError'', tsHttpValidationError),
     (''LoginForAccessTokenApiTokenPostData'', tsLoginForAccessTokenApiTokenPostData),
     (''LoginForAccessTokenApiTokenPostError'', tsLoginForAccessTokenApiTokenPostError),
     (''LoginForAccessTokenApiTokenPostErrors'', tsLoginForAccessTokenApiTokenPostErrors),
     (''LoginForAccessTokenApiTokenPostResponse'', tsLoginForAccessTokenApiTokenPostResponse),
     (''LoginForAccessTokenApiTokenPostResponses'', tsLoginForAccessTokenApiTokenPostResponses),
     (''LogoutApiLogoutPostData'', tsLogoutApiLogoutPostData),
     (''LogoutApiLogoutPostResponse'', tsLogoutApiLogoutPostResponse),
     (''LogoutApiLogoutPostResponses'', tsLogoutApiLogoutPostResponses),
     (''Match'', tsMatch),
     (''MatchBody'', tsMatchBody),
     (''MatchCreateBodyFrontend'', tsMatchCreateBodyFrontend),
     (''MatchWithDetails'', tsMatchWithDetails),
     (''MatchWithDetailsDefinitive'', tsMatchWithDetailsDefinitive),
     (''PaginatedPlayers'', tsPaginatedPlayers),
     (''PaginatedTeams'', tsPaginatedTeams),
     (''PingApiPingGetData'', tsPingApiPingGetData),
     (''PingApiPingGetResponse'', tsPingApiPingGetResponse),
     (''PingApiPingGetResponses'', tsPingApiPingGetResponses),
     (''Player'', tsPlayer),
     (''PlayerBody'', tsPlayerBody),
     (''PlayerMultiBody'', tsPlayerMultiBody),
     (''PlayersResponse'', tsPlayersResponse),
     (''PutUserPasswordApiUsersUserIdPasswordPutData'', tsPutUserPasswordApiUsersUserIdPasswordPutData),
     (''PutUserPasswordApiUsersUserIdPasswordPutError'', tsPutUserPasswordApiUsersUserIdPasswordPutError),
     (''PutUserPasswordApiUsersUserIdPasswordPutErrors'', tsPutUserPasswordApiUsersUserIdPasswordPutErrors),
     (''PutUserPasswordApiUsersUserIdPasswordPutResponse'', tsPutUserPasswordApiUsersUserIdPasswordPutResponse),
     (''PutUserPasswordApiUsersUserIdPasswordPutResponses'', tsPutUserPasswordApiUsersUserIdPasswordPutResponses),
     (''Ranking'', tsRanking),
     (''RankingBody'', tsRankingBody),
     (''RankingCreateBody'', tsRankingCreateBody),
     (''RankingsResponse'', tsRankingsResponse),
     (''RegisterUserApiUsersRegisterPostData'', tsRegisterUserApiUsersRegisterPostData),
     (''RegisterUserApiUsersRegisterPostError'', tsRegisterUserApiUsersRegisterPostError),
     (''RegisterUserApiUsersRegisterPostErrors'', tsRegisterUserApiUsersRegisterPostErrors),
     (''RegisterUserApiUsersRegisterPostResponse'', tsRegisterUserApiUsersRegisterPostResponse),
     (''RegisterUserApiUsersRegisterPostResponses'', tsRegisterUserApiUsersRegisterPostResponses),
     (''RoundCreateBody'', tsRoundCreateBody),
     (''RoundUpdateBody'', tsRoundUpdateBody),
     (''RoundWithMatches'', tsRoundWithMatches),
     (''ScheduleMatchesApiTournamentsTournamentIdScheduleMatchesPostData'', tsScheduleMatchesApiTournamentsTournamentIdScheduleMatchesPostData),
     (''ScheduleMatchesApiTournamentsTournamentIdScheduleMatchesPostError'', tsScheduleMatchesApiTournamentsTournamentIdScheduleMatchesPostError),
     (''ScheduleMatchesApiTournamentsTournamentIdScheduleMatchesPostErrors'', tsScheduleMatchesApiTournamentsTournamentIdScheduleMatchesPostErrors),
     (''ScheduleMatchesApiTournamentsTournamentIdScheduleMatchesPostResponse'', tsScheduleMatchesApiTournamentsTournamentIdScheduleMatchesPostResponse),
     (''ScheduleMatchesApiTournamentsTournamentIdScheduleMatchesPostResponses'', tsScheduleMatchesApiTournamentsTournamentIdScheduleMatchesPostResponses),
     (''SingleMatchResponse'', tsSingleMatchResponse),
     (''SinglePlayerResponse'', tsSinglePlayerResponse),
     (''SingleTeamResponse'', tsSingleTeamResponse),
     (''StageActivateBody'', tsStageActivateBody),
     (''StageItemCreateBody'', tsStageItemCreateBody),
     (''StageItemInputEmpty'', tsStageItemInputEmpty),
     (''StageItemInputFinal'', tsStageItemInputFinal),
     (''StageItemInputOptionFinal'', tsStageItemInputOptionFinal),
     (''StageItemInputOptionsResponse'', tsStageItemInputOptionsResponse),
     (''StageItemInputOptionTentative'', tsStageItemInputOptionTentative),
     (''StageItemInputStanding'', tsStageItemInputStanding),
     (''StageItemInputTentative'', tsStageItemInputTentative),
     (''StageItemInputUpdate'', tsStageItemInputUpdate),
     (''StageItemInputUpdateBodyEmpty'', tsStageItemInputUpdateBodyEmpty),
     (''StageItemInputUpdateBodyFinal'', tsStageItemInputUpdateBodyFinal),
     (''StageItemInputUpdateBodyTentative'', tsStageItemInputUpdateBodyTentative),
     (''StageItemUpdateBody'', tsStageItemUpdateBody),
     (''StageItemWithRounds'', tsStageItemWithRounds),
     (''StageRankingResponse'', tsStageRankingResponse),
     (''StagesWithStageItemsResponse'', tsStagesWithStageItemsResponse),
     (''StageType'', tsStageType),
     (''StageUpdateBody'', tsStageUpdateBody),
     (''StageWithStageItems'', tsStageWithStageItems),
     (''StandingsResponse'', tsStandingsResponse),
     (''SuccessResponse'', tsSuccessResponse),
     (''Team'', tsTeam),
     (''TeamBody'', tsTeamBody),
     (''TeamMultiBody'', tsTeamMultiBody),
     (''TeamsWithPlayersResponse'', tsTeamsWithPlayersResponse),
     (''Token'', tsToken),
     (''TokenResponse'', tsTokenResponse),
     (''Tournament'', tsTournament),
     (''TournamentBody'', tsTournamentBody),
     (''TournamentChangeStatusBody'', tsTournamentChangeStatusBody),
     (''TournamentResponse'', tsTournamentResponse),
     (''TournamentsResponse'', tsTournamentsResponse),
     (''TournamentStatus'', tsTournamentStatus),
     (''TournamentUpdateBody'', tsTournamentUpdateBody),
     (''UpdateClubApiClubsClubIdPutData'', tsUpdateClubApiClubsClubIdPutData),
     (''UpdateClubApiClubsClubIdPutError'', tsUpdateClubApiClubsClubIdPutError),
     (''UpdateClubApiClubsClubIdPutErrors'', tsUpdateClubApiClubsClubIdPutErrors),
     (''UpdateClubApiClubsClubIdPutResponse'', tsUpdateClubApiClubsClubIdPutResponse),
     (''UpdateClubApiClubsClubIdPutResponses'', tsUpdateClubApiClubsClubIdPutResponses),
     (''UpdateMatchByIdApiTournamentsTournamentIdMatchesMatchIdPutData'', tsUpdateMatchByIdApiTournamentsTournamentIdMatchesMatchIdPutData),
     (''UpdateMatchByIdApiTournamentsTournamentIdMatchesMatchIdPutError'', tsUpdateMatchByIdApiTournamentsTournamentIdMatchesMatchIdPutError),
     (''UpdateMatchByIdApiTournamentsTournamentIdMatchesMatchIdPutErrors'', tsUpdateMatchByIdApiTournamentsTournamentIdMatchesMatchIdPutErrors),
     (''UpdateMatchByIdApiTournamentsTournamentIdMatchesMatchIdPutResponse'', tsUpdateMatchByIdApiTournamentsTournamentIdMatchesMatchIdPutResponse),
     (''UpdateMatchByIdApiTournamentsTournamentIdMatchesMatchIdPutResponses'', tsUpdateMatchByIdApiTournamentsTournamentIdMatchesMatchIdPutResponses),
     (''UpdatePlayerByIdApiTournamentsTournamentIdPlayersPlayerIdPutData'', tsUpdatePlayerByIdApiTournamentsTournamentIdPlayersPlayerIdPutData),
     (''UpdatePlayerByIdApiTournamentsTournamentIdPlayersPlayerIdPutError'', tsUpdatePlayerByIdApiTournamentsTournamentIdPlayersPlayerIdPutError),
     (''UpdatePlayerByIdApiTournamentsTournamentIdPlayersPlayerIdPutErrors'', tsUpdatePlayerByIdApiTournamentsTournamentIdPlayersPlayerIdPutErrors),
     (''UpdatePlayerByIdApiTournamentsTournamentIdPlayersPlayerIdPutResponse'', tsUpdatePlayerByIdApiTournamentsTournamentIdPlayersPlayerIdPutResponse),
     (''UpdatePlayerByIdApiTournamentsTournamentIdPlayersPlayerIdPutResponses'', tsUpdatePlayerByIdApiTournamentsTournamentIdPlayersPlayerIdPutResponses),
     (''UpdateRankingByIdApiTournamentsTournamentIdRankingsRankingIdPutData'', tsUpdateRankingByIdApiTournamentsTournamentIdRankingsRankingIdPutData),
     (''UpdateRankingByIdApiTournamentsTournamentIdRankingsRankingIdPutError'', tsUpdateRankingByIdApiTournamentsTournamentIdRankingsRankingIdPutError),
     (''UpdateRankingByIdApiTournamentsTournamentIdRankingsRankingIdPutErrors'', tsUpdateRankingByIdApiTournamentsTournamentIdRankingsRankingIdPutErrors),
     (''UpdateRankingByIdApiTournamentsTournamentIdRankingsRankingIdPutResponse'', tsUpdateRankingByIdApiTournamentsTournamentIdRankingsRankingIdPutResponse),
     (''UpdateRankingByIdApiTournamentsTournamentIdRankingsRankingIdPutResponses'', tsUpdateRankingByIdApiTournamentsTournamentIdRankingsRankingIdPutResponses),
     (''UpdateRoundByIdApiTournamentsTournamentIdRoundsRoundIdPutData'', tsUpdateRoundByIdApiTournamentsTournamentIdRoundsRoundIdPutData),
     (''UpdateRoundByIdApiTournamentsTournamentIdRoundsRoundIdPutError'', tsUpdateRoundByIdApiTournamentsTournamentIdRoundsRoundIdPutError),
     (''UpdateRoundByIdApiTournamentsTournamentIdRoundsRoundIdPutErrors'', tsUpdateRoundByIdApiTournamentsTournamentIdRoundsRoundIdPutErrors),
     (''UpdateRoundByIdApiTournamentsTournamentIdRoundsRoundIdPutResponse'', tsUpdateRoundByIdApiTournamentsTournamentIdRoundsRoundIdPutResponse),
     (''UpdateRoundByIdApiTournamentsTournamentIdRoundsRoundIdPutResponses'', tsUpdateRoundByIdApiTournamentsTournamentIdRoundsRoundIdPutResponses),
     (''UpdateStageApiTournamentsTournamentIdStagesStageIdPutData'', tsUpdateStageApiTournamentsTournamentIdStagesStageIdPutData),
     (''UpdateStageApiTournamentsTournamentIdStagesStageIdPutError'', tsUpdateStageApiTournamentsTournamentIdStagesStageIdPutError)]"

definition OPENAPI_TYPES_3 :: "(string \<times> ts_type) list" where
  "OPENAPI_TYPES_3 =
    [(''UpdateStageApiTournamentsTournamentIdStagesStageIdPutErrors'', tsUpdateStageApiTournamentsTournamentIdStagesStageIdPutErrors),
     (''UpdateStageApiTournamentsTournamentIdStagesStageIdPutResponse'', tsUpdateStageApiTournamentsTournamentIdStagesStageIdPutResponse),
     (''UpdateStageApiTournamentsTournamentIdStagesStageIdPutResponses'', tsUpdateStageApiTournamentsTournamentIdStagesStageIdPutResponses),
     (''UpdateStageItemApiTournamentsTournamentIdStageItemsStageItemIdPutData'', tsUpdateStageItemApiTournamentsTournamentIdStageItemsStageItemIdPutData),
     (''UpdateStageItemApiTournamentsTournamentIdStageItemsStageItemIdPutError'', tsUpdateStageItemApiTournamentsTournamentIdStageItemsStageItemIdPutError),
     (''UpdateStageItemApiTournamentsTournamentIdStageItemsStageItemIdPutErrors'', tsUpdateStageItemApiTournamentsTournamentIdStageItemsStageItemIdPutErrors),
     (''UpdateStageItemApiTournamentsTournamentIdStageItemsStageItemIdPutResponse'', tsUpdateStageItemApiTournamentsTournamentIdStageItemsStageItemIdPutResponse),
     (''UpdateStageItemApiTournamentsTournamentIdStageItemsStageItemIdPutResponses'', tsUpdateStageItemApiTournamentsTournamentIdStageItemsStageItemIdPutResponses),
     (''UpdateStageItemInputApiTournamentsTournamentIdStageItemsStageItemIdInputsStageItemInputIdPutData'', tsUpdateStageItemInputApiTournamentsTournamentIdStageItemsStageItemIdInputsStageItemInputIdPutData),
     (''UpdateStageItemInputApiTournamentsTournamentIdStageItemsStageItemIdInputsStageItemInputIdPutError'', tsUpdateStageItemInputApiTournamentsTournamentIdStageItemsStageItemIdInputsStageItemInputIdPutError),
     (''UpdateStageItemInputApiTournamentsTournamentIdStageItemsStageItemIdInputsStageItemInputIdPutErrors'', tsUpdateStageItemInputApiTournamentsTournamentIdStageItemsStageItemIdInputsStageItemInputIdPutErrors),
     (''UpdateStageItemInputApiTournamentsTournamentIdStageItemsStageItemIdInputsStageItemInputIdPutResponse'', tsUpdateStageItemInputApiTournamentsTournamentIdStageItemsStageItemIdInputsStageItemInputIdPutResponse),
     (''UpdateStageItemInputApiTournamentsTournamentIdStageItemsStageItemIdInputsStageItemInputIdPutResponses'', tsUpdateStageItemInputApiTournamentsTournamentIdStageItemsStageItemIdInputsStageItemInputIdPutResponses),
     (''UpdateTeamByIdApiTournamentsTournamentIdTeamsTeamIdPutData'', tsUpdateTeamByIdApiTournamentsTournamentIdTeamsTeamIdPutData),
     (''UpdateTeamByIdApiTournamentsTournamentIdTeamsTeamIdPutError'', tsUpdateTeamByIdApiTournamentsTournamentIdTeamsTeamIdPutError),
     (''UpdateTeamByIdApiTournamentsTournamentIdTeamsTeamIdPutErrors'', tsUpdateTeamByIdApiTournamentsTournamentIdTeamsTeamIdPutErrors),
     (''UpdateTeamByIdApiTournamentsTournamentIdTeamsTeamIdPutResponse'', tsUpdateTeamByIdApiTournamentsTournamentIdTeamsTeamIdPutResponse),
     (''UpdateTeamByIdApiTournamentsTournamentIdTeamsTeamIdPutResponses'', tsUpdateTeamByIdApiTournamentsTournamentIdTeamsTeamIdPutResponses),
     (''UpdateTeamLogoApiTournamentsTournamentIdTeamsTeamIdLogoPostData'', tsUpdateTeamLogoApiTournamentsTournamentIdTeamsTeamIdLogoPostData),
     (''UpdateTeamLogoApiTournamentsTournamentIdTeamsTeamIdLogoPostError'', tsUpdateTeamLogoApiTournamentsTournamentIdTeamsTeamIdLogoPostError),
     (''UpdateTeamLogoApiTournamentsTournamentIdTeamsTeamIdLogoPostErrors'', tsUpdateTeamLogoApiTournamentsTournamentIdTeamsTeamIdLogoPostErrors),
     (''UpdateTeamLogoApiTournamentsTournamentIdTeamsTeamIdLogoPostResponse'', tsUpdateTeamLogoApiTournamentsTournamentIdTeamsTeamIdLogoPostResponse),
     (''UpdateTeamLogoApiTournamentsTournamentIdTeamsTeamIdLogoPostResponses'', tsUpdateTeamLogoApiTournamentsTournamentIdTeamsTeamIdLogoPostResponses),
     (''UpdateTournamentByIdApiTournamentsTournamentIdPutData'', tsUpdateTournamentByIdApiTournamentsTournamentIdPutData),
     (''UpdateTournamentByIdApiTournamentsTournamentIdPutError'', tsUpdateTournamentByIdApiTournamentsTournamentIdPutError),
     (''UpdateTournamentByIdApiTournamentsTournamentIdPutErrors'', tsUpdateTournamentByIdApiTournamentsTournamentIdPutErrors),
     (''UpdateTournamentByIdApiTournamentsTournamentIdPutResponse'', tsUpdateTournamentByIdApiTournamentsTournamentIdPutResponse),
     (''UpdateTournamentByIdApiTournamentsTournamentIdPutResponses'', tsUpdateTournamentByIdApiTournamentsTournamentIdPutResponses),
     (''UpdateUserDetailsApiUsersUserIdPutData'', tsUpdateUserDetailsApiUsersUserIdPutData),
     (''UpdateUserDetailsApiUsersUserIdPutError'', tsUpdateUserDetailsApiUsersUserIdPutError),
     (''UpdateUserDetailsApiUsersUserIdPutErrors'', tsUpdateUserDetailsApiUsersUserIdPutErrors),
     (''UpdateUserDetailsApiUsersUserIdPutResponse'', tsUpdateUserDetailsApiUsersUserIdPutResponse),
     (''UpdateUserDetailsApiUsersUserIdPutResponses'', tsUpdateUserDetailsApiUsersUserIdPutResponses),
     (''UploadLogoApiTournamentsTournamentIdLogoPostData'', tsUploadLogoApiTournamentsTournamentIdLogoPostData),
     (''UploadLogoApiTournamentsTournamentIdLogoPostError'', tsUploadLogoApiTournamentsTournamentIdLogoPostError),
     (''UploadLogoApiTournamentsTournamentIdLogoPostErrors'', tsUploadLogoApiTournamentsTournamentIdLogoPostErrors),
     (''UploadLogoApiTournamentsTournamentIdLogoPostResponse'', tsUploadLogoApiTournamentsTournamentIdLogoPostResponse),
     (''UploadLogoApiTournamentsTournamentIdLogoPostResponses'', tsUploadLogoApiTournamentsTournamentIdLogoPostResponses),
     (''UserAccountType'', tsUserAccountType),
     (''UserPasswordToUpdate'', tsUserPasswordToUpdate),
     (''UserPublic'', tsUserPublic),
     (''UserPublicResponse'', tsUserPublicResponse),
     (''UserToRegister'', tsUserToRegister),
     (''UserToUpdate'', tsUserToUpdate),
     (''ValidationError'', tsValidationError)]"

definition OPENAPI_TYPES :: "(string \<times> ts_type) list" where
  "OPENAPI_TYPES = OPENAPI_TYPES_1 @ OPENAPI_TYPES_2 @ OPENAPI_TYPES_3"

text \<open>The names of the types of a function: its own name with a capital, and what the type is for.\<close>

definition capital :: "string \<Rightarrow> string" where
  "capital s =
     (case s of
        [] \<Rightarrow> []
      | c # cs \<Rightarrow>
          nullish (map_of (zip ''abcdefghijklmnopqrstuvwxyz'' ''ABCDEFGHIJKLMNOPQRSTUVWXYZ'') c) c # cs)"

definition functionTypes :: "string \<Rightarrow> endpoint \<Rightarrow> (string \<times> ts_type) list" where
  "functionTypes f ep =
     (case map_of ENDPOINT_TYPES ep of
        None \<Rightarrow> []
      | Some (d, r, e) \<Rightarrow>
          [(capital f @ ''Data'', d)] @ (case e of None \<Rightarrow> [] | Some t \<Rightarrow> [(capital f @ ''Errors'', t)]) @
          [(capital f @ ''Responses'', r)])"

section \<open>Each function with its types\<close>

lemma endpoints_once: "distinct (map fst ENDPOINT_TYPES)"
  using endpoints_distinct unfolding endpoint_types_keys distinct_map by blast

lemma endpoint_entries:
  "map_of ENDPOINT_TYPES getAuthFeaturesApiAuthFeaturesGet =
     Some (tsGetAuthFeaturesApiAuthFeaturesGetData, tsGetAuthFeaturesApiAuthFeaturesGetResponses, None)"
  "map_of ENDPOINT_TYPES getClubsApiClubsGet =
     Some (tsGetClubsApiClubsGetData, tsGetClubsApiClubsGetResponses, None)"
  "map_of ENDPOINT_TYPES createNewClubApiClubsPost =
     Some (tsCreateNewClubApiClubsPostData, tsCreateNewClubApiClubsPostResponses, Some tsCreateNewClubApiClubsPostErrors)"
  "map_of ENDPOINT_TYPES deleteClubApiClubsClubIdDelete =
     Some (tsDeleteClubApiClubsClubIdDeleteData, tsDeleteClubApiClubsClubIdDeleteResponses, Some tsDeleteClubApiClubsClubIdDeleteErrors)"
  "map_of ENDPOINT_TYPES updateClubApiClubsClubIdPut =
     Some (tsUpdateClubApiClubsClubIdPutData, tsUpdateClubApiClubsClubIdPutResponses, Some tsUpdateClubApiClubsClubIdPutErrors)"
  "map_of ENDPOINT_TYPES logoutApiLogoutPost =
     Some (tsLogoutApiLogoutPostData, tsLogoutApiLogoutPostResponses, None)"
  "map_of ENDPOINT_TYPES pingApiPingGet =
     Some (tsPingApiPingGetData, tsPingApiPingGetResponses, None)"
  "map_of ENDPOINT_TYPES loginForAccessTokenApiTokenPost =
     Some (tsLoginForAccessTokenApiTokenPostData, tsLoginForAccessTokenApiTokenPostResponses, Some tsLoginForAccessTokenApiTokenPostErrors)"
  "map_of ENDPOINT_TYPES getTournamentsApiTournamentsGet =
     Some (tsGetTournamentsApiTournamentsGetData, tsGetTournamentsApiTournamentsGetResponses, Some tsGetTournamentsApiTournamentsGetErrors)"
  "map_of ENDPOINT_TYPES createTournamentApiTournamentsPost =
     Some (tsCreateTournamentApiTournamentsPostData, tsCreateTournamentApiTournamentsPostResponses, Some tsCreateTournamentApiTournamentsPostErrors)"
  "map_of ENDPOINT_TYPES deleteTournamentApiTournamentsTournamentIdDelete =
     Some (tsDeleteTournamentApiTournamentsTournamentIdDeleteData, tsDeleteTournamentApiTournamentsTournamentIdDeleteResponses, Some tsDeleteTournamentApiTournamentsTournamentIdDeleteErrors)"
  "map_of ENDPOINT_TYPES getTournamentApiTournamentsTournamentIdGet =
     Some (tsGetTournamentApiTournamentsTournamentIdGetData, tsGetTournamentApiTournamentsTournamentIdGetResponses, Some tsGetTournamentApiTournamentsTournamentIdGetErrors)"
  "map_of ENDPOINT_TYPES updateTournamentByIdApiTournamentsTournamentIdPut =
     Some (tsUpdateTournamentByIdApiTournamentsTournamentIdPutData, tsUpdateTournamentByIdApiTournamentsTournamentIdPutResponses, Some tsUpdateTournamentByIdApiTournamentsTournamentIdPutErrors)"
  "map_of ENDPOINT_TYPES getAvailableInputsApiTournamentsTournamentIdAvailableInputsGet =
     Some (tsGetAvailableInputsApiTournamentsTournamentIdAvailableInputsGetData, tsGetAvailableInputsApiTournamentsTournamentIdAvailableInputsGetResponses, Some tsGetAvailableInputsApiTournamentsTournamentIdAvailableInputsGetErrors)"
  "map_of ENDPOINT_TYPES changeStatusApiTournamentsTournamentIdChangeStatusPost =
     Some (tsChangeStatusApiTournamentsTournamentIdChangeStatusPostData, tsChangeStatusApiTournamentsTournamentIdChangeStatusPostResponses, Some tsChangeStatusApiTournamentsTournamentIdChangeStatusPostErrors)"
  "map_of ENDPOINT_TYPES getTournamentLogoApiTournamentsTournamentIdLogoGet =
     Some (tsGetTournamentLogoApiTournamentsTournamentIdLogoGetData, tsGetTournamentLogoApiTournamentsTournamentIdLogoGetResponses, Some tsGetTournamentLogoApiTournamentsTournamentIdLogoGetErrors)"
  "map_of ENDPOINT_TYPES uploadLogoApiTournamentsTournamentIdLogoPost =
     Some (tsUploadLogoApiTournamentsTournamentIdLogoPostData, tsUploadLogoApiTournamentsTournamentIdLogoPostResponses, Some tsUploadLogoApiTournamentsTournamentIdLogoPostErrors)"
  "map_of ENDPOINT_TYPES createMatchApiTournamentsTournamentIdMatchesPost =
     Some (tsCreateMatchApiTournamentsTournamentIdMatchesPostData, tsCreateMatchApiTournamentsTournamentIdMatchesPostResponses, Some tsCreateMatchApiTournamentsTournamentIdMatchesPostErrors)"
  "map_of ENDPOINT_TYPES deleteMatchApiTournamentsTournamentIdMatchesMatchIdDelete =
     Some (tsDeleteMatchApiTournamentsTournamentIdMatchesMatchIdDeleteData, tsDeleteMatchApiTournamentsTournamentIdMatchesMatchIdDeleteResponses, Some tsDeleteMatchApiTournamentsTournamentIdMatchesMatchIdDeleteErrors)"
  "map_of ENDPOINT_TYPES updateMatchByIdApiTournamentsTournamentIdMatchesMatchIdPut =
     Some (tsUpdateMatchByIdApiTournamentsTournamentIdMatchesMatchIdPutData, tsUpdateMatchByIdApiTournamentsTournamentIdMatchesMatchIdPutResponses, Some tsUpdateMatchByIdApiTournamentsTournamentIdMatchesMatchIdPutErrors)"
  "map_of ENDPOINT_TYPES getNextStageRankingsApiTournamentsTournamentIdNextStageRankingsGet =
     Some (tsGetNextStageRankingsApiTournamentsTournamentIdNextStageRankingsGetData, tsGetNextStageRankingsApiTournamentsTournamentIdNextStageRankingsGetResponses, Some tsGetNextStageRankingsApiTournamentsTournamentIdNextStageRankingsGetErrors)"
  "map_of ENDPOINT_TYPES getPlayersApiTournamentsTournamentIdPlayersGet =
     Some (tsGetPlayersApiTournamentsTournamentIdPlayersGetData, tsGetPlayersApiTournamentsTournamentIdPlayersGetResponses, Some tsGetPlayersApiTournamentsTournamentIdPlayersGetErrors)"
  "map_of ENDPOINT_TYPES createSinglePlayerApiTournamentsTournamentIdPlayersPost =
     Some (tsCreateSinglePlayerApiTournamentsTournamentIdPlayersPostData, tsCreateSinglePlayerApiTournamentsTournamentIdPlayersPostResponses, Some tsCreateSinglePlayerApiTournamentsTournamentIdPlayersPostErrors)"
  "map_of ENDPOINT_TYPES deletePlayerApiTournamentsTournamentIdPlayersPlayerIdDelete =
     Some (tsDeletePlayerApiTournamentsTournamentIdPlayersPlayerIdDeleteData, tsDeletePlayerApiTournamentsTournamentIdPlayersPlayerIdDeleteResponses, Some tsDeletePlayerApiTournamentsTournamentIdPlayersPlayerIdDeleteErrors)"
  "map_of ENDPOINT_TYPES updatePlayerByIdApiTournamentsTournamentIdPlayersPlayerIdPut =
     Some (tsUpdatePlayerByIdApiTournamentsTournamentIdPlayersPlayerIdPutData, tsUpdatePlayerByIdApiTournamentsTournamentIdPlayersPlayerIdPutResponses, Some tsUpdatePlayerByIdApiTournamentsTournamentIdPlayersPlayerIdPutErrors)"
  "map_of ENDPOINT_TYPES createMultiplePlayersApiTournamentsTournamentIdPlayersMultiPost =
     Some (tsCreateMultiplePlayersApiTournamentsTournamentIdPlayersMultiPostData, tsCreateMultiplePlayersApiTournamentsTournamentIdPlayersMultiPostResponses, Some tsCreateMultiplePlayersApiTournamentsTournamentIdPlayersMultiPostErrors)"
  "map_of ENDPOINT_TYPES getRankingsApiTournamentsTournamentIdRankingsGet =
     Some (tsGetRankingsApiTournamentsTournamentIdRankingsGetData, tsGetRankingsApiTournamentsTournamentIdRankingsGetResponses, Some tsGetRankingsApiTournamentsTournamentIdRankingsGetErrors)"
  "map_of ENDPOINT_TYPES createRankingApiTournamentsTournamentIdRankingsPost =
     Some (tsCreateRankingApiTournamentsTournamentIdRankingsPostData, tsCreateRankingApiTournamentsTournamentIdRankingsPostResponses, Some tsCreateRankingApiTournamentsTournamentIdRankingsPostErrors)"
  "map_of ENDPOINT_TYPES deleteRankingApiTournamentsTournamentIdRankingsRankingIdDelete =
     Some (tsDeleteRankingApiTournamentsTournamentIdRankingsRankingIdDeleteData, tsDeleteRankingApiTournamentsTournamentIdRankingsRankingIdDeleteResponses, Some tsDeleteRankingApiTournamentsTournamentIdRankingsRankingIdDeleteErrors)"
  "map_of ENDPOINT_TYPES updateRankingByIdApiTournamentsTournamentIdRankingsRankingIdPut =
     Some (tsUpdateRankingByIdApiTournamentsTournamentIdRankingsRankingIdPutData, tsUpdateRankingByIdApiTournamentsTournamentIdRankingsRankingIdPutResponses, Some tsUpdateRankingByIdApiTournamentsTournamentIdRankingsRankingIdPutErrors)"
  "map_of ENDPOINT_TYPES createRoundApiTournamentsTournamentIdRoundsPost =
     Some (tsCreateRoundApiTournamentsTournamentIdRoundsPostData, tsCreateRoundApiTournamentsTournamentIdRoundsPostResponses, Some tsCreateRoundApiTournamentsTournamentIdRoundsPostErrors)"
  "map_of ENDPOINT_TYPES deleteRoundApiTournamentsTournamentIdRoundsRoundIdDelete =
     Some (tsDeleteRoundApiTournamentsTournamentIdRoundsRoundIdDeleteData, tsDeleteRoundApiTournamentsTournamentIdRoundsRoundIdDeleteResponses, Some tsDeleteRoundApiTournamentsTournamentIdRoundsRoundIdDeleteErrors)"
  "map_of ENDPOINT_TYPES updateRoundByIdApiTournamentsTournamentIdRoundsRoundIdPut =
     Some (tsUpdateRoundByIdApiTournamentsTournamentIdRoundsRoundIdPutData, tsUpdateRoundByIdApiTournamentsTournamentIdRoundsRoundIdPutResponses, Some tsUpdateRoundByIdApiTournamentsTournamentIdRoundsRoundIdPutErrors)"
  "map_of ENDPOINT_TYPES scheduleMatchesApiTournamentsTournamentIdScheduleMatchesPost =
     Some (tsScheduleMatchesApiTournamentsTournamentIdScheduleMatchesPostData, tsScheduleMatchesApiTournamentsTournamentIdScheduleMatchesPostResponses, Some tsScheduleMatchesApiTournamentsTournamentIdScheduleMatchesPostErrors)"
  "map_of ENDPOINT_TYPES createStageItemApiTournamentsTournamentIdStageItemsPost =
     Some (tsCreateStageItemApiTournamentsTournamentIdStageItemsPostData, tsCreateStageItemApiTournamentsTournamentIdStageItemsPostResponses, Some tsCreateStageItemApiTournamentsTournamentIdStageItemsPostErrors)"
  "map_of ENDPOINT_TYPES deleteStageItemApiTournamentsTournamentIdStageItemsStageItemIdDelete =
     Some (tsDeleteStageItemApiTournamentsTournamentIdStageItemsStageItemIdDeleteData, tsDeleteStageItemApiTournamentsTournamentIdStageItemsStageItemIdDeleteResponses, Some tsDeleteStageItemApiTournamentsTournamentIdStageItemsStageItemIdDeleteErrors)"
  "map_of ENDPOINT_TYPES updateStageItemApiTournamentsTournamentIdStageItemsStageItemIdPut =
     Some (tsUpdateStageItemApiTournamentsTournamentIdStageItemsStageItemIdPutData, tsUpdateStageItemApiTournamentsTournamentIdStageItemsStageItemIdPutResponses, Some tsUpdateStageItemApiTournamentsTournamentIdStageItemsStageItemIdPutErrors)"
  "map_of ENDPOINT_TYPES updateStageItemInputApiTournamentsTournamentIdStageItemsStageItemIdInputsStageItemInputIdPut =
     Some (tsUpdateStageItemInputApiTournamentsTournamentIdStageItemsStageItemIdInputsStageItemInputIdPutData, tsUpdateStageItemInputApiTournamentsTournamentIdStageItemsStageItemIdInputsStageItemInputIdPutResponses, Some tsUpdateStageItemInputApiTournamentsTournamentIdStageItemsStageItemIdInputsStageItemInputIdPutErrors)"
  "map_of ENDPOINT_TYPES getStagesApiTournamentsTournamentIdStagesGet =
     Some (tsGetStagesApiTournamentsTournamentIdStagesGetData, tsGetStagesApiTournamentsTournamentIdStagesGetResponses, Some tsGetStagesApiTournamentsTournamentIdStagesGetErrors)"
  "map_of ENDPOINT_TYPES createStageApiTournamentsTournamentIdStagesPost =
     Some (tsCreateStageApiTournamentsTournamentIdStagesPostData, tsCreateStageApiTournamentsTournamentIdStagesPostResponses, Some tsCreateStageApiTournamentsTournamentIdStagesPostErrors)"
  "map_of ENDPOINT_TYPES activateNextStageApiTournamentsTournamentIdStagesActivatePost =
     Some (tsActivateNextStageApiTournamentsTournamentIdStagesActivatePostData, tsActivateNextStageApiTournamentsTournamentIdStagesActivatePostResponses, Some tsActivateNextStageApiTournamentsTournamentIdStagesActivatePostErrors)"
  "map_of ENDPOINT_TYPES deleteStageApiTournamentsTournamentIdStagesStageIdDelete =
     Some (tsDeleteStageApiTournamentsTournamentIdStagesStageIdDeleteData, tsDeleteStageApiTournamentsTournamentIdStagesStageIdDeleteResponses, Some tsDeleteStageApiTournamentsTournamentIdStagesStageIdDeleteErrors)"
  "map_of ENDPOINT_TYPES updateStageApiTournamentsTournamentIdStagesStageIdPut =
     Some (tsUpdateStageApiTournamentsTournamentIdStagesStageIdPutData, tsUpdateStageApiTournamentsTournamentIdStagesStageIdPutResponses, Some tsUpdateStageApiTournamentsTournamentIdStagesStageIdPutErrors)"
  "map_of ENDPOINT_TYPES getStandingsApiTournamentsTournamentIdStandingsGet =
     Some (tsGetStandingsApiTournamentsTournamentIdStandingsGetData, tsGetStandingsApiTournamentsTournamentIdStandingsGetResponses, Some tsGetStandingsApiTournamentsTournamentIdStandingsGetErrors)"
  "map_of ENDPOINT_TYPES getTeamsApiTournamentsTournamentIdTeamsGet =
     Some (tsGetTeamsApiTournamentsTournamentIdTeamsGetData, tsGetTeamsApiTournamentsTournamentIdTeamsGetResponses, Some tsGetTeamsApiTournamentsTournamentIdTeamsGetErrors)"
  "map_of ENDPOINT_TYPES createTeamApiTournamentsTournamentIdTeamsPost =
     Some (tsCreateTeamApiTournamentsTournamentIdTeamsPostData, tsCreateTeamApiTournamentsTournamentIdTeamsPostResponses, Some tsCreateTeamApiTournamentsTournamentIdTeamsPostErrors)"
  "map_of ENDPOINT_TYPES deleteTeamApiTournamentsTournamentIdTeamsTeamIdDelete =
     Some (tsDeleteTeamApiTournamentsTournamentIdTeamsTeamIdDeleteData, tsDeleteTeamApiTournamentsTournamentIdTeamsTeamIdDeleteResponses, Some tsDeleteTeamApiTournamentsTournamentIdTeamsTeamIdDeleteErrors)"
  "map_of ENDPOINT_TYPES updateTeamByIdApiTournamentsTournamentIdTeamsTeamIdPut =
     Some (tsUpdateTeamByIdApiTournamentsTournamentIdTeamsTeamIdPutData, tsUpdateTeamByIdApiTournamentsTournamentIdTeamsTeamIdPutResponses, Some tsUpdateTeamByIdApiTournamentsTournamentIdTeamsTeamIdPutErrors)"
  "map_of ENDPOINT_TYPES getTeamLogoApiTournamentsTournamentIdTeamsTeamIdLogoGet =
     Some (tsGetTeamLogoApiTournamentsTournamentIdTeamsTeamIdLogoGetData, tsGetTeamLogoApiTournamentsTournamentIdTeamsTeamIdLogoGetResponses, Some tsGetTeamLogoApiTournamentsTournamentIdTeamsTeamIdLogoGetErrors)"
  "map_of ENDPOINT_TYPES updateTeamLogoApiTournamentsTournamentIdTeamsTeamIdLogoPost =
     Some (tsUpdateTeamLogoApiTournamentsTournamentIdTeamsTeamIdLogoPostData, tsUpdateTeamLogoApiTournamentsTournamentIdTeamsTeamIdLogoPostResponses, Some tsUpdateTeamLogoApiTournamentsTournamentIdTeamsTeamIdLogoPostErrors)"
  "map_of ENDPOINT_TYPES createMultipleTeamsApiTournamentsTournamentIdTeamsMultiPost =
     Some (tsCreateMultipleTeamsApiTournamentsTournamentIdTeamsMultiPostData, tsCreateMultipleTeamsApiTournamentsTournamentIdTeamsMultiPostResponses, Some tsCreateMultipleTeamsApiTournamentsTournamentIdTeamsMultiPostErrors)"
  "map_of ENDPOINT_TYPES getUserApiUsersMeGet =
     Some (tsGetUserApiUsersMeGetData, tsGetUserApiUsersMeGetResponses, None)"
  "map_of ENDPOINT_TYPES registerUserApiUsersRegisterPost =
     Some (tsRegisterUserApiUsersRegisterPostData, tsRegisterUserApiUsersRegisterPostResponses, Some tsRegisterUserApiUsersRegisterPostErrors)"
  "map_of ENDPOINT_TYPES getMeApiUsersUserIdGet =
     Some (tsGetMeApiUsersUserIdGetData, tsGetMeApiUsersUserIdGetResponses, Some tsGetMeApiUsersUserIdGetErrors)"
  "map_of ENDPOINT_TYPES updateUserDetailsApiUsersUserIdPut =
     Some (tsUpdateUserDetailsApiUsersUserIdPutData, tsUpdateUserDetailsApiUsersUserIdPutResponses, Some tsUpdateUserDetailsApiUsersUserIdPutErrors)"
  "map_of ENDPOINT_TYPES putUserPasswordApiUsersUserIdPasswordPut =
     Some (tsPutUserPasswordApiUsersUserIdPasswordPutData, tsPutUserPasswordApiUsersUserIdPasswordPutResponses, Some tsPutUserPasswordApiUsersUserIdPasswordPutErrors)"
  by (rule map_of_is_SomeI[OF endpoints_once], simp add: ENDPOINT_TYPES_def)+

lemma capitals:
  "capital ''getAuthFeaturesApiAuthFeaturesGet'' = ''GetAuthFeaturesApiAuthFeaturesGet''"
  "capital ''getClubsApiClubsGet'' = ''GetClubsApiClubsGet''"
  "capital ''createNewClubApiClubsPost'' = ''CreateNewClubApiClubsPost''"
  "capital ''deleteClubApiClubsClubIdDelete'' = ''DeleteClubApiClubsClubIdDelete''"
  "capital ''updateClubApiClubsClubIdPut'' = ''UpdateClubApiClubsClubIdPut''"
  "capital ''logoutApiLogoutPost'' = ''LogoutApiLogoutPost''"
  "capital ''pingApiPingGet'' = ''PingApiPingGet''"
  "capital ''loginForAccessTokenApiTokenPost'' = ''LoginForAccessTokenApiTokenPost''"
  "capital ''getTournamentsApiTournamentsGet'' = ''GetTournamentsApiTournamentsGet''"
  "capital ''createTournamentApiTournamentsPost'' = ''CreateTournamentApiTournamentsPost''"
  "capital ''deleteTournamentApiTournamentsTournamentIdDelete'' = ''DeleteTournamentApiTournamentsTournamentIdDelete''"
  "capital ''getTournamentApiTournamentsTournamentIdGet'' = ''GetTournamentApiTournamentsTournamentIdGet''"
  "capital ''updateTournamentByIdApiTournamentsTournamentIdPut'' = ''UpdateTournamentByIdApiTournamentsTournamentIdPut''"
  "capital ''getAvailableInputsApiTournamentsTournamentIdAvailableInputsGet'' = ''GetAvailableInputsApiTournamentsTournamentIdAvailableInputsGet''"
  "capital ''changeStatusApiTournamentsTournamentIdChangeStatusPost'' = ''ChangeStatusApiTournamentsTournamentIdChangeStatusPost''"
  "capital ''getTournamentLogoApiTournamentsTournamentIdLogoGet'' = ''GetTournamentLogoApiTournamentsTournamentIdLogoGet''"
  "capital ''uploadLogoApiTournamentsTournamentIdLogoPost'' = ''UploadLogoApiTournamentsTournamentIdLogoPost''"
  "capital ''createMatchApiTournamentsTournamentIdMatchesPost'' = ''CreateMatchApiTournamentsTournamentIdMatchesPost''"
  "capital ''deleteMatchApiTournamentsTournamentIdMatchesMatchIdDelete'' = ''DeleteMatchApiTournamentsTournamentIdMatchesMatchIdDelete''"
  "capital ''updateMatchByIdApiTournamentsTournamentIdMatchesMatchIdPut'' = ''UpdateMatchByIdApiTournamentsTournamentIdMatchesMatchIdPut''"
  "capital ''getNextStageRankingsApiTournamentsTournamentIdNextStageRankingsGet'' = ''GetNextStageRankingsApiTournamentsTournamentIdNextStageRankingsGet''"
  "capital ''getPlayersApiTournamentsTournamentIdPlayersGet'' = ''GetPlayersApiTournamentsTournamentIdPlayersGet''"
  "capital ''createSinglePlayerApiTournamentsTournamentIdPlayersPost'' = ''CreateSinglePlayerApiTournamentsTournamentIdPlayersPost''"
  "capital ''deletePlayerApiTournamentsTournamentIdPlayersPlayerIdDelete'' = ''DeletePlayerApiTournamentsTournamentIdPlayersPlayerIdDelete''"
  "capital ''updatePlayerByIdApiTournamentsTournamentIdPlayersPlayerIdPut'' = ''UpdatePlayerByIdApiTournamentsTournamentIdPlayersPlayerIdPut''"
  "capital ''createMultiplePlayersApiTournamentsTournamentIdPlayersMultiPost'' = ''CreateMultiplePlayersApiTournamentsTournamentIdPlayersMultiPost''"
  "capital ''getRankingsApiTournamentsTournamentIdRankingsGet'' = ''GetRankingsApiTournamentsTournamentIdRankingsGet''"
  "capital ''createRankingApiTournamentsTournamentIdRankingsPost'' = ''CreateRankingApiTournamentsTournamentIdRankingsPost''"
  "capital ''deleteRankingApiTournamentsTournamentIdRankingsRankingIdDelete'' = ''DeleteRankingApiTournamentsTournamentIdRankingsRankingIdDelete''"
  "capital ''updateRankingByIdApiTournamentsTournamentIdRankingsRankingIdPut'' = ''UpdateRankingByIdApiTournamentsTournamentIdRankingsRankingIdPut''"
  "capital ''createRoundApiTournamentsTournamentIdRoundsPost'' = ''CreateRoundApiTournamentsTournamentIdRoundsPost''"
  "capital ''deleteRoundApiTournamentsTournamentIdRoundsRoundIdDelete'' = ''DeleteRoundApiTournamentsTournamentIdRoundsRoundIdDelete''"
  "capital ''updateRoundByIdApiTournamentsTournamentIdRoundsRoundIdPut'' = ''UpdateRoundByIdApiTournamentsTournamentIdRoundsRoundIdPut''"
  "capital ''scheduleMatchesApiTournamentsTournamentIdScheduleMatchesPost'' = ''ScheduleMatchesApiTournamentsTournamentIdScheduleMatchesPost''"
  "capital ''createStageItemApiTournamentsTournamentIdStageItemsPost'' = ''CreateStageItemApiTournamentsTournamentIdStageItemsPost''"
  "capital ''deleteStageItemApiTournamentsTournamentIdStageItemsStageItemIdDelete'' = ''DeleteStageItemApiTournamentsTournamentIdStageItemsStageItemIdDelete''"
  "capital ''updateStageItemApiTournamentsTournamentIdStageItemsStageItemIdPut'' = ''UpdateStageItemApiTournamentsTournamentIdStageItemsStageItemIdPut''"
  "capital ''updateStageItemInputApiTournamentsTournamentIdStageItemsStageItemIdInputsStageItemInputIdPut'' = ''UpdateStageItemInputApiTournamentsTournamentIdStageItemsStageItemIdInputsStageItemInputIdPut''"
  "capital ''getStagesApiTournamentsTournamentIdStagesGet'' = ''GetStagesApiTournamentsTournamentIdStagesGet''"
  "capital ''createStageApiTournamentsTournamentIdStagesPost'' = ''CreateStageApiTournamentsTournamentIdStagesPost''"
  "capital ''activateNextStageApiTournamentsTournamentIdStagesActivatePost'' = ''ActivateNextStageApiTournamentsTournamentIdStagesActivatePost''"
  "capital ''deleteStageApiTournamentsTournamentIdStagesStageIdDelete'' = ''DeleteStageApiTournamentsTournamentIdStagesStageIdDelete''"
  "capital ''updateStageApiTournamentsTournamentIdStagesStageIdPut'' = ''UpdateStageApiTournamentsTournamentIdStagesStageIdPut''"
  "capital ''getStandingsApiTournamentsTournamentIdStandingsGet'' = ''GetStandingsApiTournamentsTournamentIdStandingsGet''"
  "capital ''getTeamsApiTournamentsTournamentIdTeamsGet'' = ''GetTeamsApiTournamentsTournamentIdTeamsGet''"
  "capital ''createTeamApiTournamentsTournamentIdTeamsPost'' = ''CreateTeamApiTournamentsTournamentIdTeamsPost''"
  "capital ''deleteTeamApiTournamentsTournamentIdTeamsTeamIdDelete'' = ''DeleteTeamApiTournamentsTournamentIdTeamsTeamIdDelete''"
  "capital ''updateTeamByIdApiTournamentsTournamentIdTeamsTeamIdPut'' = ''UpdateTeamByIdApiTournamentsTournamentIdTeamsTeamIdPut''"
  "capital ''getTeamLogoApiTournamentsTournamentIdTeamsTeamIdLogoGet'' = ''GetTeamLogoApiTournamentsTournamentIdTeamsTeamIdLogoGet''"
  "capital ''updateTeamLogoApiTournamentsTournamentIdTeamsTeamIdLogoPost'' = ''UpdateTeamLogoApiTournamentsTournamentIdTeamsTeamIdLogoPost''"
  "capital ''createMultipleTeamsApiTournamentsTournamentIdTeamsMultiPost'' = ''CreateMultipleTeamsApiTournamentsTournamentIdTeamsMultiPost''"
  "capital ''getUserApiUsersMeGet'' = ''GetUserApiUsersMeGet''"
  "capital ''registerUserApiUsersRegisterPost'' = ''RegisterUserApiUsersRegisterPost''"
  "capital ''getMeApiUsersUserIdGet'' = ''GetMeApiUsersUserIdGet''"
  "capital ''updateUserDetailsApiUsersUserIdPut'' = ''UpdateUserDetailsApiUsersUserIdPut''"
  "capital ''putUserPasswordApiUsersUserIdPasswordPut'' = ''PutUserPasswordApiUsersUserIdPasswordPut''"
  by (simp_all add: capital_def)

lemma function_types: "list_all (\<lambda>(f, ep). list_all (\<lambda>t. t \<in> set OPENAPI_TYPES) (functionTypes f ep)) OPENAPI_FUNCTIONS"
proof -
  define exported where "exported = set OPENAPI_TYPES"
  then have "set OPENAPI_TYPES \<subseteq> exported" by (rule equalityD2)
  note rows = this[unfolded OPENAPI_TYPES_def OPENAPI_TYPES_1_def OPENAPI_TYPES_2_def OPENAPI_TYPES_3_def
      set_append Un_subset_iff list.set insert_subset]
  show ?thesis unfolding exported_def[symmetric]
    by (simp add: OPENAPI_FUNCTIONS_def functionTypes_def endpoint_entries capitals rows)
qed

lemma function_names: "distinct (map fst OPENAPI_FUNCTIONS)"
  unfolding OPENAPI_FUNCTIONS_def list.map fst_conv by code_simp

lemma function_endpoints: "mset (map snd OPENAPI_FUNCTIONS) = mset ENDPOINTS"
  by (simp add: OPENAPI_FUNCTIONS_def ENDPOINTS_def)

text \<open>The module exports every function of the API once, each under a name of its own, and with each function its
  types: what it is called with, what it answers, and the errors it answers with, if there are any.\<close>

lemma index_exports_api:
  "distinct (map fst OPENAPI_FUNCTIONS) \<and> mset (map snd OPENAPI_FUNCTIONS) = mset ENDPOINTS \<and>
   list_all (\<lambda>(f, ep). case map_of ENDPOINT_TYPES ep of
       None \<Rightarrow> False
     | Some (d, r, e) \<Rightarrow> (capital f @ ''Data'', d) \<in> set OPENAPI_TYPES \<and>
         (capital f @ ''Responses'', r) \<in> set OPENAPI_TYPES \<and>
         (case e of None \<Rightarrow> True | Some t \<Rightarrow> (capital f @ ''Errors'', t) \<in> set OPENAPI_TYPES)) OPENAPI_FUNCTIONS"
  (is "?names \<and> ?functions \<and> list_all ?typed _")
proof (intro conjI)
  have "?typed (f, ep)" if m: "(f, ep) \<in> set OPENAPI_FUNCTIONS" for f ep
  proof -
    have "ep \<in> set (map fst ENDPOINT_TYPES)"
      using m arg_cong[OF function_endpoints, of set_mset] by (force simp: endpoint_types_keys)
    then obtain d r e where "map_of ENDPOINT_TYPES ep = Some (d, r, e)"
      by (metis map_of_eq_None_iff not_Some_eq prod_cases3 set_map)
    moreover have "set (functionTypes f ep) \<subseteq> set OPENAPI_TYPES"
      using function_types m by (force simp: list_all_iff)
    ultimately show ?thesis by (cases e) (auto simp: functionTypes_def)
  qed
  then show "list_all ?typed OPENAPI_FUNCTIONS" by (auto simp: list_all_iff)
qed (rule function_names function_endpoints)+

end
