(* ===== verification/Spec2Isabelle.thy ===== *)
theory Spec2Isabelle
  imports ClientParams StreamClient BackendAccess EntryPoint BracketCanvas EditorRequests ApiRequests FormErrors OpenApiIndex
begin

text \<open>
  The web frontend of Ctrl-Alt-GG Bracket, a tournament system: the TypeScript under \<open>src/frontend\<close>. This root
  theory imports the whole development and holds the properties that span its parts.

  \<^bold>\<open>The program.\<close> The frontend is a single-page application. A generated API client (\<open>frontend/src/openapi\<close>) has one
  function for each endpoint of the backend, with the types and schemas of what it exchanges. The application
  (\<open>frontend/src/app\<close>) loads a tournament as one bundle, shows it on public Details pages and on the organizers'
  pages, and changes it through forms and buttons. Who is signed in is kept in the browser; query results are
  kept in a cache that is refreshed after each change.

  \<^bold>\<open>Theories and sources.\<close>

  \<^item> Foundations. \<open>Prelude\<close>: stable sorting by a comparator (locales \<open>js_comparator\<close>, \<open>js_key_comparator\<close>), codecs
    (locale \<open>codec\<close>), maps and groups. \<open>JsCore\<close>, \<open>JsValue\<close>: strings, numbers and dynamic values of JavaScript.
    \<open>JsDate\<close>, \<open>JsDateText\<close>: \<open>new Date(text)\<close> and \<open>toISOString\<close>.
  \<^item> The data. \<open>ApiTypes\<close>: the types of \<open>types.gen.ts\<close> as records, which the pages work on. \<open>TsTypes\<close>,
    \<open>EndpointTypes\<close>: all types of that file as terms, with the values they have, including those of requests and
    answers. \<open>OpenApiIndex\<close>: the names under which \<open>index.ts\<close> exports functions and types. \<open>Zod\<close>: the schemas of the validation library and the interface \<open>zod_library\<close>. \<open>Schemas\<close>: every schema of
    \<open>zod.gen.ts\<close>.
  \<^item> The client. \<open>PathSerializer\<close> (\<open>core/pathSerializer.gen.ts\<close>, \<open>core/utils.gen.ts\<close>), \<open>ClientCore\<close> (\<open>core/auth.gen.ts\<close>,
    \<open>bodySerializer.gen.ts\<close>, \<open>queryKeySerializer.gen.ts\<close>), \<open>ClientParams\<close> (\<open>core/params.gen.ts\<close>), \<open>HttpClient\<close>
    (\<open>client/client.gen.ts\<close>, \<open>client/utils.gen.ts\<close>), \<open>Sdk\<close> (\<open>sdk.gen.ts\<close>), \<open>Queries\<close>
    (\<open>@tanstack/react-query.gen.ts\<close>), \<open>Sse\<close> (\<open>core/serverSentEvents.gen.ts\<close>) and \<open>StreamClient\<close> (the event streams of
    \<open>client.gen.ts\<close>).
  \<^item> The application. \<open>AppTypes\<close> (\<open>types.ts\<close>), \<open>AppUtils\<close> (\<open>utils.ts\<close>), \<open>ApiBundle\<close> and \<open>ApiRequests\<close> (\<open>api.ts\<close>),
    \<open>BackendAccess\<close> (who may see a tournament, from the backend's \<open>auth.py\<close> and the routes that load one),
    \<open>SessionFlow\<close> (\<open>query-client.ts\<close>, and the session in \<open>api.ts\<close>, \<open>app.tsx\<close>, \<open>auth-pages.tsx\<close>), \<open>BrowserStorage\<close>
    (\<open>hooks.ts\<close>), \<open>UiMarkup\<close> (\<open>ui.tsx\<close> and the frames of the pages, as trees of elements), \<open>EntryPoint\<close> (\<open>main.tsx\<close>,
    \<open>client.gen.ts\<close>, the methods of the client, and the router of \<open>app.tsx\<close>).
  \<^item> The pages. \<open>BracketAdapter\<close> (\<open>bracket-adapter.ts\<close>), \<open>MatchViews\<close> (\<open>match-card.tsx\<close>, \<open>team-link.tsx\<close>,
    \<open>tournament-schedule.tsx\<close>), \<open>TournamentViews\<close> (overview, teams, standings and bracket sections),
    \<open>TournamentPage\<close> (\<open>tournament-page.tsx\<close> and the routes of \<open>app.tsx\<close>), \<open>HomePage\<close> (\<open>home-page.tsx\<close>, the layout in
    \<open>app.tsx\<close> and \<open>ui.tsx\<close>), \<open>BracketCanvas\<close> (\<open>bracket-viewer-canvas.tsx\<close>), \<open>StageRounds\<close> (\<open>stage-item-rounds.tsx\<close>),
    \<open>DraftActivity\<close> (a draft round while its mutations are under way), \<open>StageSlots\<close> (\<open>stage-item-slots.tsx\<close>),
    \<open>EditorRequests\<close> (the requests of both as they are sent).
  \<^item> The forms. \<open>Forms\<close> (\<open>forms.ts\<close> and what all forms share), \<open>ManagementForms\<close> (\<open>tournament-management.tsx\<close>),
    \<open>RosterForms\<close> (\<open>tournament-roster.tsx\<close>), \<open>AccountForms\<close> (\<open>auth-pages.tsx\<close>, \<open>user-page.tsx\<close>, \<open>clubs-page.tsx\<close>,
    \<open>new-tournament-form.tsx\<close>), \<open>ScoreEntry\<close> (the scores of a match in \<open>stage-item-rounds.tsx\<close>), \<open>OrganizerForms\<close> (all forms and their bodies), \<open>FormErrors\<close> (forms in use).
  \<^item> \<open>Samples\<close>: a small tournament on which the hypotheses of the properties are shown to hold.

  \<^bold>\<open>How code becomes definitions.\<close> An object type is a record, an enum or tagged union a datatype, with the names of
  the source. A component is a function from its props to a record of what it shows: texts, links, choices,
  and the requests of its handlers. State is passed explicitly: the stored session with the cache, the queries in
  flight and the toasts (\<open>AppState\<close> and its relation \<open>app_step\<close>), the pairing form (\<open>pairing_step\<close>), a draft round
  and its mutations (\<open>draft_step\<close>), a drawn bracket (\<open>canvas_step\<close>), a form in use (\<open>form_run\<close>), the event stream
  (\<open>SseState\<close>). A thrown error is a value of a sum type, and a loop that may run forever (the reading and
  the retries of the event stream, over bodies that need not end) is a partial function whose result \<open>None\<close> means
  that it does; there is no fuel in the development.

  \<^bold>\<open>What is a parameter.\<close> The backend (\<open>api_server\<close>; its access rules are in \<open>BackendAccess\<close>), axios, date-fns, match-sorter, \<open>localeCompare\<close>, \<open>Intl.NumberFormat\<close>,
  Zod (\<open>zod_library\<close>, whose laws determine it completely), the clock and the time zone, \<open>confirm\<close>, the network and
  \<open>JSON.parse\<close> of the event stream, what brackets-viewer draws, and which address React Router takes for a link
  (\<open>nav_link_rule\<close>, \<open>part_rule\<close>). TanStack Query and React Hook Form are followed as documented where the source
  depends on them: keys, cached results, queries in flight and invalidation, and the values, the resolver and the reset of a form.

  \<^bold>\<open>What the lemmas show.\<close> Access rights and what visitors may see (\<open>ApiBundle\<close>, \<open>BackendAccess\<close>,
  \<open>TournamentPage\<close>, \<open>SessionFlow\<close>);
  that addresses, links and tabs lead where they say (\<open>TournamentPage\<close>, \<open>UiMarkup\<close>, \<open>EntryPoint\<close>, \<open>BracketCanvas\<close>);
  that the actions on a draft exclude each other (\<open>DraftActivity\<close>);
  completeness and order of what the pages list (\<open>MatchViews\<close>, \<open>TournamentViews\<close>, \<open>HomePage\<close>, \<open>BracketAdapter\<close>,
  \<open>StageRounds\<close>); round trips of codes, addresses, queries and dates (\<open>StageSlots\<close>, \<open>PathSerializer\<close>, \<open>HttpClient\<close>,
  \<open>JsDateText\<close>); addresses, headers and errors of every request (\<open>Sdk\<close>, \<open>Queries\<close>, \<open>ApiRequests\<close>); that what a form
  sends passes the schema and has the type of its endpoint and that a rejected form says why (\<open>OrganizerForms\<close>,
  \<open>FormErrors\<close>, this theory); that schemas, types and endpoints of the generated code agree (\<open>Schemas\<close>,
  \<open>EndpointTypes\<close>, \<open>OpenApiIndex\<close>); that the event stream does not depend on the chunks of the network,
  and comes to an end when its retries are limited and its connections end (\<open>Sse\<close>).

  \<^bold>\<open>Bounds.\<close> Integers of the API are \<open>int\<close>; where a number comes from text or leaves the range of exact doubles it is a
  \<open>js_num\<close> with NaN and infinities, without rounding. A string is the list of its UTF-8 bytes; the code inspects
  ASCII characters only, and \<open>js_length\<close> counts the UTF-16 units of a text. White space beyond ASCII is not trimmed.

  \<^bold>\<open>Not modelled.\<close> The generic type declarations of the client (\<open>client/types.gen.ts\<close>, \<open>core/types.gen.ts\<close>), the
  re-exports of \<open>client/index.ts\<close>, imports and the loading of modules on demand, which do not change what a call
  does. CSS classes and fixed explanatory paragraphs. The compilation switch of Zod (\<open>zod-config.ts\<close>) and the build
  files. Browser validation of inputs (\<open>required\<close>, \<open>min\<close>) and the disabling of buttons while a request is pending,
  apart from the places where a theory says so. The drawing by brackets-viewer. The backend, another program in
  Python, apart from its access rules for tournaments and its check of Details links; failures of the network
  or of the backend itself are left out there.
\<close>

section \<open>What is sent has the type of its endpoint\<close>

text \<open>The request type of the endpoint of each form.\<close>

fun request_data :: "AppForm \<Rightarrow> ts_type" where
  "request_data (FNewRanking _) = tsCreateRankingApiTournamentsTournamentIdRankingsPostData"
| "request_data (FRanking _ _) = tsUpdateRankingByIdApiTournamentsTournamentIdRankingsRankingIdPutData"
| "request_data (FSettings _) = tsUpdateTournamentByIdApiTournamentsTournamentIdPutData"
| "request_data (FStage _ _) = tsUpdateStageApiTournamentsTournamentIdStagesStageIdPutData"
| "request_data (FNewStageItem _ _ _) = tsCreateStageItemApiTournamentsTournamentIdStageItemsPostData"
| "request_data (FStageItemName _ _) = tsUpdateStageItemApiTournamentsTournamentIdStageItemsStageItemIdPutData"
| "request_data (FNewPlayer _) = tsCreateSinglePlayerApiTournamentsTournamentIdPlayersPostData"
| "request_data (FBulkPlayers _) = tsCreateMultiplePlayersApiTournamentsTournamentIdPlayersMultiPostData"
| "request_data (FPlayer _ _) = tsUpdatePlayerByIdApiTournamentsTournamentIdPlayersPlayerIdPutData"
| "request_data (FNewTeam _ _) = tsCreateTeamApiTournamentsTournamentIdTeamsPostData"
| "request_data (FBulkTeams _) = tsCreateMultipleTeamsApiTournamentsTournamentIdTeamsMultiPostData"
| "request_data (FTeam _ _ _) = tsUpdateTeamByIdApiTournamentsTournamentIdTeamsTeamIdPutData"
| "request_data (FNewTournament _) = tsCreateTournamentApiTournamentsPostData"
| "request_data FNewClub = tsCreateNewClubApiClubsPostData"
| "request_data (FClub _) = tsUpdateClubApiClubsClubIdPutData"
| "request_data FLogin = tsLoginForAccessTokenApiTokenPostData"
| "request_data FRegister = tsRegisterUserApiUsersRegisterPostData"
| "request_data (FIdentity _) = tsUpdateUserDetailsApiUsersUserIdPutData"
| "request_data (FPassword _) = tsPutUserPasswordApiUsersUserIdPasswordPutData"
| "request_data (FScore _ _) = tsUpdateMatchByIdApiTournamentsTournamentIdMatchesMatchIdPutData"

lemma request_type_member: "(ep, d) \<in> (\<lambda>(ep, d, r). (ep, d)) ` set ENDPOINT_TYPES \<Longrightarrow> request_type ep = Some d"
  using map_of_is_SomeI[OF endpoints_once] by (auto simp: request_type_def)

lemma form_request_type: "request_type (fo_endpoint (form_of fe a)) = Some (request_data a)"
  by (rule request_type_member, cases a) (simp_all add: form_defs mutation_defs ENDPOINT_TYPES_def)

lemma form_schema_type: "(body_schema a, ts_at (request_data a) ''body'') \<in> set SCHEMA_TYPES"
  by (cases a) (simp_all only: body_schema.simps request_data.simps SCHEMA_TYPES_def list.set insert_iff simp_thms)

lemma form_no_upload: "body_schema a \<noteq> upload_schema"
  by (cases a) (simp_all add: upload_schema_def schema_defs)

text \<open>The options of a request with the address, as a value.\<close>

definition request_value :: "request \<Rightarrow> js_value" where
  "request_value r =
     (case r of (ep, opts) \<Rightarrow>
        JObj (List.map_filter (\<lambda>(k, v). case v of OVal x \<Rightarrow> Some (k, x) | _ \<Rightarrow> None) opts @
          [(''url'', JStr (ep_url ep))]))"

lemma request_value_form: "request_value (ep, mutation_vars (Some b) p) =
    JObj ((''body'', b) # (if p = [] then [] else [(''path'', JObj p)]) @ [(''url'', JStr (ep_url ep))])"
  by (simp add: request_value_def mutation_vars_def List.map_filter_simps)

text \<open>The body of a form's request type, and the rest of it.\<close>

lemma form_body_objects: "\<exists>ps. ts_at (request_data a) ''body'' = TObject ps"
  by (cases a) (simp_all add: ts_endpoint_defs ts_data_defs ts_at_def)

lemmas path_defs = tournament_path_def ranking_path_def stage_path_def stage_item_path_def player_path_def
  team_path_def club_path_def user_path_def match_path_def

lemma form_path_type:
  assumes "has_type (ts_at (request_data a) ''body'') b"
  shows "has_type (request_data a) (request_value (fo_endpoint (form_of fe a), mutation_vars (Some b) (fo_path (form_of fe a))))"
  using assms unfolding request_value_form
  by (cases a) (simp_all add: ts_endpoint_defs ts_at_def form_defs mutation_defs endpoint_defs obj_get_def
    path_defs num_of_int_def)

lemma object_type_entries:
  "map_of es = map_of bes \<Longrightarrow> has_type (TObject ps) (JObj es) \<Longrightarrow> has_type (TObject ps) (JObj bes)"
  unfolding has_object obj_get_def by simp

text \<open>Everything an organizer's page sends with a form, a button, a slot's menu or a file.\<close>

inductive page_request :: "(schema \<Rightarrow> js_value \<Rightarrow> parsed) \<Rightarrow> 'd FormEnv \<Rightarrow> request \<Rightarrow> bool" for safeParse fe where
  submitted: "ordinary_start (fe_env fe) vals \<Longrightarrow> utf8_name vals \<Longrightarrow> stored_ok a \<Longrightarrow>
     handleSubmit safeParse (form_of fe a) vals = Sent r \<Longrightarrow> page_request safeParse fe r"
| club_deleted: "deleteClubClick confirm club = Some r \<Longrightarrow> page_request safeParse fe r"
| ranking_deleted: "deleteRankingClick confirm tid ranking = Some r \<Longrightarrow> page_request safeParse fe r"
| tournament_deleted: "deleteTournamentClick confirm tournament = Some r \<Longrightarrow> page_request safeParse fe r"
| stage_deleted: "deleteStageClick confirm tournament stage = Some r \<Longrightarrow> page_request safeParse fe r"
| stage_item_deleted: "deleteStageItemClick confirm tid item = Some r \<Longrightarrow> page_request safeParse fe r"
| player_deleted: "deletePlayerClick confirm tid player = Some r \<Longrightarrow> page_request safeParse fe r"
| team_deleted: "deleteTeamClick confirm tid team = Some r \<Longrightarrow> page_request safeParse fe r"
| stage_created: "r = createStageClick tid \<Longrightarrow> page_request safeParse fe r"
| status_changed: "r = fst (changeStatusClick tournament) \<Longrightarrow> page_request safeParse fe r"
| stage_activated: "r = fst (activateStageClick direction tid) \<Longrightarrow> page_request safeParse fe r"
| tournament_logo: "uploadTournamentLogo tournament files = Some r \<Longrightarrow> page_request safeParse fe r"
| team_logo: "uploadTeamLogo tid team files = Some r \<Longrightarrow> page_request safeParse fe r"
| round_called: "r = round_request call \<Longrightarrow> page_request safeParse fe r"
| round_regenerated: "r \<in> set (regenerate_requests ctx rnd sid) \<Longrightarrow> page_request safeParse fe r"
| slot_assigned: "r = assignSlot tid sid iid choice \<Longrightarrow> page_request safeParse fe r"

definition well_typed :: "request \<Rightarrow> bool" where
  "well_typed r = (case request_type (fst r) of None \<Rightarrow> False | Some d \<Rightarrow> has_type d (request_value r))"

lemma request_value_plain: "request_value (ep, mutation_vars None p) =
    JObj ((if p = [] then [] else [(''path'', JObj p)]) @ [(''url'', JStr (ep_url ep))])"
  by (simp add: request_value_def mutation_vars_def List.map_filter_simps)

lemma form_request_typed:
  assumes "zod_library safeParse email datetime" "iso_datetimes datetime"
    and "ordinary_start (fe_env fe) vals" "utf8_name vals" "stored_ok a"
    and "handleSubmit safeParse (form_of fe a) vals = Sent r"
  shows "well_typed r"
proof -
  obtain ep opts where r: "r = (ep, opts)" by (cases r)
  obtain es bes where sent: "ep = fo_endpoint (form_of fe a)"
      "opts = mutation_vars (Some (JObj bes)) (fo_path (form_of fe a))"
    and p: "safeParse (body_schema a) (JObj bes) = Parsed (JObj es)" "map_of es = map_of bes"
    using sent_body_taken[OF assms(1-5) assms(6)[unfolded r]] by (auto simp: taken_whole_def)
  have "has_type (ts_at (request_data a) ''body'') (JObj es)"
    by (rule schema_gives_type[OF assms(1) form_schema_type form_no_upload p(1)])
  then have "has_type (ts_at (request_data a) ''body'') (JObj bes)"
    using form_body_objects[of a] object_type_entries[OF p(2)] by metis
  from form_path_type[OF this, of fe] show ?thesis
    using form_request_type[of fe a] by (simp add: r sent well_typed_def)
qed

lemmas button_defs = deleteClubClick_def deleteRankingClick_def deleteTournamentClick_def deleteStageClick_def
  deleteStageItemClick_def deletePlayerClick_def deleteTeamClick_def createStageClick_def uploadTournamentLogo_def
  uploadTeamLogo_def changeStatusClick_def activateStageClick_def Let_def

lemma button_types:
  "request_type deleteClubApiClubsClubIdDelete =
     Some tsDeleteClubApiClubsClubIdDeleteData"
  "request_type deleteRankingApiTournamentsTournamentIdRankingsRankingIdDelete =
     Some tsDeleteRankingApiTournamentsTournamentIdRankingsRankingIdDeleteData"
  "request_type deleteTournamentApiTournamentsTournamentIdDelete =
     Some tsDeleteTournamentApiTournamentsTournamentIdDeleteData"
  "request_type deleteStageApiTournamentsTournamentIdStagesStageIdDelete =
     Some tsDeleteStageApiTournamentsTournamentIdStagesStageIdDeleteData"
  "request_type deleteStageItemApiTournamentsTournamentIdStageItemsStageItemIdDelete =
     Some tsDeleteStageItemApiTournamentsTournamentIdStageItemsStageItemIdDeleteData"
  "request_type deletePlayerApiTournamentsTournamentIdPlayersPlayerIdDelete =
     Some tsDeletePlayerApiTournamentsTournamentIdPlayersPlayerIdDeleteData"
  "request_type deleteTeamApiTournamentsTournamentIdTeamsTeamIdDelete =
     Some tsDeleteTeamApiTournamentsTournamentIdTeamsTeamIdDeleteData"
  "request_type createStageApiTournamentsTournamentIdStagesPost =
     Some tsCreateStageApiTournamentsTournamentIdStagesPostData"
  "request_type uploadLogoApiTournamentsTournamentIdLogoPost =
     Some tsUploadLogoApiTournamentsTournamentIdLogoPostData"
  "request_type updateTeamLogoApiTournamentsTournamentIdTeamsTeamIdLogoPost =
     Some tsUpdateTeamLogoApiTournamentsTournamentIdTeamsTeamIdLogoPostData"
  "request_type changeStatusApiTournamentsTournamentIdChangeStatusPost =
     Some tsChangeStatusApiTournamentsTournamentIdChangeStatusPostData"
  "request_type activateNextStageApiTournamentsTournamentIdStagesActivatePost =
     Some tsActivateNextStageApiTournamentsTournamentIdStagesActivatePostData"
  "request_type createRoundApiTournamentsTournamentIdRoundsPost =
     Some tsCreateRoundApiTournamentsTournamentIdRoundsPostData"
  "request_type deleteRoundApiTournamentsTournamentIdRoundsRoundIdDelete =
     Some tsDeleteRoundApiTournamentsTournamentIdRoundsRoundIdDeleteData"
  "request_type updateRoundByIdApiTournamentsTournamentIdRoundsRoundIdPut =
     Some tsUpdateRoundByIdApiTournamentsTournamentIdRoundsRoundIdPutData"
  "request_type createMatchApiTournamentsTournamentIdMatchesPost =
     Some tsCreateMatchApiTournamentsTournamentIdMatchesPostData"
  "request_type deleteMatchApiTournamentsTournamentIdMatchesMatchIdDelete =
     Some tsDeleteMatchApiTournamentsTournamentIdMatchesMatchIdDeleteData"
  "request_type updateMatchByIdApiTournamentsTournamentIdMatchesMatchIdPut =
     Some tsUpdateMatchByIdApiTournamentsTournamentIdMatchesMatchIdPutData"
  "request_type updateStageItemInputApiTournamentsTournamentIdStageItemsStageItemIdInputsStageItemInputIdPut =
     Some tsUpdateStageItemInputApiTournamentsTournamentIdStageItemsStageItemIdInputsStageItemInputIdPutData"
  by (rule request_type_member, simp add: ENDPOINT_TYPES_def)+

lemmas value_defs = request_value_plain request_value_form path_defs ts_endpoint_defs ts_data_defs endpoint_defs
  obj_get_def num_of_int_def

lemma round_call_typed: "well_typed (round_request call)"
  by (cases call) (simp_all add: well_typed_def mutation_defs button_types,
    auto simp: value_defs editor_request_defs boolean_literal split: option.splits)

lemma regenerate_typed: "r \<in> set (regenerate_requests ctx rnd sid) \<Longrightarrow> well_typed r"
  by (auto simp: regenerate_requests_def generateRound_def well_typed_def mutation_defs button_types,
    simp_all add: request_value_def mutation_vars_def List.map_filter_simps value_defs editor_request_defs)

lemma slot_request_typed: "well_typed (assignSlot tid sid iid choice)"
  by (cases "slotBody choice"; simp add: assignSlot_def well_typed_def mutation_defs button_types; simp add: value_defs)

text \<open>C32: Whatever an organizer's page sends, with a form, a button, the menu of a slot or a file, is a request of
  the type that \<open>types.gen.ts\<close> declares for its endpoint: the address, a number for every part of the path, and a body of the declared
  type.\<close>

theorem sent_requests_typed:
  assumes "zod_library safeParse email datetime" "iso_datetimes datetime" "page_request safeParse fe r"
  shows "well_typed r"
  using assms(3)
proof cases
  case (submitted vals a)
  then show ?thesis by (rule form_request_typed[OF assms(1,2)])
next
  case (round_called call)
  then show ?thesis by (simp add: round_call_typed)
next
  case (round_regenerated ctx rnd sid)
  then show ?thesis by (rule regenerate_typed)
next
  case (slot_assigned tid sid iid choice)
  then show ?thesis by (simp add: slot_request_typed)
qed (auto simp: button_defs mutation_defs well_typed_def button_types confirmed_def upload_def
    split: if_splits list.splits, simp_all add: value_defs split: StageDirection.splits)

theorem sent_requests_typed_witness:
  "has_type tsCreateNewClubApiClubsPostData
     (JObj [(''body'', JObj [(''name'', JStr ''Chess'')]), (''url'', JStr ''/api/clubs'')])"
proof -
  have l: "js_length ''Chess'' = 5" by code_simp
  have "handleSubmit sampleParse (form_of sampleFormEnv FNewClub) [(''name'', JStr ''Chess'')] =
      Sent (createNewClubApiClubsPost, mutation_vars (Some (JObj [(''name'', JStr ''Chess'')])) [])"
    by (simp add: handleSubmit_def NewClubForm_def mutation_defs zClubCreateBody_def object_result_def parts_result_def
        part_issues_def parsed_entries_def part_value_def text_ok_def opt_all_def obj_get_def check_def l)
  moreover have "ordinary_start (fe_env sampleFormEnv) [(''name'', JStr ''Chess'')]"
    by (simp add: ordinary_start_def obj_get_def)
  moreover have "utf8_name [(''name'', JStr ''Chess'')]" by code_simp
  ultimately have "page_request sampleParse sampleFormEnv
      (createNewClubApiClubsPost, mutation_vars (Some (JObj [(''name'', JStr ''Chess'')])) [])"
    using page_request.submitted[where fe = sampleFormEnv and vals = "[(''name'', JStr ''Chess'')]"
          and safeParse = sampleParse and a = FNewClub] by simp
  then have "well_typed (createNewClubApiClubsPost, mutation_vars (Some (JObj [(''name'', JStr ''Chess'')])) [])"
    using sent_requests_typed[OF sample_library] by (simp add: iso_datetimes_def)
  moreover have "request_type createNewClubApiClubsPost = Some tsCreateNewClubApiClubsPostData"
    using form_request_type[of sampleFormEnv FNewClub] by (simp add: NewClubForm_def mutation_defs)
  ultimately show ?thesis by (simp add: well_typed_def request_value_form endpoint_defs)
qed

end
